(* ===== verification/Prelude.thy ===== *)
theory Prelude
  imports Complex_Main "HOL-Library.AList"
begin

text \<open>
  Shared vocabulary of the development: the model's names for clocks, Python strings and
  Python dictionaries, the generic facts about them, and the fact collections the component
  theories extend.

  \<^item> Wall-clock instants (\<open>datetime.now(UTC)\<close>) are integers counting microseconds since the
    epoch, the resolution of a Python \<open>datetime\<close>. Readings of \<open>time.monotonic()\<close> and
    \<open>time.time()\<close> are rationals; floating-point rounding is not modelled.
  \<^item> A Python \<open>str\<close> is a \<open>string\<close>, one \<open>char\<close> per code point. The model tells apart the code
    points up to 255; where a decoder meets one above, the substitute character U+001A stands
    for it.
  \<^item> A Python \<open>dict\<close> is an association list with distinct keys in insertion order:
    \<open>map_of\<close> reads it, \<open>AList.update\<close> writes it (an existing key keeps its place, a new one
    goes last), \<open>AList.delete\<close> removes a key.
\<close>

named_theorems sweep_simps \<open>what a sweep leaves in a dictionary\<close>
named_theorems store_simps \<open>unfolding rules of the in-memory stores\<close>
named_theorems sql_simps \<open>unfolding rules of the SQL statements\<close>
named_theorems scope_simps \<open>facts about scope strings\<close>

type_synonym time = rat
type_synonym datetime = int
type_synonym 'v dict = "(string \<times> 'v) list"

definition usecs :: "int \<Rightarrow> int" where
  \<comment> \<open>\<open>timedelta(seconds=n)\<close> in microseconds\<close>
  "usecs n = n * 1000000"

definition timestamp_int :: "datetime \<Rightarrow> int" where
  \<comment> \<open>\<open>int(dt.timestamp())\<close>: truncation towards zero\<close>
  "timestamp_int d = (if 0 \<le> d then d div 1000000 else - ((- d) div 1000000))"


section \<open>Python truth values and string methods\<close>

text \<open>An optional string is falsy when it is \<open>None\<close> or empty.\<close>

definition truthy :: "string option \<Rightarrow> bool" where
  "truthy v \<longleftrightarrow> v \<noteq> None \<and> v \<noteq> Some []"

lemma truthy_simps [simp]:
  "truthy None = False" "truthy (Some s) = (s \<noteq> [])"
  by (auto simp: truthy_def)

lemma truthyE:
  assumes "truthy v"
  obtains s where "v = Some s" and "s \<noteq> []"
  using assms by (auto simp: truthy_def)

definition or_str :: "string option \<Rightarrow> string \<Rightarrow> string" where
  \<comment> \<open>\<open>v or d\<close> for an optional string and a string default\<close>
  "or_str v d = (case v of Some s \<Rightarrow> if s = [] then d else s | None \<Rightarrow> d)"

definition py_isspace :: "char \<Rightarrow> bool" where
  "py_isspace c \<longleftrightarrow>
     (let n = (of_char c :: nat)
      in 9 \<le> n \<and> n \<le> 13 \<or> 28 \<le> n \<and> n \<le> 32 \<or> n = 133 \<or> n = 160)"

definition py_lstrip :: "string \<Rightarrow> string" where
  "py_lstrip s = dropWhile py_isspace s"

definition py_rstrip :: "string \<Rightarrow> string" where
  "py_rstrip s = rev (dropWhile py_isspace (rev s))"

definition py_strip :: "string \<Rightarrow> string" where
  "py_strip s = py_rstrip (py_lstrip s)"

definition rstrip_char :: "char \<Rightarrow> string \<Rightarrow> string" where
  \<comment> \<open>\<open>s.rstrip(c)\<close> for a one-character argument\<close>
  "rstrip_char c s = rev (dropWhile (\<lambda>x. x = c) (rev s))"

fun py_split_aux :: "string \<Rightarrow> string \<Rightarrow> string list" where
  "py_split_aux acc [] = (if acc = [] then [] else [rev acc])"
| "py_split_aux acc (c # cs) =
     (if py_isspace c then (if acc = [] then py_split_aux [] cs else rev acc # py_split_aux [] cs)
      else py_split_aux (c # acc) cs)"

definition py_split :: "string \<Rightarrow> string list" where
  \<comment> \<open>\<open>s.split()\<close>: maximal runs of non-space characters\<close>
  "py_split s = py_split_aux [] s"

definition lower_char :: "char \<Rightarrow> char" where
  "lower_char c =
     (let n = (of_char c :: nat)
      in if 65 \<le> n \<and> n \<le> 90 \<or> 192 \<le> n \<and> n \<le> 222 \<and> n \<noteq> 215 then char_of (n + 32) else c)"

definition py_lower :: "string \<Rightarrow> string" where
  "py_lower s = map lower_char s"

definition starts_with :: "string \<Rightarrow> string \<Rightarrow> bool" where
  \<comment> \<open>\<open>s.startswith(p)\<close>, arguments in the order prefix, string\<close>
  "starts_with p s \<longleftrightarrow> take (length p) s = p"

definition ends_with :: "string \<Rightarrow> string \<Rightarrow> bool" where
  "ends_with p s \<longleftrightarrow> starts_with (rev p) (rev s)"

lemma starts_with_append [simp]: "starts_with p (p @ s)"
  by (simp add: starts_with_def)

lemma starts_with_iff: "starts_with p s \<longleftrightarrow> (\<exists>t. s = p @ t)"
  by (metis append_take_drop_id starts_with_append starts_with_def)

lemma py_split_aux_tokens:
  "list_all (\<lambda>c. \<not> py_isspace c) acc \<Longrightarrow> w \<in> set (py_split_aux acc s) \<Longrightarrow>
   w \<noteq> [] \<and> list_all (\<lambda>c. \<not> py_isspace c) w"
proof (induction acc s rule: py_split_aux.induct)
  case (1 acc)
  then show ?case by (auto split: if_splits)
next
  case (2 acc c cs)
  then show ?case by (cases "py_isspace c"; cases "acc = []") auto
qed

lemma py_split_tokens:
  "w \<in> set (py_split s) \<Longrightarrow> w \<noteq> [] \<and> list_all (\<lambda>c. \<not> py_isspace c) w"
  unfolding py_split_def by (rule py_split_aux_tokens) auto

lemma py_split_Nil [simp]: "py_split [] = []"
  by (simp add: py_split_def)


section \<open>Dictionaries and the sweep-on-every-call pattern\<close>

text \<open>
  The in-memory stores share one idiom: collect the keys whose entry has expired, then
  delete them one by one, before doing anything else.
\<close>

definition keys_distinct :: "'v dict \<Rightarrow> bool" where
  "keys_distinct d \<longleftrightarrow> distinct (map fst d)"

definition sweep :: "('v \<Rightarrow> bool) \<Rightarrow> 'v dict \<Rightarrow> 'v dict" where
  "sweep expired d = fold AList.delete (map fst (filter (\<lambda>e. expired (snd e)) d)) d"

lemma keys_distinct_Nil [simp]: "keys_distinct []"
  by (simp add: keys_distinct_def)

lemma keys_distinct_update [simp]: "keys_distinct d \<Longrightarrow> keys_distinct (AList.update k v d)"
  by (simp add: keys_distinct_def distinct_update)

lemma keys_distinct_delete [simp]: "keys_distinct d \<Longrightarrow> keys_distinct (AList.delete k d)"
  by (simp add: keys_distinct_def distinct_delete)

lemma keys_distinct_fold_delete:
  "keys_distinct d \<Longrightarrow> keys_distinct (fold AList.delete ks d)"
  by (induction ks arbitrary: d) auto

lemma keys_distinct_sweep [simp]: "keys_distinct d \<Longrightarrow> keys_distinct (sweep P d)"
  unfolding sweep_def by (rule keys_distinct_fold_delete)

lemma map_of_fold_delete:
  "map_of (fold AList.delete ks d) k = (if k \<in> set ks then None else map_of d k)"
  by (induction ks arbitrary: d) (auto simp: delete_conv')

lemma map_of_update [simp]: "map_of (AList.update k v d) k' = (if k' = k then Some v else map_of d k')"
  by (simp add: update_conv')

lemma map_of_delete [simp]: "map_of (AList.delete k d) k' = (if k' = k then None else map_of d k')"
  by (simp add: delete_conv')

lemma map_of_sweep [sweep_simps]:
  assumes "keys_distinct d"
  shows "map_of (sweep P d) k =
    (case map_of d k of None \<Rightarrow> None | Some v \<Rightarrow> if P v then None else Some v)"
proof -
  have "k \<in> set (map fst (filter (\<lambda>e. P (snd e)) d)) \<longleftrightarrow> (\<exists>v. map_of d k = Some v \<and> P v)"
    using assms by (force simp: keys_distinct_def dest: map_of_SomeD)
  then show ?thesis
    by (auto simp: sweep_def map_of_fold_delete split: option.splits)
qed

lemma fold_delete_filter: "fold AList.delete ks d = filter (\<lambda>e. fst e \<notin> set ks) d"
  by (induction ks arbitrary: d) (auto simp: AList.delete_eq intro!: filter_cong)

lemma sweep_filter:
  assumes "keys_distinct d"
  shows "sweep P d = filter (\<lambda>e. \<not> P (snd e)) d"
proof -
  have "fst e \<in> set (map fst (filter (\<lambda>e. P (snd e)) d)) \<longleftrightarrow> P (snd e)" if "e \<in> set d" for e
  proof
    assume "fst e \<in> set (map fst (filter (\<lambda>e. P (snd e)) d))"
    then obtain e' where e': "e' \<in> set d" "P (snd e')" "fst e' = fst e" by auto
    with assms that have "snd e' = snd e"
      unfolding keys_distinct_def by (metis eq_key_imp_eq_value prod.collapse)
    with e' show "P (snd e)" by simp
  qed (use that in auto)
  then show ?thesis
    unfolding sweep_def fold_delete_filter by (auto intro!: filter_cong)
qed

lemma sweep_idem: "keys_distinct d \<Longrightarrow> sweep P (sweep P d) = sweep P d"
  by (simp add: sweep_filter keys_distinct_def distinct_map_filter)

lemma map_of_sweep_update:
  "keys_distinct d \<Longrightarrow> map_of (sweep P (AList.update k v d)) k' =
     (if k' = k then (if P v then None else Some v) else map_of (sweep P d) k')"
  by (simp add: map_of_sweep)

lemma map_of_sweep_delete:
  "keys_distinct d \<Longrightarrow> map_of (sweep P (AList.delete k d)) k' =
     (if k' = k then None else map_of (sweep P d) k')"
  by (simp add: map_of_sweep)

lemma length_sweep: "keys_distinct d \<Longrightarrow> length (sweep P d) \<le> length d"
  by (simp add: sweep_filter)

lemma length_update_le: "length (AList.update k v d) \<le> Suc (length d)"
  by (induction d) auto

text \<open>Clock readings of successive calls never go back.\<close>

fun nondecreasing :: "time \<Rightarrow> time list \<Rightarrow> bool" where
  "nondecreasing t [] = True"
| "nondecreasing t (u # us) = (t \<le> u \<and> nondecreasing u us)"

text \<open>
  What every such store promises: expiry is permanent. An entry that has expired stays
  expired, so sweeping later subsumes sweeping earlier and a swept entry never returns.
\<close>

locale swept_store =
  fixes expired :: "time \<Rightarrow> 'v \<Rightarrow> bool"
  assumes expired_mono: "t \<le> t' \<Longrightarrow> expired t v \<Longrightarrow> expired t' v"
begin

lemma sweep_sweep:
  assumes "t \<le> t'" and "keys_distinct d"
  shows "sweep (expired t') (sweep (expired t) d) = sweep (expired t') d"
proof -
  have "keys_distinct (sweep (expired t) d)" using assms by simp
  then have "sweep (expired t') (sweep (expired t) d) =
    filter (\<lambda>e. \<not> expired t' (snd e)) (sweep (expired t) d)"
    by (rule sweep_filter)
  then show ?thesis
    using assms expired_mono by (auto simp: sweep_filter intro!: filter_cong)
qed

lemma swept_lookup_live:
  assumes "keys_distinct d" and "map_of (sweep (expired t) d) k = Some v"
  shows "map_of d k = Some v" and "\<not> expired t v"
  using assms by (auto simp: sweep_simps split: option.splits if_splits)

lemma swept_lookup_keep:
  assumes "keys_distinct d" and "map_of d k = Some v" and "\<not> expired t v"
  shows "map_of (sweep (expired t) d) k = Some v"
  using assms by (simp add: sweep_simps)

end

end
