(* ===== verification/Par_Store.thy ===== *)
theory Par_Store
  imports Prelude
begin

text \<open>
  The pushed-authorization-request store of \<^verbatim>\<open>services/par.py\<close> (RFC 9126): an in-memory
  dictionary from request URIs to pushed parameters, entries dropped 60 seconds after they
  were stored and removed by the first lookup. The clock reading and the fresh UUID of an
  operation are arguments.
\<close>

definition PAR_TTL_SECS :: int where
  "PAR_TTL_SECS = 60"

record par_entry =
  par_client_id :: string
  par_params :: "string dict"
  par_created_at :: time

type_synonym par_store = "par_entry dict"

definition par_expired :: "time \<Rightarrow> par_entry \<Rightarrow> bool" where
  "par_expired now e \<longleftrightarrow> now - par_created_at e \<ge> of_int PAR_TTL_SECS"

definition par_sweep_expired :: "time \<Rightarrow> par_store \<Rightarrow> par_store" where
  "par_sweep_expired now s = sweep (par_expired now) s"

definition par_request_uri :: "string \<Rightarrow> string" where
  "par_request_uri uuid = ''urn:ietf:params:oauth:request-uri:'' @ uuid"

definition par_store_op ::
  "time \<Rightarrow> string \<Rightarrow> string \<Rightarrow> string dict \<Rightarrow> par_store \<Rightarrow> par_store \<times> string" where
  "par_store_op now uuid client_id params s =
     (let s1 = par_sweep_expired now s;
          request_uri = par_request_uri uuid
      in (AList.update request_uri
            \<lparr>par_client_id = client_id, par_params = params, par_created_at = now\<rparr> s1,
          request_uri))"

definition par_take :: "time \<Rightarrow> string \<Rightarrow> par_store \<Rightarrow> par_store \<times> par_entry option" where
  "par_take now request_uri s =
     (let s1 = par_sweep_expired now s in (AList.delete request_uri s1, map_of s1 request_uri))"

interpretation par: swept_store par_expired
  by unfold_locales (auto simp: par_expired_def)

lemma par_request_uri_inj [simp]: "par_request_uri u = par_request_uri v \<longleftrightarrow> u = v"
  by (simp add: par_request_uri_def)

lemma par_sweep_distinct [simp]: "keys_distinct s \<Longrightarrow> keys_distinct (par_sweep_expired now s)"
  by (simp add: par_sweep_expired_def)


section \<open>Runs of the store against a specification that never sweeps\<close>

text \<open>
  A run is the sequence of calls the routes make. The specification keeps every pushed
  entry and decides expiry when an entry is taken; the code deletes expired entries on
  every call. The two give the same answers whenever the clock does not go back.
\<close>

datatype par_op =
    ParStore time string string "string dict"
  | ParTake time string

datatype par_out = Stored string | Taken "par_entry option"

fun par_time :: "par_op \<Rightarrow> time" where
  "par_time (ParStore t _ _ _) = t"
| "par_time (ParTake t _) = t"

fun par_step :: "par_store \<Rightarrow> par_op \<Rightarrow> par_store \<times> par_out" where
  "par_step s (ParStore t uuid cid ps) =
     (let (s', uri) = par_store_op t uuid cid ps s in (s', Stored uri))"
| "par_step s (ParTake t uri) = (let (s', e) = par_take t uri s in (s', Taken e))"

fun par_run :: "par_store \<Rightarrow> par_op list \<Rightarrow> par_out list" where
  "par_run s [] = []"
| "par_run s (p # ps) = (let (s', out) = par_step s p in out # par_run s' ps)"

fun par_spec_step :: "(string \<rightharpoonup> par_entry) \<Rightarrow> par_op \<Rightarrow> (string \<rightharpoonup> par_entry) \<times> par_out" where
  "par_spec_step m (ParStore t uuid cid ps) =
     (m(par_request_uri uuid \<mapsto> \<lparr>par_client_id = cid, par_params = ps, par_created_at = t\<rparr>),
      Stored (par_request_uri uuid))"
| "par_spec_step m (ParTake t uri) =
     (m(uri := None),
      Taken (case m uri of
          None \<Rightarrow> None
        | Some e \<Rightarrow> if t - par_created_at e < 60 then Some e else None))"

fun par_spec_run :: "(string \<rightharpoonup> par_entry) \<Rightarrow> par_op list \<Rightarrow> par_out list" where
  "par_spec_run m [] = []"
| "par_spec_run m (p # ps) = (let (m', out) = par_spec_step m p in out # par_spec_run m' ps)"

text \<open>The simulation: the two stores agree on what is still live at time \<open>t\<close>.\<close>

definition par_rel :: "time \<Rightarrow> par_store \<Rightarrow> (string \<rightharpoonup> par_entry) \<Rightarrow> bool" where
  "par_rel t s m \<longleftrightarrow> keys_distinct s \<and>
     (\<forall>k e. \<not> par_expired t e \<longrightarrow> (map_of s k = Some e) = (m k = Some e))"

lemma par_rel_mono: "par_rel t s m \<Longrightarrow> t \<le> t' \<Longrightarrow> par_rel t' s m"
  using par.expired_mono unfolding par_rel_def by blast

lemma map_of_par_sweep:
  assumes "par_rel t s m"
  shows "map_of (par_sweep_expired t s) k =
    (case m k of None \<Rightarrow> None | Some e \<Rightarrow> if par_expired t e then None else Some e)"
proof (cases "map_of (par_sweep_expired t s) k")
  case None
  then have "map_of s k \<noteq> Some e" if "\<not> par_expired t e" for e
    using assms that par.swept_lookup_keep unfolding par_rel_def par_sweep_expired_def
    by (metis option.distinct(1))
  with assms have "m k \<noteq> Some e" if "\<not> par_expired t e" for e
    using that unfolding par_rel_def by blast
  with None show ?thesis by (auto split: option.splits)
next
  case (Some e)
  then have "map_of s k = Some e" and "\<not> par_expired t e"
    using assms par.swept_lookup_live unfolding par_rel_def par_sweep_expired_def by blast+
  with assms have "m k = Some e" unfolding par_rel_def by blast
  with Some \<open>\<not> par_expired t e\<close> show ?thesis by simp
qed

lemma par_step_simulates:
  assumes "par_rel t s m" and "t \<le> par_time p"
  shows "snd (par_step s p) = snd (par_spec_step m p) \<and>
    par_rel (par_time p) (fst (par_step s p)) (fst (par_spec_step m p))"
proof -
  let ?t = "par_time p"
  from assms have rel: "par_rel ?t s m" by (rule par_rel_mono)
  then have dist: "keys_distinct s" by (simp add: par_rel_def)
  note look = map_of_par_sweep [OF rel]
  show ?thesis
  proof (cases p)
    case (ParStore t1 uuid cid ps)
    with look dist show ?thesis
      by (auto simp: par_store_op_def par_rel_def Let_def split: option.splits if_splits)
  next
    case (ParTake t1 uri)
    with look dist show ?thesis
      by (auto simp: par_take_def par_rel_def Let_def par_expired_def PAR_TTL_SECS_def
          split: option.splits if_splits)
  qed
qed

lemma par_run_simulates:
  "par_rel t s m \<Longrightarrow> nondecreasing t (map par_time ps) \<Longrightarrow> par_run s ps = par_spec_run m ps"
proof (induction ps arbitrary: t s m)
  case Nil
  then show ?case by simp
next
  case (Cons p ps)
  then have sim: "snd (par_step s p) = snd (par_spec_step m p)"
    "par_rel (par_time p) (fst (par_step s p)) (fst (par_spec_step m p))"
    using par_step_simulates by auto
  with Cons show ?case by (auto simp: case_prod_unfold Let_def)
qed

lemma par_rel_empty: "par_rel t [] Map.empty"
  by (simp add: par_rel_def)

text \<open>How often a run pushes a request URI, and how often it hands one out.\<close>

fun par_pushes :: "string \<Rightarrow> par_op list \<Rightarrow> nat" where
  "par_pushes uri [] = 0"
| "par_pushes uri (ParStore t uuid cid ps # ops) =
     (if par_request_uri uuid = uri then 1 else 0) + par_pushes uri ops"
| "par_pushes uri (ParTake t u # ops) = par_pushes uri ops"

fun par_hits :: "string \<Rightarrow> par_op list \<Rightarrow> par_out list \<Rightarrow> nat" where
  "par_hits uri (ParTake t u # ops) (Taken (Some e) # outs) =
     (if u = uri then 1 else 0) + par_hits uri ops outs"
| "par_hits uri (p # ops) (out # outs) = par_hits uri ops outs"
| "par_hits uri _ _ = 0"

lemma par_spec_hits:
  "par_hits uri ps (par_spec_run m ps) \<le> par_pushes uri ps + (if m uri = None then 0 else 1)"
proof (induction ps arbitrary: m)
  case Nil
  then show ?case by simp
next
  case (Cons p ps)
  show ?case
  proof (cases p)
    case (ParStore t uuid cid qs)
    let ?m = "m(par_request_uri uuid \<mapsto>
      \<lparr>par_client_id = cid, par_params = qs, par_created_at = t\<rparr>)"
    have "(if ?m uri = None then 0 else (1 :: nat))
      \<le> (if par_request_uri uuid = uri then 1 else 0) + (if m uri = None then 0 else 1)"
      by simp
    with Cons.IH [of ?m] show ?thesis
      unfolding ParStore par_spec_run.simps par_spec_step.simps Let_def split_beta fst_conv snd_conv
        par_hits.simps par_pushes.simps
      by linarith
  next
    case (ParTake t u)
    with Cons.IH [of "m(u := None)"] show ?thesis
      by (cases "m u") (auto simp: fun_upd_def split: if_splits)
  qed
qed


section \<open>Properties\<close>

text \<open>
  C20. The swept store implements the specification: on every run with a non-decreasing
  clock, from the empty store, \<open>ParStore.store\<close> and \<open>ParStore.take\<close> return exactly what the
  specification returns, namely the entry pushed less than 60 seconds ago and not taken
  since, and nothing otherwise.
\<close>

theorem par_store_refines_spec:
  assumes "nondecreasing t (map par_time ops)"
  shows "par_run [] ops = par_spec_run Map.empty ops"
  using par_rel_empty assms by (rule par_run_simulates)

theorem par_store_refines_spec_witness:
  "par_run [] [ParStore 0 ''a'' ''c'' [], ParTake 59 (par_request_uri ''a''), ParTake 59 (par_request_uri ''a'')]
   = par_spec_run Map.empty
       [ParStore 0 ''a'' ''c'' [], ParTake 59 (par_request_uri ''a''), ParTake 59 (par_request_uri ''a'')]
   \<and> par_spec_run Map.empty
       [ParStore 0 ''a'' ''c'' [], ParTake 59 (par_request_uri ''a''), ParTake 59 (par_request_uri ''a'')]
     = [Stored (par_request_uri ''a''),
        Taken (Some \<lparr>par_client_id = ''c'', par_params = [], par_created_at = 0\<rparr>), Taken None]"
  by (rule conjI, rule par_store_refines_spec [where t = 0]) simp_all

text \<open>
  Single use: in every run with a non-decreasing clock, a request URI is handed out by
  \<open>ParStore.take\<close> at most as often as it was pushed, so once for a fresh UUID.
\<close>

theorem par_take_single_use:
  assumes "nondecreasing t (map par_time ops)"
  shows "par_hits uri ops (par_run [] ops) \<le> par_pushes uri ops"
  using par_spec_hits [of uri ops Map.empty] par_run_simulates [OF par_rel_empty assms] by simp

theorem par_take_single_use_witness:
  "par_hits (par_request_uri ''a'')
     [ParStore 0 ''a'' ''c'' [], ParTake 1 (par_request_uri ''a''), ParTake 2 (par_request_uri ''a'')]
     (par_run [] [ParStore 0 ''a'' ''c'' [], ParTake 1 (par_request_uri ''a''),
        ParTake 2 (par_request_uri ''a'')]) \<le> 1"
  using par_take_single_use [where t = 0 and uri = "par_request_uri ''a''"
      and ops = "[ParStore 0 ''a'' ''c'' [], ParTake 1 (par_request_uri ''a''),
        ParTake 2 (par_request_uri ''a'')]"]
  by simp

end
