(* ===== verification/Replay_Guards.thy ===== *)
theory Replay_Guards
  imports Prelude
begin

text \<open>
  The two replay guards: \<open>DpopReplayStore\<close> of \<^verbatim>\<open>services/dpop.py\<close> (one DPoP proof \<open>jti\<close>, a fixed
  660 second memory) and \<open>JtiReplayGuard\<close> of \<^verbatim>\<open>services/client_assertion.py\<close> (a pair of client
  and \<open>jti\<close>, the assertion's own remaining lifetime clamped to 300 seconds, a hard capacity).
  Both promise the same thing to the validators that call them, stated once as the locale
  \<open>replay_guard\<close>.
\<close>

section \<open>What a replay guard promises\<close>

text \<open>
  \<open>observe\<close> records an observation at a clock reading and says whether it was accepted;
  \<open>live s k t\<close> means the guard in state \<open>s\<close> still remembers the key \<open>k\<close> at time \<open>t\<close>.
\<close>

locale replay_guard =
  fixes observe :: "time \<Rightarrow> 'o \<Rightarrow> 's \<Rightarrow> 's \<times> bool"
    and key :: "'o \<Rightarrow> string"
    and ttl :: "'o \<Rightarrow> time"
    and live :: "'s \<Rightarrow> string \<Rightarrow> time \<Rightarrow> bool"
    and invar :: "'s \<Rightarrow> bool"
  assumes invar_observe: "invar s \<Longrightarrow> invar (fst (observe t x s))"
    and accept_not_live: "invar s \<Longrightarrow> snd (observe t x s) \<Longrightarrow> \<not> live s (key x) t"
    and accept_records: "invar s \<Longrightarrow> snd (observe t x s) \<Longrightarrow> t' < t + ttl x \<Longrightarrow>
      live (fst (observe t x s)) (key x) t'"
    and keeps_live: "invar s \<Longrightarrow> live s k t' \<Longrightarrow> t \<le> t' \<Longrightarrow> live (fst (observe t x s)) k t'"

fun guard_run :: "(time \<Rightarrow> 'o \<Rightarrow> 's \<Rightarrow> 's \<times> bool) \<Rightarrow> 's \<Rightarrow> (time \<times> 'o) list \<Rightarrow> bool list" where
  "guard_run observe s [] = []"
| "guard_run observe s ((t, x) # xs) =
     (let (s', ok) = observe t x s in ok # guard_run observe s' xs)"

lemma length_guard_run [simp]: "length (guard_run observe s xs) = length xs"
  by (induction xs arbitrary: s) (auto simp: case_prod_unfold Let_def)

lemma nondecreasing_nth:
  "nondecreasing t ts \<Longrightarrow> i < length ts \<Longrightarrow> t \<le> ts ! i"
  by (induction ts arbitrary: t i) (auto simp: nth_Cons less_Suc_eq_0_disj intro: order_trans)

context replay_guard
begin

text \<open>While a key is remembered, no observation of it is accepted.\<close>

lemma live_blocks:
  assumes "invar s" and "live s k (fst (xs ! j))" and "nondecreasing t (map fst xs)"
    and "j < length xs" and "key (snd (xs ! j)) = k"
  shows "\<not> guard_run observe s xs ! j"
  using assms
proof (induction xs arbitrary: s t j)
  case Nil
  then show ?case by simp
next
  case (Cons p xs)
  obtain u x where p: "p = (u, x)" by fastforce
  show ?case
  proof (cases j)
    case 0
    with Cons.prems p accept_not_live show ?thesis
      by (auto simp: case_prod_unfold Let_def)
  next
    case (Suc i)
    from Cons.prems p have nd: "nondecreasing u (map fst xs)" by simp
    with Cons.prems Suc have "u \<le> fst (xs ! i)"
      using nondecreasing_nth [OF nd, of i] by simp
    with Cons.prems p Suc have "live (fst (observe u x s)) k (fst (xs ! i))"
      by (auto intro: keeps_live)
    with Cons.IH [OF _ _ nd, of "fst (observe u x s)" i] Cons.prems p Suc invar_observe
    show ?thesis by (auto simp: case_prod_unfold Let_def)
  qed
qed

text \<open>
  The guarantee the callers rely on: two accepted observations of one key are at least the
  first one's time-to-live apart.
\<close>

lemma accepted_apart:
  assumes "invar s" and "nondecreasing t (map fst xs)"
    and "i < j" and "j < length xs"
    and "guard_run observe s xs ! i" and "guard_run observe s xs ! j"
    and "key (snd (xs ! i)) = key (snd (xs ! j))"
  shows "fst (xs ! i) + ttl (snd (xs ! i)) \<le> fst (xs ! j)"
  using assms
proof (induction xs arbitrary: s t i j)
  case Nil
  then show ?case by simp
next
  case (Cons p xs)
  obtain u x where p: "p = (u, x)" by fastforce
  from Cons.prems p have nd: "nondecreasing u (map fst xs)" by simp
  have inv': "invar (fst (observe u x s))" using Cons.prems invar_observe by simp
  from Cons.prems obtain j' where j: "j = Suc j'" by (cases j) auto
  show ?case
  proof (cases i)
    case 0
    have acc: "snd (observe u x s)"
      using Cons.prems p 0 by (simp add: case_prod_unfold Let_def)
    show ?thesis
    proof (rule ccontr)
      assume "\<not> ?thesis"
      with p 0 j have "fst (xs ! j') < u + ttl x" by simp
      with acc Cons.prems have "live (fst (observe u x s)) (key x) (fst (xs ! j'))"
        by (auto intro: accept_records)
      with live_blocks [OF inv' _ nd, of "key x" j'] Cons.prems p 0 j
      show False by (auto simp: case_prod_unfold Let_def)
    qed
  next
    case (Suc i')
    with Cons.IH [OF inv' nd, of i' j'] Cons.prems p j show ?thesis
      by (auto simp: case_prod_unfold Let_def)
  qed
qed

end


section \<open>DpopReplayStore\<close>

datatype dpop_error = DpopError (dpop_err: string) (dpop_desc: string)

definition REPLAY_TTL_SECS :: int where
  "REPLAY_TTL_SECS = 660"

type_synonym dpop_replay_store = "time dict"

definition dpop_entry_expired :: "time \<Rightarrow> time \<Rightarrow> bool" where
  "dpop_entry_expired now expiry \<longleftrightarrow> expiry \<le> now"

definition dpop_sweep_expired :: "time \<Rightarrow> dpop_replay_store \<Rightarrow> dpop_replay_store" where
  "dpop_sweep_expired now entries = sweep (dpop_entry_expired now) entries"

definition check_and_insert ::
  "time \<Rightarrow> string \<Rightarrow> dpop_replay_store \<Rightarrow> dpop_replay_store \<times> (dpop_error + unit)" where
  "check_and_insert now jti entries =
     (let entries1 = dpop_sweep_expired now entries
      in if jti \<in> dom (map_of entries1)
         then (entries1,
               Inl (DpopError ''invalid_dpop_proof'' ''DPoP proof jti has already been used (replay)''))
         else (AList.update jti (now + of_int REPLAY_TTL_SECS) entries1, Inr ()))"

definition dpop_observe :: "time \<Rightarrow> string \<Rightarrow> dpop_replay_store \<Rightarrow> dpop_replay_store \<times> bool" where
  "dpop_observe now jti entries =
     (let (entries', r) = check_and_insert now jti entries in (entries', r = Inr ()))"

definition dpop_live :: "dpop_replay_store \<Rightarrow> string \<Rightarrow> time \<Rightarrow> bool" where
  "dpop_live entries jti t \<longleftrightarrow> (\<exists>expiry. map_of entries jti = Some expiry \<and> t < expiry)"

interpretation dpop_entries: swept_store dpop_entry_expired
  by unfold_locales (auto simp: dpop_entry_expired_def)

lemmas dpop_store_defs = dpop_observe_def check_and_insert_def dpop_sweep_expired_def
  dpop_entry_expired_def dpop_live_def Let_def case_prod_unfold

interpretation dpop_guard:
  replay_guard dpop_observe "\<lambda>jti. jti" "\<lambda>_. of_int REPLAY_TTL_SECS" dpop_live keys_distinct
proof (unfold_locales, goal_cases)
  case 1
  then show ?case by (auto simp: dpop_store_defs)
next
  case 2
  then show ?case
    by (force simp: dpop_store_defs sweep_simps split: if_splits option.splits)
next
  case 3
  then show ?case
    by (auto simp: dpop_store_defs sweep_simps split: if_splits option.splits)
next
  case 4
  then show ?case
    by (auto simp: dpop_store_defs sweep_simps split: if_splits option.splits)
qed


section \<open>JtiReplayGuard\<close>

definition MAX_JTI_TTL_SECS :: int where
  "MAX_JTI_TTL_SECS = 300"

definition DEFAULT_MAX_ENTRIES :: int where
  "DEFAULT_MAX_ENTRIES = 100000"

record jti_guard =
  jti_entries :: "time dict"
  jti_max_entries :: int

definition jti_guard_new :: "int \<Rightarrow> jti_guard" where
  "jti_guard_new max_entries = \<lparr>jti_entries = [], jti_max_entries = max 1 max_entries\<rparr>"

datatype jti_guard_full = JtiGuardFull

definition jti_expired :: "time \<Rightarrow> time \<Rightarrow> bool" where
  "jti_expired now expiry \<longleftrightarrow> expiry \<le> now"

definition jti_sweep_expired :: "time \<Rightarrow> jti_guard \<Rightarrow> jti_guard" where
  "jti_sweep_expired now g = g\<lparr>jti_entries := sweep (jti_expired now) (jti_entries g)\<rparr>"

definition jti_key :: "string \<Rightarrow> string \<Rightarrow> string" where
  "jti_key client_id jti = client_id @ [CHR 0x00] @ jti"

definition jti_clamp_ttl :: "time \<Rightarrow> time" where
  "jti_clamp_ttl ttl_secs = min (max ttl_secs 0) (of_int MAX_JTI_TTL_SECS)"

definition jti_observe ::
  "time \<Rightarrow> string \<Rightarrow> string \<Rightarrow> time \<Rightarrow> jti_guard \<Rightarrow> jti_guard \<times> (jti_guard_full + bool)" where
  "jti_observe now client_id jti ttl_secs g =
     (let ttl = jti_clamp_ttl ttl_secs;
          g1 = jti_sweep_expired now g;
          key = jti_key client_id jti
      in if key \<in> dom (map_of (jti_entries g1)) then (g1, Inr False)
         else if jti_max_entries g1 \<le> int (length (jti_entries g1)) then (g1, Inl JtiGuardFull)
         else (g1\<lparr>jti_entries := AList.update key (now + ttl) (jti_entries g1)\<rparr>, Inr True))"

definition jti_accepts :: "time \<Rightarrow> string \<times> string \<times> time \<Rightarrow> jti_guard \<Rightarrow> jti_guard \<times> bool" where
  "jti_accepts now x g =
     (let (g', r) = jti_observe now (fst x) (fst (snd x)) (snd (snd x)) g in (g', r = Inr True))"

definition jti_live :: "jti_guard \<Rightarrow> string \<Rightarrow> time \<Rightarrow> bool" where
  "jti_live g k t \<longleftrightarrow> (\<exists>expiry. map_of (jti_entries g) k = Some expiry \<and> t < expiry)"

definition jti_invar :: "jti_guard \<Rightarrow> bool" where
  "jti_invar g \<longleftrightarrow> keys_distinct (jti_entries g) \<and> 1 \<le> jti_max_entries g \<and>
     int (length (jti_entries g)) \<le> jti_max_entries g"

interpretation jti_entry: swept_store jti_expired
  by unfold_locales (auto simp: jti_expired_def)

lemmas jti_store_defs = jti_accepts_def jti_observe_def jti_sweep_expired_def
  jti_expired_def jti_live_def Let_def case_prod_unfold

lemma jti_invar_new: "jti_invar (jti_guard_new n)"
  by (simp add: jti_invar_def jti_guard_new_def)

lemma jti_observe_invar:
  assumes "jti_invar g"
  shows "jti_invar (fst (jti_observe now client_id jti ttl g))"
proof -
  let ?g1 = "jti_sweep_expired now g"
  have d: "keys_distinct (jti_entries g)" using assms by (simp add: jti_invar_def)
  have len: "length (jti_entries ?g1) \<le> length (jti_entries g)"
    using length_sweep [OF d] by (simp add: jti_sweep_expired_def)
  have g1: "jti_invar ?g1"
    using assms len by (simp add: jti_invar_def jti_sweep_expired_def)
  have "jti_invar (?g1\<lparr>jti_entries := AList.update k v (jti_entries ?g1)\<rparr>)"
    if "\<not> jti_max_entries ?g1 \<le> int (length (jti_entries ?g1))" for k v
    using g1 that length_update_le [of k v "jti_entries ?g1"] by (simp add: jti_invar_def)
  with g1 show ?thesis by (simp add: jti_observe_def Let_def)
qed

interpretation jti_guard:
  replay_guard jti_accepts "\<lambda>x. jti_key (fst x) (fst (snd x))"
    "\<lambda>x. jti_clamp_ttl (snd (snd x))" jti_live jti_invar
proof (unfold_locales, goal_cases)
  case (1 s t x)
  then show ?case
    using jti_observe_invar by (simp add: jti_accepts_def case_prod_unfold Let_def)
next
  case 2
  then show ?case
    by (force simp: jti_store_defs jti_invar_def sweep_simps split: if_splits option.splits)
next
  case 3
  then show ?case
    by (auto simp: jti_store_defs jti_invar_def sweep_simps split: if_splits option.splits)
next
  case 4
  then show ?case
    by (auto simp: jti_store_defs jti_invar_def sweep_simps split: if_splits option.splits)
qed


section \<open>Properties\<close>

text \<open>
  DPoP replay window: from the empty store, in any sequence of \<open>check_and_insert\<close> calls
  with a non-decreasing clock, two accepted calls with the same \<open>jti\<close> are at least 660
  seconds apart.
\<close>

theorem dpop_replay_window:
  assumes "nondecreasing t (map fst xs)" and "i < j" and "j < length xs"
    and "guard_run dpop_observe [] xs ! i" and "guard_run dpop_observe [] xs ! j"
    and "snd (xs ! i) = snd (xs ! j)"
  shows "fst (xs ! i) + 660 \<le> fst (xs ! j)"
  using dpop_guard.accepted_apart [of "[]" t xs i j] assms
  by (simp add: REPLAY_TTL_SECS_def)

theorem dpop_replay_window_witness:
  "guard_run dpop_observe [] [(0, ''j''), (659, ''j''), (660, ''j'')] = [True, False, True]
   \<and> (0 :: time) + 660 \<le> 660"
proof
  show run: "guard_run dpop_observe [] [(0, ''j''), (659, ''j''), (660, ''j'')] = [True, False, True]"
    by (simp add: dpop_store_defs sweep_def REPLAY_TTL_SECS_def)
  show "(0 :: time) + 660 \<le> 660"
    using dpop_replay_window [where t = 0 and i = 0 and j = 2
        and xs = "[(0, ''j''), (659, ''j''), (660, ''j'')]"]
    unfolding run by (simp add: eval_nat_numeral)
qed

text \<open>
  Assertion replay window: from a fresh guard of any capacity, two accepted observations
  of the same client and \<open>jti\<close> are at least the clamped lifetime of the first apart, at
  capacity too: a full guard refuses instead of evicting a live entry.
\<close>

theorem jti_replay_window:
  assumes "nondecreasing t (map fst xs)" and "i < j" and "j < length xs"
    and "guard_run jti_accepts (jti_guard_new n) xs ! i"
    and "guard_run jti_accepts (jti_guard_new n) xs ! j"
    and "jti_key (fst (snd (xs ! i))) (fst (snd (snd (xs ! i)))) =
         jti_key (fst (snd (xs ! j))) (fst (snd (snd (xs ! j))))"
  shows "fst (xs ! i) + jti_clamp_ttl (snd (snd (snd (xs ! i)))) \<le> fst (xs ! j)"
  using jti_guard.accepted_apart [OF jti_invar_new assms(1-5)] assms(6) by simp

theorem jti_replay_window_witness:
  "guard_run jti_accepts (jti_guard_new 1)
     [(0, ''c'', ''j'', 10), (9, ''c'', ''j'', 10), (9, ''d'', ''j'', 10), (10, ''c'', ''j'', 10)]
   = [True, False, False, True]
   \<and> (0 :: time) + jti_clamp_ttl 10 \<le> 10"
proof
  show run: "guard_run jti_accepts (jti_guard_new 1)
     [(0, ''c'', ''j'', 10), (9, ''c'', ''j'', 10), (9, ''d'', ''j'', 10), (10, ''c'', ''j'', 10)]
   = [True, False, False, True]"
    by code_simp
  show "(0 :: time) + jti_clamp_ttl 10 \<le> 10"
    using jti_replay_window [where t = 0 and i = 0 and j = 3 and n = 1
        and xs = "[(0, ''c'', ''j'', 10), (9, ''c'', ''j'', 10), (9, ''d'', ''j'', 10),
          (10, ''c'', ''j'', 10)]"]
    unfolding run by (simp add: eval_nat_numeral)
qed

text \<open>
  The guard never holds more entries than its capacity (at least one), whatever is
  observed.
\<close>

theorem jti_guard_bounded:
  "int (length (jti_entries (fold (\<lambda>(t, x) g. fst (jti_accepts t x g)) xs (jti_guard_new n))))
   \<le> max 1 n"
proof -
  have "jti_invar (fold (\<lambda>(t, x) g. fst (jti_accepts t x g)) xs g) \<and>
    jti_max_entries (fold (\<lambda>(t, x) g. fst (jti_accepts t x g)) xs g) = jti_max_entries g"
    if "jti_invar g" for g
    using that
  proof (induction xs arbitrary: g)
    case Nil
    then show ?case by simp
  next
    case (Cons p xs)
    obtain t x where p: "p = (t, x)" using prod.exhaust by blast
    have "jti_invar (fst (jti_accepts t x g))" using Cons.prems by (rule jti_guard.invar_observe)
    moreover have "jti_max_entries (fst (jti_accepts t x g)) = jti_max_entries g"
      by (simp add: jti_store_defs)
    ultimately show ?case using Cons.IH p by simp
  qed
  from this [OF jti_invar_new, of n] show ?thesis
    by (simp add: jti_invar_def jti_guard_new_def)
qed

end
