(* ===== verification/Device_Poll.thy ===== *)
theory Device_Poll
  imports Prelude
begin

text \<open>
  The device-code poll tracker of \<^verbatim>\<open>services/device_poll.py\<close> (RFC 8628 section 3.5
  \<open>slow_down\<close>): per device code, the last poll, the currently required interval and the
  time at which the entry is dropped.
\<close>

definition ENTRY_TTL_SECS :: int where
  "ENTRY_TTL_SECS = 24 * 60 * 60"

definition SLOW_DOWN_STEP_SECS :: int where
  "SLOW_DOWN_STEP_SECS = 5"

record poll_state =
  last_poll :: time
  poll_interval :: int
  poll_expiry :: time

type_synonym device_poll_tracker = "poll_state dict"

definition poll_expired :: "time \<Rightarrow> poll_state \<Rightarrow> bool" where
  "poll_expired now st \<longleftrightarrow> poll_expiry st \<le> now"

definition poll_sweep_expired :: "time \<Rightarrow> device_poll_tracker \<Rightarrow> device_poll_tracker" where
  "poll_sweep_expired now entries = sweep (poll_expired now) entries"

definition poll_observe ::
  "time \<Rightarrow> string \<Rightarrow> int \<Rightarrow> device_poll_tracker \<Rightarrow> device_poll_tracker \<times> int option" where
  "poll_observe now device_code base_interval entries =
     (let entries1 = poll_sweep_expired now entries;
          expiry = now + of_int ENTRY_TTL_SECS
      in case map_of entries1 device_code of
           None \<Rightarrow>
             (AList.update device_code
                \<lparr>last_poll = now, poll_interval = base_interval, poll_expiry = expiry\<rparr> entries1, None)
         | Some st \<Rightarrow>
             if now - last_poll st < of_int (poll_interval st)
             then let interval = poll_interval st + SLOW_DOWN_STEP_SECS
                  in (AList.update device_code
                        \<lparr>last_poll = now, poll_interval = interval, poll_expiry = expiry\<rparr> entries1,
                      Some interval)
             else (AList.update device_code
                     (st\<lparr>last_poll := now, poll_expiry := expiry\<rparr>) entries1, None))"

definition poll_forget :: "string \<Rightarrow> device_poll_tracker \<Rightarrow> device_poll_tracker" where
  "poll_forget device_code entries = AList.delete device_code entries"

interpretation poll: swept_store poll_expired
  by unfold_locales (auto simp: poll_expired_def)


section \<open>A history-based specification\<close>

text \<open>
  The specification remembers, per device code, the last poll, the base interval of the first
  poll and how many polls were too fast; a code idle for 24 hours starts afresh. A poll is
  too fast when it comes sooner than the base interval plus five seconds per earlier
  violation, and the answer to it is that interval raised by five.
\<close>

datatype poll_op = Poll time string int | Forget string

record poll_history =
  ph_last :: time
  ph_base :: int
  ph_violations :: nat

fun poll_spec_step :: "(string \<rightharpoonup> poll_history) \<Rightarrow> poll_op \<Rightarrow>
    (string \<rightharpoonup> poll_history) \<times> int option" where
  "poll_spec_step m (Poll now code base) =
     (case m code of
        None \<Rightarrow> (m(code \<mapsto> \<lparr>ph_last = now, ph_base = base, ph_violations = 0\<rparr>), None)
      | Some h \<Rightarrow>
          if ph_last h + 86400 \<le> now
          then (m(code \<mapsto> \<lparr>ph_last = now, ph_base = base, ph_violations = 0\<rparr>), None)
          else if now - ph_last h < of_int (ph_base h + 5 * int (ph_violations h))
          then (m(code \<mapsto> h\<lparr>ph_last := now, ph_violations := Suc (ph_violations h)\<rparr>),
                Some (ph_base h + 5 * int (Suc (ph_violations h))))
          else (m(code \<mapsto> h\<lparr>ph_last := now\<rparr>), None))"
| "poll_spec_step m (Forget code) = (m(code := None), None)"

fun poll_step :: "device_poll_tracker \<Rightarrow> poll_op \<Rightarrow> device_poll_tracker \<times> int option" where
  "poll_step s (Poll now code base) = poll_observe now code base s"
| "poll_step s (Forget code) = (poll_forget code s, None)"

fun poll_run :: "('s \<Rightarrow> poll_op \<Rightarrow> 's \<times> int option) \<Rightarrow> 's \<Rightarrow> poll_op list \<Rightarrow> int option list" where
  "poll_run step s [] = []"
| "poll_run step s (p # ps) = (let (s', out) = step s p in out # poll_run step s' ps)"

fun poll_clock :: "time \<Rightarrow> poll_op list \<Rightarrow> bool" where
  "poll_clock t [] = True"
| "poll_clock t (Poll now code base # ps) = (t \<le> now \<and> poll_clock now ps)"
| "poll_clock t (Forget code # ps) = poll_clock t ps"

fun poll_abs :: "poll_history \<Rightarrow> poll_state" where
  "poll_abs h =
     \<lparr>last_poll = ph_last h, poll_interval = ph_base h + 5 * int (ph_violations h),
      poll_expiry = ph_last h + 86400\<rparr>"

definition poll_rel :: "time \<Rightarrow> device_poll_tracker \<Rightarrow> (string \<rightharpoonup> poll_history) \<Rightarrow> bool" where
  "poll_rel t s m \<longleftrightarrow> keys_distinct s \<and>
     (\<forall>k. map_of (sweep (poll_expired t) s) k =
        (case m k of None \<Rightarrow> None
         | Some h \<Rightarrow> if ph_last h + 86400 \<le> t then None else Some (poll_abs h)))"

lemma poll_rel_mono:
  assumes "poll_rel t s m" and "t \<le> t'"
  shows "poll_rel t' s m"
proof -
  have d: "keys_distinct s" using assms by (simp add: poll_rel_def)
  have "map_of (sweep (poll_expired t') s) k =
     (case m k of None \<Rightarrow> None
      | Some h \<Rightarrow> if ph_last h + 86400 \<le> t' then None else Some (poll_abs h))" for k
  proof -
    have "map_of (sweep (poll_expired t') s) k =
        map_of (sweep (poll_expired t') (sweep (poll_expired t) s)) k"
      using poll.sweep_sweep [OF \<open>t \<le> t'\<close> d] by simp
    also have "\<dots> = (case map_of (sweep (poll_expired t) s) k of None \<Rightarrow> None
        | Some v \<Rightarrow> if poll_expired t' v then None else Some v)"
      using d by (intro map_of_sweep) simp
    finally show ?thesis
      using assms by (auto simp: poll_rel_def poll_expired_def split: option.splits)
  qed
  with d show ?thesis by (simp add: poll_rel_def)
qed

lemma poll_rel_update:
  assumes "poll_rel t s m"
  shows "poll_rel t (AList.update k (poll_abs h) (poll_sweep_expired t s)) (m(k \<mapsto> h))"
proof -
  have d: "keys_distinct s" using assms by (simp add: poll_rel_def)
  then show ?thesis
    using assms
    by (simp add: poll_rel_def poll_sweep_expired_def map_of_sweep_update sweep_idem)
       (simp add: poll_expired_def)
qed

lemma poll_rel_forget: "poll_rel t s m \<Longrightarrow> poll_rel t (poll_forget k s) (m(k := None))"
  by (simp add: poll_rel_def poll_forget_def map_of_sweep_delete)

lemma poll_observe_simulates:
  assumes "poll_rel t s m" and "t \<le> now"
  shows "snd (poll_observe now code base s) = snd (poll_spec_step m (Poll now code base)) \<and>
    poll_rel now (fst (poll_observe now code base s)) (fst (poll_spec_step m (Poll now code base)))"
proof -
  from assms have rel: "poll_rel now s m" by (rule poll_rel_mono)
  then have look: "map_of (poll_sweep_expired now s) code =
      (case m code of None \<Rightarrow> None
       | Some h \<Rightarrow> if ph_last h + 86400 \<le> now then None else Some (poll_abs h))"
    by (simp add: poll_rel_def poll_sweep_expired_def)
  note upd = poll_rel_update [OF rel, of code]
  show ?thesis
    using look upd [of "\<lparr>ph_last = now, ph_base = base, ph_violations = 0\<rparr>"]
      upd [of "the (m code)\<lparr>ph_last := now\<rparr>"]
      upd [of "the (m code)\<lparr>ph_last := now, ph_violations := Suc (ph_violations (the (m code)))\<rparr>"]
    by (auto simp: poll_observe_def Let_def ENTRY_TTL_SECS_def SLOW_DOWN_STEP_SECS_def
        algebra_simps split: option.splits if_splits)
qed

lemma poll_run_simulates:
  "poll_rel t s m \<Longrightarrow> poll_clock t ps \<Longrightarrow> poll_run poll_step s ps = poll_run poll_spec_step m ps"
proof (induction ps arbitrary: t s m)
  case Nil
  then show ?case by simp
next
  case (Cons p ps)
  show ?case
  proof (cases p)
    case (Poll now code base)
    with Cons poll_observe_simulates [of t s m now code base] show ?thesis
      by (auto simp: case_prod_unfold Let_def simp del: poll_spec_step.simps)
  next
    case (Forget code)
    with Cons poll_rel_forget [of t s m code] show ?thesis
      by (auto simp: fun_upd_def)
  qed
qed

text \<open>
  The tracker refines the history-based specification: on every sequence of polls and
  redemptions with a non-decreasing clock, \<open>observe\<close> answers \<open>slow_down\<close> exactly for the
  polls that come sooner than the base interval plus five seconds per earlier violation,
  and reports that interval raised by five.
\<close>

theorem device_poll_refines_history:
  assumes "poll_clock t ps"
  shows "poll_run poll_step [] ps = poll_run poll_spec_step Map.empty ps"
  using assms by (intro poll_run_simulates [where t = t]) (simp_all add: poll_rel_def sweep_def)

theorem device_poll_refines_history_witness:
  "poll_run poll_step [] [Poll 0 ''d'' 5, Poll 3 ''d'' 5, Poll 9 ''d'' 5, Poll 24 ''d'' 5]
   = [None, Some 10, Some 15, None]"
proof -
  have "poll_run poll_step [] [Poll 0 ''d'' 5, Poll 3 ''d'' 5, Poll 9 ''d'' 5, Poll 24 ''d'' 5]
   = poll_run poll_spec_step Map.empty
       [Poll 0 ''d'' 5, Poll 3 ''d'' 5, Poll 9 ''d'' 5, Poll 24 ''d'' 5]"
    by (rule device_poll_refines_history [where t = 0]) simp
  then show ?thesis by simp
qed

end
