(* ===== verification/Rate_Limits.thy ===== *)
theory Rate_Limits
  imports Prelude
begin

text \<open>
  The two in-memory rate limiters: \<open>FixedWindowLimiter\<close> of \<^verbatim>\<open>services/ratelimit.py\<close> (login
  attempts) and \<open>TokenBucketLimiter\<close> of \<^verbatim>\<open>services/limiter.py\<close> (requests per address and the
  \<open>invalid_client\<close> penalty bucket). Clock readings are arguments.
\<close>

section \<open>FixedWindowLimiter\<close>

record window =
  win_start :: time
  win_count :: int

record fixed_window_limiter =
  max_attempts :: int
  window_secs :: int
  windows :: "window dict"

definition fw_new :: "int \<Rightarrow> int \<Rightarrow> fixed_window_limiter" where
  "fw_new attempts secs = \<lparr>max_attempts = attempts, window_secs = secs, windows = []\<rparr>"

definition fw_expired :: "int \<Rightarrow> time \<Rightarrow> window \<Rightarrow> bool" where
  "fw_expired secs now w \<longleftrightarrow> now - win_start w \<ge> of_int secs"

definition fw_sweep_expired :: "time \<Rightarrow> fixed_window_limiter \<Rightarrow> fixed_window_limiter" where
  "fw_sweep_expired now l =
     l\<lparr>windows := sweep (fw_expired (window_secs l) now) (windows l)\<rparr>"

definition fw_check ::
  "time \<Rightarrow> string \<Rightarrow> fixed_window_limiter \<Rightarrow> fixed_window_limiter \<times> int option" where
  "fw_check now key l =
     (let l1 = fw_sweep_expired now l;
          win = (case map_of (windows l1) key of
              None \<Rightarrow> \<lparr>win_start = now, win_count = 0\<rparr>
            | Some w \<Rightarrow> if now - win_start w \<ge> of_int (window_secs l1)
                then \<lparr>win_start = now, win_count = 0\<rparr> else w)
      in if win_count win \<ge> max_attempts l1
         then (l1\<lparr>windows := AList.update key win (windows l1)\<rparr>,
               Some (max 1 \<lceil>of_int (window_secs l1) - (now - win_start win)\<rceil>))
         else (l1\<lparr>windows := AList.update key (win\<lparr>win_count := win_count win + 1\<rparr>) (windows l1)\<rparr>,
               None))"

definition fw_reset :: "string \<Rightarrow> fixed_window_limiter \<Rightarrow> fixed_window_limiter" where
  "fw_reset key l = l\<lparr>windows := AList.delete key (windows l)\<rparr>"

interpretation fw: swept_store "fw_expired secs" for secs
  by unfold_locales (auto simp: fw_expired_def)

lemma fw_sweep_config [simp]:
  "max_attempts (fw_sweep_expired now l) = max_attempts l"
  "window_secs (fw_sweep_expired now l) = window_secs l"
  by (simp_all add: fw_sweep_expired_def)

text \<open>How many of the attempts of a key a run lets through.\<close>

fun fw_allowed :: "string \<Rightarrow> fixed_window_limiter \<Rightarrow> (time \<times> string) list \<Rightarrow> int" where
  "fw_allowed key l [] = 0"
| "fw_allowed key l ((now, k) # xs) =
     (let (l', out) = fw_check now k l
      in (if k = key \<and> out = None then 1 else 0) + fw_allowed key l' xs)"

fun fw_exec :: "fixed_window_limiter \<Rightarrow> (time \<times> string) list \<Rightarrow> fixed_window_limiter" where
  "fw_exec l [] = l"
| "fw_exec l ((now, k) # xs) = fw_exec (fst (fw_check now k l)) xs"

definition fw_inv :: "time \<Rightarrow> fixed_window_limiter \<Rightarrow> bool" where
  "fw_inv t l \<longleftrightarrow> keys_distinct (windows l) \<and>
     (\<forall>k w. map_of (windows l) k = Some w \<longrightarrow>
        win_start w \<le> t \<and> 0 \<le> win_count w \<and> win_count w \<le> max 0 (max_attempts l))"

lemma fw_inv_new: "fw_inv t (fw_new n s)"
  by (simp add: fw_inv_def fw_new_def)

text \<open>The window an attempt at time \<open>now\<close> is counted in.\<close>

definition fw_window :: "time \<Rightarrow> string \<Rightarrow> fixed_window_limiter \<Rightarrow> window" where
  "fw_window now key l =
     (case map_of (windows l) key of
        None \<Rightarrow> \<lparr>win_start = now, win_count = 0\<rparr>
      | Some w \<Rightarrow> if fw_expired (window_secs l) now w then \<lparr>win_start = now, win_count = 0\<rparr> else w)"

lemma fw_check_eq:
  assumes "keys_distinct (windows l)"
  shows "fw_check now key l =
    (let win = fw_window now key l; l1 = fw_sweep_expired now l
     in if win_count win \<ge> max_attempts l
        then (l1\<lparr>windows := AList.update key win (windows l1)\<rparr>,
              Some (max 1 \<lceil>of_int (window_secs l) - (now - win_start win)\<rceil>))
        else (l1\<lparr>windows := AList.update key (win\<lparr>win_count := win_count win + 1\<rparr>) (windows l1)\<rparr>,
              None))"
proof -
  have "(case map_of (windows (fw_sweep_expired now l)) key of
      None \<Rightarrow> \<lparr>win_start = now, win_count = 0\<rparr>
    | Some w \<Rightarrow> if now - win_start w \<ge> of_int (window_secs (fw_sweep_expired now l))
        then \<lparr>win_start = now, win_count = 0\<rparr> else w) = fw_window now key l"
    using assms
    by (auto simp: fw_window_def fw_sweep_expired_def fw_expired_def map_of_sweep
        split: option.splits)
  then show ?thesis
    by (simp add: fw_check_def Let_def)
qed

lemma fw_check_config [simp]:
  "max_attempts (fst (fw_check now key l)) = max_attempts l"
  "window_secs (fst (fw_check now key l)) = window_secs l"
  by (simp_all add: fw_check_def fw_sweep_expired_def Let_def)

lemma fw_window_inv:
  assumes "fw_inv t l" and "t \<le> now"
  shows "win_start (fw_window now key l) \<le> now" "0 \<le> win_count (fw_window now key l)"
    "win_count (fw_window now key l) \<le> max 0 (max_attempts l)"
proof -
  have "win_start (fw_window now key l) \<le> now \<and> 0 \<le> win_count (fw_window now key l) \<and>
    win_count (fw_window now key l) \<le> max 0 (max_attempts l)"
    using assms unfolding fw_inv_def fw_window_def by (force split: option.splits)
  then show "win_start (fw_window now key l) \<le> now" "0 \<le> win_count (fw_window now key l)"
    "win_count (fw_window now key l) \<le> max 0 (max_attempts l)" by auto
qed

text \<open>What is left in the dictionary after a check.\<close>

lemma fw_check_lookup:
  assumes "keys_distinct (windows l)"
  shows "map_of (windows (fst (fw_check now key l))) k =
    (if k = key
     then Some (let w = fw_window now key l
                in if win_count w \<ge> max_attempts l then w else w\<lparr>win_count := win_count w + 1\<rparr>)
     else (case map_of (windows l) k of None \<Rightarrow> None
           | Some w \<Rightarrow> if fw_expired (window_secs l) now w then None else Some w))"
  using assms
  by (simp add: fw_check_eq fw_sweep_expired_def map_of_sweep Let_def)

lemma fw_check_inv:
  assumes "fw_inv t l" and "t \<le> now"
  shows "fw_inv now (fst (fw_check now key l))"
proof -
  have d: "keys_distinct (windows l)" using assms by (simp add: fw_inv_def)
  have "keys_distinct (windows (fst (fw_check now key l)))"
    using d by (simp add: fw_check_def fw_sweep_expired_def Let_def)
  moreover have "win_start w \<le> now \<and> 0 \<le> win_count w \<and> win_count w \<le> max 0 (max_attempts l)"
    if "map_of (windows (fst (fw_check now key l))) k = Some w" for k w
  proof (cases "k = key")
    case True
    with that fw_window_inv [OF assms, of key] show ?thesis
      by (auto simp: fw_check_lookup [OF d] Let_def split: if_splits)
  next
    case False
    with that assms show ?thesis
      by (force simp: fw_check_lookup [OF d] fw_inv_def split: option.splits if_splits)
  qed
  ultimately show ?thesis by (simp add: fw_inv_def)
qed

text \<open>
  What a key may still be granted before \<open>t0 + secs\<close>: the rest of its window, and a full
  quota more when that window began before \<open>t0\<close> and so can end in between.
\<close>

definition fw_quota :: "time \<Rightarrow> time \<Rightarrow> string \<Rightarrow> fixed_window_limiter \<Rightarrow> int" where
  "fw_quota t0 now key l =
     (let w = fw_window now key l
      in max 0 (max_attempts l) - win_count w
         + (if win_start w < t0 then max 0 (max_attempts l) else 0))"

lemma fw_window_later:
  assumes "now \<le> now'"
  shows "fw_window now' key l = fw_window now key l \<or>
    fw_window now' key l = \<lparr>win_start = now', win_count = 0\<rparr> \<and>
      (map_of (windows l) key = None \<or> fw_expired (window_secs l) now' (fw_window now key l)
       \<or> fw_window now key l = \<lparr>win_start = now, win_count = 0\<rparr>)"
  using assms fw.expired_mono [of now now' "window_secs l"]
  by (auto simp: fw_window_def split: option.splits)

lemma fw_quota_later:
  assumes "fw_inv t l" and "t \<le> now" and "now \<le> now'" and "t0 \<le> now"
    and "now' < t0 + of_int (window_secs l)"
  shows "fw_quota t0 now' key l \<le> fw_quota t0 now key l"
proof -
  let ?w = "fw_window now key l"
  from fw_window_later [OF \<open>now \<le> now'\<close>, of key l]
  consider (same) "fw_window now' key l = ?w"
    | (fresh) "fw_window now' key l = \<lparr>win_start = now', win_count = 0\<rparr>"
        "?w = \<lparr>win_start = now, win_count = 0\<rparr>"
    | (expired) "fw_window now' key l = \<lparr>win_start = now', win_count = 0\<rparr>"
        "fw_expired (window_secs l) now' ?w"
    by (auto simp: fw_window_def)
  then show ?thesis
  proof cases
    case expired
    then have "win_start ?w < t0" using assms by (simp add: fw_expired_def)
    with expired fw_window_inv(3) [OF assms(1,2), of key] assms show ?thesis
      by (auto simp: fw_quota_def Let_def)
  qed (use assms in \<open>simp_all add: fw_quota_def\<close>)
qed

lemma fw_check_quota:
  assumes "fw_inv t l" and "t \<le> now" and "t0 \<le> now" and "now < t0 + of_int (window_secs l)"
  shows "(if k = key \<and> snd (fw_check now k l) = None then 1 else 0)
    + fw_quota t0 now key (fst (fw_check now k l)) \<le> fw_quota t0 now key l"
proof -
  have d: "keys_distinct (windows l)" using assms by (simp add: fw_inv_def)
  have pos: "0 < window_secs l" using assms by (simp add: order_le_less_trans)
  let ?w = "fw_window now key l"
  have not_exp: "\<not> fw_expired (window_secs l) now ?w"
    using pos by (auto simp: fw_window_def fw_expired_def split: option.splits)
  show ?thesis
  proof (cases "k = key")
    case True
    have "\<not> fw_expired (window_secs l) now (?w\<lparr>win_count := c\<rparr>)" for c
      using not_exp by (simp add: fw_expired_def)
    with not_exp have "fw_window now key (fst (fw_check now key l)) =
        (if win_count ?w \<ge> max_attempts l then ?w else ?w\<lparr>win_count := win_count ?w + 1\<rparr>)"
      by (simp add: fw_window_def [of now key "fst (fw_check now key l)"]
          fw_check_lookup [OF d] Let_def)
    with True show ?thesis
      by (simp add: fw_quota_def fw_check_eq [OF d] Let_def)
  next
    case False
    then have "fw_window now key (fst (fw_check now k l)) = ?w"
      by (auto simp: fw_window_def [of now key] fw_check_lookup [OF d] split: option.splits)
    with False show ?thesis by (simp add: fw_quota_def Let_def)
  qed
qed

lemma fw_allowed_quota:
  "fw_inv t l \<Longrightarrow> t \<le> now \<Longrightarrow> t0 \<le> now \<Longrightarrow> nondecreasing now (map fst xs) \<Longrightarrow>
   \<forall>x \<in> set xs. fst x < t0 + of_int (window_secs l) \<Longrightarrow>
   now < t0 + of_int (window_secs l) \<Longrightarrow>
   fw_allowed key l xs \<le> fw_quota t0 now key l"
proof (induction xs arbitrary: t now l)
  case Nil
  then show ?case
    using fw_window_inv(3) [of t l now key] by (simp add: fw_quota_def Let_def)
next
  case (Cons x xs)
  obtain u k where x: "x = (u, k)" by fastforce
  let ?l' = "fst (fw_check u k l)"
  from Cons.prems x have u: "t \<le> u" "t0 \<le> u" "now \<le> u" "u < t0 + of_int (window_secs l)" by auto
  have "fw_allowed key ?l' xs \<le> fw_quota t0 u key ?l'"
    using Cons.prems x u fw_check_inv [OF Cons.prems(1) u(1)]
    by (intro Cons.IH [where t = u]) auto
  moreover have "(if k = key \<and> snd (fw_check u k l) = None then 1 else 0)
      + fw_quota t0 u key ?l' \<le> fw_quota t0 u key l"
    using Cons.prems(1) u(1,2,4) by (rule fw_check_quota)
  moreover have "fw_quota t0 u key l \<le> fw_quota t0 now key l"
    using Cons.prems u by (intro fw_quota_later [where t = t]) auto
  ultimately show ?case by (simp add: x case_prod_unfold Let_def)
qed

lemma fw_exec_inv:
  "fw_inv t l \<Longrightarrow> nondecreasing t (map fst xs) \<Longrightarrow>
   fw_inv (last (t # map fst xs)) (fw_exec l xs) \<and>
   max_attempts (fw_exec l xs) = max_attempts l \<and> window_secs (fw_exec l xs) = window_secs l"
proof (induction xs arbitrary: t l)
  case Nil
  then show ?case by simp
next
  case (Cons x xs)
  obtain u k where x: "x = (u, k)" by fastforce
  with Cons fw_check_inv [of t l u k] show ?case by auto
qed

text \<open>
  Login throttle: after any history of attempts, in any span shorter than the window, a
  key gets at most twice \<open>max_attempts\<close> attempts through \<open>FixedWindowLimiter.check\<close>, and none
  when \<open>max_attempts\<close> is not positive.
\<close>

theorem fixed_window_bound:
  assumes "nondecreasing 0 (map fst (pre @ xs))"
    and "\<forall>x \<in> set xs. t0 \<le> fst x \<and> fst x < t0 + of_int secs"
  shows "fw_allowed key (fw_exec (fw_new attempts secs) pre) xs \<le> 2 * max 0 attempts"
proof (cases xs)
  case Nil
  then show ?thesis by simp
next
  case (Cons x ys)
  let ?l = "fw_exec (fw_new attempts secs) pre"
  let ?t = "last (0 # map fst pre)"
  have split: "nondecreasing t (map fst (pre @ xs)) \<Longrightarrow>
    nondecreasing t (map fst pre) \<and> nondecreasing (last (t # map fst pre)) (map fst xs)" for t
    by (induction pre arbitrary: t) auto
  from split [OF assms(1)] have nd: "nondecreasing 0 (map fst pre)" "nondecreasing ?t (map fst xs)"
    by auto
  have inv: "fw_inv ?t ?l" "max_attempts ?l = attempts" "window_secs ?l = secs"
    using fw_exec_inv [OF fw_inv_new nd(1), of attempts secs] by (auto simp: fw_new_def)
  have "fw_allowed key ?l xs \<le> fw_quota t0 (fst x) key ?l"
    using inv nd(2) assms(2) Cons
    by (intro fw_allowed_quota [where t = ?t]) auto
  also have "\<dots> \<le> 2 * max 0 attempts"
    using fw_window_inv(2) [OF inv(1), of "fst x" key] nd(2) inv Cons
    by (auto simp: fw_quota_def Let_def)
  finally show ?thesis .
qed

theorem fixed_window_bound_witness:
  "fw_allowed ''k'' (fw_exec (fw_new 1 10) [(0, ''k'')]) [(9, ''k''), (10, ''k''), (11, ''k'')] = 1
   \<and> fw_allowed ''k'' (fw_exec (fw_new 1 10) [(0, ''k'')]) [(9, ''k''), (10, ''k''), (11, ''k'')] \<le> 2"
proof
  show "fw_allowed ''k'' (fw_exec (fw_new 1 10) [(0, ''k'')]) [(9, ''k''), (10, ''k''), (11, ''k'')] = 1"
    by (simp add: fw_check_def fw_new_def fw_sweep_expired_def fw_expired_def sweep_def Let_def)
  show "fw_allowed ''k'' (fw_exec (fw_new 1 10) [(0, ''k'')]) [(9, ''k''), (10, ''k''), (11, ''k'')] \<le> 2"
    using fixed_window_bound [of "[(0, ''k'')]" "[(9, ''k''), (10, ''k''), (11, ''k'')]" 9 10 "''k''" 1]
    by simp
qed

end
