(* ===== verification/Token_Bucket.thy ===== *)
theory Token_Bucket
  imports Prelude
begin

text \<open>
  \<open>TokenBucketLimiter\<close> of \<^verbatim>\<open>services/limiter.py\<close>: a continuously refilled bucket per key,
  swept when idle for two windows. Both clock readings of a check (the monotonic one that
  drives the refill, the wall clock behind \<open>reset_at\<close>) are arguments; token counts are
  exact rationals.
\<close>

record rate_limit_result =
  rl_allowed :: bool
  rl_remaining :: int
  rl_limit :: int
  rl_reset_at :: int
  rl_retry_after :: "int option"

record bucket =
  tokens :: rat
  last_seen :: time

record token_bucket_limiter =
  max_tokens :: int
  tb_window_secs :: int
  refill_rate :: rat
  buckets :: "bucket dict"

definition tb_new :: "int \<Rightarrow> int \<Rightarrow> token_bucket_limiter" where
  "tb_new max_requests secs =
     (let m = max 1 max_requests; w = max 1 secs
      in \<lparr>max_tokens = m, tb_window_secs = w, refill_rate = of_int m / of_int w, buckets = []\<rparr>)"

definition SWEEP_IDLE_WINDOW_MULTIPLE :: int where
  "SWEEP_IDLE_WINDOW_MULTIPLE = 2"

definition tb_expired :: "int \<Rightarrow> time \<Rightarrow> bucket \<Rightarrow> bool" where
  "tb_expired secs now b \<longleftrightarrow> now - last_seen b \<ge> of_int (secs * SWEEP_IDLE_WINDOW_MULTIPLE)"

definition tb_sweep_expired :: "time \<Rightarrow> token_bucket_limiter \<Rightarrow> token_bucket_limiter" where
  "tb_sweep_expired now l =
     l\<lparr>buckets := sweep (tb_expired (tb_window_secs l) now) (buckets l)\<rparr>"

text \<open>The bucket a check works on: a full one for an unknown key, a refilled one otherwise.\<close>

definition tb_touch :: "token_bucket_limiter \<Rightarrow> time \<Rightarrow> bucket option \<Rightarrow> bucket" where
  "tb_touch l now b =
     (case b of
        None \<Rightarrow> \<lparr>tokens = of_int (max_tokens l), last_seen = now\<rparr>
      | Some b \<Rightarrow>
          \<lparr>tokens = (if now - last_seen b > 0
               then min (of_int (max_tokens l)) (tokens b + (now - last_seen b) * refill_rate l)
               else tokens b),
           last_seen = now\<rparr>)"

text \<open>Taking a token from it, and the answer.\<close>

definition tb_consume :: "token_bucket_limiter \<Rightarrow> int \<Rightarrow> bucket \<Rightarrow> bucket \<times> rate_limit_result" where
  "tb_consume l reset_at b =
     (if tokens b \<ge> 1
      then let b' = b\<lparr>tokens := tokens b - 1\<rparr>
           in (b', \<lparr>rl_allowed = True, rl_remaining = \<lfloor>tokens b'\<rfloor>, rl_limit = max_tokens l,
                    rl_reset_at = reset_at, rl_retry_after = None\<rparr>)
      else let seconds_needed = (1 - tokens b) / refill_rate l
           in (b, \<lparr>rl_allowed = False, rl_remaining = 0, rl_limit = max_tokens l,
                   rl_reset_at = reset_at, rl_retry_after = Some (max 1 \<lceil>seconds_needed\<rceil>)\<rparr>))"

definition tb_check ::
  "time \<Rightarrow> int \<Rightarrow> string \<Rightarrow> token_bucket_limiter \<Rightarrow> token_bucket_limiter \<times> rate_limit_result" where
  "tb_check now wall key l =
     (let l1 = tb_sweep_expired now l;
          b = tb_touch l1 now (map_of (buckets l1) key);
          (b', r) = tb_consume l1 (wall + tb_window_secs l1) b
      in (l1\<lparr>buckets := AList.update key b' (buckets l1)\<rparr>, r))"

interpretation tb: swept_store "tb_expired secs" for secs
  by unfold_locales (auto simp: tb_expired_def)


section \<open>The limiter without a sweep\<close>

text \<open>
  The specification keeps every bucket. Its configuration is the limiter's own, so only the
  buckets differ: a map that is never swept.
\<close>

definition tb_spec_check ::
  "token_bucket_limiter \<Rightarrow> time \<Rightarrow> int \<Rightarrow> string \<Rightarrow> (string \<rightharpoonup> bucket)
   \<Rightarrow> (string \<rightharpoonup> bucket) \<times> rate_limit_result" where
  "tb_spec_check l now wall key m =
     (let (b, r) = tb_consume l (wall + tb_window_secs l) (tb_touch l now (m key))
      in (m(key \<mapsto> b), r))"

definition tb_config :: "token_bucket_limiter \<Rightarrow> bool" where
  "tb_config l \<longleftrightarrow> 1 \<le> max_tokens l \<and> 1 \<le> tb_window_secs l \<and>
     refill_rate l = of_int (max_tokens l) / of_int (tb_window_secs l)"

lemma tb_config_new: "tb_config (tb_new n s)"
  by (simp add: tb_config_def tb_new_def Let_def)

lemma tb_config_rate: "tb_config l \<Longrightarrow> 0 < refill_rate l"
  by (simp add: tb_config_def)

lemma tb_config_full:
  assumes "tb_config l" and "of_int (tb_window_secs l) \<le> d"
  shows "of_int (max_tokens l) \<le> d * refill_rate l"
proof -
  have "of_int (max_tokens l) = of_int (tb_window_secs l) * refill_rate l"
    using assms by (simp add: tb_config_def)
  also have "\<dots> \<le> d * refill_rate l"
    using assms(2) tb_config_rate [OF assms(1)] by (intro mult_right_mono) auto
  finally show ?thesis .
qed

definition bucket_ok :: "token_bucket_limiter \<Rightarrow> time \<Rightarrow> bucket \<Rightarrow> bool" where
  "bucket_ok l t b \<longleftrightarrow> 0 \<le> tokens b \<and> tokens b \<le> of_int (max_tokens l) \<and> last_seen b \<le> t"

lemma tb_touch_ok:
  assumes "tb_config l" and "\<And>b0. b = Some b0 \<Longrightarrow> bucket_ok l t b0" and "t \<le> now"
  shows "bucket_ok l now (tb_touch l now b)"
  using assms tb_config_rate [OF assms(1)]
  by (cases b) (auto simp: tb_touch_def bucket_ok_def tb_config_def)

lemma tb_consume_ok: "bucket_ok l t b \<Longrightarrow> bucket_ok l t (fst (tb_consume l r b))"
  by (auto simp: tb_consume_def bucket_ok_def Let_def)

text \<open>
  An idle bucket is as good as none: after a full window it has refilled completely.
\<close>

lemma tb_touch_idle:
  assumes "tb_config l" and "bucket_ok l t b" and "last_seen b + of_int (tb_window_secs l) \<le> now"
  shows "tb_touch l now (Some b) = tb_touch l now None"
proof -
  have "of_int (max_tokens l) \<le> (now - last_seen b) * refill_rate l"
    using assms by (intro tb_config_full) auto
  moreover have "now - last_seen b > 0"
    using assms by (simp add: tb_config_def)
  ultimately show ?thesis
    using assms(2) by (auto simp: tb_touch_def bucket_ok_def min_def)
qed

text \<open>Simulation: the two agree on every bucket that has not been idle for a window.\<close>

definition tb_rel :: "time \<Rightarrow> token_bucket_limiter \<Rightarrow> (string \<rightharpoonup> bucket) \<Rightarrow> bool" where
  "tb_rel t l m \<longleftrightarrow> keys_distinct (buckets l) \<and>
     (\<forall>k b. map_of (buckets l) k = Some b \<longrightarrow> m k = Some b) \<and>
     (\<forall>k b. m k = Some b \<longrightarrow> bucket_ok l t b \<and>
        (map_of (buckets l) k = None \<longrightarrow> last_seen b + of_int (tb_window_secs l) \<le> t))"

lemma tb_sweep_config [simp]:
  "max_tokens (tb_sweep_expired now l) = max_tokens l"
  "tb_window_secs (tb_sweep_expired now l) = tb_window_secs l"
  "refill_rate (tb_sweep_expired now l) = refill_rate l"
  by (simp_all add: tb_sweep_expired_def)

lemma tb_touch_sweep [simp]: "tb_touch (tb_sweep_expired now l) = tb_touch l"
  by (simp add: tb_touch_def fun_eq_iff split: option.splits)

lemma tb_consume_sweep [simp]: "tb_consume (tb_sweep_expired now l) = tb_consume l"
  by (simp add: tb_consume_def fun_eq_iff Let_def)

lemma tb_check_config [simp]:
  "max_tokens (fst (tb_check now wall k l)) = max_tokens l"
  "tb_window_secs (fst (tb_check now wall k l)) = tb_window_secs l"
  "refill_rate (fst (tb_check now wall k l)) = refill_rate l"
  by (simp_all add: tb_check_def Let_def case_prod_unfold)

lemma tb_check_bucket:
  assumes "tb_config l" and "tb_rel t l m" and "t \<le> now"
  shows "tb_touch l now (map_of (buckets (tb_sweep_expired now l)) key) = tb_touch l now (m key)"
proof -
  have d: "keys_distinct (buckets l)" using assms by (simp add: tb_rel_def)
  have look: "map_of (buckets (tb_sweep_expired now l)) key =
      (case map_of (buckets l) key of None \<Rightarrow> None
       | Some v \<Rightarrow> if tb_expired (tb_window_secs l) now v then None else Some v)"
    using d by (simp add: tb_sweep_expired_def map_of_sweep)
  show ?thesis
  proof (cases "m key")
    case None
    then have "map_of (buckets l) key = None"
      using assms(2) by (metis not_None_eq tb_rel_def)
    with None look show ?thesis by simp
  next
    case (Some b)
    have ok: "bucket_ok l t b" using Some assms(2) by (simp add: tb_rel_def)
    show ?thesis
    proof (cases "map_of (buckets (tb_sweep_expired now l)) key")
      case None
      have "last_seen b + of_int (tb_window_secs l) \<le> now"
      proof (cases "map_of (buckets l) key")
        case None
        with Some assms show ?thesis by (force simp: tb_rel_def)
      next
        case (Some b')
        with assms(2) \<open>m key = Some b\<close> have "b' = b" by (auto simp: tb_rel_def)
        with Some None look have "tb_expired (tb_window_secs l) now b"
          by (auto split: if_splits)
        then show ?thesis
          using assms(1) by (simp add: tb_expired_def SWEEP_IDLE_WINDOW_MULTIPLE_def tb_config_def)
      qed
      with tb_touch_idle [OF assms(1) ok] Some None show ?thesis by simp
    next
      case (Some b')
      with look have "map_of (buckets l) key = Some b'"
        by (auto split: option.splits if_splits)
      with Some assms(2) \<open>m key = Some b\<close> show ?thesis by (auto simp: tb_rel_def)
    qed
  qed
qed

lemma tb_check_simulates:
  assumes "tb_config l" and "tb_rel t l m" and "t \<le> now"
  shows "snd (tb_check now wall key l) = snd (tb_spec_check l now wall key m)"
    and "tb_rel now (fst (tb_check now wall key l)) (fst (tb_spec_check l now wall key m))"
proof -
  note b = tb_check_bucket [OF assms, of key]
  show "snd (tb_check now wall key l) = snd (tb_spec_check l now wall key m)"
    by (simp add: tb_check_def tb_spec_check_def Let_def case_prod_unfold b)
  let ?b = "fst (tb_consume l (wall + tb_window_secs l) (tb_touch l now (m key)))"
  have d: "keys_distinct (buckets l)" using assms by (simp add: tb_rel_def)
  have ok: "bucket_ok l now ?b"
    using assms by (intro tb_consume_ok tb_touch_ok [where t = t]) (auto simp: tb_rel_def)
  have look: "map_of (buckets (fst (tb_check now wall key l))) k =
      (if k = key then Some ?b else
       (case map_of (buckets l) k of None \<Rightarrow> None
        | Some v \<Rightarrow> if tb_expired (tb_window_secs l) now v then None else Some v))" for k
    using d by (simp add: tb_check_def Let_def case_prod_unfold b)
      (simp add: tb_sweep_expired_def map_of_sweep)
  have m': "fst (tb_spec_check l now wall key m) = m(key \<mapsto> ?b)"
    by (simp add: tb_spec_check_def case_prod_unfold Let_def)
  have ok': "bucket_ok (fst (tb_check now wall key l)) = bucket_ok l"
    by (simp add: bucket_ok_def fun_eq_iff)
  have dist: "keys_distinct (buckets (fst (tb_check now wall key l)))"
    using d by (simp add: tb_check_def Let_def case_prod_unfold tb_sweep_expired_def)
  have idle: "last_seen b + of_int (tb_window_secs l) \<le> now"
    if "k \<noteq> key" "m k = Some b" "map_of (buckets (fst (tb_check now wall key l))) k = None" for k b
  proof (cases "map_of (buckets l) k")
    case None
    with that assms show ?thesis by (force simp: tb_rel_def)
  next
    case (Some b')
    with assms(2) that have "b' = b" by (auto simp: tb_rel_def)
    with Some that look [of k] have "tb_expired (tb_window_secs l) now b"
      by (auto split: if_splits)
    then show ?thesis
      using assms(1) by (simp add: tb_expired_def SWEEP_IDLE_WINDOW_MULTIPLE_def tb_config_def)
  qed
  have keep: "bucket_ok l now b" if "m k = Some b" for k b
    using assms that by (force simp: tb_rel_def bucket_ok_def)
  show "tb_rel now (fst (tb_check now wall key l)) (fst (tb_spec_check l now wall key m))"
    using assms(2) dist ok idle keep unfolding tb_rel_def m' ok'
    by (auto simp: look split: option.splits if_splits)
qed

fun tb_run :: "token_bucket_limiter \<Rightarrow> (time \<times> int \<times> string) list \<Rightarrow> rate_limit_result list" where
  "tb_run l [] = []"
| "tb_run l ((now, wall, k) # xs) = (let (l', r) = tb_check now wall k l in r # tb_run l' xs)"

fun tb_spec_run :: "token_bucket_limiter \<Rightarrow> (string \<rightharpoonup> bucket) \<Rightarrow> (time \<times> int \<times> string) list
    \<Rightarrow> rate_limit_result list" where
  "tb_spec_run l m [] = []"
| "tb_spec_run l m ((now, wall, k) # xs) =
     (let (m', r) = tb_spec_check l now wall k m in r # tb_spec_run l m' xs)"

lemma tb_spec_run_config:
  assumes "max_tokens l' = max_tokens l" and "tb_window_secs l' = tb_window_secs l"
    and "refill_rate l' = refill_rate l"
  shows "tb_spec_run l' m xs = tb_spec_run l m xs"
proof -
  have "tb_spec_check l' = tb_spec_check l"
    using assms by (simp add: tb_spec_check_def tb_consume_def tb_touch_def fun_eq_iff
        split: option.splits)
  then show ?thesis by (induction xs arbitrary: m) (auto simp: Let_def case_prod_unfold)
qed

lemma tb_run_simulates:
  "tb_config l \<Longrightarrow> tb_rel t l m \<Longrightarrow> nondecreasing t (map fst xs) \<Longrightarrow> tb_run l xs = tb_spec_run l m xs"
proof (induction xs arbitrary: t l m)
  case Nil
  then show ?case by simp
next
  case (Cons x xs)
  obtain now wall k where x: "x = (now, wall, k)" by (cases x) auto
  from Cons.prems x have "t \<le> now" "nondecreasing now (map fst xs)" by auto
  note sim = tb_check_simulates [OF Cons.prems(1,2) \<open>t \<le> now\<close>, of wall k]
  let ?l' = "fst (tb_check now wall k l)"
  have "tb_run ?l' xs = tb_spec_run ?l' (fst (tb_spec_check l now wall k m)) xs"
    using Cons.prems sim(2) \<open>nondecreasing now (map fst xs)\<close>
    by (intro Cons.IH) (auto simp: tb_config_def)
  with sim(1) x show ?case
    by (simp add: case_prod_unfold Let_def tb_spec_run_config [of ?l' l])
qed

lemma tb_rel_new: "tb_rel t (tb_new n s) Map.empty"
  by (simp add: tb_rel_def tb_new_def Let_def)


section \<open>How much a key can be admitted\<close>

fun tb_admitted :: "string \<Rightarrow> (time \<times> int \<times> string) list \<Rightarrow> rate_limit_result list \<Rightarrow> int" where
  "tb_admitted key ((now, wall, k) # xs) (r # rs) =
     (if k = key \<and> rl_allowed r then 1 else 0) + tb_admitted key xs rs"
| "tb_admitted key _ _ = 0"

definition tb_level :: "token_bucket_limiter \<Rightarrow> time \<Rightarrow> bucket option \<Rightarrow> rat" where
  "tb_level l now b = tokens (tb_touch l now b)"

lemma tb_level_grows:
  assumes "tb_config l" and "now \<le> now'" and "\<And>b0. b = Some b0 \<Longrightarrow> bucket_ok l t b0 \<and> t \<le> now"
  shows "tb_level l now' b \<le> tb_level l now b + (now' - now) * refill_rate l"
proof (cases b)
  case None
  then show ?thesis
    using assms tb_config_rate [OF assms(1)] by (simp add: tb_level_def tb_touch_def)
next
  case (Some b0)
  with assms have b0: "bucket_ok l t b0" "t \<le> now" by auto
  have "(now' - last_seen b0) * refill_rate l =
      (now - last_seen b0) * refill_rate l + (now' - now) * refill_rate l"
    by (simp add: algebra_simps)
  moreover have "0 \<le> (now' - now) * refill_rate l" "0 \<le> (now - last_seen b0) * refill_rate l"
    using assms b0 tb_config_rate [OF assms(1)] by (auto simp: bucket_ok_def)
  ultimately show ?thesis
    using Some b0 assms(2)
    by (cases "last_seen b0 = now") (auto simp: tb_level_def tb_touch_def bucket_ok_def min_def)
qed

lemma tb_spec_level:
  assumes "tb_config l" and "\<And>k b. m k = Some b \<Longrightarrow> bucket_ok l t b" and "t \<le> now"
  shows "(if k = key \<and> rl_allowed (snd (tb_spec_check l now wall k m)) then 1 else 0)
    + tb_level l now (fst (tb_spec_check l now wall k m) key) \<le> tb_level l now (m key)"
proof (cases "k = key")
  case True
  then show ?thesis
    by (simp add: tb_spec_check_def Let_def case_prod_unfold tb_level_def tb_consume_def
        tb_touch_def [of l now "Some _"]) (simp add: tb_touch_def split: option.splits)
next
  case False
  then show ?thesis by (simp add: tb_spec_check_def Let_def case_prod_unfold)
qed

lemma tb_spec_check_ok:
  assumes "tb_config l" and "\<And>k b. m k = Some b \<Longrightarrow> bucket_ok l t b" and "t \<le> now"
    and "fst (tb_spec_check l now wall k m) k' = Some b"
  shows "bucket_ok l now b"
proof (cases "k' = k")
  case True
  with assms(4) have "b = fst (tb_consume l (wall + tb_window_secs l) (tb_touch l now (m k)))"
    by (simp add: tb_spec_check_def Let_def case_prod_unfold)
  with assms(1-3) show ?thesis by (auto intro!: tb_consume_ok tb_touch_ok [where t = t])
next
  case False
  with assms(4) have "m k' = Some b"
    by (simp add: tb_spec_check_def Let_def case_prod_unfold)
  with assms(2,3) show ?thesis by (force simp: bucket_ok_def)
qed

lemma tb_spec_admitted:
  "tb_config l \<Longrightarrow> (\<And>k b. m k = Some b \<Longrightarrow> bucket_ok l t b) \<Longrightarrow> t \<le> now \<Longrightarrow>
   nondecreasing now (map fst xs) \<Longrightarrow> (\<And>x. x \<in> set xs \<Longrightarrow> fst x \<le> t1) \<Longrightarrow> now \<le> t1 \<Longrightarrow>
   of_int (tb_admitted key xs (tb_spec_run l m xs))
     \<le> tb_level l now (m key) + (t1 - now) * refill_rate l"
proof (induction xs arbitrary: m t now)
  case Nil
  have "bucket_ok l now (tb_touch l now (m key))"
    using Nil.prems by (intro tb_touch_ok [where t = t]) auto
  moreover have "0 \<le> (t1 - now) * refill_rate l"
    using Nil.prems tb_config_rate [OF Nil.prems(1)] by simp
  ultimately show ?case by (simp add: tb_level_def bucket_ok_def)
next
  case (Cons x xs)
  obtain u wall k where x: "x = (u, wall, k)" by (cases x) auto
  let ?m = "fst (tb_spec_check l u wall k m)" and ?r = "snd (tb_spec_check l u wall k m)"
  have u1: "u \<le> t1" using Cons.prems(5) [of x] x by simp
  from Cons.prems(1-4) x have u: "t \<le> u" "now \<le> u" "nondecreasing u (map fst xs)" by auto
  have "of_int (tb_admitted key xs (tb_spec_run l ?m xs))
      \<le> tb_level l u (?m key) + (t1 - u) * refill_rate l"
    using Cons.prems(1,5) u u1 tb_spec_check_ok [OF Cons.prems(1,2) u(1)]
    by (intro Cons.IH [where t = u]) auto
  moreover have "(if k = key \<and> rl_allowed ?r then 1 else 0) + tb_level l u (?m key)
      \<le> tb_level l u (m key)"
    using Cons.prems(1,2) u(1) by (rule tb_spec_level)
  moreover have "tb_level l u (m key) \<le> tb_level l now (m key) + (u - now) * refill_rate l"
    using Cons.prems u(2) by (intro tb_level_grows [where t = t]) auto
  ultimately show ?case
    by (auto simp: x Let_def case_prod_unfold algebra_simps split: if_splits)
qed


section \<open>Properties\<close>

text \<open>
  Sweeping is invisible: on every sequence of checks with a non-decreasing clock, the
  limiter that deletes idle buckets answers exactly as one that keeps every bucket for
  ever, as the module documentation claims.
\<close>

theorem token_bucket_sweep_invisible:
  assumes "nondecreasing t (map fst xs)"
  shows "tb_run (tb_new n s) xs = tb_spec_run (tb_new n s) Map.empty xs"
  using tb_config_new tb_rel_new assms by (rule tb_run_simulates)

theorem token_bucket_sweep_invisible_witness:
  "map rl_allowed (tb_run (tb_new 1 10) [(0, 0, ''k''), (9, 9, ''k''), (29, 29, ''k'')])
   = [True, False, True]"
proof -
  have "tb_run (tb_new 1 10) [(0, 0, ''k''), (9, 9, ''k''), (29, 29, ''k'')]
      = tb_spec_run (tb_new 1 10) Map.empty [(0, 0, ''k''), (9, 9, ''k''), (29, 29, ''k'')]"
    by (rule token_bucket_sweep_invisible [where t = 0]) simp
  then show ?thesis
    by (simp add: tb_spec_check_def tb_new_def tb_touch_def tb_consume_def Let_def)
qed

text \<open>
  Admission bound: in any run of checks with a non-decreasing clock that stays within
  \<open>[t0, t1]\<close>, from a fresh limiter, a key is admitted at most \<open>max_tokens\<close> plus the refill
  rate times \<open>t1 - t0\<close> times.
\<close>

theorem token_bucket_admission_bound:
  assumes "nondecreasing t0 (map fst xs)" and "\<forall>x \<in> set xs. fst x \<le> t1" and "t0 \<le> t1"
  shows "of_int (tb_admitted key xs (tb_run (tb_new n s) xs))
    \<le> of_int (max_tokens (tb_new n s)) + (t1 - t0) * refill_rate (tb_new n s)"
proof -
  have "of_int (tb_admitted key xs (tb_spec_run (tb_new n s) Map.empty xs))
      \<le> tb_level (tb_new n s) t0 None + (t1 - t0) * refill_rate (tb_new n s)"
    using tb_spec_admitted [OF tb_config_new, of Map.empty n s t0 t0 xs t1 key] assms by auto
  then show ?thesis
    using tb_run_simulates [OF tb_config_new tb_rel_new assms(1)]
    by (simp add: tb_level_def tb_touch_def)
qed

theorem token_bucket_admission_bound_witness:
  "tb_admitted ''k'' [(0, 0, ''k''), (5, 5, ''k''), (10, 10, ''k'')]
      (tb_run (tb_new 1 10) [(0, 0, ''k''), (5, 5, ''k''), (10, 10, ''k'')]) \<le> 2"
proof -
  have "of_int (tb_admitted ''k'' [(0, 0, ''k''), (5, 5, ''k''), (10, 10, ''k'')]
      (tb_run (tb_new 1 10) [(0, 0, ''k''), (5, 5, ''k''), (10, 10, ''k'')]))
    \<le> (of_int (max_tokens (tb_new 1 10)) + (10 - 0) * refill_rate (tb_new 1 10) :: rat)"
    by (rule token_bucket_admission_bound) simp_all
  then show ?thesis by (simp add: tb_new_def)
qed

text \<open>
  The \<open>retry_after\<close> of a refusal is honest: a key that waits that many seconds without
  another check of its own is admitted.
\<close>

theorem token_bucket_retry_after_enough:
  assumes "\<not> rl_allowed (snd (tb_check now wall key l))"
    and "rl_retry_after (snd (tb_check now wall key l)) = Some r"
    and "tb_config l" and "keys_distinct (buckets l)"
    and "now + of_int r \<le> now'"
  shows "rl_allowed (snd (tb_check now' wall' key (fst (tb_check now wall key l))))"
proof -
  let ?l' = "fst (tb_check now wall key l)"
  define b where "b = tb_touch l now (map_of (buckets (tb_sweep_expired now l)) key)"
  have b: "tokens b < 1" "last_seen b = now" "r = max 1 \<lceil>(1 - tokens b) / refill_rate l\<rceil>"
    using assms(1,2) unfolding b_def
    by (auto simp: tb_check_def tb_consume_def tb_touch_def Let_def case_prod_unfold
        split: if_splits option.splits)
  have look: "map_of (buckets ?l') key = Some b"
    using assms(1) b by (simp add: tb_check_def Let_def case_prod_unfold b_def [symmetric] tb_consume_def)
  have d: "keys_distinct (buckets ?l')"
    using assms(4) by (simp add: tb_check_def Let_def case_prod_unfold tb_sweep_expired_def)
  have rate: "0 < refill_rate l" and one: "1 \<le> max_tokens l"
    using assms(3) tb_config_rate by (auto simp: tb_config_def)
  have "(1 - tokens b) / refill_rate l \<le> of_int r" using b(3) by linarith
  then have "1 - tokens b \<le> of_int r * refill_rate l" using rate by (simp add: field_simps)
  also have "\<dots> \<le> (now' - last_seen b) * refill_rate l"
    using assms(5) b(2) rate by (intro mult_right_mono) auto
  finally have full: "1 \<le> tokens b + (now' - last_seen b) * refill_rate l" by simp
  have later: "now' - last_seen b > 0" using b assms(5) by linarith
  have "1 \<le> tokens (tb_touch ?l' now' (map_of (buckets (tb_sweep_expired now' ?l')) key))"
    using look d full later one
    by (auto simp: tb_touch_def tb_sweep_expired_def map_of_sweep split: option.splits if_splits)
  then show ?thesis
    by (simp add: tb_check_def [of now'] tb_consume_def Let_def case_prod_unfold)
qed

theorem token_bucket_retry_after_enough_witness:
  "rl_allowed (snd (tb_check 10 10 ''k'' (fst (tb_check 1 1 ''k''
     (fst (tb_check 0 0 ''k'' (tb_new 1 10)))))))"
proof (rule token_bucket_retry_after_enough [where r = 9])
  let ?l = "fst (tb_check 0 0 ''k'' (tb_new 1 10))"
  have l: "?l = \<lparr>max_tokens = 1, tb_window_secs = 10, refill_rate = 1 / 10,
      buckets = [(''k'', \<lparr>tokens = 0, last_seen = 0\<rparr>)]\<rparr>"
    by (simp add: tb_check_def tb_new_def tb_sweep_expired_def sweep_def tb_touch_def
        tb_consume_def Let_def)
  have r: "snd (tb_check 1 1 ''k'' ?l) =
      \<lparr>rl_allowed = False, rl_remaining = 0, rl_limit = 1, rl_reset_at = 11, rl_retry_after = Some 9\<rparr>"
    unfolding l by (simp add: tb_check_def tb_sweep_expired_def sweep_def tb_touch_def
        tb_consume_def Let_def tb_expired_def SWEEP_IDLE_WINDOW_MULTIPLE_def)
  show "\<not> rl_allowed (snd (tb_check 1 1 ''k'' ?l))" by (simp add: r)
  show "rl_retry_after (snd (tb_check 1 1 ''k'' ?l)) = Some 9" by (simp add: r)
  show "tb_config ?l" by (simp add: l tb_config_def)
  show "keys_distinct (buckets ?l)" by (simp add: l keys_distinct_def)
  show "(1 :: time) + of_int 9 \<le> 10" by simp
qed

end
