(* ===== verification/Resilience.thy ===== *)
theory Resilience
  imports Prelude
begin

text \<open>
  \<^verbatim>\<open>services/resilience.py\<close>: the consecutive-failure circuit breaker and the concurrency
  limiter. Their coroutines contain no suspension point between reading and writing the
  state (an uncontended \<open>asyncio.Lock\<close> does not yield), so each call is one atomic step;
  concurrency is the interleaving of those steps.
\<close>

section \<open>CircuitBreaker\<close>

datatype circuit_state = CLOSED | OPEN | HALF_OPEN

record circuit_breaker =
  failure_threshold :: int
  success_threshold :: int
  open_secs :: int
  half_open_max_probes :: int
  cb_cur_state :: circuit_state
  consecutive_failures :: int
  consecutive_successes :: int
  opened_at :: "time option"
  probes_in_use :: int
  total_trips :: int

definition cb_new :: "int \<Rightarrow> int \<Rightarrow> int \<Rightarrow> int \<Rightarrow> circuit_breaker" where
  "cb_new failures successes secs probes =
     \<lparr>failure_threshold = max 1 failures, success_threshold = max 1 successes,
      open_secs = max 1 secs, half_open_max_probes = max 1 probes,
      cb_cur_state = CLOSED, consecutive_failures = 0, consecutive_successes = 0,
      opened_at = None, probes_in_use = 0, total_trips = 0\<rparr>"

definition cb_state :: "time \<Rightarrow> circuit_breaker \<Rightarrow> circuit_breaker" where
  \<comment> \<open>\<open>state()\<close>: the read with its lazy transition; the state read is \<open>cb_cur_state\<close> of the result\<close>
  "cb_state now cb =
     (case opened_at cb of
        Some t \<Rightarrow>
          if cb_cur_state cb = OPEN \<and> now - t \<ge> of_int (open_secs cb)
          then cb\<lparr>cb_cur_state := HALF_OPEN, probes_in_use := 0, consecutive_successes := 0\<rparr>
          else cb
      | None \<Rightarrow> cb)"

definition cb_open :: "time \<Rightarrow> circuit_breaker \<Rightarrow> circuit_breaker" where
  "cb_open now cb =
     cb\<lparr>cb_cur_state := OPEN, opened_at := Some now, consecutive_failures := 0,
        consecutive_successes := 0, probes_in_use := 0, total_trips := total_trips cb + 1\<rparr>"

definition cb_close :: "circuit_breaker \<Rightarrow> circuit_breaker" where
  "cb_close cb =
     cb\<lparr>cb_cur_state := CLOSED, opened_at := None, consecutive_failures := 0,
        consecutive_successes := 0, probes_in_use := 0\<rparr>"

definition cb_allow_request :: "time \<Rightarrow> circuit_breaker \<Rightarrow> circuit_breaker \<times> bool" where
  "cb_allow_request now cb =
     (let cb1 = cb_state now cb
      in case cb_cur_state cb1 of
           CLOSED \<Rightarrow> (cb1, True)
         | OPEN \<Rightarrow> (cb1, False)
         | HALF_OPEN \<Rightarrow>
             if probes_in_use cb1 \<ge> half_open_max_probes cb1 then (cb1, False)
             else (cb1\<lparr>probes_in_use := probes_in_use cb1 + 1\<rparr>, True))"

definition cb_record_success :: "time \<Rightarrow> circuit_breaker \<Rightarrow> circuit_breaker" where
  "cb_record_success now cb =
     (let cb1 = cb_state now cb
      in case cb_cur_state cb1 of
           HALF_OPEN \<Rightarrow>
             (let cb2 = cb1\<lparr>probes_in_use := max 0 (probes_in_use cb1 - 1),
                            consecutive_successes := consecutive_successes cb1 + 1\<rparr>
              in if consecutive_successes cb2 \<ge> success_threshold cb2 then cb_close cb2 else cb2)
         | CLOSED \<Rightarrow> cb1\<lparr>consecutive_failures := 0\<rparr>
         | OPEN \<Rightarrow> cb1)"

definition cb_record_failure :: "time \<Rightarrow> circuit_breaker \<Rightarrow> circuit_breaker" where
  "cb_record_failure now cb =
     (let cb1 = cb_state now cb
      in case cb_cur_state cb1 of
           HALF_OPEN \<Rightarrow>
             cb_open now (cb1\<lparr>probes_in_use := max 0 (probes_in_use cb1 - 1)\<rparr>)
         | CLOSED \<Rightarrow>
             (let cb2 = cb1\<lparr>consecutive_failures := consecutive_failures cb1 + 1\<rparr>
              in if consecutive_failures cb2 \<ge> failure_threshold cb2 then cb_open now cb2 else cb2)
         | OPEN \<Rightarrow> cb1)"

lemmas cb_defs = cb_state_def cb_open_def cb_close_def cb_allow_request_def
  cb_record_success_def cb_record_failure_def


section \<open>The breaker as a state machine\<close>

datatype cb_event = Allow bool | Success | Failure

text \<open>One step: some request calls one of the three operations at some time.\<close>

inductive cb_step :: "circuit_breaker \<Rightarrow> time \<Rightarrow> cb_event \<Rightarrow> circuit_breaker \<Rightarrow> bool" where
  allow: "cb_allow_request now cb = (cb', ok) \<Longrightarrow> cb_step cb now (Allow ok) cb'"
| success: "cb_record_success now cb = cb' \<Longrightarrow> cb_step cb now Success cb'"
| failure: "cb_record_failure now cb = cb' \<Longrightarrow> cb_step cb now Failure cb'"

inductive_cases cb_allowE: "cb_step cb now (Allow ok) cb'"
inductive_cases cb_stepE: "cb_step cb now e cb'"
inductive_simps cb_step_success [simp]: "cb_step cb now Success cb'"
inductive_simps cb_step_failure [simp]: "cb_step cb now Failure cb'"

inductive cb_reachable :: "circuit_breaker \<Rightarrow> bool" where
  start: "cb_reachable (cb_new failures successes secs probes)"
| step: "cb_reachable cb \<Longrightarrow> cb_step cb now e cb' \<Longrightarrow> cb_reachable cb'"

definition cb_inv :: "circuit_breaker \<Rightarrow> bool" where
  "cb_inv cb \<longleftrightarrow>
     1 \<le> failure_threshold cb \<and> 1 \<le> success_threshold cb \<and> 1 \<le> open_secs cb \<and>
     1 \<le> half_open_max_probes cb \<and>
     0 \<le> consecutive_failures cb \<and> consecutive_failures cb < failure_threshold cb \<and>
     0 \<le> consecutive_successes cb \<and> consecutive_successes cb < success_threshold cb \<and>
     0 \<le> probes_in_use cb \<and> probes_in_use cb \<le> half_open_max_probes cb \<and>
     (opened_at cb = None) = (cb_cur_state cb = CLOSED) \<and>
     (cb_cur_state cb \<noteq> HALF_OPEN \<longrightarrow> probes_in_use cb = 0 \<and> consecutive_successes cb = 0)"

lemma cb_inv_new: "cb_inv (cb_new a b c d)"
  by (auto simp: cb_inv_def cb_new_def)

lemma cb_state_inv: "cb_inv cb \<Longrightarrow> cb_inv (cb_state now cb)"
  by (auto simp: cb_inv_def cb_state_def split: option.splits)

lemma cb_open_inv: "cb_inv cb \<Longrightarrow> cb_inv (cb_open now cb)"
  by (simp add: cb_inv_def cb_open_def)

lemma cb_close_inv: "cb_inv cb \<Longrightarrow> cb_inv (cb_close cb)"
  by (simp add: cb_inv_def cb_close_def)

lemma cb_allow_inv: "cb_inv cb \<Longrightarrow> cb_inv (fst (cb_allow_request now cb))"
  using cb_state_inv [of cb now]
  by (auto simp: cb_allow_request_def Let_def cb_inv_def split: circuit_state.splits)

lemma cb_success_inv: "cb_inv cb \<Longrightarrow> cb_inv (cb_record_success now cb)"
  using cb_state_inv [of cb now]
  by (auto simp: cb_record_success_def Let_def cb_inv_def cb_close_def split: circuit_state.splits)

lemma cb_failure_inv: "cb_inv cb \<Longrightarrow> cb_inv (cb_record_failure now cb)"
  using cb_state_inv [of cb now]
  by (auto simp: cb_record_failure_def Let_def cb_inv_def cb_open_def split: circuit_state.splits)

lemma cb_step_inv: "cb_step cb now e cb' \<Longrightarrow> cb_inv cb \<Longrightarrow> cb_inv cb'"
  by (induction rule: cb_step.induct)
    (metis cb_allow_inv fst_conv, metis cb_success_inv, metis cb_failure_inv)

lemma cb_reachable_inv: "cb_reachable cb \<Longrightarrow> cb_inv cb"
  by (induction rule: cb_reachable.induct) (auto intro: cb_inv_new cb_step_inv)


section \<open>Runs while nothing has tripped\<close>

fun cb_outcomes :: "circuit_breaker \<Rightarrow> (time \<times> bool) list \<Rightarrow> circuit_breaker" where
  \<comment> \<open>recorded outcomes in order, \<open>True\<close> for a success\<close>
  "cb_outcomes cb [] = cb"
| "cb_outcomes cb ((now, ok) # os) =
     cb_outcomes (if ok then cb_record_success now cb else cb_record_failure now cb) os"

definition trailing_failures :: "bool list \<Rightarrow> int" where
  "trailing_failures os = int (length (takeWhile Not (rev os)))"

lemma trailing_failures_snoc:
  "trailing_failures (os @ [ok]) = (if ok then 0 else trailing_failures os + 1)"
  by (simp add: trailing_failures_def)

lemma cb_outcomes_snoc:
  "cb_outcomes cb (os @ [(now, ok)]) =
   (if ok then cb_record_success now (cb_outcomes cb os)
    else cb_record_failure now (cb_outcomes cb os))"
  by (induction os arbitrary: cb) auto

lemma cb_closed_record:
  assumes "cb_cur_state cb = CLOSED" and "opened_at cb = None"
  shows "cb_record_success now cb = cb\<lparr>consecutive_failures := 0\<rparr>"
    and "cb_record_failure now cb =
      (if consecutive_failures cb + 1 \<ge> failure_threshold cb
       then cb_open now (cb\<lparr>consecutive_failures := consecutive_failures cb + 1\<rparr>)
       else cb\<lparr>consecutive_failures := consecutive_failures cb + 1\<rparr>)"
  using assms by (simp_all add: cb_record_success_def cb_record_failure_def cb_state_def Let_def)

lemma cb_new_config:
  "cb_cur_state (cb_new a b c d) = CLOSED" "opened_at (cb_new a b c d) = None"
  "failure_threshold (cb_new a b c d) = max 1 a"
  by (simp_all add: cb_new_def)

lemma cb_stays_closed:
  assumes "\<And>n. n \<le> length os \<Longrightarrow> trailing_failures (map snd (take n os)) < max 1 failures"
  shows "cb_outcomes (cb_new failures successes secs probes) os =
    (cb_new failures successes secs probes)
      \<lparr>consecutive_failures := trailing_failures (map snd os)\<rparr>"
  using assms
proof (induction os rule: rev_induct)
  case Nil
  then show ?case by (simp add: trailing_failures_def cb_new_def)
next
  case (snoc x os)
  obtain now ok where x: "x = (now, ok)" by fastforce
  let ?cb = "cb_outcomes (cb_new failures successes secs probes) os"
  have cb: "?cb = (cb_new failures successes secs probes)
      \<lparr>consecutive_failures := trailing_failures (map snd os)\<rparr>"
  proof (rule snoc.IH)
    fix n
    assume "n \<le> length os"
    with snoc.prems [of n] show "trailing_failures (map snd (take n os)) < max 1 failures" by simp
  qed
  have "trailing_failures (map snd os @ [ok]) < max 1 failures"
    using snoc.prems [of "Suc (length os)"] x by simp
  then have "\<not> ok \<longrightarrow> trailing_failures (map snd os) + 1 < max 1 failures"
    by (auto simp: trailing_failures_snoc)
  then show ?case
    unfolding x cb_outcomes_snoc cb
    by (cases ok) (auto simp: cb_closed_record cb_new_config trailing_failures_snoc)
qed


section \<open>ConcurrencyLimiter\<close>

record concurrency_limiter =
  max_concurrent :: int
  in_flight :: int
  rejected_total :: int

definition cl_new :: "int \<Rightarrow> concurrency_limiter" where
  "cl_new n = \<lparr>max_concurrent = max 1 n, in_flight = 0, rejected_total = 0\<rparr>"

definition cl_try_acquire :: "concurrency_limiter \<Rightarrow> concurrency_limiter \<times> bool" where
  "cl_try_acquire l =
     (if in_flight l \<ge> max_concurrent l
      then (l\<lparr>rejected_total := rejected_total l + 1\<rparr>, False)
      else (l\<lparr>in_flight := in_flight l + 1\<rparr>, True))"

definition cl_release :: "concurrency_limiter \<Rightarrow> concurrency_limiter" where
  "cl_release l = (if in_flight l > 0 then l\<lparr>in_flight := in_flight l - 1\<rparr> else l)"

definition cl_available_permits :: "concurrency_limiter \<Rightarrow> int" where
  "cl_available_permits l = max_concurrent l - in_flight l"

text \<open>
  Requests that hold a permit release it once; \<open>holders\<close> is the list of the requests
  currently inside. Requests come and go in any order.
\<close>

inductive cl_reach :: "concurrency_limiter \<Rightarrow> nat list \<Rightarrow> bool" where
  init: "cl_reach (cl_new n) []"
| admit: "cl_reach l hs \<Longrightarrow> cl_try_acquire l = (l', True) \<Longrightarrow> cl_reach l' (r # hs)"
| reject: "cl_reach l hs \<Longrightarrow> cl_try_acquire l = (l', False) \<Longrightarrow> cl_reach l' hs"
| finish: "cl_reach l hs \<Longrightarrow> r \<in> set hs \<Longrightarrow> cl_reach (cl_release l) (remove1 r hs)"

lemma cl_reach_inv:
  "cl_reach l hs \<Longrightarrow> 1 \<le> max_concurrent l \<and> in_flight l = int (length hs) \<and>
     in_flight l \<le> max_concurrent l"
proof (induction rule: cl_reach.induct)
  case (finish l hs r)
  then have "hs \<noteq> []" by auto
  then have "1 \<le> length hs" by (simp add: Suc_leI)
  with finish \<open>hs \<noteq> []\<close> show ?case by (simp add: cl_release_def length_remove1 of_nat_diff)
qed (auto simp: cl_new_def cl_try_acquire_def split: if_splits)


section \<open>Properties\<close>

text \<open>
  In every reachable state of the circuit breaker its bookkeeping is consistent: the
  counters stay below their thresholds, at most \<open>half_open_max_probes\<close> slots are taken,
  \<open>opened_at\<close> is set exactly outside CLOSED, and slots are held in HALF_OPEN only.
\<close>

theorem circuit_breaker_invariant:
  assumes "cb_reachable cb"
  shows "cb_inv cb"
  using assms by (rule cb_reachable_inv)

theorem circuit_breaker_invariant_witness:
  "cb_inv (cb_record_failure 7 (cb_new 1 1 30 3))"
  by (rule circuit_breaker_invariant, rule cb_reachable.step [OF cb_reachable.start])
    (rule cb_step.failure, rule refl)

text \<open>
  An open circuit rejects: in a reachable state that is OPEN, no request is admitted
  before \<open>open_secs\<close> have passed since it opened, and the attempt changes nothing; after
  that the next request is admitted as a probe.
\<close>

theorem open_circuit_rejects:
  assumes "cb_reachable cb" and "cb_cur_state cb = OPEN" and "opened_at cb = Some t"
  shows "cb_allow_request now cb =
    (if now < t + of_int (open_secs cb) then (cb, False)
     else (cb\<lparr>cb_cur_state := HALF_OPEN, probes_in_use := 1, consecutive_successes := 0\<rparr>, True))"
  using assms(2,3) cb_reachable_inv [OF assms(1)]
  by (auto simp: cb_allow_request_def cb_state_def Let_def cb_inv_def)

theorem open_circuit_rejects_witness:
  "cb_allow_request 36 (cb_record_failure 7 (cb_new 1 1 30 3)) =
     (cb_record_failure 7 (cb_new 1 1 30 3), False)"
proof -
  let ?cb = "cb_record_failure 7 (cb_new 1 1 30 3)"
  have "cb_reachable ?cb"
    by (rule cb_reachable.step [OF cb_reachable.start], rule cb_step.failure, rule refl)
  moreover have "cb_cur_state ?cb = OPEN" "opened_at ?cb = Some 7" "open_secs ?cb = 30"
    by (simp_all add: cb_defs cb_new_def)
  ultimately show ?thesis using open_circuit_rejects [of ?cb 7 36] by simp
qed

text \<open>
  The breaker trips exactly at the threshold: it stays closed, and admits, as long as no
  run of \<open>failure_threshold\<close> failures without a success in between has been recorded; the
  failure that completes such a run opens it.
\<close>

theorem circuit_trips_at_threshold:
  assumes "\<And>n. n \<le> length os \<Longrightarrow> trailing_failures (map snd (take n os)) < max 1 failures"
  shows "snd (cb_allow_request now (cb_outcomes (cb_new failures successes secs probes) os)) \<and>
    cb_cur_state (cb_outcomes (cb_new failures successes secs probes) (os @ [(now, False)])) =
      (if trailing_failures (map snd os) + 1 < max 1 failures then CLOSED else OPEN)"
proof
  let ?new = "cb_new failures successes secs probes"
  have cb: "cb_outcomes ?new os = ?new\<lparr>consecutive_failures := trailing_failures (map snd os)\<rparr>"
    using assms by (rule cb_stays_closed)
  show "snd (cb_allow_request now (cb_outcomes ?new os))"
    unfolding cb by (simp add: cb_new_config cb_allow_request_def cb_state_def)
  show "cb_cur_state (cb_outcomes (cb_new failures successes secs probes) (os @ [(now, False)])) =
      (if trailing_failures (map snd os) + 1 < max 1 failures then CLOSED else OPEN)"
    unfolding cb_outcomes_snoc cb by (auto simp: cb_closed_record cb_new_config cb_open_def)
qed

theorem circuit_trips_at_threshold_witness:
  "cb_cur_state (cb_outcomes (cb_new 2 1 30 1) [(0, False), (1, True), (2, False), (3, False)]) = OPEN"
proof -
  let ?os = "[(0, False), (1, True), (2, False)]"
  have "trailing_failures (map snd (take n ?os)) < max 1 2" if "n \<le> length ?os" for n
  proof -
    from that have "n = 0 \<or> n = 1 \<or> n = 2 \<or> n = 3" by auto
    then show ?thesis by (elim disjE) (simp_all add: trailing_failures_def eval_nat_numeral)
  qed
  from circuit_trips_at_threshold [of ?os 2, OF this, of 3 1 30 1] show ?thesis
    by (simp add: trailing_failures_def)
qed

text \<open>
  Half-open admission is not bounded by the slot count alone: a request admitted while the
  circuit was closed and finishing in HALF_OPEN gives back a slot it never took. With one
  probe slot, two probes can be in flight at once: the documentation of \<open>allow_request\<close>
  promises at most \<open>half_open_max_probes\<close> concurrent callers.
\<close>

theorem half_open_slot_released_by_stale_request:
  "let cb0 = cb_new 1 2 30 1;
       (cb1, stale) = cb_allow_request 0 cb0;
       cb2 = cb_record_failure 1 cb1;
       (cb3, probe1) = cb_allow_request 31 cb2;
       cb4 = cb_record_success 32 cb3;
       (cb5, probe2) = cb_allow_request 33 cb4
   in stale \<and> probe1 \<and> probe2 \<and> cb_cur_state cb5 = HALF_OPEN \<and> half_open_max_probes cb5 = 1"
  by (simp add: cb_defs cb_new_def)

text \<open>
  The concurrency limiter never has more than \<open>max_concurrent\<close> requests inside, and its
  counter is exactly the number of requests that hold a permit, for every interleaving of
  arrivals and completions.
\<close>

theorem concurrency_limit_respected:
  assumes "cl_reach l hs"
  shows "in_flight l = int (length hs) \<and> int (length hs) \<le> max_concurrent l \<and>
    cl_available_permits l = max_concurrent l - int (length hs)"
  using cl_reach_inv [OF assms] by (simp add: cl_available_permits_def)

theorem concurrency_limit_respected_witness:
  "in_flight (cl_release (fst (cl_try_acquire (cl_new 1)))) = 0"
proof -
  have "cl_reach (fst (cl_try_acquire (cl_new 1))) [7]"
    by (rule cl_reach.admit [OF cl_reach.init [of 1]]) (simp add: cl_try_acquire_def cl_new_def)
  then have "cl_reach (cl_release (fst (cl_try_acquire (cl_new 1)))) (remove1 7 [7])"
    by (rule cl_reach.finish) simp
  from concurrency_limit_respected [OF this] show ?thesis by simp
qed

end
