(* ===== verification/Bytes.thy ===== *)
theory Bytes
  imports Prelude "HOL-Library.Word"
begin

unbundle bit_operations_syntax

text \<open>
  Byte strings and what the code takes from the Python standard library on them: UTF-8
  encoding, \<open>base64\<close> in its standard and URL-safe form with CPython's lenient and strict
  decoders, \<open>struct.pack(">Q")\<close>, \<open>hashlib.sha256\<close> and \<open>hmac.new(..., "sha256")\<close>.

  The encoders are total. Decoding returns \<open>None\<close> where Python raises. The facts below are
  the round trips and the sizes the protocol code relies on.
\<close>

type_synonym byte = "8 word"
type_synonym bytes = "byte list"


section \<open>UTF-8\<close>

fun utf8 :: "string \<Rightarrow> bytes" where
  \<comment> \<open>\<open>s.encode()\<close>; a code point up to 255 takes one or two bytes\<close>
  "utf8 [] = []"
| "utf8 (c # cs) =
     (let n = (of_char c :: nat)
      in (if n < 128 then [of_nat n] else [of_nat (192 + n div 64), of_nat (128 + n mod 64)]) @ utf8 cs)"

definition wide_char :: char where
  \<comment> \<open>stands for every code point above 255\<close>
  "wide_char = CHR 0x1A"

definition is_cont :: "byte \<Rightarrow> bool" where
  "is_cont b \<longleftrightarrow> 128 \<le> unat b \<and> unat b < 192"

fun utf8_decode :: "bytes \<Rightarrow> string option" where
  \<comment> \<open>\<open>b.decode("utf-8")\<close>, \<open>None\<close> for \<open>UnicodeDecodeError\<close>\<close>
  "utf8_decode [] = Some []"
| "utf8_decode (b # bs) =
     (if unat b < 128 then map_option ((#) (char_of (unat b))) (utf8_decode bs)
      else if 194 \<le> unat b \<and> unat b < 224 then
        (case bs of
           c # r \<Rightarrow>
             if is_cont c
             then map_option ((#) (if unat b < 196 then char_of ((unat b - 192) * 64 + (unat c - 128)) else wide_char))
                    (utf8_decode r)
             else None
         | _ \<Rightarrow> None)
      else if 224 \<le> unat b \<and> unat b < 240 then
        (case bs of
           c # d # r \<Rightarrow>
             if is_cont c \<and> is_cont d \<and> (unat b = 224 \<longrightarrow> 160 \<le> unat c) \<and> (unat b = 237 \<longrightarrow> unat c < 160)
             then map_option ((#) wide_char) (utf8_decode r) else None
         | _ \<Rightarrow> None)
      else if 240 \<le> unat b \<and> unat b < 245 then
        (case bs of
           c # d # e # r \<Rightarrow>
             if is_cont c \<and> is_cont d \<and> is_cont e \<and> (unat b = 240 \<longrightarrow> 144 \<le> unat c) \<and> (unat b = 244 \<longrightarrow> unat c < 144)
             then map_option ((#) wide_char) (utf8_decode r) else None
         | _ \<Rightarrow> None)
      else None)"

definition is_ascii :: "string \<Rightarrow> bool" where
  "is_ascii s \<longleftrightarrow> list_all (\<lambda>c. (of_char c :: nat) < 128) s"

lemma utf8_append: "utf8 (s @ t) = utf8 s @ utf8 t"
  by (induction s) (auto simp: Let_def)

lemma of_char_less_256: "(of_char c :: nat) < 256"
  by (metis nat_of_char_less_256)

lemma utf8_roundtrip: "utf8_decode (utf8 s) = Some s"
proof (induction s)
  case (Cons c cs)
  let ?n = "(of_char c :: nat)"
  have n: "?n < 256" by (rule of_char_less_256)
  show ?case
  proof (cases "?n < 128")
    case True
    then show ?thesis using Cons n by (simp add: Let_def unat_of_nat)
  next
    case False
    have "2 \<le> ?n div 64" "?n div 64 < 4"
      using False n div_le_mono [of 128 ?n 64] by (simp_all add: less_mult_imp_div_less)
    then have d: "?n div 64 = 2 \<or> ?n div 64 = 3" by linarith
    have "unat (of_nat (192 + ?n div 64) :: byte) = 192 + ?n div 64"
         "unat (of_nat (128 + ?n mod 64) :: byte) = 128 + ?n mod 64"
      using d by (auto simp: unat_of_nat simp del: of_nat_add of_nat_numeral)
    moreover have "?n div 64 * 64 + ?n mod 64 = ?n" by simp
    ultimately show ?thesis
      using Cons False d by (auto simp: Let_def is_cont_def simp del: of_nat_add of_nat_numeral)
  qed
qed simp

lemma utf8_inj: "utf8 s = utf8 t \<longleftrightarrow> s = t"
  by (metis option.inject utf8_roundtrip)


section \<open>Base64\<close>

definition b64_chars :: string where
  "b64_chars = ''ABCDEFGHIJKLMNOPQRSTUVWXYZabcdefghijklmnopqrstuvwxyz0123456789+/''"

definition b64url_chars :: string where
  "b64url_chars = ''ABCDEFGHIJKLMNOPQRSTUVWXYZabcdefghijklmnopqrstuvwxyz0123456789-_''"

fun index_of :: "char \<Rightarrow> string \<Rightarrow> nat option" where
  "index_of c [] = None"
| "index_of c (d # ds) = (if c = d then Some 0 else map_option Suc (index_of c ds))"

fun b64_sextets :: "nat list \<Rightarrow> nat list" where
  \<comment> \<open>bytes to base64 digits, three at a time; a short last group is zero-filled\<close>
  "b64_sextets (a # b # c # r) =
     [a div 4, (a mod 4) * 16 + b div 16, (b mod 16) * 4 + c div 64, c mod 64] @ b64_sextets r"
| "b64_sextets [a, b] = [a div 4, (a mod 4) * 16 + b div 16, (b mod 16) * 4]"
| "b64_sextets [a] = [a div 4, (a mod 4) * 16]"
| "b64_sextets [] = []"

definition urlsafe_b64encode_nopad :: "bytes \<Rightarrow> string" where
  \<comment> \<open>\<open>base64.urlsafe_b64encode(b).rstrip(b"=").decode()\<close>\<close>
  "urlsafe_b64encode_nopad b = map (\<lambda>d. b64url_chars ! d) (b64_sextets (map unat b))"

text \<open>
  CPython's \<open>binascii.a2b_base64\<close>: \<open>q\<close> counts the digits of the current group of four,
  \<open>left\<close> holds the bits not yet written and \<open>pads\<close> the consecutive pad characters. Outside
  strict mode a character of neither the alphabet nor the padding is skipped, and a completed
  padding ends the input. The strict mode (\<open>validate=True\<close>) refuses stray characters, leading
  or misplaced padding and data after it.
\<close>

fun a2b :: "bool \<Rightarrow> nat \<Rightarrow> nat \<Rightarrow> nat \<Rightarrow> bool \<Rightarrow> nat option list \<Rightarrow> nat list option" where
  \<comment> \<open>a digit is \<open>Some d\<close>: \<open>d < 64\<close> a sextet, \<open>64\<close> the pad; \<open>None\<close> any other character\<close>
  "a2b strict q left pads started [] = (if q = 0 then Some [] else None)"
| "a2b strict q left pads started (x # xs) =
     (case x of
        None \<Rightarrow> if strict then None else a2b strict q left pads started xs
      | Some d \<Rightarrow>
          if d = 64 then
            (if strict \<and> q = 0 then None
             else if 2 \<le> q then
               (if 4 \<le> q + (pads + 1) then (if strict \<and> xs \<noteq> [] then None else Some [])
                else a2b strict q left (pads + 1) True xs)
             else a2b strict q left pads True xs)
          else if strict \<and> started then None
          else if q = 0 then a2b strict 1 d 0 started xs
          else if q = 1 then
            map_option ((#) (left * 4 + d div 16)) (a2b strict 2 (d mod 16) 0 started xs)
          else if q = 2 then
            map_option ((#) (left * 16 + d div 4)) (a2b strict 3 (d mod 4) 0 started xs)
          else map_option ((#) (left * 64 + d)) (a2b strict 0 0 0 started xs))"

definition b64_digit :: "string \<Rightarrow> char \<Rightarrow> nat option" where
  "b64_digit alphabet c = (if c = CHR ''='' then Some 64 else index_of c alphabet)"

definition b64decode :: "string \<Rightarrow> bytes option" where
  \<comment> \<open>\<open>base64.b64decode(s)\<close> of an ASCII \<open>s\<close>; \<open>None\<close> for \<open>binascii.Error\<close>\<close>
  "b64decode s = map_option (map of_nat) (a2b False 0 0 0 False (map (b64_digit b64_chars) s))"

definition b64decode_strict :: "string \<Rightarrow> bytes option" where
  \<comment> \<open>\<open>base64.b64decode(s, validate=True)\<close>\<close>
  "b64decode_strict s = map_option (map of_nat) (a2b True 0 0 0 False (map (b64_digit b64_chars) s))"

definition urlsafe_b64decode :: "string \<Rightarrow> bytes option" where
  \<comment> \<open>\<open>base64.urlsafe_b64decode(s)\<close>: \<open>-\<close> and \<open>_\<close> are translated, \<open>+\<close> and \<open>/\<close> still accepted\<close>
  "urlsafe_b64decode s =
     b64decode (map (\<lambda>c. if c = CHR ''-'' then CHR ''+'' else if c = CHR ''_'' then CHR ''/'' else c) s)"

definition pad4 :: "string \<Rightarrow> string" where
  \<comment> \<open>\<open>s + "=" * (-len(s) % 4)\<close>\<close>
  "pad4 s = s @ replicate ((4 - length s mod 4) mod 4) (CHR ''='')"


section \<open>Big-endian integers\<close>

fun be_bytes :: "nat \<Rightarrow> nat \<Rightarrow> bytes" where
  \<comment> \<open>the \<open>k\<close> low-order bytes of \<open>n\<close>, most significant first\<close>
  "be_bytes 0 n = []"
| "be_bytes (Suc k) n = be_bytes k (n div 256) @ [of_nat (n mod 256)]"

definition be_value :: "bytes \<Rightarrow> nat" where
  "be_value bs = foldl (\<lambda>acc b. acc * 256 + unat b) 0 bs"


section \<open>SHA-256 and HMAC\<close>

definition sha256_k :: "32 word list" where
  "sha256_k =
    [1116352408, 1899447441, 3049323471, 3921009573, 961987163, 1508970993, 2453635748, 2870763221,
     3624381080, 310598401, 607225278, 1426881987, 1925078388, 2162078206, 2614888103, 3248222580,
     3835390401, 4022224774, 264347078, 604807628, 770255983, 1249150122, 1555081692, 1996064986,
     2554220882, 2821834349, 2952996808, 3210313671, 3336571891, 3584528711, 113926993, 338241895,
     666307205, 773529912, 1294757372, 1396182291, 1695183700, 1986661051, 2177026350, 2456956037,
     2730485921, 2820302411, 3259730800, 3345764771, 3516065817, 3600352804, 4094571909, 275423344,
     430227734, 506948616, 659060556, 883997877, 958139571, 1322822218, 1537002063, 1747873779,
     1955562222, 2024104815, 2227730452, 2361852424, 2428436474, 2756734187, 3204031479, 3329325298]"

definition sha256_h0 :: "32 word list" where
  "sha256_h0 =
    [1779033703, 3144134277, 1013904242, 2773480762, 1359893119, 2600822924, 528734635, 1541459225]"

definition sha256_pad :: "bytes \<Rightarrow> bytes" where
  "sha256_pad m =
     m @ [0x80] @ replicate ((119 - length m mod 64) mod 64) 0 @ be_bytes 8 (length m * 8)"

fun be_words :: "bytes \<Rightarrow> 32 word list" where
  "be_words (a # b # c # d # r) = of_nat (be_value [a, b, c, d]) # be_words r"
| "be_words _ = []"

definition sha256_s0 :: "32 word \<Rightarrow> 32 word" where
  "sha256_s0 x = word_rotr 7 x XOR word_rotr 18 x XOR drop_bit 3 x"

definition sha256_s1 :: "32 word \<Rightarrow> 32 word" where
  "sha256_s1 x = word_rotr 17 x XOR word_rotr 19 x XOR drop_bit 10 x"

fun sha256_extend :: "nat \<Rightarrow> 32 word list \<Rightarrow> 32 word list" where
  \<comment> \<open>the message schedule, most recent word first\<close>
  "sha256_extend 0 w = w"
| "sha256_extend (Suc n) w =
     sha256_extend n ((sha256_s1 (w ! 1) + w ! 6 + sha256_s0 (w ! 14) + w ! 15) # w)"

fun sha256_round :: "32 word list \<Rightarrow> 32 word \<times> 32 word \<Rightarrow> 32 word list" where
  "sha256_round [a, b, c, d, e, f, g, h] (k, w) =
     (let t1 = h + (word_rotr 6 e XOR word_rotr 11 e XOR word_rotr 25 e)
                 + ((e AND f) XOR (NOT e AND g)) + k + w;
          t2 = (word_rotr 2 a XOR word_rotr 13 a XOR word_rotr 22 a)
                 + ((a AND b) XOR (a AND c) XOR (b AND c))
      in [t1 + t2, a, b, c, d + t1, e, f, g])"
| "sha256_round st _ = st"

definition sha256_block :: "32 word list \<Rightarrow> 32 word list \<Rightarrow> 32 word list" where
  "sha256_block st blk =
     map2 (+) st (foldl sha256_round st (zip sha256_k (rev (sha256_extend 48 (rev blk)))))"

fun sha256_blocks :: "nat \<Rightarrow> 32 word list \<Rightarrow> 32 word list \<Rightarrow> 32 word list" where
  "sha256_blocks 0 st ws = st"
| "sha256_blocks (Suc n) st ws = sha256_blocks n (sha256_block st (take 16 ws)) (drop 16 ws)"

definition sha256 :: "bytes \<Rightarrow> bytes" where
  \<comment> \<open>\<open>hashlib.sha256(m).digest()\<close>\<close>
  "sha256 m =
     (let ws = be_words (sha256_pad m)
      in concat (map (\<lambda>w. be_bytes 4 (unat w)) (sha256_blocks (length ws div 16) sha256_h0 ws)))"

definition hmac_sha256 :: "bytes \<Rightarrow> bytes \<Rightarrow> bytes" where
  \<comment> \<open>\<open>hmac.new(key, msg, "sha256").digest()\<close>\<close>
  "hmac_sha256 key msg =
     (let k0 = (if length key > 64 then sha256 key else key);
          k = k0 @ replicate (64 - length k0) 0
      in sha256 (map (\<lambda>b. b XOR 0x5c) k @ sha256 (map (\<lambda>b. b XOR 0x36) k @ msg)))"


section \<open>Round trips and sizes\<close>

definition b64url_to_std :: "char \<Rightarrow> char" where
  "b64url_to_std c = (if c = CHR ''-'' then CHR ''+'' else if c = CHR ''_'' then CHR ''/'' else c)"

lemma b64_digit_table:
  "list_all (\<lambda>d. b64_digit b64_chars (b64url_to_std (b64url_chars ! d)) = Some d) [0..<64]"
  by code_simp

lemma b64_digit_encode:
  "d < 64 \<Longrightarrow> b64_digit b64_chars (b64url_to_std (b64url_chars ! d)) = Some d"
  using b64_digit_table by (simp add: list_all_iff)

lemma b64_sextets_less: "list_all (\<lambda>n. n < 256) ns \<Longrightarrow> list_all (\<lambda>d. d < 64) (b64_sextets ns)"
proof (induction ns rule: b64_sextets.induct)
  case (1 a b c r)
  have "a div 4 < 64" "b div 16 < 16" "c div 64 < 4" using 1 by auto
  moreover have "a mod 4 < 4" "b mod 16 < 16" by auto
  ultimately show ?case using 1 by auto
next
  case (2 a b)
  have "a div 4 < 64" "b div 16 < 16" using 2 by auto
  moreover have "a mod 4 < 4" "b mod 16 < 16" by auto
  ultimately show ?case by auto
next
  case (3 a)
  have "a div 4 < 64" using 3 by auto
  moreover have "a mod 4 < 4" by auto
  ultimately show ?case by auto
qed auto

lemma length_b64_sextets: "length (b64_sextets ns) = (4 * length ns + 2) div 3"
  by (induction ns rule: b64_sextets.induct) auto

lemma a2b_sextets:
  "list_all (\<lambda>n. n < 256) ns \<Longrightarrow>
   a2b False 0 0 0 False (map Some (b64_sextets ns) @
     replicate ((4 - length (b64_sextets ns) mod 4) mod 4) (Some 64)) = Some ns"
proof (induction ns rule: b64_sextets.induct)
  case (1 a b c r)
  have l: "a div 4 < 64" "b div 16 < 16" "c div 64 < 4" "a mod 4 < 4" "b mod 16 < 16" "c mod 64 < 64"
    using 1 by auto
  then have ne: "a div 4 \<noteq> 64" "a mod 4 * 16 + b div 16 \<noteq> 64" "b mod 16 * 4 + c div 64 \<noteq> 64" "c mod 64 \<noteq> 64"
    by auto
  have "b div 16 mod 16 = b div 16" "c div 64 mod 4 = c div 64"
    "b div 16 div 16 = 0" "c div 64 div 4 = 0" using l by simp_all
  then show ?case using 1 ne by simp
next
  case (2 a b)
  have l: "a div 4 < 64" "b div 16 < 16" "a mod 4 < 4" "b mod 16 < 16"
    using 2 by auto
  then have ne: "a div 4 \<noteq> 64" "a mod 4 * 16 + b div 16 \<noteq> 64" "b mod 16 * 4 \<noteq> 64"
    by auto
  have "b div 16 mod 16 = b div 16" "b div 16 div 16 = 0" using l by simp_all
  then show ?case using 2 ne by simp
next
  case (3 a)
  have "a div 4 < 64" "a mod 4 < 4" using 3 by auto
  then have ne: "a div 4 \<noteq> 64" "a mod 4 * 16 \<noteq> 64" by auto
  have two: "replicate 2 (Some (64 :: nat)) = [Some 64, Some 64]" by (simp add: numeral_2_eq_2)
  show ?case using 3 ne by (simp add: two)
qed simp

lemma unat_byte_less: "list_all (\<lambda>n. n < 256) (map unat (b :: bytes))"
  using unsigned_less [where ?'b = 8 and ?'a = nat] by (simp add: list_all_iff)

lemma b64url_roundtrip: "urlsafe_b64decode (pad4 (urlsafe_b64encode_nopad b)) = Some b"
proof -
  let ?ds = "b64_sextets (map unat b)"
  have "list_all (\<lambda>d. d < 64) ?ds"
    by (rule b64_sextets_less [OF unat_byte_less])
  then have "map (b64_digit b64_chars \<circ> b64url_to_std \<circ> (!) b64url_chars) ?ds = map Some ?ds"
    by (auto simp: list_all_iff b64_digit_encode)
  moreover have "b64_digit b64_chars (b64url_to_std (CHR ''='')) = Some 64"
    by (simp add: b64_digit_def b64url_to_std_def)
  ultimately have "map (b64_digit b64_chars \<circ> b64url_to_std) (pad4 (urlsafe_b64encode_nopad b)) =
      map Some ?ds @ replicate ((4 - length ?ds mod 4) mod 4) (Some 64)"
    by (simp add: pad4_def urlsafe_b64encode_nopad_def comp_assoc)
  then show ?thesis
    unfolding urlsafe_b64decode_def b64decode_def
    using a2b_sextets [OF unat_byte_less [of b]]
    by (simp add: b64url_to_std_def [abs_def] comp_def)
qed

lemma length_b64url: "length (urlsafe_b64encode_nopad b) = (4 * length b + 2) div 3"
  by (simp add: urlsafe_b64encode_nopad_def length_b64_sextets)

lemma b64url_inj: "urlsafe_b64encode_nopad a = urlsafe_b64encode_nopad b \<longleftrightarrow> a = b"
  by (metis b64url_roundtrip option.inject)

lemma length_be_bytes [simp]: "length (be_bytes k n) = k"
  by (induction k arbitrary: n) auto

lemma be_value_snoc: "be_value (bs @ [b]) = be_value bs * 256 + unat b"
  by (simp add: be_value_def)

lemma be_value_be_bytes: "be_value (be_bytes k n) = n mod 256 ^ k"
proof (induction k arbitrary: n)
  case (Suc k)
  have "be_value (be_bytes (Suc k) n) = (n div 256 mod 256 ^ k) * 256 + n mod 256"
    using Suc by (simp add: be_value_snoc unat_of_nat)
  also have "\<dots> = n mod (256 * 256 ^ k)"
    by (simp add: mod_mult2_eq)
  finally show ?case by simp
qed (simp add: be_value_def)

lemma length_sha256_round: "length st = 8 \<Longrightarrow> length (sha256_round st kw) = 8"
  by (induction st kw rule: sha256_round.induct) (auto simp: Let_def)

lemma length_foldl_sha256_round: "length st = 8 \<Longrightarrow> length (foldl sha256_round st kws) = 8"
  by (induction kws arbitrary: st) (simp_all add: length_sha256_round)

lemma length_sha256_blocks: "length st = 8 \<Longrightarrow> length (sha256_blocks n st ws) = 8"
  by (induction n arbitrary: st ws) (simp_all add: sha256_block_def length_foldl_sha256_round)

lemma length_sha256 [simp]: "length (sha256 m) = 32"
proof -
  have "length (concat (map (\<lambda>w. be_bytes 4 (unat w)) ws)) = 4 * length ws" for ws :: "32 word list"
    by (induction ws) auto
  moreover have "length sha256_h0 = 8" by (simp add: sha256_h0_def)
  ultimately show ?thesis by (simp add: sha256_def Let_def length_sha256_blocks)
qed

lemma length_hmac_sha256 [simp]: "length (hmac_sha256 k m) = 32"
  by (simp add: hmac_sha256_def Let_def)

end
