(* ===== verification/Json.thy ===== *)
theory Json
  imports Bytes
begin

text \<open>
  JSON as the code uses it: the values \<open>json.loads\<close> returns, a scanner with CPython's grammar
  and failure modes, \<open>json.dumps\<close>, and the facts the components need of them.

  A document fails in three ways the callers distinguish: \<open>JSONDecodeError\<close>; a bare
  \<open>ValueError\<close>, which \<open>int()\<close> raises for a literal of more than 4300 digits and which is not
  a \<open>JSONDecodeError\<close>; and \<open>RecursionError\<close>, when containers nest deeper than what is left of
  the interpreter's recursion limit, the argument \<open>lvl\<close>. The scanner recurses on fuel; the
  fuel \<open>json_loads\<close> passes is enough for every input (\<open>json_loads_no_fuel\<close>).

  Floats are exact rationals below the largest double and infinite above it.
\<close>

datatype json =
    JNull
  | JBool bool
  | JInt int
  | JFloat rat
  | JNaN
  | JInfinity bool
  | JStr string
  | JArr "json list"
  | JObj "(string \<times> json) list"

datatype json_error = JSONDecodeError | JSONValueError | JSONRecursionError | JSONFuel

type_synonym claims = "json dict"

definition jget :: "string \<Rightarrow> json dict \<Rightarrow> json" where
  \<comment> \<open>\<open>d.get(k)\<close>, \<open>None\<close> read as \<open>JNull\<close>\<close>
  "jget k d = (case map_of d k of Some v \<Rightarrow> v | None \<Rightarrow> JNull)"

fun is_jstr :: "json \<Rightarrow> bool" where
  "is_jstr (JStr _) = True"
| "is_jstr _ = False"

fun is_jobj :: "json \<Rightarrow> bool" where
  "is_jobj (JObj _) = True"
| "is_jobj _ = False"

fun jstr_of :: "json \<Rightarrow> string" where
  "jstr_of (JStr s) = s"
| "jstr_of _ = []"

fun jtruthy :: "json \<Rightarrow> bool" where
  \<comment> \<open>\<open>bool(v)\<close>\<close>
  "jtruthy JNull = False"
| "jtruthy (JBool b) = b"
| "jtruthy (JInt i) = (i \<noteq> 0)"
| "jtruthy (JFloat r) = (r \<noteq> 0)"
| "jtruthy JNaN = True"
| "jtruthy (JInfinity _) = True"
| "jtruthy (JStr s) = (s \<noteq> [])"
| "jtruthy (JArr xs) = (xs \<noteq> [])"
| "jtruthy (JObj xs) = (xs \<noteq> [])"


section \<open>The scanner\<close>

definition json_ws :: "char \<Rightarrow> bool" where
  "json_ws c \<longleftrightarrow> c \<in> set [CHR '' '', CHR 0x09, CHR 0x0A, CHR 0x0D]"

definition skip_ws :: "string \<Rightarrow> string" where
  "skip_ws s = dropWhile json_ws s"

definition hex_val :: "char \<Rightarrow> nat option" where
  "hex_val c = index_of (lower_char c) ''0123456789abcdef''"

definition is_digit :: "char \<Rightarrow> bool" where
  "is_digit c \<longleftrightarrow> 48 \<le> (of_char c :: nat) \<and> (of_char c :: nat) \<le> 57"

definition digits_val :: "string \<Rightarrow> nat" where
  "digits_val ds = foldl (\<lambda>acc c. acc * 10 + (of_char c - 48)) 0 ds"

definition json_escape :: "char \<Rightarrow> char option" where
  "json_escape c = map_of
     [(CHR 0x22, CHR 0x22), (CHR 0x5C, CHR 0x5C), (CHR ''/'', CHR ''/''), (CHR ''b'', CHR 0x08),
      (CHR ''f'', CHR 0x0C), (CHR ''n'', CHR 0x0A), (CHR ''r'', CHR 0x0D), (CHR ''t'', CHR 0x09)] c"

definition hex4 :: "char \<Rightarrow> char \<Rightarrow> char \<Rightarrow> char \<Rightarrow> nat option" where
  "hex4 a b c d =
     (case (hex_val a, hex_val b, hex_val c, hex_val d) of
        (Some w, Some x, Some y, Some z) \<Rightarrow> Some (((w * 16 + x) * 16 + y) * 16 + z)
      | _ \<Rightarrow> None)"

fun jcons :: "char \<Rightarrow> json_error + string \<times> string \<Rightarrow> json_error + string \<times> string" where
  "jcons c (Inr (s, r)) = Inr (c # s, r)"
| "jcons c (Inl e) = Inl e"

definition is_high :: "nat \<Rightarrow> bool" where
  "is_high n \<longleftrightarrow> 0xD800 \<le> n \<and> n \<le> 0xDBFF"

definition skip_low :: "string \<Rightarrow> string" where
  \<comment> \<open>after an escaped high surrogate, an escaped low surrogate belongs to the same code point\<close>
  "skip_low s =
     (case s of
        b # u # h1 # h2 # h3 # h4 # r \<Rightarrow>
          if b = CHR 0x5C \<and> u = CHR ''u'' then
            (case hex4 h1 h2 h3 h4 of
               Some n \<Rightarrow> if 0xDC00 \<le> n \<and> n \<le> 0xDFFF then r else s
             | None \<Rightarrow> s)
          else s
      | _ \<Rightarrow> s)"

lemma length_skip_low [termination_simp]: "length (skip_low s) \<le> length s"
  by (simp add: skip_low_def split: list.split option.split)

definition scan_escape :: "string \<Rightarrow> (char \<times> string) option" where
  \<comment> \<open>what follows a backslash: the character meant and the rest\<close>
  "scan_escape cs =
     (case cs of
        [] \<Rightarrow> None
      | e # cs' \<Rightarrow>
          if e = CHR ''u'' then
            (case cs' of
               h1 # h2 # h3 # h4 # r \<Rightarrow>
                 (case hex4 h1 h2 h3 h4 of
                    Some n \<Rightarrow> if n < 256 then Some (char_of n, r)
                              else Some (wide_char, if is_high n then skip_low r else r)
                  | None \<Rightarrow> None)
             | _ \<Rightarrow> None)
          else map_option (\<lambda>x. (x, cs')) (json_escape e))"

lemma scan_escape_shorter [termination_simp]:
  assumes "scan_escape cs = Some (x, r)"
  shows "length r < length cs"
proof -
  have sl: "length (skip_low t) < Suc (Suc (Suc (Suc (Suc (length t)))))" for t
    using length_skip_low [of t] by simp
  show ?thesis
    using assms by (auto simp: scan_escape_def sl split: list.splits if_splits option.splits)
qed

fun scanstring :: "string \<Rightarrow> json_error + string \<times> string" where
  \<comment> \<open>the rest of a string literal after its opening quote, with what follows it\<close>
  "scanstring [] = Inl JSONDecodeError"
| "scanstring (c # cs) =
     (if c = CHR 0x22 then Inr ([], cs)
      else if c = CHR 0x5C then
        (case scan_escape cs of
           None \<Rightarrow> Inl JSONDecodeError
         | Some (x, r) \<Rightarrow> jcons x (scanstring r))
      else if (of_char c :: nat) < 32 then Inl JSONDecodeError
      else jcons c (scanstring cs))"

definition MAX_STR_DIGITS :: nat where
  \<comment> \<open>CPython's default \<open>sys.int_info.default_max_str_digits\<close>\<close>
  "MAX_STR_DIGITS = 4300"

definition max_double :: rat where
  \<comment> \<open>the least magnitude that rounds to infinity\<close>
  "max_double = 2 ^ 1024 - 2 ^ 970"

definition mk_float :: "rat \<Rightarrow> json" where
  "mk_float r = (if r \<ge> max_double then JInfinity True else if r \<le> - max_double then JInfinity False
                 else JFloat r)"

definition scan_frac :: "string \<Rightarrow> string \<times> string" where
  \<comment> \<open>the digits of \<open>(\.[0-9]+)?\<close> and what follows\<close>
  "scan_frac s =
     (case s of
        c # r \<Rightarrow> if c = CHR ''.'' \<and> takeWhile is_digit r \<noteq> []
                 then (takeWhile is_digit r, dropWhile is_digit r) else ([], s)
      | [] \<Rightarrow> ([], s))"

definition scan_exp :: "string \<Rightarrow> (bool \<times> string) option \<times> string" where
  \<comment> \<open>sign and digits of \<open>([eE][-+]?[0-9]+)?\<close> and what follows\<close>
  "scan_exp s =
     (case s of
        c # r \<Rightarrow>
          if c = CHR ''e'' \<or> c = CHR ''E'' then
            (let neg = (case r of d # _ \<Rightarrow> d = CHR ''-'' | [] \<Rightarrow> False);
                 r' = (case r of d # t \<Rightarrow> if d = CHR ''-'' \<or> d = CHR ''+'' then t else r | [] \<Rightarrow> r)
             in if takeWhile is_digit r' \<noteq> [] then (Some (neg, takeWhile is_digit r'), dropWhile is_digit r')
                else (None, s))
          else (None, s)
      | [] \<Rightarrow> (None, s))"

definition scan_int_part :: "string \<Rightarrow> (string \<times> string) option" where
  \<comment> \<open>\<open>0|[1-9][0-9]*\<close>\<close>
  "scan_int_part s =
     (case s of
        c # r \<Rightarrow> if c = CHR ''0'' then Some ([c], r)
                 else if is_digit c then Some (takeWhile is_digit s, dropWhile is_digit s) else None
      | [] \<Rightarrow> None)"

definition scan_number :: "bool \<Rightarrow> string \<Rightarrow> json_error + json \<times> string" where
  \<comment> \<open>the number after an optional minus sign, whose presence is the first argument\<close>
  "scan_number neg s =
     (case scan_int_part s of
        None \<Rightarrow> Inl JSONDecodeError
      | Some (ds, r) \<Rightarrow>
          (let (fr, r1) = scan_frac r; (ex, r2) = scan_exp r1
           in if fr = [] \<and> ex = None then
                (if length ds > MAX_STR_DIGITS then Inl JSONValueError
                 else Inr (JInt (if neg then - int (digits_val ds) else int (digits_val ds)), r))
              else
                (let m = of_nat (digits_val (ds @ fr)) / 10 ^ length fr;
                     v = (case ex of
                            None \<Rightarrow> m
                          | Some (en, es) \<Rightarrow> if en then m / 10 ^ digits_val es else m * 10 ^ digits_val es)
                 in Inr (mk_float (if neg then - v else v), r2))))"

definition scan_word :: "string \<Rightarrow> json \<Rightarrow> string \<Rightarrow> json_error + json \<times> string" where
  "scan_word w v s = (if starts_with w s then Inr (v, drop (length w) s) else Inl JSONDecodeError)"

fun scan_once :: "nat \<Rightarrow> nat \<Rightarrow> string \<Rightarrow> json_error + json \<times> string"
  and scan_array :: "nat \<Rightarrow> nat \<Rightarrow> json list \<Rightarrow> string \<Rightarrow> json_error + json \<times> string"
  and scan_object :: "nat \<Rightarrow> nat \<Rightarrow> json dict \<Rightarrow> string \<Rightarrow> json_error + json \<times> string" where
  "scan_once 0 lvl s = Inl JSONFuel"
| "scan_once (Suc f) lvl s =
     (case s of
        [] \<Rightarrow> Inl JSONDecodeError
      | c # cs \<Rightarrow>
          if c = CHR 0x22 then
            (case scanstring cs of Inl e \<Rightarrow> Inl e | Inr (t, r) \<Rightarrow> Inr (JStr t, r))
          else if c = CHR ''{'' then
            (case lvl of
               0 \<Rightarrow> Inl JSONRecursionError
             | Suc lvl' \<Rightarrow>
                 (case skip_ws cs of
                    [] \<Rightarrow> Inl JSONDecodeError
                  | d # ds \<Rightarrow> if d = CHR ''}'' then Inr (JObj [], ds) else scan_object f lvl' [] (d # ds)))
          else if c = CHR ''['' then
            (case lvl of
               0 \<Rightarrow> Inl JSONRecursionError
             | Suc lvl' \<Rightarrow>
                 (case skip_ws cs of
                    [] \<Rightarrow> Inl JSONDecodeError
                  | d # ds \<Rightarrow> if d = CHR '']'' then Inr (JArr [], ds) else scan_array f lvl' [] (d # ds)))
          else if c = CHR ''n'' then scan_word ''null'' JNull s
          else if c = CHR ''t'' then scan_word ''true'' (JBool True) s
          else if c = CHR ''f'' then scan_word ''false'' (JBool False) s
          else if c = CHR ''N'' then scan_word ''NaN'' JNaN s
          else if c = CHR ''I'' then scan_word ''Infinity'' (JInfinity True) s
          else if c = CHR ''-'' then
            (if starts_with ''Infinity'' cs then Inr (JInfinity False, drop 8 cs) else scan_number True cs)
          else scan_number False s)"
| "scan_array 0 lvl acc s = Inl JSONFuel"
| "scan_array (Suc f) lvl acc s =
     (case scan_once f lvl s of
        Inl e \<Rightarrow> Inl e
      | Inr (v, r) \<Rightarrow>
          (case skip_ws r of
             [] \<Rightarrow> Inl JSONDecodeError
           | c # cs \<Rightarrow>
               if c = CHR '']'' then Inr (JArr (rev (v # acc)), cs)
               else if c = CHR '','' then scan_array f lvl (v # acc) (skip_ws cs)
               else Inl JSONDecodeError))"
| "scan_object 0 lvl acc s = Inl JSONFuel"
| "scan_object (Suc f) lvl acc s =
     (case s of
        [] \<Rightarrow> Inl JSONDecodeError
      | q # qs \<Rightarrow>
          if q \<noteq> CHR 0x22 then Inl JSONDecodeError
          else (case scanstring qs of
              Inl e \<Rightarrow> Inl e
            | Inr (k, r) \<Rightarrow>
                (case skip_ws r of
                   [] \<Rightarrow> Inl JSONDecodeError
                 | c # cs \<Rightarrow>
                     if c \<noteq> CHR '':'' then Inl JSONDecodeError
                     else (case scan_once f lvl (skip_ws cs) of
                         Inl e \<Rightarrow> Inl e
                       | Inr (v, r') \<Rightarrow>
                           (case skip_ws r' of
                              [] \<Rightarrow> Inl JSONDecodeError
                            | d # ds \<Rightarrow>
                                if d = CHR ''}'' then Inr (JObj (AList.update k v acc), ds)
                                else if d = CHR '','' then scan_object f lvl (AList.update k v acc) (skip_ws ds)
                                else Inl JSONDecodeError)))))"

definition json_fuel :: "string \<Rightarrow> nat" where
  "json_fuel s = 2 * length s + 2"

definition json_loads :: "nat \<Rightarrow> string \<Rightarrow> json_error + json" where
  \<comment> \<open>\<open>json.loads(s)\<close> with \<open>lvl\<close> levels left of the recursion limit\<close>
  "json_loads lvl s =
     (case scan_once (json_fuel s) lvl (skip_ws s) of
        Inl e \<Rightarrow> Inl e
      | Inr (v, r) \<Rightarrow> if skip_ws r = [] then Inr v else Inl JSONDecodeError)"


section \<open>The encoder\<close>

fun dec_digits :: "nat \<Rightarrow> string" where
  "dec_digits n = (if n < 10 then [char_of (48 + n)] else dec_digits (n div 10) @ [char_of (48 + n mod 10)])"

declare dec_digits.simps [simp del]

definition str_int :: "int \<Rightarrow> string" where
  \<comment> \<open>\<open>str(i)\<close>\<close>
  "str_int i = (if i < 0 then CHR ''-'' # dec_digits (nat (- i)) else dec_digits (nat i))"

definition hex_char :: "nat \<Rightarrow> char" where
  "hex_char n = ''0123456789abcdef'' ! n"

definition escape_char :: "char \<Rightarrow> string" where
  \<comment> \<open>\<open>ensure_ascii=True\<close>: everything outside the printable ASCII range is escaped\<close>
  "escape_char c =
     (let n = (of_char c :: nat)
      in if c = CHR 0x22 then [CHR 0x5C, CHR 0x22]
         else if c = CHR 0x5C then [CHR 0x5C, CHR 0x5C]
         else if n = 10 then [CHR 0x5C, CHR ''n'']
         else if n = 13 then [CHR 0x5C, CHR ''r'']
         else if n = 9 then [CHR 0x5C, CHR ''t'']
         else if n = 12 then [CHR 0x5C, CHR ''f'']
         else if n = 8 then [CHR 0x5C, CHR ''b'']
         else if 32 \<le> n \<and> n \<le> 126 then [c]
         else [CHR 0x5C, CHR ''u'', CHR ''0'', CHR ''0'', hex_char (n div 16), hex_char (n mod 16)])"

definition dump_str :: "string \<Rightarrow> string" where
  "dump_str s = [CHR 0x22] @ concat (map escape_char s) @ [CHR 0x22]"

fun json_dumps :: "string \<Rightarrow> string \<Rightarrow> json \<Rightarrow> string" where
  \<comment> \<open>\<open>json.dumps(v, separators=(item, key))\<close> for the values the code encodes, which hold no floats\<close>
  "json_dumps isep ksep JNull = ''null''"
| "json_dumps isep ksep (JBool b) = (if b then ''true'' else ''false'')"
| "json_dumps isep ksep (JInt i) = str_int i"
| "json_dumps isep ksep (JFloat r) = []"
| "json_dumps isep ksep JNaN = ''NaN''"
| "json_dumps isep ksep (JInfinity b) = (if b then ''Infinity'' else ''-Infinity'')"
| "json_dumps isep ksep (JStr s) = dump_str s"
| "json_dumps isep ksep (JArr xs) =
     ''['' @ (case map (json_dumps isep ksep) xs of [] \<Rightarrow> [] | y # ys \<Rightarrow> y @ concat (map (\<lambda>z. isep @ z) ys)) @ '']''"
| "json_dumps isep ksep (JObj ps) =
     ''{'' @ (case map (\<lambda>(k, v). dump_str k @ ksep @ json_dumps isep ksep v) ps of
               [] \<Rightarrow> [] | y # ys \<Rightarrow> y @ concat (map (\<lambda>z. isep @ z) ys)) @ ''}''"

definition dumps_default :: "json \<Rightarrow> string" where
  "dumps_default v = json_dumps '', '' '': '' v"


section \<open>The scanner consumes input and never runs out of fuel\<close>

fun rest_shorter :: "nat \<Rightarrow> json_error + 'a \<times> string \<Rightarrow> bool" where
  "rest_shorter n (Inl e) = (e \<noteq> JSONFuel)"
| "rest_shorter n (Inr (v, r)) = (length r < n)"

lemma length_skip_ws: "length (skip_ws s) \<le> length s"
  by (simp add: skip_ws_def length_dropWhile_le)

lemma rest_shorter_mono: "rest_shorter n x \<Longrightarrow> n \<le> m \<Longrightarrow> rest_shorter m x"
  by (cases x) auto

lemma rest_shorter_jcons: "rest_shorter n (jcons c x) = rest_shorter n x"
  by (cases x) auto

lemma rest_if: "rest_shorter n x \<Longrightarrow> rest_shorter n y \<Longrightarrow> rest_shorter n (if b then x else y)"
  by simp

lemma scanstring_shorter: "rest_shorter (length s) (scanstring s)"
proof (induction s rule: length_induct)
  case (1 s)
  have IH: "rest_shorter (length s) (jcons x (scanstring t))" if "length t < length s" for t x
    using 1 that by (metis less_imp_le rest_shorter_mono rest_shorter_jcons)
  show ?case
  proof (cases s)
    case (Cons c cs)
    have e: "rest_shorter (length s) (jcons x (scanstring r))" if "scan_escape cs = Some (x, r)" for x r
      using IH scan_escape_shorter [OF that] Cons by simp
    show ?thesis using IH [of cs c] e Cons by (auto split: option.split)
  qed simp
qed

lemma scan_int_part_shorter: "scan_int_part s = Some (ds, r) \<Longrightarrow> length r < length s"
  using length_dropWhile_le [of is_digit "tl s"]
  by (auto simp: scan_int_part_def split: list.splits if_splits intro: le_imp_less_Suc)

lemma scan_frac_le: "length (snd (scan_frac s)) \<le> length s"
  by (auto simp: scan_frac_def split: list.splits intro: le_SucI length_dropWhile_le)

lemma scan_exp_le: "length (snd (scan_exp s)) \<le> length s"
  using length_dropWhile_le [of is_digit]
  by (auto simp: scan_exp_def Let_def split: list.splits intro: le_SucI le_trans)

lemma scan_number_shorter: "rest_shorter (length s) (scan_number neg s)"
proof (cases "scan_int_part s")
  case (Some p)
  obtain ds r where p: "p = (ds, r)" by (cases p)
  have "length r < length s" using Some p scan_int_part_shorter by simp
  then show ?thesis
    using Some p scan_frac_le [of r] scan_exp_le [of "snd (scan_frac r)"]
    by (auto simp: scan_number_def Let_def case_prod_unfold)
qed (simp add: scan_number_def)

lemma scan_word_shorter: "w \<noteq> [] \<Longrightarrow> rest_shorter (length s) (scan_word w v s)"
  by (cases s) (auto simp: scan_word_def starts_with_def)

lemma scan_fuel_enough:
  "2 * length s + 1 \<le> f \<Longrightarrow> rest_shorter (length s) (scan_once f lvl s)"
  "2 * length s + 2 \<le> f \<Longrightarrow> rest_shorter (length s) (scan_array f lvl acc s)"
  "2 * length s + 2 \<le> f \<Longrightarrow> rest_shorter (length s) (scan_object f lvl acc' s)"
proof (induction f arbitrary: s lvl acc acc')
  case 0
  { case 1 then show ?case by simp }
  { case 2 then show ?case by simp }
  { case 3 then show ?case by simp }
next
  case (Suc f)
  { case 1
    show ?case
    proof (cases s)
      case (Cons c cs)
      have skip: "length (skip_ws cs) \<le> length cs" by (rule length_skip_ws)
      have obj: "rest_shorter (length s) (scan_object f l [] (d # ds))" if "skip_ws cs = d # ds" for l d ds
        using Suc.IH(3) [of "d # ds" l "[]"] 1 Cons skip that by (auto intro: rest_shorter_mono)
      have arr: "rest_shorter (length s) (scan_array f l [] (d # ds))" if "skip_ws cs = d # ds" for l d ds
        using Suc.IH(2) [of "d # ds" l "[]"] 1 Cons skip that by (auto intro: rest_shorter_mono)
      have str: "rest_shorter (length s) (case scanstring cs of Inl e \<Rightarrow> Inl e | Inr (t, r) \<Rightarrow> Inr (JStr t, r))"
        using scanstring_shorter [of cs] Cons by (auto split: sum.split)
      have neg: "rest_shorter (length s) (scan_number True cs)"
        using scan_number_shorter [of cs True] Cons by (auto intro: rest_shorter_mono)
      have sk: "skip_ws cs = d # ds \<Longrightarrow> length ds < length s" for d ds
        using skip Cons by simp
      show ?thesis
        unfolding Cons scan_once.simps list.case
        by (intro rest_if str [unfolded Cons] neg [unfolded Cons] scan_word_shorter scan_number_shorter)
          (use obj arr sk in \<open>auto split: nat.split list.split simp: Cons\<close>)
    qed simp }
  { case 2
    have once: "rest_shorter (length s) (scan_once f lvl s)" using Suc.IH(1) 2 by simp
    show ?case
    proof (cases "scan_once f lvl s")
      case (Inr p)
      obtain v r where p: "p = (v, r)" by (cases p)
      with once Inr have r: "length r < length s" by simp
      show ?thesis
      proof (cases "skip_ws r")
        case (Cons c cs)
        then have "Suc (length cs) \<le> length r" using length_skip_ws [of r] by simp
        then have "length (skip_ws cs) + 2 \<le> length s" "length cs < length s"
          using length_skip_ws [of cs] r by linarith+
        then show ?thesis
          using Inr p Cons 2 Suc.IH(2) [of "skip_ws cs" lvl "v # acc"] 
          by (auto intro: rest_shorter_mono)
      qed (use Inr p in simp)
    qed (use once in simp) }
  { case 3
    show ?case
    proof (cases s)
      case (Cons q qs)
      have key: "rest_shorter (length qs) (scanstring qs)" by (rule scanstring_shorter)
      have inner: "rest_shorter (length s) (case scan_once f lvl (skip_ws cs) of
           Inl e \<Rightarrow> Inl e
         | Inr (v, r') \<Rightarrow>
             (case skip_ws r' of
                [] \<Rightarrow> Inl JSONDecodeError
              | d # ds \<Rightarrow>
                  if d = CHR ''}'' then Inr (JObj (AList.update k v acc'), ds)
                  else if d = CHR '','' then scan_object f lvl (AList.update k v acc') (skip_ws ds)
                  else Inl JSONDecodeError))"
        if "length cs + 2 \<le> length s" for cs k
      proof -
        have once: "rest_shorter (length (skip_ws cs)) (scan_once f lvl (skip_ws cs))"
          using Suc.IH(1) [of "skip_ws cs" lvl] 3 that length_skip_ws [of cs] by simp
        show ?thesis
        proof (cases "scan_once f lvl (skip_ws cs)")
          case (Inr p)
          obtain v r where p: "p = (v, r)" by (cases p)
          with once Inr have r: "length r < length (skip_ws cs)" by simp
          have ds: "rest_shorter (length s) (scan_object f lvl a (skip_ws ds)) \<and> length ds < length s"
            if d: "skip_ws r = d # ds" for d ds a
          proof -
            have "length ds < length r" using length_skip_ws [of r] d by simp
            then have "length ds + 2 \<le> length s"
              using r length_skip_ws [of cs] \<open>length cs + 2 \<le> length s\<close> by linarith
            then show ?thesis
              using Suc.IH(3) [of "skip_ws ds" lvl a] 3 length_skip_ws [of ds]
              by (auto intro: rest_shorter_mono)
          qed
          then show ?thesis using Inr p by (auto split: list.split)
        qed (use once in simp)
      qed
      have step: "length cs + 2 \<le> length s" if "scanstring qs = Inr (k, r)" "skip_ws r = c # cs" for k r c cs
        using key that length_skip_ws [of r] Cons by simp
      show ?thesis
        using Cons key inner step by (auto split: sum.split list.split)
    qed simp }
qed

lemma json_loads_no_fuel: "json_loads lvl s \<noteq> Inl JSONFuel"
proof -
  have "rest_shorter (length (skip_ws s)) (scan_once (json_fuel s) lvl (skip_ws s))"
    using scan_fuel_enough(1) [of "skip_ws s" "json_fuel s" lvl] length_skip_ws [of s]
    by (simp add: json_fuel_def)
  then show ?thesis
    by (auto simp: json_loads_def split: sum.splits if_splits)
qed

text \<open>
  Decoding JSON always ends. Whatever the input and however many levels of the recursion limit are
  left, the scanner given twice as much fuel as it has characters, and one more, returns: a value and
  strictly less input, or one of the decoder's own errors. The decoder gives it that much, so it never
  ends for want of fuel.
\<close>

theorem json_decoding_terminates:
  assumes "2 * length s + 1 \<le> fuel"
  shows "(case scan_once fuel lvl s of
      Inl x \<Rightarrow> x \<in> {JSONDecodeError, JSONValueError, JSONRecursionError}
    | Inr (v, rest) \<Rightarrow> length rest < length s)
    \<and> json_loads lvl s \<noteq> Inl JSONFuel"
proof -
  have genuine: "x \<in> {JSONDecodeError, JSONValueError, JSONRecursionError} \<longleftrightarrow> x \<noteq> JSONFuel" for x
    by (cases x) simp_all
  show ?thesis
    unfolding genuine using scan_fuel_enough(1) [OF assms, of lvl] json_loads_no_fuel by (auto split: sum.splits)
qed

theorem json_decoding_terminates_witness:
  "(case scan_once 5 3 ''[]'' of Inl x \<Rightarrow> False | Inr (v, rest) \<Rightarrow> length rest < 2) \<and> json_loads 3 ''[]'' \<noteq> Inl JSONFuel"
proof -
  have "scan_once 5 3 ''[]'' = Inr (JArr [], [])" by code_simp
  then show ?thesis using json_decoding_terminates [of "''[]''" 5 3] by simp
qed


section \<open>Reading back what was dumped\<close>

lemma hex_val_table: "list_all (\<lambda>n. hex_val (hex_char n) = Some n) [0..<16]"
  by code_simp

lemma hex_val_hex_char: "n < 16 \<Longrightarrow> hex_val (hex_char n) = Some n"
  using hex_val_table by (simp add: list_all_iff)

lemma hex4_00: "n < 256 \<Longrightarrow> hex4 (CHR ''0'') (CHR ''0'') (hex_char (n div 16)) (hex_char (n mod 16)) = Some n"
proof -
  assume "n < 256"
  then have "n div 16 < 16" by auto
  moreover have "hex_val (CHR ''0'') = Some 0" by code_simp
  ultimately show ?thesis by (simp add: hex4_def hex_val_hex_char)
qed

lemma scanstring_escape_char: "scanstring (escape_char c @ r) = jcons c (scanstring r)"
proof -
  let ?n = "(of_char c :: nat)"
  have "char_of (10 :: nat) = CHR 0x0A \<and> char_of (13 :: nat) = CHR 0x0D \<and> char_of (9 :: nat) = CHR 0x09 \<and>
      char_of (12 :: nat) = CHR 0x0C \<and> char_of (8 :: nat) = CHR 0x08" by code_simp
  then have code: "?n = 10 \<Longrightarrow> c = CHR 0x0A" "?n = 13 \<Longrightarrow> c = CHR 0x0D" "?n = 9 \<Longrightarrow> c = CHR 0x09"
      "?n = 12 \<Longrightarrow> c = CHR 0x0C" "?n = 8 \<Longrightarrow> c = CHR 0x08" by (metis char_of_char)+
  consider "c = CHR 0x22" | "c = CHR 0x5C" | "?n = 10" | "?n = 13" | "?n = 9" | "?n = 12" | "?n = 8"
    | "c \<noteq> CHR 0x22" "c \<noteq> CHR 0x5C" "32 \<le> ?n" "?n \<le> 126"
    | "c \<noteq> CHR 0x22" "c \<noteq> CHR 0x5C" "?n \<noteq> 10" "?n \<noteq> 13" "?n \<noteq> 9" "?n \<noteq> 12" "?n \<noteq> 8" "\<not> (32 \<le> ?n \<and> ?n \<le> 126)"
    by blast
  then show ?thesis
  proof cases
    case 9
    then show ?thesis
      using hex4_00 [OF of_char_less_256 [of c]] of_char_less_256 [of c]
      by (simp add: escape_char_def scan_escape_def Let_def)
  qed (use code in \<open>auto simp: escape_char_def scan_escape_def json_escape_def Let_def\<close>)
qed

lemma scanstring_dump: "scanstring (concat (map escape_char s) @ CHR 0x22 # r) = Inr (s, r)"
  by (induction s) (simp_all add: scanstring_escape_char)

lemma scan_once_dump_str: "0 < f \<Longrightarrow> scan_once f lvl (dump_str s @ r) = Inr (JStr s, r)"
  by (cases f) (simp_all add: dump_str_def scanstring_dump)

lemma skip_ws_space [simp]: "skip_ws (CHR '' '' # s) = skip_ws s"
  by (simp add: skip_ws_def json_ws_def)

lemma skip_ws_other [simp]: "\<not> json_ws c \<Longrightarrow> skip_ws (c # s) = c # s"
  by (simp add: skip_ws_def)

lemma skip_ws_dump_str: "skip_ws (dump_str s @ r) = dump_str s @ r"
  by (simp add: dump_str_def json_ws_def)

lemma scan_array_strings:
  assumes "2 * length ss + 1 < f"
  shows "scan_array f lvl acc (dump_str s @ concat (map (\<lambda>z. '', '' @ dump_str z) ss) @ '']'' @ r) =
    Inr (JArr (rev acc @ map JStr (s # ss)), r)"
  using assms
proof (induction ss arbitrary: s acc f)
  case Nil
  then obtain f' where "f = Suc f'" "0 < f'" by (cases f) auto
  then show ?case by (simp add: scan_once_dump_str json_ws_def)
next
  case (Cons z zs)
  then obtain f' where f: "f = Suc f'" "0 < f'" by (cases f) auto
  have "scan_array f' lvl (JStr s # acc) (dump_str z @ concat (map (\<lambda>z. '', '' @ dump_str z) zs) @ '']'' @ r) =
      Inr (JArr (rev (JStr s # acc) @ map JStr (z # zs)), r)"
    using Cons f by (intro Cons.IH) simp
  then show ?case
    using f by (simp add: scan_once_dump_str json_ws_def skip_ws_dump_str)
qed

lemma length_dump_str: "2 \<le> length (dump_str s)"
  by (simp add: dump_str_def)

lemma dumps_string_list:
  "dumps_default (JArr (map JStr (s # ss))) = ''['' @ dump_str s @ concat (map (\<lambda>z. '', '' @ dump_str z) ss) @ '']''"
  by (simp add: dumps_default_def comp_def)

lemma json_loads_dumps_strings:
  assumes "0 < lvl"
  shows "json_loads lvl (dumps_default (JArr (map JStr ss))) = Inr (JArr (map JStr ss))"
proof (cases ss)
  case Nil
  obtain l where "lvl = Suc l" using assms by (cases lvl) auto
  then show ?thesis
    using Nil by (simp add: dumps_default_def json_loads_def json_fuel_def json_ws_def eval_nat_numeral skip_ws_def)
next
  case (Cons s zs)
  obtain l where l: "lvl = Suc l" using assms by (cases lvl) auto
  define t where "t = dumps_default (JArr (map JStr ss))"
  have t: "t = CHR ''['' # dump_str s @ concat (map (\<lambda>z. '', '' @ dump_str z) zs) @ '']''"
    unfolding t_def Cons dumps_string_list by simp
  have "2 * length zs \<le> length (concat (map (\<lambda>z. '', '' @ dump_str z) zs))"
    by (induction zs) auto
  then have "2 * length zs + 1 < json_fuel t - 1"
    using t length_dump_str [of s] by (simp add: json_fuel_def)
  then have "scan_array (json_fuel t - 1) l [] (dump_str s @ concat (map (\<lambda>z. '', '' @ dump_str z) zs) @ '']'' @ []) =
      Inr (JArr (map JStr ss), [])"
    using scan_array_strings [of zs "json_fuel t - 1" l "[]" s "[]"] Cons by simp
  moreover obtain f where f: "json_fuel t = Suc f" by (simp add: json_fuel_def)
  moreover obtain d ds where d: "dump_str s @ concat (map (\<lambda>z. '', '' @ dump_str z) zs) @ '']'' = d # ds"
      "d = CHR 0x22"
    by (simp add: dump_str_def)
  ultimately have "scan_once (json_fuel t) lvl (skip_ws t) = Inr (JArr (map JStr ss), [])"
    using l t by (simp add: json_ws_def)
  then show ?thesis
    unfolding t_def [symmetric] json_loads_def by (simp add: skip_ws_def)
qed

end
