(* ===== verification/Errors.thy ===== *)
theory Errors
  imports Json
begin

text \<open>
  Failure as a value (\<open>errors.py\<close>). A Python function that may raise returns \<open>exc + 'a\<close>: an
  \<open>OAuthError\<close> carries what the endpoint turns into an error response, a \<open>PyError\<close> is any
  other exception, named by its class, which no handler catches and the server answers with
  status 500. An HTTP response is its status, its headers and its JSON body.
\<close>

datatype exc =
    OAuthError (oe_error: string) (oe_description: "string option") (oe_status: int)
  | PyError string

type_synonym 'a outcome = "exc + 'a"

record http_response =
  resp_status :: int
  resp_headers :: "string dict"
  resp_body :: json

definition quoted :: "string \<Rightarrow> string" where
  \<comment> \<open>a string between apostrophes, inside a message\<close>
  "quoted s = [CHR 0x27] @ s @ [CHR 0x27]"

definition oauth_exc :: "string \<Rightarrow> string \<Rightarrow> exc" where
  \<comment> \<open>\<open>OAuthError(error, description)\<close> with the default status\<close>
  "oauth_exc e d = OAuthError e (Some d) 400"

definition oauth_error :: "string \<Rightarrow> string option \<Rightarrow> int \<Rightarrow> http_response" where
  "oauth_error error description status =
     \<lparr>resp_status = (if error = ''invalid_client'' then 401 else status),
      resp_headers =
        [(''Cache-Control'', ''no-store'')] @
        (if error = ''invalid_client'' then [(''WWW-Authenticate'', ''Basic'')] else []),
      resp_body = JObj ([(''error'', JStr error)] @
        (case description of Some d \<Rightarrow> [(''error_description'', JStr d)] | None \<Rightarrow> []))\<rparr>"

definition resp_error :: "http_response \<Rightarrow> string option" where
  \<comment> \<open>the \<open>error\<close> member of a response body\<close>
  "resp_error r =
     (case resp_body r of
        JObj ps \<Rightarrow> (case map_of ps ''error'' of Some (JStr e) \<Rightarrow> Some e | _ \<Rightarrow> None)
      | _ \<Rightarrow> None)"

definition bind_res :: "'e + 'a \<Rightarrow> ('a \<Rightarrow> 'e + 'b) \<Rightarrow> 'e + 'b" where
  \<comment> \<open>sequencing: the first raise wins\<close>
  "bind_res m k = (case m of Inl e \<Rightarrow> Inl e | Inr a \<Rightarrow> k a)"

lemma bind_res_simps [simp]:
  "bind_res (Inl e) k = Inl e"
  "bind_res (Inr a) k = k a"
  by (simp_all add: bind_res_def)

lemma bind_res_Inr_iff: "bind_res m k = Inr b \<longleftrightarrow> (\<exists>a. m = Inr a \<and> k a = Inr b)"
  by (cases m) auto

lemma bind_res_Inl_iff: "bind_res m k = Inl e \<longleftrightarrow> m = Inl e \<or> (\<exists>a. m = Inr a \<and> k a = Inl e)"
  by (cases m) auto

lemma resp_error_oauth_error [simp]: "resp_error (oauth_error e d st) = Some e"
  by (simp add: resp_error_def oauth_error_def)

lemma resp_status_oauth_error [simp]:
  "resp_status (oauth_error e d st) = (if e = ''invalid_client'' then 401 else st)"
  by (simp add: oauth_error_def)

end
