(* ===== verification/Keys.thy ===== *)
theory Keys
  imports Errors
begin

text \<open>
  The signing-key set of \<open>keys.py\<close>: an insertion-ordered list of keys, looked up by \<open>kid\<close> or
  by algorithm, rotated with a grace period and pruned. Every \<open>datetime.now\<close> is the argument
  \<open>now\<close>; random key material and the RSA key parser come from outside and are arguments too.

  Shown here: rotation leaves at most one current key per algorithm whatever the history
  (\<open>at_most_one_current\<close>), the retired key still verifies until its grace period ends and not
  after, pruning is invisible to every later lookup, and the JWK integers decode back to the
  numbers they encode.
\<close>

record signing_key =
  sk_kid :: string
  sk_algorithm :: string
  sk_key_material :: bytes
  sk_is_current :: bool
  sk_created_at :: datetime
  sk_expires_at :: "datetime option"

type_synonym keyset = "signing_key list"

definition key_is_active :: "datetime \<Rightarrow> signing_key \<Rightarrow> bool" where
  "key_is_active now k \<longleftrightarrow> (case sk_expires_at k of None \<Rightarrow> True | Some e \<Rightarrow> now < e)"

definition keyset_add :: "signing_key \<Rightarrow> keyset \<Rightarrow> keyset" where
  "keyset_add k ks = ks @ [k]"

definition current_for_alg :: "datetime \<Rightarrow> string \<Rightarrow> keyset \<Rightarrow> signing_key option" where
  "current_for_alg now alg ks =
     find (\<lambda>k. sk_algorithm k = alg \<and> sk_is_current k \<and> key_is_active now k) ks"

definition keyset_find :: "datetime \<Rightarrow> string \<Rightarrow> keyset \<Rightarrow> signing_key option" where
  "keyset_find now kid ks = find (\<lambda>k. sk_kid k = kid \<and> key_is_active now k) ks"

definition active_keys :: "datetime \<Rightarrow> keyset \<Rightarrow> keyset" where
  "active_keys now ks = filter (key_is_active now) ks"

definition active_keys_for_alg :: "datetime \<Rightarrow> string \<Rightarrow> keyset \<Rightarrow> keyset" where
  "active_keys_for_alg now alg ks = filter (\<lambda>k. sk_algorithm k = alg \<and> key_is_active now k) ks"

definition retire :: "datetime \<Rightarrow> signing_key \<Rightarrow> signing_key" where
  "retire expires k = k\<lparr>sk_is_current := False, sk_expires_at := Some expires\<rparr>"

definition rotate_keys :: "datetime \<Rightarrow> signing_key \<Rightarrow> int \<Rightarrow> keyset \<Rightarrow> keyset" where
  "rotate_keys now new_key grace_secs ks =
     (let expires_at = now + usecs grace_secs
      in keyset_add new_key
           (map (\<lambda>k. if sk_algorithm k = sk_algorithm new_key \<and> sk_is_current k
                      then retire expires_at k else k) ks))"

definition prune_expired :: "datetime \<Rightarrow> keyset \<Rightarrow> keyset \<times> string list" where
  "prune_expired now ks =
     (let pruned = map sk_kid (filter (\<lambda>k. \<not> key_is_active now k) ks)
      in (if pruned \<noteq> [] then filter (key_is_active now) ks else ks, pruned))"

definition generate_signing_key ::
  "bytes \<Rightarrow> bytes \<Rightarrow> datetime \<Rightarrow> string \<Rightarrow> string \<Rightarrow> signing_key outcome" where
  \<comment> \<open>first argument: 48 random bytes; second: a freshly generated PKCS#8 PEM\<close>
  "generate_signing_key random48 rsa_pem now algorithm kid =
     (if algorithm = ''HS256'' \<or> algorithm = ''RS256'' then
        Inr \<lparr>sk_kid = kid, sk_algorithm = algorithm,
             sk_key_material = (if algorithm = ''HS256'' then random48 else rsa_pem),
             sk_is_current = True, sk_created_at = now, sk_expires_at = None\<rparr>
      else Inl (PyError ''ValueError''))"

fun bit_length :: "nat \<Rightarrow> nat" where
  \<comment> \<open>\<open>int.bit_length\<close>\<close>
  "bit_length n = (if n = 0 then 0 else Suc (bit_length (n div 2)))"

declare bit_length.simps [simp del]

definition uint_to_b64url :: "nat \<Rightarrow> string" where
  "uint_to_b64url n =
     urlsafe_b64encode_nopad (be_bytes (max ((bit_length n + 7) div 8) 1) n)"

definition jwk_from_rs256_key :: "(bytes \<Rightarrow> nat \<times> nat) \<Rightarrow> signing_key \<Rightarrow> json" where
  \<comment> \<open>\<open>public_numbers\<close>: modulus and exponent of the public half of a PEM private key\<close>
  "jwk_from_rs256_key public_numbers k =
     (let (n, e) = public_numbers (sk_key_material k)
      in JObj [(''kid'', JStr (sk_kid k)), (''kty'', JStr ''RSA''), (''use'', JStr ''sig''),
               (''alg'', JStr ''RS256''), (''n'', JStr (uint_to_b64url n)), (''e'', JStr (uint_to_b64url e))])"

definition seed_keyset :: "datetime \<Rightarrow> string \<Rightarrow> string option \<Rightarrow> string option \<Rightarrow> keyset" where
  \<comment> \<open>arguments: now, \<open>jwt_secret\<close>, \<open>id_token_private_key_pem\<close>, \<open>id_token_kid\<close>\<close>
  "seed_keyset now jwt_secret pem kid =
     (let hs = keyset_add \<lparr>sk_kid = ''hs256-initial'', sk_algorithm = ''HS256'',
                 sk_key_material = utf8 jwt_secret, sk_is_current = True, sk_created_at = now,
                 sk_expires_at = None\<rparr> []
      in if truthy pem
         then keyset_add \<lparr>sk_kid = or_str kid ''rs256-initial'', sk_algorithm = ''RS256'',
                sk_key_material = utf8 (the pem), sk_is_current = True, sk_created_at = now,
                sk_expires_at = None\<rparr> hs
         else hs)"


section \<open>Rotation\<close>

text \<open>The operations that change the set after start-up, as the admin routes issue them.\<close>

datatype key_op = Rotate datetime signing_key int | Prune datetime

primrec key_step :: "key_op \<Rightarrow> keyset \<Rightarrow> keyset" where
  "key_step (Rotate now k grace) ks = rotate_keys now k grace ks"
| "key_step (Prune now) ks = fst (prune_expired now ks)"

definition one_current :: "keyset \<Rightarrow> bool" where
  "one_current ks \<longleftrightarrow> (\<forall>alg. length (filter (\<lambda>k. sk_algorithm k = alg \<and> sk_is_current k) ks) \<le> 1)"

lemma one_current_seed: "one_current (seed_keyset now s pem kid)"
  by (simp add: one_current_def seed_keyset_def keyset_add_def Let_def)

lemma current_after_rotate:
  "filter (\<lambda>k. sk_algorithm k = alg \<and> sk_is_current k) (rotate_keys now n g ks) =
     (if alg = sk_algorithm n then (if sk_is_current n then [n] else [])
      else filter (\<lambda>k. sk_algorithm k = alg \<and> sk_is_current k) ks)"
proof -
  have "filter (\<lambda>k. sk_algorithm k = alg \<and> sk_is_current k)
      (map (\<lambda>k. if sk_algorithm k = sk_algorithm n \<and> sk_is_current k then retire e k else k) ks) =
      (if alg = sk_algorithm n then [] else filter (\<lambda>k. sk_algorithm k = alg \<and> sk_is_current k) ks)" for e
    by (induction ks) (auto simp: retire_def)
  then show ?thesis by (auto simp: rotate_keys_def keyset_add_def Let_def)
qed

lemma one_current_rotate: "one_current ks \<Longrightarrow> one_current (rotate_keys now n g ks)"
  by (auto simp: one_current_def current_after_rotate)

lemma one_current_prune:
  assumes "one_current ks"
  shows "one_current (fst (prune_expired now ks))"
  unfolding one_current_def
proof
  fix alg
  let ?P = "\<lambda>k. sk_algorithm k = alg \<and> sk_is_current k"
  have "length (filter ?P (filter Q ks)) \<le> length (filter ?P ks)" for Q
    by (induction ks) auto
  then have "length (filter ?P (fst (prune_expired now ks))) \<le> length (filter ?P ks)"
    unfolding prune_expired_def Let_def by simp
  also have "\<dots> \<le> 1" using assms by (simp add: one_current_def)
  finally show "length (filter ?P (fst (prune_expired now ks))) \<le> 1" .
qed

lemma one_current_step: "one_current ks \<Longrightarrow> one_current (key_step op ks)"
  by (cases op) (simp_all add: one_current_rotate one_current_prune)

text \<open>
  Whatever sequence of rotations and prunings follows start-up, no algorithm ever has two
  current signing keys, so which key signs a token is never ambiguous.
\<close>

theorem at_most_one_current:
  "one_current (fold key_step ops (seed_keyset now jwt_secret pem kid))"
proof -
  have "one_current ks \<Longrightarrow> one_current (fold key_step ops ks)" for ks
    by (induction ops arbitrary: ks) (simp_all add: one_current_step)
  then show ?thesis using one_current_seed by blast
qed

lemma find_Some_unique:
  "k \<in> set ks \<Longrightarrow> P k \<Longrightarrow> (\<And>k'. k' \<in> set ks \<Longrightarrow> P k' \<Longrightarrow> k' = k) \<Longrightarrow> find P ks = Some k"
  by (metis (no_types, lifting) find_None_iff find_Some_iff nth_mem not_Some_eq)

text \<open>
  Rotating at time \<open>t\<close> with a grace period makes the new key the one that signs, and the
  retired key stays findable by its \<open>kid\<close> up to, and not including, \<open>t + grace_secs\<close>; at any
  instant from then on its tokens no longer find their key.
\<close>

theorem rotation_grace_period:
  assumes "old \<in> set ks" and "sk_is_current old" and "sk_algorithm old = sk_algorithm new"
    and "distinct (map sk_kid (ks @ [new]))"
    and "sk_is_current new" and "sk_expires_at new = None"
  shows "current_for_alg t' (sk_algorithm new) (rotate_keys t new grace ks) = Some new \<and>
    keyset_find t' (sk_kid old) (rotate_keys t new grace ks) =
      (if t' < t + usecs grace then Some (retire (t + usecs grace) old) else None)"
proof
  let ?ks = "rotate_keys t new grace ks"
  let ?P = "\<lambda>k. sk_algorithm k = sk_algorithm new \<and> sk_is_current k"
  have "filter ?P ?ks = [new]" using assms current_after_rotate [of "sk_algorithm new" t new grace ks] by simp
  then have "set (filter ?P ?ks) = {new}" by simp
  then have "k \<in> set ?ks \<Longrightarrow> ?P k \<Longrightarrow> k = new" "new \<in> set ?ks" for k
    by auto
  then show "current_for_alg t' (sk_algorithm new) ?ks = Some new"
    unfolding current_for_alg_def using assms by (intro find_Some_unique) (auto simp: key_is_active_def)
next
  let ?ks = "rotate_keys t new grace ks"
  let ?old = "retire (t + usecs grace) old"
  have mem: "?old \<in> set ?ks"
    using assms by (force simp: rotate_keys_def keyset_add_def Let_def)
  have uniq: "k = ?old" if "k \<in> set ?ks" "sk_kid k = sk_kid old" for k
  proof -
    from that assms(1,4) obtain k0 where k0: "k0 \<in> set ks" "sk_kid k0 = sk_kid old"
        "k = (if sk_algorithm k0 = sk_algorithm new \<and> sk_is_current k0 then retire (t + usecs grace) k0 else k0)"
      by (auto simp: rotate_keys_def keyset_add_def Let_def retire_def split: if_splits)
    have "inj_on sk_kid (set ks)" using assms(4) by (simp add: distinct_map)
    then have "k0 = old" using k0 assms(1) by (simp add: inj_on_eq_iff)
    then show ?thesis using k0 assms(2,3) by simp
  qed
  have act: "key_is_active t' ?old \<longleftrightarrow> t' < t + usecs grace" "sk_kid ?old = sk_kid old"
    by (simp_all add: key_is_active_def retire_def)
  show "keyset_find t' (sk_kid old) ?ks =
      (if t' < t + usecs grace then Some ?old else None)"
  proof (cases "t' < t + usecs grace")
    case True
    have "find (\<lambda>k. sk_kid k = sk_kid old \<and> key_is_active t' k) ?ks = Some ?old"
      by (rule find_Some_unique [OF mem]) (use True act uniq in blast)+
    then show ?thesis using True by (simp add: keyset_find_def)
  next
    case False
    then have "\<not> (\<exists>k \<in> set ?ks. sk_kid k = sk_kid old \<and> key_is_active t' k)"
      using uniq act by metis
    then show ?thesis using False by (auto simp: keyset_find_def find_None_iff)
  qed
qed

theorem rotation_grace_period_witness:
  "current_for_alg 7 ''HS256''
     (rotate_keys 5 \<lparr>sk_kid = ''b'', sk_algorithm = ''HS256'', sk_key_material = [], sk_is_current = True,
        sk_created_at = 5, sk_expires_at = None\<rparr> 1 (seed_keyset 0 ''s'' None None)) =
     Some \<lparr>sk_kid = ''b'', sk_algorithm = ''HS256'', sk_key_material = [], sk_is_current = True,
        sk_created_at = 5, sk_expires_at = None\<rparr> \<and>
   keyset_find 1000005 ''hs256-initial''
     (rotate_keys 5 \<lparr>sk_kid = ''b'', sk_algorithm = ''HS256'', sk_key_material = [], sk_is_current = True,
        sk_created_at = 5, sk_expires_at = None\<rparr> 1 (seed_keyset 0 ''s'' None None)) = None"
proof -
  let ?new = "\<lparr>sk_kid = ''b'', sk_algorithm = ''HS256'', sk_key_material = [], sk_is_current = True,
        sk_created_at = 5, sk_expires_at = None\<rparr> :: signing_key"
  let ?ks = "seed_keyset 0 ''s'' None None"
  have h: "hd ?ks \<in> set ?ks" "sk_is_current (hd ?ks)" "sk_algorithm (hd ?ks) = sk_algorithm ?new"
    "distinct (map sk_kid (?ks @ [?new]))" "sk_is_current ?new" "sk_expires_at ?new = None"
    "sk_kid (hd ?ks) = ''hs256-initial''"
    by (simp_all add: seed_keyset_def keyset_add_def)
  show ?thesis
    using rotation_grace_period [OF h(1-6), of 7 5 1] rotation_grace_period [OF h(1-6), of 1000005 5 1] h(7)
    by (simp add: usecs_def)
qed

text \<open>The kid the admin endpoint gives a rotated key (\<open>routes/admin/keys.py\<close>).\<close>

definition rotated_kid :: "datetime \<Rightarrow> string \<Rightarrow> string" where
  "rotated_kid now algorithm = py_lower algorithm @ ''-'' @ str_int (timestamp_int now)"

text \<open>
  The kid of a rotated key is its algorithm and the time in whole seconds, so two rotations
  within one second give two keys one kid. Tokens are then signed with the second key, but the
  lookup by kid that verification uses answers with the first one as long as that is in its
  grace period: the tokens of the current key do not verify.
\<close>

theorem same_second_rotation_shadows_current_key:
  assumes "k1 = \<lparr>sk_kid = rotated_kid t ''RS256'', sk_algorithm = ''RS256'', sk_key_material = m1,
      sk_is_current = True, sk_created_at = t, sk_expires_at = None\<rparr>"
    and "k2 = \<lparr>sk_kid = rotated_kid t' ''RS256'', sk_algorithm = ''RS256'', sk_key_material = m2,
      sk_is_current = True, sk_created_at = t', sk_expires_at = None\<rparr>"
    and "timestamp_int t = timestamp_int t'" and "\<forall>k \<in> set ks. sk_kid k \<noteq> rotated_kid t ''RS256''"
    and "now < t' + usecs grace"
  shows "current_for_alg now ''RS256'' (rotate_keys t' k2 grace (rotate_keys t k1 grace ks)) = Some k2 \<and>
    keyset_find now (sk_kid k2) (rotate_keys t' k2 grace (rotate_keys t k1 grace ks)) =
      Some (retire (t' + usecs grace) k1)"
proof
  let ?ks = "rotate_keys t' k2 grace (rotate_keys t k1 grace ks)"
  have kid: "sk_kid k2 = rotated_kid t ''RS256''" using assms(2,3) by (simp add: rotated_kid_def)
  let ?P = "\<lambda>k. sk_algorithm k = ''RS256'' \<and> sk_is_current k"
  have "filter ?P ?ks = [k2]" using assms(2) current_after_rotate [of "''RS256''" t' k2 grace] by simp
  then have "set (filter ?P ?ks) = {k2}" by simp
  then have "k \<in> set ?ks \<Longrightarrow> ?P k \<Longrightarrow> k = k2" "k2 \<in> set ?ks" for k by auto
  then show "current_for_alg now ''RS256'' ?ks = Some k2"
    unfolding current_for_alg_def using assms(2) by (intro find_Some_unique) (auto simp: key_is_active_def)
  have "find (\<lambda>k. sk_kid k = rotated_kid t ''RS256'' \<and> key_is_active now k)
      (map f ks @ xs) = find (\<lambda>k. sk_kid k = rotated_kid t ''RS256'' \<and> key_is_active now k) xs"
    if "\<And>k. sk_kid (f k) = sk_kid k" for f xs
    using assms(4) that by (induction ks) auto
  note skip = this
  have ks: "?ks = map (\<lambda>k. if ?P k then retire (t' + usecs grace) k else k)
      (map (\<lambda>k. if ?P k then retire (t + usecs grace) k else k) ks) @ [retire (t' + usecs grace) k1, k2]"
    using assms(1,2) by (simp add: rotate_keys_def keyset_add_def Let_def)
  show "keyset_find now (sk_kid k2) ?ks = Some (retire (t' + usecs grace) k1)"
    unfolding keyset_find_def kid ks map_map
    using assms(1,5) by (subst skip) (auto simp: retire_def key_is_active_def)
qed

theorem same_second_rotation_shadows_current_key_witness:
  "current_for_alg 3 ''RS256''
     (rotate_keys 2 \<lparr>sk_kid = rotated_kid 2 ''RS256'', sk_algorithm = ''RS256'', sk_key_material = [2],
        sk_is_current = True, sk_created_at = 2, sk_expires_at = None\<rparr> 3600
       (rotate_keys 1 \<lparr>sk_kid = rotated_kid 1 ''RS256'', sk_algorithm = ''RS256'', sk_key_material = [1],
        sk_is_current = True, sk_created_at = 1, sk_expires_at = None\<rparr> 3600 [])) =
     Some \<lparr>sk_kid = rotated_kid 2 ''RS256'', sk_algorithm = ''RS256'', sk_key_material = [2],
        sk_is_current = True, sk_created_at = 2, sk_expires_at = None\<rparr>"
  using same_second_rotation_shadows_current_key [OF refl refl, of 1 2 "[]" 3 3600 "[2]" "[1]"]
  by (simp add: timestamp_int_def usecs_def)


section \<open>Pruning and the published JWK\<close>

lemma find_filter_mono:
  "(\<And>k. P k \<Longrightarrow> Q k) \<Longrightarrow> find P (filter Q ks) = find P ks"
  by (induction ks) auto

lemma key_is_active_mono: "t \<le> t' \<Longrightarrow> key_is_active t' k \<Longrightarrow> key_is_active t k"
  by (auto simp: key_is_active_def split: option.splits)

text \<open>
  Pruning is invisible: it removes only keys no lookup would return, so every lookup at the
  time of the pruning or later answers as if it had not happened.
\<close>

theorem prune_invisible:
  assumes "t \<le> t'"
  shows "keyset_find t' kid (fst (prune_expired t ks)) = keyset_find t' kid ks \<and>
    current_for_alg t' alg (fst (prune_expired t ks)) = current_for_alg t' alg ks \<and>
    active_keys t' (fst (prune_expired t ks)) = active_keys t' ks \<and>
    active_keys_for_alg t' alg (fst (prune_expired t ks)) = active_keys_for_alg t' alg ks"
proof -
  have eq: "fst (prune_expired t ks) = filter (key_is_active t) ks"
    by (auto simp: prune_expired_def Let_def filter_empty_conv filter_id_conv)
  show ?thesis
    unfolding eq keyset_find_def current_for_alg_def active_keys_def active_keys_for_alg_def
    using key_is_active_mono [OF assms]
    by (auto intro!: find_filter_mono filter_cong)
qed

theorem prune_invisible_witness:
  "keyset_find 9 ''a'' (fst (prune_expired 8 [\<lparr>sk_kid = ''a'', sk_algorithm = ''HS256'', sk_key_material = [],
     sk_is_current = False, sk_created_at = 0, sk_expires_at = Some 8\<rparr>])) = None"
proof -
  have "(8 :: datetime) \<le> 9" by simp
  from prune_invisible [OF this, of "''a''" "[\<lparr>sk_kid = ''a'', sk_algorithm = ''HS256'', sk_key_material = [],
     sk_is_current = False, sk_created_at = 0, sk_expires_at = Some 8\<rparr>]"]
  show ?thesis by (simp add: keyset_find_def key_is_active_def)
qed

lemma bit_length_bound: "n < 2 ^ bit_length n"
proof (induction n rule: bit_length.induct)
  case (1 n)
  show ?case
  proof (cases "n = 0")
    case False
    then have "n div 2 < 2 ^ bit_length (n div 2)" using 1 by simp
    then have "n < 2 * 2 ^ bit_length (n div 2)" by linarith
    then show ?thesis using False by (simp add: bit_length.simps [of n])
  qed (simp add: bit_length.simps [of n])
qed

text \<open>
  The base64url integers of a published JWK decode to the numbers they encode.
\<close>

theorem uint_to_b64url_roundtrip:
  "map_option be_value (urlsafe_b64decode (pad4 (uint_to_b64url n))) = Some n"
proof -
  let ?k = "max ((bit_length n + 7) div 8) 1"
  have "n < 2 ^ bit_length n" by (rule bit_length_bound)
  also have "\<dots> \<le> 2 ^ (8 * ?k)"
  proof (rule power_increasing)
    have "bit_length n \<le> 8 * ((bit_length n + 7) div 8)" by linarith
    then show "bit_length n \<le> 8 * ?k" by (simp add: max_def)
  qed simp
  also have "\<dots> = 256 ^ ?k" by (simp add: power_mult)
  finally have "n mod 256 ^ ?k = n" by simp
  then show ?thesis by (simp add: uint_to_b64url_def b64url_roundtrip be_value_be_bytes)
qed

end
