(* ===== verification/Models.thy ===== *)
theory Models
  imports Keys
begin

text \<open>
  The domain models of \<open>models.py\<close>, field for field, with the methods they carry: the JSON-list
  columns of a client and of a trusted issuer, the access-token claims and their payload, and
  the expiry of a denylist entry. \<open>env\<close> is what one request reads from outside the process: its
  clocks, its random draws and the recursion depth left to the JSON scanner.

  The response models only give shape to a JSON object; \<open>exclude_none\<close> is the dropping of the
  absent members that \<open>model_dump(exclude_none=True)\<close> performs.
\<close>

record env =
  env_now :: datetime
  env_mono :: time
  env_recursion :: nat
  env_uuid :: "nat \<Rightarrow> string"
  env_urlsafe :: "nat \<Rightarrow> string"

definition env_time :: "env \<Rightarrow> rat" where
  \<comment> \<open>\<open>time.time()\<close>\<close>
  "env_time e = of_int (env_now e) / 1000000"

record client =
  client_pk :: string
  client_client_id :: string
  client_client_secret :: string
  client_redirect_uris :: string
  client_grant_types :: string
  client_scope :: string
  client_name :: string
  client_created_at :: datetime
  client_updated_at :: datetime
  client_token_endpoint_auth_method :: string
  client_registration_access_token :: string
  client_response_types :: string
  client_contacts :: string
  client_logo_uri :: string
  client_client_uri :: string
  client_policy_uri :: string
  client_tos_uri :: string
  client_jwks :: string
  client_jwks_uri :: string
  client_backchannel_logout_uri :: string
  client_backchannel_logout_session_required :: bool
  client_frontchannel_logout_uri :: string
  client_frontchannel_logout_session_required :: bool
  client_post_logout_redirect_uris :: string
  client_enabled :: bool
  client_require_state :: bool
  client_tls_client_certificate_subject_dn :: string
  client_dpop_nonce_required :: bool

record user =
  user_pk :: string
  user_username :: string
  user_password_hash :: string
  user_email :: string
  user_enabled :: bool
  user_role :: string
  user_created_at :: datetime
  user_updated_at :: datetime

record token =
  token_pk :: string
  token_access_token :: string
  token_refresh_token :: "string option"
  token_token_type :: string
  token_expires_in :: int
  token_scope :: string
  token_client_id :: string
  token_user_id :: "string option"
  token_created_at :: datetime
  token_expires_at :: datetime
  token_revoked :: bool
  token_token_family :: "string option"

record authorization_code =
  code_pk :: string
  code_code :: string
  code_client_id :: string
  code_user_id :: string
  code_redirect_uri :: string
  code_scope :: string
  code_created_at :: datetime
  code_expires_at :: datetime
  code_used :: bool
  code_code_challenge :: "string option"
  code_code_challenge_method :: "string option"
  code_nonce :: "string option"
  code_resource :: "string option"
  code_authorization_details :: "string option"
  code_claims_request :: "string option"
  code_token_family :: "string option"
  code_dpop_jkt :: "string option"

record device_authorization =
  device_pk :: string
  device_device_code :: string
  device_user_code :: string
  device_client_id :: string
  device_scope :: string
  device_created_at :: datetime
  device_expires_at :: datetime
  device_interval_seconds :: int
  device_approved :: bool
  device_denied :: bool
  device_used :: bool
  device_user_id :: "string option"

record trusted_issuer =
  issuer_pk :: string
  issuer_issuer :: string
  issuer_jwks_uri :: string
  issuer_allowed_audiences :: string
  issuer_subject_mapping :: string
  issuer_jit_provision :: bool
  issuer_allowed_client_ids :: string
  issuer_enabled :: bool
  issuer_created_at :: datetime
  issuer_updated_at :: datetime

record denylist_entry =
  deny_pk :: string
  deny_kind :: string
  deny_value :: string
  deny_reason :: string
  deny_created_by :: string
  deny_created_at :: datetime
  deny_expires_at :: "datetime option"

record audit_log_entry =
  audit_pk :: string
  audit_actor_id :: string
  audit_actor_email :: string
  audit_action :: string
  audit_target_kind :: string
  audit_target_id :: string
  audit_ip :: string
  audit_user_agent :: string
  audit_metadata :: string
  audit_created_at :: datetime

record access_claims =
  claims_sub :: string
  claims_iss :: string
  claims_aud :: "string list"
  claims_exp :: int
  claims_iat :: int
  claims_scope :: string
  claims_jti :: string
  claims_client_id :: "string option"
  claims_cnf :: "json option"
  claims_authorization_details :: "json option"
  claims_act :: "json option"

record id_token_claims =
  idt_iss :: string
  idt_sub :: string
  idt_aud :: string
  idt_exp :: int
  idt_iat :: int
  idt_nonce :: "string option"
  idt_at_hash :: "string option"
  idt_c_hash :: "string option"
  idt_email :: "string option"
  idt_preferred_username :: "string option"
  idt_acr :: "string option"
  idt_amr :: "string list option"
  idt_auth_time :: "int option"

record token_response =
  tr_access_token :: string
  tr_refresh_token :: "string option"
  tr_token_type :: string
  tr_expires_in :: int
  tr_scope :: "string option"
  tr_id_token :: "string option"
  tr_authorization_details :: "json option"

record introspection_response =
  ir_active :: bool
  ir_scope :: "string option"
  ir_client_id :: "string option"
  ir_username :: "string option"
  ir_token_type :: "string option"
  ir_exp :: "int option"
  ir_iat :: "int option"
  ir_nbf :: "int option"
  ir_sub :: "string option"
  ir_aud :: "json option"
  ir_jti :: "string option"
  ir_iss :: "string option"
  ir_cnf :: "json option"
  ir_authorization_details :: "json option"


section \<open>Methods\<close>

definition mk_client ::
  "string \<Rightarrow> string \<Rightarrow> string \<Rightarrow> string \<Rightarrow> string \<Rightarrow> string \<Rightarrow> string \<Rightarrow> datetime \<Rightarrow> client" where
  \<comment> \<open>the constructor with the default field values\<close>
  "mk_client pk cid secret uris grants scope name now =
     \<lparr>client_pk = pk, client_client_id = cid, client_client_secret = secret,
      client_redirect_uris = uris, client_grant_types = grants, client_scope = scope,
      client_name = name, client_created_at = now, client_updated_at = now,
      client_token_endpoint_auth_method = ''client_secret_basic'',
      client_registration_access_token = [], client_response_types = ''[\"code\"]'',
      client_contacts = [], client_logo_uri = [], client_client_uri = [], client_policy_uri = [],
      client_tos_uri = [], client_jwks = [], client_jwks_uri = [],
      client_backchannel_logout_uri = [], client_backchannel_logout_session_required = False,
      client_frontchannel_logout_uri = [], client_frontchannel_logout_session_required = False,
      client_post_logout_redirect_uris = [], client_enabled = True, client_require_state = False,
      client_tls_client_certificate_subject_dn = [], client_dpop_nonce_required = False\<rparr>"

definition is_public :: "client \<Rightarrow> bool" where
  "is_public c \<longleftrightarrow> client_token_endpoint_auth_method c = ''none''"

definition json_exc :: "json_error \<Rightarrow> exc" where
  \<comment> \<open>the exception an uncaught \<open>json.loads\<close> failure is\<close>
  "json_exc e = PyError (case e of JSONDecodeError \<Rightarrow> ''JSONDecodeError'' | JSONValueError \<Rightarrow> ''ValueError''
     | JSONRecursionError \<Rightarrow> ''RecursionError'' | JSONFuel \<Rightarrow> ''RecursionError'')"

definition loads_column :: "nat \<Rightarrow> string \<Rightarrow> json outcome" where
  \<comment> \<open>\<open>json.loads(col) if col else []\<close>\<close>
  "loads_column lvl col =
     (if col = [] then Inr (JArr [])
      else (case json_loads lvl col of Inl e \<Rightarrow> Inl (json_exc e) | Inr v \<Rightarrow> Inr v))"

definition redirect_uri_list :: "nat \<Rightarrow> client \<Rightarrow> json outcome" where
  "redirect_uri_list lvl c = loads_column lvl (client_redirect_uris c)"

definition grant_type_list :: "nat \<Rightarrow> client \<Rightarrow> json outcome" where
  "grant_type_list lvl c = loads_column lvl (client_grant_types c)"

definition get_post_logout_redirect_uris :: "nat \<Rightarrow> client \<Rightarrow> json outcome" where
  \<comment> \<open>only \<open>JSONDecodeError\<close> is caught\<close>
  "get_post_logout_redirect_uris lvl c =
     (if client_post_logout_redirect_uris c = [] then Inr (JArr [])
      else (case json_loads lvl (client_post_logout_redirect_uris c) of
          Inl e \<Rightarrow> if e = JSONDecodeError then Inr (JArr []) else Inl (json_exc e)
        | Inr v \<Rightarrow> Inr v))"

fun is_substring :: "string \<Rightarrow> string \<Rightarrow> bool" where
  \<comment> \<open>\<open>p in s\<close> of two strings\<close>
  "is_substring p [] = (p = [])"
| "is_substring p (c # s) = (starts_with p (c # s) \<or> is_substring p s)"

definition py_in :: "string \<Rightarrow> json \<Rightarrow> bool outcome" where
  \<comment> \<open>\<open>s in v\<close>: membership, substring or key test, by the type of \<open>v\<close>\<close>
  "py_in s v =
     (case v of
        JArr xs \<Rightarrow> Inr (JStr s \<in> set xs)
      | JStr t \<Rightarrow> Inr (is_substring s t)
      | JObj ps \<Rightarrow> Inr (s \<in> fst ` set ps)
      | _ \<Rightarrow> Inl (PyError ''TypeError''))"

definition client_has_grant :: "nat \<Rightarrow> string \<Rightarrow> client \<Rightarrow> bool outcome" where
  \<comment> \<open>\<open>grant_type in client.grant_type_list()\<close>\<close>
  "client_has_grant lvl g c = bind_res (grant_type_list lvl c) (py_in g)"

definition is_admin :: "user \<Rightarrow> bool" where
  "is_admin u \<longleftrightarrow> user_role u = ''admin''"

definition claims_new ::
  "env \<Rightarrow> string \<Rightarrow> string \<Rightarrow> string \<Rightarrow> int \<Rightarrow> string \<Rightarrow> json option \<Rightarrow> json option \<Rightarrow> json option
   \<Rightarrow> string option \<Rightarrow> string list option \<Rightarrow> access_claims" where
  \<comment> \<open>the first draw of a uuid is the \<open>jti\<close>\<close>
  "claims_new e subject client_id scope duration_seconds issuer cnf details act resource audience =
     (let iat = timestamp_int (env_now e)
      in \<lparr>claims_sub = subject, claims_iss = issuer,
          claims_aud =
            (case audience of
               Some (a # as) \<Rightarrow> a # as
             | _ \<Rightarrow> if truthy resource then [the resource] else [client_id]),
          claims_exp = iat + duration_seconds, claims_iat = iat, claims_scope = scope,
          claims_jti = env_uuid e 1, claims_client_id = Some client_id, claims_cnf = cnf,
          claims_authorization_details = details, claims_act = act\<rparr>)"

definition opt_member :: "string \<Rightarrow> ('a \<Rightarrow> json) \<Rightarrow> 'a option \<Rightarrow> json dict" where
  \<comment> \<open>\<open>exclude_none\<close>: an absent member is left out\<close>
  "opt_member k f v = (case v of Some x \<Rightarrow> [(k, f x)] | None \<Rightarrow> [])"

definition to_payload :: "access_claims \<Rightarrow> json dict" where
  "to_payload c =
     [(''sub'', JStr (claims_sub c)), (''iss'', JStr (claims_iss c)),
      (''aud'', if length (claims_aud c) = 1 then JStr (hd (claims_aud c))
                else JArr (map JStr (claims_aud c))),
      (''exp'', JInt (claims_exp c)), (''iat'', JInt (claims_iat c)),
      (''scope'', JStr (claims_scope c)), (''jti'', JStr (claims_jti c))] @
     opt_member ''client_id'' JStr (claims_client_id c) @
     opt_member ''cnf'' id (claims_cnf c) @
     opt_member ''authorization_details'' id (claims_authorization_details c) @
     opt_member ''act'' id (claims_act c)"

definition id_token_payload :: "id_token_claims \<Rightarrow> json dict" where
  \<comment> \<open>\<open>model_dump(exclude_none=True)\<close>\<close>
  "id_token_payload c =
     [(''iss'', JStr (idt_iss c)), (''sub'', JStr (idt_sub c)), (''aud'', JStr (idt_aud c)),
      (''exp'', JInt (idt_exp c)), (''iat'', JInt (idt_iat c))] @
     opt_member ''nonce'' JStr (idt_nonce c) @
     opt_member ''at_hash'' JStr (idt_at_hash c) @
     opt_member ''c_hash'' JStr (idt_c_hash c) @
     opt_member ''email'' JStr (idt_email c) @
     opt_member ''preferred_username'' JStr (idt_preferred_username c) @
     opt_member ''acr'' JStr (idt_acr c) @
     opt_member ''amr'' (\<lambda>xs. JArr (map JStr xs)) (idt_amr c) @
     opt_member ''auth_time'' JInt (idt_auth_time c)"

definition token_response_body :: "token_response \<Rightarrow> json" where
  "token_response_body r =
     JObj ([(''access_token'', JStr (tr_access_token r))] @
       opt_member ''refresh_token'' JStr (tr_refresh_token r) @
       [(''token_type'', JStr (tr_token_type r)), (''expires_in'', JInt (tr_expires_in r))] @
       opt_member ''scope'' JStr (tr_scope r) @
       opt_member ''id_token'' JStr (tr_id_token r) @
       opt_member ''authorization_details'' id (tr_authorization_details r))"

definition issuer_list :: "nat \<Rightarrow> string \<Rightarrow> string list outcome" where
  \<comment> \<open>\<open>TrustedIssuer._list\<close>; \<open>except ValueError\<close> covers both decode failures\<close>
  "issuer_list lvl raw =
     (case json_loads lvl (if raw = [] then ''[]'' else raw) of
        Inl e \<Rightarrow> if e = JSONDecodeError \<or> e = JSONValueError then Inr [] else Inl (json_exc e)
      | Inr (JArr xs) \<Rightarrow> Inr (map jstr_of (filter is_jstr xs))
      | Inr _ \<Rightarrow> Inr [])"

definition allowed_audiences_list :: "nat \<Rightarrow> trusted_issuer \<Rightarrow> string list outcome" where
  "allowed_audiences_list lvl t = issuer_list lvl (issuer_allowed_audiences t)"

definition allows_client :: "nat \<Rightarrow> trusted_issuer \<Rightarrow> string \<Rightarrow> bool outcome" where
  "allows_client lvl t cid =
     (case json_loads lvl (if issuer_allowed_client_ids t = [] then ''[]'' else issuer_allowed_client_ids t) of
        Inl e \<Rightarrow> if e = JSONDecodeError \<or> e = JSONValueError then Inr False else Inl (json_exc e)
      | Inr (JArr xs) \<Rightarrow>
          if list_all is_jstr xs then Inr (xs = [] \<or> JStr cid \<in> set xs) else Inr False
      | Inr _ \<Rightarrow> Inr False)"

definition deny_is_active :: "datetime \<Rightarrow> denylist_entry \<Rightarrow> bool" where
  "deny_is_active now d \<longleftrightarrow> (case deny_expires_at d of None \<Rightarrow> True | Some e \<Rightarrow> e > now)"


section \<open>Facts\<close>

lemma starts_with_Nil [simp]: "starts_with [] s"
  by (simp add: starts_with_def)

lemma is_substring_iff: "is_substring p s \<longleftrightarrow> (\<exists>u v. s = u @ p @ v)"
proof (induction s)
  case (Cons c s)
  show ?case
  proof
    assume "is_substring p (c # s)"
    then consider v where "c # s = p @ v" | u v where "s = u @ p @ v"
      using Cons by (auto simp: starts_with_iff)
    then show "\<exists>u v. c # s = u @ p @ v"
    proof cases
      case 1 then have "c # s = [] @ p @ v" by simp then show ?thesis by blast
    next
      case 2 then have "c # s = (c # u) @ p @ v" by simp then show ?thesis by blast
    qed
  next
    assume "\<exists>u v. c # s = u @ p @ v"
    then obtain u v where "c # s = u @ p @ v" by blast
    then have "starts_with p (c # s) \<or> (\<exists>u v. s = u @ p @ v)"
      by (cases u) (auto simp: starts_with_iff)
    then show "is_substring p (c # s)" using Cons by simp
  qed
qed simp

lemma client_has_grant_strings:
  assumes "0 < lvl" and "client_grant_types c = dumps_default (JArr (map JStr gs))"
  shows "client_has_grant lvl g c = Inr (g \<in> set gs)"
proof -
  have "dumps_default (JArr (map JStr gs)) \<noteq> []" by (simp add: dumps_default_def)
  then show ?thesis
    using assms json_loads_dumps_strings [OF assms(1), of gs]
    by (simp add: client_has_grant_def grant_type_list_def loads_column_def py_in_def)
       (auto simp: image_iff)
qed

text \<open>
  A list column written with \<open>json.dumps\<close>, as registration writes the redirect URIs and the
  grant types of a client, reads back as exactly the list that was written, whatever characters
  its strings hold.
\<close>

theorem client_list_columns_roundtrip:
  assumes "0 < lvl" and "client_redirect_uris c = dumps_default (JArr (map JStr uris))"
    and "client_grant_types c = dumps_default (JArr (map JStr grants))"
  shows "redirect_uri_list lvl c = Inr (JArr (map JStr uris)) \<and>
    client_has_grant lvl g c = Inr (g \<in> set grants)"
  using assms json_loads_dumps_strings [OF assms(1), of uris]
  by (simp add: client_has_grant_strings redirect_uri_list_def loads_column_def dumps_default_def)

theorem client_list_columns_roundtrip_witness:
  "redirect_uri_list 10 (mk_client ''1'' ''app'' ''s'' (dumps_default (JArr (map JStr [''https://a/cb'', [CHR 0x22, CHR 0xE9]])))
      (dumps_default (JArr (map JStr [''refresh_token'']))) ''openid'' ''App'' 0) =
     Inr (JArr (map JStr [''https://a/cb'', [CHR 0x22, CHR 0xE9]]))"
  using client_list_columns_roundtrip [of 10
    "mk_client ''1'' ''app'' ''s'' (dumps_default (JArr (map JStr [''https://a/cb'', [CHR 0x22, CHR 0xE9]])))
      (dumps_default (JArr (map JStr [''refresh_token'']))) ''openid'' ''App'' 0"
    "[''https://a/cb'', [CHR 0x22, CHR 0xE9]]" "[''refresh_token'']" "[]"]
  by (simp add: mk_client_def)

end
