(* ===== verification/Sql_Storage.thy ===== *)
theory Sql_Storage
  imports Models "HOL-Library.List_Lexorder" "HOL-Library.Char_ord"
begin

text \<open>
  The SQL backend (\<open>storage/sql.py\<close>, \<open>storage/paging.py\<close>). A table is the list of its rows in
  insertion order; a statement is a function on it. \<open>INSERT\<close> fails with \<open>IntegrityError\<close> when it
  would violate the primary key or a unique index of the schema, and on PostgreSQL, which
  enforces them, also when it would violate a foreign key; SQLite leaves foreign keys unchecked
  because no connection turns them on. A failed statement rolls its transaction back, so a
  failing operation returns no database. Instants are compared as instants; the order of rows
  with equal sort keys, which SQL leaves open, is their insertion order.

  Every write of the backend is a constructor of \<open>storage_op\<close>; the theorems about runs of
  operations quantify over lists of them.
\<close>

datatype dialect = Sqlite | Postgres

record database =
  db_dialect :: dialect
  db_clients :: "client list"
  db_users :: "user list"
  db_tokens :: "token list"
  db_codes :: "authorization_code list"
  db_devices :: "device_authorization list"
  db_issuers :: "trusted_issuer list"
  db_denylist :: "denylist_entry list"
  db_audit :: "audit_log_entry list"


section \<open>Statements\<close>

definition integrity_error :: exc where
  "integrity_error = PyError ''IntegrityError''"

definition sql_insert :: "('r \<Rightarrow> 'r \<Rightarrow> bool) \<Rightarrow> 'r \<Rightarrow> 'r list \<Rightarrow> 'r list outcome" where
  \<comment> \<open>\<open>INSERT\<close> of a row into a table whose unique keys clash as the first argument says\<close>
  "sql_insert clash r rows = (if list_ex (clash r) rows then Inl integrity_error else Inr (rows @ [r]))"

definition sql_update :: "('r \<Rightarrow> bool) \<Rightarrow> ('r \<Rightarrow> 'r) \<Rightarrow> 'r list \<Rightarrow> 'r list" where
  "sql_update cond upd rows = map (\<lambda>r. if cond r then upd r else r) rows"

definition rowcount :: "('r \<Rightarrow> bool) \<Rightarrow> 'r list \<Rightarrow> nat" where
  "rowcount cond rows = length (filter cond rows)"

definition sql_delete :: "('r \<Rightarrow> bool) \<Rightarrow> 'r list \<Rightarrow> 'r list" where
  "sql_delete cond rows = filter (\<lambda>r. \<not> cond r) rows"

definition fk_ok :: "database \<Rightarrow> bool \<Rightarrow> bool" where
  \<comment> \<open>a foreign-key condition matters only where it is enforced\<close>
  "fk_ok db c \<longleftrightarrow> db_dialect db = Sqlite \<or> c"

definition has_client :: "database \<Rightarrow> string \<Rightarrow> bool" where
  "has_client db cid \<longleftrightarrow> list_ex (\<lambda>c. client_client_id c = cid) (db_clients db)"

definition has_user :: "database \<Rightarrow> string \<Rightarrow> bool" where
  "has_user db uid \<longleftrightarrow> list_ex (\<lambda>u. user_pk u = uid) (db_users db)"

definition user_ref_ok :: "database \<Rightarrow> string option \<Rightarrow> bool" where
  "user_ref_ok db u \<longleftrightarrow> (case u of None \<Rightarrow> True | Some uid \<Rightarrow> has_user db uid)"


section \<open>Escaping and LIKE\<close>

definition py_replace :: "char \<Rightarrow> string \<Rightarrow> string \<Rightarrow> string" where
  \<comment> \<open>\<open>s.replace(c, r)\<close> for a one-character \<open>c\<close>\<close>
  "py_replace c r s = concat (map (\<lambda>x. if x = c then r else [x]) s)"

definition escape_like :: "string \<Rightarrow> string" where
  "escape_like value =
     py_replace (CHR ''_'') [CHR 0x5C, CHR ''_'']
       (py_replace (CHR ''%'') [CHR 0x5C, CHR ''%'']
         (py_replace (CHR 0x5C) [CHR 0x5C, CHR 0x5C] value))"

definition ascii_lower :: "char \<Rightarrow> char" where
  "ascii_lower c = (if (of_char c :: nat) < 128 then lower_char c else c)"

definition sql_lower :: "dialect \<Rightarrow> string \<Rightarrow> string" where
  \<comment> \<open>\<open>LOWER\<close>: ASCII only on SQLite\<close>
  "sql_lower d s = map (case d of Sqlite \<Rightarrow> ascii_lower | Postgres \<Rightarrow> lower_char) s"

definition like_fold :: "dialect \<Rightarrow> char \<Rightarrow> char" where
  \<comment> \<open>SQLite's \<open>LIKE\<close> ignores ASCII case\<close>
  "like_fold d c = (case d of Sqlite \<Rightarrow> ascii_lower c | Postgres \<Rightarrow> c)"

function sql_like :: "dialect \<Rightarrow> string \<Rightarrow> string \<Rightarrow> bool" where
  \<comment> \<open>\<open>s LIKE p ESCAPE '\'\<close>\<close>
  "sql_like d [] s = (s = [])"
| "sql_like d (p # ps) s =
     (if p = CHR ''%'' then
        sql_like d ps s \<or> (case s of [] \<Rightarrow> False | _ # t \<Rightarrow> sql_like d (p # ps) t)
      else if p = CHR ''_'' then (case s of [] \<Rightarrow> False | _ # t \<Rightarrow> sql_like d ps t)
      else if p = CHR 0x5C then
        (case ps of
           [] \<Rightarrow> False
         | q # qs \<Rightarrow>
             (case s of [] \<Rightarrow> False | c # t \<Rightarrow> like_fold d c = like_fold d q \<and> sql_like d qs t))
      else (case s of [] \<Rightarrow> False | c # t \<Rightarrow> like_fold d c = like_fold d p \<and> sql_like d ps t))"
  by pat_completeness auto
termination
  by (relation "measure (\<lambda>(d, p, s). length p + length s)") auto

definition search_pattern :: "string option \<Rightarrow> string" where
  \<comment> \<open>\<open>f"%{_escape_like((q.search or '').lower())}%"\<close>\<close>
  "search_pattern q = ''%'' @ escape_like (py_lower (or_str q [])) @ ''%''"


section \<open>Pagination\<close>

record list_query =
  lq_limit :: "int option"
  lq_offset :: int
  lq_sort_by :: "string option"
  lq_sort_dir :: string
  lq_search :: "string option"
  lq_status :: "string option"

definition DEFAULT_LIMIT :: int where "DEFAULT_LIMIT = 25"

definition MAX_LIMIT :: int where "MAX_LIMIT = 200"

definition mk_list_query ::
  "int option \<Rightarrow> int \<Rightarrow> string option \<Rightarrow> string \<Rightarrow> string option \<Rightarrow> string option \<Rightarrow> list_query" where
  \<comment> \<open>the constructor with \<open>__post_init__\<close>\<close>
  "mk_list_query limit offset sort_by sort_dir search status =
     \<lparr>lq_limit = limit, lq_offset = max offset 0, lq_sort_by = sort_by, lq_sort_dir = sort_dir,
      lq_search = search, lq_status = status\<rparr>"

definition effective_limit :: "list_query \<Rightarrow> int" where
  "effective_limit q =
     (let limit = (case lq_limit q of Some l \<Rightarrow> l | None \<Rightarrow> DEFAULT_LIMIT);
          limit' = (if limit < 0 then DEFAULT_LIMIT else limit)
      in min limit' MAX_LIMIT)"

definition page_envelope :: "json list \<Rightarrow> int \<Rightarrow> int \<Rightarrow> int \<Rightarrow> json" where
  "page_envelope items cnt limit offset =
     JObj [(''items'', JArr items), (''total'', JInt cnt), (''limit'', JInt limit), (''offset'', JInt offset)]"

definition whitelist_col :: "string option \<Rightarrow> string list \<Rightarrow> string" where
  "whitelist_col requested allowed =
     (case requested of
        Some r \<Rightarrow> if r \<in> set allowed then r else last allowed
      | None \<Rightarrow> last allowed)"

text \<open>A sort key: NULL first, then text by code points or an instant by its value.\<close>

definition key_text :: "string \<Rightarrow> int list" where
  "key_text s = 1 # map of_char s"

definition key_opt :: "string option \<Rightarrow> int list" where
  "key_opt v = (case v of None \<Rightarrow> [] | Some s \<Rightarrow> key_text s)"

definition key_time :: "datetime \<Rightarrow> int list" where
  "key_time t = [1, t]"

definition order_by :: "('r \<Rightarrow> int list) \<Rightarrow> string \<Rightarrow> 'r list \<Rightarrow> 'r list" where
  \<comment> \<open>\<open>ORDER BY col ASC|DESC\<close>: ascending only for \<open>sort_dir == "asc"\<close>\<close>
  "order_by key dir rows = (if dir = ''asc'' then sort_key key rows else rev (sort_key key rows))"

definition select_page :: "('r \<Rightarrow> bool) \<Rightarrow> ('r \<Rightarrow> int list) \<Rightarrow> list_query \<Rightarrow> 'r list \<Rightarrow> 'r list \<times> nat" where
  \<comment> \<open>the rows of one page and the count over all pages\<close>
  "select_page cond key q rows =
     (take (nat (effective_limit q)) (drop (nat (lq_offset q))
        (order_by key (lq_sort_dir q) (filter cond rows))),
      rowcount cond rows)"


section \<open>Clients\<close>

definition client_clash :: "client \<Rightarrow> client \<Rightarrow> bool" where
  "client_clash a b \<longleftrightarrow> client_pk a = client_pk b \<or> client_client_id a = client_client_id b"

definition save_client :: "client \<Rightarrow> database \<Rightarrow> database outcome" where
  "save_client c db =
     bind_res (sql_insert client_clash c (db_clients db)) (\<lambda>rows. Inr (db\<lparr>db_clients := rows\<rparr>))"

definition get_client :: "string \<Rightarrow> database \<Rightarrow> client option" where
  "get_client cid db = find (\<lambda>c. client_client_id c = cid) (db_clients db)"

definition client_update_cols :: "client \<Rightarrow> client \<Rightarrow> client" where
  \<comment> \<open>\<open>_CLIENT_UPDATE_COLS\<close>: everything but the ids, \<open>created_at\<close> and \<open>require_state\<close>\<close>
  "client_update_cols new old =
     new\<lparr>client_pk := client_pk old, client_client_id := client_client_id old,
         client_created_at := client_created_at old, client_require_state := client_require_state old\<rparr>"

definition update_client :: "client \<Rightarrow> database \<Rightarrow> database" where
  "update_client c db = db\<lparr>db_clients :=
     sql_update (\<lambda>r. client_client_id r = client_client_id c) (client_update_cols c) (db_clients db)\<rparr>"

definition client_referenced :: "string \<Rightarrow> database \<Rightarrow> bool" where
  "client_referenced cid db \<longleftrightarrow>
     list_ex (\<lambda>t. token_client_id t = cid) (db_tokens db) \<or>
     list_ex (\<lambda>c. code_client_id c = cid) (db_codes db) \<or>
     list_ex (\<lambda>d. device_client_id d = cid) (db_devices db)"

definition delete_client :: "string \<Rightarrow> database \<Rightarrow> database outcome" where
  "delete_client cid db =
     (if fk_ok db (\<not> (has_client db cid \<and> client_referenced cid db))
      then Inr (db\<lparr>db_clients := sql_delete (\<lambda>c. client_client_id c = cid) (db_clients db)\<rparr>)
      else Inl integrity_error)"

definition set_client_enabled :: "string \<Rightarrow> bool \<Rightarrow> database \<Rightarrow> database" where
  "set_client_enabled cid enabled db = db\<lparr>db_clients :=
     sql_update (\<lambda>c. client_client_id c = cid) (\<lambda>c. c\<lparr>client_enabled := enabled\<rparr>) (db_clients db)\<rparr>"

definition set_client_secret :: "string \<Rightarrow> string \<Rightarrow> database \<Rightarrow> database" where
  "set_client_secret cid secret db = db\<lparr>db_clients :=
     sql_update (\<lambda>c. client_client_id c = cid) (\<lambda>c. c\<lparr>client_client_secret := secret\<rparr>) (db_clients db)\<rparr>"

definition list_all_clients :: "database \<Rightarrow> client list" where
  "list_all_clients db = order_by (\<lambda>c. key_time (client_created_at c)) ''desc'' (db_clients db)"

definition client_sort_key :: "string \<Rightarrow> client \<Rightarrow> int list" where
  "client_sort_key col c =
     (if col = ''name'' then key_text (client_name c)
      else if col = ''client_id'' then key_text (client_client_id c)
      else key_time (client_created_at c))"

definition list_clients_page :: "list_query \<Rightarrow> database \<Rightarrow> client list \<times> nat" where
  "list_clients_page q db =
     (let col = whitelist_col (lq_sort_by q) [''name'', ''client_id'', ''created_at''];
          p = search_pattern (lq_search q); d = db_dialect db
      in select_page (\<lambda>c. sql_like d p (sql_lower d (client_name c)) \<or>
                          sql_like d p (sql_lower d (client_client_id c)))
           (client_sort_key col) q (db_clients db))"


section \<open>Users\<close>

definition user_clash :: "user \<Rightarrow> user \<Rightarrow> bool" where
  "user_clash a b \<longleftrightarrow> user_pk a = user_pk b \<or> user_username a = user_username b"

definition save_user :: "user \<Rightarrow> database \<Rightarrow> database outcome" where
  "save_user u db =
     bind_res (sql_insert user_clash u (db_users db)) (\<lambda>rows. Inr (db\<lparr>db_users := rows\<rparr>))"

definition get_user_by_username :: "string \<Rightarrow> database \<Rightarrow> user option" where
  "get_user_by_username name db = find (\<lambda>u. user_username u = name) (db_users db)"

definition get_user_by_id :: "string \<Rightarrow> database \<Rightarrow> user option" where
  "get_user_by_id uid db = find (\<lambda>u. user_pk u = uid) (db_users db)"

definition sql_trim :: "string \<Rightarrow> string" where
  \<comment> \<open>SQL \<open>trim\<close> removes spaces only\<close>
  "sql_trim s = rstrip_char (CHR '' '') (dropWhile (\<lambda>c. c = CHR '' '') s)"

definition get_users_by_email :: "string \<Rightarrow> database \<Rightarrow> user list" where
  "get_users_by_email email db =
     (let folded = py_lower (py_strip email)
      in filter (\<lambda>u. sql_lower (db_dialect db) (sql_trim (user_email u)) = folded) (db_users db))"

definition user_update_cols :: "user \<Rightarrow> user \<Rightarrow> user" where
  "user_update_cols new old = new\<lparr>user_pk := user_pk old, user_created_at := user_created_at old\<rparr>"

definition update_user :: "user \<Rightarrow> database \<Rightarrow> database outcome" where
  "update_user u db =
     (if has_user db (user_pk u) \<and>
         list_ex (\<lambda>r. user_pk r \<noteq> user_pk u \<and> user_username r = user_username u) (db_users db)
      then Inl integrity_error
      else Inr (db\<lparr>db_users := sql_update (\<lambda>r. user_pk r = user_pk u) (user_update_cols u) (db_users db)\<rparr>))"

definition user_referenced :: "string \<Rightarrow> database \<Rightarrow> bool" where
  \<comment> \<open>references other than the tokens the transaction has just unlinked\<close>
  "user_referenced uid db \<longleftrightarrow>
     list_ex (\<lambda>c. code_user_id c = uid) (db_codes db) \<or>
     list_ex (\<lambda>d. device_user_id d = Some uid) (db_devices db)"

definition unlink_user_tokens :: "string \<Rightarrow> database \<Rightarrow> database" where
  "unlink_user_tokens uid db = db\<lparr>db_tokens :=
     sql_update (\<lambda>t. token_user_id t = Some uid)
       (\<lambda>t. t\<lparr>token_revoked := True, token_user_id := None\<rparr>) (db_tokens db)\<rparr>"

definition delete_user :: "string \<Rightarrow> database \<Rightarrow> database outcome" where
  "delete_user uid db =
     (let db1 = unlink_user_tokens uid db
      in if fk_ok db1 (\<not> (has_user db1 uid \<and> user_referenced uid db1))
         then Inr (db1\<lparr>db_users := sql_delete (\<lambda>u. user_pk u = uid) (db_users db1)\<rparr>)
         else Inl integrity_error)"

definition set_user_enabled :: "string \<Rightarrow> bool \<Rightarrow> database \<Rightarrow> database" where
  "set_user_enabled uid enabled db = db\<lparr>db_users :=
     sql_update (\<lambda>u. user_pk u = uid) (\<lambda>u. u\<lparr>user_enabled := enabled\<rparr>) (db_users db)\<rparr>"

definition set_user_role :: "string \<Rightarrow> string \<Rightarrow> database \<Rightarrow> database" where
  "set_user_role uid role db = db\<lparr>db_users :=
     sql_update (\<lambda>u. user_pk u = uid) (\<lambda>u. u\<lparr>user_role := role\<rparr>) (db_users db)\<rparr>"

definition set_user_password_hash :: "string \<Rightarrow> string \<Rightarrow> database \<Rightarrow> database" where
  "set_user_password_hash uid h db = db\<lparr>db_users :=
     sql_update (\<lambda>u. user_pk u = uid) (\<lambda>u. u\<lparr>user_password_hash := h\<rparr>) (db_users db)\<rparr>"

definition list_all_users :: "database \<Rightarrow> user list" where
  "list_all_users db = order_by (\<lambda>u. key_time (user_created_at u)) ''desc'' (db_users db)"

definition user_sort_key :: "string \<Rightarrow> user \<Rightarrow> int list" where
  "user_sort_key col u =
     (if col = ''username'' then key_text (user_username u)
      else if col = ''email'' then key_text (user_email u)
      else if col = ''role'' then key_text (user_role u)
      else key_time (user_created_at u))"

definition list_users_page :: "list_query \<Rightarrow> database \<Rightarrow> user list \<times> nat" where
  "list_users_page q db =
     (let col = whitelist_col (lq_sort_by q) [''username'', ''email'', ''role'', ''created_at''];
          p = search_pattern (lq_search q); d = db_dialect db
      in select_page (\<lambda>u. sql_like d p (sql_lower d (user_username u)) \<or>
                          sql_like d p (sql_lower d (user_email u)))
           (user_sort_key col) q (db_users db))"


section \<open>Tokens\<close>

definition token_clash :: "token \<Rightarrow> token \<Rightarrow> bool" where
  "token_clash a b \<longleftrightarrow> token_pk a = token_pk b \<or> token_access_token a = token_access_token b"

definition save_token :: "token \<Rightarrow> database \<Rightarrow> database outcome" where
  "save_token t db =
     (if fk_ok db (has_client db (token_client_id t) \<and> user_ref_ok db (token_user_id t))
      then bind_res (sql_insert token_clash t (db_tokens db)) (\<lambda>rows. Inr (db\<lparr>db_tokens := rows\<rparr>))
      else Inl integrity_error)"

definition get_token_by_access_token :: "string \<Rightarrow> database \<Rightarrow> token option" where
  "get_token_by_access_token a db = find (\<lambda>t. token_access_token t = a) (db_tokens db)"

definition get_token_by_refresh_token :: "string \<Rightarrow> database \<Rightarrow> token option" where
  "get_token_by_refresh_token r db = find (\<lambda>t. token_refresh_token t = Some r) (db_tokens db)"

definition get_token_by_id :: "string \<Rightarrow> database \<Rightarrow> token option" where
  "get_token_by_id i db = find (\<lambda>t. token_pk t = i) (db_tokens db)"

definition revoke :: "token \<Rightarrow> token" where
  "revoke t = t\<lparr>token_revoked := True\<rparr>"

definition revoke_where :: "(token \<Rightarrow> bool) \<Rightarrow> database \<Rightarrow> nat \<times> database" where
  "revoke_where cond db =
     (rowcount cond (db_tokens db), db\<lparr>db_tokens := sql_update cond revoke (db_tokens db)\<rparr>)"

definition revoke_token :: "string \<Rightarrow> database \<Rightarrow> database" where
  "revoke_token s db =
     snd (revoke_where (\<lambda>t. token_access_token t = s \<or> token_refresh_token t = Some s) db)"

definition revoke_token_family :: "string \<Rightarrow> database \<Rightarrow> nat \<times> database" where
  "revoke_token_family f db = revoke_where (\<lambda>t. token_token_family t = Some f) db"

definition revoke_tokens_by_user_id :: "string \<Rightarrow> database \<Rightarrow> nat \<times> database" where
  "revoke_tokens_by_user_id uid db = revoke_where (\<lambda>t. token_user_id t = Some uid \<and> \<not> token_revoked t) db"

definition revoke_tokens_by_client_id :: "string \<Rightarrow> database \<Rightarrow> nat \<times> database" where
  "revoke_tokens_by_client_id cid db = revoke_where (\<lambda>t. token_client_id t = cid \<and> \<not> token_revoked t) db"

definition list_all_tokens :: "database \<Rightarrow> token list" where
  "list_all_tokens db =
     take 200 (order_by (\<lambda>t. key_time (token_created_at t)) ''desc'' (db_tokens db))"

definition token_sort_key :: "string \<Rightarrow> token \<Rightarrow> int list" where
  "token_sort_key col t =
     (if col = ''client_id'' then key_text (token_client_id t)
      else if col = ''user_id'' then key_opt (token_user_id t)
      else if col = ''scope'' then key_text (token_scope t)
      else if col = ''expires_at'' then key_time (token_expires_at t)
      else key_time (token_created_at t))"

definition token_status_cond :: "datetime \<Rightarrow> string option \<Rightarrow> token \<Rightarrow> bool" where
  "token_status_cond now status t \<longleftrightarrow>
     (if status = Some ''active'' then \<not> token_revoked t \<and> token_expires_at t > now
      else if status = Some ''revoked'' then token_revoked t
      else if status = Some ''expired'' then \<not> token_revoked t \<and> token_expires_at t \<le> now
      else True)"

definition list_tokens_page :: "datetime \<Rightarrow> list_query \<Rightarrow> database \<Rightarrow> token list \<times> nat" where
  "list_tokens_page now q db =
     (let col = whitelist_col (lq_sort_by q) [''client_id'', ''user_id'', ''scope'', ''expires_at'', ''created_at''];
          p = search_pattern (lq_search q); d = db_dialect db
      in select_page (\<lambda>t. (sql_like d p (sql_lower d (token_client_id t)) \<or>
                           sql_like d p (sql_lower d (case token_user_id t of Some u \<Rightarrow> u | None \<Rightarrow> []))) \<and>
                          token_status_cond now (lq_status q) t)
           (token_sort_key col) q (db_tokens db))"


section \<open>Authorization codes\<close>

definition code_clash :: "authorization_code \<Rightarrow> authorization_code \<Rightarrow> bool" where
  "code_clash a b \<longleftrightarrow> code_pk a = code_pk b \<or> code_code a = code_code b"

definition save_authorization_code :: "authorization_code \<Rightarrow> database \<Rightarrow> database outcome" where
  "save_authorization_code c db =
     (if fk_ok db (has_client db (code_client_id c) \<and> has_user db (code_user_id c))
      then bind_res (sql_insert code_clash c (db_codes db)) (\<lambda>rows. Inr (db\<lparr>db_codes := rows\<rparr>))
      else Inl integrity_error)"

definition get_authorization_code :: "string \<Rightarrow> database \<Rightarrow> authorization_code option" where
  "get_authorization_code s db = find (\<lambda>c. code_code c = s) (db_codes db)"

definition get_authorization_code_by_token_family :: "string \<Rightarrow> database \<Rightarrow> authorization_code option" where
  "get_authorization_code_by_token_family f db = find (\<lambda>c. code_token_family c = Some f) (db_codes db)"

definition mark_authorization_code_used :: "string \<Rightarrow> database \<Rightarrow> nat \<times> database" where
  "mark_authorization_code_used s db =
     (let cond = (\<lambda>c. code_code c = s \<and> \<not> code_used c)
      in (rowcount cond (db_codes db),
          db\<lparr>db_codes := sql_update cond (\<lambda>c. c\<lparr>code_used := True\<rparr>) (db_codes db)\<rparr>))"


section \<open>Device authorizations\<close>

definition device_clash :: "device_authorization \<Rightarrow> device_authorization \<Rightarrow> bool" where
  "device_clash a b \<longleftrightarrow> device_pk a = device_pk b \<or> device_device_code a = device_device_code b \<or>
     device_user_code a = device_user_code b"

definition save_device_authorization :: "device_authorization \<Rightarrow> database \<Rightarrow> database outcome" where
  "save_device_authorization d db =
     (if fk_ok db (has_client db (device_client_id d) \<and> user_ref_ok db (device_user_id d))
      then bind_res (sql_insert device_clash d (db_devices db)) (\<lambda>rows. Inr (db\<lparr>db_devices := rows\<rparr>))
      else Inl integrity_error)"

definition get_device_authorization_by_device_code :: "string \<Rightarrow> database \<Rightarrow> device_authorization option" where
  "get_device_authorization_by_device_code s db = find (\<lambda>d. device_device_code d = s) (db_devices db)"

definition get_device_authorization_by_user_code :: "string \<Rightarrow> database \<Rightarrow> device_authorization option" where
  "get_device_authorization_by_user_code s db = find (\<lambda>d. device_user_code d = s) (db_devices db)"

definition approve_device_authorization :: "string \<Rightarrow> string \<Rightarrow> database \<Rightarrow> database outcome" where
  "approve_device_authorization uc uid db =
     (if fk_ok db (list_ex (\<lambda>d. device_user_code d = uc) (db_devices db) \<longrightarrow> has_user db uid)
      then Inr (db\<lparr>db_devices := sql_update (\<lambda>d. device_user_code d = uc)
             (\<lambda>d. d\<lparr>device_approved := True, device_denied := False, device_user_id := Some uid\<rparr>) (db_devices db)\<rparr>)
      else Inl integrity_error)"

definition deny_device_authorization :: "string \<Rightarrow> database \<Rightarrow> database" where
  "deny_device_authorization uc db = db\<lparr>db_devices := sql_update (\<lambda>d. device_user_code d = uc)
     (\<lambda>d. d\<lparr>device_denied := True, device_approved := False\<rparr>) (db_devices db)\<rparr>"

definition mark_device_authorization_used :: "string \<Rightarrow> database \<Rightarrow> nat \<times> database" where
  "mark_device_authorization_used s db =
     (let cond = (\<lambda>d. device_device_code d = s \<and> \<not> device_used d)
      in (rowcount cond (db_devices db),
          db\<lparr>db_devices := sql_update cond (\<lambda>d. d\<lparr>device_used := True\<rparr>) (db_devices db)\<rparr>))"

definition expire_device_authorization :: "datetime \<Rightarrow> string \<Rightarrow> database \<Rightarrow> database" where
  "expire_device_authorization now s db = db\<lparr>db_devices := sql_update (\<lambda>d. device_device_code d = s)
     (\<lambda>d. d\<lparr>device_expires_at := now - usecs 1\<rparr>) (db_devices db)\<rparr>"

definition list_all_device_authorizations :: "database \<Rightarrow> device_authorization list" where
  "list_all_device_authorizations db =
     take 500 (order_by (\<lambda>d. key_time (device_created_at d)) ''desc'' (db_devices db))"

definition list_device_authorizations_page :: "list_query \<Rightarrow> database \<Rightarrow> device_authorization list \<times> nat" where
  "list_device_authorizations_page q db =
     select_page (\<lambda>_. True) (\<lambda>d. key_time (device_created_at d)) q (db_devices db)"


section \<open>Trusted issuers, denylist and audit log\<close>

definition issuer_upsert_cols :: "trusted_issuer \<Rightarrow> trusted_issuer \<Rightarrow> trusted_issuer" where
  "issuer_upsert_cols new old =
     new\<lparr>issuer_pk := issuer_pk old, issuer_issuer := issuer_issuer old,
         issuer_created_at := issuer_created_at old\<rparr>"

definition save_trusted_issuer :: "trusted_issuer \<Rightarrow> database \<Rightarrow> database outcome" where
  \<comment> \<open>\<open>ON CONFLICT(issuer) DO UPDATE\<close>; a clash on the primary key alone still fails\<close>
  "save_trusted_issuer t db =
     (if list_ex (\<lambda>r. issuer_issuer r = issuer_issuer t) (db_issuers db)
      then Inr (db\<lparr>db_issuers := sql_update (\<lambda>r. issuer_issuer r = issuer_issuer t) (issuer_upsert_cols t) (db_issuers db)\<rparr>)
      else bind_res (sql_insert (\<lambda>a b. issuer_pk a = issuer_pk b) t (db_issuers db))
             (\<lambda>rows. Inr (db\<lparr>db_issuers := rows\<rparr>)))"

definition get_trusted_issuer :: "string \<Rightarrow> database \<Rightarrow> trusted_issuer option" where
  "get_trusted_issuer i db = find (\<lambda>t. issuer_issuer t = i) (db_issuers db)"

definition deny_upsert_cols :: "denylist_entry \<Rightarrow> denylist_entry \<Rightarrow> denylist_entry" where
  "deny_upsert_cols new old =
     old\<lparr>deny_reason := deny_reason new, deny_created_by := deny_created_by new,
         deny_expires_at := deny_expires_at new\<rparr>"

definition add_denylist_entry :: "denylist_entry \<Rightarrow> database \<Rightarrow> database outcome" where
  "add_denylist_entry e db =
     (let same = (\<lambda>r. deny_kind r = deny_kind e \<and> deny_value r = deny_value e)
      in if list_ex same (db_denylist db)
         then Inr (db\<lparr>db_denylist := sql_update same (deny_upsert_cols e) (db_denylist db)\<rparr>)
         else bind_res (sql_insert (\<lambda>a b. deny_pk a = deny_pk b) e (db_denylist db))
                (\<lambda>rows. Inr (db\<lparr>db_denylist := rows\<rparr>)))"

definition remove_denylist_entry :: "string \<Rightarrow> database \<Rightarrow> database" where
  "remove_denylist_entry i db = db\<lparr>db_denylist := sql_delete (\<lambda>e. deny_pk e = i) (db_denylist db)\<rparr>"

definition deny_sort_key :: "string \<Rightarrow> denylist_entry \<Rightarrow> int list" where
  "deny_sort_key col e =
     (if col = ''kind'' then key_text (deny_kind e)
      else if col = ''value'' then key_text (deny_value e)
      else key_time (deny_created_at e))"

definition list_denylist :: "list_query \<Rightarrow> database \<Rightarrow> denylist_entry list \<times> nat" where
  "list_denylist q db =
     (let col = whitelist_col (lq_sort_by q) [''kind'', ''value'', ''created_at'']
      in select_page (\<lambda>_. True) (deny_sort_key col) q (db_denylist db))"

definition find_denylist_entry :: "datetime \<Rightarrow> string \<Rightarrow> string \<Rightarrow> database \<Rightarrow> denylist_entry option" where
  "find_denylist_entry now kind value db =
     (case find (\<lambda>e. deny_kind e = kind \<and> deny_value e = value) (db_denylist db) of
        None \<Rightarrow> None
      | Some e \<Rightarrow> if deny_is_active now e then Some e else None)"

definition write_audit_log :: "audit_log_entry \<Rightarrow> database \<Rightarrow> database outcome" where
  "write_audit_log e db =
     bind_res (sql_insert (\<lambda>a b. audit_pk a = audit_pk b) e (db_audit db)) (\<lambda>rows. Inr (db\<lparr>db_audit := rows\<rparr>))"

definition audit_sort_key :: "string \<Rightarrow> audit_log_entry \<Rightarrow> int list" where
  "audit_sort_key col e =
     (if col = ''actor_id'' then key_text (audit_actor_id e)
      else if col = ''action'' then key_text (audit_action e)
      else if col = ''target_kind'' then key_text (audit_target_kind e)
      else key_time (audit_created_at e))"

definition list_audit_log :: "list_query \<Rightarrow> database \<Rightarrow> audit_log_entry list \<times> nat" where
  "list_audit_log q db =
     (let col = whitelist_col (lq_sort_by q) [''actor_id'', ''action'', ''target_kind'', ''created_at'']
      in select_page (\<lambda>_. True) (audit_sort_key col) q (db_audit db))"

end
