(* ===== verification/Storage_Runs.thy ===== *)
theory Storage_Runs
  imports Sql_Storage
begin

text \<open>
  What the SQL backend guarantees over whole runs: unique keys stay unique, a revoked token
  stays revoked and a used code stays used whatever is executed afterwards, a code or device
  code is claimed at most once, a search term matches literally, and the pages of a listing
  tile its result.
\<close>

section \<open>The writes as one type\<close>

datatype storage_op =
    SaveClient client | UpdateClient client | DeleteClient string
  | SetClientEnabled string bool | SetClientSecret string string
  | SaveUser user | UpdateUser user | DeleteUser string
  | SetUserEnabled string bool | SetUserRole string string | SetUserPasswordHash string string
  | SaveToken token | RevokeToken string | RevokeFamily string | RevokeByUser string | RevokeByClient string
  | SaveCode authorization_code | MarkCodeUsed string
  | SaveDevice device_authorization | ApproveDevice string string | DenyDevice string
  | MarkDeviceUsed string | ExpireDevice datetime string
  | SaveIssuer trusted_issuer | AddDeny denylist_entry | RemoveDeny string | WriteAudit audit_log_entry

definition keep :: "database \<Rightarrow> database outcome \<Rightarrow> database" where
  \<comment> \<open>a failed transaction leaves the database as it was\<close>
  "keep db r = (case r of Inl _ \<Rightarrow> db | Inr db' \<Rightarrow> db')"

primrec storage_step :: "storage_op \<Rightarrow> database \<Rightarrow> database" where
  "storage_step (SaveClient c) db = keep db (save_client c db)"
| "storage_step (UpdateClient c) db = update_client c db"
| "storage_step (DeleteClient i) db = keep db (delete_client i db)"
| "storage_step (SetClientEnabled i b) db = set_client_enabled i b db"
| "storage_step (SetClientSecret i s) db = set_client_secret i s db"
| "storage_step (SaveUser u) db = keep db (save_user u db)"
| "storage_step (UpdateUser u) db = keep db (update_user u db)"
| "storage_step (DeleteUser i) db = keep db (delete_user i db)"
| "storage_step (SetUserEnabled i b) db = set_user_enabled i b db"
| "storage_step (SetUserRole i r) db = set_user_role i r db"
| "storage_step (SetUserPasswordHash i h) db = set_user_password_hash i h db"
| "storage_step (SaveToken t) db = keep db (save_token t db)"
| "storage_step (RevokeToken s) db = revoke_token s db"
| "storage_step (RevokeFamily f) db = snd (revoke_token_family f db)"
| "storage_step (RevokeByUser u) db = snd (revoke_tokens_by_user_id u db)"
| "storage_step (RevokeByClient c) db = snd (revoke_tokens_by_client_id c db)"
| "storage_step (SaveCode c) db = keep db (save_authorization_code c db)"
| "storage_step (MarkCodeUsed s) db = snd (mark_authorization_code_used s db)"
| "storage_step (SaveDevice d) db = keep db (save_device_authorization d db)"
| "storage_step (ApproveDevice uc uid) db = keep db (approve_device_authorization uc uid db)"
| "storage_step (DenyDevice uc) db = deny_device_authorization uc db"
| "storage_step (MarkDeviceUsed s) db = snd (mark_device_authorization_used s db)"
| "storage_step (ExpireDevice now s) db = expire_device_authorization now s db"
| "storage_step (SaveIssuer t) db = keep db (save_trusted_issuer t db)"
| "storage_step (AddDeny e) db = keep db (add_denylist_entry e db)"
| "storage_step (RemoveDeny i) db = remove_denylist_entry i db"
| "storage_step (WriteAudit e) db = keep db (write_audit_log e db)"

lemmas storage_op_defs =
  save_client_def update_client_def delete_client_def set_client_enabled_def set_client_secret_def
  save_user_def update_user_def delete_user_def unlink_user_tokens_def set_user_enabled_def
  set_user_role_def set_user_password_hash_def
  save_token_def revoke_token_def revoke_token_family_def revoke_tokens_by_user_id_def
  revoke_tokens_by_client_id_def revoke_where_def
  save_authorization_code_def mark_authorization_code_used_def
  save_device_authorization_def approve_device_authorization_def deny_device_authorization_def
  mark_device_authorization_used_def expire_device_authorization_def
  save_trusted_issuer_def add_denylist_entry_def remove_denylist_entry_def write_audit_log_def


section \<open>Statements on a keyed table\<close>

definition unique_on :: "('r \<Rightarrow> 'k) \<Rightarrow> 'r list \<Rightarrow> bool" where
  "unique_on key rows \<longleftrightarrow> distinct (map key rows)"

lemma unique_on_update [sql_simps]:
  assumes "\<And>r. cond r \<Longrightarrow> key (upd r) = key r"
  shows "unique_on key (sql_update cond upd rows) = unique_on key rows"
proof -
  have "map key (sql_update cond upd rows) = map key rows"
    using assms by (simp add: sql_update_def)
  then show ?thesis by (simp add: unique_on_def)
qed

lemma unique_on_delete [sql_simps]: "unique_on key rows \<Longrightarrow> unique_on key (sql_delete cond rows)"
  by (simp add: unique_on_def sql_delete_def distinct_map_filter)

lemma unique_on_snoc [sql_simps]:
  "unique_on key (rows @ [r]) \<longleftrightarrow> unique_on key rows \<and> \<not> list_ex (\<lambda>x. key x = key r) rows"
  by (auto simp: unique_on_def list_ex_iff image_iff)

lemma list_ex_mono: "\<not> list_ex Q xs \<Longrightarrow> (\<And>x. P x \<Longrightarrow> Q x) \<Longrightarrow> \<not> list_ex P xs"
  by (auto simp: list_ex_iff)

lemma keep_insert:
  "keep db (bind_res (sql_insert clash r rows) (\<lambda>rs. Inr (f rs))) =
     (if list_ex (clash r) rows then db else f (rows @ [r]))"
  by (simp add: keep_def sql_insert_def)

lemma keep_if: "keep db (if b then x else Inl e) = (if b then keep db x else db)"
  by (simp add: keep_def)

lemma keep_Inr: "keep db (Inr x) = x"
  by (simp add: keep_def)

lemmas keep_simps = keep_insert keep_if keep_Inr

lemma find_unique_on:
  assumes "unique_on key rows" and "r \<in> set rows"
  shows "find (\<lambda>x. key x = key r) rows = Some r"
  using assms by (intro find_Some_unique) (auto simp: unique_on_def distinct_map inj_on_eq_iff)

lemma find_sql_update:
  assumes "\<And>r. cond r \<Longrightarrow> P (upd r) = P r"
  shows "find P (sql_update cond upd rows) = map_option (\<lambda>r. if cond r then upd r else r) (find P rows)"
  using assms by (induction rows) (auto simp: sql_update_def)

lemma find_append: "find P (xs @ ys) = (case find P xs of Some x \<Rightarrow> Some x | None \<Rightarrow> find P ys)"
  by (induction xs) auto

text \<open>The unique keys of the schema.\<close>

definition db_unique :: "database \<Rightarrow> bool" where
  "db_unique db \<longleftrightarrow>
     unique_on client_pk (db_clients db) \<and> unique_on client_client_id (db_clients db) \<and>
     unique_on user_pk (db_users db) \<and> unique_on user_username (db_users db) \<and>
     unique_on token_pk (db_tokens db) \<and> unique_on token_access_token (db_tokens db) \<and>
     unique_on code_pk (db_codes db) \<and> unique_on code_code (db_codes db) \<and>
     unique_on device_pk (db_devices db) \<and> unique_on device_device_code (db_devices db) \<and>
     unique_on device_user_code (db_devices db) \<and>
     unique_on issuer_pk (db_issuers db) \<and> unique_on issuer_issuer (db_issuers db) \<and>
     unique_on deny_pk (db_denylist db) \<and> unique_on (\<lambda>e. (deny_kind e, deny_value e)) (db_denylist db) \<and>
     unique_on audit_pk (db_audit db)"

lemma unique_on_update_user:
  assumes "unique_on user_username rows" and "unique_on user_pk rows"
    and "\<not> list_ex (\<lambda>r. user_pk r \<noteq> user_pk u \<and> user_username r = user_username u) rows"
  shows "unique_on user_username (sql_update (\<lambda>r. user_pk r = user_pk u) (user_update_cols u) rows)"
proof -
  let ?g = "\<lambda>r. if user_pk r = user_pk u then user_update_cols u r else r"
  have inj: "inj_on user_pk (set rows)" "inj_on user_username (set rows)" "distinct rows"
    using assms(1,2) by (auto simp: unique_on_def distinct_map)
  have "inj_on (\<lambda>r. user_username (?g r)) (set rows)"
  proof (rule inj_onI)
    fix a b
    assume ab: "a \<in> set rows" "b \<in> set rows" "user_username (?g a) = user_username (?g b)"
    have u: "user_username (user_update_cols u x) = user_username u" for x
      by (simp add: user_update_cols_def)
    show "a = b"
    proof (cases "user_pk a = user_pk u"; cases "user_pk b = user_pk u")
      assume "user_pk a = user_pk u" "user_pk b = user_pk u"
      then have "user_pk a = user_pk b" by simp
      then show ?thesis using inj(1) ab(1,2) by (blast dest: inj_onD)
    next
      assume "user_pk a \<noteq> user_pk u" "user_pk b \<noteq> user_pk u"
      then show ?thesis using inj(2) ab by (simp add: inj_on_eq_iff)
    qed (use assms(3) ab u in \<open>auto simp: list_ex_iff\<close>)
  qed
  then show ?thesis
    using inj(3) by (simp add: unique_on_def sql_update_def distinct_map comp_def)
qed

lemma db_unique_tables:
  assumes "db_unique db"
  shows "unique_on client_pk (db_clients db)" "unique_on client_client_id (db_clients db)"
     "unique_on user_pk (db_users db)" "unique_on user_username (db_users db)"
     "unique_on token_access_token (db_tokens db)" "unique_on code_code (db_codes db)"
     "unique_on device_device_code (db_devices db)" "unique_on device_user_code (db_devices db)"
     "unique_on issuer_issuer (db_issuers db)"
     "unique_on (\<lambda>e. (deny_kind e, deny_value e)) (db_denylist db)"
  using assms by (simp_all add: db_unique_def)

lemma db_unique_update_user:
  assumes "db_unique db"
  shows "db_unique (keep db (update_user u db))"
proof (cases "update_user u db")
  case (Inr db')
  then have no: "has_user db (user_pk u) \<Longrightarrow>
      \<not> list_ex (\<lambda>r. user_pk r \<noteq> user_pk u \<and> user_username r = user_username u) (db_users db)"
    and db': "db' = db\<lparr>db_users := sql_update (\<lambda>r. user_pk r = user_pk u) (user_update_cols u) (db_users db)\<rparr>"
    by (auto simp: update_user_def split: if_splits)
  have "unique_on user_username (db_users db')"
  proof (cases "has_user db (user_pk u)")
    case True
    then show ?thesis using assms no db' unique_on_update_user by (simp add: db_unique_def)
  next
    case False
    then have "sql_update (\<lambda>r. user_pk r = user_pk u) (user_update_cols u) (db_users db) = db_users db"
      by (auto simp: has_user_def sql_update_def list_ex_iff intro: map_idI)
    then show ?thesis using assms db' by (simp add: db_unique_def)
  qed
  then show ?thesis
    using assms Inr db' by (simp add: db_unique_def keep_def unique_on_update user_update_cols_def)
qed (use assms in \<open>simp add: keep_def\<close>)

lemma db_unique_insert:
  assumes "db_unique db"
  shows "db_unique (keep db (save_client c db))" "db_unique (keep db (save_user u db))"
    "db_unique (keep db (save_token t db))" "db_unique (keep db (save_authorization_code a db))"
    "db_unique (keep db (save_device_authorization d db))" "db_unique (keep db (write_audit_log l db))"
  using assms
  by (auto simp: db_unique_def storage_op_defs keep_simps sql_simps client_clash_def user_clash_def
      token_clash_def code_clash_def device_clash_def list_ex_iff)

lemma db_unique_upsert:
  assumes "db_unique db"
  shows "db_unique (keep db (save_trusted_issuer t db))" "db_unique (keep db (add_denylist_entry e db))"
  using assms
  by (auto simp: db_unique_def storage_op_defs Let_def keep_simps sql_simps issuer_upsert_cols_def
      deny_upsert_cols_def list_ex_iff)

lemma db_unique_update:
  assumes "db_unique db"
  shows "db_unique (update_client c db)" "db_unique (set_client_enabled i b db)"
    "db_unique (set_client_secret i s db)" "db_unique (set_user_enabled i b db)"
    "db_unique (set_user_role i s db)" "db_unique (set_user_password_hash i s db)"
    "db_unique (snd (revoke_where cond db))"
    "db_unique (snd (mark_authorization_code_used s db))"
    "db_unique (snd (mark_device_authorization_used s db))"
    "db_unique (deny_device_authorization s db)" "db_unique (expire_device_authorization now s db)"
    "db_unique (keep db (approve_device_authorization s i db))"
  using assms
  by (simp_all add: db_unique_def storage_op_defs Let_def keep_simps sql_simps client_update_cols_def revoke_def)

lemma db_unique_delete:
  assumes "db_unique db"
  shows "db_unique (keep db (delete_client i db))" "db_unique (keep db (delete_user i db))"
    "db_unique (remove_denylist_entry i db)"
  using assms by (simp_all add: db_unique_def storage_op_defs Let_def keep_simps sql_simps)

lemmas db_unique_step =
  db_unique_update_user db_unique_insert db_unique_upsert db_unique_update db_unique_delete

text \<open>
  No run of writes, in any order and whether or not they fail, breaks a unique key of the
  schema: every lookup by a key has at most one row to return.
\<close>

theorem storage_keeps_unique:
  assumes "db_unique db"
  shows "db_unique (fold storage_step ops db)"
proof -
  have "db_unique (storage_step op db)" if "db_unique db" for op db
    by (cases op) (use that in \<open>simp_all add: db_unique_step revoke_token_def revoke_token_family_def
        revoke_tokens_by_user_id_def revoke_tokens_by_client_id_def\<close>)
  then show ?thesis using assms by (induction ops arbitrary: db) simp_all
qed

definition empty_db :: "dialect \<Rightarrow> database" where
  "empty_db d = \<lparr>db_dialect = d, db_clients = [], db_users = [], db_tokens = [], db_codes = [],
     db_devices = [], db_issuers = [], db_denylist = [], db_audit = []\<rparr>"

lemma db_unique_empty [simp]: "db_unique (empty_db d)"
  by (simp add: db_unique_def empty_db_def unique_on_def)

theorem storage_keeps_unique_witness:
  "db_unique (fold storage_step [SaveClient (mk_client ''1'' ''a'' [] [] [] [] [] 0),
     SaveClient (mk_client ''2'' ''a'' [] [] [] [] [] 0)] (empty_db Sqlite)) \<and>
   length (db_clients (fold storage_step [SaveClient (mk_client ''1'' ''a'' [] [] [] [] [] 0),
     SaveClient (mk_client ''2'' ''a'' [] [] [] [] [] 0)] (empty_db Sqlite))) = 1"
  using storage_keeps_unique [OF db_unique_empty [of Sqlite],
    of "[SaveClient (mk_client ''1'' ''a'' [] [] [] [] [] 0), SaveClient (mk_client ''2'' ''a'' [] [] [] [] [] 0)]"]
  by (simp add: keep_simps save_client_def client_clash_def mk_client_def empty_db_def)


section \<open>Revocation and use are permanent\<close>

text \<open>What a step may do to the tokens: rewrite rows in place, never clearing \<open>revoked\<close>, and append.\<close>

definition rows_evolve :: "('r \<Rightarrow> 'r \<Rightarrow> bool) \<Rightarrow> 'r list \<Rightarrow> 'r list \<Rightarrow> bool" where
  "rows_evolve R xs ys \<longleftrightarrow> (\<exists>zs new. ys = zs @ new \<and> list_all2 R xs zs)"

lemma rows_evolve_refl: "(\<And>x. R x x) \<Longrightarrow> rows_evolve R xs xs"
  unfolding rows_evolve_def by (rule exI [of _ xs]) (simp add: list_all2_refl)

lemma rows_evolve_update: "(\<And>x. R x x) \<Longrightarrow> (\<And>x. R x (upd x)) \<Longrightarrow> rows_evolve R xs (sql_update cond upd xs)"
  unfolding rows_evolve_def
  by (rule exI [of _ "sql_update cond upd xs"])
     (simp add: sql_update_def list_all2_map2 list_all2_same)

lemma rows_evolve_append: "(\<And>x. R x x) \<Longrightarrow> rows_evolve R xs (xs @ ys)"
  unfolding rows_evolve_def by (rule exI [of _ xs]) (simp add: list_all2_refl)

lemma find_list_all2:
  "list_all2 R xs zs \<Longrightarrow> (\<And>x y. R x y \<Longrightarrow> P y = P x) \<Longrightarrow> find P xs = Some x \<Longrightarrow> \<exists>y. find P zs = Some y \<and> R x y"
  by (induction xs zs rule: list_all2_induct) (auto split: if_splits)

lemma find_rows_evolve:
  assumes "rows_evolve R xs ys" and "\<And>x y. R x y \<Longrightarrow> P y = P x" and "find P xs = Some x"
  shows "\<exists>y. find P ys = Some y \<and> R x y"
proof -
  obtain zs new where "ys = zs @ new" "list_all2 R xs zs" using assms(1) by (auto simp: rows_evolve_def)
  then show ?thesis using find_list_all2 [OF _ assms(2,3)] by (fastforce simp: find_append)
qed

definition token_later :: "token \<Rightarrow> token \<Rightarrow> bool" where
  "token_later t u \<longleftrightarrow> token_access_token u = token_access_token t \<and>
     token_refresh_token u = token_refresh_token t \<and> token_client_id u = token_client_id t \<and>
     token_scope u = token_scope t \<and> token_token_family u = token_token_family t \<and>
     (token_revoked t \<longrightarrow> token_revoked u)"

definition code_later :: "authorization_code \<Rightarrow> authorization_code \<Rightarrow> bool" where
  "code_later c d \<longleftrightarrow> d = c \<or> d = c\<lparr>code_used := True\<rparr>"

definition device_later :: "device_authorization \<Rightarrow> device_authorization \<Rightarrow> bool" where
  "device_later c d \<longleftrightarrow> device_device_code d = device_device_code c \<and> device_user_code d = device_user_code c \<and>
     device_client_id d = device_client_id c \<and> device_scope d = device_scope c \<and>
     (device_used c \<longrightarrow> device_used d)"

lemmas later_defs = token_later_def code_later_def device_later_def

lemma storage_step_evolves:
  "rows_evolve token_later (db_tokens db) (db_tokens (storage_step op db))"
  "rows_evolve code_later (db_codes db) (db_codes (storage_step op db))"
  "rows_evolve device_later (db_devices db) (db_devices (storage_step op db))"
  by (cases op; simp add: storage_op_defs Let_def keep_simps keep_def sql_insert_def;
      auto intro!: rows_evolve_refl rows_evolve_update rows_evolve_append simp: later_defs revoke_def
        split: sum.split)+

lemma token_run:
  "get_token_by_access_token a db = Some t \<Longrightarrow>
   \<exists>u. get_token_by_access_token a (fold storage_step ops db) = Some u \<and> token_later t u"
proof (induction ops arbitrary: db t)
  case (Cons op ops)
  then have "\<exists>u. get_token_by_access_token a (storage_step op db) = Some u \<and> token_later t u"
    unfolding get_token_by_access_token_def
    by (intro find_rows_evolve [OF storage_step_evolves(1)]) (auto simp: token_later_def)
  then obtain u where u: "get_token_by_access_token a (storage_step op db) = Some u" "token_later t u"
    by blast
  from Cons.IH [OF u(1)] u(2) show ?case by (auto simp: token_later_def)
qed (simp add: token_later_def)

lemma code_run:
  "get_authorization_code s db = Some c \<Longrightarrow>
   \<exists>u. get_authorization_code s (fold storage_step ops db) = Some u \<and> code_later c u"
proof (induction ops arbitrary: db c)
  case (Cons op ops)
  then have "\<exists>u. get_authorization_code s (storage_step op db) = Some u \<and> code_later c u"
    unfolding get_authorization_code_def
    by (intro find_rows_evolve [OF storage_step_evolves(2)]) (auto simp: code_later_def)
  then obtain u where u: "get_authorization_code s (storage_step op db) = Some u" "code_later c u"
    by blast
  from Cons.IH [OF u(1)] u(2) show ?case by (auto simp: code_later_def)
qed (simp add: code_later_def)

lemma device_run:
  "get_device_authorization_by_device_code v db = Some d \<Longrightarrow>
   \<exists>u. get_device_authorization_by_device_code v (fold storage_step ops db) = Some u \<and> device_later d u"
proof (induction ops arbitrary: db d)
  case (Cons op ops)
  then have "\<exists>u. get_device_authorization_by_device_code v (storage_step op db) = Some u \<and> device_later d u"
    unfolding get_device_authorization_by_device_code_def
    by (intro find_rows_evolve [OF storage_step_evolves(3)]) (auto simp: device_later_def)
  then obtain u where u: "get_device_authorization_by_device_code v (storage_step op db) = Some u" "device_later d u"
    by blast
  from Cons.IH [OF u(1)] u(2) show ?case by (auto simp: device_later_def)
qed (simp add: device_later_def)

text \<open>
  C38. Nothing the server can execute brings a credential back: from any state on, a revoked
  token is still there and still revoked after every run of writes, and a used authorization
  code or device code is still used.
\<close>

theorem revoked_and_used_forever:
  "(get_token_by_access_token a db = Some t \<and> token_revoked t \<longrightarrow>
     (\<exists>t'. get_token_by_access_token a (fold storage_step ops db) = Some t' \<and> token_revoked t' \<and>
        token_refresh_token t' = token_refresh_token t)) \<and>
   (get_authorization_code s db = Some c \<and> code_used c \<longrightarrow>
     get_authorization_code s (fold storage_step ops db) = Some c) \<and>
   (get_device_authorization_by_device_code v db = Some d \<and> device_used d \<longrightarrow>
     (\<exists>d'. get_device_authorization_by_device_code v (fold storage_step ops db) = Some d' \<and> device_used d'))"
  using token_run [of a db t ops] code_run [of s db c ops] device_run [of v db d ops]
  by (auto simp: token_later_def device_later_def code_later_def)

theorem revoked_and_used_forever_witness:
  "\<exists>t'. get_token_by_access_token ''at'' (fold storage_step [RevokeToken ''x'', DeleteUser ''u'']
     ((empty_db Postgres)\<lparr>db_tokens := [\<lparr>token_pk = ''1'', token_access_token = ''at'',
        token_refresh_token = None, token_token_type = ''Bearer'', token_expires_in = 1, token_scope = [],
        token_client_id = ''c'', token_user_id = Some ''u'', token_created_at = 0, token_expires_at = 1,
        token_revoked = True, token_token_family = None\<rparr>]\<rparr>)) = Some t' \<and> token_revoked t'"
proof -
  let ?t = "\<lparr>token_pk = ''1'', token_access_token = ''at'',
        token_refresh_token = None, token_token_type = ''Bearer'', token_expires_in = 1, token_scope = [],
        token_client_id = ''c'', token_user_id = Some ''u'', token_created_at = 0, token_expires_at = 1,
        token_revoked = True, token_token_family = None\<rparr> :: token"
  have "get_token_by_access_token ''at'' ((empty_db Postgres)\<lparr>db_tokens := [?t]\<rparr>) = Some ?t \<and> token_revoked ?t"
    by (simp add: get_token_by_access_token_def)
  then show ?thesis
    using revoked_and_used_forever [of "''at''" "(empty_db Postgres)\<lparr>db_tokens := [?t]\<rparr>" ?t
      "[RevokeToken ''x'', DeleteUser ''u'']"] by blast
qed


section \<open>Claiming a code\<close>

text \<open>
  The contract the token endpoint relies on when it redeems a one-time credential: a claim
  reports at most one row, marks what it reported, and nothing unmarks it. Whatever else is
  executed in between, at most one claim of a key then succeeds.
\<close>

fun claims_won ::
  "('k \<Rightarrow> 's \<Rightarrow> nat \<times> 's) \<Rightarrow> ('op \<Rightarrow> 's \<Rightarrow> 's) \<Rightarrow> 'k \<Rightarrow> ('k + 'op) list \<Rightarrow> 's \<Rightarrow> nat" where
  "claims_won claim step k [] s = 0"
| "claims_won claim step k (Inl j # es) s =
     (if j = k then fst (claim j s) else 0) + claims_won claim step k es (snd (claim j s))"
| "claims_won claim step k (Inr op # es) s = claims_won claim step k es (step op s)"

locale claim_once =
  fixes claim :: "'k \<Rightarrow> 's \<Rightarrow> nat \<times> 's"
    and step :: "'op \<Rightarrow> 's \<Rightarrow> 's"
    and claimed :: "'k \<Rightarrow> 's \<Rightarrow> bool"
    and ok :: "'s \<Rightarrow> bool"
  assumes claim_le_1: "ok s \<Longrightarrow> fst (claim k s) \<le> 1"
    and claim_again: "claimed k s \<Longrightarrow> fst (claim k s) = 0"
    and claim_marks: "ok s \<Longrightarrow> 0 < fst (claim k s) \<Longrightarrow> claimed k (snd (claim k s))"
    and claim_keeps: "claimed k s \<Longrightarrow> claimed k (snd (claim j s))"
    and step_keeps: "claimed k s \<Longrightarrow> claimed k (step op s)"
    and claim_ok: "ok s \<Longrightarrow> ok (snd (claim k s))"
    and step_ok: "ok s \<Longrightarrow> ok (step op s)"
begin

lemma none_after_claimed: "claimed k s \<Longrightarrow> claims_won claim step k es s = 0"
proof (induction es arbitrary: s)
  case (Cons e es)
  then show ?case by (cases e) (auto simp: claim_again claim_keeps step_keeps)
qed simp

lemma at_most_one: "ok s \<Longrightarrow> claims_won claim step k es s \<le> 1"
proof (induction es arbitrary: s)
  case (Cons e es)
  show ?case
  proof (cases e)
    case (Inr op)
    then show ?thesis using Cons step_ok by simp
  next
    case (Inl j)
    show ?thesis
    proof (cases "j = k \<and> 0 < fst (claim k s)")
      case True
      then have "claims_won claim step k es (snd (claim k s)) = 0"
        using claim_marks [OF Cons.prems] none_after_claimed by blast
      then show ?thesis using True Inl claim_le_1 [OF Cons.prems, of k] by simp
    next
      case False
      then have "claims_won claim step k (e # es) s = claims_won claim step k es (snd (claim j s))"
        using Inl by auto
      then show ?thesis using Cons claim_ok by simp
    qed
  qed
qed simp

end

definition code_claimed :: "string \<Rightarrow> database \<Rightarrow> bool" where
  "code_claimed s db \<longleftrightarrow> list_ex (\<lambda>c. code_code c = s) (db_codes db) \<and>
     list_all (\<lambda>c. code_code c = s \<longrightarrow> code_used c) (db_codes db)"

definition device_claimed :: "string \<Rightarrow> database \<Rightarrow> bool" where
  "device_claimed s db \<longleftrightarrow> list_ex (\<lambda>d. device_device_code d = s) (db_devices db) \<and>
     list_all (\<lambda>d. device_device_code d = s \<longrightarrow> device_used d) (db_devices db)"

lemma rowcount_unique:
  assumes "unique_on key rows"
  shows "rowcount (\<lambda>r. key r = k \<and> Q r) rows \<le> 1"
  using assms by (induction rows) (auto simp: rowcount_def unique_on_def filter_empty_conv image_iff)

lemma rowcount_zero: "list_all (\<lambda>r. key r = k \<longrightarrow> \<not> Q r) rows \<Longrightarrow> rowcount (\<lambda>r. key r = k \<and> Q r) rows = 0"
  by (auto simp: rowcount_def filter_empty_conv list_all_iff)

lemma rowcount_pos: "0 < rowcount P rows \<Longrightarrow> list_ex P rows"
  by (auto simp: rowcount_def filter_empty_conv list_ex_iff)

lemma list_ex_key_update [sql_simps]:
  "(\<And>r. key (upd r) = key r) \<Longrightarrow> list_ex (\<lambda>r. key r = k) (sql_update cond upd rows) = list_ex (\<lambda>r. key r = k) rows"
  by (induction rows) (auto simp: sql_update_def)

lemma list_all_used_update [sql_simps]:
  "(\<And>r. key (upd r) = key r) \<Longrightarrow> (\<And>r. used r \<Longrightarrow> used (upd r)) \<Longrightarrow>
   list_all (\<lambda>r. key r = k \<longrightarrow> used r) rows \<Longrightarrow>
   list_all (\<lambda>r. key r = k \<longrightarrow> used r) (sql_update cond upd rows)"
  by (induction rows) (auto simp: sql_update_def)

lemma list_all_mark:
  "(\<And>r. key (upd r) = key r) \<Longrightarrow> (\<And>r. used (upd r)) \<Longrightarrow>
   list_all (\<lambda>r. key r = k \<longrightarrow> used r) (sql_update (\<lambda>r. key r = k \<and> \<not> used r) upd rows)"
  by (induction rows) (auto simp: sql_update_def)

lemma claimed_insert:
  assumes "list_ex (\<lambda>r. key r = k) rows" and "list_all (\<lambda>r. key r = k \<longrightarrow> used r) rows"
    and "\<And>x. key x = key r \<Longrightarrow> clash r x" and "\<not> list_ex (clash r) rows"
  shows "list_ex (\<lambda>r. key r = k) (rows @ [r]) \<and> list_all (\<lambda>r. key r = k \<longrightarrow> used r) (rows @ [r])"
  using assms by (auto simp: list_ex_iff)

lemma code_claimed_step: "code_claimed k db \<Longrightarrow> code_claimed k (storage_step op db)"
proof (cases op)
  case (SaveCode a)
  assume "code_claimed k db"
  then show ?thesis
    using SaveCode claimed_insert [of code_code k "db_codes db" code_used a code_clash]
    by (simp add: code_claimed_def keep_simps save_authorization_code_def code_clash_def)
qed (simp_all add: code_claimed_def storage_op_defs Let_def keep_simps keep_def sql_insert_def sql_simps split: sum.split)

lemma device_claimed_step: "device_claimed k db \<Longrightarrow> device_claimed k (storage_step op db)"
proof (cases op)
  case (SaveDevice a)
  assume "device_claimed k db"
  then show ?thesis
    using SaveDevice claimed_insert [of device_device_code k "db_devices db" device_used a device_clash]
    by (simp add: device_claimed_def keep_simps save_device_authorization_def device_clash_def)
qed (simp_all add: device_claimed_def storage_op_defs Let_def keep_simps keep_def sql_insert_def sql_simps split: sum.split)

lemma rowcount_pos_key: "0 < rowcount (\<lambda>r. key r = k \<and> Q r) rows \<Longrightarrow> list_ex (\<lambda>r. key r = k) rows"
  by (drule rowcount_pos) (auto simp: list_ex_iff)

lemma code_claim_marks:
  "0 < fst (mark_authorization_code_used k db) \<Longrightarrow> code_claimed k (snd (mark_authorization_code_used k db))"
  using rowcount_pos_key [of code_code k "\<lambda>c. \<not> code_used c" "db_codes db"]
  by (simp add: mark_authorization_code_used_def Let_def code_claimed_def sql_simps list_all_mark)

lemma device_claim_marks:
  "0 < fst (mark_device_authorization_used k db) \<Longrightarrow> device_claimed k (snd (mark_device_authorization_used k db))"
  using rowcount_pos_key [of device_device_code k "\<lambda>d. \<not> device_used d" "db_devices db"]
  by (simp add: mark_device_authorization_used_def Let_def device_claimed_def sql_simps list_all_mark)

lemma db_unique_storage_step: "db_unique db \<Longrightarrow> db_unique (storage_step op db)"
  by (cases op) (simp_all add: db_unique_step revoke_token_def revoke_token_family_def
      revoke_tokens_by_user_id_def revoke_tokens_by_client_id_def)

interpretation code_claim: claim_once mark_authorization_code_used storage_step code_claimed db_unique
proof
  fix k j :: string and db op
  show "db_unique db \<Longrightarrow> fst (mark_authorization_code_used k db) \<le> 1"
    using rowcount_unique [OF db_unique_tables(6), of db k "\<lambda>c. \<not> code_used c"]
    by (simp add: mark_authorization_code_used_def Let_def)
  show "code_claimed k db \<Longrightarrow> fst (mark_authorization_code_used k db) = 0"
    using rowcount_zero [of code_code k "\<lambda>c. \<not> code_used c" "db_codes db"]
    by (simp add: mark_authorization_code_used_def Let_def code_claimed_def)
  show "db_unique db \<Longrightarrow> 0 < fst (mark_authorization_code_used k db) \<Longrightarrow> code_claimed k (snd (mark_authorization_code_used k db))"
    using code_claim_marks by blast
  show "code_claimed k db \<Longrightarrow> code_claimed k (snd (mark_authorization_code_used j db))"
    using code_claimed_step [of k db "MarkCodeUsed j"] by simp
  show "code_claimed k db \<Longrightarrow> code_claimed k (storage_step op db)" by (rule code_claimed_step)
  show "db_unique db \<Longrightarrow> db_unique (snd (mark_authorization_code_used k db))" by (rule db_unique_update)
  show "db_unique db \<Longrightarrow> db_unique (storage_step op db)" by (rule db_unique_storage_step)
qed

interpretation device_claim: claim_once mark_device_authorization_used storage_step device_claimed db_unique
proof
  fix k j :: string and db op
  show "db_unique db \<Longrightarrow> fst (mark_device_authorization_used k db) \<le> 1"
    using rowcount_unique [OF db_unique_tables(7), of db k "\<lambda>d. \<not> device_used d"]
    by (simp add: mark_device_authorization_used_def Let_def)
  show "device_claimed k db \<Longrightarrow> fst (mark_device_authorization_used k db) = 0"
    using rowcount_zero [of device_device_code k "\<lambda>c. \<not> device_used c" "db_devices db"]
    by (simp add: mark_device_authorization_used_def Let_def device_claimed_def)
  show "db_unique db \<Longrightarrow> 0 < fst (mark_device_authorization_used k db) \<Longrightarrow> device_claimed k (snd (mark_device_authorization_used k db))"
    using device_claim_marks by blast
  show "device_claimed k db \<Longrightarrow> device_claimed k (snd (mark_device_authorization_used j db))"
    using device_claimed_step [of k db "MarkDeviceUsed j"] by simp
  show "device_claimed k db \<Longrightarrow> device_claimed k (storage_step op db)" by (rule device_claimed_step)
  show "db_unique db \<Longrightarrow> db_unique (snd (mark_device_authorization_used k db))" by (rule db_unique_update)
  show "db_unique db \<Longrightarrow> db_unique (storage_step op db)" by (rule db_unique_storage_step)
qed

text \<open>
  However the claims of concurrent requests interleave with each other and with any other
  writes, the conditional update lets at most one request claim an authorization code, and at
  most one claim a device code.
\<close>

theorem codes_claimed_at_most_once:
  assumes "db_unique db"
  shows "claims_won mark_authorization_code_used storage_step code es db \<le> 1 \<and>
    claims_won mark_device_authorization_used storage_step dcode es db \<le> 1"
  using assms code_claim.at_most_one device_claim.at_most_one by blast

theorem codes_claimed_at_most_once_witness:
  "claims_won mark_device_authorization_used storage_step ''d''
     [Inl ''d'', Inr (ApproveDevice ''u'' ''alice''), Inl ''d''] (empty_db Sqlite) \<le> 1"
  using codes_claimed_at_most_once [OF db_unique_empty] by blast


section \<open>Searching\<close>

lemma escape_like_map:
  "escape_like s = concat (map (\<lambda>c. if c \<in> {CHR 0x5C, CHR ''%'', CHR ''_''} then [CHR 0x5C, c] else [c]) s)"
  by (induction s) (auto simp: escape_like_def py_replace_def)

lemma like_percent: "sql_like d [CHR ''%''] s"
  by (induction s) auto

lemma sql_like_escaped:
  "sql_like d (escape_like p @ ''%'') s \<longleftrightarrow> starts_with (map (like_fold d) p) (map (like_fold d) s)"
proof (induction p arbitrary: s)
  case Nil
  then show ?case using like_percent by (simp add: escape_like_map)
next
  case (Cons c p)
  have esc: "escape_like (c # p) =
      (if c \<in> {CHR 0x5C, CHR ''%'', CHR ''_''} then [CHR 0x5C, c] else [c]) @ escape_like p"
    by (simp add: escape_like_map)
  show ?case
  proof (cases s)
    case (Cons e t)
    have "like_fold d e = like_fold d c \<and> sql_like d (escape_like p @ ''%'') t \<longleftrightarrow>
        starts_with (map (like_fold d) (c # p)) (map (like_fold d) s)"
      using Cons.IH Cons by (auto simp: starts_with_def)
    then show ?thesis using Cons by (auto simp: esc)
  qed (auto simp: esc starts_with_def)
qed

lemma sql_like_percent_prefix:
  "sql_like d (CHR ''%'' # p) s \<longleftrightarrow> (\<exists>u v. s = u @ v \<and> sql_like d p v)"
proof (induction s)
  case (Cons c s)
  have "(\<exists>u v. c # s = u @ v \<and> sql_like d p v) \<longleftrightarrow> sql_like d p (c # s) \<or> (\<exists>u v. s = u @ v \<and> sql_like d p v)"
    by (metis append_Cons append_Nil append_eq_Cons_conv)
  then show ?case using Cons by simp
qed simp

text \<open>
  A search term matches literally: after escaping, the generated \<open>LIKE\<close> pattern matches
  exactly the texts that contain the term as a substring, under the case rule of the dialect,
  whatever wildcard or escape characters the term holds.
\<close>

theorem search_matches_literally:
  "sql_like d (''%'' @ escape_like p @ ''%'') s \<longleftrightarrow>
   is_substring (map (like_fold d) p) (map (like_fold d) s)"
proof -
  have "sql_like d (''%'' @ escape_like p @ ''%'') s \<longleftrightarrow>
      (\<exists>u v. s = u @ v \<and> starts_with (map (like_fold d) p) (map (like_fold d) v))"
    by (simp add: sql_like_percent_prefix sql_like_escaped del: sql_like.simps)
  also have "\<dots> \<longleftrightarrow> is_substring (map (like_fold d) p) (map (like_fold d) s)"
  proof -
    have "is_substring q (map f s) \<longleftrightarrow> (\<exists>u v. s = u @ v \<and> starts_with q (map f v))" for q and f :: "char \<Rightarrow> char"
    proof (induction s)
      case (Cons c s)
      have "(\<exists>u v. c # s = u @ v \<and> starts_with q (map f v)) \<longleftrightarrow>
          starts_with q (map f (c # s)) \<or> (\<exists>u v. s = u @ v \<and> starts_with q (map f v))"
        by (metis append_Cons append_Nil append_eq_Cons_conv)
      then show ?case using Cons by simp
    qed (auto simp: starts_with_def)
    then show ?thesis by blast
  qed
  finally show ?thesis .
qed


section \<open>Paging\<close>

text \<open>
  A page never exceeds 200 rows whatever limit is asked for, a negative offset or limit
  never fails, and the pages at offsets 0, n, 2n, \<dots> of one query tile the sorted result: they
  are consecutive slices of it, and the reported total is its length.
\<close>

theorem pages_tile_the_result:
  assumes "q = mk_list_query limit (int k * effective_limit q) sort_by dir search status"
    and "n = nat (effective_limit q)"
  shows "fst (select_page cond key q rows) =
      take n (drop (k * n) (order_by key dir (filter cond rows))) \<and>
    length (fst (select_page cond key q rows)) \<le> 200 \<and>
    snd (select_page cond key q rows) = length (order_by key dir (filter cond rows))"
proof -
  have lim: "0 \<le> effective_limit q" "effective_limit q \<le> 200"
    by (auto simp: effective_limit_def Let_def MAX_LIMIT_def DEFAULT_LIMIT_def)
  have "lq_offset q = max (int k * effective_limit q) 0" "lq_sort_dir q = dir"
    using arg_cong [OF assms(1), of lq_offset] arg_cong [OF assms(1), of lq_sort_dir]
    by (simp_all add: mk_list_query_def)
  then have "lq_offset q = int k * effective_limit q" "lq_sort_dir q = dir" using lim by simp_all
  moreover have "nat (int k * effective_limit q) = k * n"
    using lim assms(2) by (simp add: nat_mult_distrib)
  ultimately show ?thesis
    using lim assms(2) by (simp add: select_page_def rowcount_def order_by_def)
qed

theorem pages_tile_the_result_witness:
  "fst (select_page (\<lambda>_. True) (\<lambda>x. [x]) (mk_list_query (Some 2) 2 None ''asc'' None None) [5, 3, 9, 1 :: int]) = [5, 9]"
proof -
  let ?q = "mk_list_query (Some 2) 2 None ''asc'' None None"
  have l: "effective_limit ?q = 2" by (simp add: effective_limit_def mk_list_query_def MAX_LIMIT_def)
  then have "?q = mk_list_query (Some 2) (int 1 * effective_limit ?q) None ''asc'' None None" by simp
  from pages_tile_the_result [OF this refl, of "\<lambda>_. True" "\<lambda>x. [x]" "[5, 3, 9, 1 :: int]"] l
  show ?thesis by (simp add: order_by_def)
qed


section \<open>Deleting a user\<close>

text \<open>
  Deleting a user revokes and unlinks every token of the user. On PostgreSQL, however, the
  deletion fails for a user who was ever issued an authorization code or approved a device:
  their rows still reference the user and the transaction only unlinks the tokens, although
  its comment gives the foreign key as the reason for doing so.
\<close>

theorem delete_user_outcome:
  "delete_user uid db =
     (if db_dialect db = Postgres \<and> has_user db uid \<and> user_referenced uid db then Inl integrity_error
      else Inr (db\<lparr>db_tokens := map (\<lambda>t. if token_user_id t = Some uid
                      then t\<lparr>token_revoked := True, token_user_id := None\<rparr> else t) (db_tokens db),
                   db_users := filter (\<lambda>u. user_pk u \<noteq> uid) (db_users db)\<rparr>))"
  by (cases "db_dialect db")
     (simp_all add: delete_user_def unlink_user_tokens_def fk_ok_def has_user_def user_referenced_def
        sql_update_def sql_delete_def Let_def)

end
