(* ===== verification/Urls.thy ===== *)
theory Urls
  imports Errors
begin

text \<open>
  What the code takes from \<open>urllib.parse\<close>: \<open>urlsplit\<close>/\<open>urlparse\<close> with the host and port of a
  network location, and \<open>unquote_plus\<close>. \<open>urlsplit\<close> raises \<open>ValueError\<close> on unbalanced or
  malformed brackets (\<open>None\<close> here), which needs the address syntax of \<open>ipaddress\<close>. The check on
  characters that normalise to delimiters never fires for code points up to 255.
\<close>

section \<open>Splitting strings\<close>

fun break_at :: "char \<Rightarrow> string \<Rightarrow> string \<times> string option" where
  \<comment> \<open>\<open>s.partition(c)\<close>: what precedes the first \<open>c\<close>, and what follows it\<close>
  "break_at c [] = ([], None)"
| "break_at c (x # xs) =
     (if x = c then ([], Some xs) else (let (p, r) = break_at c xs in (x # p, r)))"

definition after_last :: "char \<Rightarrow> string \<Rightarrow> string" where
  \<comment> \<open>\<open>s.rpartition(c)[2]\<close>\<close>
  "after_last c s = rev (takeWhile (\<lambda>x. x \<noteq> c) (rev s))"

fun split_on :: "char \<Rightarrow> string \<Rightarrow> string list" where
  \<comment> \<open>\<open>s.split(c)\<close>\<close>
  "split_on c [] = [[]]"
| "split_on c (x # xs) =
     (if x = c then [] # split_on c xs else (case split_on c xs of p # ps \<Rightarrow> (x # p) # ps | [] \<Rightarrow> [[x]]))"

lemma break_at_None: "snd (break_at c s) = None \<longleftrightarrow> c \<notin> set s"
  by (induction s) (auto simp: case_prod_unfold Let_def)

lemma break_at_fst: "c \<notin> set s \<Longrightarrow> break_at c s = (s, None)"
  by (induction s) auto

lemma break_at_append: "c \<notin> set p \<Longrightarrow> break_at c (p @ c # r) = (p, Some r)"
  by (induction p) auto


section \<open>Addresses\<close>

definition is_hex :: "char \<Rightarrow> bool" where
  "is_hex c \<longleftrightarrow> hex_val c \<noteq> None"

definition ipv4_octet :: "string \<Rightarrow> bool" where
  "ipv4_octet s \<longleftrightarrow> s \<noteq> [] \<and> list_all is_digit s \<and> length s \<le> 3 \<and> (s = ''0'' \<or> hd s \<noteq> CHR ''0'') \<and> digits_val s \<le> 255"

definition is_ipv4 :: "string \<Rightarrow> bool" where
  "is_ipv4 s \<longleftrightarrow> length (split_on (CHR ''.'') s) = 4 \<and> list_all ipv4_octet (split_on (CHR ''.'') s)"

definition ipv6_hextet :: "string \<Rightarrow> bool" where
  "ipv6_hextet s \<longleftrightarrow> s \<noteq> [] \<and> length s \<le> 4 \<and> list_all is_hex s"

definition ipv6_groups :: "string list \<Rightarrow> bool" where
  \<comment> \<open>the colon-separated parts, an embedded IPv4 address already replaced by two groups\<close>
  "ipv6_groups parts \<longleftrightarrow>
     3 \<le> length parts \<and> length parts \<le> 9 \<and>
     (case filter (\<lambda>i. parts ! i = []) [1..<length parts - 1] of
        [] \<Rightarrow> length parts = 8 \<and> list_all ipv6_hextet parts
      | [k] \<Rightarrow>
          (let hi = take k parts; lo = drop (k + 1) parts
           in (hd hi = [] \<longrightarrow> k = 1) \<and> (last lo = [] \<longrightarrow> length lo = 1) \<and>
              (let hi' = (if hd hi = [] then [] else hi); lo' = (if last lo = [] then [] else lo)
               in length hi' + length lo' < 8 \<and> list_all ipv6_hextet hi' \<and> list_all ipv6_hextet lo'))
      | _ \<Rightarrow> False)"

definition is_ipv6 :: "string \<Rightarrow> bool" where
  "is_ipv6 s \<longleftrightarrow>
     (let (addr, scope) = break_at (CHR ''%'') s; parts = split_on (CHR '':'') addr
      in (case scope of None \<Rightarrow> True | Some z \<Rightarrow> z \<noteq> [] \<and> CHR ''%'' \<notin> set z) \<and>
         CHR ''/'' \<notin> set s \<and>
         3 \<le> length parts \<and>
         (if CHR ''.'' \<in> set (last parts)
          then is_ipv4 (last parts) \<and> ipv6_groups (butlast parts @ [''0'', ''0''])
          else ipv6_groups parts))"

definition bracketed_host_ok :: "string \<Rightarrow> bool" where
  \<comment> \<open>\<open>_check_bracketed_host\<close>\<close>
  "bracketed_host_ok h \<longleftrightarrow>
     (case h of
        v # r \<Rightarrow>
          if v = CHR ''v'' then
            (let (x, y) = break_at (CHR ''.'') r
             in x \<noteq> [] \<and> list_all is_hex x \<and> (case y of Some z \<Rightarrow> z \<noteq> [] \<and> CHR 0x0A \<notin> set z | None \<Rightarrow> False))
          else is_ipv6 h
      | [] \<Rightarrow> False)"


section \<open>urlsplit\<close>

record split_result =
  sr_scheme :: string
  sr_netloc :: string
  sr_path :: string
  sr_query :: string
  sr_fragment :: string

definition is_alpha :: "char \<Rightarrow> bool" where
  "is_alpha c \<longleftrightarrow> (let n = (of_char c :: nat) in 65 \<le> n \<and> n \<le> 90 \<or> 97 \<le> n \<and> n \<le> 122)"

definition scheme_char :: "char \<Rightarrow> bool" where
  "scheme_char c \<longleftrightarrow> is_alpha c \<or> is_digit c \<or> c \<in> {CHR ''+'', CHR ''-'', CHR ''.''}"

definition clean_url :: "string \<Rightarrow> string" where
  \<comment> \<open>leading controls and spaces are dropped, tabs and line breaks removed\<close>
  "clean_url url =
     filter (\<lambda>c. c \<notin> {CHR 0x09, CHR 0x0D, CHR 0x0A}) (dropWhile (\<lambda>c. (of_char c :: nat) \<le> 32) url)"

definition split_scheme :: "string \<Rightarrow> string \<times> string" where
  "split_scheme url =
     (case break_at (CHR '':'') url of
        (p, Some r) \<Rightarrow>
          if p \<noteq> [] \<and> is_alpha (hd p) \<and> list_all scheme_char p then (py_lower p, r) else ([], url)
      | _ \<Rightarrow> ([], url))"

definition split_netloc :: "string \<Rightarrow> string \<times> string" where
  "split_netloc url =
     (if starts_with ''//'' url
      then (takeWhile (\<lambda>c. c \<notin> {CHR ''/'', CHR ''?'', CHR ''#''}) (drop 2 url),
            dropWhile (\<lambda>c. c \<notin> {CHR ''/'', CHR ''?'', CHR ''#''}) (drop 2 url))
      else ([], url))"

definition netloc_ok :: "string \<Rightarrow> bool" where
  "netloc_ok n \<longleftrightarrow>
     (CHR ''['' \<in> set n) = (CHR '']'' \<in> set n) \<and>
     (CHR ''['' \<in> set n \<longrightarrow>
        bracketed_host_ok (fst (break_at (CHR '']'') (the (snd (break_at (CHR ''['') n))))))"

definition opt_str :: "string option \<Rightarrow> string" where
  "opt_str v = (case v of Some s \<Rightarrow> s | None \<Rightarrow> [])"

definition urlsplit :: "string \<Rightarrow> split_result option" where
  \<comment> \<open>\<open>None\<close> for \<open>ValueError\<close>\<close>
  "urlsplit url0 =
     (let (scheme, url1) = split_scheme (clean_url url0);
          (netloc, url2) = split_netloc url1;
          (url3, fragment) = break_at (CHR ''#'') url2;
          (path, query) = break_at (CHR ''?'') url3
      in if netloc_ok netloc
         then Some \<lparr>sr_scheme = scheme, sr_netloc = netloc, sr_path = path,
                    sr_query = opt_str query, sr_fragment = opt_str fragment\<rparr>
         else None)"

definition uses_params :: "string list" where
  "uses_params = [[], ''ftp'', ''hdl'', ''prospero'', ''http'', ''imap'', ''https'', ''shttp'', ''rtsp'',
     ''rtsps'', ''rtspu'', ''sip'', ''sips'', ''mms'', ''sftp'', ''tel'']"

definition urlparse_path :: "split_result \<Rightarrow> string" where
  \<comment> \<open>\<open>urlparse(url).path\<close>: the parameters of the last segment are cut off\<close>
  "urlparse_path r =
     (let p = sr_path r; seg = after_last (CHR ''/'') p
      in if sr_scheme r \<in> set uses_params \<and> CHR '';'' \<in> set seg
         then take (length p - length seg) p @ fst (break_at (CHR '';'') seg)
         else p)"

definition hostinfo :: "split_result \<Rightarrow> string \<times> string option" where
  "hostinfo r =
     (let h = after_last (CHR ''@'') (sr_netloc r)
      in case break_at (CHR ''['') h of
           (_, Some b) \<Rightarrow>
             (let (host, rest) = break_at (CHR '']'') b;
                  port = snd (break_at (CHR '':'') (opt_str rest))
              in (host, if truthy port then port else None))
         | (_, None) \<Rightarrow>
             (let (host, port) = break_at (CHR '':'') h
              in (host, if truthy port then port else None)))"

definition hostname :: "split_result \<Rightarrow> string option" where
  "hostname r =
     (let h = fst (hostinfo r)
      in if h = [] then None
         else (case break_at (CHR ''%'') h of
             (a, Some z) \<Rightarrow> Some (py_lower a @ ''%'' @ z)
           | (a, None) \<Rightarrow> Some (py_lower a)))"

definition url_port :: "split_result \<Rightarrow> nat option outcome" where
  "url_port r =
     (case snd (hostinfo r) of
        None \<Rightarrow> Inr None
      | Some p \<Rightarrow>
          if list_all is_digit p \<and> digits_val p \<le> 65535 then Inr (Some (digits_val p))
          else Inl (PyError ''ValueError''))"


section \<open>unquote_plus\<close>

definition utf8_follow :: "byte \<Rightarrow> nat option" where
  \<comment> \<open>how many continuation bytes a lead byte announces\<close>
  "utf8_follow b =
     (let n = unat b
      in if 194 \<le> n \<and> n < 224 then Some 1 else if 224 \<le> n \<and> n < 240 then Some 2
         else if 240 \<le> n \<and> n < 245 then Some 3 else None)"

definition utf8_second_ok :: "byte \<Rightarrow> byte \<Rightarrow> bool" where
  "utf8_second_ok b c \<longleftrightarrow> is_cont c \<and>
     (unat b = 224 \<longrightarrow> 160 \<le> unat c) \<and> (unat b = 237 \<longrightarrow> unat c < 160) \<and>
     (unat b = 240 \<longrightarrow> 144 \<le> unat c) \<and> (unat b = 244 \<longrightarrow> unat c < 144)"

definition utf8_good :: "byte \<Rightarrow> bytes \<Rightarrow> nat" where
  \<comment> \<open>the number of bytes that may follow the lead byte in a well-formed sequence\<close>
  "utf8_good b bs =
     (case utf8_follow b of
        None \<Rightarrow> 0
      | Some n \<Rightarrow>
          (case bs of
             c # r \<Rightarrow> if utf8_second_ok b c then Suc (length (takeWhile is_cont (take (n - 1) r))) else 0
           | [] \<Rightarrow> 0))"

function utf8_replace :: "bytes \<Rightarrow> string" where
  \<comment> \<open>\<open>b.decode("utf-8", "replace")\<close>: one replacement character per maximal ill-formed part\<close>
  "utf8_replace [] = []"
| "utf8_replace (b # bs) =
     (if unat b < 128 then char_of (unat b) # utf8_replace bs
      else if utf8_follow b = Some (utf8_good b bs) \<and> unat b < 196
        then char_of ((unat b - 192) * 64 + (unat (hd bs) - 128)) # utf8_replace (drop 1 bs)
      else wide_char # utf8_replace (drop (utf8_good b bs) bs))"
  by pat_completeness auto
termination
  by (relation "measure length") auto

fun unquote_to_bytes :: "string \<Rightarrow> bytes" where
  "unquote_to_bytes [] = []"
| "unquote_to_bytes (c # cs) =
     (if c = CHR ''%'' then
        (case cs of
           a # b # r \<Rightarrow>
             (case (hex_val a, hex_val b) of
                (Some x, Some y) \<Rightarrow> of_nat (x * 16 + y) # unquote_to_bytes r
              | _ \<Rightarrow> of_char c # unquote_to_bytes cs)
         | _ \<Rightarrow> of_char c # unquote_to_bytes cs)
      else of_char c # unquote_to_bytes cs)"

function unquote :: "string \<Rightarrow> string" where
  \<comment> \<open>runs of ASCII characters are decoded as UTF-8, the others kept\<close>
  "unquote [] = []"
| "unquote (c # cs) =
     (let ascii = (\<lambda>x. (of_char x :: nat) < 128)
      in if ascii c then utf8_replace (unquote_to_bytes (takeWhile ascii (c # cs))) @ unquote (dropWhile ascii (c # cs))
         else c # unquote cs)"
  by pat_completeness auto
termination
  by (relation "measure length") (auto simp: le_imp_less_Suc length_dropWhile_le)

definition unquote_plus :: "string \<Rightarrow> string" where
  "unquote_plus s = unquote (map (\<lambda>c. if c = CHR ''+'' then CHR '' '' else c) s)"

end
