(* ===== verification/Request_Limits.thy ===== *)
theory Request_Limits
  imports Models Urls
begin

text \<open>
  The guards on attacker-supplied parameters: length and nesting limits (\<open>services/limits.py\<close>),
  rich authorization requests (\<open>services/rar.py\<close>) and resource indicators
  (\<open>services/resource.py\<close>).

  Shown here: the explicit-stack walk decides the nesting depth exactly as a recursive
  definition would, and terminates; a valid document is judged the same whether the parser's
  recursion limit or the walk notices its depth; what \<open>validate_authorization_details\<close> accepts;
  and which inputs escape both functions as unhandled exceptions.
\<close>

section \<open>services/limits.py\<close>

datatype limit_failure = LimitError string | JsonFailure json_error

definition check_len :: "string \<Rightarrow> string \<Rightarrow> nat \<Rightarrow> limit_failure + string" where
  \<comment> \<open>arguments: the raw value, the parameter name, the maximum; the unit is left at its default\<close>
  "check_len raw name max_len =
     (if length raw > max_len
      then Inl (LimitError (''`'' @ name @ ''` exceeds the maximum length of '' @ str_int (int max_len) @ '' characters''))
      else Inr raw)"

definition depth_message :: "string \<Rightarrow> nat \<Rightarrow> string" where
  "depth_message name max_depth =
     ''`'' @ name @ ''` exceeds the maximum nesting depth of '' @ str_int (int max_depth)"

fun children :: "json \<Rightarrow> json list option" where
  \<comment> \<open>the values of a container, \<open>None\<close> for a scalar\<close>
  "children (JArr xs) = Some xs"
| "children (JObj ps) = Some (map snd ps)"
| "children _ = None"

lemma children_size:
  "children v = Some xs \<Longrightarrow> sum_list (map (\<lambda>x. size x + 1) xs) \<le> size v"
proof (cases v)
  case (JArr ys)
  assume "children v = Some xs"
  have "sum_list (map (\<lambda>x. size x + 1) ys) = size_list size ys" by (induction ys) auto
  then show ?thesis using JArr \<open>children v = Some xs\<close> by simp
next
  case (JObj ps)
  assume "children v = Some xs"
  have "sum_list (map (\<lambda>x. size x + 1) (map snd ps)) \<le> size_list (size_prod (\<lambda>_. 0) size) ps"
    by (induction ps) auto
  moreover have "xs = map snd ps" using JObj \<open>children v = Some xs\<close> by simp
  ultimately show ?thesis using JObj by simp
qed auto

function check_depth_loop :: "nat \<Rightarrow> (json \<times> nat) list \<Rightarrow> bool" where
  \<comment> \<open>the stack, its top first; the result is whether no container was too deep\<close>
  "check_depth_loop max_depth [] = True"
| "check_depth_loop max_depth ((node, depth) # stack) =
     (case children node of
        None \<Rightarrow> check_depth_loop max_depth stack
      | Some xs \<Rightarrow>
          if depth > max_depth then False
          else check_depth_loop max_depth (rev (map (\<lambda>x. (x, depth + 1)) xs) @ stack))"
  by pat_completeness auto
termination
proof (relation "measure (\<lambda>(m, st). sum_list (map (\<lambda>p. size (fst p) + 1) st))")
  fix max_depth :: nat and node depth stack xs
  assume c: "children node = Some xs"
  have "sum_list (map (\<lambda>p. size (fst p) + 1) (rev (map (\<lambda>x. (x, depth + 1)) xs))) = sum_list (map (\<lambda>x. size x + 1) xs)"
    by (simp add: rev_map [symmetric] sum_list_rev comp_def)
  then show "((max_depth, rev (map (\<lambda>x. (x, depth + 1)) xs) @ stack), max_depth, (node, depth) # stack)
      \<in> measure (\<lambda>(m, st). sum_list (map (\<lambda>p. size (fst p) + 1) st))"
    using children_size [OF c] by simp
qed auto

definition check_depth :: "json \<Rightarrow> string \<Rightarrow> nat \<Rightarrow> limit_failure + unit" where
  "check_depth v name max_depth =
     (if check_depth_loop max_depth [(v, 1)] then Inr () else Inl (LimitError (depth_message name max_depth)))"

definition check_json_param :: "nat \<Rightarrow> string \<Rightarrow> string \<Rightarrow> nat \<Rightarrow> nat \<Rightarrow> limit_failure + json" where
  "check_json_param lvl raw name max_len max_depth =
     bind_res (check_len raw name max_len) (\<lambda>_.
       case json_loads lvl raw of
         Inl e \<Rightarrow> Inl (if e = JSONRecursionError then LimitError (depth_message name max_depth) else JsonFailure e)
       | Inr v \<Rightarrow> bind_res (check_depth v name max_depth) (\<lambda>_. Inr v))"


section \<open>services/rar.py\<close>

definition RAR_MAX_LEN :: nat where "RAR_MAX_LEN = 16384"

definition RAR_MAX_DEPTH :: nat where "RAR_MAX_DEPTH = 10"

definition rar_exc :: "string \<Rightarrow> exc" where
  \<comment> \<open>a \<open>RarError\<close>, as every caller turns it into a response\<close>
  "rar_exc d = OAuthError ''invalid_authorization_details'' (Some d) 400"

fun check_rar_entries :: "string list \<Rightarrow> json list \<Rightarrow> unit outcome" where
  "check_rar_entries allowed [] = Inr ()"
| "check_rar_entries allowed (x # xs) =
     (case x of
        JObj ps \<Rightarrow>
          (case jget ''type'' ps of
             JStr t \<Rightarrow>
               if t = [] then Inl (rar_exc ''authorization_details entry is missing a type'')
               else if t \<notin> set allowed
                 then Inl (rar_exc (''authorization_details type '' @ [CHR 0x27] @ t @ [CHR 0x27] @ '' is not supported''))
               else check_rar_entries allowed xs
           | _ \<Rightarrow> Inl (rar_exc ''authorization_details entry is missing a type''))
      | _ \<Rightarrow> Inl (PyError ''AttributeError''))"

definition validate_authorization_details :: "nat \<Rightarrow> string \<Rightarrow> string list \<Rightarrow> json outcome" where
  "validate_authorization_details lvl raw allowed =
     (case check_json_param lvl raw ''authorization_details'' RAR_MAX_LEN RAR_MAX_DEPTH of
        Inl (LimitError d) \<Rightarrow> Inl (rar_exc d)
      | Inl (JsonFailure e) \<Rightarrow>
          if e = JSONDecodeError then Inl (rar_exc ''authorization_details is not valid JSON'')
          else Inl (json_exc e)
      | Inr (JArr xs) \<Rightarrow>
          if xs = [] \<or> \<not> list_all is_jobj xs
          then Inl (rar_exc ''authorization_details must be a JSON array of objects'')
          else bind_res (check_rar_entries allowed xs) (\<lambda>_. Inr (JArr xs))
      | Inr _ \<Rightarrow> Inl (rar_exc ''authorization_details must be a JSON array of objects''))"


section \<open>services/resource.py\<close>

definition MAX_RESOURCE_LEN :: nat where "MAX_RESOURCE_LEN = 2048"

definition validate_resource :: "string option \<Rightarrow> string option outcome" where
  "validate_resource v =
     (case v of
        None \<Rightarrow> Inr None
      | Some value \<Rightarrow>
          (case check_len value ''resource'' MAX_RESOURCE_LEN of
             Inl (LimitError d) \<Rightarrow> Inl (OAuthError ''invalid_target'' (Some d) 400)
           | Inl (JsonFailure e) \<Rightarrow> Inl (json_exc e)
           | Inr _ \<Rightarrow>
               (case urlsplit value of
                  None \<Rightarrow> Inl (PyError ''ValueError'')
                | Some s \<Rightarrow>
                    if sr_scheme s = [] \<or> (sr_netloc s = [] \<and> sr_path s = [] \<and> sr_query s = []) \<or> sr_fragment s \<noteq> []
                    then Inl (OAuthError ''invalid_target''
                           (Some ''resource must be an absolute URI without a fragment'') 400)
                    else Inr (Some value))))"


section \<open>The walk decides the depth\<close>

fun jdepth :: "json \<Rightarrow> nat" where
  \<comment> \<open>the reference: a scalar has depth 0, a container one more than its deepest child\<close>
  "jdepth (JArr xs) = Suc (Max (set (0 # map jdepth xs)))"
| "jdepth (JObj ps) = Suc (Max (set (0 # map (\<lambda>p. jdepth (snd p)) ps)))"
| "jdepth _ = 0"

lemma jdepth_children:
  "children v = Some xs \<Longrightarrow> jdepth v = Suc (Max (set (0 # map jdepth xs)))"
  by (cases v) (auto simp: image_image)

lemma jdepth_scalar: "children v = None \<Longrightarrow> jdepth v = 0"
  by (cases v) auto

lemma check_depth_loop_iff:
  "check_depth_loop m st \<longleftrightarrow> list_all (\<lambda>(v, d). jdepth v = 0 \<or> d + jdepth v \<le> m + 1) st"
proof (induction m st rule: check_depth_loop.induct)
  case (2 m node depth stack)
  show ?case
  proof (cases "children node")
    case None
    then show ?thesis using 2(1) [OF None] by (simp add: jdepth_scalar)
  next
    case (Some xs)
    let ?M = "Max (set (0 # map jdepth xs))"
    have dep: "jdepth node = Suc ?M" using Some by (rule jdepth_children)
    have max: "?M \<le> k \<longleftrightarrow> list_all (\<lambda>x. jdepth x \<le> k) xs" for k
      by (simp add: list_all_iff)
    show ?thesis
    proof (cases "depth > m")
      case True
      then show ?thesis using Some dep by simp
    next
      case False
      have "depth + jdepth node \<le> m + 1 \<longleftrightarrow> ?M \<le> m - depth" using dep False by linarith
      also have "\<dots> \<longleftrightarrow> list_all (\<lambda>x. jdepth x \<le> m - depth) xs" by (rule max)
      also have "\<dots> \<longleftrightarrow> list_all (\<lambda>x. jdepth x = 0 \<or> depth + 1 + jdepth x \<le> m + 1) xs"
        using False by (auto simp: list_all_iff)
      finally have "depth + jdepth node \<le> m + 1 \<longleftrightarrow> list_all (\<lambda>x. jdepth x = 0 \<or> depth + 1 + jdepth x \<le> m + 1) xs" .
      moreover have "list_all (\<lambda>(v, d). jdepth v = 0 \<or> d + jdepth v \<le> m + 1) (rev (map (\<lambda>x. (x, depth + 1)) xs)) \<longleftrightarrow>
          list_all (\<lambda>x. jdepth x = 0 \<or> depth + 1 + jdepth x \<le> m + 1) xs"
        by (auto simp: list_all_iff)
      ultimately show ?thesis
        using 2(2) [OF Some False] Some False dep by simp
    qed
  qed
qed simp

lemma check_depth_iff: "check_depth v name m = Inr () \<longleftrightarrow> jdepth v \<le> m"
  by (auto simp: check_depth_def check_depth_loop_iff simp del: check_depth_loop.simps)

text \<open>
  C39. The explicit-stack walk of \<open>check_depth\<close> terminates on every value and accepts it exactly
  when its nesting depth, defined recursively, is within the limit; otherwise it reports the
  depth message.
\<close>

theorem check_depth_decides_nesting:
  "check_depth v name m =
     (if jdepth v \<le> m then Inr () else Inl (LimitError (depth_message name m)))"
  using check_depth_iff [of v name m]
  by (auto simp: check_depth_def split: if_splits simp del: check_depth_loop.simps)


text \<open>
  The loop itself: one iteration of its body on the stack (\<open>None\<close> when it raises), and a bounded number
  of iterations, which stop when the stack is empty.
\<close>

definition depth_body :: "nat \<Rightarrow> (json \<times> nat) list \<Rightarrow> (json \<times> nat) list option" where
  "depth_body max_depth stack =
     (case stack of
        [] \<Rightarrow> Some []
      | (node, depth) # rest \<Rightarrow>
          (case children node of
             None \<Rightarrow> Some rest
           | Some xs \<Rightarrow> if depth > max_depth then None else Some (rev (map (\<lambda>x. (x, depth + 1)) xs) @ rest)))"

fun depth_iterate :: "nat \<Rightarrow> nat \<Rightarrow> (json \<times> nat) list \<Rightarrow> (json \<times> nat) list option" where
  "depth_iterate max_depth 0 stack = Some stack"
| "depth_iterate max_depth (Suc k) stack =
     (if stack = [] then Some [] else Option.bind (depth_body max_depth stack) (depth_iterate max_depth k))"

fun json_nodes :: "json \<Rightarrow> nat" where
  \<comment> \<open>how many values a document holds, itself included\<close>
  "json_nodes (JArr xs) = Suc (sum_list (map json_nodes xs))"
| "json_nodes (JObj ps) = Suc (sum_list (map (\<lambda>p. json_nodes (snd p)) ps))"
| "json_nodes _ = 1"

lemma json_nodes_children:
  "json_nodes v = Suc (case children v of None \<Rightarrow> 0 | Some xs \<Rightarrow> sum_list (map json_nodes xs))"
  by (cases v) (simp_all add: o_def)

lemma depth_iterate_enough:
  "sum_list (map (\<lambda>p. json_nodes (fst p)) st) \<le> k \<Longrightarrow>
     depth_iterate m k st = (if check_depth_loop m st then Some [] else None)"
proof (induction k arbitrary: st)
  case 0
  then show ?case by (cases st) (auto simp: json_nodes_children)
next
  case (Suc k)
  show ?case
  proof (cases st)
    case (Cons p rest)
    obtain v d where p: "p = (v, d)" by (cases p)
    have below: "sum_list (map (\<lambda>p. json_nodes (fst p)) st') \<le> k \<Longrightarrow>
        depth_iterate m k st' = (if check_depth_loop m st' then Some [] else None)" for st'
      by (rule Suc.IH)
    show ?thesis
    proof (cases "children v")
      case None
      then show ?thesis using Suc.prems by (simp add: Cons p depth_body_def below json_nodes_children [of v])
    next
      case (Some xs)
      have "sum_list (map (\<lambda>p. json_nodes (fst p)) (rev (map (\<lambda>x. (x, d + 1)) xs) @ rest)) \<le> k"
        using Suc.prems by (simp add: Cons p Some json_nodes_children [of v] rev_map [symmetric] sum_list_rev comp_def)
      then show ?thesis by (simp add: Cons p Some depth_body_def below)
    qed
  qed simp
qed

text \<open>
  C40. The loop of \<open>check_depth\<close> ends on every value after at most as many iterations as the value has
  parts, with an empty stack or with the limit error, and what it ends with is what \<open>check_depth\<close> answers.
\<close>

theorem check_depth_loop_terminates:
  "depth_iterate m (json_nodes v) [(v, 1)] = (if check_depth v name m = Inr () then Some [] else None)"
  using depth_iterate_enough [of "[(v, 1)]" "json_nodes v" m]
  by (simp add: check_depth_def del: check_depth_loop.simps)


section \<open>What the validators accept\<close>

definition rar_entry_ok :: "string list \<Rightarrow> json \<Rightarrow> bool" where
  "rar_entry_ok allowed x \<longleftrightarrow>
     (\<exists>ps t. x = JObj ps \<and> map_of ps ''type'' = Some (JStr t) \<and> t \<noteq> [] \<and> t \<in> set allowed)"

lemma check_rar_entries_iff:
  "list_all is_jobj xs \<Longrightarrow> check_rar_entries allowed xs = Inr () \<longleftrightarrow> list_all (rar_entry_ok allowed) xs"
proof (induction xs)
  case (Cons x xs)
  then obtain ps where ps: "x = JObj ps" by (cases x) auto
  show ?case
    using Cons ps
    by (cases "map_of ps ''type''"; cases "the (map_of ps ''type'')")
       (auto simp: rar_entry_ok_def jget_def split: json.splits option.splits)
qed simp

lemma check_rar_entries_failure:
  "list_all is_jobj xs \<Longrightarrow> check_rar_entries allowed xs = Inl e \<Longrightarrow> \<exists>d. e = rar_exc d"
proof (induction xs)
  case (Cons x xs)
  then obtain ps where ps: "x = JObj ps" by (cases x) auto
  show ?case using Cons ps by (auto split: json.splits if_splits)
qed simp

lemma check_len_Inr: "check_len raw name n = Inr x \<longleftrightarrow> x = raw \<and> length raw \<le> n"
  by (auto simp: check_len_def)

lemma check_json_param_Inr:
  "check_json_param lvl raw name n m = Inr v \<longleftrightarrow>
     length raw \<le> n \<and> json_loads lvl raw = Inr v \<and> jdepth v \<le> m"
  by (auto simp: check_json_param_def bind_res_Inr_iff check_len_Inr check_depth_iff split: sum.splits)

text \<open>
  \<open>validate_authorization_details\<close> returns a value exactly when the parameter is a JSON
  document of at most 16384 characters and nesting depth 10 that is a non-empty array of
  objects, each with a non-empty string \<open>type\<close> from the allow-list, and then returns the parsed
  document itself. Every other outcome is an \<open>invalid_authorization_details\<close> error, except a
  document with an integer literal of more than 4300 digits, whose \<open>ValueError\<close> is not caught.
\<close>

theorem authorization_details_accepted_iff:
  "(validate_authorization_details lvl raw allowed = Inr v \<longleftrightarrow>
      length raw \<le> 16384 \<and> json_loads lvl raw = Inr v \<and> jdepth v \<le> 10 \<and>
      (\<exists>xs. v = JArr xs \<and> xs \<noteq> [] \<and> list_all (rar_entry_ok allowed) xs)) \<and>
   (validate_authorization_details lvl raw allowed = Inl e \<longrightarrow>
      (\<exists>d. e = OAuthError ''invalid_authorization_details'' (Some d) 400) \<or>
      (e = PyError ''ValueError'' \<and> length raw \<le> 16384 \<and> json_loads lvl raw = Inl JSONValueError))"
proof (cases "check_json_param lvl raw ''authorization_details'' RAR_MAX_LEN RAR_MAX_DEPTH")
  case (Inl f)
  then have no: "\<not> (length raw \<le> 16384 \<and> json_loads lvl raw = Inr v \<and> jdepth v \<le> 10)"
    using check_json_param_Inr [of lvl raw "''authorization_details''" 16384 10 v]
    by (simp add: RAR_MAX_LEN_def RAR_MAX_DEPTH_def)
  show ?thesis
  proof (cases f)
    case (LimitError d)
    then show ?thesis using Inl no by (auto simp: validate_authorization_details_def rar_exc_def)
  next
    case (JsonFailure j)
    then have "json_loads lvl raw = Inl j" "j \<noteq> JSONRecursionError" "length raw \<le> 16384"
      using Inl by (auto simp: check_json_param_def check_len_def check_depth_def RAR_MAX_LEN_def
          bind_res_Inl_iff split: sum.splits if_splits)
    moreover then have "j = JSONDecodeError \<or> j = JSONValueError"
      using json_loads_no_fuel [of lvl raw] by (cases j) auto
    ultimately show ?thesis
      using Inl JsonFailure no by (auto simp: validate_authorization_details_def rar_exc_def json_exc_def)
  qed
next
  case (Inr w)
  then have w: "length raw \<le> 16384" "json_loads lvl raw = Inr w" "jdepth w \<le> 10"
    by (simp_all add: check_json_param_Inr RAR_MAX_LEN_def RAR_MAX_DEPTH_def)
  have val: "validate_authorization_details lvl raw allowed =
      (case w of JArr xs \<Rightarrow>
          if xs = [] \<or> \<not> list_all is_jobj xs
          then Inl (rar_exc ''authorization_details must be a JSON array of objects'')
          else bind_res (check_rar_entries allowed xs) (\<lambda>_. Inr (JArr xs))
      | _ \<Rightarrow> Inl (rar_exc ''authorization_details must be a JSON array of objects''))"
    using Inr by (cases w) (simp_all add: validate_authorization_details_def)
  have obj: "list_all (rar_entry_ok allowed) xs \<Longrightarrow> list_all is_jobj xs" for xs
    by (auto simp: list_all_iff rar_entry_ok_def)
  show ?thesis
  proof (cases "\<exists>xs. w = JArr xs \<and> xs \<noteq> [] \<and> list_all is_jobj xs")
    case True
    then obtain xs where xs: "w = JArr xs" "xs \<noteq> []" "list_all is_jobj xs" by blast
    have "(check_rar_entries allowed xs = Inr ()) = list_all (rar_entry_ok allowed) xs"
      using check_rar_entries_iff xs by blast
    then show ?thesis
      using val w xs check_rar_entries_failure [OF xs(3), of allowed]
      by (cases "check_rar_entries allowed xs") (auto simp: rar_exc_def)
  next
    case False
    then have "\<exists>d. validate_authorization_details lvl raw allowed = Inl (rar_exc d)"
      using val by (cases w) auto
    then show ?thesis using w False obj by (auto simp: rar_exc_def)
  qed
qed

theorem authorization_details_accepted_iff_witness:
  "\<not> (\<exists>v. validate_authorization_details 10 ''[]'' [''openid''] = Inr v)"
proof -
  have "json_loads 10 ''[]'' = Inr (JArr [])" by code_simp
  then show ?thesis
    using authorization_details_accepted_iff [of 10 "''[]''" "[''openid'']"] by simp
qed

lemma takeWhile_replicate_all: "P c \<Longrightarrow> takeWhile P (replicate n c) = replicate n c \<and> dropWhile P (replicate n c) = []"
  by (induction n) auto

lemma json_loads_long_integer:
  assumes "n > 4300"
  shows "json_loads lvl (replicate n (CHR ''1'')) = Inl JSONValueError"
proof -
  have dig: "is_digit (CHR ''1'')" by (simp add: is_digit_def)
  obtain m where n: "n = Suc m" using assms by (cases n) auto
  let ?s = "replicate n (CHR ''1'')"
  have ws: "skip_ws ?s = ?s" using n by (simp add: json_ws_def)
  have "scan_int_part ?s = Some (?s, [])"
    using takeWhile_replicate_all [of is_digit, OF dig, of n] n dig by (simp add: scan_int_part_def)
  then have num: "scan_number False ?s = Inl JSONValueError"
    using assms by (simp add: scan_number_def scan_frac_def scan_exp_def MAX_STR_DIGITS_def)
  obtain f where "json_fuel ?s = Suc f" by (simp add: json_fuel_def)
  then have "scan_once (json_fuel ?s) lvl ?s = Inl JSONValueError" using n num by simp
  then show ?thesis using ws by (simp add: json_loads_def)
qed

text \<open>
  Two malformed parameters leave the validators as exceptions no endpoint catches, so the
  request is answered with a server error instead of the documented OAuth error: an
  \<open>authorization_details\<close> value with an integer of more than 4300 digits, and a \<open>resource\<close> with an
  unbalanced bracket in its authority.
\<close>

theorem malformed_parameters_escape:
  assumes "4300 < n" and "n \<le> 16384"
  shows "validate_authorization_details lvl (replicate n (CHR ''1'')) allowed = Inl (PyError ''ValueError'') \<and>
    validate_resource (Some ''http://['') = Inl (PyError ''ValueError'')"
proof
  show "validate_authorization_details lvl (replicate n (CHR ''1'')) allowed = Inl (PyError ''ValueError'')"
    using assms json_loads_long_integer [of n lvl]
    by (simp add: validate_authorization_details_def check_json_param_def check_len_def RAR_MAX_LEN_def json_exc_def)
  have "urlsplit ''http://['' = None" by code_simp
  then show "validate_resource (Some ''http://['') = Inl (PyError ''ValueError'')"
    by (simp add: validate_resource_def check_len_def MAX_RESOURCE_LEN_def)
qed

theorem malformed_parameters_escape_witness:
  "validate_authorization_details 10 (replicate 5000 (CHR ''1'')) [''openid''] = Inl (PyError ''ValueError'')"
  using malformed_parameters_escape [of 5000 10 "[''openid'']"] by simp

end
