(* ===== verification/Token_Service.thy ===== *)
theory Token_Service
  imports Storage_Runs Request_Limits
begin

text \<open>
  Issuing tokens: the access- and id-token encoders of \<open>security.py\<close>, the token service
  (\<open>services/tokens.py\<close>), the id-token minter (\<open>services/id_token.py\<close>) with the \<open>claims\<close> request
  (\<open>services/claims_request.py\<close>), and the code issuer (\<open>services/auth.py\<close>).

  PyJWT and the RSA key parser are outside the repository. They enter as the record \<open>jwt_lib\<close>,
  polymorphic in the library's key objects; the theorems that rely on their behaviour name what
  they rely on.
\<close>

section \<open>The JWT library and the configuration\<close>

datatype jwt_error = JwtDecodeError string | JwtInvalidToken string

definition jwt_error_text :: "jwt_error \<Rightarrow> string" where
  "jwt_error_text x = (case x of JwtDecodeError m \<Rightarrow> m | JwtInvalidToken m \<Rightarrow> m)"

record decode_opts =
  do_algorithms :: "string list"
  do_audience :: "string list option"
  do_issuer :: "string option"
  do_require :: "string list"
  do_verify_aud :: bool
  do_verify_exp :: bool
  do_verify_iat :: bool

record 'k jwt_lib =
  jl_get_unverified_header :: "string \<Rightarrow> jwt_error + json dict"
  jl_decode_unverified :: "string \<Rightarrow> jwt_error + json dict"
  jl_decode :: "string \<Rightarrow> 'k \<Rightarrow> decode_opts \<Rightarrow> jwt_error + json dict"
  jl_encode :: "json dict \<Rightarrow> bytes \<Rightarrow> string \<Rightarrow> json dict \<Rightarrow> string outcome"
  jl_secret_key :: "bytes \<Rightarrow> 'k"
  jl_rsa_public_key :: "bytes \<Rightarrow> 'k"
  jl_from_jwk :: "string \<Rightarrow> json \<Rightarrow> string + 'k"
  jl_is_public_key :: "'k \<Rightarrow> bool"

definition reads_payload :: "'k jwt_lib \<Rightarrow> (string \<Rightarrow> claims) \<Rightarrow> bool" where
  \<comment> \<open>a successful decoding returns the payload the token carries, whatever key and options\<close>
  "reads_payload lib payload \<longleftrightarrow>
     (\<forall>t k opts cs. jl_decode lib t k opts = Inr cs \<longrightarrow> cs = payload t) \<and>
     (\<forall>t cs. jl_decode_unverified lib t = Inr cs \<longrightarrow> cs = payload t)"

record config =
  cfg_issuer :: string
  cfg_jwt_secret :: string
  cfg_access_tokens_opaque :: bool
  cfg_access_token_ttl_secs :: int
  cfg_refresh_token_ttl_secs :: int
  cfg_authorization_code_ttl_secs :: int
  cfg_id_token_private_key_pem :: "string option"
  cfg_id_token_kid :: "string option"
  cfg_id_token_alg :: string
  cfg_rar_types_supported :: "string list"
  cfg_acr_values_supported :: "string list"
  cfg_trust_proxy_headers :: bool
  cfg_dynamic_registration_enabled :: bool
  cfg_admin_client_ids :: "string list"
  cfg_admin_emails :: "string list"
  cfg_key_rotation_grace_hours :: int
  cfg_events_public_ingest :: bool
  cfg_events_ingest_bearer_token :: "string option"
  cfg_social_link_by_verified_email :: bool
  cfg_google_client_id :: "string option"
  cfg_google_client_secret :: "string option"
  cfg_google_redirect_uri :: "string option"
  cfg_microsoft_client_id :: "string option"
  cfg_microsoft_client_secret :: "string option"
  cfg_microsoft_redirect_uri :: "string option"
  cfg_microsoft_tenant_id :: string
  cfg_github_client_id :: "string option"
  cfg_github_client_secret :: "string option"
  cfg_github_redirect_uri :: "string option"
  cfg_azure_client_id :: "string option"
  cfg_azure_client_secret :: "string option"
  cfg_azure_redirect_uri :: "string option"
  cfg_azure_tenant_id :: string
  cfg_mtls_endpoint_base_url :: "string option"


section \<open>security.py\<close>

definition ACCESS_TOKEN_TYP :: string where
  "ACCESS_TOKEN_TYP = ''at+JWT''"

definition INTROSPECTION_JWT_TYP :: string where
  "INTROSPECTION_JWT_TYP = ''token-introspection+jwt''"

definition decode_unverified_claims :: "'k jwt_lib \<Rightarrow> string \<Rightarrow> claims" where
  "decode_unverified_claims lib tok =
     (case jl_decode_unverified lib tok of Inl _ \<Rightarrow> [] | Inr c \<Rightarrow> c)"

definition half_hash :: "string \<Rightarrow> string" where
  "half_hash v = urlsafe_b64encode_nopad (take 16 (sha256 (utf8 v)))"

definition encode_access_token ::
  "'k jwt_lib \<Rightarrow> access_claims \<Rightarrow> string \<Rightarrow> signing_key option \<Rightarrow> string outcome" where
  "encode_access_token lib c secret key =
     (case key of
        Some k \<Rightarrow> jl_encode lib (to_payload c) (sk_key_material k) (sk_algorithm k)
                    [(''typ'', JStr ACCESS_TOKEN_TYP), (''kid'', JStr (sk_kid k))]
      | None \<Rightarrow> jl_encode lib (to_payload c) (utf8 secret) ''HS256'' [(''typ'', JStr ACCESS_TOKEN_TYP)])"

definition encode_id_token ::
  "'k jwt_lib \<Rightarrow> datetime \<Rightarrow> id_token_claims \<Rightarrow> string \<Rightarrow> config \<Rightarrow> keyset option \<Rightarrow> string outcome" where
  "encode_id_token lib now c secret cfg keyset =
     (if cfg_id_token_alg cfg = ''RS256'' then
        (case Option.bind keyset (current_for_alg now ''RS256'') of
           Some k \<Rightarrow> jl_encode lib (id_token_payload c) (sk_key_material k) ''RS256'' [(''kid'', JStr (sk_kid k))]
         | None \<Rightarrow>
             if \<not> truthy (cfg_id_token_private_key_pem cfg) then Inl (PyError ''ValueError'')
             else jl_encode lib (id_token_payload c) (utf8 (the (cfg_id_token_private_key_pem cfg))) ''RS256''
                    (if truthy (cfg_id_token_kid cfg) then [(''kid'', JStr (the (cfg_id_token_kid cfg)))] else []))
      else jl_encode lib (id_token_payload c) (utf8 secret) ''HS256'' [])"

definition encode_introspection_jwt ::
  "'k jwt_lib \<Rightarrow> datetime \<Rightarrow> json dict \<Rightarrow> keyset option \<Rightarrow> client \<Rightarrow> string outcome" where
  "encode_introspection_jwt lib now payload keyset c =
     (case Option.bind keyset (current_for_alg now ''RS256'') of
        Some k \<Rightarrow> jl_encode lib payload (sk_key_material k) ''RS256''
                    [(''typ'', JStr INTROSPECTION_JWT_TYP), (''kid'', JStr (sk_kid k))]
      | None \<Rightarrow>
          if \<not> is_public c \<and> client_client_secret c \<noteq> []
          then jl_encode lib payload (utf8 (client_client_secret c)) ''HS256'' [(''typ'', JStr INTROSPECTION_JWT_TYP)]
          else Inl (OAuthError ''invalid_request''
                 (Some ''JWT introspection responses require an RS256 signing key or a client secret'') 400))"

definition access_decode_opts :: "string \<Rightarrow> string \<Rightarrow> decode_opts" where
  "access_decode_opts alg issuer =
     \<lparr>do_algorithms = [alg], do_audience = None, do_issuer = Some issuer, do_require = [],
      do_verify_aud = False, do_verify_exp = True, do_verify_iat = True\<rparr>"

fun first_decoding :: "'k jwt_lib \<Rightarrow> string \<Rightarrow> string \<Rightarrow> keyset \<Rightarrow> claims option" where
  "first_decoding lib tok issuer [] = None"
| "first_decoding lib tok issuer (k # ks) =
     (case jl_decode lib tok (jl_secret_key lib (sk_key_material k)) (access_decode_opts ''HS256'' issuer) of
        Inr c \<Rightarrow> Some c
      | Inl _ \<Rightarrow> first_decoding lib tok issuer ks)"

definition decode_with_any_active_hs256_key ::
  "'k jwt_lib \<Rightarrow> datetime \<Rightarrow> string \<Rightarrow> string \<Rightarrow> keyset option \<Rightarrow> claims option" where
  "decode_with_any_active_hs256_key lib now tok issuer keyset =
     (case keyset of
        None \<Rightarrow> None
      | Some ks \<Rightarrow> first_decoding lib tok issuer (active_keys_for_alg now ''HS256'' ks))"

definition decode_access_payload ::
  "'k jwt_lib \<Rightarrow> datetime \<Rightarrow> string \<Rightarrow> string \<Rightarrow> string \<Rightarrow> keyset option \<Rightarrow> jwt_error + claims" where
  \<comment> \<open>the verified payload of an access token, before \<open>Claims(**payload)\<close>\<close>
  "decode_access_payload lib now tok secret issuer keyset =
     (case jl_get_unverified_header lib tok of
        Inl e \<Rightarrow> Inl e
      | Inr header \<Rightarrow>
          if jget ''typ'' header \<noteq> JStr ACCESS_TOKEN_TYP then Inl (JwtInvalidToken ''unexpected token typ'')
          else
            (let signing_key =
               (case (keyset, jget ''kid'' header) of
                  (Some ks, JStr kid) \<Rightarrow> if kid \<noteq> [] then keyset_find now kid ks else None
                | _ \<Rightarrow> None)
             in case signing_key of
                  Some k \<Rightarrow>
                    jl_decode lib tok
                      (if sk_algorithm k = ''RS256'' then jl_rsa_public_key lib (sk_key_material k)
                       else jl_secret_key lib (sk_key_material k))
                      (access_decode_opts (sk_algorithm k) issuer)
                | None \<Rightarrow>
                    (case decode_with_any_active_hs256_key lib now tok issuer keyset of
                       Some c \<Rightarrow> Inr c
                     | None \<Rightarrow> jl_decode lib tok (jl_secret_key lib (utf8 secret)) (access_decode_opts ''HS256'' issuer))))"


section \<open>services/auth.py\<close>

definition is_safe_redirect :: "string option \<Rightarrow> bool" where
  "is_safe_redirect url \<longleftrightarrow>
     truthy url \<and>
     (let u = py_strip (the url)
      in starts_with ''/'' u \<and> \<not> starts_with ''//'' u \<and> CHR 0x5C \<notin> set u)"

definition scope_is_subset :: "string \<Rightarrow> string \<Rightarrow> bool" where
  "scope_is_subset requested allowed \<longleftrightarrow> set (py_split requested) \<subseteq> set (py_split allowed)"

definition issue_code ::
  "env \<Rightarrow> config \<Rightarrow> client \<Rightarrow> string \<Rightarrow> string \<Rightarrow> string \<Rightarrow> string option \<Rightarrow> string option \<Rightarrow> string option
   \<Rightarrow> string option \<Rightarrow> string option \<Rightarrow> string option \<Rightarrow> string option \<Rightarrow> database
   \<Rightarrow> (database \<times> authorization_code) outcome" where
  "issue_code e cfg c user_id redirect_uri scope challenge challenge_method nonce details resource
     claims_request dpop_jkt db =
     (let code = \<lparr>code_pk = env_uuid e 0, code_code = env_urlsafe e 0,
            code_client_id = client_client_id c, code_user_id = user_id, code_redirect_uri = redirect_uri,
            code_scope = scope, code_created_at = env_now e,
            code_expires_at = env_now e + usecs (cfg_authorization_code_ttl_secs cfg), code_used = False,
            code_code_challenge = challenge, code_code_challenge_method = challenge_method,
            code_nonce = nonce, code_resource = resource, code_authorization_details = details,
            code_claims_request = claims_request, code_token_family = Some (env_uuid e 1),
            code_dpop_jkt = dpop_jkt\<rparr>
      in bind_res (save_authorization_code code db) (\<lambda>db'. Inr (db', code)))"


section \<open>services/tokens.py\<close>

definition cnf_has_jkt :: "json option \<Rightarrow> bool" where
  \<comment> \<open>\<open>bound_cnf and bound_cnf.get("jkt")\<close>\<close>
  "cnf_has_jkt cnf = (case cnf of Some (JObj ps) \<Rightarrow> jtruthy (jget ''jkt'' ps) | _ \<Rightarrow> False)"

record issue_args =
  ia_user_id :: "string option"
  ia_scope :: string
  ia_with_refresh :: bool
  ia_token_family :: "string option"
  ia_cnf :: "json option"
  ia_authorization_details :: "json option"
  ia_act :: "json option"
  ia_resource :: "string option"
  ia_audience :: "string list option"

definition issue_subject :: "client \<Rightarrow> string option \<Rightarrow> string" where
  "issue_subject c user_id = or_str user_id (client_client_id c)"

definition issue_signing_key :: "datetime \<Rightarrow> keyset option \<Rightarrow> signing_key option" where
  "issue_signing_key now keyset =
     (case keyset of
        None \<Rightarrow> None
      | Some ks \<Rightarrow> (case current_for_alg now ''RS256'' ks of
          Some k \<Rightarrow> Some k | None \<Rightarrow> current_for_alg now ''HS256'' ks))"

definition issue_access_token ::
  "'k jwt_lib \<Rightarrow> env \<Rightarrow> config \<Rightarrow> keyset option \<Rightarrow> client \<Rightarrow> issue_args \<Rightarrow> string outcome" where
  "issue_access_token lib e cfg keyset c a =
     (if cfg_access_tokens_opaque cfg then Inr (env_urlsafe e 0)
      else encode_access_token lib
             (claims_new e (issue_subject c (ia_user_id a)) (client_client_id c) (ia_scope a)
                (cfg_access_token_ttl_secs cfg) (cfg_issuer cfg) (ia_cnf a) (ia_authorization_details a)
                (ia_act a) (ia_resource a) (ia_audience a))
             (cfg_jwt_secret cfg) (issue_signing_key (env_now e) keyset))"

definition issue_row :: "env \<Rightarrow> config \<Rightarrow> client \<Rightarrow> issue_args \<Rightarrow> string \<Rightarrow> token" where
  "issue_row e cfg c a access =
     \<lparr>token_pk = env_uuid e 2, token_access_token = access,
      token_refresh_token = (if ia_with_refresh a then Some (env_urlsafe e 1) else None),
      token_token_type = ''Bearer'', token_expires_in = cfg_access_token_ttl_secs cfg,
      token_scope = ia_scope a, token_client_id = client_client_id c, token_user_id = ia_user_id a,
      token_created_at = env_now e,
      token_expires_at = env_now e + usecs (cfg_access_token_ttl_secs cfg),
      token_revoked = False, token_token_family = ia_token_family a\<rparr>"

definition issue_response :: "config \<Rightarrow> issue_args \<Rightarrow> token \<Rightarrow> token_response" where
  "issue_response cfg a row =
     (let opaque = cfg_access_tokens_opaque cfg
      in \<lparr>tr_access_token = token_access_token row, tr_refresh_token = token_refresh_token row,
          tr_token_type = (if \<not> opaque \<and> cnf_has_jkt (ia_cnf a) then ''DPoP'' else ''Bearer''),
          tr_expires_in = cfg_access_token_ttl_secs cfg, tr_scope = Some (ia_scope a), tr_id_token = None,
          tr_authorization_details = (if opaque then None else ia_authorization_details a)\<rparr>)"

definition issue ::
  "'k jwt_lib \<Rightarrow> env \<Rightarrow> config \<Rightarrow> keyset option \<Rightarrow> client \<Rightarrow> issue_args \<Rightarrow> database
   \<Rightarrow> (database \<times> token_response) outcome" where
  \<comment> \<open>\<open>TokenService.issue\<close>\<close>
  "issue lib e cfg keyset c a db =
     bind_res (issue_access_token lib e cfg keyset c a) (\<lambda>access.
       let row = issue_row e cfg c a access
       in bind_res (save_token row db) (\<lambda>db'. Inr (db', issue_response cfg a row)))"


section \<open>services/claims\_request.py\<close>

fun py_num :: "json \<Rightarrow> rat option" where
  "py_num (JBool b) = Some (if b then 1 else 0)"
| "py_num (JInt i) = Some (of_int i)"
| "py_num (JFloat r) = Some r"
| "py_num _ = None"

definition py_eq :: "json \<Rightarrow> json \<Rightarrow> bool" where
  \<comment> \<open>Python's \<open>==\<close> between a string or a number and a JSON value\<close>
  "py_eq a b \<longleftrightarrow> (case (py_num a, py_num b) of (Some x, Some y) \<Rightarrow> x = y | _ \<Rightarrow> a = b)"

record claims_selection =
  cs_requested :: "string list"
  cs_constraints :: "(json list) dict"
  cs_essential :: "string list"

definition empty_selection :: claims_selection where
  "empty_selection = \<lparr>cs_requested = [], cs_constraints = [], cs_essential = []\<rparr>"

definition selection_allows :: "claims_selection \<Rightarrow> string \<Rightarrow> json \<Rightarrow> bool" where
  "selection_allows sel name v =
     (case map_of (cs_constraints sel) name of
        None \<Rightarrow> True
      | Some allowed \<Rightarrow> list_ex (py_eq v) allowed)"

definition SUPPORTED :: "(string \<times> string option) list" where
  "SUPPORTED = [(''acr'', None), (''auth_time'', None), (''email'', Some ''email''),
     (''preferred_username'', Some ''profile'')]"

definition SUPPORTED_USERINFO :: "(string \<times> string option) list" where
  "SUPPORTED_USERINFO = [(''email'', Some ''email''), (''preferred_username'', Some ''profile'')]"

definition select_one ::
  "json dict \<Rightarrow> string set \<Rightarrow> string \<times> string option \<Rightarrow> claims_selection \<Rightarrow> claims_selection" where
  \<comment> \<open>the body of the loop over the supported claims\<close>
  "select_one members scopes p sel =
     (let (name, required) = p
      in case map_of members name of
           None \<Rightarrow> sel
         | Some spec \<Rightarrow>
             if required \<noteq> None \<and> the required \<notin> scopes then sel
             else
               (let sel1 = sel\<lparr>cs_requested := cs_requested sel @ [name]\<rparr>
                in case spec of
                     JObj ps \<Rightarrow>
                       (let sel2 = (if jget ''essential'' ps = JBool True
                                    then sel1\<lparr>cs_essential := cs_essential sel1 @ [name]\<rparr> else sel1)
                        in case map_of ps ''value'' of
                             Some v \<Rightarrow> sel2\<lparr>cs_constraints := AList.update name [v] (cs_constraints sel2)\<rparr>
                           | None \<Rightarrow>
                               (case jget ''values'' ps of
                                  JArr vs \<Rightarrow> sel2\<lparr>cs_constraints := AList.update name vs (cs_constraints sel2)\<rparr>
                                | _ \<Rightarrow> sel2))
                   | _ \<Rightarrow> sel1))"

definition select_claims ::
  "nat \<Rightarrow> string option \<Rightarrow> string \<Rightarrow> string \<Rightarrow> (string \<times> string option) list \<Rightarrow> claims_selection" where
  \<comment> \<open>\<open>_select\<close>; every parse failure gives the empty selection\<close>
  "select_claims lvl request scope member supported =
     (if \<not> truthy request then empty_selection
      else (case json_loads lvl (the request) of
          Inr (JObj doc) \<Rightarrow>
            (case jget member doc of
               JObj members \<Rightarrow> fold (select_one members (set (py_split scope))) supported empty_selection
             | _ \<Rightarrow> empty_selection)
        | _ \<Rightarrow> empty_selection))"

definition select_id_token_claims :: "nat \<Rightarrow> string option \<Rightarrow> string \<Rightarrow> claims_selection" where
  "select_id_token_claims lvl request scope = select_claims lvl request scope ''id_token'' SUPPORTED"

definition select_userinfo_claims :: "nat \<Rightarrow> string option \<Rightarrow> string \<Rightarrow> claims_selection" where
  "select_userinfo_claims lvl request scope = select_claims lvl request scope ''userinfo'' SUPPORTED_USERINFO"


section \<open>services/id\_token.py\<close>

record mint_args =
  ma_user_id :: string
  ma_user :: "user option"
  ma_scope :: string
  ma_nonce :: "string option"
  ma_access_token :: "string option"
  ma_code :: "string option"
  ma_acr :: "string option"
  ma_amr :: "string list option"
  ma_auth_time :: "int option"
  ma_selection :: "claims_selection option"

definition keep_allowed :: "claims_selection option \<Rightarrow> string \<Rightarrow> ('a \<Rightarrow> json) \<Rightarrow> 'a option \<Rightarrow> 'a option" where
  "keep_allowed sel name f v =
     (case (sel, v) of
        (Some s, Some x) \<Rightarrow> if selection_allows s name (f x) then v else None
      | _ \<Rightarrow> v)"

definition id_token_claims_for :: "env \<Rightarrow> config \<Rightarrow> client \<Rightarrow> mint_args \<Rightarrow> id_token_claims" where
  "id_token_claims_for e cfg c a =
     (let now = timestamp_int (env_now e); scopes = set (py_split (ma_scope a)); sel = ma_selection a
      in \<lparr>idt_iss = cfg_issuer cfg, idt_sub = ma_user_id a, idt_aud = client_client_id c,
          idt_exp = now + cfg_access_token_ttl_secs cfg, idt_iat = now, idt_nonce = ma_nonce a,
          idt_at_hash = map_option half_hash (ma_access_token a),
          idt_c_hash = map_option half_hash (ma_code a),
          idt_email = keep_allowed sel ''email'' JStr
            (case ma_user a of Some u \<Rightarrow> if ''email'' \<in> scopes then Some (user_email u) else None | None \<Rightarrow> None),
          idt_preferred_username = keep_allowed sel ''preferred_username'' JStr
            (case ma_user a of Some u \<Rightarrow> if ''profile'' \<in> scopes then Some (user_username u) else None | None \<Rightarrow> None),
          idt_acr = keep_allowed sel ''acr'' JStr (ma_acr a),
          idt_amr = ma_amr a,
          idt_auth_time = keep_allowed sel ''auth_time'' JInt (ma_auth_time a)\<rparr>)"

definition mint_id_token ::
  "'k jwt_lib \<Rightarrow> env \<Rightarrow> config \<Rightarrow> keyset option \<Rightarrow> client \<Rightarrow> mint_args \<Rightarrow> string outcome" where
  "mint_id_token lib e cfg keyset c a =
     encode_id_token lib (env_now e) (id_token_claims_for e cfg c a) (cfg_jwt_secret cfg) cfg keyset"


section \<open>An instance of the library\<close>

text \<open>
  For evaluating the model on concrete requests: a stand-in that writes the payload as plain
  JSON and reads it back, verifying nothing.
\<close>

definition plain_decode :: "string \<Rightarrow> jwt_error + json dict" where
  "plain_decode t = (case json_loads 100 t of Inr (JObj ps) \<Rightarrow> Inr ps | _ \<Rightarrow> Inl (JwtDecodeError ''Not enough segments''))"

definition plain_lib :: "bytes jwt_lib" where
  "plain_lib =
     \<lparr>jl_get_unverified_header = (\<lambda>t. map_sum id (\<lambda>_. []) (plain_decode t)),
      jl_decode_unverified = plain_decode, jl_decode = (\<lambda>t k opts. plain_decode t),
      jl_encode = (\<lambda>payload k alg headers. Inr (dumps_default (JObj payload))),
      jl_secret_key = id, jl_rsa_public_key = id, jl_from_jwk = (\<lambda>_ _. Inl ''not a key''), jl_is_public_key = (\<lambda>_. True)\<rparr>"

definition sample_config :: config where
  "sample_config =
     \<lparr>cfg_issuer = ''https://as.example'', cfg_jwt_secret = ''0123456789abcdef0123456789abcdef'',
      cfg_access_tokens_opaque = False, cfg_access_token_ttl_secs = 3600, cfg_refresh_token_ttl_secs = 86400,
      cfg_authorization_code_ttl_secs = 600, cfg_id_token_private_key_pem = None, cfg_id_token_kid = None,
      cfg_id_token_alg = ''HS256'', cfg_rar_types_supported = [''openid''],
      cfg_acr_values_supported = [''urn:mace:incommon:iap:bronze''], cfg_trust_proxy_headers = False,
      cfg_dynamic_registration_enabled = True, cfg_admin_client_ids = [], cfg_admin_emails = [], cfg_key_rotation_grace_hours = 24,
      cfg_events_public_ingest = False, cfg_events_ingest_bearer_token = None, cfg_social_link_by_verified_email = False,
      cfg_google_client_id = None, cfg_google_client_secret = None, cfg_google_redirect_uri = None,
      cfg_microsoft_client_id = None, cfg_microsoft_client_secret = None, cfg_microsoft_redirect_uri = None,
      cfg_microsoft_tenant_id = ''common'', cfg_github_client_id = None, cfg_github_client_secret = None, cfg_github_redirect_uri = None,
      cfg_azure_client_id = None, cfg_azure_client_secret = None, cfg_azure_redirect_uri = None, cfg_azure_tenant_id = ''common'', cfg_mtls_endpoint_base_url = None\<rparr>"

definition sample_env :: "datetime \<Rightarrow> string \<Rightarrow> env" where
  \<comment> \<open>an environment whose random draws all start with the given tag\<close>
  "sample_env now tag =
     \<lparr>env_now = now, env_mono = of_int now / 1000000, env_recursion = 30,
      env_uuid = (\<lambda>n. tag @ ''-u'' @ str_int (int n)), env_urlsafe = (\<lambda>n. tag @ ''-s'' @ str_int (int n))\<rparr>"


section \<open>Facts\<close>

text \<open>Scope strings.\<close>

lemma scope_is_subset_refl [scope_simps]: "scope_is_subset s s"
  by (simp add: scope_is_subset_def)

lemma scope_is_subset_trans [scope_simps]:
  "scope_is_subset a b \<Longrightarrow> scope_is_subset b c \<Longrightarrow> scope_is_subset a c"
  by (auto simp: scope_is_subset_def)

text \<open>What issuing a token does to the database.\<close>

lemma save_token_Inr:
  "save_token t db = Inr db' \<longleftrightarrow>
     fk_ok db (has_client db (token_client_id t) \<and> user_ref_ok db (token_user_id t)) \<and>
     \<not> list_ex (token_clash t) (db_tokens db) \<and> db' = db\<lparr>db_tokens := db_tokens db @ [t]\<rparr>"
  by (auto simp: save_token_def bind_res_Inr_iff sql_insert_def)

lemma issue_Inr:
  "issue lib e cfg keyset c a db = Inr (db', r) \<longleftrightarrow>
     (\<exists>access. issue_access_token lib e cfg keyset c a = Inr access \<and>
        save_token (issue_row e cfg c a access) db = Inr db' \<and>
        r = issue_response cfg a (issue_row e cfg c a access))"
  by (auto simp: issue_def bind_res_Inr_iff Let_def)

text \<open>
  Issuing a token stores exactly the token it returns: afterwards the returned access token
  is found, live, under the issuing client with the requested user, scope and family, it expires
  after the configured lifetime, its refresh token is the returned one, and every other row is
  as before. A failure to store it (a clash with an existing token, a dangling reference on
  PostgreSQL) returns no token.
\<close>

theorem issued_token_is_stored:
  assumes "issue lib e cfg keyset c a db = Inr (db', r)"
  shows "\<exists>t. db_tokens db' = db_tokens db @ [t] \<and> db' = db\<lparr>db_tokens := db_tokens db @ [t]\<rparr> \<and>
    get_token_by_access_token (tr_access_token r) db' = Some t \<and>
    token_client_id t = client_client_id c \<and> token_user_id t = ia_user_id a \<and> token_scope t = ia_scope a \<and>
    token_token_family t = ia_token_family a \<and> token_refresh_token t = tr_refresh_token r \<and>
    (tr_refresh_token r \<noteq> None \<longleftrightarrow> ia_with_refresh a) \<and>
    \<not> token_revoked t \<and> token_expires_at t = env_now e + usecs (cfg_access_token_ttl_secs cfg)"
proof -
  obtain access where i: "issue_access_token lib e cfg keyset c a = Inr access"
      "save_token (issue_row e cfg c a access) db = Inr db'"
      "r = issue_response cfg a (issue_row e cfg c a access)"
    using assms by (auto simp: issue_Inr)
  let ?t = "issue_row e cfg c a access"
  have no: "\<not> list_ex (token_clash ?t) (db_tokens db)" and db': "db' = db\<lparr>db_tokens := db_tokens db @ [?t]\<rparr>"
    using i(2) by (simp_all add: save_token_Inr)
  have r: "tr_access_token r = access" "tr_refresh_token r = token_refresh_token ?t"
    using i(3) by (simp_all add: issue_response_def issue_row_def Let_def)
  have "find (\<lambda>t. token_access_token t = access) (db_tokens db) = None"
    using no by (auto simp: find_None_iff list_ex_iff token_clash_def issue_row_def)
  then have "get_token_by_access_token (tr_access_token r) db' = Some ?t"
    using db' r by (simp add: get_token_by_access_token_def find_append issue_row_def)
  then show ?thesis
    using db' r by (intro exI [of _ ?t]) (simp add: issue_row_def)
qed

theorem issued_token_is_stored_witness:
  "\<exists>db' r t. issue plain_lib (sample_env 0 ''r'') sample_config None (mk_client ''1'' ''app'' ''s'' [] [] ''read'' [] 0)
       \<lparr>ia_user_id = None, ia_scope = ''read'', ia_with_refresh = True, ia_token_family = None, ia_cnf = None,
        ia_authorization_details = None, ia_act = None, ia_resource = None, ia_audience = None\<rparr> (empty_db Sqlite) =
       Inr (db', r) \<and> get_token_by_access_token (tr_access_token r) db' = Some t \<and> token_client_id t = ''app'' \<and>
     \<not> token_revoked t"
proof -
  let ?i = "issue plain_lib (sample_env 0 ''r'') sample_config None (mk_client ''1'' ''app'' ''s'' [] [] ''read'' [] 0)
       \<lparr>ia_user_id = None, ia_scope = ''read'', ia_with_refresh = True, ia_token_family = None, ia_cnf = None,
        ia_authorization_details = None, ia_act = None, ia_resource = None, ia_audience = None\<rparr> (empty_db Sqlite)"
  have "\<exists>db' r. ?i = Inr (db', r)"
    by (simp add: issue_def issue_access_token_def sample_config_def encode_access_token_def issue_signing_key_def
        plain_lib_def save_token_def fk_ok_def empty_db_def sql_insert_def Let_def)
  then obtain db' r where i: "?i = Inr (db', r)" by blast
  from issued_token_is_stored [OF i] i show ?thesis by (auto simp: mk_client_def)
qed

lemma keep_allowed_cases: "keep_allowed sel n f v = v \<or> keep_allowed sel n f v = None"
  by (auto simp: keep_allowed_def split: option.splits)

lemma opt_member_mono: "v = w \<or> v = None \<Longrightarrow> set (opt_member k f v) \<subseteq> set (opt_member k f w)"
  by (auto simp: opt_member_def)

lemma id_token_payload_mono:
  assumes "idt_iss x = idt_iss y" "idt_sub x = idt_sub y" "idt_aud x = idt_aud y" "idt_exp x = idt_exp y"
    "idt_iat x = idt_iat y" "idt_nonce x = idt_nonce y" "idt_at_hash x = idt_at_hash y" "idt_c_hash x = idt_c_hash y"
    "idt_amr x = idt_amr y"
    and "idt_email x = idt_email y \<or> idt_email x = None"
    and "idt_preferred_username x = idt_preferred_username y \<or> idt_preferred_username x = None"
    and "idt_acr x = idt_acr y \<or> idt_acr x = None"
    and "idt_auth_time x = idt_auth_time y \<or> idt_auth_time x = None"
  shows "set (id_token_payload x) \<subseteq> set (id_token_payload y)"
  unfolding id_token_payload_def set_append assms(1-9)
  by (intro Un_mono opt_member_mono assms(10-13) order_refl)

text \<open>
  A \<open>claims\<close> request only ever takes claims away: whatever string the client stored with its
  authorization request, every member of the id-token payload minted under it is a member of
  the payload minted without it.
\<close>

theorem claims_request_only_subtracts:
  "set (id_token_payload (id_token_claims_for e cfg c (a\<lparr>ma_selection := Some (select_id_token_claims lvl request scope)\<rparr>)))
     \<subseteq> set (id_token_payload (id_token_claims_for e cfg c (a\<lparr>ma_selection := None\<rparr>)))"
  by (rule id_token_payload_mono)
     (simp_all add: id_token_claims_for_def Let_def keep_allowed_cases keep_allowed_def [of None])

end
