(* ===== verification/Social_Breaker.thy ===== *)
theory Social_Breaker
  imports Prelude
begin

text \<open>
  \<open>SocialCircuitBreaker\<close> of \<open>services/social.py\<close>, one per identity provider: it opens after five
  consecutive failures, admits one probe after a cool-down of 30 seconds, and closes on a success.
  Each method runs under the breaker's lock and reads the monotonic clock, which is an argument.
\<close>

record social_breaker =
  sb_open :: bool
  sb_failures :: nat
  sb_opened_at :: "time option"
  sb_probe_in_flight :: bool

definition FAILURE_THRESHOLD :: nat where "FAILURE_THRESHOLD = 5"

definition COOLDOWN_SECS :: time where "COOLDOWN_SECS = 30"

definition sb_new :: social_breaker where
  "sb_new = \<lparr>sb_open = False, sb_failures = 0, sb_opened_at = None, sb_probe_in_flight = False\<rparr>"

definition sb_cooldown_elapsed :: "time \<Rightarrow> social_breaker \<Rightarrow> bool" where
  "sb_cooldown_elapsed now b = (case sb_opened_at b of None \<Rightarrow> False | Some t \<Rightarrow> now - t \<ge> COOLDOWN_SECS)"

definition sb_allow :: "time \<Rightarrow> social_breaker \<Rightarrow> social_breaker \<times> bool" where
  "sb_allow now b =
     (if \<not> sb_open b then (b, True)
      else if \<not> sb_cooldown_elapsed now b then (b, False)
      else if sb_probe_in_flight b then (b, False)
      else (b\<lparr>sb_probe_in_flight := True\<rparr>, True))"

definition sb_record_success :: "social_breaker \<Rightarrow> social_breaker" where
  "sb_record_success b = b\<lparr>sb_open := False, sb_opened_at := None, sb_failures := 0, sb_probe_in_flight := False\<rparr>"

definition sb_record_failure :: "time \<Rightarrow> social_breaker \<Rightarrow> social_breaker" where
  "sb_record_failure now b =
     (if sb_open b then b\<lparr>sb_opened_at := Some now, sb_probe_in_flight := False\<rparr>
      else if Suc (sb_failures b) \<ge> FAILURE_THRESHOLD
      then b\<lparr>sb_open := True, sb_opened_at := Some now, sb_failures := 0\<rparr>
      else b\<lparr>sb_failures := Suc (sb_failures b)\<rparr>)"


section \<open>The states a breaker can be in\<close>

datatype breaker_call = Allow time | Success | Failure time

fun breaker_step :: "breaker_call \<Rightarrow> social_breaker \<Rightarrow> social_breaker" where
  "breaker_step (Allow now) b = fst (sb_allow now b)"
| "breaker_step Success b = sb_record_success b"
| "breaker_step (Failure now) b = sb_record_failure now b"

definition sb_inv :: "social_breaker \<Rightarrow> bool" where
  "sb_inv b \<longleftrightarrow> sb_failures b < FAILURE_THRESHOLD \<and> (sb_open b \<longleftrightarrow> sb_opened_at b \<noteq> None) \<and>
     (sb_probe_in_flight b \<longrightarrow> sb_open b) \<and> (sb_open b \<longrightarrow> sb_failures b = 0)"

lemma sb_inv_step: "sb_inv b \<Longrightarrow> sb_inv (breaker_step c b)"
  by (cases c) (auto simp: sb_inv_def sb_allow_def sb_record_success_def sb_record_failure_def FAILURE_THRESHOLD_def)

lemma sb_inv_run: "sb_inv b \<Longrightarrow> sb_inv (fold breaker_step cs b)"
  by (induction cs arbitrary: b) (auto simp: sb_inv_step)

lemma sb_inv_new: "sb_inv sb_new"
  by (simp add: sb_inv_def sb_new_def FAILURE_THRESHOLD_def)

lemma open_refuses_before_cooldown:
  assumes "sb_open b" "sb_opened_at b = Some t" "now - t < COOLDOWN_SECS"
  shows "sb_allow now b = (b, False)"
  using assms by (simp add: sb_allow_def sb_cooldown_elapsed_def)

text \<open>
  A breaker opens exactly after five failures in a row, then refuses every call for the cool-down,
  whatever calls came before: the calls since the last success or opening are all that counts.
\<close>

theorem social_breaker_opens_after_five:
  assumes "b = fold breaker_step cs sb_new" and "\<not> sb_open b"
    and "sb_failures b = 0" and "length ts = 5" and "now - last ts < COOLDOWN_SECS"
  shows "\<not> sb_open (fold (\<lambda>t. breaker_step (Failure t)) (butlast ts) b) \<and>
    sb_open (fold (\<lambda>t. breaker_step (Failure t)) ts b) \<and>
    sb_allow now (fold (\<lambda>t. breaker_step (Failure t)) ts b) = (fold (\<lambda>t. breaker_step (Failure t)) ts b, False)"
proof -
  obtain t1 t2 t3 t4 t5 where ts: "ts = [t1, t2, t3, t4, t5]"
    using assms(4) by (auto simp: numeral_eq_Suc length_Suc_conv)
  show ?thesis
    using assms(2,3,5) by (simp add: ts sb_record_failure_def FAILURE_THRESHOLD_def sb_allow_def sb_cooldown_elapsed_def)
qed

theorem social_breaker_opens_after_five_witness:
  "sb_allow 20 (fold (\<lambda>t. breaker_step (Failure t)) [1, 2, 3, 4, 5] sb_new) = (fold (\<lambda>t. breaker_step (Failure t)) [1, 2, 3, 4, 5] sb_new, False)"
  using social_breaker_opens_after_five [of sb_new "[]" "[1, 2, 3, 4, 5]" 20] by (simp add: sb_new_def COOLDOWN_SECS_def)


section \<open>A lost probe\<close>

text \<open>
  A probe that never reports blocks its provider for good: once the breaker has opened, the first call
  after the cool-down is admitted; if that request ends without recording a success or a failure, every
  later call is refused, however much time passes. The handler records only for a \<open>ProviderError\<close> or a
  result; a cancelled request, or any other exception of the fetch, records nothing.
\<close>

theorem lost_probe_blocks_provider:
  assumes "sb_open b" and "sb_opened_at b = Some t0" and "\<not> sb_probe_in_flight b" and "now \<ge> t0 + COOLDOWN_SECS"
  shows "snd (sb_allow now b) \<and> (\<forall>ts t. snd (sb_allow t (fold breaker_step (map Allow ts) (fst (sb_allow now b)))) = False)"
proof -
  let ?p = "b\<lparr>sb_probe_in_flight := True\<rparr>"
  have adm: "sb_allow now b = (?p, True)" using assms by (simp add: sb_allow_def sb_cooldown_elapsed_def)
  have stuck: "sb_allow t ?p = (?p, False)" for t using assms(1) by (simp add: sb_allow_def)
  have "fold breaker_step (map Allow ts) ?p = ?p" for ts by (induction ts) (simp_all add: stuck)
  then show ?thesis using adm stuck by simp
qed

theorem lost_probe_blocks_provider_witness:
  "snd (sb_allow 1000000 (fst (sb_allow 40 (fold (\<lambda>t. breaker_step (Failure t)) [1, 2, 3, 4, 5] sb_new)))) = False"
proof -
  let ?b = "fold (\<lambda>t. breaker_step (Failure t)) [1, 2, 3, 4, 5] sb_new"
  have "sb_open ?b" "sb_opened_at ?b = Some 5" "\<not> sb_probe_in_flight ?b" "40 \<ge> 5 + COOLDOWN_SECS"
    by (simp_all add: sb_record_failure_def sb_new_def FAILURE_THRESHOLD_def COOLDOWN_SECS_def)
  from lost_probe_blocks_provider [OF this] have "\<forall>ts t. snd (sb_allow t (fold breaker_step (map Allow ts) (fst (sb_allow 40 ?b)))) = False" by blast
  from spec [OF spec [OF this, of "[]"], of 1000000] show ?thesis by simp
qed

end
