(* ===== verification/Event_Bus.thy ===== *)
theory Event_Bus
  imports Models Replay_Guards
begin

text \<open>
  The in-process event bus (\<open>services/events_bus.py\<close>) and the ring buffer behind the admin feed
  (\<open>services/events.py\<close>). Publishing only starts a task; the tasks run in the order in which they
  were started, each without a suspension point, so a bus is its plugins, its filter and the queue of
  envelopes whose tasks have not run. The ring buffer is shared: one plugin writes to it, and so do the
  audit trail and the ingest endpoint.

  The theorems show that the in-memory logger holds exactly the newest admitted events in the order in
  which they were published, and that an idempotency key is admitted once per time-to-live as long as the store is not full;
  the locale of the replay guards carries the second.
\<close>

section \<open>datetime.isoformat\<close>

definition civil_date :: "int \<Rightarrow> int \<times> int \<times> int" where
  \<comment> \<open>year, month and day of a day number counted from 1970-01-01, in the proleptic Gregorian calendar\<close>
  "civil_date days =
     (let z = days + 719468; era = z div 146097; doe = z mod 146097;
          yoe = (doe - doe div 1460 + doe div 36524 - doe div 146096) div 365;
          doy = doe - (365 * yoe + yoe div 4 - yoe div 100);
          mp = (5 * doy + 2) div 153; m = (if mp < 10 then mp + 3 else mp - 9)
      in (yoe + era * 400 + (if m \<le> 2 then 1 else 0), m, doy - (153 * mp + 2) div 5 + 1))"

definition pad_int :: "nat \<Rightarrow> int \<Rightarrow> string" where
  "pad_int w i = (let s = str_int i in replicate (w - length s) (CHR ''0'') @ s)"

definition isoformat :: "datetime \<Rightarrow> string" where
  \<comment> \<open>of a time in UTC; the microseconds are left out when they are zero\<close>
  "isoformat t =
     (let secs = t div 1000000; us = t mod 1000000; (y, m, d) = civil_date (secs div 86400); s = secs mod 86400
      in pad_int 4 y @ ''-'' @ pad_int 2 m @ ''-'' @ pad_int 2 d @ ''T'' @
         pad_int 2 (s div 3600) @ '':'' @ pad_int 2 (s mod 3600 div 60) @ '':'' @ pad_int 2 (s mod 60) @
         (if us = 0 then [] else ''.'' @ pad_int 6 us) @ ''+00:00'')"


section \<open>services/events.py\<close>

type_synonym recent_events = "json list"

definition RECENT_CAPACITY :: nat where "RECENT_CAPACITY = 500"

definition recent_push :: "json \<Rightarrow> recent_events \<Rightarrow> recent_events" where
  \<comment> \<open>\<open>appendleft\<close> on a deque with \<open>maxlen\<close>: newest first, the oldest falls off\<close>
  "recent_push ev store = take RECENT_CAPACITY (ev # store)"

definition recent_list :: "int \<Rightarrow> int \<Rightarrow> recent_events \<Rightarrow> json list \<times> nat" where
  "recent_list limit offset store = (take (nat limit) (drop (nat offset) store), length store)"


section \<open>Events and envelopes\<close>

record auth_event =
  ae_id :: string
  ae_event_type :: string
  ae_timestamp :: string
  ae_severity :: string
  ae_user_id :: "string option"
  ae_client_id :: "string option"
  ae_metadata :: "string dict"
  ae_error :: "string option"

record event_envelope =
  en_event :: auth_event
  en_idempotency_key :: "string option"
  en_traceparent :: "string option"
  en_tracestate :: "string option"
  en_correlation_id :: string
  en_producer :: string
  en_produced_at :: string
  en_attributes :: "string dict"

definition nullable :: "string option \<Rightarrow> json" where
  "nullable v = (case v of Some s \<Rightarrow> JStr s | None \<Rightarrow> JNull)"

definition string_object :: "string dict \<Rightarrow> json" where
  "string_object d = JObj (map (\<lambda>(k, v). (k, JStr v)) d)"

definition event_dump :: "auth_event \<Rightarrow> json" where
  \<comment> \<open>none of the event's own members is left out\<close>
  "event_dump ev = JObj
     [(''id'', JStr (ae_id ev)), (''event_type'', JStr (ae_event_type ev)), (''timestamp'', JStr (ae_timestamp ev)),
      (''severity'', JStr (ae_severity ev)), (''user_id'', nullable (ae_user_id ev)), (''client_id'', nullable (ae_client_id ev)),
      (''metadata'', string_object (ae_metadata ev)), (''error'', nullable (ae_error ev))]"

definition envelope_dump :: "event_envelope \<Rightarrow> json" where
  \<comment> \<open>\<open>_serialize\<close>: absent tracing members and empty attributes are dropped\<close>
  "envelope_dump en = JObj
     ([(''event'', event_dump (en_event en))] @
      opt_member ''idempotency_key'' JStr (en_idempotency_key en) @
      opt_member ''traceparent'' JStr (en_traceparent en) @ opt_member ''tracestate'' JStr (en_tracestate en) @
      [(''correlation_id'', JStr (en_correlation_id en)), (''producer'', JStr (en_producer en)),
       (''produced_at'', JStr (en_produced_at en))] @
      (if en_attributes en = [] then [] else [(''attributes'', string_object (en_attributes en))]))"

definition effective_idempotency_key :: "event_envelope \<Rightarrow> string" where
  "effective_idempotency_key en =
     (let key = py_strip (or_str (en_idempotency_key en) []) in if key \<noteq> [] then key else ae_id (en_event en))"


section \<open>Filter and plugins\<close>

record event_filter =
  ef_mode :: string
  ef_types :: "string list"

definition allow_all :: event_filter where "allow_all = \<lparr>ef_mode = ''allow_all'', ef_types = []\<rparr>"

definition include_only :: "string list \<Rightarrow> event_filter" where "include_only types = \<lparr>ef_mode = ''include'', ef_types = types\<rparr>"

definition exclude_events :: "string list \<Rightarrow> event_filter" where "exclude_events types = \<lparr>ef_mode = ''exclude'', ef_types = types\<rparr>"

definition should_emit :: "event_filter \<Rightarrow> string \<Rightarrow> bool" where
  "should_emit f ty =
     (if ef_mode f = ''include'' then ty \<in> set (ef_types f)
      else if ef_mode f = ''exclude'' then ty \<notin> set (ef_types f)
      else True)"

datatype event_plugin =
    InMemoryEventLogger nat "auth_event list"
  | ConsoleEventLogger "string list"
  | RecentEventsPlugin

definition plugin_name :: "event_plugin \<Rightarrow> string" where
  "plugin_name p =
     (case p of InMemoryEventLogger _ _ \<Rightarrow> ''in_memory'' | ConsoleEventLogger _ \<Rightarrow> ''console'' | RecentEventsPlugin \<Rightarrow> ''recent_events'')"

definition append_bounded :: "nat \<Rightarrow> 'a \<Rightarrow> 'a list \<Rightarrow> 'a list" where
  \<comment> \<open>\<open>append\<close> on a deque with \<open>maxlen\<close>\<close>
  "append_bounded n x xs = drop (Suc (length xs) - n) (xs @ [x])"

fun plugin_emit :: "event_envelope \<Rightarrow> event_plugin \<Rightarrow> recent_events \<Rightarrow> event_plugin \<times> recent_events" where
  "plugin_emit en (InMemoryEventLogger n evs) store = (InMemoryEventLogger n (append_bounded n (en_event en) evs), store)"
| "plugin_emit en (ConsoleEventLogger msgs) store = (ConsoleEventLogger (msgs @ [''Event: '' @ dumps_default (envelope_dump en)]), store)"
| "plugin_emit en RecentEventsPlugin store = (RecentEventsPlugin, recent_push (envelope_dump en) store)"

definition get_events :: "event_plugin \<Rightarrow> auth_event list" where
  "get_events p = (case p of InMemoryEventLogger _ evs \<Rightarrow> evs | _ \<Rightarrow> [])"

definition health_check :: "event_plugin \<Rightarrow> bool" where
  \<comment> \<open>of the three plugins of the repository\<close>
  "health_check p = True"


section \<open>The bus\<close>

record event_bus =
  eb_plugins :: "event_plugin list"
  eb_filter :: event_filter
  eb_tasks :: "event_envelope list"

definition publish_best_effort :: "event_envelope \<Rightarrow> event_bus \<Rightarrow> event_bus" where
  "publish_best_effort en bus =
     (if \<not> should_emit (eb_filter bus) (ae_event_type (en_event en)) then bus
      else bus\<lparr>eb_tasks := eb_tasks bus @ [en]\<rparr>)"

fun fan_out :: "event_envelope \<Rightarrow> event_plugin list \<Rightarrow> recent_events \<Rightarrow> event_plugin list \<times> recent_events" where
  "fan_out en [] store = ([], store)"
| "fan_out en (p # ps) store =
     (let (p', store1) = plugin_emit en p store; (ps', store2) = fan_out en ps store1 in (p' # ps', store2))"

fun run_tasks :: "event_envelope list \<Rightarrow> event_plugin list \<Rightarrow> recent_events \<Rightarrow> event_plugin list \<times> recent_events" where
  \<comment> \<open>the event loop runs the started tasks in order\<close>
  "run_tasks [] ps store = (ps, store)"
| "run_tasks (en # ens) ps store = (let (ps', store') = fan_out en ps store in run_tasks ens ps' store')"

definition bus_settle :: "event_bus \<Rightarrow> recent_events \<Rightarrow> event_bus \<times> recent_events" where
  "bus_settle bus store =
     (let (ps, store') = run_tasks (eb_tasks bus) (eb_plugins bus) store
      in (bus\<lparr>eb_plugins := ps, eb_tasks := []\<rparr>, store'))"

definition bus_health :: "event_bus \<Rightarrow> json" where
  "bus_health bus = JArr (map (\<lambda>p. JObj [(''name'', JStr (plugin_name p)), (''healthy'', JBool (health_check p))]) (eb_plugins bus))"

definition get_plugin :: "string \<Rightarrow> event_bus \<Rightarrow> event_plugin option" where
  "get_plugin name bus = find (\<lambda>p. plugin_name p = name) (eb_plugins bus)"

definition build_event_bus :: "string \<Rightarrow> string \<Rightarrow> string list \<Rightarrow> event_bus" where
  \<comment> \<open>from \<open>events_backend\<close>, \<open>events_filter_mode\<close> and \<open>events_types\<close>\<close>
  "build_event_bus events_backend events_filter_mode events_types =
     (let backend = py_lower (py_strip (if events_backend = [] then ''in_memory'' else events_backend));
          mode = py_lower (py_strip (if events_filter_mode = [] then ''allow_all'' else events_filter_mode));
          memory = InMemoryEventLogger 1000 []; console = ConsoleEventLogger []
      in \<lparr>eb_plugins =
            (if backend = ''console'' then [console] else if backend = ''both'' then [memory, console] else [memory]) @ [RecentEventsPlugin],
          eb_filter =
            (if mode = ''include'' then include_only events_types
             else if mode = ''exclude'' then exclude_events events_types else allow_all),
          eb_tasks = []\<rparr>)"


section \<open>IdempotencyStore\<close>

record idempotency_store =
  is_ttl :: time
  is_max_entries :: int
  is_entries :: "time dict"

definition idempotency_new :: idempotency_store where
  "idempotency_new = \<lparr>is_ttl = 300, is_max_entries = 100000, is_entries = []\<rparr>"

definition is_expired :: "time \<Rightarrow> time \<Rightarrow> time \<Rightarrow> bool" where
  "is_expired ttl now t \<longleftrightarrow> ttl \<le> now - t"

definition is_prune :: "time \<Rightarrow> idempotency_store \<Rightarrow> idempotency_store" where
  "is_prune now s = s\<lparr>is_entries := sweep (is_expired (is_ttl s) now) (is_entries s)\<rparr>"

definition is_duplicate_and_record :: "time \<Rightarrow> string \<Rightarrow> idempotency_store \<Rightarrow> idempotency_store \<times> bool" where
  \<comment> \<open>a full store is emptied before the key is looked up\<close>
  "is_duplicate_and_record now key s =
     (let s1 = is_prune now s;
          s2 = (if is_max_entries s1 \<le> int (length (is_entries s1)) then s1\<lparr>is_entries := []\<rparr> else s1)
      in if key \<in> dom (map_of (is_entries s2)) then (s2, True)
         else (s2\<lparr>is_entries := AList.update key now (is_entries s2)\<rparr>, False))"


section \<open>Delivery\<close>

datatype bus_op = Publish event_envelope | Settle

fun bus_op_run :: "bus_op \<Rightarrow> event_bus \<times> recent_events \<Rightarrow> event_bus \<times> recent_events" where
  \<comment> \<open>publications and runs of the event loop, in any order\<close>
  "bus_op_run (Publish en) (bus, store) = (publish_best_effort en bus, store)"
| "bus_op_run Settle (bus, store) = bus_settle bus store"

definition admitted :: "event_filter \<Rightarrow> bus_op list \<Rightarrow> event_envelope list" where
  "admitted f ops =
     filter (\<lambda>en. should_emit f (ae_event_type (en_event en))) (concat (map (\<lambda>x. case x of Publish en \<Rightarrow> [en] | Settle \<Rightarrow> []) ops))"

lemma run_tasks_append: "run_tasks (xs @ ys) ps store = (let (ps', store') = run_tasks xs ps store in run_tasks ys ps' store')"
  by (induction xs arbitrary: ps store) (auto simp: case_prod_unfold Let_def)

lemma bus_run_delivers:
  "bus_settle (fst (fold bus_op_run ops (bus, store))) (snd (fold bus_op_run ops (bus, store))) =
   (let (ps, store') = run_tasks (eb_tasks bus @ admitted (eb_filter bus) ops) (eb_plugins bus) store
    in (bus\<lparr>eb_plugins := ps, eb_tasks := []\<rparr>, store'))"
proof (induction ops arbitrary: bus store)
  case Nil
  then show ?case by (simp add: bus_settle_def admitted_def)
next
  case (Cons x ops)
  show ?case
  proof (cases x)
    case (Publish en)
    then show ?thesis using Cons.IH [of "publish_best_effort en bus" store]
      by (simp add: publish_best_effort_def admitted_def)
  next
    case Settle
    obtain ps st where r: "run_tasks (eb_tasks bus) (eb_plugins bus) store = (ps, st)" by fastforce
    show ?thesis
      using Settle r Cons.IH [of "bus\<lparr>eb_plugins := ps, eb_tasks := []\<rparr>" st]
      by (simp add: bus_settle_def admitted_def run_tasks_append case_prod_unfold Let_def)
  qed
qed

definition in_memory :: "event_plugin list \<Rightarrow> (nat \<times> auth_event list) option" where
  \<comment> \<open>the first in-memory logger\<close>
  "in_memory ps = (case find (\<lambda>p. plugin_name p = ''in_memory'') ps of Some (InMemoryEventLogger n evs) \<Rightarrow> Some (n, evs) | _ \<Rightarrow> None)"

lemma in_memory_Cons:
  "in_memory (p # ps) = (case p of InMemoryEventLogger n evs \<Rightarrow> Some (n, evs) | _ \<Rightarrow> in_memory ps)"
  by (cases p) (simp_all add: in_memory_def plugin_name_def)

lemma in_memory_fan_out:
  "in_memory (fst (fan_out en ps store)) = map_option (\<lambda>(n, evs). (n, append_bounded n (en_event en) evs)) (in_memory ps)"
proof (induction ps arbitrary: store)
  case Nil
  then show ?case by (simp add: in_memory_def)
next
  case (Cons p ps)
  then show ?case by (cases p) (simp_all add: in_memory_Cons case_prod_unfold Let_def)
qed

lemma append_bounded_drop:
  "append_bounded n x (drop (length xs - n) xs) = drop (Suc (length xs) - n) (xs @ [x])"
  by (cases "n \<le> length xs") (auto simp: append_bounded_def Suc_diff_le)

lemma in_memory_run_tasks:
  assumes "in_memory ps = Some (n, drop (length evs - n) evs)"
  shows "in_memory (fst (run_tasks ens ps store)) =
    Some (n, drop (length evs + length ens - n) (evs @ map en_event ens))"
  using assms
proof (induction ens arbitrary: ps store evs)
  case Nil
  then show ?case by simp
next
  case (Cons en ens)
  have "in_memory (fst (fan_out en ps store)) = Some (n, drop (length (evs @ [en_event en]) - n) (evs @ [en_event en]))"
    using Cons.prems by (simp add: in_memory_fan_out append_bounded_drop)
  from Cons.IH [OF this, of "snd (fan_out en ps store)"] show ?case by (simp add: case_prod_unfold Let_def)
qed

text \<open>
  C32. However publications and runs of the event loop interleave, once the bus settles the in-memory
  logger holds exactly the newest \<open>n\<close> events that passed the filter, each once, in the order in which they were
  published; an event the filter rejects leaves no trace.
\<close>

theorem memory_logger_holds_newest:
  assumes "in_memory (eb_plugins bus) = Some (n, [])" and "eb_tasks bus = []"
  shows "let final = fold bus_op_run ops (bus, store); new = map en_event (admitted (eb_filter bus) ops)
    in in_memory (eb_plugins (fst (bus_settle (fst final) (snd final)))) = Some (n, drop (length new - n) new)"
  using in_memory_run_tasks [of "eb_plugins bus" n "[]" "admitted (eb_filter bus) ops" store] assms
  by (simp add: bus_run_delivers case_prod_unfold Let_def)

definition sample_event :: "string \<Rightarrow> string \<Rightarrow> event_envelope" where
  "sample_event i ty =
     \<lparr>en_event = \<lparr>ae_id = i, ae_event_type = ty, ae_timestamp = isoformat 0, ae_severity = ''info'', ae_user_id = None,
        ae_client_id = None, ae_metadata = [], ae_error = None\<rparr>,
      en_idempotency_key = None, en_traceparent = None, en_tracestate = None, en_correlation_id = ''c'',
      en_producer = ''oauth2_server'', en_produced_at = isoformat 0, en_attributes = []\<rparr>"

theorem memory_logger_holds_newest_witness:
  "let bus = \<lparr>eb_plugins = [InMemoryEventLogger 1 [], RecentEventsPlugin], eb_filter = exclude_events [''x''], eb_tasks = []\<rparr>;
       final = fold bus_op_run [Publish (sample_event ''1'' ''a''), Settle, Publish (sample_event ''2'' ''x''), Publish (sample_event ''3'' ''b'')] (bus, [])
   in in_memory (eb_plugins (fst (bus_settle (fst final) (snd final)))) = Some (1, [en_event (sample_event ''3'' ''b'')])"
  using memory_logger_holds_newest [of "\<lparr>eb_plugins = [InMemoryEventLogger 1 [], RecentEventsPlugin], eb_filter = exclude_events [''x''], eb_tasks = []\<rparr>"
      1 "[Publish (sample_event ''1'' ''a''), Settle, Publish (sample_event ''2'' ''x''), Publish (sample_event ''3'' ''b'')]" "[]"]
  by (simp add: in_memory_def plugin_name_def admitted_def exclude_events_def should_emit_def sample_event_def Let_def)


section \<open>Idempotency\<close>

definition idem_observe :: "time \<Rightarrow> time \<Rightarrow> string \<Rightarrow> time dict \<Rightarrow> time dict \<times> bool" where
  \<comment> \<open>the store without its capacity, as a replay guard: is the key new?\<close>
  "idem_observe ttl now key entries =
     (let entries1 = sweep (is_expired ttl now) entries
      in if key \<in> dom (map_of entries1) then (entries1, False) else (AList.update key now entries1, True))"

definition idem_live :: "time \<Rightarrow> time dict \<Rightarrow> string \<Rightarrow> time \<Rightarrow> bool" where
  "idem_live ttl entries key t \<longleftrightarrow> (\<exists>t0. map_of entries key = Some t0 \<and> t < t0 + ttl)"

definition idem_accepts :: "time \<Rightarrow> string \<Rightarrow> idempotency_store \<Rightarrow> idempotency_store \<times> bool" where
  "idem_accepts now key s = (let (s', dup) = is_duplicate_and_record now key s in (s', \<not> dup))"

lemmas idem_defs = idem_observe_def idem_live_def is_expired_def Let_def

interpretation idem_guard: replay_guard "idem_observe ttl" "\<lambda>k. k" "\<lambda>_. ttl" "idem_live ttl" keys_distinct for ttl
proof (unfold_locales, goal_cases)
  case 1
  then show ?case by (auto simp: idem_defs)
next
  case 2
  then show ?case by (force simp: idem_defs sweep_simps split: if_splits option.splits)
next
  case 3
  then show ?case by (auto simp: idem_defs sweep_simps split: if_splits option.splits)
next
  case 4
  then show ?case by (auto simp: idem_defs sweep_simps split: if_splits option.splits)
qed

lemma length_idem_observe:
  assumes "keys_distinct entries"
  shows "length (fst (idem_observe ttl now key entries)) \<le> Suc (length entries)"
proof -
  let ?swept = "sweep (is_expired ttl now) entries"
  have "length ?swept \<le> length entries" using assms by (rule length_sweep)
  with length_update_le [of key now ?swept] have "length (AList.update key now ?swept) \<le> Suc (length entries)" by linarith
  with \<open>length ?swept \<le> length entries\<close> show ?thesis by (auto simp: idem_observe_def Let_def)
qed

lemma idem_accepts_refines:
  assumes "keys_distinct (is_entries s)" and "int (length (is_entries s)) < is_max_entries s"
  shows "idem_accepts now key s =
    (s\<lparr>is_entries := fst (idem_observe (is_ttl s) now key (is_entries s))\<rparr>, snd (idem_observe (is_ttl s) now key (is_entries s)))"
proof -
  have "length (sweep (is_expired (is_ttl s) now) (is_entries s)) \<le> length (is_entries s)"
    using assms(1) by (rule length_sweep)
  then have "\<not> is_max_entries s \<le> int (length (sweep (is_expired (is_ttl s) now) (is_entries s)))" using assms(2) by linarith
  then show ?thesis
    by (simp add: idem_accepts_def is_duplicate_and_record_def is_prune_def idem_observe_def Let_def)
qed

lemma idem_run_refines:
  assumes "keys_distinct (is_entries s)" and "int (length (is_entries s) + length xs) \<le> is_max_entries s"
  shows "guard_run idem_accepts s xs = guard_run (idem_observe (is_ttl s)) (is_entries s) xs"
  using assms
proof (induction xs arbitrary: s)
  case Nil
  then show ?case by simp
next
  case (Cons p xs)
  obtain t k where p: "p = (t, k)" by fastforce
  let ?o = "idem_observe (is_ttl s) t k (is_entries s)"
  have "int (length (is_entries s)) < is_max_entries s" using Cons.prems(2) by simp
  note step = idem_accepts_refines [OF Cons.prems(1) this, of t k]
  have "keys_distinct (fst ?o)" using Cons.prems(1) by (rule idem_guard.invar_observe)
  moreover have "int (length (fst ?o) + length xs) \<le> is_max_entries s"
    using length_idem_observe [OF Cons.prems(1), of "is_ttl s" t k] Cons.prems(2) by simp
  ultimately show ?case using Cons.IH [of "s\<lparr>is_entries := fst ?o\<rparr>"] step p by (simp add: case_prod_unfold Let_def)
qed

text \<open>
  An idempotency key is admitted at most once per time-to-live, whatever other keys arrive in
  between, for as many observations as the store has room for; only a full store, which is emptied at once,
  forgets a key early.
\<close>

theorem idempotency_window:
  assumes "is_entries s = []" and "int (length xs) \<le> is_max_entries s" and "nondecreasing t (map fst xs)"
    and "i < j" and "j < length xs" and "guard_run idem_accepts s xs ! i" and "guard_run idem_accepts s xs ! j"
    and "snd (xs ! i) = snd (xs ! j)"
  shows "fst (xs ! i) + is_ttl s \<le> fst (xs ! j)"
proof -
  have "guard_run idem_accepts s xs = guard_run (idem_observe (is_ttl s)) [] xs"
    using idem_run_refines [of s xs] assms(1,2) by simp
  then show ?thesis
    using idem_guard.accepted_apart [of "[]" t xs i j "is_ttl s"] assms(3-8) by simp
qed

theorem idempotency_window_witness:
  "guard_run idem_accepts idempotency_new [(0, ''k''), (299, ''k''), (300, ''k'')] = [True, False, True] \<and> (0 :: time) + is_ttl idempotency_new \<le> 300"
proof
  show run: "guard_run idem_accepts idempotency_new [(0, ''k''), (299, ''k''), (300, ''k'')] = [True, False, True]"
    by (simp add: idem_accepts_def is_duplicate_and_record_def is_prune_def is_expired_def sweep_def idempotency_new_def Let_def)
  show "(0 :: time) + is_ttl idempotency_new \<le> 300"
    using idempotency_window [of idempotency_new "[(0, ''k''), (299, ''k''), (300, ''k'')]" 0 0 2]
    unfolding run by (simp add: idempotency_new_def eval_nat_numeral)
qed

end
