(* ===== verification/App_State.thy ===== *)
theory App_State
  imports Token_Service Par_Store Replay_Guards Device_Poll Rate_Limits Token_Bucket Social_Breaker Event_Bus
begin

text \<open>
  The state the endpoints share (\<open>request.app.state\<close>): the database, the signing keys, the
  in-memory stores, the JWKS cache and the event and metric sinks; and what a handler sees of a
  request. Reading the shared JWKS cache (\<open>services/jwks_cache.py\<close>), the mTLS headers
  (\<open>services/mtls.py\<close>) and the subject denylist (\<open>middleware.py\<close>) is modelled here because every
  endpoint does it.

  The network is an argument: \<open>http_get\<close> answers a fetch during the request.
\<close>

record event =
  ev_type :: string
  ev_severity :: string
  ev_user_id :: "string option"
  ev_client_id :: "string option"
  ev_metadata :: "string dict"

record app_state =
  app_db :: database
  app_keyset :: keyset
  app_dpop_replay :: dpop_replay_store
  app_jti_guard :: jti_guard
  app_device_poll :: device_poll_tracker
  app_par :: par_store
  app_invalid_client_limiter :: "token_bucket_limiter option"
  app_login_limiter :: fixed_window_limiter
  app_social_breakers :: "social_breaker dict"
  app_jwks_cache :: "(json \<times> time) dict"
  app_events :: "event list"
  app_recent :: recent_events
  app_event_bus :: "event_bus option"
  app_event_idempotency :: idempotency_store
  app_failed_authentications :: nat
  app_token_issued_total :: nat
  app_token_revoked_total :: nat
  app_codes_issued :: nat

datatype http_reply = HttpFailure | HttpReply bool "string option" string

type_synonym http_get = "string \<Rightarrow> http_reply"

record http_request =
  rq_headers :: "(string \<times> bytes) list"
  rq_form :: "string dict"

definition latin1 :: "bytes \<Rightarrow> string" where
  "latin1 bs = map (\<lambda>b. char_of (unat b)) bs"

definition header_get :: "string \<Rightarrow> http_request \<Rightarrow> string option" where
  \<comment> \<open>Starlette's \<open>request.headers.get\<close>: names in lower case, values decoded as latin-1\<close>
  "header_get name rq = map_option latin1 (map_of (rq_headers rq) name)"

definition form_get :: "string \<Rightarrow> http_request \<Rightarrow> string option" where
  "form_get k rq = map_of (rq_form rq) k"

definition emit_event ::
  "string \<Rightarrow> string \<Rightarrow> string option \<Rightarrow> string option \<Rightarrow> string dict \<Rightarrow> app_state \<Rightarrow> app_state" where
  "emit_event ty severity user_id client_id metadata st =
     st\<lparr>app_events := app_events st @ [\<lparr>ev_type = ty, ev_severity = severity, ev_user_id = user_id,
        ev_client_id = client_id, ev_metadata = metadata\<rparr>]\<rparr>"


section \<open>services/mtls.py\<close>

definition thumbprint_header :: "http_request \<Rightarrow> string option" where
  "thumbprint_header rq =
     (case header_get ''x-client-cert-thumbprint'' rq of
        None \<Rightarrow> None
      | Some v \<Rightarrow> if py_strip v = [] then None else Some (py_strip v))"

definition subject_dn_header :: "http_request \<Rightarrow> string option" where
  "subject_dn_header rq =
     (case header_get ''x-ssl-client-s-dn'' rq of
        None \<Rightarrow> None
      | Some v \<Rightarrow> if v = [] then None else Some v)"

definition mtls_headers :: "http_request \<Rightarrow> config \<Rightarrow> string option \<times> string option" where
  "mtls_headers rq cfg =
     (if \<not> cfg_trust_proxy_headers cfg then (None, None)
      else (thumbprint_header rq, subject_dn_header rq))"


section \<open>middleware.py: the subject denylist\<close>

definition check_subject_denylisted :: "datetime \<Rightarrow> string \<Rightarrow> string \<Rightarrow> database \<Rightarrow> string option" where
  "check_subject_denylisted now kind value db =
     (if value = [] then None else map_option deny_reason (find_denylist_entry now kind value db))"


section \<open>services/jwks\_cache.py\<close>

definition DEFAULT_TTL_SECS :: int where "DEFAULT_TTL_SECS = 300"

definition MIN_TTL_SECS :: int where "MIN_TTL_SECS = 30"

definition MAX_TTL_SECS :: int where "MAX_TTL_SECS = 86400"

definition py_isdigit :: "char \<Rightarrow> bool" where
  \<comment> \<open>\<open>str.isdigit\<close> also holds for the superscript digits\<close>
  "py_isdigit c \<longleftrightarrow> is_digit c \<or> (of_char c :: nat) \<in> {178, 179, 185}"

definition py_int :: "string \<Rightarrow> int outcome" where
  \<comment> \<open>\<open>int(s)\<close> of a string of digits\<close>
  "py_int s =
     (if list_all is_digit s \<and> s \<noteq> [] \<and> length s \<le> MAX_STR_DIGITS then Inr (int (digits_val s))
      else Inl (PyError ''ValueError''))"

definition parse_cache_control_max_age :: "string option \<Rightarrow> int outcome" where
  "parse_cache_control_max_age raw =
     (let directive = (if truthy raw
            then find (starts_with ''max-age='') (map py_strip (split_on (CHR '','') (the raw))) else None)
      in bind_res
           (case directive of
              None \<Rightarrow> Inr DEFAULT_TTL_SECS
            | Some d \<Rightarrow>
                (let v = drop 8 d
                 in if v \<noteq> [] \<and> list_all py_isdigit v then py_int v else Inr DEFAULT_TTL_SECS))
           (\<lambda>secs. Inr (min (max secs MIN_TTL_SECS) MAX_TTL_SECS)))"

definition fetch_from_url :: "http_get \<Rightarrow> nat \<Rightarrow> string \<Rightarrow> (json \<times> int) outcome" where
  "fetch_from_url get lvl url =
     (case get url of
        HttpFailure \<Rightarrow> Inl (oauth_exc ''invalid_client'' ''Failed to fetch jwks_uri'')
      | HttpReply ok cache_control body \<Rightarrow>
          if \<not> ok then Inl (oauth_exc ''invalid_client'' ''Failed to fetch jwks_uri'')
          else bind_res (parse_cache_control_max_age cache_control) (\<lambda>ttl.
            case json_loads lvl body of
              Inl e \<Rightarrow>
                if e = JSONDecodeError \<or> e = JSONValueError
                then Inl (oauth_exc ''invalid_client'' ''jwks_uri returned an invalid JWKS document'')
                else Inl (json_exc e)
            | Inr (JObj ps) \<Rightarrow>
                (case jget ''keys'' ps of
                   JArr _ \<Rightarrow> Inr (JObj ps, ttl)
                 | _ \<Rightarrow> Inl (oauth_exc ''invalid_client'' ''jwks_uri returned an invalid JWKS document''))
            | Inr _ \<Rightarrow> Inl (oauth_exc ''invalid_client'' ''jwks_uri returned an invalid JWKS document'')))"

definition jwks_fetch ::
  "http_get \<Rightarrow> nat \<Rightarrow> time \<Rightarrow> string \<Rightarrow> (json \<times> time) dict \<Rightarrow> (json \<times> time) dict \<times> json outcome" where
  "jwks_fetch get lvl now url entries =
     (case map_of entries url of
        Some (doc, expiry) \<Rightarrow>
          if expiry > now then (entries, Inr doc)
          else (case fetch_from_url get lvl url of
              Inl e \<Rightarrow> (entries, Inl e)
            | Inr (d, ttl) \<Rightarrow> (AList.update url (d, now + of_int ttl) entries, Inr d))
      | None \<Rightarrow>
          (case fetch_from_url get lvl url of
             Inl e \<Rightarrow> (entries, Inl e)
           | Inr (d, ttl) \<Rightarrow> (AList.update url (d, now + of_int ttl) entries, Inr d)))"

definition resolve_client_jwks ::
  "http_get \<Rightarrow> env \<Rightarrow> client \<Rightarrow> string list \<Rightarrow> app_state \<Rightarrow> app_state \<times> json option outcome" where
  \<comment> \<open>the cache is always wired when the service is built from the application state\<close>
  "resolve_client_jwks get e c methods st =
     (if client_token_endpoint_auth_method c \<notin> set methods then (st, Inr None)
      else
        (let inline = py_strip (client_jwks c); uri = py_strip (client_jwks_uri c)
         in if inline \<noteq> [] then
              (case json_loads (env_recursion e) inline of
                 Inl x \<Rightarrow>
                   (st, Inl (if x = JSONDecodeError \<or> x = JSONValueError
                             then oauth_exc ''invalid_client'' ''Client inline JWKS is not valid JSON''
                             else json_exc x))
               | Inr v \<Rightarrow> (st, Inr (Some v)))
            else if uri \<noteq> [] then
              (let (cache, r) = jwks_fetch get (env_recursion e) (env_mono e) uri (app_jwks_cache st)
               in (st\<lparr>app_jwks_cache := cache\<rparr>, bind_res r (\<lambda>d. Inr (Some d))))
            else (st, Inl (oauth_exc ''invalid_client''
                    (''Client must register jwks or jwks_uri for '' @ client_token_endpoint_auth_method c)))))"

definition fresh_app :: "database \<Rightarrow> app_state" where
  \<comment> \<open>the state at start-up over a given database\<close>
  "fresh_app db =
     \<lparr>app_db = db, app_keyset = seed_keyset 0 ''0123456789abcdef0123456789abcdef'' None None,
      app_dpop_replay = [], app_jti_guard = jti_guard_new DEFAULT_MAX_ENTRIES, app_device_poll = [],
      app_par = [], app_invalid_client_limiter = Some (tb_new 5 60), app_login_limiter = fw_new 10 900,
      app_social_breakers = map (\<lambda>p. (p, sb_new)) [''google'', ''microsoft'', ''github'', ''azure''], app_jwks_cache = [], app_events = [],
      app_recent = [], app_event_bus = Some (build_event_bus [] [] []), app_event_idempotency = idempotency_new,
      app_failed_authentications = 0, app_token_issued_total = 0, app_token_revoked_total = 0, app_codes_issued = 0\<rparr>"

end
