(* ===== verification/Client_Auth.thy ===== *)
theory Client_Auth
  imports App_State
begin

text \<open>
  Client authentication: \<open>services/clients.py\<close> (\<open>ClientService.authenticate\<close> and its methods, the
  redirect-URI comparison) and \<open>services/client_assertion.py\<close>. The service is the one
  \<open>from_app\<close> builds, with issuer, JWKS cache and replay guard wired.

  Shown here: which credential authenticates a client is decided by its registered method
  alone; what each method requires; what an attacker can and cannot do with a replayed
  assertion; and the exact matching rule for redirect URIs.
\<close>

section \<open>services/client\_assertion.py\<close>

definition JWT_BEARER_ASSERTION_TYPE :: string where
  "JWT_BEARER_ASSERTION_TYPE = ''urn:ietf:params:oauth:client-assertion-type:jwt-bearer''"

definition alg_for_method :: "string \<Rightarrow> string option" where
  "alg_for_method method =
     map_of [(''client_secret_jwt'', ''HS256''), (''private_key_jwt'', ''RS256'')] method"

definition unverified_assertion_subject :: "'k jwt_lib \<Rightarrow> string \<Rightarrow> string option" where
  "unverified_assertion_subject lib assertion =
     (if assertion = [] then None
      else (case jl_decode_unverified lib assertion of
          Inl _ \<Rightarrow> None
        | Inr c \<Rightarrow> (case jget ''sub'' c of JStr s \<Rightarrow> if s = [] then None else Some s | _ \<Rightarrow> None)))"

definition rsa_key_from_jwks ::
  "'k jwt_lib \<Rightarrow> json option \<Rightarrow> json \<Rightarrow> string \<Rightarrow> string \<Rightarrow> 'k outcome" where
  \<comment> \<open>a missing \<open>kid\<close> is \<open>JNull\<close>\<close>
  "rsa_key_from_jwks lib jwks kid error context =
     (case jwks of
        None \<Rightarrow> Inl (oauth_exc error ''Client must register jwks or jwks_uri for private_key_jwt'')
      | Some doc \<Rightarrow>
          (case (case doc of JObj ps \<Rightarrow> jget ''keys'' ps | _ \<Rightarrow> JNull) of
             JArr keys \<Rightarrow>
               (case (if kid \<noteq> JNull
                      then find (\<lambda>k. case k of JObj ps \<Rightarrow> jget ''kid'' ps = kid | _ \<Rightarrow> False) keys
                      else find (\<lambda>k. case k of JObj ps \<Rightarrow> jget ''kty'' ps = JStr ''RSA'' | _ \<Rightarrow> False) keys) of
                  None \<Rightarrow>
                    Inl (oauth_exc error
                      ((if kid \<noteq> JNull then ''No matching kid in client JWKS'' else ''No RSA key found in client JWKS'') @ context))
                | Some m \<Rightarrow>
                    (case jl_from_jwk lib ''RSA'' m of
                       Inl _ \<Rightarrow> Inl (oauth_exc error ''Failed to construct RSA key from client JWKS'')
                     | Inr key \<Rightarrow>
                         if \<not> jl_is_public_key lib key
                         then Inl (oauth_exc error ''Client JWKS key is not an RSA public key'')
                         else Inr key))
           | _ \<Rightarrow> Inl (oauth_exc error (''Client JWKS missing '' @ quoted ''keys'' @ '' array''))))"

definition py_float :: "json \<Rightarrow> rat outcome option" where
  \<comment> \<open>\<open>float(v)\<close> of a number that is not a \<open>bool\<close>, \<open>None\<close> for anything else; a \<open>NaN\<close> never passes
      the library's own check of a NumericDate\<close>
  "py_float v =
     (case v of
        JInt i \<Rightarrow> Some (if of_int \<bar>i\<bar> \<ge> max_double then Inl (PyError ''OverflowError'') else Inr (of_int i))
      | JFloat r \<Rightarrow> Some (Inr r)
      | JInfinity pos \<Rightarrow> Some (Inr (if pos then max_double else - max_double))
      | _ \<Rightarrow> None)"

definition missing_jti :: exc where
  "missing_jti = oauth_exc ''invalid_client''
     (''client_assertion missing required jti claim (RFC 7523 '' @ [CHR 0xA7] @ ''3)'')"

definition enforce_jti_replay :: "env \<Rightarrow> string \<Rightarrow> claims \<Rightarrow> jti_guard \<Rightarrow> jti_guard \<times> unit outcome" where
  "enforce_jti_replay e client_id c g =
     (case jget ''jti'' c of
        JStr jti \<Rightarrow>
          if jti = [] then (g, Inl missing_jti)
          else
            (case py_float (jget ''exp'' c) of
               None \<Rightarrow> (g, Inl (oauth_exc ''invalid_client'' ''client_assertion missing exp claim''))
             | Some (Inl x) \<Rightarrow> (g, Inl x)
             | Some (Inr xp) \<Rightarrow>
                 (let ttl = max (xp - env_time e) 0; (g', r) = jti_observe (env_mono e) client_id jti ttl g
                  in (g', case r of
                       Inl _ \<Rightarrow> Inl (oauth_exc ''invalid_client'' ''client_assertion replay guard unavailable'')
                     | Inr fresh \<Rightarrow>
                         if fresh then Inr ()
                         else Inl (oauth_exc ''invalid_client'' ''client_assertion jti has already been used''))))
      | _ \<Rightarrow> (g, Inl missing_jti))"

definition assertion_decode_opts :: "string \<Rightarrow> string \<Rightarrow> decode_opts" where
  "assertion_decode_opts alg aud =
     \<lparr>do_algorithms = [alg], do_audience = Some [aud], do_issuer = None,
      do_require = [''exp'', ''sub'', ''iss'', ''aud''], do_verify_aud = True, do_verify_exp = True,
      do_verify_iat = True\<rparr>"

definition validate_client_assertion ::
  "'k jwt_lib \<Rightarrow> env \<Rightarrow> client \<Rightarrow> string \<Rightarrow> string \<Rightarrow> json option \<Rightarrow> jti_guard \<Rightarrow> jti_guard \<times> unit outcome" where
  "validate_client_assertion lib e c assertion token_endpoint_url jwks g =
     (let method = client_token_endpoint_auth_method c
      in case alg_for_method method of
           None \<Rightarrow> (g, Inl (oauth_exc ''invalid_client'' ''Client is not configured for JWT authentication''))
         | Some expected_alg \<Rightarrow>
             (case jl_get_unverified_header lib assertion of
                Inl _ \<Rightarrow> (g, Inl (oauth_exc ''invalid_client'' ''Malformed client_assertion JWT''))
              | Inr header \<Rightarrow>
                  if jget ''alg'' header \<noteq> JStr expected_alg
                  then (g, Inl (oauth_exc ''invalid_client'' (method @ '' requires '' @ expected_alg @ '' algorithm'')))
                  else
                    (case (if method = ''client_secret_jwt'' then Inr (jl_secret_key lib (utf8 (client_client_secret c)))
                           else rsa_key_from_jwks lib jwks (jget ''kid'' header) ''invalid_client'' []) of
                       Inl x \<Rightarrow> (g, Inl x)
                     | Inr key \<Rightarrow>
                         (case jl_decode lib assertion key (assertion_decode_opts expected_alg token_endpoint_url) of
                            Inl x \<Rightarrow> (g, Inl (oauth_exc ''invalid_client'' (method @ '' validation failed: '' @ jwt_error_text x)))
                          | Inr cs \<Rightarrow>
                              if jget ''iss'' cs \<noteq> JStr (client_client_id c) \<or> jget ''sub'' cs \<noteq> JStr (client_client_id c)
                              then (g, Inl (oauth_exc ''invalid_client'' ''JWT iss/sub must equal client_id''))
                              else enforce_jti_replay e (client_client_id c) cs g))))"


section \<open>services/clients.py: URIs\<close>

definition is_valid_redirect_uri :: "string \<Rightarrow> bool outcome" where
  "is_valid_redirect_uri uri =
     (case urlsplit uri of
        None \<Rightarrow> Inl (PyError ''ValueError'')
      | Some p \<Rightarrow>
          Inr ((sr_scheme p = ''http'' \<or> sr_scheme p = ''https'') \<and> sr_netloc p \<noteq> [] \<and>
               \<not> (sr_fragment p \<noteq> [] \<or> ends_with ''#'' uri)))"

definition LOOPBACK_IP_LITERALS :: "string list" where
  "LOOPBACK_IP_LITERALS = [''127.0.0.1'', ''::1'']"

definition redirect_uri_matches :: "string \<Rightarrow> string \<Rightarrow> bool outcome" where
  "redirect_uri_matches registered requested =
     (if requested = registered then Inr True
      else (case (urlsplit registered, urlsplit requested) of
          (Some reg, Some req) \<Rightarrow>
            if sr_scheme reg \<noteq> ''http'' \<or> sr_scheme reg \<noteq> sr_scheme req then Inr False
            else if hostname reg \<notin> Some ` set LOOPBACK_IP_LITERALS \<or> hostname reg \<noteq> hostname req then Inr False
            else bind_res (url_port reg) (\<lambda>port.
              if port \<noteq> None then Inr False else Inr (urlparse_path reg = urlparse_path req))
        | _ \<Rightarrow> Inl (PyError ''ValueError'')))"


section \<open>services/clients.py: authentication\<close>

definition secrets_equal :: "string \<Rightarrow> string \<Rightarrow> bool" where
  \<comment> \<open>\<open>compare_digest\<close> over the UTF-8 bytes\<close>
  "secrets_equal a b \<longleftrightarrow> utf8 a = utf8 b"

definition unknown_client :: exc where
  "unknown_client = oauth_exc ''invalid_client'' ''unknown or disabled client''"

definition parse_basic_auth :: "string option \<Rightarrow> (string \<times> string) option outcome" where
  \<comment> \<open>\<open>b64decode\<close> raises a plain \<open>ValueError\<close>, which is not caught, on a non-ASCII argument\<close>
  "parse_basic_auth header =
     (if \<not> truthy header \<or> \<not> starts_with ''basic '' (py_lower (the header)) then Inr None
      else
        (let encoded = py_strip (drop 6 (the header))
         in if \<not> is_ascii encoded then Inl (PyError ''ValueError'')
            else (case Option.bind (b64decode encoded) utf8_decode of
                None \<Rightarrow> Inl (oauth_exc ''invalid_client'' ''malformed Basic auth header'')
              | Some decoded \<Rightarrow>
                  (case break_at (CHR '':'') decoded of
                     (_, None) \<Rightarrow> Inl (oauth_exc ''invalid_client'' ''malformed Basic auth header'')
                   | (cid, Some secret) \<Rightarrow> Inr (Some (unquote_plus cid, unquote_plus secret))))))"

definition presented_credentials ::
  "'k jwt_lib \<Rightarrow> string dict \<Rightarrow> string option \<Rightarrow> (string \<times> string option) outcome" where
  \<comment> \<open>the \<open>client_id\<close> and the secret a request presents\<close>
  "presented_credentials lib form header =
     bind_res (parse_basic_auth header) (\<lambda>basic.
       let form_id = map_of form ''client_id''; form_secret = map_of form ''client_secret''
       in bind_res
            (case basic of
               Some (cid, secret) \<Rightarrow>
                 if truthy form_id \<and> form_id \<noteq> Some cid then Inl (OAuthError ''invalid_request'' (Some ''client_id mismatch'') 400)
                 else if truthy form_secret \<and> \<not> secrets_equal (the form_secret) secret
                   then Inl (oauth_exc ''invalid_client'' ''client_secret mismatch'')
                 else Inr (Some cid, Some secret)
             | None \<Rightarrow> Inr (form_id, form_secret))
            (\<lambda>(cid, secret).
               let cid' = (if truthy cid then cid
                           else unverified_assertion_subject lib (or_str (map_of form ''client_assertion'') []))
               in if \<not> truthy cid' then Inl (oauth_exc ''invalid_client'' ''missing client_id'')
                  else Inr (the cid', secret)))"

definition emit_client_validated :: "string \<Rightarrow> bool \<Rightarrow> app_state \<Rightarrow> app_state" where
  "emit_client_validated cid success st =
     emit_event ''client_validated'' ''info'' None (Some cid)
       [(''success'', if success then ''true'' else ''false'')] st"

definition token_endpoint_url :: "config \<Rightarrow> string" where
  "token_endpoint_url cfg = rstrip_char (CHR ''/'') (cfg_issuer cfg) @ ''/oauth/token''"

definition authenticate_jwt ::
  "'k jwt_lib \<Rightarrow> http_get \<Rightarrow> env \<Rightarrow> config \<Rightarrow> client \<Rightarrow> string dict \<Rightarrow> app_state \<Rightarrow> app_state \<times> unit outcome" where
  "authenticate_jwt lib get e cfg c form st =
     (let assertion_type = map_of form ''client_assertion_type''; assertion = map_of form ''client_assertion''
      in if \<not> truthy assertion_type then (st, Inl (oauth_exc ''invalid_client'' ''Missing client_assertion_type''))
         else if assertion_type \<noteq> Some JWT_BEARER_ASSERTION_TYPE
           then (st, Inl (oauth_exc ''invalid_client'' ''Unsupported client_assertion_type''))
         else if \<not> truthy assertion then (st, Inl (oauth_exc ''invalid_client'' ''Missing client_assertion''))
         else
           (case resolve_client_jwks get e c [''private_key_jwt''] st of
              (st1, Inl x) \<Rightarrow> (st1, Inl x)
            | (st1, Inr jwks) \<Rightarrow>
                (let (g, r) = validate_client_assertion lib e c (the assertion) (token_endpoint_url cfg) jwks (app_jti_guard st1)
                 in (st1\<lparr>app_jti_guard := g\<rparr>, r))))"

definition self_signed_match :: "string \<Rightarrow> json option \<Rightarrow> bool outcome" where
  \<comment> \<open>the loop over \<open>(jwks or {}).get("keys") or []\<close>\<close>
  "self_signed_match thumbprint jwks =
     (case (case jwks of Some v \<Rightarrow> if jtruthy v then v else JObj [] | None \<Rightarrow> JObj []) of
        JObj ps \<Rightarrow>
          (let ks = jget ''keys'' ps
           in if \<not> jtruthy ks then Inr False
              else (case ks of
                  JArr keys \<Rightarrow>
                    Inr (list_ex (\<lambda>k. case k of
                        JObj m \<Rightarrow> (case jget ''x5t#S256'' m of JStr s \<Rightarrow> secrets_equal s thumbprint | _ \<Rightarrow> False)
                      | _ \<Rightarrow> False) keys)
                | JStr _ \<Rightarrow> Inr False
                | JObj _ \<Rightarrow> Inr False
                | _ \<Rightarrow> Inl (PyError ''TypeError'')))
      | _ \<Rightarrow> Inl (PyError ''AttributeError''))"

definition authenticate_self_signed_tls ::
  "http_get \<Rightarrow> env \<Rightarrow> client \<Rightarrow> string option \<Rightarrow> app_state \<Rightarrow> app_state \<times> unit outcome" where
  "authenticate_self_signed_tls get e c thumbprint st =
     (case thumbprint of
        None \<Rightarrow> (st, Inl (oauth_exc ''invalid_client''
          ''self_signed_tls_client_auth requires a TLS client certificate (X-Client-Cert-Thumbprint header missing)''))
      | Some tp \<Rightarrow>
          (let no_match = oauth_exc ''invalid_client'' ''self_signed_tls_client_auth: certificate does not match a registered JWK''
           in if py_strip (client_jwks c) = [] \<and> py_strip (client_jwks_uri c) = [] then (st, Inl no_match)
              else
                (case resolve_client_jwks get e c [''self_signed_tls_client_auth''] st of
                   (st1, Inl x) \<Rightarrow> (st1, Inl x)
                 | (st1, Inr jwks) \<Rightarrow>
                     (st1, bind_res (self_signed_match tp jwks) (\<lambda>ok. if ok then Inr () else Inl no_match)))))"

definition authenticate_tls_client_auth :: "client \<Rightarrow> string option \<Rightarrow> string option \<Rightarrow> unit outcome" where
  "authenticate_tls_client_auth c thumbprint subject_dn =
     (if thumbprint = None then Inl (oauth_exc ''invalid_client''
          ''tls_client_auth requires a TLS client certificate (X-Client-Cert-Thumbprint header missing)'')
      else if client_tls_client_certificate_subject_dn c = [] then Inr ()
      else (case subject_dn of
          None \<Rightarrow> Inl (oauth_exc ''invalid_client''
            ''tls_client_auth requires X-SSL-Client-S-DN header when Subject DN is configured'')
        | Some dn \<Rightarrow>
            if dn \<noteq> client_tls_client_certificate_subject_dn c
            then Inl (oauth_exc ''invalid_client'' ''tls_client_auth: client certificate Subject DN does not match'')
            else Inr ()))"

definition check_credentials ::
  "'k jwt_lib \<Rightarrow> http_get \<Rightarrow> env \<Rightarrow> config \<Rightarrow> client \<Rightarrow> string dict \<Rightarrow> string option
   \<Rightarrow> string option \<times> string option \<Rightarrow> app_state \<Rightarrow> app_state \<times> client outcome" where
  \<comment> \<open>the part of \<open>authenticate\<close> after the client row is loaded: dispatch on the registered method\<close>
  "check_credentials lib get e cfg c form secret mtls st =
     (let cid = client_client_id c; method = client_token_endpoint_auth_method c
      in if is_public c then
           (if truthy secret
            then (emit_client_validated cid False st, Inl (oauth_exc ''invalid_client'' ''public client must not present a secret''))
            else (emit_client_validated cid True st, Inr c))
         else if method \<in> {''client_secret_jwt'', ''private_key_jwt''} then
           (let (st1, r) = authenticate_jwt lib get e cfg c form st in (st1, bind_res r (\<lambda>_. Inr c)))
         else if method = ''tls_client_auth'' then
           (st, bind_res (authenticate_tls_client_auth c (fst mtls) (snd mtls)) (\<lambda>_. Inr c))
         else if method = ''self_signed_tls_client_auth'' then
           (let (st1, r) = authenticate_self_signed_tls get e c (fst mtls) st in (st1, bind_res r (\<lambda>_. Inr c)))
         else if \<not> truthy secret \<or> \<not> secrets_equal (the secret) (client_client_secret c)
           then (emit_client_validated cid False st, Inl (oauth_exc ''invalid_client'' ''invalid client secret''))
         else (emit_client_validated cid True st, Inr c))"

definition authenticate ::
  "'k jwt_lib \<Rightarrow> http_get \<Rightarrow> env \<Rightarrow> config \<Rightarrow> string dict \<Rightarrow> string option
   \<Rightarrow> string option \<times> string option \<Rightarrow> app_state \<Rightarrow> app_state \<times> client outcome" where
  "authenticate lib get e cfg form header mtls st =
     (case presented_credentials lib form header of
        Inl x \<Rightarrow> (st, Inl x)
      | Inr (cid, secret) \<Rightarrow>
          (case get_client cid (app_db st) of
             None \<Rightarrow> (st, Inl unknown_client)
           | Some c \<Rightarrow>
               if \<not> client_enabled c then (st, Inl unknown_client)
               else if check_subject_denylisted (env_now e) ''client_id'' (client_client_id c) (app_db st) \<noteq> None
                 then (st, Inl unknown_client)
               else check_credentials lib get e cfg c form secret mtls st))"


section \<open>What authenticates a client\<close>

lemma secrets_equal_iff [simp]: "secrets_equal a b \<longleftrightarrow> a = b"
  by (simp add: secrets_equal_def utf8_inj)

lemma resolve_client_jwks_frame:
  "resolve_client_jwks get e c ms st = (st', r) \<Longrightarrow> \<exists>cache. st' = st\<lparr>app_jwks_cache := cache\<rparr>"
  by (auto simp: resolve_client_jwks_def Let_def case_prod_unfold split: if_splits sum.splits
      intro: exI [of _ "app_jwks_cache st"])

definition auth_frame :: "app_state \<Rightarrow> app_state \<Rightarrow> bool" where
  \<comment> \<open>all that authentication may change\<close>
  "auth_frame st st' \<longleftrightarrow>
     (\<exists>cache g evs. st' = st\<lparr>app_jwks_cache := cache, app_jti_guard := g, app_events := app_events st @ evs\<rparr>)"

lemma auth_frame_refl [simp]: "auth_frame st st"
  unfolding auth_frame_def
  by (rule exI [of _ "app_jwks_cache st"], rule exI [of _ "app_jti_guard st"], rule exI [of _ "[]"]) simp

lemma auth_frame_cache: "auth_frame st (st\<lparr>app_jwks_cache := cache\<rparr>)"
  unfolding auth_frame_def
  by (rule exI [of _ cache], rule exI [of _ "app_jti_guard st"], rule exI [of _ "[]"]) simp

lemma auth_frame_cache_guard: "auth_frame st (st\<lparr>app_jwks_cache := cache, app_jti_guard := g\<rparr>)"
  unfolding auth_frame_def
  by (rule exI [of _ cache], rule exI [of _ g], rule exI [of _ "[]"]) simp

lemma auth_frame_event: "auth_frame st (emit_client_validated cid b st)"
  unfolding auth_frame_def emit_client_validated_def emit_event_def
  by (rule exI [of _ "app_jwks_cache st"], rule exI [of _ "app_jti_guard st"]) auto

lemma authenticate_jwt_frame: "auth_frame st (fst (authenticate_jwt lib get e cfg c form st))"
proof -
  obtain st1 r where r: "resolve_client_jwks get e c [''private_key_jwt''] st = (st1, r)" by fastforce
  then obtain cache where "st1 = st\<lparr>app_jwks_cache := cache\<rparr>" using resolve_client_jwks_frame by blast
  then show ?thesis
    using r by (cases r) (simp_all add: authenticate_jwt_def Let_def case_prod_unfold auth_frame_cache auth_frame_cache_guard)
qed

lemma authenticate_self_signed_tls_frame: "auth_frame st (fst (authenticate_self_signed_tls get e c tp st))"
proof -
  obtain st1 r where r: "resolve_client_jwks get e c [''self_signed_tls_client_auth''] st = (st1, r)" by fastforce
  then obtain cache where "st1 = st\<lparr>app_jwks_cache := cache\<rparr>" using resolve_client_jwks_frame by blast
  then show ?thesis
    using r by (cases r) (simp_all add: authenticate_self_signed_tls_def Let_def auth_frame_cache split: option.split)
qed

lemma authenticate_frame: "auth_frame st (fst (authenticate lib get e cfg form header mtls st))"
  using authenticate_jwt_frame [of st lib get e cfg _ form] authenticate_self_signed_tls_frame [of st get e _ "fst mtls"]
  by (simp add: authenticate_def check_credentials_def Let_def case_prod_unfold auth_frame_event
      split: sum.split option.split)

lemma auth_frame_fields:
  assumes "auth_frame st st'"
  shows "app_db st' = app_db st" "app_keyset st' = app_keyset st" "app_dpop_replay st' = app_dpop_replay st"
    "app_device_poll st' = app_device_poll st" "app_par st' = app_par st"
    "app_invalid_client_limiter st' = app_invalid_client_limiter st"
    "app_failed_authentications st' = app_failed_authentications st"
    "app_token_issued_total st' = app_token_issued_total st"
    "app_token_revoked_total st' = app_token_revoked_total st"
  using assms by (auto simp: auth_frame_def)

lemma get_client_id: "get_client cid db = Some c \<Longrightarrow> client_client_id c = cid"
  by (auto simp: get_client_def find_Some_iff)

text \<open>Where a verification key comes from, independently of how the code looks it up.\<close>

definition served_at :: "http_get \<Rightarrow> env \<Rightarrow> app_state \<Rightarrow> string \<Rightarrow> json \<Rightarrow> bool" where
  \<comment> \<open>the document at a URL: a cached copy that is still fresh, or what the URL serves now\<close>
  "served_at get e st url doc \<longleftrightarrow>
     (\<exists>expiry. map_of (app_jwks_cache st) url = Some (doc, expiry) \<and> env_mono e < expiry) \<or>
     (\<exists>cc body. get url = HttpReply True cc body \<and> json_loads (env_recursion e) body = Inr doc)"

definition registered_jwks :: "http_get \<Rightarrow> env \<Rightarrow> app_state \<Rightarrow> client \<Rightarrow> json \<Rightarrow> bool" where
  \<comment> \<open>the key set of the client: the one in its row, or the one at its registered \<open>jwks_uri\<close>\<close>
  "registered_jwks get e st c doc \<longleftrightarrow>
     (if py_strip (client_jwks c) \<noteq> [] then json_loads (env_recursion e) (py_strip (client_jwks c)) = Inr doc
      else py_strip (client_jwks_uri c) \<noteq> [] \<and> served_at get e st (py_strip (client_jwks_uri c)) doc)"

definition jwk_in :: "json \<Rightarrow> json dict \<Rightarrow> bool" where
  "jwk_in doc jwk \<longleftrightarrow> (\<exists>ps keys. doc = JObj ps \<and> jget ''keys'' ps = JArr keys \<and> JObj jwk \<in> set keys)"

definition kid_fits :: "json dict \<Rightarrow> json dict \<Rightarrow> bool" where
  "kid_fits header jwk \<longleftrightarrow> jget ''kid'' header = JNull \<or> jget ''kid'' jwk = jget ''kid'' header"

lemma fetch_from_url_Inr:
  assumes "fetch_from_url get lvl url = Inr (doc, ttl)"
  shows "\<exists>cc body. get url = HttpReply True cc body \<and> json_loads lvl body = Inr doc"
proof -
  obtain ok cc body where reply: "get url = HttpReply ok cc body"
    using assms by (cases "get url") (auto simp: fetch_from_url_def)
  have "ok" using assms reply by (cases ok) (simp_all add: fetch_from_url_def)
  moreover obtain v where "json_loads lvl body = Inr v"
    using assms reply \<open>ok\<close> by (cases "json_loads lvl body") (auto simp: fetch_from_url_def bind_res_Inr_iff split: if_splits)
  ultimately have v: "ok" "json_loads lvl body = Inr v" by auto
  obtain ps where "v = JObj ps"
    using assms reply v by (cases v) (auto simp: fetch_from_url_def bind_res_Inr_iff)
  moreover from this have "doc = JObj ps"
    using assms reply v by (cases "jget ''keys'' ps") (auto simp: fetch_from_url_def bind_res_Inr_iff)
  ultimately show ?thesis using reply v by auto
qed

lemma jwks_fetch_served:
  "jwks_fetch get (env_recursion e) (env_mono e) url (app_jwks_cache st) = (cache, Inr doc) \<Longrightarrow> served_at get e st url doc"
  using fetch_from_url_Inr by (fastforce simp: jwks_fetch_def served_at_def split: option.splits if_splits sum.splits prod.splits)

lemma resolve_client_jwks_registered:
  assumes "snd (resolve_client_jwks get e c ms st) = Inr (Some doc)"
  shows "registered_jwks get e st c doc"
proof -
  obtain cache r where f: "jwks_fetch get (env_recursion e) (env_mono e) (py_strip (client_jwks_uri c)) (app_jwks_cache st) = (cache, r)"
    by fastforce
  show ?thesis
    using assms f jwks_fetch_served [of get e "py_strip (client_jwks_uri c)" st cache doc]
    by (auto simp: resolve_client_jwks_def registered_jwks_def Let_def bind_res_Inr_iff split: if_splits sum.splits)
qed

lemma find_sound: "find P xs = Some x \<Longrightarrow> x \<in> set xs \<and> P x"
  by (auto simp: find_Some_iff)

lemma rsa_key_in_jwks:
  assumes "rsa_key_from_jwks lib jwks (jget ''kid'' header) error ctx = Inr key"
  shows "\<exists>doc jwk. jwks = Some doc \<and> jwk_in doc jwk \<and> kid_fits header jwk \<and> jl_from_jwk lib ''RSA'' (JObj jwk) = Inr key \<and>
    jl_is_public_key lib key"
proof -
  obtain doc where doc: "jwks = Some doc" using assms by (cases jwks) (auto simp: rsa_key_from_jwks_def)
  obtain ps keys where ps: "doc = JObj ps" "jget ''keys'' ps = JArr keys"
    using assms by (auto simp: doc rsa_key_from_jwks_def split: json.splits)
  obtain m where m: "(if jget ''kid'' header \<noteq> JNull
      then find (\<lambda>k. case k of JObj ps \<Rightarrow> jget ''kid'' ps = jget ''kid'' header | _ \<Rightarrow> False) keys
      else find (\<lambda>k. case k of JObj ps \<Rightarrow> jget ''kty'' ps = JStr ''RSA'' | _ \<Rightarrow> False) keys) = Some m"
    "jl_from_jwk lib ''RSA'' m = Inr key" "jl_is_public_key lib key"
    using assms by (auto simp: doc ps rsa_key_from_jwks_def split: option.splits sum.splits if_splits)
  then obtain jwk where jwk: "m = JObj jwk" "m \<in> set keys" "kid_fits header jwk"
    by (cases m) (auto simp: kid_fits_def split: if_splits dest: find_sound)
  then show ?thesis using doc ps m by (auto simp: jwk_in_def)
qed

definition assertion_verified ::
  "'k jwt_lib \<Rightarrow> http_get \<Rightarrow> env \<Rightarrow> config \<Rightarrow> client \<Rightarrow> app_state \<Rightarrow> string \<Rightarrow> bool" where
  \<comment> \<open>the library verified the assertion, with the algorithm pinned by the registered method and the
      client's own secret or a public key of its registered key set, as one this client issued about
      itself for the token endpoint\<close>
  "assertion_verified lib get e cfg c st assertion \<longleftrightarrow>
     (\<exists>alg header key cs jti.
        alg_for_method (client_token_endpoint_auth_method c) = Some alg \<and>
        jl_get_unverified_header lib assertion = Inr header \<and> jget ''alg'' header = JStr alg \<and>
        (client_token_endpoint_auth_method c = ''client_secret_jwt'' \<longrightarrow>
           key = jl_secret_key lib (utf8 (client_client_secret c))) \<and>
        (client_token_endpoint_auth_method c = ''private_key_jwt'' \<longrightarrow>
           (\<exists>doc jwk. registered_jwks get e st c doc \<and> jwk_in doc jwk \<and> kid_fits header jwk \<and>
              jl_from_jwk lib ''RSA'' (JObj jwk) = Inr key \<and> jl_is_public_key lib key)) \<and>
        jl_decode lib assertion key (assertion_decode_opts alg (token_endpoint_url cfg)) = Inr cs \<and>
        jget ''iss'' cs = JStr (client_client_id c) \<and> jget ''sub'' cs = JStr (client_client_id c) \<and>
        jget ''jti'' cs = JStr jti \<and> jti \<noteq> [])"

definition credential_held ::
  "'k jwt_lib \<Rightarrow> http_get \<Rightarrow> env \<Rightarrow> config \<Rightarrow> client \<Rightarrow> string dict \<Rightarrow> string option
   \<Rightarrow> string option \<times> string option \<Rightarrow> app_state \<Rightarrow> bool" where
  \<comment> \<open>what the registered authentication method asks for\<close>
  "credential_held lib get e cfg c form secret mtls st \<longleftrightarrow>
     (let method = client_token_endpoint_auth_method c
      in if method = ''none'' then \<not> truthy secret
         else if method = ''client_secret_jwt'' \<or> method = ''private_key_jwt''
           then \<exists>a. map_of form ''client_assertion'' = Some a \<and> assertion_verified lib get e cfg c st a
         else if method = ''tls_client_auth''
           then fst mtls \<noteq> None \<and> (client_tls_client_certificate_subject_dn c = [] \<or>
                  snd mtls = Some (client_tls_client_certificate_subject_dn c))
         else if method = ''self_signed_tls_client_auth''
           then \<exists>tp doc jwk. fst mtls = Some tp \<and> registered_jwks get e st c doc \<and> jwk_in doc jwk \<and>
                  jget ''x5t#S256'' jwk = JStr tp
         else secret = Some (client_client_secret c) \<and> client_client_secret c \<noteq> [])"

lemma self_signed_match_True:
  assumes "self_signed_match tp jwks = Inr True"
  shows "\<exists>doc jwk. jwks = Some doc \<and> jwk_in doc jwk \<and> jget ''x5t#S256'' jwk = JStr tp"
proof -
  define d where "d = (case jwks of Some v \<Rightarrow> if jtruthy v then v else JObj [] | None \<Rightarrow> JObj [])"
  obtain ps where ps: "d = JObj ps" using assms by (cases d) (simp_all add: self_signed_match_def flip: d_def)
  obtain keys where keys: "jget ''keys'' ps = JArr keys"
    using assms by (cases "jget ''keys'' ps") (simp_all add: self_signed_match_def ps Let_def flip: d_def split: if_splits)
  have "ps \<noteq> []" using keys by (auto simp: jget_def)
  then have "jwks = Some (JObj ps)" using ps by (auto simp: d_def split: option.splits if_splits)
  moreover obtain k where k: "k \<in> set keys" "(case k of
      JObj m \<Rightarrow> (case jget ''x5t#S256'' m of JStr s \<Rightarrow> secrets_equal s tp | _ \<Rightarrow> False) | _ \<Rightarrow> False)"
    using assms by (auto simp: self_signed_match_def ps keys Let_def list_ex_iff simp flip: d_def split: if_splits)
  moreover obtain m where m: "k = JObj m" using k(2) by (cases k) simp_all
  moreover have "jget ''x5t#S256'' m = JStr tp" using k(2) m by (cases "jget ''x5t#S256'' m") simp_all
  ultimately show ?thesis using keys by (auto simp: jwk_in_def)
qed

lemma validate_client_assertion_sound:
  assumes "validate_client_assertion lib e c a (token_endpoint_url cfg) jwks g = (g', Inr ())"
    and "\<And>doc. jwks = Some doc \<Longrightarrow> registered_jwks get e st c doc"
  shows "assertion_verified lib get e cfg c st a"
proof -
  let ?m = "client_token_endpoint_auth_method c"
  obtain alg header where alg: "alg_for_method ?m = Some alg"
      and header: "jl_get_unverified_header lib a = Inr header" "jget ''alg'' header = JStr alg"
    using assms(1) by (auto simp: validate_client_assertion_def Let_def split: option.splits sum.splits if_splits)
  obtain key where key: "(if ?m = ''client_secret_jwt'' then Inr (jl_secret_key lib (utf8 (client_client_secret c)))
      else rsa_key_from_jwks lib jwks (jget ''kid'' header) ''invalid_client'' []) = Inr key"
    using assms(1) alg header by (auto simp: validate_client_assertion_def Let_def split: sum.splits if_splits)
  obtain cs where cs: "jl_decode lib a key (assertion_decode_opts alg (token_endpoint_url cfg)) = Inr cs"
      "jget ''iss'' cs = JStr (client_client_id c)" "jget ''sub'' cs = JStr (client_client_id c)"
      "enforce_jti_replay e (client_client_id c) cs g = (g', Inr ())"
    using assms(1) alg header key by (auto simp: validate_client_assertion_def Let_def split: sum.splits if_splits)
  obtain jti where "jget ''jti'' cs = JStr jti" "jti \<noteq> []"
    using cs(4) by (auto simp: enforce_jti_replay_def split: json.splits if_splits)
  moreover have "\<exists>doc jwk. registered_jwks get e st c doc \<and> jwk_in doc jwk \<and> kid_fits header jwk \<and>
      jl_from_jwk lib ''RSA'' (JObj jwk) = Inr key \<and> jl_is_public_key lib key" if "?m = ''private_key_jwt''"
    using key that rsa_key_in_jwks assms(2) by fastforce
  moreover have "?m = ''client_secret_jwt'' \<Longrightarrow> key = jl_secret_key lib (utf8 (client_client_secret c))"
    using key by simp
  ultimately show ?thesis
    unfolding assertion_verified_def using alg header cs by blast
qed

lemma authenticate_jwt_sound:
  assumes "snd (authenticate_jwt lib get e cfg c form st) = Inr ()"
  shows "\<exists>a. map_of form ''client_assertion'' = Some a \<and> assertion_verified lib get e cfg c st a"
proof -
  obtain st1 r where r: "resolve_client_jwks get e c [''private_key_jwt''] st = (st1, r)" by fastforce
  have "truthy (map_of form ''client_assertion'')"
    using assms by (auto simp: authenticate_jwt_def Let_def split: if_splits)
  then obtain a where a: "map_of form ''client_assertion'' = Some a" by (auto elim: truthyE)
  obtain jwks where j: "r = Inr jwks"
    using assms r by (cases r) (auto simp: authenticate_jwt_def Let_def split: if_splits)
  have reg: "registered_jwks get e st c doc" if "jwks = Some doc" for doc
    using resolve_client_jwks_registered [of get e c "[''private_key_jwt'']" st doc] r j that by simp
  obtain g u where v: "validate_client_assertion lib e c a (token_endpoint_url cfg) jwks (app_jti_guard st1) = (g, u)"
    by fastforce
  have "u = Inr ()"
    using assms r j v a by (simp add: authenticate_jwt_def Let_def split: if_splits)
  then show ?thesis using a validate_client_assertion_sound [OF v [unfolded \<open>u = Inr ()\<close>] reg] by blast
qed

lemma authenticate_self_signed_sound:
  assumes "snd (authenticate_self_signed_tls get e c thumbprint st) = Inr ()"
  shows "\<exists>tp doc jwk. thumbprint = Some tp \<and> registered_jwks get e st c doc \<and> jwk_in doc jwk \<and> jget ''x5t#S256'' jwk = JStr tp"
proof -
  obtain tp where tp: "thumbprint = Some tp" using assms by (cases thumbprint) (auto simp: authenticate_self_signed_tls_def)
  obtain st1 r where r: "resolve_client_jwks get e c [''self_signed_tls_client_auth''] st = (st1, r)" by fastforce
  obtain jwks where jwks: "r = Inr jwks" "self_signed_match tp jwks = Inr True"
    using assms r by (cases r) (auto simp: authenticate_self_signed_tls_def tp Let_def bind_res_Inr_iff split: if_splits)
  from self_signed_match_True [OF jwks(2)] resolve_client_jwks_registered [of get e c "[''self_signed_tls_client_auth'']" st] r jwks(1) tp
  show ?thesis by fastforce
qed

lemma check_credentials_sound:
  assumes "check_credentials lib get e cfg c form secret mtls st = (st', Inr c')"
  shows "c' = c \<and> credential_held lib get e cfg c form secret mtls st"
proof -
  let ?m = "client_token_endpoint_auth_method c"
  consider (none) "?m = ''none''" | (jwt) "?m = ''client_secret_jwt'' \<or> ?m = ''private_key_jwt''"
    | (tls) "?m = ''tls_client_auth''" | (ss) "?m = ''self_signed_tls_client_auth''"
    | (other) "?m \<noteq> ''none''" "?m \<noteq> ''client_secret_jwt''" "?m \<noteq> ''private_key_jwt''" "?m \<noteq> ''tls_client_auth''"
       "?m \<noteq> ''self_signed_tls_client_auth''" by blast
  then show ?thesis
  proof cases
    case none
    then show ?thesis using assms
      by (auto simp: check_credentials_def is_public_def credential_held_def Let_def split: if_splits)
  next
    case jwt
    then have j: "snd (authenticate_jwt lib get e cfg c form st) = Inr () \<and> c' = c"
      using assms by (auto simp: check_credentials_def is_public_def Let_def case_prod_unfold bind_res_Inr_iff)
    then show ?thesis
      using jwt authenticate_jwt_sound by (auto simp: credential_held_def Let_def)
  next
    case tls
    then show ?thesis using assms
      by (auto simp: check_credentials_def is_public_def credential_held_def authenticate_tls_client_auth_def Let_def
          bind_res_Inr_iff split: if_splits option.splits)
  next
    case ss
    then have "snd (authenticate_self_signed_tls get e c (fst mtls) st) = Inr () \<and> c' = c"
      using assms by (auto simp: check_credentials_def is_public_def Let_def case_prod_unfold bind_res_Inr_iff)
    then show ?thesis using ss authenticate_self_signed_sound by (auto simp: credential_held_def Let_def)
  next
    case other
    then show ?thesis using assms
      by (auto simp: check_credentials_def is_public_def credential_held_def Let_def split: if_splits elim!: truthyE)
  qed
qed

text \<open>
  C3. A request is authenticated as a client only if that client exists, is enabled and is not
  denylisted, and the request holds the credential its REGISTERED method asks for: no secret at
  all for a public client; for the JWT methods an assertion verified with the pinned algorithm under
  the client's own secret or under a public key of the key set the client registered, inline or at its
  \<open>jwks_uri\<close>; for the TLS methods a certificate with the registered subject or a thumbprint of the
  registered key set; and the exact secret otherwise. A client secret never stands in for an assertion or a certificate.
\<close>

theorem authenticated_client_holds_registered_credential:
  assumes "authenticate lib get e cfg form header mtls st = (st', Inr c)"
  shows "\<exists>secret. presented_credentials lib form header = Inr (client_client_id c, secret) \<and>
    get_client (client_client_id c) (app_db st) = Some c \<and> client_enabled c \<and>
    check_subject_denylisted (env_now e) ''client_id'' (client_client_id c) (app_db st) = None \<and>
    credential_held lib get e cfg c form secret mtls st"
proof -
  obtain cid secret d where p: "presented_credentials lib form header = Inr (cid, secret)"
      and d: "get_client cid (app_db st) = Some d" "client_enabled d"
        "check_subject_denylisted (env_now e) ''client_id'' (client_client_id d) (app_db st) = None"
        "check_credentials lib get e cfg d form secret mtls st = (st', Inr c)"
    using assms by (auto simp: authenticate_def split: sum.splits option.splits if_splits)
  with check_credentials_sound [OF d(4)] get_client_id [OF d(1)] show ?thesis by auto
qed

theorem authenticated_client_holds_registered_credential_witness:
  "\<exists>st' secret. authenticate plain_lib (\<lambda>_. HttpFailure) (sample_env 0 ''r'') sample_config
       [(''client_id'', ''app''), (''client_secret'', ''s3cret'')] None (None, None)
       (fresh_app ((empty_db Sqlite)\<lparr>db_clients := [mk_client ''1'' ''app'' ''s3cret'' [] [] [] [] 0]\<rparr>)) =
       (st', Inr (mk_client ''1'' ''app'' ''s3cret'' [] [] [] [] 0)) \<and>
     presented_credentials plain_lib [(''client_id'', ''app''), (''client_secret'', ''s3cret'')] None =
       Inr (''app'', secret) \<and> secret = Some ''s3cret''"
proof -
  let ?c = "mk_client ''1'' ''app'' ''s3cret'' [] [] [] [] 0"
  let ?f = "[(''client_id'', ''app''), (''client_secret'', ''s3cret'')]"
  let ?st = "fresh_app ((empty_db Sqlite)\<lparr>db_clients := [?c]\<rparr>)"
  have pc: "presented_credentials plain_lib ?f None = Inr (''app'', Some ''s3cret'')"
    by (simp add: presented_credentials_def parse_basic_auth_def)
  have "\<exists>st'. authenticate plain_lib (\<lambda>_. HttpFailure) (sample_env 0 ''r'') sample_config ?f None (None, None) ?st = (st', Inr ?c)"
    by (simp add: authenticate_def pc get_client_def fresh_app_def check_subject_denylisted_def find_denylist_entry_def
        check_credentials_def is_public_def mk_client_def empty_db_def Let_def)
  then obtain st' where "authenticate plain_lib (\<lambda>_. HttpFailure) (sample_env 0 ''r'') sample_config ?f None (None, None) ?st = (st', Inr ?c)"
    by blast
  from authenticated_client_holds_registered_credential [OF this] this pc show ?thesis by auto
qed


section \<open>Replayed assertions\<close>

text \<open>
  The replay guard keeps a client assertion's \<open>jti\<close> for at most 300 seconds, but nothing caps
  the lifetime of the assertion itself: an assertion that expires an hour later, accepted once,
  is accepted a second time as soon as 300 seconds have passed. (The jwt-bearer grant refuses
  assertions with more than 300 seconds to live for exactly this reason.)
\<close>

theorem long_lived_assertion_replayable:
  assumes "jget ''jti'' c = JStr jti" and "jti \<noteq> []" and "jget ''exp'' c = JInt xp" and "of_int \<bar>xp\<bar> < max_double"
    and "jti_entries g = []" and "1 \<le> jti_max_entries g"
    and "env_mono e2 \<ge> env_mono e1 + 300" and "of_int xp > env_time e2"
    and "enforce_jti_replay e1 cid c g = (g', r)"
  shows "r = Inr () \<and> snd (enforce_jti_replay e2 cid c g') = Inr ()"
proof -
  let ?t1 = "max (of_int xp - env_time e1) 0"
  have f: "py_float (jget ''exp'' c) = Some (Inr (of_int xp))" using assms(3,4) by (simp add: py_float_def)
  have o1: "jti_observe (env_mono e1) cid jti ?t1 g =
      (g\<lparr>jti_entries := [(jti_key cid jti, env_mono e1 + jti_clamp_ttl ?t1)]\<rparr>, Inr True)"
    using assms(5,6) by (simp add: jti_observe_def jti_sweep_expired_def sweep_def Let_def)
  have g': "g' = g\<lparr>jti_entries := [(jti_key cid jti, env_mono e1 + jti_clamp_ttl ?t1)]\<rparr>" and r: "r = Inr ()"
    using assms(1,2,9) f o1 by (auto simp: enforce_jti_replay_def Let_def)
  have "jti_clamp_ttl ?t1 \<le> 300" by (simp add: jti_clamp_ttl_def MAX_JTI_TTL_SECS_def)
  then have "jti_expired (env_mono e2) (env_mono e1 + jti_clamp_ttl ?t1)"
    using assms(7) by (simp add: jti_expired_def)
  then have "snd (jti_observe (env_mono e2) cid jti t g') = Inr True" for t
    using assms(6) by (simp add: g' jti_observe_def jti_sweep_expired_def sweep_def Let_def)
  then show ?thesis
    using assms(1,2) f r by (simp add: enforce_jti_replay_def Let_def case_prod_unfold)
qed

theorem long_lived_assertion_replayable_witness:
  "snd (enforce_jti_replay (sample_env 301000000 []) ''app'' [(''jti'', JStr ''j''), (''exp'', JInt 3600)]
     (fst (enforce_jti_replay (sample_env 0 []) ''app'' [(''jti'', JStr ''j''), (''exp'', JInt 3600)] (jti_guard_new 10)))) = Inr ()"
proof -
  let ?c = "[(''jti'', JStr ''j''), (''exp'', JInt 3600)]"
  have big: "(3600 :: rat) < max_double" by (simp add: max_double_def)
  obtain g' r where e: "enforce_jti_replay (sample_env 0 []) ''app'' ?c (jti_guard_new 10) = (g', r)" by fastforce
  have "r = Inr () \<and> snd (enforce_jti_replay (sample_env 301000000 []) ''app'' ?c g') = Inr ()"
    by (rule long_lived_assertion_replayable [where jti = "''j''" and xp = 3600, OF _ _ _ _ _ _ _ _ e])
       (simp_all add: jget_def jti_guard_new_def sample_env_def env_time_def big)
  then show ?thesis using e by simp
qed


section \<open>Redirect URIs\<close>

text \<open>
  A redirect URI that is not registered verbatim is accepted only for a registered \<open>http\<close> URI
  on a loopback literal without a port, and then only with the same scheme, loopback literal and
  path; no other host is ever admitted.
\<close>

theorem redirect_uri_matches_only_loopback:
  assumes "redirect_uri_matches registered requested = Inr True"
  shows "requested = registered \<or>
    (\<exists>reg req. urlsplit registered = Some reg \<and> urlsplit requested = Some req \<and>
       sr_scheme reg = ''http'' \<and> sr_scheme req = ''http'' \<and>
       (hostname reg = Some ''127.0.0.1'' \<or> hostname reg = Some ''::1'') \<and> hostname req = hostname reg \<and>
       url_port reg = Inr None \<and> urlparse_path req = urlparse_path reg)"
  using assms
  by (auto simp: redirect_uri_matches_def LOOPBACK_IP_LITERALS_def bind_res_Inr_iff split: if_splits option.splits)

theorem redirect_uri_matches_only_loopback_witness:
  "redirect_uri_matches ''http://127.0.0.1/cb'' ''http://127.0.0.1:51004/cb'' = Inr True \<and>
   (\<exists>req. urlsplit ''http://127.0.0.1:51004/cb'' = Some req \<and> sr_scheme req = ''http'')"
proof -
  have "redirect_uri_matches ''http://127.0.0.1/cb'' ''http://127.0.0.1:51004/cb'' = Inr True" by code_simp
  from redirect_uri_matches_only_loopback [OF this] this show ?thesis by auto
qed

text \<open>
  The loopback comparison looks at nothing but scheme, host and path: a requested URI with
  another query string, a fragment or user information is taken for the registered one, although
  the comparison is documented as exact but for the port. And a Basic header with a non-ASCII
  byte escapes client authentication as an unhandled exception instead of \<open>invalid_client\<close>.
\<close>

theorem loopback_match_ignores_query_and_basic_header_escapes:
  "redirect_uri_matches ''http://127.0.0.1/cb'' ''http://user@127.0.0.1/cb?code=forged#f'' = Inr True \<and>
   parse_basic_auth (Some (''Basic '' @ [CHR 0xE9])) = Inl (PyError ''ValueError'')"
proof
  show "redirect_uri_matches ''http://127.0.0.1/cb'' ''http://user@127.0.0.1/cb?code=forged#f'' = Inr True"
    by code_simp
  show "parse_basic_auth (Some (''Basic '' @ [CHR 0xE9])) = Inl (PyError ''ValueError'')"
    by code_simp
qed

end
