(* ===== verification/Dpop.thy ===== *)
theory Dpop
  imports App_State
begin

text \<open>
  Proof of possession: the DPoP proof validator (\<open>services/dpop.py\<close>) and the stateless nonce
  issuer (\<open>services/dpop_nonce.py\<close>). The replay store itself is in \<open>Replay_Guards\<close>; here it is
  used the way the validator uses it.

  Shown here: what an accepted proof establishes, that no proof is ever accepted twice, that a
  nonce lives for exactly its own time bucket and the next, and that nothing but the server's own
  bytes pass for a nonce.
\<close>

section \<open>Python's str()\<close>

definition repr_char :: "char \<Rightarrow> char \<Rightarrow> string" where
  \<comment> \<open>one character inside a string literal delimited by the given quote\<close>
  "repr_char q c =
     (let n = (of_char c :: nat)
      in if c = q \<or> c = CHR 0x5C then [CHR 0x5C, c]
         else if n = 10 then [CHR 0x5C, CHR ''n'']
         else if n = 13 then [CHR 0x5C, CHR ''r'']
         else if n = 9 then [CHR 0x5C, CHR ''t'']
         else if n < 32 \<or> 127 \<le> n \<and> n \<le> 160 \<or> n = 173
           then [CHR 0x5C, CHR ''x'', hex_char (n div 16), hex_char (n mod 16)]
         else [c])"

definition repr_str :: "string \<Rightarrow> string" where
  "repr_str s =
     (let q = (if CHR 0x27 \<in> set s \<and> CHR 0x22 \<notin> set s then CHR 0x22 else CHR 0x27)
      in [q] @ concat (map (repr_char q) s) @ [q])"

fun py_repr :: "json \<Rightarrow> string" where
  \<comment> \<open>\<open>repr(v)\<close>; the digits of a float are not modelled\<close>
  "py_repr JNull = ''None''"
| "py_repr (JBool b) = (if b then ''True'' else ''False'')"
| "py_repr (JInt i) = str_int i"
| "py_repr (JFloat r) = []"
| "py_repr JNaN = ''nan''"
| "py_repr (JInfinity b) = (if b then ''inf'' else ''-inf'')"
| "py_repr (JStr s) = repr_str s"
| "py_repr (JArr xs) =
     ''['' @ (case map py_repr xs of [] \<Rightarrow> [] | y # ys \<Rightarrow> y @ concat (map (\<lambda>z. '', '' @ z) ys)) @ '']''"
| "py_repr (JObj ps) =
     ''{'' @ (case map (\<lambda>(k, v). repr_str k @ '': '' @ py_repr v) ps of
               [] \<Rightarrow> [] | y # ys \<Rightarrow> y @ concat (map (\<lambda>z. '', '' @ z) ys)) @ ''}''"

definition py_str :: "json \<Rightarrow> string" where
  "py_str v = (case v of JStr s \<Rightarrow> s | _ \<Rightarrow> py_repr v)"

definition str_or_empty :: "json \<Rightarrow> string" where
  \<comment> \<open>\<open>str(v or "")\<close>\<close>
  "str_or_empty v = (if jtruthy v then py_str v else [])"


section \<open>services/dpop.py\<close>

definition DPOP_IAT_SKEW_SECS :: int where
  "DPOP_IAT_SKEW_SECS = 300"

definition DPOP_ALLOWED_ALGS :: "string list" where
  "DPOP_ALLOWED_ALGS = [''RS256'', ''RS384'', ''RS512'', ''PS256'', ''PS384'', ''PS512'', ''ES256'', ''ES384'']"

datatype dpop_failure = DpopFail dpop_error | DpopCrash exc

definition invalid_proof :: "string \<Rightarrow> dpop_failure" where
  "invalid_proof d = DpopFail (DpopError ''invalid_dpop_proof'' d)"

definition read_dpop_header :: "http_request \<Rightarrow> dpop_error + string option" where
  "read_dpop_header rq =
     (case map_of (rq_headers rq) ''dpop'' of
        None \<Rightarrow> Inr None
      | Some value \<Rightarrow>
          (case utf8_decode value of
             Some s \<Rightarrow> Inr (Some s)
           | None \<Rightarrow> Inl (DpopError ''invalid_request'' ''DPoP header is not valid UTF-8'')))"

record dpop_validated =
  dv_jkt :: string
  dv_nonce :: "string option"
  dv_ath :: "string option"

definition strip_query :: "string \<Rightarrow> string option" where
  \<comment> \<open>\<open>None\<close> when \<open>urlsplit\<close> raises\<close>
  "strip_query url =
     map_option (\<lambda>p. sr_scheme p @ ''://'' @ sr_netloc p @ rstrip_char (CHR ''/'') (sr_path p)) (urlsplit url)"

fun sort_keys :: "json \<Rightarrow> json" where
  \<comment> \<open>the key order of \<open>json.dumps(sort_keys=True)\<close>, at every level\<close>
  "sort_keys (JArr xs) = JArr (map sort_keys xs)"
| "sort_keys (JObj ps) = JObj (sort_key (\<lambda>p. key_text (fst p)) (map (\<lambda>(k, v). (k, sort_keys v)) ps))"
| "sort_keys v = v"

definition jwk_members :: "json dict \<Rightarrow> string list option" where
  \<comment> \<open>the required members of the key type besides \<open>kty\<close>\<close>
  "jwk_members jwk =
     (if jget ''kty'' jwk = JStr ''EC'' then Some [''crv'', ''x'', ''y'']
      else if jget ''kty'' jwk = JStr ''RSA'' then Some [''e'', ''n'']
      else if jget ''kty'' jwk = JStr ''OKP'' then Some [''crv'', ''x'']
      else None)"

definition jwk_canonical :: "json dict \<Rightarrow> json option" where
  "jwk_canonical jwk =
     (case jwk_members jwk of
        None \<Rightarrow> None
      | Some ms \<Rightarrow>
          if list_all (\<lambda>m. map_of jwk m \<noteq> None) ms
          then Some (sort_keys (JObj ((''kty'', jget ''kty'' jwk) # map (\<lambda>m. (m, jget m jwk)) ms)))
          else None)"

definition jwk_thumbprint :: "json dict \<Rightarrow> dpop_error + string" where
  "jwk_thumbprint jwk =
     (case jwk_canonical jwk of
        None \<Rightarrow> Inl (DpopError ''invalid_dpop_proof'' ''Unsupported JWK key type'')
      | Some v \<Rightarrow> Inr (urlsafe_b64encode_nopad (sha256 (utf8 (json_dumps '','' '':'' v)))))"

definition access_token_hash :: "string \<Rightarrow> string" where
  "access_token_hash t = urlsafe_b64encode_nopad (sha256 (utf8 t))"

definition build_verification_key :: "'k jwt_lib \<Rightarrow> string \<Rightarrow> json dict \<Rightarrow> string + 'k" where
  "build_verification_key lib alg jwk =
     (if starts_with ''RS'' alg \<or> starts_with ''PS'' alg then jl_from_jwk lib ''RSA'' (JObj jwk)
      else jl_from_jwk lib ''EC'' (JObj jwk))"

definition dpop_decode_opts :: "string \<Rightarrow> decode_opts" where
  "dpop_decode_opts alg =
     \<lparr>do_algorithms = [alg], do_audience = None, do_issuer = None,
      do_require = [''htm'', ''htu'', ''iat'', ''jti''], do_verify_aud = False, do_verify_exp = False,
      do_verify_iat = False\<rparr>"

definition dpop_signed_claims ::
  "'k jwt_lib \<Rightarrow> string \<Rightarrow> dpop_failure + string \<times> claims" where
  \<comment> \<open>the first half of \<open>validate_dpop_proof\<close>: the key thumbprint and the verified claims\<close>
  "dpop_signed_claims lib proof =
     (case jl_get_unverified_header lib proof of
        Inl (JwtDecodeError _) \<Rightarrow> Inl (invalid_proof ''DPoP proof header is malformed'')
      | Inl (JwtInvalidToken _) \<Rightarrow> Inl (DpopCrash (PyError ''InvalidTokenError''))
      | Inr header \<Rightarrow>
          if py_lower (str_or_empty (jget ''typ'' header)) \<noteq> ''dpop+jwt''
          then Inl (invalid_proof ''DPoP proof typ must be \"dpop+jwt\"'')
          else
            (case jget ''jwk'' header of
               JObj (m # ms) \<Rightarrow>
                 (case jwk_thumbprint (m # ms) of
                    Inl x \<Rightarrow> Inl (DpopFail x)
                  | Inr jkt \<Rightarrow>
                      (case jget ''alg'' header of
                         JArr _ \<Rightarrow> Inl (DpopCrash (PyError ''TypeError''))
                       | JObj _ \<Rightarrow> Inl (DpopCrash (PyError ''TypeError''))
                       | alg \<Rightarrow>
                           if alg \<notin> JStr ` set DPOP_ALLOWED_ALGS
                           then Inl (invalid_proof (''DPoP proof uses unsupported algorithm (only RS256/RS384/RS512/'' @
                                  ''PS256/PS384/PS512/ES256/ES384 allowed)''))
                           else
                             (case build_verification_key lib (jstr_of alg) (m # ms) of
                                Inl msg \<Rightarrow> Inl (invalid_proof (''DPoP proof signature invalid: '' @ msg))
                              | Inr key \<Rightarrow>
                                  (case jl_decode lib proof key (dpop_decode_opts (jstr_of alg)) of
                                     Inl x \<Rightarrow> Inl (invalid_proof (''DPoP proof signature invalid: '' @ jwt_error_text x))
                                   | Inr cs \<Rightarrow> Inr (jkt, cs)))))
             | _ \<Rightarrow> Inl (invalid_proof (''DPoP proof missing '' @ quoted ''jwk'' @ '' header claim''))))"

definition iat_in_window :: "rat \<Rightarrow> json \<Rightarrow> dpop_failure + unit" where
  \<comment> \<open>\<open>bool\<close> is an \<open>int\<close>; an integer beyond the range of a float raises; \<open>NaN\<close> and the infinities
      are outside every window\<close>
  "iat_in_window now v =
     (let window = (\<lambda>t. if - of_int DPOP_IAT_SKEW_SECS \<le> now - t \<and> now - t \<le> of_int DPOP_IAT_SKEW_SECS then Inr ()
            else Inl (invalid_proof ''DPoP proof iat is outside the acceptance window''))
      in case v of
           JInt i \<Rightarrow> if of_int \<bar>i\<bar> \<ge> max_double then Inl (DpopCrash (PyError ''OverflowError'')) else window (of_int i)
         | JBool b \<Rightarrow> window (if b then 1 else 0)
         | JFloat r \<Rightarrow> window r
         | JNaN \<Rightarrow> Inl (invalid_proof ''DPoP proof iat is outside the acceptance window'')
         | JInfinity _ \<Rightarrow> Inl (invalid_proof ''DPoP proof iat is outside the acceptance window'')
         | _ \<Rightarrow> Inl (invalid_proof ''DPoP proof iat must be a number''))"

definition check_htu :: "claims \<Rightarrow> string \<Rightarrow> dpop_failure + unit" where
  "check_htu cs url =
     (case (strip_query (str_or_empty (jget ''htu'' cs)), strip_query url) of
        (Some a, Some b) \<Rightarrow> if a = b then Inr () else Inl (invalid_proof ''DPoP proof htu does not match request URI'')
      | _ \<Rightarrow> Inl (DpopCrash (PyError ''ValueError'')))"

definition str_claim :: "string \<Rightarrow> claims \<Rightarrow> string option" where
  "str_claim k cs = (case jget k cs of JStr s \<Rightarrow> Some s | _ \<Rightarrow> None)"

definition check_ath :: "claims \<Rightarrow> string option \<Rightarrow> dpop_failure + unit" where
  "check_ath cs access_token =
     (case access_token of
        None \<Rightarrow> Inr ()
      | Some t \<Rightarrow>
          if map_option utf8 (str_claim ''ath'' cs) = Some (utf8 (access_token_hash t)) then Inr ()
          else Inl (invalid_proof ''DPoP proof ath does not match the presented access token''))"

definition check_dpop_claims ::
  "env \<Rightarrow> string \<Rightarrow> string \<Rightarrow> string option \<Rightarrow> claims \<Rightarrow> dpop_failure + string" where
  \<comment> \<open>the second half, up to the replay check: the \<open>jti\<close> to record\<close>
  "check_dpop_claims e http_method url access_token cs =
     (if py_lower (str_or_empty (jget ''htm'' cs)) \<noteq> py_lower http_method
      then Inl (invalid_proof ''DPoP proof htm does not match request method'')
      else bind_res (check_htu cs url) (\<lambda>_. bind_res (check_ath cs access_token) (\<lambda>_.
        case map_of cs ''iat'' of
          None \<Rightarrow> Inl (DpopCrash (PyError ''KeyError''))
        | Some iat \<Rightarrow> bind_res (iat_in_window (env_time e) iat) (\<lambda>_.
            if jget ''nonce'' cs \<noteq> JNull \<and> \<not> is_jstr (jget ''nonce'' cs)
            then Inl (invalid_proof ''DPoP proof nonce must be a string'')
            else (case map_of cs ''jti'' of
                None \<Rightarrow> Inl (DpopCrash (PyError ''KeyError''))
              | Some jti \<Rightarrow> Inr (py_str jti))))))"

definition validate_dpop_proof ::
  "'k jwt_lib \<Rightarrow> env \<Rightarrow> string \<Rightarrow> string \<Rightarrow> string \<Rightarrow> string option \<Rightarrow> dpop_replay_store
   \<Rightarrow> dpop_replay_store \<times> (dpop_failure + dpop_validated)" where
  "validate_dpop_proof lib e proof http_method url access_token store =
     (case dpop_signed_claims lib proof of
        Inl x \<Rightarrow> (store, Inl x)
      | Inr (jkt, cs) \<Rightarrow>
          (case check_dpop_claims e http_method url access_token cs of
             Inl x \<Rightarrow> (store, Inl x)
           | Inr jti \<Rightarrow>
               (case check_and_insert (env_mono e) jti store of
                  (store', Inl x) \<Rightarrow> (store', Inl (DpopFail x))
                | (store', Inr _) \<Rightarrow>
                    (store', Inr \<lparr>dv_jkt = jkt, dv_nonce = str_claim ''nonce'' cs, dv_ath = str_claim ''ath'' cs\<rparr>))))"


section \<open>services/dpop\_nonce.py\<close>

datatype dpop_nonce_error = NonceStale string | NonceInvalid string

record dpop_nonce_issuer =
  ni_secret :: bytes
  ni_lifetime_secs :: int

definition nonce_issuer_new :: "bytes \<Rightarrow> int \<Rightarrow> dpop_nonce_issuer" where
  "nonce_issuer_new secret lifetime = \<lparr>ni_secret = secret, ni_lifetime_secs = max 1 lifetime\<rparr>"

definition current_bucket :: "env \<Rightarrow> dpop_nonce_issuer \<Rightarrow> int" where
  "current_bucket e i = timestamp_int (env_now e) div ni_lifetime_secs i"

definition tag_for_bucket :: "dpop_nonce_issuer \<Rightarrow> bytes \<Rightarrow> bytes" where
  "tag_for_bucket i bucket_bytes = take 16 (hmac_sha256 (ni_secret i) bucket_bytes)"

definition pack_q :: "int \<Rightarrow> bytes outcome" where
  \<comment> \<open>\<open>struct.pack(">Q", n)\<close>\<close>
  "pack_q n = (if 0 \<le> n \<and> n < 2 ^ 64 then Inr (be_bytes 8 (nat n)) else Inl (PyError ''struct.error''))"

definition encode_bucket :: "dpop_nonce_issuer \<Rightarrow> int \<Rightarrow> string outcome" where
  "encode_bucket i bucket_id =
     bind_res (pack_q bucket_id) (\<lambda>b. Inr (urlsafe_b64encode_nopad (b @ tag_for_bucket i b)))"

definition issue_nonce :: "env \<Rightarrow> dpop_nonce_issuer \<Rightarrow> string outcome" where
  "issue_nonce e i = encode_bucket i (current_bucket e i)"

definition verify_nonce :: "env \<Rightarrow> dpop_nonce_issuer \<Rightarrow> string \<Rightarrow> dpop_nonce_error + unit" where
  "verify_nonce e i nonce =
     (case (if is_ascii nonce then urlsafe_b64decode (pad4 nonce) else None) of
        None \<Rightarrow> Inl (NonceInvalid ''DPoP nonce is not valid base64url'')
      | Some raw \<Rightarrow>
          if length raw \<noteq> 24 then Inl (NonceInvalid ''DPoP nonce has incorrect length'')
          else
            (let bucket_bytes = take 8 raw; tag = drop 8 raw
             in if tag \<noteq> tag_for_bucket i bucket_bytes then Inl (NonceInvalid ''DPoP nonce signature mismatch'')
                else
                  (let bucket_id = int (be_value bucket_bytes); current = current_bucket e i
                   in if bucket_id \<noteq> current \<and> bucket_id \<noteq> current - 1
                      then Inl (NonceStale ''DPoP nonce is expired or not yet valid'')
                      else Inr ())))"

definition use_dpop_nonce_response :: "env \<Rightarrow> dpop_nonce_issuer \<Rightarrow> string \<Rightarrow> http_response outcome" where
  "use_dpop_nonce_response e i description =
     bind_res (issue_nonce e i) (\<lambda>n.
       Inr \<lparr>resp_status = 400, resp_headers = [(''DPoP-Nonce'', n)],
            resp_body = JObj [(''error'', JStr ''use_dpop_nonce''), (''error_description'', JStr description)]\<rparr>)"

definition enforce_dpop_nonce ::
  "env \<Rightarrow> dpop_validated \<Rightarrow> dpop_nonce_issuer \<Rightarrow> dpop_failure + http_response option" where
  "enforce_dpop_nonce e v i =
     (let challenge = (\<lambda>d. case use_dpop_nonce_response e i d of
            Inl x \<Rightarrow> Inl (DpopCrash x) | Inr r \<Rightarrow> Inr (Some r))
      in case dv_nonce v of
           None \<Rightarrow> challenge ''DPoP proof must include a server-issued nonce''
         | Some n \<Rightarrow>
             (case verify_nonce e i n of
                Inr _ \<Rightarrow> Inr None
              | Inl (NonceStale _) \<Rightarrow> challenge ''DPoP nonce is expired; retry with a fresh nonce''
              | Inl (NonceInvalid d) \<Rightarrow> Inl (DpopFail (DpopError ''invalid_dpop_proof'' d))))"

definition decode_b64url_nopad :: "string \<Rightarrow> bytes option" where
  "decode_b64url_nopad raw =
     (if raw = [] \<or> \<not> list_all (\<lambda>c. c \<in> set b64url_chars) raw then None else urlsafe_b64decode (pad4 raw))"

definition decode_b64_std :: "string \<Rightarrow> bytes option" where
  "decode_b64_std raw = (if is_ascii raw then b64decode_strict (pad4 raw) else None)"

fun fromhex :: "string \<Rightarrow> bytes option" where
  \<comment> \<open>\<open>bytes.fromhex\<close>: ASCII white space between bytes is skipped\<close>
  "fromhex [] = Some []"
| "fromhex (c # cs) =
     (if (of_char c :: nat) = 32 \<or> 9 \<le> (of_char c :: nat) \<and> (of_char c :: nat) \<le> 13 then fromhex cs
      else (case cs of
          [] \<Rightarrow> None
        | d # r \<Rightarrow>
            (case (hex_val c, hex_val d) of
               (Some a, Some b) \<Rightarrow> map_option (\<lambda>bs. of_nat (16 * a + b) # bs) (fromhex r)
             | _ \<Rightarrow> None)))"

definition decode_hex64 :: "string \<Rightarrow> bytes option" where
  "decode_hex64 raw = (if length raw \<noteq> 64 then None else fromhex raw)"

definition decode_dpop_nonce_secret :: "bytes \<Rightarrow> string option \<Rightarrow> bytes" where
  \<comment> \<open>the first argument is the random key of the fallback\<close>
  "decode_dpop_nonce_secret fallback raw =
     (if \<not> truthy raw then fallback
      else (case find (\<lambda>c. case c of Some b \<Rightarrow> length b = 32 | None \<Rightarrow> False)
              [decode_b64url_nopad (the raw), decode_b64_std (the raw), decode_hex64 (the raw)] of
          Some (Some b) \<Rightarrow> b
        | _ \<Rightarrow> fallback))"


section \<open>Accepted proofs\<close>

lemma check_and_insert_cases:
  "check_and_insert now jti s = (s', r) \<Longrightarrow>
     s' = fst (dpop_observe now jti s) \<and> (r = Inr () \<longleftrightarrow> snd (dpop_observe now jti s))"
  by (auto simp: dpop_observe_def)

definition proof_checked ::
  "'k jwt_lib \<Rightarrow> env \<Rightarrow> string \<Rightarrow> string \<Rightarrow> string \<Rightarrow> string option \<Rightarrow> string \<Rightarrow> claims \<Rightarrow> bool" where
  \<comment> \<open>the library verified the proof under the key the proof carries, whose thumbprint is \<open>jkt\<close>, and its
      claims are about this request, this access token and this moment\<close>
  "proof_checked lib e proof http_method url access_token jkt cs \<longleftrightarrow>
     (\<exists>header jwk alg key. jl_get_unverified_header lib proof = Inr header \<and>
        py_lower (str_or_empty (jget ''typ'' header)) = ''dpop+jwt'' \<and>
        jget ''jwk'' header = JObj jwk \<and> jwk_thumbprint jwk = Inr jkt \<and>
        jget ''alg'' header = JStr alg \<and> alg \<in> set DPOP_ALLOWED_ALGS \<and>
        build_verification_key lib alg jwk = Inr key \<and>
        jl_decode lib proof key (dpop_decode_opts alg) = Inr cs) \<and>
     py_lower (str_or_empty (jget ''htm'' cs)) = py_lower http_method \<and>
     strip_query (str_or_empty (jget ''htu'' cs)) = strip_query url \<and> strip_query url \<noteq> None \<and>
     (\<forall>t. access_token = Some t \<longrightarrow> jget ''ath'' cs = JStr (access_token_hash t)) \<and>
     (\<exists>iat. py_num (jget ''iat'' cs) = Some iat \<and> \<bar>env_time e - iat\<bar> \<le> 300)"

lemma dpop_signed_claims_Inr:
  assumes "dpop_signed_claims lib proof = Inr (jkt, cs)"
  shows "\<exists>header jwk alg key. jl_get_unverified_header lib proof = Inr header \<and>
        py_lower (str_or_empty (jget ''typ'' header)) = ''dpop+jwt'' \<and>
        jget ''jwk'' header = JObj jwk \<and> jwk_thumbprint jwk = Inr jkt \<and>
        jget ''alg'' header = JStr alg \<and> alg \<in> set DPOP_ALLOWED_ALGS \<and>
        build_verification_key lib alg jwk = Inr key \<and>
        jl_decode lib proof key (dpop_decode_opts alg) = Inr cs"
proof -
  obtain header where h: "jl_get_unverified_header lib proof = Inr header"
      "py_lower (str_or_empty (jget ''typ'' header)) = ''dpop+jwt''"
    using assms by (auto simp: dpop_signed_claims_def split: sum.splits jwt_error.splits if_splits)
  obtain m ms where j: "jget ''jwk'' header = JObj (m # ms)"
    using assms h by (auto simp: dpop_signed_claims_def split: json.splits list.splits)
  obtain k where k: "jwk_thumbprint (m # ms) = Inr k"
    using assms h j by (cases "jwk_thumbprint (m # ms)") (auto simp: dpop_signed_claims_def)
  obtain alg where a: "jget ''alg'' header = JStr alg" "alg \<in> set DPOP_ALLOWED_ALGS"
    using assms h j k by (auto simp: dpop_signed_claims_def split: json.splits if_splits)
  have "build_verification_key lib alg (m # ms) = Inr key \<Longrightarrow> ?thesis" for key
    using assms h j k a by (auto simp: dpop_signed_claims_def split: sum.splits)
  moreover obtain key where "build_verification_key lib alg (m # ms) = Inr key"
    using assms h j k a by (cases "build_verification_key lib alg (m # ms)") (auto simp: dpop_signed_claims_def)
  ultimately show ?thesis by blast
qed

lemma iat_in_window_Inr:
  "iat_in_window now v = Inr () \<Longrightarrow> \<exists>iat. py_num v = Some iat \<and> \<bar>now - iat\<bar> \<le> 300"
  by (cases v) (auto simp: iat_in_window_def DPOP_IAT_SKEW_SECS_def abs_le_iff split: if_splits)

lemma check_ath_Inr: "check_ath cs tok = Inr () \<Longrightarrow> tok = Some t \<Longrightarrow> jget ''ath'' cs = JStr (access_token_hash t)"
  by (auto simp: check_ath_def str_claim_def utf8_inj split: if_splits json.splits)

lemma check_dpop_claims_Inr:
  assumes "check_dpop_claims e m url tok cs = Inr jti"
  shows "py_lower (str_or_empty (jget ''htm'' cs)) = py_lower m"
    "strip_query (str_or_empty (jget ''htu'' cs)) = strip_query url" "strip_query url \<noteq> None"
    "check_ath cs tok = Inr ()" "\<exists>iat. py_num (jget ''iat'' cs) = Some iat \<and> \<bar>env_time e - iat\<bar> \<le> 300"
    "\<exists>v. map_of cs ''jti'' = Some v \<and> jti = py_str v"
  using assms
  by (auto simp: check_dpop_claims_def check_htu_def bind_res_Inr_iff jget_def dest!: iat_in_window_Inr
      split: if_splits option.splits)

lemma validate_dpop_proof_Inr:
  assumes "validate_dpop_proof lib e proof m url tok s = (s', Inr v)"
  shows "\<exists>cs jti. dpop_signed_claims lib proof = Inr (dv_jkt v, cs) \<and>
     check_dpop_claims e m url tok cs = Inr (py_str jti) \<and> map_of cs ''jti'' = Some jti \<and>
     s' = fst (dpop_observe (env_mono e) (py_str jti) s) \<and> snd (dpop_observe (env_mono e) (py_str jti) s)"
proof -
  obtain jkt cs where c: "dpop_signed_claims lib proof = Inr (jkt, cs)"
    using assms by (auto simp: validate_dpop_proof_def split: sum.splits)
  obtain j where j: "check_dpop_claims e m url tok cs = Inr j"
    using assms c by (auto simp: validate_dpop_proof_def split: sum.splits)
  obtain s1 r where i: "check_and_insert (env_mono e) j s = (s1, r)" by fastforce
  have "r = Inr ()" "s' = s1" "dv_jkt v = jkt"
    using assms c j i by (auto simp: validate_dpop_proof_def split: sum.splits)
  then show ?thesis
    using c j i check_dpop_claims_Inr(6) [OF j] check_and_insert_cases [OF i] by auto
qed

lemma validate_dpop_proof_store:
  "fst (validate_dpop_proof lib e proof m url tok s) = s \<or>
   (\<exists>jti. fst (validate_dpop_proof lib e proof m url tok s) = fst (dpop_observe (env_mono e) jti s))"
  by (auto simp: validate_dpop_proof_def dpop_observe_def case_prod_unfold split: sum.split prod.split)
     (metis fst_conv)+


section \<open>A proof is accepted at most once\<close>

record 'k dpop_call =
  dc_lib :: "'k jwt_lib"
  dc_env :: env
  dc_proof :: string
  dc_method :: string
  dc_url :: string
  dc_access_token :: "string option"

definition dpop_call :: "'k dpop_call \<Rightarrow> dpop_replay_store \<Rightarrow> dpop_replay_store \<times> (dpop_failure + dpop_validated)" where
  "dpop_call c s =
     validate_dpop_proof (dc_lib c) (dc_env c) (dc_proof c) (dc_method c) (dc_url c) (dc_access_token c) s"

fun dpop_run :: "'k dpop_call list \<Rightarrow> dpop_replay_store \<Rightarrow> dpop_replay_store" where
  "dpop_run [] s = s"
| "dpop_run (c # cs) s = dpop_run cs (fst (dpop_call c s))"

lemma dpop_call_store:
  "fst (dpop_call c s) = s \<or> (\<exists>jti. fst (dpop_call c s) = fst (dpop_observe (env_mono (dc_env c)) jti s))"
  unfolding dpop_call_def by (rule validate_dpop_proof_store)

lemma dpop_call_invar: "keys_distinct s \<Longrightarrow> keys_distinct (fst (dpop_call c s))"
  using dpop_call_store [of c s] dpop_guard.invar_observe by metis

lemma dpop_run_invar: "keys_distinct s \<Longrightarrow> keys_distinct (dpop_run cs s)"
  by (induction cs arbitrary: s) (auto simp: dpop_call_invar)

lemma dpop_run_live:
  "keys_distinct s \<Longrightarrow> dpop_live s k t \<Longrightarrow> list_all (\<lambda>c. env_mono (dc_env c) \<le> t) cs \<Longrightarrow>
     dpop_live (dpop_run cs s) k t"
proof (induction cs arbitrary: s)
  case (Cons c cs)
  have "dpop_live (fst (dpop_call c s)) k t"
    using dpop_call_store [of c s]
  proof (elim disjE exE)
    fix jti
    assume "fst (dpop_call c s) = fst (dpop_observe (env_mono (dc_env c)) jti s)"
    then show ?thesis using Cons.prems dpop_guard.keeps_live by simp
  qed (use Cons.prems in simp)
  then show ?case using Cons.IH Cons.prems dpop_call_invar [of s c] by simp
qed simp

text \<open>
  What an accepted proof establishes: the JWT library verified the proof's signature under the
  key embedded in it, with an allowed asymmetric algorithm; the returned thumbprint is that key's
  RFC 7638 thumbprint; the claims name the request's method and URI; when the proof accompanies an
  access token its \<open>ath\<close> is that token's hash; and \<open>iat\<close> is a number within 300 seconds of now.
\<close>

theorem accepted_proof_is_bound:
  assumes "validate_dpop_proof lib e proof http_method url access_token s = (s', Inr v)"
  shows "\<exists>cs. proof_checked lib e proof http_method url access_token (dv_jkt v) cs"
proof -
  obtain cs jti where c: "dpop_signed_claims lib proof = Inr (dv_jkt v, cs)"
      and k: "check_dpop_claims e http_method url access_token cs = Inr (py_str jti)"
    using validate_dpop_proof_Inr [OF assms] by blast
  have "proof_checked lib e proof http_method url access_token (dv_jkt v) cs"
    unfolding proof_checked_def
    using dpop_signed_claims_Inr [OF c] check_dpop_claims_Inr [OF k] check_ath_Inr by blast
  then show ?thesis by blast
qed

definition dpop_lib :: "json dict \<Rightarrow> json dict \<Rightarrow> unit jwt_lib" where
  \<comment> \<open>a library that sees one given proof, for evaluation\<close>
  "dpop_lib header payload =
     \<lparr>jl_get_unverified_header = (\<lambda>_. Inr header), jl_decode_unverified = (\<lambda>_. Inr payload),
      jl_decode = (\<lambda>_ _ _. Inr payload), jl_encode = (\<lambda>_ _ _ _. Inr []), jl_secret_key = (\<lambda>_. ()),
      jl_rsa_public_key = (\<lambda>_. ()), jl_from_jwk = (\<lambda>_ _. Inr ()), jl_is_public_key = (\<lambda>_. True)\<rparr>"

definition dpop_sample_lib :: "unit jwt_lib" where
  "dpop_sample_lib = dpop_lib
     [(''typ'', JStr ''dpop+jwt''), (''alg'', JStr ''RS256''),
      (''jwk'', JObj [(''kty'', JStr ''RSA''), (''n'', JStr ''AQAB''), (''e'', JStr ''AQAB'')])]
     [(''htm'', JStr ''POST''), (''htu'', JStr ''https://as.example/oauth/token''), (''iat'', JInt 1000), (''jti'', JStr ''j'')]"

definition dpop_sample_call :: "datetime \<Rightarrow> unit dpop_call" where
  "dpop_sample_call now =
     \<lparr>dc_lib = dpop_sample_lib, dc_env = sample_env now ''d'', dc_proof = ''p'', dc_method = ''POST'',
      dc_url = ''https://as.example/oauth/token'', dc_access_token = None\<rparr>"

lemma dpop_sample_htu: "strip_query ''https://as.example/oauth/token'' = Some ''https://as.example/oauth/token''"
  by code_simp

lemma dpop_sample_jwk:
  "jwk_canonical [(''kty'', JStr ''RSA''), (''n'', JStr ''AQAB''), (''e'', JStr ''AQAB'')] =
     Some (JObj [(''e'', JStr ''AQAB''), (''kty'', JStr ''RSA''), (''n'', JStr ''AQAB'')])"
  by code_simp

lemma dpop_sample_claims: "\<exists>jkt. dpop_signed_claims dpop_sample_lib ''p'' =
  Inr (jkt, [(''htm'', JStr ''POST''), (''htu'', JStr ''https://as.example/oauth/token''), (''iat'', JInt 1000), (''jti'', JStr ''j'')])"
  by (simp add: dpop_signed_claims_def dpop_sample_lib_def dpop_lib_def jget_def str_or_empty_def py_str_def
      py_lower_def lower_char_def jwk_thumbprint_def dpop_sample_jwk DPOP_ALLOWED_ALGS_def build_verification_key_def
      starts_with_def)

lemma dpop_sample_accepted:
  assumes "now = 1000000000"
  shows "\<exists>s' v. dpop_call (dpop_sample_call now) [] = (s', Inr v)"
proof -
  have big: "\<not> max_double \<le> 1000" by (simp add: max_double_def)
  have "check_dpop_claims (sample_env now ''d'') ''POST'' ''https://as.example/oauth/token'' None
     [(''htm'', JStr ''POST''), (''htu'', JStr ''https://as.example/oauth/token''), (''iat'', JInt 1000), (''jti'', JStr ''j'')] =
     Inr ''j''"
    using assms big
    by (simp add: check_dpop_claims_def check_htu_def check_ath_def str_or_empty_def py_str_def jget_def dpop_sample_htu
        iat_in_window_def DPOP_IAT_SKEW_SECS_def env_time_def sample_env_def)
  then show ?thesis
    using dpop_sample_claims
    by (auto simp: dpop_call_def dpop_sample_call_def validate_dpop_proof_def check_and_insert_def dpop_sweep_expired_def
        sweep_def Let_def)
qed

theorem accepted_proof_is_bound_witness:
  "\<exists>jkt cs. proof_checked dpop_sample_lib (sample_env 1000000000 ''d'') ''p'' ''POST'' ''https://as.example/oauth/token'' None
     jkt cs"
proof -
  obtain s' v where "dpop_call (dpop_sample_call 1000000000) [] = (s', Inr v)"
    using dpop_sample_accepted [OF refl] by blast
  then show ?thesis
    using accepted_proof_is_bound [of dpop_sample_lib "sample_env 1000000000 ''d''" "''p''" "''POST''"
        "''https://as.example/oauth/token''" None "[]" s' v]
    by (auto simp: dpop_call_def dpop_sample_call_def)
qed

text \<open>
  C22. No proof is ever accepted twice. From the empty replay store, after any validations, if a
  proof is accepted then every later presentation of it, for any request, fails, however many
  other validations lie in between: the replay store remembers its \<open>jti\<close> for longer than its \<open>iat\<close>
  stays in the window. This rests on the library returning the payload the token carries, and on
  the monotonic clock gaining less than 60 seconds on the wall clock between the two requests.
\<close>

theorem dpop_proof_single_use:
  assumes "dpop_call a (dpop_run before []) = (s1, Inr v)"
    and "dc_proof b = dc_proof a"
    and "reads_payload (dc_lib a) payload" and "reads_payload (dc_lib b) payload"
    and "list_all (\<lambda>c. env_mono (dc_env c) \<le> env_mono (dc_env b)) between"
    and "env_mono (dc_env b) - env_mono (dc_env a) < env_time (dc_env b) - env_time (dc_env a) + 60"
  shows "\<exists>x. snd (dpop_call b (dpop_run between s1)) = Inl x"
proof (rule ccontr)
  let ?s2 = "dpop_run between s1"
  assume "\<nexists>x. snd (dpop_call b ?s2) = Inl x"
  then obtain s3 w where b: "dpop_call b ?s2 = (s3, Inr w)"
    by (metis prod.collapse sum.exhaust_sel)
  have d0: "keys_distinct (dpop_run before [])" by (simp add: dpop_run_invar)
  obtain cs jti where a1: "dpop_signed_claims (dc_lib a) (dc_proof a) = Inr (dv_jkt v, cs)"
      "check_dpop_claims (dc_env a) (dc_method a) (dc_url a) (dc_access_token a) cs = Inr (py_str jti)"
      "map_of cs ''jti'' = Some jti"
      "s1 = fst (dpop_observe (env_mono (dc_env a)) (py_str jti) (dpop_run before []))"
      "snd (dpop_observe (env_mono (dc_env a)) (py_str jti) (dpop_run before []))"
    using validate_dpop_proof_Inr [OF assms(1) [unfolded dpop_call_def]] by blast
  obtain cs' jti' where b1: "dpop_signed_claims (dc_lib b) (dc_proof b) = Inr (dv_jkt w, cs')"
      "check_dpop_claims (dc_env b) (dc_method b) (dc_url b) (dc_access_token b) cs' = Inr (py_str jti')"
      "map_of cs' ''jti'' = Some jti'" "snd (dpop_observe (env_mono (dc_env b)) (py_str jti') ?s2)"
    using validate_dpop_proof_Inr [OF b [unfolded dpop_call_def]] by blast
  have "cs = payload (dc_proof a)" "cs' = payload (dc_proof b)"
    using dpop_signed_claims_Inr [OF a1(1)] dpop_signed_claims_Inr [OF b1(1)] assms(3,4)
    unfolding reads_payload_def by blast+
  then have same: "cs' = cs" "jti' = jti" using assms(2) a1(3) b1(3) by auto
  obtain iat where i: "\<bar>env_time (dc_env a) - iat\<bar> \<le> 300" "\<bar>env_time (dc_env b) - iat\<bar> \<le> 300"
    using check_dpop_claims_Inr(5) [OF a1(2)] check_dpop_claims_Inr(5) [OF b1(2)] same by auto
  have d1: "keys_distinct s1" using d0 a1(4) dpop_guard.invar_observe by simp
  have "dpop_live s1 (py_str jti) (env_mono (dc_env b))"
    unfolding a1(4) using d0 a1(5) assms(6) i
    by (intro dpop_guard.accept_records) (auto simp: REPLAY_TTL_SECS_def abs_le_iff)
  then have "dpop_live ?s2 (py_str jti) (env_mono (dc_env b))"
    using d1 assms(5) by (intro dpop_run_live)
  then show False
    using dpop_guard.accept_not_live [OF dpop_run_invar [OF d1] b1(4)] same by simp
qed

theorem dpop_proof_single_use_witness:
  "\<exists>s1 v x. dpop_call (dpop_sample_call 1000000000) [] = (s1, Inr v) \<and>
     snd (dpop_call (dpop_sample_call 1200000000) s1) = Inl x"
proof -
  obtain s1 v where a: "dpop_call (dpop_sample_call 1000000000) [] = (s1, Inr v)"
    using dpop_sample_accepted [OF refl] by blast
  have "reads_payload dpop_sample_lib
     (\<lambda>_. [(''htm'', JStr ''POST''), (''htu'', JStr ''https://as.example/oauth/token''), (''iat'', JInt 1000), (''jti'', JStr ''j'')])"
    by (simp add: reads_payload_def dpop_sample_lib_def dpop_lib_def)
  then show ?thesis
    using dpop_proof_single_use [of "dpop_sample_call 1000000000" "[]" s1 v "dpop_sample_call 1200000000" _ "[]"] a
    by (auto simp: dpop_sample_call_def sample_env_def env_time_def)
qed


section \<open>Nonces\<close>

lemma b64url_char_ascii: "list_all (\<lambda>c. (of_char c :: nat) < 128) b64url_chars"
  by code_simp

lemma length_b64url_chars: "length b64url_chars = 64"
  by (simp add: b64url_chars_def)

lemma b64url_alphabet: "c \<in> set (urlsafe_b64encode_nopad b) \<Longrightarrow> c \<in> set b64url_chars"
proof -
  assume "c \<in> set (urlsafe_b64encode_nopad b)"
  then obtain d where d: "d \<in> set (b64_sextets (map unat b))" "c = b64url_chars ! d"
    by (auto simp: urlsafe_b64encode_nopad_def)
  have "d < 64" using b64_sextets_less [OF unat_byte_less, of b] d(1) by (simp add: list_all_iff)
  then show ?thesis using d(2) length_b64url_chars by (metis nth_mem)
qed

lemma b64url_ascii: "is_ascii (urlsafe_b64encode_nopad b)"
  using b64url_alphabet b64url_char_ascii by (auto simp: is_ascii_def list_all_iff)

lemma be_bytes_be_value: "be_bytes (length bs) (be_value bs) = bs"
proof (induction bs rule: rev_induct)
  case (snoc b bs)
  have "(be_value bs * 256 + unat b) div 256 = be_value bs" "(be_value bs * 256 + unat b) mod 256 = unat b"
    using unat_byte_less [of "[b]"] by (simp_all add: list_all_iff)
  then show ?case using snoc by (simp add: be_value_snoc)
qed (simp add: be_value_def)

definition nonce_bytes :: "dpop_nonce_issuer \<Rightarrow> int \<Rightarrow> bytes" where
  \<comment> \<open>the 24 bytes of the nonce of a bucket\<close>
  "nonce_bytes i b = be_bytes 8 (nat b) @ tag_for_bucket i (be_bytes 8 (nat b))"

lemma issue_nonce_Inr:
  "issue_nonce e i = Inr n \<longleftrightarrow> 0 \<le> current_bucket e i \<and> current_bucket e i < 2 ^ 64 \<and>
     n = urlsafe_b64encode_nopad (nonce_bytes i (current_bucket e i))"
  by (auto simp: issue_nonce_def encode_bucket_def pack_q_def nonce_bytes_def)

lemma length_nonce_bytes: "length (nonce_bytes i b) = 24"
  by (simp add: nonce_bytes_def tag_for_bucket_def length_hmac_sha256)

lemma verify_nonce_bytes:
  assumes "is_ascii n" "urlsafe_b64decode (pad4 n) = Some (nonce_bytes i b)" "0 \<le> b" "b < 2 ^ 64"
  shows "verify_nonce e i n =
    (if b = current_bucket e i \<or> b = current_bucket e i - 1 then Inr ()
     else Inl (NonceStale ''DPoP nonce is expired or not yet valid''))"
proof -
  let ?raw = "nonce_bytes i b"
  have v: "int (be_value (take 8 ?raw)) = b"
    using assms(3,4) be_value_be_bytes [of 8 "nat b"] by (simp add: nat_less_iff nat_mod_as_int nonce_bytes_def)
  have t: "drop 8 ?raw = tag_for_bucket i (take 8 ?raw)" by (simp add: nonce_bytes_def)
  show ?thesis
    unfolding verify_nonce_def assms(2) Let_def using assms(1) v by (simp add: length_nonce_bytes t)
qed

text \<open>
  A nonce is good for its own time bucket and the next one, and for no other: a nonce issued
  at one moment verifies at another exactly when the later moment's bucket is the same or the
  next, and is otherwise rejected as stale, which earns a fresh nonce rather than an error.
\<close>

theorem nonce_lives_two_buckets:
  assumes "issue_nonce e i = Inr n"
  shows "verify_nonce e' i n =
    (if current_bucket e' i - current_bucket e i \<in> {0, 1} then Inr ()
     else Inl (NonceStale ''DPoP nonce is expired or not yet valid''))"
proof -
  let ?b = "current_bucket e i"
  have n: "0 \<le> ?b" "?b < 2 ^ 64" "n = urlsafe_b64encode_nopad (nonce_bytes i ?b)"
    using assms by (simp_all add: issue_nonce_Inr)
  have "urlsafe_b64decode (pad4 n) = Some (nonce_bytes i ?b)"
    unfolding n(3) by (rule b64url_roundtrip)
  then show ?thesis
    using verify_nonce_bytes [of n i ?b e'] n b64url_ascii by auto
qed

theorem nonce_lives_two_buckets_witness:
  "\<exists>n. issue_nonce (sample_env 299000000 ''a'') (nonce_issuer_new [1, 2, 3] 300) = Inr n \<and>
     verify_nonce (sample_env 599000000 ''b'') (nonce_issuer_new [1, 2, 3] 300) n = Inr () \<and>
     verify_nonce (sample_env 600000000 ''b'') (nonce_issuer_new [1, 2, 3] 300) n =
       Inl (NonceStale ''DPoP nonce is expired or not yet valid'')"
proof -
  let ?i = "nonce_issuer_new [1, 2, 3] 300"
  have b: "current_bucket (sample_env 299000000 ''a'') ?i = 0" "current_bucket (sample_env 599000000 ''b'') ?i = 1"
      "current_bucket (sample_env 600000000 ''b'') ?i = 2"
    by (simp_all add: current_bucket_def sample_env_def timestamp_int_def nonce_issuer_new_def)
  obtain n where n: "issue_nonce (sample_env 299000000 ''a'') ?i = Inr n" by (auto simp: issue_nonce_Inr b)
  show ?thesis
    using n nonce_lives_two_buckets [OF n, of "sample_env 599000000 ''b''"]
      nonce_lives_two_buckets [OF n, of "sample_env 600000000 ''b''"] b
    by auto
qed

text \<open>
  Only the server's own nonces pass, and a forger learns nothing: whatever string a proof
  carries, if it verifies then it decodes to the bytes of the nonce the server issues for the
  current or the previous bucket; and a challenge carrying a fresh nonce is sent only when the proof
  had no nonce or a correctly tagged stale one.
\<close>

theorem nonce_not_forgeable:
  "(verify_nonce e i n = Inr () \<longrightarrow>
      (\<exists>b \<in> {current_bucket e i, current_bucket e i - 1}. urlsafe_b64decode (pad4 n) = Some (nonce_bytes i b))) \<and>
   (enforce_dpop_nonce e v i = Inr (Some r) \<longrightarrow>
      dv_nonce v = None \<or>
      (\<exists>n b. dv_nonce v = Some n \<and> urlsafe_b64decode (pad4 n) = Some (b @ tag_for_bucket i b)))"
proof -
  have raw: "\<exists>raw. urlsafe_b64decode (pad4 n) = Some raw \<and> length raw = 24 \<and> drop 8 raw = tag_for_bucket i (take 8 raw)"
    if "verify_nonce e i n = Inr () \<or> (\<exists>d. verify_nonce e i n = Inl (NonceStale d))" for n
    using that by (auto simp: verify_nonce_def Let_def split: option.splits if_splits)
  have full: "raw = take 8 raw @ tag_for_bucket i (take 8 raw)" if "drop 8 raw = tag_for_bucket i (take 8 raw)" for raw
    using that by (metis append_take_drop_id)
  have "\<exists>b \<in> {current_bucket e i, current_bucket e i - 1}. urlsafe_b64decode (pad4 n) = Some (nonce_bytes i b)"
    if v: "verify_nonce e i n = Inr ()"
  proof -
    obtain raw where r: "urlsafe_b64decode (pad4 n) = Some raw" "length raw = 24"
        "drop 8 raw = tag_for_bucket i (take 8 raw)" using raw v by blast
    have b: "int (be_value (take 8 raw)) \<in> {current_bucket e i, current_bucket e i - 1}"
      using v r by (auto simp: verify_nonce_def Let_def split: if_splits)
    have "be_bytes 8 (be_value (take 8 raw)) = take 8 raw"
      using be_bytes_be_value [of "take 8 raw"] r(2) by simp
    then have "nonce_bytes i (int (be_value (take 8 raw))) = raw"
      using full [OF r(3)] by (simp add: nonce_bytes_def)
    then show ?thesis using b r(1) by metis
  qed
  moreover have "dv_nonce v = None \<or>
      (\<exists>n b. dv_nonce v = Some n \<and> urlsafe_b64decode (pad4 n) = Some (b @ tag_for_bucket i b))"
    if c: "enforce_dpop_nonce e v i = Inr (Some r)"
  proof (cases "dv_nonce v")
    case (Some n)
    then have "\<exists>d. verify_nonce e i n = Inl (NonceStale d)"
      using c by (auto simp: enforce_dpop_nonce_def Let_def split: sum.splits dpop_nonce_error.splits)
    then show ?thesis using raw full Some by metis
  qed simp
  ultimately show ?thesis by blast
qed

theorem nonce_not_forgeable_witness:
  "\<exists>n. verify_nonce (sample_env 0 ''a'') (nonce_issuer_new [1, 2, 3] 300) n = Inr () \<and>
     (\<exists>b \<in> {0, - 1}. urlsafe_b64decode (pad4 n) = Some (nonce_bytes (nonce_issuer_new [1, 2, 3] 300) b))"
proof -
  let ?i = "nonce_issuer_new [1, 2, 3] 300" and ?e = "sample_env 0 ''a''"
  have b: "current_bucket ?e ?i = 0"
    by (simp add: current_bucket_def sample_env_def timestamp_int_def)
  obtain n where n: "issue_nonce ?e ?i = Inr n" by (auto simp: issue_nonce_Inr b)
  have v: "verify_nonce ?e ?i n = Inr ()"
    using n b verify_nonce_bytes [of n ?i 0 ?e] b64url_ascii b64url_roundtrip by (simp add: issue_nonce_Inr)
  then show ?thesis using nonce_not_forgeable [of ?e ?i n] b by (intro exI [of _ n]) auto
qed

end
