(* ===== verification/Jwt_Bearer.thy ===== *)
theory Jwt_Bearer
  imports Client_Auth
begin

text \<open>
  The jwt-bearer authorization grant (\<open>services/jwt_bearer_grant.py\<close>): an assertion signed by a
  registered external issuer is exchanged for a local user id, provisioning the user where the
  issuer allows it. The argument \<open>hash_password\<close> is the password hasher, a third-party library;
  the random secret hashed for a provisioned user is draw 2 of the request.

  Shown here: what a redeemed assertion establishes, and that it is redeemed at most once during
  its lifetime.
\<close>

definition JWT_BEARER_GRANT :: string where
  "JWT_BEARER_GRANT = ''urn:ietf:params:oauth:grant-type:jwt-bearer''"

definition ALLOWED_ALGS :: "string list" where
  "ALLOWED_ALGS = [''RS256'', ''ES256'', ''PS256'']"

definition IAT_SKEW_SECS :: int where
  "IAT_SKEW_SECS = 60"

definition is_id_jag_typ :: "json \<Rightarrow> bool" where
  "is_id_jag_typ typ =
     (case typ of
        JStr s \<Rightarrow>
          (let t = py_lower (py_strip s)
           in (if starts_with ''application/'' t then drop 12 t else t) = ''oauth-id-jag+jwt'')
      | _ \<Rightarrow> False)"

definition grant_error :: "string \<Rightarrow> exc" where
  "grant_error d = oauth_exc ''invalid_grant'' d"

definition unverified_header_and_iss :: "'k jwt_lib \<Rightarrow> string \<Rightarrow> (json dict \<times> string) outcome" where
  "unverified_header_and_iss lib assertion =
     (if length (filter (\<lambda>c. c = CHR ''.'') assertion) \<noteq> 2
      then Inl (grant_error ''assertion is not a well-formed JWS Compact Serialization'')
      else (case jl_get_unverified_header lib assertion of
          Inl _ \<Rightarrow> Inl (grant_error ''Malformed assertion JWT header'')
        | Inr header \<Rightarrow>
            (case jl_decode_unverified lib assertion of
               Inl _ \<Rightarrow> Inl (grant_error ''assertion payload is not valid'')
             | Inr cs \<Rightarrow>
                 (case jget ''iss'' cs of
                    JStr iss \<Rightarrow>
                      if iss = [] then Inl (grant_error ''assertion is missing the iss claim'') else Inr (header, iss)
                  | _ \<Rightarrow> Inl (grant_error ''assertion is missing the iss claim'')))))"

definition may_verify :: "json dict \<Rightarrow> bool" where
  "may_verify jwk \<longleftrightarrow>
     (jget ''use'' jwk = JNull \<or> jget ''use'' jwk = JStr ''sig'') \<and>
     (case jget ''key_ops'' jwk of JNull \<Rightarrow> True | JArr ops \<Rightarrow> JStr ''verify'' \<in> set ops | _ \<Rightarrow> False)"

definition alg_compatible :: "json dict \<Rightarrow> string \<Rightarrow> bool" where
  "alg_compatible jwk alg \<longleftrightarrow> jget ''alg'' jwk = JNull \<or> jget ''alg'' jwk = JStr alg"

definition usable_key :: "string \<Rightarrow> json \<Rightarrow> json \<Rightarrow> bool" where
  \<comment> \<open>the filter of \<open>_select_key\<close>, for an algorithm and a \<open>kid\<close> (\<open>JNull\<close> when absent)\<close>
  "usable_key alg kid k =
     (case k of
        JObj ps \<Rightarrow>
          (kid = JNull \<or> jget ''kid'' ps = kid) \<and>
          jget ''kty'' ps = JStr (if alg = ''ES256'' then ''EC'' else ''RSA'') \<and>
          may_verify ps \<and> alg_compatible ps alg
      | _ \<Rightarrow> False)"

definition select_key :: "'k jwt_lib \<Rightarrow> json \<Rightarrow> string \<Rightarrow> json dict \<Rightarrow> 'k outcome" where
  "select_key lib jwks alg header =
     (case (case jwks of JObj ps \<Rightarrow> jget ''keys'' ps | _ \<Rightarrow> JNull) of
        JArr keys \<Rightarrow>
          (case find (usable_key alg (jget ''kid'' header)) keys of
             None \<Rightarrow> Inl (grant_error (''no usable key for the assertion in the trusted issuer'' @ [CHR 0x27] @ ''s JWKS''))
           | Some m \<Rightarrow>
               (case jl_from_jwk lib (if alg = ''ES256'' then ''EC'' else ''RSA'') m of
                  Inl _ \<Rightarrow> Inl (grant_error ''issuer JWKS key is malformed'')
                | Inr key \<Rightarrow>
                    if jl_is_public_key lib key then Inr key
                    else Inl (grant_error ''issuer JWKS key is not a public key'')))
      | _ \<Rightarrow> Inl (grant_error (''trusted issuer JWKS has no '' @ quoted ''keys'' @ '' array'')))"

definition bearer_decode_opts :: "string \<Rightarrow> string list \<Rightarrow> string \<Rightarrow> decode_opts" where
  "bearer_decode_opts alg audiences issuer =
     \<lparr>do_algorithms = [alg], do_audience = Some audiences, do_issuer = Some issuer,
      do_require = [''iss'', ''sub'', ''aud'', ''exp'', ''iat'', ''jti''], do_verify_aud = True, do_verify_exp = True,
      do_verify_iat = False\<rparr>"

definition verify_assertion ::
  "'k jwt_lib \<Rightarrow> http_get \<Rightarrow> env \<Rightarrow> string \<Rightarrow> trusted_issuer \<Rightarrow> json dict \<Rightarrow> string \<Rightarrow> string \<Rightarrow> app_state
   \<Rightarrow> app_state \<times> claims outcome" where
  "verify_assertion lib get e assertion trusted header our_issuer token_endpoint st =
     (if jget ''alg'' header \<notin> JStr ` set ALLOWED_ALGS
      then (st, Inl (grant_error ''assertion uses an unsupported signature algorithm''))
      else
        (let alg = jstr_of (jget ''alg'' header);
             (cache, r) = jwks_fetch get (env_recursion e) (env_mono e) (py_strip (issuer_jwks_uri trusted)) (app_jwks_cache st);
             st1 = st\<lparr>app_jwks_cache := cache\<rparr>
         in (st1,
             case r of
               Inl (OAuthError _ d _) \<Rightarrow>
                 Inl (grant_error (''could not fetch the trusted issuer'' @ [CHR 0x27] @ ''s JWKS: '' @
                   (case d of Some t \<Rightarrow> t | None \<Rightarrow> ''None'')))
             | Inl x \<Rightarrow> Inl x
             | Inr jwks \<Rightarrow>
                 bind_res (select_key lib jwks alg header) (\<lambda>key.
                 bind_res (allowed_audiences_list (env_recursion e) trusted) (\<lambda>auds.
                   case jl_decode lib assertion key
                          (bearer_decode_opts alg ([our_issuer, token_endpoint] @ auds) (issuer_issuer trusted)) of
                     Inl x \<Rightarrow> Inl (grant_error (''assertion validation failed: '' @ jwt_error_text x))
                   | Inr cs \<Rightarrow> Inr cs)))))"

definition numeric_date :: "claims \<Rightarrow> string \<Rightarrow> rat outcome" where
  "numeric_date cs name =
     (case jget name cs of
        JInt i \<Rightarrow>
          if of_int \<bar>i\<bar> \<ge> max_double then Inl (grant_error (''assertion '' @ name @ '' claim is out of range''))
          else Inr (of_int i)
      | JFloat r \<Rightarrow> Inr r
      | JNaN \<Rightarrow> Inl (grant_error (''assertion '' @ name @ '' claim is not a finite number''))
      | JInfinity _ \<Rightarrow> Inl (grant_error (''assertion '' @ name @ '' claim is not a finite number''))
      | _ \<Rightarrow> Inl (grant_error (''assertion '' @ name @ '' claim is not a number'')))"

definition enforce_replay :: "env \<Rightarrow> string \<Rightarrow> claims \<Rightarrow> jti_guard \<Rightarrow> jti_guard \<times> unit outcome" where
  "enforce_replay e iss cs g =
     (let missing = grant_error (''assertion missing required jti claim (RFC 7523 '' @ [CHR 0xA7] @ ''3)'')
      in case jget ''jti'' cs of
           JStr jti \<Rightarrow>
             if jti = [] then (g, Inl missing)
             else
               (case numeric_date cs ''exp'' of
                  Inl x \<Rightarrow> (g, Inl x)
                | Inr xp \<Rightarrow>
                    (let ttl = max (xp - env_time e) 0
                     in if ttl > of_int MAX_JTI_TTL_SECS
                        then (g, Inl (grant_error ''assertion lifetime exceeds the maximum of 300 seconds''))
                        else
                          (let (g', r) = jti_observe (env_mono e) (''jwt-bearer:'' @ iss) jti ttl g
                           in (g', case r of
                                Inl _ \<Rightarrow> Inl (grant_error ''assertion replay guard unavailable'')
                              | Inr fresh \<Rightarrow>
                                  if fresh then Inr () else Inl (grant_error ''assertion jti has already been used'')))))
         | _ \<Rightarrow> (g, Inl missing))"

definition reject_if_denylisted :: "datetime \<Rightarrow> string \<Rightarrow> string \<Rightarrow> database \<Rightarrow> unit outcome" where
  "reject_if_denylisted now username email db =
     (if check_subject_denylisted now ''username'' username db \<noteq> None \<or>
         check_subject_denylisted now ''email'' email db \<noteq> None
      then Inl (grant_error ''subject is blocked'') else Inr ())"

definition casefold :: "string \<Rightarrow> string" where
  \<comment> \<open>\<open>str.casefold\<close>: lower case, and the sharp s becomes two letters; the micro sign, which folds to a
      letter above 255, is kept\<close>
  "casefold s = concat (map (\<lambda>c. if (of_char c :: nat) = 223 then ''ss'' else [lower_char c]) s)"

definition verified_email :: "claims \<Rightarrow> bool" where
  "verified_email cs \<longleftrightarrow> jget ''email_verified'' cs = JBool True"

definition assertion_email :: "claims \<Rightarrow> string" where
  "assertion_email cs = (case jget ''email'' cs of JStr s \<Rightarrow> py_strip s | _ \<Rightarrow> [])"

definition existing_subject :: "trusted_issuer \<Rightarrow> claims \<Rightarrow> string \<Rightarrow> database \<Rightarrow> user option outcome" where
  \<comment> \<open>the local account the assertion names, by verified e-mail or by id\<close>
  "existing_subject trusted cs sub db =
     (if issuer_subject_mapping trusted = ''email'' then
        (let email = assertion_email cs
         in if email = [] then Inl (grant_error ''trusted issuer maps subjects by email but the assertion has no email claim'')
            else if \<not> verified_email cs then Inl (grant_error ''assertion email is not verified (email_verified must be true)'')
            else (case filter (\<lambda>u. casefold (py_strip (user_email u)) = casefold email) (get_users_by_email email db) of
                [] \<Rightarrow> Inr None
              | [u] \<Rightarrow> Inr (Some u)
              | _ \<Rightarrow> Inl (grant_error ''assertion email matches more than one local account'')))
      else Inr (get_user_by_id sub db))"

definition provisioned_user :: "env \<Rightarrow> (string \<Rightarrow> string) \<Rightarrow> claims \<Rightarrow> string \<Rightarrow> user" where
  "provisioned_user e hash_password cs sub =
     \<lparr>user_pk = sub, user_username = sub, user_password_hash = hash_password (env_urlsafe e 2),
      user_email = (if verified_email cs then assertion_email cs else []), user_enabled = True,
      user_role = ''user'', user_created_at = env_now e, user_updated_at = env_now e\<rparr>"

definition provision_subject ::
  "env \<Rightarrow> (string \<Rightarrow> string) \<Rightarrow> claims \<Rightarrow> string \<Rightarrow> database \<Rightarrow> database \<times> string outcome" where
  \<comment> \<open>just-in-time provisioning, with the re-read after a failed insert\<close>
  "provision_subject e hash_password cs sub db =
     (case reject_if_denylisted (env_now e) sub (if verified_email cs then assertion_email cs else []) db of
        Inl x \<Rightarrow> (db, Inl x)
      | Inr _ \<Rightarrow>
          (case save_user (provisioned_user e hash_password cs sub) db of
             Inr db' \<Rightarrow> (db', Inr sub)
           | Inl _ \<Rightarrow>
               (db, case get_user_by_id sub db of
                  None \<Rightarrow> Inl (grant_error ''could not provision a local user for the assertion subject'')
                | Some raced \<Rightarrow>
                    if \<not> user_enabled raced then Inl (grant_error ''subject user is disabled'')
                    else bind_res (reject_if_denylisted (env_now e) (user_username raced) (user_email raced) db)
                           (\<lambda>_. Inr (user_pk raced)))))"

definition resolve_subject ::
  "env \<Rightarrow> (string \<Rightarrow> string) \<Rightarrow> trusted_issuer \<Rightarrow> claims \<Rightarrow> database \<Rightarrow> database \<times> string outcome" where
  "resolve_subject e hash_password trusted cs db =
     (case jget ''sub'' cs of
        JStr sub \<Rightarrow>
          if sub = [] then (db, Inl (grant_error ''assertion sub claim is not a string''))
          else
            (case existing_subject trusted cs sub db of
               Inl x \<Rightarrow> (db, Inl x)
             | Inr (Some u) \<Rightarrow>
                 (db, if \<not> user_enabled u then Inl (grant_error ''subject user is disabled'')
                      else bind_res (reject_if_denylisted (env_now e) (user_username u) (user_email u) db)
                             (\<lambda>_. Inr (user_pk u)))
             | Inr None \<Rightarrow>
                 if issuer_subject_mapping trusted = ''email'' then (db, Inl (grant_error ''unknown subject''))
                 else if \<not> issuer_jit_provision trusted
                   then (db, Inl (grant_error ''assertion subject has no local user and the issuer does not allow provisioning''))
                 else provision_subject e hash_password cs sub db)
      | _ \<Rightarrow> (db, Inl (grant_error ''assertion sub claim is not a string'')))"

definition assertion_issuer :: "nat \<Rightarrow> client \<Rightarrow> json dict \<Rightarrow> string \<Rightarrow> database \<Rightarrow> trusted_issuer outcome" where
  \<comment> \<open>the registry checks of \<open>redeem_jwt_bearer_assertion\<close>\<close>
  "assertion_issuer lvl c header iss db =
     (case get_trusted_issuer iss db of
        None \<Rightarrow> Inl (grant_error ''assertion iss is not a trusted issuer'')
      | Some t \<Rightarrow>
          if \<not> issuer_enabled t then Inl (grant_error ''assertion iss is not a trusted issuer'')
          else bind_res (allows_client lvl t (client_client_id c)) (\<lambda>ok.
            if \<not> ok then Inl (grant_error ''client is not allowed to use this trusted issuer'')
            else if is_id_jag_typ (jget ''typ'' header)
              then Inl (grant_error ''ID-JAG assertions are not accepted by this authorization server'')
            else Inr t))"

definition redeem_jwt_bearer_assertion ::
  "'k jwt_lib \<Rightarrow> http_get \<Rightarrow> (string \<Rightarrow> string) \<Rightarrow> env \<Rightarrow> string \<Rightarrow> client \<Rightarrow> string \<Rightarrow> string \<Rightarrow> app_state
   \<Rightarrow> app_state \<times> string outcome" where
  "redeem_jwt_bearer_assertion lib get hash_password e assertion c our_issuer token_endpoint st =
     (case bind_res (unverified_header_and_iss lib assertion) (\<lambda>(header, iss).
             bind_res (assertion_issuer (env_recursion e) c header iss (app_db st)) (\<lambda>t. Inr (header, iss, t))) of
        Inl x \<Rightarrow> (st, Inl x)
      | Inr (header, iss, trusted) \<Rightarrow>
          (case verify_assertion lib get e assertion trusted header our_issuer token_endpoint st of
             (st1, Inl x) \<Rightarrow> (st1, Inl x)
           | (st1, Inr cs) \<Rightarrow>
               (case bind_res (numeric_date cs ''iat'') (\<lambda>iat.
                       if iat > env_time e + of_int IAT_SKEW_SECS then Inl (grant_error ''assertion iat is in the future'')
                       else Inr ()) of
                  Inl x \<Rightarrow> (st1, Inl x)
                | Inr _ \<Rightarrow>
                    (case enforce_replay e iss cs (app_jti_guard st1) of
                       (g, Inl x) \<Rightarrow> (st1\<lparr>app_jti_guard := g\<rparr>, Inl x)
                     | (g, Inr _) \<Rightarrow>
                         (let (db', r) = resolve_subject e hash_password trusted cs (app_db st1)
                          in (st1\<lparr>app_jti_guard := g, app_db := db'\<rparr>, r))))))"


section \<open>What a redeemed assertion establishes\<close>

lemma get_trusted_issuer_Some: "get_trusted_issuer iss db = Some t \<Longrightarrow> issuer_issuer t = iss"
  by (auto simp: get_trusted_issuer_def find_Some_iff)

lemma assertion_issuer_Inr:
  "assertion_issuer lvl c header iss db = Inr t \<Longrightarrow>
     get_trusted_issuer iss db = Some t \<and> issuer_enabled t \<and> allows_client lvl t (client_client_id c) = Inr True"
  by (auto simp: assertion_issuer_def bind_res_Inr_iff split: option.splits if_splits)

definition signing_jwk :: "string \<Rightarrow> json dict \<Rightarrow> json dict \<Rightarrow> bool" where
  \<comment> \<open>a key of the right type, for signatures with this algorithm, with the id the header names\<close>
  "signing_jwk alg header jwk \<longleftrightarrow>
     kid_fits header jwk \<and> jget ''kty'' jwk = JStr (if alg = ''ES256'' then ''EC'' else ''RSA'') \<and>
     jget ''use'' jwk \<in> {JNull, JStr ''sig''} \<and> jget ''alg'' jwk \<in> {JNull, JStr alg} \<and>
     (jget ''key_ops'' jwk = JNull \<or> (\<exists>ops. jget ''key_ops'' jwk = JArr ops \<and> JStr ''verify'' \<in> set ops))"

lemma select_key_in_jwks:
  assumes "select_key lib doc alg header = Inr key"
  shows "\<exists>jwk. jwk_in doc jwk \<and> signing_jwk alg header jwk \<and> jl_from_jwk lib (if alg = ''ES256'' then ''EC'' else ''RSA'') (JObj jwk) = Inr key \<and>
    jl_is_public_key lib key"
proof -
  obtain ps keys where ps: "doc = JObj ps" "jget ''keys'' ps = JArr keys"
    using assms by (auto simp: select_key_def split: json.splits)
  obtain m where m: "find (usable_key alg (jget ''kid'' header)) keys = Some m"
    "jl_from_jwk lib (if alg = ''ES256'' then ''EC'' else ''RSA'') m = Inr key" "jl_is_public_key lib key"
    using assms by (auto simp: ps select_key_def split: option.splits sum.splits if_splits)
  then have use: "m \<in> set keys" "usable_key alg (jget ''kid'' header) m" by (auto dest: find_sound)
  obtain jwk where "m = JObj jwk" using use(2) by (cases m) (simp_all add: usable_key_def)
  moreover from this have "signing_jwk alg header jwk"
    using use(2) by (auto simp: usable_key_def signing_jwk_def kid_fits_def may_verify_def alg_compatible_def split: json.splits)
  ultimately show ?thesis using ps use(1) m by (auto simp: jwk_in_def)
qed

lemma verify_assertion_Inr:
  assumes "verify_assertion lib get e a t header iss tep st = (st1, Inr cs)"
  shows "(\<exists>alg doc jwk key auds. jget ''alg'' header = JStr alg \<and> alg \<in> set ALLOWED_ALGS \<and>
      served_at get e st (py_strip (issuer_jwks_uri t)) doc \<and> jwk_in doc jwk \<and> signing_jwk alg header jwk \<and>
      jl_from_jwk lib (if alg = ''ES256'' then ''EC'' else ''RSA'') (JObj jwk) = Inr key \<and> jl_is_public_key lib key \<and>
      allowed_audiences_list (env_recursion e) t = Inr auds \<and>
      jl_decode lib a key (bearer_decode_opts alg ([iss, tep] @ auds) (issuer_issuer t)) = Inr cs) \<and>
    (\<exists>cache. st1 = st\<lparr>app_jwks_cache := cache\<rparr>)"
proof -
  obtain alg where alg: "jget ''alg'' header = JStr alg" "alg \<in> set ALLOWED_ALGS"
    using assms by (auto simp: verify_assertion_def split: if_splits)
  obtain cache r where f: "jwks_fetch get (env_recursion e) (env_mono e) (py_strip (issuer_jwks_uri t)) (app_jwks_cache st) = (cache, r)"
    by fastforce
  obtain doc where r: "r = Inr doc"
    using assms alg f by (cases r) (auto simp: verify_assertion_def Let_def split: exc.splits)
  obtain key auds where k: "select_key lib doc alg header = Inr key" "allowed_audiences_list (env_recursion e) t = Inr auds"
    using assms alg f r by (auto simp: verify_assertion_def Let_def bind_res_Inr_iff)
  have d: "jl_decode lib a key (bearer_decode_opts alg ([iss, tep] @ auds) (issuer_issuer t)) = Inr cs"
      "st1 = st\<lparr>app_jwks_cache := cache\<rparr>"
    using assms alg f r k by (auto simp: verify_assertion_def Let_def split: sum.splits)
  from select_key_in_jwks [OF k(1)] obtain jwk where "jwk_in doc jwk" "signing_jwk alg header jwk"
    "jl_from_jwk lib (if alg = ''ES256'' then ''EC'' else ''RSA'') (JObj jwk) = Inr key" "jl_is_public_key lib key" by blast
  with alg k(2) d jwks_fetch_served [OF f [unfolded r]] show ?thesis by blast
qed

lemma enforce_replay_Inr:
  assumes "enforce_replay e iss cs g = (g', Inr ())"
  shows "\<exists>jti xp. jget ''jti'' cs = JStr jti \<and> numeric_date cs ''exp'' = Inr xp \<and> xp - env_time e \<le> 300 \<and>
     jti_observe (env_mono e) (''jwt-bearer:'' @ iss) jti (max (xp - env_time e) 0) g = (g', Inr True)"
proof -
  obtain jti where j: "jget ''jti'' cs = JStr jti" "jti \<noteq> []"
    using assms by (auto simp: enforce_replay_def Let_def split: json.splits if_splits)
  obtain xp where x: "numeric_date cs ''exp'' = Inr xp"
    using assms j by (cases "numeric_date cs ''exp''") (auto simp: enforce_replay_def Let_def)
  obtain g1 r where o: "jti_observe (env_mono e) (''jwt-bearer:'' @ iss) jti (max (xp - env_time e) 0) g = (g1, r)"
    by fastforce
  have "\<not> max (xp - env_time e) 0 > of_int MAX_JTI_TTL_SECS"
    using assms j x by (auto simp: enforce_replay_def Let_def)
  moreover from this have "g1 = g'" "r = Inr True"
    using assms j x o by (auto simp: enforce_replay_def Let_def split: sum.splits if_splits)
  ultimately show ?thesis using j x o by (auto simp: MAX_JTI_TTL_SECS_def)
qed

definition subject_admitted :: "datetime \<Rightarrow> string \<Rightarrow> database \<Rightarrow> bool" where
  \<comment> \<open>the id names an enabled user on neither denylist\<close>
  "subject_admitted now uid db \<longleftrightarrow>
     (\<exists>u \<in> set (db_users db). user_pk u = uid \<and> user_enabled u \<and>
        check_subject_denylisted now ''username'' (user_username u) db = None \<and>
        check_subject_denylisted now ''email'' (user_email u) db = None)"

lemma reject_if_denylisted_Inr [simp]:
  "reject_if_denylisted now n m db = Inr () \<longleftrightarrow>
     check_subject_denylisted now ''username'' n db = None \<and> check_subject_denylisted now ''email'' m db = None"
  by (auto simp: reject_if_denylisted_def)

lemma get_user_by_id_Some: "get_user_by_id uid db = Some u \<Longrightarrow> u \<in> set (db_users db) \<and> user_pk u = uid"
  by (auto simp: get_user_by_id_def find_Some_iff)

lemma denylist_add_user [simp]:
  "check_subject_denylisted now k v (db\<lparr>db_users := us\<rparr>) = check_subject_denylisted now k v db"
  by (simp add: check_subject_denylisted_def find_denylist_entry_def)

lemma provision_subject_Inr:
  assumes "provision_subject e h cs sub db = (db', Inr uid)"
  shows "subject_admitted (env_now e) uid db' \<and> uid = sub \<and>
    (db' = db \<or> (db' = db\<lparr>db_users := db_users db @ [provisioned_user e h cs sub]\<rparr>))"
proof (cases "save_user (provisioned_user e h cs sub) db")
  case (Inr db1)
  then have db1: "db1 = db\<lparr>db_users := db_users db @ [provisioned_user e h cs sub]\<rparr>"
    by (auto simp: save_user_def bind_res_Inr_iff sql_insert_def split: if_splits)
  have "db' = db1" "uid = sub" "reject_if_denylisted (env_now e) sub (if verified_email cs then assertion_email cs else []) db = Inr ()"
    using assms Inr by (auto simp: provision_subject_def split: sum.splits)
  then show ?thesis
    by (auto simp: db1 subject_admitted_def) (auto simp: provisioned_user_def split: if_splits)
next
  case (Inl x)
  obtain y where "reject_if_denylisted (env_now e) sub (if verified_email cs then assertion_email cs else []) db = Inr y"
    using assms by (cases "reject_if_denylisted (env_now e) sub (if verified_email cs then assertion_email cs else []) db")
      (auto simp: provision_subject_def)
  with assms Inl have p: "db' = db" "(case get_user_by_id sub db of
      None \<Rightarrow> Inl (grant_error ''could not provision a local user for the assertion subject'')
    | Some raced \<Rightarrow>
        if \<not> user_enabled raced then Inl (grant_error ''subject user is disabled'')
        else bind_res (reject_if_denylisted (env_now e) (user_username raced) (user_email raced) db)
               (\<lambda>_. Inr (user_pk raced))) = Inr uid"
    by (auto simp: provision_subject_def)
  obtain raced where raced: "get_user_by_id sub db = Some raced"
    using p(2) by (cases "get_user_by_id sub db") simp_all
  then have "user_enabled raced" "uid = user_pk raced"
      "reject_if_denylisted (env_now e) (user_username raced) (user_email raced) db = Inr ()"
    using p(2) by (auto simp: bind_res_Inr_iff split: if_splits)
  with raced p(1) show ?thesis using get_user_by_id_Some by (auto simp: subject_admitted_def)
qed

definition subject_named :: "trusted_issuer \<Rightarrow> claims \<Rightarrow> string \<Rightarrow> database \<Rightarrow> bool" where
  \<comment> \<open>the user the claims are about: by verified address where the issuer maps by address, else by id\<close>
  "subject_named t cs uid db \<longleftrightarrow>
     (\<exists>sub. jget ''sub'' cs = JStr sub \<and> sub \<noteq> [] \<and>
        (if issuer_subject_mapping t = ''email''
         then jget ''email_verified'' cs = JBool True \<and>
           (\<exists>u \<in> set (db_users db). user_pk u = uid \<and> casefold (py_strip (user_email u)) = casefold (assertion_email cs))
         else uid = sub))"

lemma existing_subject_Some:
  "existing_subject t cs sub db = Inr (Some u) \<Longrightarrow> u \<in> set (db_users db) \<and>
     (if issuer_subject_mapping t = ''email''
      then jget ''email_verified'' cs = JBool True \<and> casefold (py_strip (user_email u)) = casefold (assertion_email cs)
      else user_pk u = sub)"
proof (cases "issuer_subject_mapping t = ''email''")
  case True
  assume "existing_subject t cs sub db = Inr (Some u)"
  with True have "filter (\<lambda>u. casefold (py_strip (user_email u)) = casefold (assertion_email cs))
      (get_users_by_email (assertion_email cs) db) = [u]" and verified: "jget ''email_verified'' cs = JBool True"
    by (auto simp: existing_subject_def verified_email_def Let_def split: if_splits list.splits)
  then have "u \<in> set (filter (\<lambda>u. casefold (py_strip (user_email u)) = casefold (assertion_email cs))
      (get_users_by_email (assertion_email cs) db))" by simp
  then show ?thesis using True verified by (simp add: get_users_by_email_def Let_def)
next
  case False
  assume "existing_subject t cs sub db = Inr (Some u)"
  with False show ?thesis using get_user_by_id_Some by (auto simp: existing_subject_def)
qed

lemma resolve_subject_Inr:
  assumes "resolve_subject e h t cs db = (db', Inr uid)"
  shows "subject_admitted (env_now e) uid db' \<and> subject_named t cs uid db \<and>
    (db' = db \<or> (\<exists>sub. issuer_jit_provision t \<and> db' = db\<lparr>db_users := db_users db @ [provisioned_user e h cs sub]\<rparr>))"
proof -
  obtain sub where sub: "jget ''sub'' cs = JStr sub" "sub \<noteq> []"
    using assms by (auto simp: resolve_subject_def split: json.splits if_splits)
  obtain x where x: "existing_subject t cs sub db = Inr x"
    using assms sub by (cases "existing_subject t cs sub db") (auto simp: resolve_subject_def)
  show ?thesis
  proof (cases x)
    case None
    then have "issuer_jit_provision t" "issuer_subject_mapping t \<noteq> ''email''" "provision_subject e h cs sub db = (db', Inr uid)"
      using assms sub x by (auto simp: resolve_subject_def split: if_splits)
    then show ?thesis using provision_subject_Inr [of e h cs sub db db' uid] sub unfolding subject_named_def by auto
  next
    case (Some u)
    then have "db' = db" "uid = user_pk u" "user_enabled u"
        "reject_if_denylisted (env_now e) (user_username u) (user_email u) db = Inr ()"
      using assms sub x by (auto simp: resolve_subject_def bind_res_Inr_iff split: if_splits)
    then show ?thesis using existing_subject_Some [of t cs sub db u] x Some sub
      by (auto simp: subject_admitted_def subject_named_def split: if_splits)
  qed
qed

definition assertion_checked ::
  "'k jwt_lib \<Rightarrow> http_get \<Rightarrow> env \<Rightarrow> client \<Rightarrow> string \<Rightarrow> string \<Rightarrow> string \<Rightarrow> app_state \<Rightarrow> string \<Rightarrow> trusted_issuer \<Rightarrow> claims \<Rightarrow> bool" where
  \<comment> \<open>the library verified the assertion with a public signing key of the issuer's own key set and an
      allowed algorithm, as issued by the enabled registry entry \<open>t\<close>, which admits the client, for an
      audience this server answers to\<close>
  "assertion_checked lib get e c assertion our_issuer token_endpoint st iss t cs \<longleftrightarrow>
     get_trusted_issuer iss (app_db st) = Some t \<and> issuer_enabled t \<and>
     allows_client (env_recursion e) t (client_client_id c) = Inr True \<and>
     (\<exists>header alg doc jwk key auds.
        jl_get_unverified_header lib assertion = Inr header \<and> jget ''alg'' header = JStr alg \<and> alg \<in> set ALLOWED_ALGS \<and>
        served_at get e st (py_strip (issuer_jwks_uri t)) doc \<and> jwk_in doc jwk \<and> signing_jwk alg header jwk \<and>
        jl_from_jwk lib (if alg = ''ES256'' then ''EC'' else ''RSA'') (JObj jwk) = Inr key \<and> jl_is_public_key lib key \<and>
        allowed_audiences_list (env_recursion e) t = Inr auds \<and>
        jl_decode lib assertion key (bearer_decode_opts alg ([our_issuer, token_endpoint] @ auds) iss) = Inr cs)"

lemma unverified_header_is_header:
  "unverified_header_and_iss lib a = Inr (header, iss) \<Longrightarrow> jl_get_unverified_header lib a = Inr header"
  by (auto simp: unverified_header_and_iss_def split: if_splits sum.splits json.splits)

lemma redeem_Inr:
  assumes "redeem_jwt_bearer_assertion lib get h e a c our tep st = (st', Inr uid)"
  shows "\<exists>iss t cs g db' cache. assertion_checked lib get e c a our tep st iss t cs \<and>
     (\<exists>header. unverified_header_and_iss lib a = Inr (header, iss)) \<and>
     enforce_replay e iss cs (app_jti_guard st) = (g, Inr ()) \<and>
     resolve_subject e h t cs (app_db st) = (db', Inr uid) \<and>
     st' = st\<lparr>app_jwks_cache := cache, app_jti_guard := g, app_db := db'\<rparr>"
proof -
  obtain header iss t where u: "unverified_header_and_iss lib a = Inr (header, iss)"
      "assertion_issuer (env_recursion e) c header iss (app_db st) = Inr t"
    using assms by (auto simp: redeem_jwt_bearer_assertion_def bind_res_def split: sum.splits)
  obtain st1 r where v: "verify_assertion lib get e a t header our tep st = (st1, r)" by fastforce
  obtain cs where r: "r = Inr cs"
    using assms u v by (cases r) (auto simp: redeem_jwt_bearer_assertion_def)
  obtain cache where st1: "st1 = st\<lparr>app_jwks_cache := cache\<rparr>" using verify_assertion_Inr v r by blast
  obtain g rr where g: "enforce_replay e iss cs (app_jti_guard st) = (g, rr)" by fastforce
  obtain db' rs where d: "resolve_subject e h t cs (app_db st) = (db', rs)" by fastforce
  have "rr = Inr ()" "rs = Inr uid" "st' = st1\<lparr>app_jti_guard := g, app_db := db'\<rparr>"
    using assms u v r st1 g d by (auto simp: redeem_jwt_bearer_assertion_def split: sum.splits)
  moreover have "assertion_checked lib get e c a our tep st iss t cs"
    using assertion_issuer_Inr [OF u(2)] verify_assertion_Inr [OF v [unfolded r]] get_trusted_issuer_Some [of iss "app_db st" t]
      unverified_header_is_header [OF u(1)]
    unfolding assertion_checked_def by auto
  ultimately show ?thesis using u(1) g d st1 by blast
qed

text \<open>
  C24. A redeemed jwt-bearer assertion was verified by the JWT library with an asymmetric algorithm and
  a public signing key that the issuer's registered \<open>jwks_uri\<close> serves, as issued by an enabled registry
  entry that admits this client, for an audience of this server; it has at most 300 seconds left to
  live; the returned user id is the one the assertion's subject names, or, where the issuer maps by
  address, that of an account with the assertion's verified address; it names an enabled user whose name
  and e-mail are on no denylist; and the database is unchanged unless the
  issuer may provision users, in which case at most one user was added, with the role \<open>user\<close>.
\<close>

theorem redeemed_assertion_is_verified:
  assumes "redeem_jwt_bearer_assertion lib get h e assertion c our_issuer token_endpoint st = (st', Inr uid)"
  shows "\<exists>iss t cs. assertion_checked lib get e c assertion our_issuer token_endpoint st iss t cs \<and>
    (\<exists>xp. numeric_date cs ''exp'' = Inr xp \<and> xp - env_time e \<le> 300) \<and>
    subject_named t cs uid (app_db st) \<and> subject_admitted (env_now e) uid (app_db st') \<and>
    (app_db st' = app_db st \<or>
     issuer_jit_provision t \<and> (\<exists>u. app_db st' = (app_db st)\<lparr>db_users := db_users (app_db st) @ [u]\<rparr> \<and> user_role u = ''user''))"
proof -
  obtain iss t cs g db' cache where r: "assertion_checked lib get e c assertion our_issuer token_endpoint st iss t cs"
      "enforce_replay e iss cs (app_jti_guard st) = (g, Inr ())"
      "resolve_subject e h t cs (app_db st) = (db', Inr uid)"
      "st' = st\<lparr>app_jwks_cache := cache, app_jti_guard := g, app_db := db'\<rparr>"
    using redeem_Inr [OF assms] by blast
  have "user_role (provisioned_user e h cs sub) = ''user''" for sub by (simp add: provisioned_user_def)
  then show ?thesis
    using r enforce_replay_Inr [OF r(2)] resolve_subject_Inr [OF r(3)]
    by (intro exI [of _ iss] exI [of _ t] exI [of _ cs]) auto
qed


section \<open>An assertion is redeemed at most once\<close>

definition rejects_expired :: "'k jwt_lib \<Rightarrow> env \<Rightarrow> bool" where
  \<comment> \<open>when asked to verify \<open>exp\<close>, \<open>jwt.decode\<close> accepts only a token that has not expired at the request\<close>
  "rejects_expired lib e \<longleftrightarrow>
     (\<forall>t k opts cs xp. jl_decode lib t k opts = Inr cs \<longrightarrow> do_verify_exp opts \<longrightarrow> numeric_date cs ''exp'' = Inr xp \<longrightarrow>
        env_time e < xp)"

definition guard_after :: "(time \<times> string \<times> string \<times> time) list \<Rightarrow> jti_guard \<Rightarrow> jti_guard" where
  "guard_after obs g = fold (\<lambda>(t, x) g. fst (jti_accepts t x g)) obs g"

lemma guard_after_live:
  "jti_invar g \<Longrightarrow> jti_live g k t \<Longrightarrow> list_all (\<lambda>p. fst p \<le> t) obs \<Longrightarrow>
     jti_invar (guard_after obs g) \<and> jti_live (guard_after obs g) k t"
proof (induction obs arbitrary: g)
  case (Cons p obs)
  obtain u x where p: "p = (u, x)" by (cases p) simp
  have "jti_invar (fst (jti_accepts u x g))" "jti_live (fst (jti_accepts u x g)) k t"
    using Cons.prems p jti_guard.invar_observe jti_guard.keeps_live by auto
  then show ?case using Cons.IH Cons.prems p by (simp add: guard_after_def)
qed (simp add: guard_after_def)

lemma redeem_claims:
  assumes "redeem_jwt_bearer_assertion lib get h e a c our tep st = (st', Inr uid)" and "reads_payload lib payload"
  shows "\<exists>iss jti xp. jget ''iss'' (payload a) = JStr iss \<and> jget ''jti'' (payload a) = JStr jti \<and>
     numeric_date (payload a) ''exp'' = Inr xp \<and> xp - env_time e \<le> 300 \<and> (rejects_expired lib e \<longrightarrow> env_time e < xp) \<and>
     jti_observe (env_mono e) (''jwt-bearer:'' @ iss) jti (max (xp - env_time e) 0) (app_jti_guard st) =
       (app_jti_guard st', Inr True)"
proof -
  obtain iss t cs g db' cache header where r: "assertion_checked lib get e c a our tep st iss t cs"
      "unverified_header_and_iss lib a = Inr (header, iss)" "enforce_replay e iss cs (app_jti_guard st) = (g, Inr ())"
      "st' = st\<lparr>app_jwks_cache := cache, app_jti_guard := g, app_db := db'\<rparr>"
    using redeem_Inr [OF assms(1)] by blast
  from r(1) obtain k alg auds where d: "jl_decode lib a k (bearer_decode_opts alg auds iss) = Inr cs"
    unfolding assertion_checked_def by blast
  have cs: "cs = payload a" using d assms(2) unfolding reads_payload_def by blast
  have "jget ''iss'' (payload a) = JStr iss"
    using r(2) assms(2)
    by (auto simp: unverified_header_and_iss_def reads_payload_def split: if_splits sum.splits json.splits)
  moreover have "env_time e < xp" if "rejects_expired lib e" "numeric_date cs ''exp'' = Inr xp" for xp
    using that d unfolding rejects_expired_def by (metis bearer_decode_opts_def decode_opts.select_convs(6))
  ultimately show ?thesis using enforce_replay_Inr [OF r(3)] r(4) cs by auto
qed

text \<open>
  A jwt-bearer assertion is redeemed at most once: after one redemption, and whatever else the
  replay guard observes in the meantime, every later presentation of the same assertion fails, by
  any client: within its remaining lifetime, at most 300 seconds, the guard still holds its \<open>jti\<close>,
  and after that the library rejects it as expired. This rests on the library returning the token's
  payload and checking \<open>exp\<close>, and on the monotonic clock not outrunning the wall clock.
\<close>

theorem jwt_bearer_single_use:
  assumes "redeem_jwt_bearer_assertion lib1 get1 h1 e1 assertion c1 our1 tep1 st1 = (st1', Inr uid)"
    and "jti_invar (app_jti_guard st1)"
    and "app_jti_guard st2 = guard_after obs (app_jti_guard st1')" and "list_all (\<lambda>p. fst p \<le> env_mono e2) obs"
    and "reads_payload lib1 payload" and "reads_payload lib2 payload" and "rejects_expired lib2 e2"
    and "env_mono e2 - env_mono e1 \<le> env_time e2 - env_time e1"
  shows "\<exists>x. snd (redeem_jwt_bearer_assertion lib2 get2 h2 e2 assertion c2 our2 tep2 st2) = Inl x"
proof (rule ccontr)
  assume "\<nexists>x. snd (redeem_jwt_bearer_assertion lib2 get2 h2 e2 assertion c2 our2 tep2 st2) = Inl x"
  then obtain st3 v where b: "redeem_jwt_bearer_assertion lib2 get2 h2 e2 assertion c2 our2 tep2 st2 = (st3, Inr v)"
    by (metis prod.collapse sum.exhaust_sel)
  obtain iss jti xp where p: "jget ''iss'' (payload assertion) = JStr iss" "jget ''jti'' (payload assertion) = JStr jti"
      "numeric_date (payload assertion) ''exp'' = Inr xp" and ttl: "xp - env_time e1 \<le> 300"
      and o1: "jti_observe (env_mono e1) (''jwt-bearer:'' @ iss) jti (max (xp - env_time e1) 0) (app_jti_guard st1) =
       (app_jti_guard st1', Inr True)"
    using redeem_claims [OF assms(1,5)] by blast
  have late: "env_time e2 < xp"
      and o2: "jti_observe (env_mono e2) (''jwt-bearer:'' @ iss) jti (max (xp - env_time e2) 0) (app_jti_guard st2) =
       (app_jti_guard st3, Inr True)"
    using redeem_claims [OF b assms(6)] assms(7) p by auto
  let ?x1 = "(''jwt-bearer:'' @ iss, jti, max (xp - env_time e1) 0)" and ?x2 = "(''jwt-bearer:'' @ iss, jti, max (xp - env_time e2) 0)"
  let ?k = "jti_key (''jwt-bearer:'' @ iss) jti"
  have a1: "jti_accepts (env_mono e1) ?x1 (app_jti_guard st1) = (app_jti_guard st1', True)"
    using o1 by (simp add: jti_accepts_def)
  have "jti_clamp_ttl (max (xp - env_time e1) 0) = max (xp - env_time e1) 0"
    using ttl by (simp add: jti_clamp_ttl_def MAX_JTI_TTL_SECS_def)
  moreover have "env_mono e2 < env_mono e1 + max (xp - env_time e1) 0" using assms(8) late by linarith
  ultimately have "jti_live (app_jti_guard st1') ?k (env_mono e2)"
    using jti_guard.accept_records [OF assms(2), of "env_mono e1" ?x1 "env_mono e2"] a1 by simp
  then have "jti_invar (app_jti_guard st2)" "jti_live (app_jti_guard st2) ?k (env_mono e2)"
    using guard_after_live [of "app_jti_guard st1'"] jti_guard.invar_observe [OF assms(2), of "env_mono e1" ?x1] a1
      assms(3,4) by simp_all
  moreover have "snd (jti_accepts (env_mono e2) ?x2 (app_jti_guard st2))" using o2 by (simp add: jti_accepts_def)
  ultimately show False using jti_guard.accept_not_live [of "app_jti_guard st2" "env_mono e2" ?x2] by simp
qed


section \<open>An evaluated redemption\<close>

definition bearer_payload :: claims where
  "bearer_payload = [(''iss'', JStr ''https://idp.example''), (''sub'', JStr ''u1''), (''exp'', JInt 200), (''iat'', JInt 0),
     (''jti'', JStr ''j1'')]"

definition bearer_lib :: "rat \<Rightarrow> unit jwt_lib" where
  \<comment> \<open>a library that sees one assertion, which expires after 200 seconds, at a given time\<close>
  "bearer_lib now =
     \<lparr>jl_get_unverified_header = (\<lambda>_. Inr [(''alg'', JStr ''RS256'')]), jl_decode_unverified = (\<lambda>_. Inr bearer_payload),
      jl_decode = (\<lambda>_ _ _. if now < 200 then Inr bearer_payload else Inl (JwtInvalidToken ''Signature has expired'')),
      jl_encode = (\<lambda>_ _ _ _. Inr []), jl_secret_key = (\<lambda>_. ()), jl_rsa_public_key = (\<lambda>_. ()),
      jl_from_jwk = (\<lambda>_ _. Inr ()), jl_is_public_key = (\<lambda>_. True)\<rparr>"

definition bearer_app :: app_state where
  "bearer_app = fresh_app ((empty_db Sqlite)\<lparr>db_issuers :=
     [\<lparr>issuer_pk = ''i1'', issuer_issuer = ''https://idp.example'', issuer_jwks_uri = ''https://idp.example/jwks'',
       issuer_allowed_audiences = [], issuer_subject_mapping = ''sub'', issuer_jit_provision = True,
       issuer_allowed_client_ids = [], issuer_enabled = True, issuer_created_at = 0, issuer_updated_at = 0\<rparr>]\<rparr>)"

definition bearer_get :: http_get where
  "bearer_get url = HttpReply True None ''{\"keys\": [{\"kty\": \"RSA\"}]}''"

definition bearer_redeem :: "datetime \<Rightarrow> app_state \<Rightarrow> app_state \<times> string outcome" where
  "bearer_redeem now st =
     redeem_jwt_bearer_assertion (bearer_lib (of_int now / 1000000)) bearer_get id (sample_env now ''j'') ''h.p.s''
       (mk_client ''1'' ''app'' ''s'' [] [] [] [] 0) ''https://as.example'' ''https://as.example/oauth/token'' st"

lemma bearer_json:
  "json_loads 30 ''{\"keys\": [{\"kty\": \"RSA\"}]}'' = Inr (JObj [(''keys'', JArr [JObj [(''kty'', JStr ''RSA'')]])])"
  "json_loads 30 ''[]'' = Inr (JArr [])"
  by code_simp+

lemma bearer_redeemed: "\<exists>st' uid. bearer_redeem 0 bearer_app = (st', Inr uid)"
proof -
  have big: "\<not> max_double \<le> 200" "\<not> max_double \<le> 0" by (simp_all add: max_double_def)
  show ?thesis
    by (simp add: bearer_redeem_def redeem_jwt_bearer_assertion_def unverified_header_and_iss_def bearer_lib_def
        bearer_payload_def jget_def assertion_issuer_def bearer_app_def fresh_app_def empty_db_def get_trusted_issuer_def
        allows_client_def bearer_json sample_env_def is_id_jag_typ_def verify_assertion_def ALLOWED_ALGS_def jwks_fetch_def
        fetch_from_url_def bearer_get_def parse_cache_control_max_age_def select_key_def usable_key_def may_verify_def
        alg_compatible_def allowed_audiences_list_def issuer_list_def numeric_date_def big env_time_def IAT_SKEW_SECS_def
        enforce_replay_def MAX_JTI_TTL_SECS_def jti_observe_def jti_sweep_expired_def sweep_def jti_guard_new_def
        DEFAULT_MAX_ENTRIES_def resolve_subject_def existing_subject_def get_user_by_id_def provision_subject_def
        reject_if_denylisted_def check_subject_denylisted_def find_denylist_entry_def verified_email_def save_user_def
        sql_insert_def Let_def)
qed

theorem redeemed_assertion_is_verified_witness:
  "\<exists>st' uid. bearer_redeem 0 bearer_app = (st', Inr uid) \<and> subject_admitted 0 uid (app_db st')"
proof -
  obtain st' uid where r: "bearer_redeem 0 bearer_app = (st', Inr uid)" using bearer_redeemed by blast
  from redeemed_assertion_is_verified [OF r [unfolded bearer_redeem_def]] r show ?thesis
    by (auto simp: sample_env_def)
qed

theorem jwt_bearer_single_use_witness:
  "\<exists>st' uid x. bearer_redeem 0 bearer_app = (st', Inr uid) \<and> snd (bearer_redeem 199000000 st') = Inl x"
proof -
  obtain st' uid where r: "bearer_redeem 0 bearer_app = (st', Inr uid)" using bearer_redeemed by blast
  have l: "reads_payload (bearer_lib n) (\<lambda>_. bearer_payload)" for n
    by (auto simp: reads_payload_def bearer_lib_def split: if_splits)
  have "numeric_date bearer_payload ''exp'' = Inr 200"
    by (simp add: numeric_date_def bearer_payload_def jget_def max_double_def)
  then have x: "rejects_expired (bearer_lib (of_int 199000000 / 1000000)) (sample_env 199000000 ''j'')"
    by (auto simp: rejects_expired_def bearer_lib_def env_time_def sample_env_def)
  have i: "jti_invar (app_jti_guard bearer_app)"
    using jti_invar_new by (simp add: bearer_app_def fresh_app_def)
  have "\<exists>x. snd (bearer_redeem 199000000 st') = Inl x"
    unfolding bearer_redeem_def
    by (rule jwt_bearer_single_use [OF r [unfolded bearer_redeem_def] i, where obs = "[]", OF _ _ l l x])
       (simp_all add: guard_after_def env_time_def sample_env_def)
  then show ?thesis using r by blast
qed

end
