(* ===== verification/Token_Endpoint.thy ===== *)
theory Token_Endpoint
  imports Dpop Jwt_Bearer
begin

text \<open>
  The token endpoint, \<open>POST /oauth/token\<close> (\<open>routes/token.py\<close>): client authentication with its
  penalty bucket, the DPoP preamble, and the six grants. A grant that reads a row, awaits, and
  then claims it is split at that await into a check and a commit, so that a theorem may put any
  other requests between the two; the handler is their composition.

  A handler maps the shared state to a new one and an outcome: a response, or an exception that
  no handler catches (the server answers 500). Rendering the JSON body is not modelled.
\<close>

section \<open>Requests and results\<close>

record 'k server =
  sv_lib :: "'k jwt_lib"
  sv_get :: http_get
  sv_hash_password :: "string \<Rightarrow> string"
  sv_config :: config
  sv_nonce_issuer :: dpop_nonce_issuer

type_synonym handled = "app_state \<times> http_response outcome"

record grant_request =
  gr_client :: client
  gr_form :: "string dict"
  gr_dpop :: "dpop_validated option"
  gr_cnf :: "json option"

definition reject :: "string \<Rightarrow> string \<Rightarrow> app_state \<Rightarrow> handled" where
  \<comment> \<open>\<open>return oauth_error(error, description)\<close>\<close>
  "reject error description st = (st, Inr (oauth_error error (Some description) 400))"

definition exc_response :: "exc \<Rightarrow> http_response outcome" where
  \<comment> \<open>\<open>except OAuthError as exc: return oauth_error(exc.error, exc.description, exc.status)\<close>\<close>
  "exc_response x = (case x of OAuthError e d s \<Rightarrow> Inr (oauth_error e d s) | PyError c \<Rightarrow> Inl (PyError c))"

definition or_respond :: "'a outcome \<Rightarrow> app_state \<Rightarrow> ('a \<Rightarrow> handled) \<Rightarrow> handled" where
  \<comment> \<open>a call inside such a \<open>try\<close>\<close>
  "or_respond m st k = (case m of Inl x \<Rightarrow> (st, exc_response x) | Inr a \<Rightarrow> k a)"

definition or_raise :: "'a outcome \<Rightarrow> app_state \<Rightarrow> ('a \<Rightarrow> handled) \<Rightarrow> handled" where
  \<comment> \<open>a call outside any \<open>try\<close>\<close>
  "or_raise m st k = (case m of Inl x \<Rightarrow> (st, Inl x) | Inr a \<Rightarrow> k a)"

definition json_ok :: "json \<Rightarrow> http_response" where
  "json_ok body = \<lparr>resp_status = 200, resp_headers = [(''Cache-Control'', ''no-store'')], resp_body = body\<rparr>"


section \<open>The penalty for failed client authentication\<close>

definition extract_client_id_for_penalty ::
  "'k jwt_lib \<Rightarrow> string dict \<Rightarrow> string option \<Rightarrow> string option outcome" where
  "extract_client_id_for_penalty lib form header =
     (let from_form =
        (if truthy (map_of form ''client_id'') then map_of form ''client_id''
         else (case map_of form ''client_assertion'' of Some a \<Rightarrow> unverified_assertion_subject lib a | None \<Rightarrow> None))
      in if truthy header \<and> starts_with ''basic '' (py_lower (the header)) then
           (let encoded = py_strip (drop 6 (the header))
            in if \<not> is_ascii encoded then Inl (PyError ''ValueError'')
               else (case Option.bind (b64decode encoded) utf8_decode of
                   None \<Rightarrow> Inr from_form
                 | Some decoded \<Rightarrow>
                     (case break_at (CHR '':'') decoded of
                        (_, None) \<Rightarrow> Inr from_form
                      | (cid, Some _) \<Rightarrow> Inr (if unquote_plus cid = [] then None else Some (unquote_plus cid)))))
         else Inr from_form)"

definition too_many_requests :: "int option \<Rightarrow> http_response" where
  "too_many_requests retry_after =
     \<lparr>resp_status = 429, resp_headers = [(''Cache-Control'', ''no-store'')],
      resp_body = JObj [(''error'', JStr ''too_many_requests''),
        (''error_description'', JStr (''Too many failed authentication attempts. Retry after '' @
           (case retry_after of Some n \<Rightarrow> str_int n | None \<Rightarrow> ''None'') @ ''s.'')),
        (''error_uri'', JNull)]\<rparr>"

definition invalid_client_response :: "env \<Rightarrow> string option \<Rightarrow> string option \<Rightarrow> app_state \<Rightarrow> handled" where
  "invalid_client_response e cid description st =
     (case app_invalid_client_limiter st of
        None \<Rightarrow> (st, Inr (oauth_error ''invalid_client'' description 400))
      | Some l \<Rightarrow>
          if \<not> truthy cid then (st, Inr (oauth_error ''invalid_client'' description 400))
          else
            (let (l', r) = tb_check (env_mono e) (timestamp_int (env_now e)) (the cid) l;
                 st1 = st\<lparr>app_invalid_client_limiter := Some l'\<rparr>
             in if rl_allowed r then (st1, Inr (oauth_error ''invalid_client'' description 400))
                else (st1, Inr (too_many_requests (rl_retry_after r)))))"


section \<open>Helpers of the grants\<close>

definition MIN_VERIFIER_LEN :: nat where "MIN_VERIFIER_LEN = 43"

definition MAX_VERIFIER_LEN :: nat where "MAX_VERIFIER_LEN = 128"

definition TOKEN_EXCHANGE_GRANT :: string where
  "TOKEN_EXCHANGE_GRANT = ''urn:ietf:params:oauth:grant-type:token-exchange''"

definition DEVICE_CODE_GRANT :: string where
  "DEVICE_CODE_GRANT = ''urn:ietf:params:oauth:grant-type:device_code''"

definition ACCESS_TOKEN_TYPE_URN :: string where
  "ACCESS_TOKEN_TYPE_URN = ''urn:ietf:params:oauth:token-type:access_token''"

definition KNOWN_GRANT_TYPES :: "string list" where
  "KNOWN_GRANT_TYPES = [''authorization_code'', ''client_credentials'', ''refresh_token'', DEVICE_CODE_GRANT,
     TOKEN_EXCHANGE_GRANT, JWT_BEARER_GRANT]"

definition pkce_challenge :: "string \<Rightarrow> string" where
  "pkce_challenge verifier = urlsafe_b64encode_nopad (sha256 (utf8 verifier))"

definition pkce_matches :: "string \<Rightarrow> string \<Rightarrow> bool" where
  "pkce_matches computed stored \<longleftrightarrow> utf8 computed = utf8 stored"

definition salvage_old_cnf :: "'k jwt_lib \<Rightarrow> string \<Rightarrow> json option" where
  "salvage_old_cnf lib access_token =
     (case jget ''cnf'' (decode_unverified_claims lib access_token) of JObj ps \<Rightarrow> Some (JObj ps) | _ \<Rightarrow> None)"

definition salvage_old_aud :: "'k jwt_lib \<Rightarrow> string \<Rightarrow> string list option" where
  "salvage_old_aud lib access_token =
     (case jget ''aud'' (decode_unverified_claims lib access_token) of
        JStr a \<Rightarrow> Some [a]
      | JArr xs \<Rightarrow> if xs \<noteq> [] \<and> list_all is_jstr xs then Some (map jstr_of xs) else None
      | _ \<Rightarrow> None)"

definition with_dpop_nonce ::
  "'k server \<Rightarrow> env \<Rightarrow> grant_request \<Rightarrow> http_response \<Rightarrow> http_response outcome" where
  "with_dpop_nonce sv e gr r =
     (if client_dpop_nonce_required (gr_client gr) \<and> gr_dpop gr \<noteq> None
      then bind_res (issue_nonce e (sv_nonce_issuer sv)) (\<lambda>n.
             Inr (r\<lparr>resp_headers := resp_headers r @ [(''DPoP-Nonce'', n)]\<rparr>))
      else Inr r)"

definition issue_token ::
  "'k server \<Rightarrow> env \<Rightarrow> client \<Rightarrow> issue_args \<Rightarrow> app_state \<Rightarrow> app_state \<times> token_response outcome" where
  \<comment> \<open>\<open>TokenService.issue\<close>, the counter and the \<open>token_created\<close> event\<close>
  "issue_token sv e c a st =
     (case issue (sv_lib sv) e (sv_config sv) (Some (app_keyset st)) c a (app_db st) of
        Inl x \<Rightarrow> (st, Inl x)
      | Inr (db', r) \<Rightarrow>
          (emit_event ''token_created'' ''info'' (ia_user_id a) (Some (client_client_id c))
             [(''scope'', ia_scope a), (''has_refresh_token'', if ia_with_refresh a then ''true'' else ''false'')]
             (st\<lparr>app_db := db', app_token_issued_total := app_token_issued_total st + 1\<rparr>), Inr r))"

definition mint_args_for ::
  "string \<Rightarrow> user option \<Rightarrow> string \<Rightarrow> string \<Rightarrow> string option \<Rightarrow> string option \<Rightarrow> claims_selection option \<Rightarrow> mint_args" where
  "mint_args_for user_id u scope access nonce code sel =
     \<lparr>ma_user_id = user_id, ma_user = u, ma_scope = scope, ma_nonce = nonce, ma_access_token = Some access,
      ma_code = code, ma_acr = None, ma_amr = None, ma_auth_time = None, ma_selection = sel\<rparr>"

definition finish ::
  "'k server \<Rightarrow> env \<Rightarrow> grant_request \<Rightarrow> token_response \<Rightarrow> app_state \<Rightarrow> handled" where
  \<comment> \<open>the JSON response with \<open>no-store\<close> and, where due, a fresh nonce\<close>
  "finish sv e gr r st = (st, with_dpop_nonce sv e gr (json_ok (token_response_body r)))"

definition finish_with_id_token ::
  "'k server \<Rightarrow> env \<Rightarrow> grant_request \<Rightarrow> string option \<Rightarrow> string \<Rightarrow> string option \<Rightarrow> string option
   \<Rightarrow> claims_selection option \<Rightarrow> token_response \<Rightarrow> app_state \<Rightarrow> handled" where
  \<comment> \<open>an id token is added for a given user and the scope \<open>openid\<close>; a \<open>ValueError\<close> from the minter, which
      is the missing RS256 key, is a \<open>server_error\<close>\<close>
  "finish_with_id_token sv e gr user_id scope nonce code sel r st =
     (if ''openid'' \<in> set (py_split scope) \<and> user_id \<noteq> None then
        (case mint_id_token (sv_lib sv) e (sv_config sv) (Some (app_keyset st)) (gr_client gr)
                (mint_args_for (the user_id) (get_user_by_id (the user_id) (app_db st)) scope (tr_access_token r) nonce code sel) of
           Inr t \<Rightarrow> finish sv e gr (r\<lparr>tr_id_token := Some t\<rparr>) st
         | Inl x \<Rightarrow>
             if x = PyError ''ValueError''
             then (st, Inr (oauth_error ''server_error'' (Some ''RS256 configured but private key is missing'') 500))
             else (st, Inl x))
      else finish sv e gr r st)"

definition require_grant :: "env \<Rightarrow> string \<Rightarrow> client \<Rightarrow> app_state \<Rightarrow> handled \<Rightarrow> handled" where
  \<comment> \<open>\<open>if grant_type not in client.grant_type_list()\<close>\<close>
  "require_grant e g c st k =
     or_raise (client_has_grant (env_recursion e) g c) st (\<lambda>ok.
       if ok then k else reject ''unauthorized_client'' ''client is not authorized for this grant type'' st)"

definition choose_scope :: "string option \<Rightarrow> string \<Rightarrow> string \<Rightarrow> string outcome" where
  \<comment> \<open>the requested scope when given, which must be within the allowed one\<close>
  "choose_scope requested allowed message =
     (if truthy requested then
        (if scope_is_subset (the requested) allowed then Inr (the requested)
         else Inl (oauth_exc ''invalid_scope'' message))
      else Inr allowed)"

definition no_refresh_args :: "string option \<Rightarrow> string \<Rightarrow> json option \<Rightarrow> string option \<Rightarrow> issue_args" where
  "no_refresh_args user_id scope cnf resource =
     \<lparr>ia_user_id = user_id, ia_scope = scope, ia_with_refresh = False, ia_token_family = None, ia_cnf = cnf,
      ia_authorization_details = None, ia_act = None, ia_resource = resource, ia_audience = None\<rparr>"

definition same_jkt :: "dpop_validated option \<Rightarrow> string \<Rightarrow> bool" where
  "same_jkt v jkt = (case v of None \<Rightarrow> False | Some d \<Rightarrow> utf8 (dv_jkt d) = utf8 jkt)"

definition revoke_family :: "string option \<Rightarrow> app_state \<Rightarrow> app_state" where
  \<comment> \<open>\<open>if family: await storage.revoke_token_family(family)\<close>\<close>
  "revoke_family family st =
     (if truthy family then st\<lparr>app_db := snd (revoke_token_family (the family) (app_db st))\<rparr> else st)"


section \<open>client\_credentials\<close>

definition client_credentials_grant :: "'k server \<Rightarrow> env \<Rightarrow> grant_request \<Rightarrow> app_state \<Rightarrow> handled" where
  "client_credentials_grant sv e gr st =
     (let c = gr_client gr; form = gr_form gr; cfg = sv_config sv
      in if is_public c then
           invalid_client_response e (Some (client_client_id c))
             (Some ''Public clients cannot use the client_credentials grant'') st
         else require_grant e ''client_credentials'' c st (
           or_respond (choose_scope (map_of form ''scope'') (client_scope c) ''requested scope exceeds client scope'') st (\<lambda>scope.
           or_respond (case map_of form ''authorization_details'' of
               None \<Rightarrow> Inr None
             | Some raw \<Rightarrow> bind_res (validate_authorization_details (env_recursion e) raw (cfg_rar_types_supported cfg)) (\<lambda>v. Inr (Some v)))
             st (\<lambda>details.
           or_respond (validate_resource (map_of form ''resource'')) st (\<lambda>resource.
             let (st1, r) = issue_token sv e c
               ((no_refresh_args None scope (gr_cnf gr) resource)\<lparr>ia_authorization_details := details\<rparr>) st
             in or_raise r st1 (\<lambda>tr. finish sv e gr tr st1))))))"


section \<open>authorization\_code\<close>

definition check_pkce :: "string option \<Rightarrow> string option \<Rightarrow> unit outcome" where
  \<comment> \<open>the presented verifier against the stored challenge\<close>
  "check_pkce verifier challenge =
     (if \<not> truthy challenge then Inl (oauth_exc ''invalid_grant'' ''PKCE is required'')
      else if \<not> truthy verifier then Inl (oauth_exc ''invalid_grant'' ''code_verifier is missing'')
      else if \<not> (MIN_VERIFIER_LEN \<le> length (the verifier) \<and> length (the verifier) \<le> MAX_VERIFIER_LEN)
        then Inl (oauth_exc ''invalid_request'' ''code_verifier must be between 43 and 128 characters'')
      else if \<not> pkce_matches (pkce_challenge (the verifier)) (the challenge)
        then Inl (oauth_exc ''invalid_grant'' ''code_verifier does not match code_challenge'')
      else Inr ())"

definition redeemed_details ::
  "env \<Rightarrow> config \<Rightarrow> string option \<Rightarrow> string option \<Rightarrow> json option outcome" where
  \<comment> \<open>what was consented to wins; a request may not alter it\<close>
  "redeemed_details e cfg stored form =
     (if stored \<noteq> None \<and> form \<noteq> None \<and> form \<noteq> stored
      then Inl (oauth_exc ''invalid_authorization_details'' ''authorization_details must not be altered at redemption'')
      else (case (if stored \<noteq> None then stored else form) of
          None \<Rightarrow> Inr None
        | Some raw \<Rightarrow> bind_res (validate_authorization_details (env_recursion e) raw (cfg_rar_types_supported cfg)) (\<lambda>v. Inr (Some v))))"

type_synonym 'p checked = "app_state \<times> (http_response outcome + 'p)"

definition refuse :: "string \<Rightarrow> string \<Rightarrow> app_state \<Rightarrow> 'p checked" where
  "refuse error description st = (st, Inl (Inr (oauth_error error (Some description) 400)))"

definition authorization_code_check ::
  "'k server \<Rightarrow> env \<Rightarrow> grant_request \<Rightarrow> app_state \<Rightarrow> (authorization_code \<times> json option) checked" where
  \<comment> \<open>everything up to the claim of the code\<close>
  "authorization_code_check sv e gr st =
     (let form = gr_form gr; c = gr_client gr; code_value = map_of form ''code''
      in case (if truthy code_value then get_authorization_code (the code_value) (app_db st) else None) of
           None \<Rightarrow> refuse ''invalid_grant'' ''authorization code not found'' st
         | Some ac \<Rightarrow>
             if code_client_id ac \<noteq> client_client_id c
             then refuse ''invalid_grant'' ''authorization code was not issued to this client'' st
             else if code_expires_at ac < env_now e
             then refuse ''invalid_grant'' ''authorization code has expired''
                    (emit_event ''authorization_code_expired'' ''warning'' (Some (code_user_id ac)) (Some (code_client_id ac)) [] st)
             else if code_used ac
             then refuse ''invalid_grant'' ''authorization code has already been used'' (revoke_family (code_token_family ac) st)
             else if map_of form ''redirect_uri'' \<noteq> Some (code_redirect_uri ac)
             then refuse ''invalid_grant'' ''redirect_uri does not match the authorization request'' st
             else
               (case bind_res (check_pkce (map_of form ''code_verifier'') (code_code_challenge ac)) (\<lambda>_.
                       redeemed_details e (sv_config sv) (code_authorization_details ac) (map_of form ''authorization_details'')) of
                  Inl x \<Rightarrow> (st, Inl (exc_response x))
                | Inr details \<Rightarrow> (st, Inr (ac, details))))"

definition authorization_code_commit ::
  "'k server \<Rightarrow> env \<Rightarrow> grant_request \<Rightarrow> authorization_code \<times> json option \<Rightarrow> app_state \<Rightarrow> handled" where
  \<comment> \<open>from the claim of the code on\<close>
  "authorization_code_commit sv e gr p st =
     (let (ac, details) = p; (claimed, db1) = mark_authorization_code_used (code_code ac) (app_db st);
          st1 = st\<lparr>app_db := db1\<rparr>
      in if claimed = 0
         then reject ''invalid_grant'' ''authorization code has already been used'' (revoke_family (code_token_family ac) st1)
         else if code_dpop_jkt ac \<noteq> None \<and> \<not> same_jkt (gr_dpop gr) (the (code_dpop_jkt ac))
         then reject ''invalid_grant'' ''authorization code is bound to a different DPoP key'' st1
         else
           (let st2 = emit_event ''authorization_code_validated'' ''info'' (Some (code_user_id ac)) (Some (code_client_id ac)) [] st1;
                (st3, r) = issue_token sv e (gr_client gr)
                  \<lparr>ia_user_id = Some (code_user_id ac), ia_scope = code_scope ac, ia_with_refresh = True,
                   ia_token_family = code_token_family ac, ia_cnf = gr_cnf gr, ia_authorization_details = details,
                   ia_act = None, ia_resource = code_resource ac, ia_audience = None\<rparr> st2
            in or_raise r st3 (\<lambda>tr.
                 finish_with_id_token sv e gr (Some (code_user_id ac)) (code_scope ac) (code_nonce ac) (Some (code_code ac))
                   (Some (select_id_token_claims (env_recursion e) (code_claims_request ac) (code_scope ac))) tr st3)))"

definition run_checked :: "'p checked \<Rightarrow> ('p \<Rightarrow> app_state \<Rightarrow> handled) \<Rightarrow> handled" where
  "run_checked ch k = (case ch of (st, Inl r) \<Rightarrow> (st, r) | (st, Inr p) \<Rightarrow> k p st)"

definition authorization_code_grant :: "'k server \<Rightarrow> env \<Rightarrow> grant_request \<Rightarrow> app_state \<Rightarrow> handled" where
  "authorization_code_grant sv e gr st =
     require_grant e ''authorization_code'' (gr_client gr) st
       (run_checked (authorization_code_check sv e gr st) (authorization_code_commit sv e gr))"


section \<open>refresh\_token\<close>

record refresh_plan =
  rp_old :: token
  rp_scope :: string
  rp_resource :: "string option"
  rp_audience :: "string list option"
  rp_cnf :: "json option"

definition refresh_audience ::
  "string option \<Rightarrow> string list option \<Rightarrow> string list option outcome" where
  \<comment> \<open>the audience carried forward; a resource outside the granted audience is refused\<close>
  "refresh_audience resource old_audience =
     (case (old_audience, resource) of
        (None, _) \<Rightarrow> Inr None
      | (Some aud, Some r) \<Rightarrow>
          if r \<in> set aud then Inr None
          else Inl (oauth_exc ''invalid_target'' ''resource is not among the audiences originally granted'')
      | (Some aud, None) \<Rightarrow> Inr (Some aud))"

definition bound_jkt :: "json option \<Rightarrow> string option" where
  \<comment> \<open>the non-empty string \<open>jkt\<close> of a confirmation claim\<close>
  "bound_jkt cnf =
     (case cnf of Some (JObj ps) \<Rightarrow> (case jget ''jkt'' ps of JStr j \<Rightarrow> if j = [] then None else Some j | _ \<Rightarrow> None) | _ \<Rightarrow> None)"

definition refresh_plan_for ::
  "'k server \<Rightarrow> env \<Rightarrow> grant_request \<Rightarrow> token \<Rightarrow> refresh_plan outcome" where
  \<comment> \<open>the checks on a live refresh token, none of which changes state\<close>
  "refresh_plan_for sv e gr old =
     (let form = gr_form gr; cnf = salvage_old_cnf (sv_lib sv) (token_access_token old)
      in if env_now e \<ge> token_created_at old + usecs (cfg_refresh_token_ttl_secs (sv_config sv))
         then Inl (oauth_exc ''invalid_grant'' ''refresh token has expired'')
         else bind_res (choose_scope (map_of form ''scope'') (token_scope old) ''requested scope exceeds the original grant'') (\<lambda>scope.
           bind_res (validate_resource (map_of form ''resource'')) (\<lambda>resource.
           bind_res (refresh_audience resource (salvage_old_aud (sv_lib sv) (token_access_token old))) (\<lambda>audience.
             if bound_jkt cnf \<noteq> None \<and> is_public (gr_client gr) \<and> \<not> same_jkt (gr_dpop gr) (the (bound_jkt cnf))
             then Inl (oauth_exc ''invalid_grant'' ''refresh token is bound to a DPoP key; present a proof with the same key'')
             else Inr \<lparr>rp_old = old, rp_scope = scope, rp_resource = resource, rp_audience = audience, rp_cnf = cnf\<rparr>))))"

definition refresh_check :: "'k server \<Rightarrow> env \<Rightarrow> grant_request \<Rightarrow> app_state \<Rightarrow> refresh_plan checked" where
  \<comment> \<open>everything up to the revocation of the old token\<close>
  "refresh_check sv e gr st =
     (let value = map_of (gr_form gr) ''refresh_token''
      in case (if truthy value then get_token_by_refresh_token (the value) (app_db st) else None) of
           None \<Rightarrow> refuse ''invalid_grant'' ''refresh token not found''
                     (st\<lparr>app_failed_authentications := app_failed_authentications st + 1\<rparr>)
         | Some old \<Rightarrow>
             if token_client_id old \<noteq> client_client_id (gr_client gr)
             then refuse ''invalid_grant'' ''refresh token does not belong to this client'' st
             else if token_revoked old
             then refuse ''invalid_grant'' ''refresh token has been revoked'' (revoke_family (token_token_family old) st)
             else (case refresh_plan_for sv e gr old of
                 Inl x \<Rightarrow> (st, Inl (exc_response x))
               | Inr p \<Rightarrow> (st, Inr p)))"

definition refresh_commit :: "'k server \<Rightarrow> env \<Rightarrow> grant_request \<Rightarrow> refresh_plan \<Rightarrow> app_state \<Rightarrow> handled" where
  "refresh_commit sv e gr p st =
     (let old = rp_old p; family = or_str (token_token_family old) (env_uuid e 0);
          st1 = st\<lparr>app_db := revoke_token (token_access_token old) (app_db st)\<rparr>;
          (st2, r) = issue_token sv e (gr_client gr)
            \<lparr>ia_user_id = token_user_id old, ia_scope = rp_scope p, ia_with_refresh = True, ia_token_family = Some family,
             ia_cnf = rp_cnf p, ia_authorization_details = None, ia_act = None, ia_resource = rp_resource p,
             ia_audience = rp_audience p\<rparr> st1
      in or_raise r st2 (\<lambda>tr.
           finish_with_id_token sv e gr (if truthy (token_user_id old) then token_user_id old else None) (rp_scope p)
             None None None tr st2))"

definition refresh_token_grant :: "'k server \<Rightarrow> env \<Rightarrow> grant_request \<Rightarrow> app_state \<Rightarrow> handled" where
  "refresh_token_grant sv e gr st =
     require_grant e ''refresh_token'' (gr_client gr) st
       (run_checked (refresh_check sv e gr st) (refresh_commit sv e gr))"


section \<open>device\_code\<close>

definition slow_down_response :: "int \<Rightarrow> http_response" where
  "slow_down_response interval =
     \<lparr>resp_status = 400, resp_headers = [(''Cache-Control'', ''no-store'')],
      resp_body = JObj [(''error'', JStr ''slow_down''), (''error_description'', JStr ''polling too frequently; increase interval''),
        (''interval'', JInt interval)]\<rparr>"

definition device_status ::
  "env \<Rightarrow> device_authorization \<Rightarrow> string option \<Rightarrow> string option outcome" where
  \<comment> \<open>the state of the authorization, then the \<open>resource\<close> parameter\<close>
  "device_status e d resource =
     (if device_expires_at d \<le> env_now e then Inl (oauth_exc ''expired_token'' ''device_code has expired'')
      else if device_denied d then Inl (oauth_exc ''access_denied'' ''user denied the device authorization request'')
      else if device_used d then Inl (oauth_exc ''invalid_grant'' ''device_code has already been redeemed'')
      else if \<not> device_approved d then Inl (oauth_exc ''authorization_pending'' ''authorization request is still pending'')
      else validate_resource resource)"

definition device_code_check ::
  "'k server \<Rightarrow> env \<Rightarrow> grant_request \<Rightarrow> app_state \<Rightarrow> (device_authorization \<times> string option) checked" where
  "device_code_check sv e gr st =
     (let form = gr_form gr; value = map_of form ''device_code''
      in if \<not> truthy value then refuse ''invalid_request'' ''device_code is required'' st
         else (case get_device_authorization_by_device_code (the value) (app_db st) of
             None \<Rightarrow> refuse ''invalid_grant'' ''device_code not found for this client'' st
           | Some d \<Rightarrow>
               if device_client_id d \<noteq> client_client_id (gr_client gr)
               then refuse ''invalid_grant'' ''device_code not found for this client'' st
               else
                 (let (polls, slow) = poll_observe (env_mono e) (device_device_code d) (device_interval_seconds d) (app_device_poll st);
                      st1 = st\<lparr>app_device_poll := polls\<rparr>
                  in case slow of
                       Some interval \<Rightarrow> (st1, Inl (Inr (slow_down_response interval)))
                     | None \<Rightarrow>
                         (case device_status e d (map_of form ''resource'') of
                            Inl x \<Rightarrow> (st1, Inl (exc_response x))
                          | Inr resource \<Rightarrow> (st1, Inr (d, resource))))))"

definition device_code_commit ::
  "'k server \<Rightarrow> env \<Rightarrow> grant_request \<Rightarrow> device_authorization \<times> string option \<Rightarrow> app_state \<Rightarrow> handled" where
  "device_code_commit sv e gr p st =
     (let (d, resource) = p; (claimed, db1) = mark_device_authorization_used (device_device_code d) (app_db st);
          st1 = st\<lparr>app_db := db1\<rparr>
      in if claimed = 0 then reject ''invalid_grant'' ''device_code has already been redeemed'' st1
         else
           (let st2 = st1\<lparr>app_device_poll := poll_forget (device_device_code d) (app_device_poll st1)\<rparr>;
                (st3, r) = issue_token sv e (gr_client gr)
                  \<lparr>ia_user_id = device_user_id d, ia_scope = device_scope d, ia_with_refresh = True,
                   ia_token_family = Some (env_uuid e 0), ia_cnf = None, ia_authorization_details = None, ia_act = None,
                   ia_resource = resource, ia_audience = None\<rparr> st2
            in or_raise r st3 (\<lambda>tr.
                 finish_with_id_token sv e gr (if truthy (device_user_id d) then device_user_id d else None) (device_scope d)
                   None None None tr st3)))"

definition device_code_grant :: "'k server \<Rightarrow> env \<Rightarrow> grant_request \<Rightarrow> app_state \<Rightarrow> handled" where
  "device_code_grant sv e gr st =
     require_grant e DEVICE_CODE_GRANT (gr_client gr) st
       (run_checked (device_code_check sv e gr st) (device_code_commit sv e gr))"


section \<open>token-exchange\<close>

definition exchange_act :: "'k jwt_lib \<Rightarrow> client \<Rightarrow> string \<Rightarrow> json" where
  \<comment> \<open>the delegation chain: the prior \<open>act\<close> is nested unless it already names this client\<close>
  "exchange_act lib c subject_token =
     JObj ((''sub'', JStr (client_client_id c)) #
       (case jget ''act'' (decode_unverified_claims lib subject_token) of
          JObj prior \<Rightarrow> if jget ''sub'' prior \<noteq> JStr (client_client_id c) then [(''act'', JObj prior)] else []
        | _ \<Rightarrow> []))"

definition exchange_subject :: "env \<Rightarrow> string dict \<Rightarrow> database \<Rightarrow> token outcome" where
  \<comment> \<open>the parameters and the lookup of the subject token\<close>
  "exchange_subject e form db =
     (let value = map_of form ''subject_token''; only = '': only '' @ quoted ACCESS_TOKEN_TYPE_URN @ '' is supported''
      in if \<not> truthy value then Inl (oauth_exc ''invalid_request'' ''Missing subject_token'')
         else if map_of form ''subject_token_type'' \<noteq> Some ACCESS_TOKEN_TYPE_URN
           then Inl (oauth_exc ''invalid_request'' (''unsupported subject_token_type'' @ only))
         else if map_of form ''requested_token_type'' \<noteq> None \<and> map_of form ''requested_token_type'' \<noteq> Some ACCESS_TOKEN_TYPE_URN
           then Inl (oauth_exc ''invalid_request'' (''unsupported requested_token_type'' @ only))
         else (case get_token_by_access_token (the value) db of
             None \<Rightarrow> Inl (oauth_exc ''invalid_grant'' ''subject_token not found or expired'')
           | Some t \<Rightarrow>
               if token_revoked t \<or> token_expires_at t \<le> env_now e
               then Inl (oauth_exc ''invalid_grant'' ''subject_token is expired or revoked'')
               else Inr t))"

definition exchange_body :: "token_response \<Rightarrow> json option \<Rightarrow> json" where
  "exchange_body r act =
     JObj ([(''access_token'', JStr (tr_access_token r)), (''issued_token_type'', JStr ACCESS_TOKEN_TYPE_URN),
            (''token_type'', JStr (tr_token_type r)), (''expires_in'', JInt (tr_expires_in r)),
            (''scope'', case tr_scope r of Some s \<Rightarrow> JStr s | None \<Rightarrow> JNull)] @ opt_member ''act'' id act)"

definition token_exchange_grant :: "'k server \<Rightarrow> env \<Rightarrow> grant_request \<Rightarrow> app_state \<Rightarrow> handled" where
  "token_exchange_grant sv e gr st =
     (let c = gr_client gr; form = gr_form gr
      in require_grant e TOKEN_EXCHANGE_GRANT c st (
         if is_public c then
           invalid_client_response e (Some (client_client_id c)) (Some ''Public clients cannot use token-exchange'') st
         else
           or_respond (exchange_subject e form (app_db st)) st (\<lambda>subject.
           or_respond (choose_scope (map_of form ''scope'') (token_scope subject) ''requested scope exceeds client permissions'') st (\<lambda>scope.
             let act = exchange_act (sv_lib sv) c (the (map_of form ''subject_token''))
             in case check_depth act ''act'' 10 of
                  Inl (LimitError d) \<Rightarrow> reject ''invalid_request'' d st
                | Inl (JsonFailure x) \<Rightarrow> (st, Inl (json_exc x))
                | Inr _ \<Rightarrow>
                    or_respond (validate_resource (map_of form ''resource'')) st (\<lambda>resource.
                      let (st1, r) = issue_token sv e c
                        ((no_refresh_args (token_user_id subject) scope (gr_cnf gr) resource)\<lparr>ia_act := Some act\<rparr>) st
                      in or_raise r st1 (\<lambda>tr.
                           (st1, with_dpop_nonce sv e gr
                              (json_ok (exchange_body tr (if map_of form ''actor_token'' \<noteq> None then Some act else None))))))))))"


section \<open>jwt-bearer\<close>

definition jwt_bearer_grant :: "'k server \<Rightarrow> env \<Rightarrow> grant_request \<Rightarrow> app_state \<Rightarrow> handled" where
  "jwt_bearer_grant sv e gr st =
     (let c = gr_client gr; form = gr_form gr; cfg = sv_config sv; assertion = map_of form ''assertion''
      in require_grant e JWT_BEARER_GRANT c st (
         if is_public c then
           invalid_client_response e (Some (client_client_id c)) (Some ''Public clients cannot use the jwt-bearer grant'') st
         else if \<not> truthy assertion then reject ''invalid_request'' ''assertion is required'' st
         else
           (let (st1, r) = redeem_jwt_bearer_assertion (sv_lib sv) (sv_get sv) (sv_hash_password sv) e (the assertion) c
                  (rstrip_char (CHR ''/'') (cfg_issuer cfg)) (token_endpoint_url cfg) st
            in or_respond r st1 (\<lambda>user_id.
               or_respond (choose_scope (map_of form ''scope'') (client_scope c) ''requested scope exceeds client scope'') st1 (\<lambda>scope.
               or_respond (validate_resource (map_of form ''resource'')) st1 (\<lambda>resource.
                 let (st2, tr) = issue_token sv e c (no_refresh_args (Some user_id) scope (gr_cnf gr) resource) st1
                 in or_raise tr st2 (\<lambda>t. finish sv e gr t st2)))))))"


section \<open>The handler\<close>

definition dpop_phase ::
  "'k server \<Rightarrow> env \<Rightarrow> http_request \<Rightarrow> client \<Rightarrow> app_state \<Rightarrow> dpop_validated option checked" where
  \<comment> \<open>the optional proof, validated after client authentication, and the nonce it may need\<close>
  "dpop_phase sv e rq c st =
     (case read_dpop_header rq of
        Inl x \<Rightarrow> refuse (dpop_err x) (dpop_desc x) st
      | Inr None \<Rightarrow> (st, Inr None)
      | Inr (Some proof) \<Rightarrow>
          (let (store, r) = validate_dpop_proof (sv_lib sv) e proof ''POST'' (token_endpoint_url (sv_config sv)) None (app_dpop_replay st);
               st1 = st\<lparr>app_dpop_replay := store\<rparr>
           in case r of
                Inl (DpopFail x) \<Rightarrow> refuse (dpop_err x) (dpop_desc x) st1
              | Inl (DpopCrash x) \<Rightarrow> (st1, Inl (Inl x))
              | Inr v \<Rightarrow>
                  if \<not> client_dpop_nonce_required c then (st1, Inr (Some v))
                  else (case enforce_dpop_nonce e v (sv_nonce_issuer sv) of
                      Inl (DpopFail x) \<Rightarrow> refuse (dpop_err x) (dpop_desc x) st1
                    | Inl (DpopCrash x) \<Rightarrow> (st1, Inl (Inl x))
                    | Inr (Some resp) \<Rightarrow> (st1, Inl (Inr resp))
                    | Inr None \<Rightarrow> (st1, Inr (Some v)))))"

definition request_cnf :: "config \<Rightarrow> http_request \<Rightarrow> dpop_validated option \<Rightarrow> json option" where
  \<comment> \<open>a DPoP key wins over a client certificate\<close>
  "request_cnf cfg rq v =
     (case v of
        Some d \<Rightarrow> Some (JObj [(''jkt'', JStr (dv_jkt d))])
      | None \<Rightarrow> (case fst (mtls_headers rq cfg) of
            Some tp \<Rightarrow> Some (JObj [(''x5t#S256'', JStr tp)])
          | None \<Rightarrow> None))"

definition dispatch :: "'k server \<Rightarrow> env \<Rightarrow> string \<Rightarrow> grant_request \<Rightarrow> app_state \<Rightarrow> handled" where
  "dispatch sv e g gr st =
     (if g = ''client_credentials'' then client_credentials_grant sv e gr st
      else if g = ''authorization_code'' then authorization_code_grant sv e gr st
      else if g = ''refresh_token'' then refresh_token_grant sv e gr st
      else if g = DEVICE_CODE_GRANT then device_code_grant sv e gr st
      else if g = TOKEN_EXCHANGE_GRANT then token_exchange_grant sv e gr st
      else if g = JWT_BEARER_GRANT then jwt_bearer_grant sv e gr st
      else reject ''server_error'' ''unreachable'' st)"

definition auth_failure :: "'k server \<Rightarrow> env \<Rightarrow> http_request \<Rightarrow> exc \<Rightarrow> app_state \<Rightarrow> handled" where
  \<comment> \<open>\<open>except OAuthError\<close> around client authentication\<close>
  "auth_failure sv e rq x st =
     (case x of
        PyError _ \<Rightarrow> (st, Inl x)
      | OAuthError er d s \<Rightarrow>
          (let st1 = st\<lparr>app_failed_authentications := app_failed_authentications st + 1\<rparr>
           in if er = ''invalid_client'' then
                or_raise (extract_client_id_for_penalty (sv_lib sv) (rq_form rq) (header_get ''authorization'' rq)) st1 (\<lambda>cid.
                  invalid_client_response e cid d st1)
              else (st1, Inr (oauth_error er d s))))"

definition token_route :: "'k server \<Rightarrow> env \<Rightarrow> http_request \<Rightarrow> app_state \<Rightarrow> handled" where
  \<comment> \<open>\<open>POST /oauth/token\<close>\<close>
  "token_route sv e rq st =
     (let cfg = sv_config sv; grant_type = form_get ''grant_type'' rq
      in if \<not> truthy grant_type then reject ''invalid_request'' ''grant_type is required'' st
         else if the grant_type \<notin> set KNOWN_GRANT_TYPES
           then reject ''unsupported_grant_type'' (''grant_type '' @ quoted (the grant_type) @ '' is not supported'') st
         else
           (case authenticate (sv_lib sv) (sv_get sv) e cfg (rq_form rq) (header_get ''authorization'' rq) (mtls_headers rq cfg) st of
              (st1, Inl x) \<Rightarrow> auth_failure sv e rq x st1
            | (st1, Inr c) \<Rightarrow>
                run_checked (dpop_phase sv e rq c st1) (\<lambda>v.
                  dispatch sv e (the grant_type)
                    \<lparr>gr_client = c, gr_form = rq_form rq, gr_dpop = v, gr_cnf = request_cnf cfg rq v\<rparr>)))"

end
