(* ===== verification/Token_Grants.thy ===== *)
theory Token_Grants
  imports Token_Endpoint
begin

text \<open>
  What the token endpoint guarantees: every token that appears in the database through a token
  request was issued to the authenticated client, under a grant the client is registered for, and
  is justified by what that grant requires. The policy is stated once, as \<open>justified\<close>, grant by
  grant, without reference to the order of the handler's checks.
\<close>

section \<open>Where new tokens come from\<close>

definition only_new :: "(token \<Rightarrow> bool) \<Rightarrow> database \<Rightarrow> database \<Rightarrow> bool" where
  \<comment> \<open>every row is an old one, perhaps revoked since, or satisfies the predicate\<close>
  "only_new P db db' \<longleftrightarrow>
     (\<forall>t \<in> set (db_tokens db'). P t \<or> (\<exists>t0 \<in> set (db_tokens db). t = t0 \<or> t = revoke t0))"

lemma revoke_revoke [simp]: "revoke (revoke t) = revoke t"
  by (simp add: revoke_def)

lemma only_new_refl [simp]: "only_new P db db"
  by (auto simp: only_new_def)

lemma only_new_same: "db_tokens db' = db_tokens db \<Longrightarrow> only_new P db db'"
  by (auto simp: only_new_def)

lemma only_new_trans_same: "only_new P db db1 \<Longrightarrow> db_tokens db2 = db_tokens db1 \<Longrightarrow> only_new P db db2"
  by (simp add: only_new_def)

lemma only_new_revoke_where:
  assumes "only_new P db db1" and "\<And>t. P t \<Longrightarrow> P (revoke t)"
  shows "only_new P db (snd (revoke_where cond db1))"
  using assms by (fastforce simp: only_new_def revoke_where_def sql_update_def)

lemma only_new_initial_revoke: "only_new P db (snd (revoke_where cond db))"
  by (auto simp: only_new_def revoke_where_def sql_update_def)

lemma only_new_revoke_family: "only_new P (app_db st) (app_db (revoke_family f st))"
  by (simp add: revoke_family_def revoke_token_family_def only_new_initial_revoke)

lemma only_new_revoke_family_same:
  "db_tokens (app_db st) = db_tokens db \<Longrightarrow> only_new P db (app_db (revoke_family f st))"
  using only_new_revoke_family [of P st f] by (simp add: only_new_def)

lemma issue_token_new:
  assumes "only_new P db (app_db st)" and "\<And>access. P (issue_row e (sv_config sv) c a access)"
  shows "only_new P db (app_db (fst (issue_token sv e c a st)))"
proof (cases "issue (sv_lib sv) e (sv_config sv) (Some (app_keyset st)) c a (app_db st)")
  case (Inr p)
  obtain db' r where p: "p = (db', r)" by fastforce
  then obtain access where "save_token (issue_row e (sv_config sv) c a access) (app_db st) = Inr db'"
    using Inr by (auto simp: issue_Inr)
  then have "db_tokens db' = db_tokens (app_db st) @ [issue_row e (sv_config sv) c a access]"
    by (simp add: save_token_Inr)
  then show ?thesis using assms Inr p by (auto simp: issue_token_def emit_event_def only_new_def)
qed (use assms in \<open>simp add: issue_token_def\<close>)

lemma db_mark_code [simp]: "db_tokens (snd (mark_authorization_code_used s db)) = db_tokens db"
  by (simp add: mark_authorization_code_used_def Let_def)

lemma db_mark_device [simp]: "db_tokens (snd (mark_device_authorization_used s db)) = db_tokens db"
  by (simp add: mark_device_authorization_used_def Let_def)

lemma only_new_mark [simp]:
  "only_new P db (snd (mark_authorization_code_used s db))" "only_new P db (snd (mark_device_authorization_used s db))"
  by (simp_all add: only_new_same)

lemma handled_db [simp]:
  "app_db (fst (reject er d st)) = app_db st"
  "app_db (fst (finish sv e gr r st)) = app_db st"
  "app_db (fst (finish_with_id_token sv e gr uid sc n co sel r st)) = app_db st"
  "app_db (fst (invalid_client_response e cid descr st)) = app_db st"
  "app_db (emit_event ty sev u c m st) = app_db st"
  by (simp_all add: reject_def finish_def finish_with_id_token_def invalid_client_response_def emit_event_def Let_def
      case_prod_unfold split: sum.split option.split)

lemma or_respond_new:
  "only_new P db (app_db st) \<Longrightarrow> (\<And>a. m = Inr a \<Longrightarrow> only_new P db (app_db (fst (k a)))) \<Longrightarrow>
     only_new P db (app_db (fst (or_respond m st k)))"
  by (cases m) (simp_all add: or_respond_def)

lemma or_raise_new:
  "only_new P db (app_db st) \<Longrightarrow> (\<And>a. m = Inr a \<Longrightarrow> only_new P db (app_db (fst (k a)))) \<Longrightarrow>
     only_new P db (app_db (fst (or_raise m st k)))"
  by (cases m) (simp_all add: or_raise_def)

lemma require_grant_new:
  "(client_has_grant (env_recursion e) g c = Inr True \<Longrightarrow> only_new P (app_db st) (app_db (fst k))) \<Longrightarrow>
     only_new P (app_db st) (app_db (fst (require_grant e g c st k)))"
  unfolding require_grant_def by (rule or_raise_new) auto

lemma require_grant_ok:
  "client_has_grant (env_recursion e) g c = Inr True \<Longrightarrow> require_grant e g c st k = k"
  by (simp add: require_grant_def or_raise_def)

lemma run_checked_new:
  "only_new P db (app_db (fst ch)) \<Longrightarrow> (\<And>p. snd ch = Inr p \<Longrightarrow> only_new P db (app_db (fst (k p (fst ch))))) \<Longrightarrow>
     only_new P db (app_db (fst (run_checked ch k)))"
  by (cases ch) (auto simp: run_checked_def split: sum.split)

lemma truthyD: "truthy v \<Longrightarrow> \<exists>s. v = Some s \<and> s \<noteq> []"
  by (cases v) auto

lemma choose_scope_subset: "choose_scope req allowed m = Inr s \<Longrightarrow> scope_is_subset s allowed"
  by (auto simp: choose_scope_def scope_simps split: if_splits)


section \<open>The policy\<close>

definition code_redeemable ::
  "'k server \<Rightarrow> env \<Rightarrow> grant_request \<Rightarrow> authorization_code \<Rightarrow> bool" where
  \<comment> \<open>unused, not expired, issued to this client for this redirect URI, with the PKCE verifier and,
      where the code is bound to one, the DPoP key\<close>
  "code_redeemable sv e gr ac \<longleftrightarrow>
     code_client_id ac = client_client_id (gr_client gr) \<and> env_now e \<le> code_expires_at ac \<and> \<not> code_used ac \<and>
     map_of (gr_form gr) ''redirect_uri'' = Some (code_redirect_uri ac) \<and>
     (\<exists>v. map_of (gr_form gr) ''code_verifier'' = Some v \<and> 43 \<le> length v \<and> length v \<le> 128 \<and>
        code_code_challenge ac = Some (pkce_challenge v)) \<and>
     (\<forall>j. code_dpop_jkt ac = Some j \<longrightarrow> map_option dv_jkt (gr_dpop gr) = Some j)"

definition refreshable :: "'k server \<Rightarrow> env \<Rightarrow> grant_request \<Rightarrow> token \<Rightarrow> bool" where
  \<comment> \<open>the client's own, not revoked, within its lifetime, and presented with the bound DPoP key by a
      public client\<close>
  "refreshable sv e gr old \<longleftrightarrow>
     token_client_id old = client_client_id (gr_client gr) \<and> \<not> token_revoked old \<and>
     env_now e < token_created_at old + usecs (cfg_refresh_token_ttl_secs (sv_config sv)) \<and>
     (is_public (gr_client gr) \<longrightarrow>
        (\<forall>j. bound_jkt (salvage_old_cnf (sv_lib sv) (token_access_token old)) = Some j \<longrightarrow> map_option dv_jkt (gr_dpop gr) = Some j))"

definition device_redeemable :: "env \<Rightarrow> grant_request \<Rightarrow> device_authorization \<Rightarrow> bool" where
  "device_redeemable e gr d \<longleftrightarrow>
     device_client_id d = client_client_id (gr_client gr) \<and> env_now e < device_expires_at d \<and>
     device_approved d \<and> \<not> device_denied d \<and> \<not> device_used d"

definition justified ::
  "'k server \<Rightarrow> env \<Rightarrow> string \<Rightarrow> grant_request \<Rightarrow> app_state \<Rightarrow> token \<Rightarrow> bool" where
  \<comment> \<open>what entitles the client to the token, by grant\<close>
  "justified sv e g gr st t \<longleftrightarrow>
     (let c = gr_client gr; form = gr_form gr; db = app_db st
      in token_client_id t = client_client_id c \<and> client_has_grant (env_recursion e) g c = Inr True \<and>
         (if g = ''client_credentials'' then
            \<not> is_public c \<and> token_user_id t = None \<and> token_refresh_token t = None \<and> scope_is_subset (token_scope t) (client_scope c)
          else if g = ''authorization_code'' then
            (\<exists>code ac. map_of form ''code'' = Some code \<and> get_authorization_code code db = Some ac \<and> code_redeemable sv e gr ac \<and>
               token_user_id t = Some (code_user_id ac) \<and> token_scope t = code_scope ac \<and> token_token_family t = code_token_family ac)
          else if g = ''refresh_token'' then
            (\<exists>r old. map_of form ''refresh_token'' = Some r \<and> get_token_by_refresh_token r db = Some old \<and> refreshable sv e gr old \<and>
               token_user_id t = token_user_id old \<and> scope_is_subset (token_scope t) (token_scope old) \<and>
               (truthy (token_token_family old) \<longrightarrow> token_token_family t = token_token_family old))
          else if g = DEVICE_CODE_GRANT then
            (\<exists>dc d. map_of form ''device_code'' = Some dc \<and> get_device_authorization_by_device_code dc db = Some d \<and>
               device_redeemable e gr d \<and> token_user_id t = device_user_id d \<and> token_scope t = device_scope d)
          else if g = TOKEN_EXCHANGE_GRANT then
            \<not> is_public c \<and> token_refresh_token t = None \<and>
            (\<exists>s subject. map_of form ''subject_token'' = Some s \<and> get_token_by_access_token s db = Some subject \<and>
               \<not> token_revoked subject \<and> env_now e < token_expires_at subject \<and>
               token_user_id t = token_user_id subject \<and> scope_is_subset (token_scope t) (token_scope subject))
          else
            g = JWT_BEARER_GRANT \<and> \<not> is_public c \<and> token_refresh_token t = None \<and>
            scope_is_subset (token_scope t) (client_scope c) \<and>
            (\<exists>a uid iss ti cs. map_of form ''assertion'' = Some a \<and> token_user_id t = Some uid \<and> subject_named ti cs uid db \<and>
               assertion_checked (sv_lib sv) (sv_get sv) e c a (rstrip_char (CHR ''/'') (cfg_issuer (sv_config sv)))
                 (token_endpoint_url (sv_config sv)) st iss ti cs)))"


lemmas grant_names = DEVICE_CODE_GRANT_def TOKEN_EXCHANGE_GRANT_def JWT_BEARER_GRANT_def

lemma issue_row_simps [simp]:
  "token_client_id (issue_row e cfg c a access) = client_client_id c"
  "token_user_id (issue_row e cfg c a access) = ia_user_id a"
  "token_scope (issue_row e cfg c a access) = ia_scope a"
  "token_token_family (issue_row e cfg c a access) = ia_token_family a"
  "token_refresh_token (issue_row e cfg c a access) = (if ia_with_refresh a then Some (env_urlsafe e 1) else None)"
  by (simp_all add: issue_row_def)

lemma no_refresh_args_simps [simp]:
  "ia_user_id (no_refresh_args u sc cnf r) = u" "ia_scope (no_refresh_args u sc cnf r) = sc"
  "ia_with_refresh (no_refresh_args u sc cnf r) = False"
  by (simp_all add: no_refresh_args_def)


section \<open>Each grant\<close>

lemma client_credentials_new:
  "only_new (justified sv e ''client_credentials'' gr st) (app_db st) (app_db (fst (client_credentials_grant sv e gr st)))"
proof (cases "is_public (gr_client gr)")
  case False
  show ?thesis
    unfolding client_credentials_grant_def Let_def using False
    by (simp, intro require_grant_new or_respond_new or_raise_new only_new_refl)
       (auto simp: case_prod_unfold intro!: or_raise_new issue_token_new
         simp: justified_def Let_def choose_scope_subset)
qed (simp add: client_credentials_grant_def Let_def)

lemma pkce_Inr:
  "check_pkce v ch = Inr () \<Longrightarrow> \<exists>w. v = Some w \<and> 43 \<le> length w \<and> length w \<le> 128 \<and> ch = Some (pkce_challenge w)"
  by (cases v; cases ch)
     (auto simp: check_pkce_def pkce_matches_def utf8_inj MIN_VERIFIER_LEN_def MAX_VERIFIER_LEN_def split: if_splits)

lemma same_jkt_iff [simp]: "same_jkt v j \<longleftrightarrow> map_option dv_jkt v = Some j"
  by (auto simp: same_jkt_def utf8_inj split: option.split)

lemma authorization_code_check_Inr:
  assumes "authorization_code_check sv e gr st = (st1, Inr (ac, details))"
  shows "st1 = st" "\<exists>code. map_of (gr_form gr) ''code'' = Some code \<and> get_authorization_code code (app_db st) = Some ac"
    "code_client_id ac = client_client_id (gr_client gr)" "env_now e \<le> code_expires_at ac" "\<not> code_used ac"
    "map_of (gr_form gr) ''redirect_uri'' = Some (code_redirect_uri ac)"
    "check_pkce (map_of (gr_form gr) ''code_verifier'') (code_code_challenge ac) = Inr ()"
  using assms
  by (auto simp: authorization_code_check_def refuse_def Let_def bind_res_Inr_iff
      split: option.splits if_splits sum.splits dest!: truthyD)

lemma authorization_code_check_db:
  "only_new P (app_db st) (app_db (fst (authorization_code_check sv e gr st)))"
  using only_new_revoke_family [of P st]
  by (auto simp: authorization_code_check_def refuse_def Let_def split: option.split sum.split)

lemma authorization_code_new:
  "only_new (justified sv e ''authorization_code'' gr st) (app_db st) (app_db (fst (authorization_code_grant sv e gr st)))"
  unfolding authorization_code_grant_def
proof (intro require_grant_new run_checked_new authorization_code_check_db)
  fix p
  assume g: "client_has_grant (env_recursion e) ''authorization_code'' (gr_client gr) = Inr True"
    and c: "snd (authorization_code_check sv e gr st) = Inr p"
  obtain ac details where p: "p = (ac, details)" by fastforce
  obtain st1 where c1: "authorization_code_check sv e gr st = (st1, Inr (ac, details))"
    using c p by (metis prod.collapse)
  note f = authorization_code_check_Inr [OF c1]
  let ?P = "justified sv e ''authorization_code'' gr st"
  have P: "?P (issue_row e (sv_config sv) (gr_client gr) a access)"
    if "code_dpop_jkt ac = None \<or> same_jkt (gr_dpop gr) (the (code_dpop_jkt ac))" "ia_user_id a = Some (code_user_id ac)"
      "ia_scope a = code_scope ac" "ia_token_family a = code_token_family ac" for a access
    using that g f(2-6) pkce_Inr [OF f(7)] by (auto simp: justified_def code_redeemable_def Let_def)
  show "only_new ?P (app_db st) (app_db (fst (authorization_code_commit sv e gr p (fst (authorization_code_check sv e gr st)))))"
    unfolding c1 p f(1) fst_conv authorization_code_commit_def Let_def case_prod_unfold
    by (auto intro!: or_raise_new issue_token_new P only_new_revoke_family_same)
qed

lemma refresh_check_Inr:
  assumes "refresh_check sv e gr st = (st1, Inr p)"
  shows "st1 = st" "\<exists>r. map_of (gr_form gr) ''refresh_token'' = Some r \<and> get_token_by_refresh_token r (app_db st) = Some (rp_old p)"
    "refreshable sv e gr (rp_old p)" "scope_is_subset (rp_scope p) (token_scope (rp_old p))"
  using assms
  by (auto simp: refresh_check_def refuse_def refresh_plan_for_def refreshable_def Let_def bind_res_Inr_iff
      split: option.splits if_splits sum.splits dest!: choose_scope_subset truthyD)

lemma refresh_check_db: "only_new P (app_db st) (app_db (fst (refresh_check sv e gr st)))"
  using only_new_revoke_family [of P st]
  by (auto simp: refresh_check_def refuse_def Let_def split: option.split sum.split)

lemma refresh_new:
  "only_new (justified sv e ''refresh_token'' gr st) (app_db st) (app_db (fst (refresh_token_grant sv e gr st)))"
  unfolding refresh_token_grant_def
proof (intro require_grant_new run_checked_new refresh_check_db)
  fix p
  assume g: "client_has_grant (env_recursion e) ''refresh_token'' (gr_client gr) = Inr True"
    and c: "snd (refresh_check sv e gr st) = Inr p"
  then have c1: "refresh_check sv e gr st = (fst (refresh_check sv e gr st), Inr p)" by (metis prod.collapse)
  note f = refresh_check_Inr [OF c1]
  let ?P = "justified sv e ''refresh_token'' gr st"
  have P: "?P (issue_row e (sv_config sv) (gr_client gr) a access)"
    if "ia_user_id a = token_user_id (rp_old p)" "ia_scope a = rp_scope p"
      "ia_token_family a = Some (or_str (token_token_family (rp_old p)) (env_uuid e 0))" for a access
    using that g f(2-4) by (auto simp: justified_def Let_def or_str_def truthy_def split: option.splits)
  show "only_new ?P (app_db st) (app_db (fst (refresh_commit sv e gr p (fst (refresh_check sv e gr st)))))"
    unfolding f(1) refresh_commit_def Let_def case_prod_unfold
    by (intro or_raise_new issue_token_new P) (simp_all add: revoke_token_def only_new_initial_revoke issue_token_new P)
qed

lemma device_code_check_Inr:
  assumes "device_code_check sv e gr st = (st1, Inr (d, resource))"
  shows "app_db st1 = app_db st"
    "\<exists>dc. map_of (gr_form gr) ''device_code'' = Some dc \<and> get_device_authorization_by_device_code dc (app_db st) = Some d"
    "device_redeemable e gr d"
  using assms
  by (auto simp: device_code_check_def refuse_def device_status_def device_redeemable_def Let_def case_prod_unfold
      split: option.splits if_splits sum.splits dest!: truthyD)

lemma device_code_check_db: "app_db (fst (device_code_check sv e gr st)) = app_db st"
  by (auto simp: device_code_check_def refuse_def Let_def case_prod_unfold split: option.split sum.split)

lemma device_code_new:
  "only_new (justified sv e DEVICE_CODE_GRANT gr st) (app_db st) (app_db (fst (device_code_grant sv e gr st)))"
  unfolding device_code_grant_def
proof (intro require_grant_new run_checked_new)
  show "only_new P (app_db st) (app_db (fst (device_code_check sv e gr st)))" for P by (simp add: device_code_check_db)
  fix p
  assume g: "client_has_grant (env_recursion e) DEVICE_CODE_GRANT (gr_client gr) = Inr True"
    and c: "snd (device_code_check sv e gr st) = Inr p"
  obtain d resource where p: "p = (d, resource)" by fastforce
  obtain st1 where c1: "device_code_check sv e gr st = (st1, Inr (d, resource))"
    using c p by (metis prod.collapse)
  note f = device_code_check_Inr [OF c1]
  let ?P = "justified sv e DEVICE_CODE_GRANT gr st"
  have P: "?P (issue_row e (sv_config sv) (gr_client gr) a access)"
    if "ia_user_id a = device_user_id d" "ia_scope a = device_scope d" for a access
    using that g f(2,3) by (auto simp: justified_def Let_def grant_names)
  show "only_new ?P (app_db st) (app_db (fst (device_code_commit sv e gr p (fst (device_code_check sv e gr st)))))"
    unfolding c1 p fst_conv device_code_commit_def Let_def case_prod_unfold
    by (auto intro!: or_raise_new issue_token_new P simp: f(1))
qed

lemma exchange_subject_Inr:
  "exchange_subject e form db = Inr t \<Longrightarrow> (\<exists>s. map_of form ''subject_token'' = Some s \<and> get_token_by_access_token s db = Some t) \<and>
     \<not> token_revoked t \<and> env_now e < token_expires_at t"
  by (auto simp: exchange_subject_def Let_def split: option.splits if_splits dest!: truthyD)

lemma token_exchange_new:
  "only_new (justified sv e TOKEN_EXCHANGE_GRANT gr st) (app_db st) (app_db (fst (token_exchange_grant sv e gr st)))"
proof (cases "is_public (gr_client gr)")
  case True
  then show ?thesis unfolding token_exchange_grant_def Let_def by (intro require_grant_new) simp
next
  case False
  let ?P = "justified sv e TOKEN_EXCHANGE_GRANT gr st"
  have P: "?P (issue_row e (sv_config sv) (gr_client gr) ((no_refresh_args (token_user_id s) sc cnf r)\<lparr>ia_act := act\<rparr>) access)"
    if "client_has_grant (env_recursion e) TOKEN_EXCHANGE_GRANT (gr_client gr) = Inr True"
      "exchange_subject e (gr_form gr) (app_db st) = Inr s" "choose_scope q (token_scope s) m = Inr sc" for s sc q m cnf r act access
    using that False exchange_subject_Inr [OF that(2)] choose_scope_subset [OF that(3)]
    by (auto simp: justified_def Let_def grant_names)
  show ?thesis
    unfolding token_exchange_grant_def Let_def using False
    by (intro require_grant_new)
       (auto intro!: or_respond_new or_raise_new issue_token_new P simp: case_prod_unfold split: sum.split limit_failure.split)
qed

lemma resolve_subject_tokens [simp]: "db_tokens (fst (resolve_subject e h t cs db)) = db_tokens db"
proof -
  have "db_tokens (fst (provision_subject e h cs sub db)) = db_tokens db" for sub
    by (auto simp: provision_subject_def save_user_def bind_res_def sql_insert_def split: sum.split if_splits)
  then show ?thesis by (auto simp: resolve_subject_def split: json.split sum.split option.split)
qed

lemma redeem_tokens:
  "db_tokens (app_db (fst (redeem_jwt_bearer_assertion lib get h e a c our tep st))) = db_tokens (app_db st)"
proof -
  have v: "app_db (fst (verify_assertion lib get e a t header our tep st)) = app_db st" for t header
    by (simp add: verify_assertion_def Let_def case_prod_unfold)
  show ?thesis
    by (auto simp: redeem_jwt_bearer_assertion_def Let_def case_prod_unfold v split: sum.split)
qed

lemma jwt_bearer_new:
  "only_new (justified sv e JWT_BEARER_GRANT gr st) (app_db st) (app_db (fst (jwt_bearer_grant sv e gr st)))"
proof (cases "is_public (gr_client gr) \<or> \<not> truthy (map_of (gr_form gr) ''assertion'')")
  case True
  then show ?thesis unfolding jwt_bearer_grant_def Let_def by (intro require_grant_new) auto
next
  case False
  let ?P = "justified sv e JWT_BEARER_GRANT gr st" and ?a = "the (map_of (gr_form gr) ''assertion'')"
  let ?r = "redeem_jwt_bearer_assertion (sv_lib sv) (sv_get sv) (sv_hash_password sv) e ?a (gr_client gr)
      (rstrip_char (CHR ''/'') (cfg_issuer (sv_config sv))) (token_endpoint_url (sv_config sv)) st"
  have P: "?P (issue_row e (sv_config sv) (gr_client gr) (no_refresh_args (Some uid) sc cnf r) access)"
    if g: "client_has_grant (env_recursion e) JWT_BEARER_GRANT (gr_client gr) = Inr True" and u: "snd ?r = Inr uid"
      and sc: "choose_scope q (client_scope (gr_client gr)) m = Inr sc" for uid sc q m cnf r access
  proof -
    obtain a where a: "map_of (gr_form gr) ''assertion'' = Some a" using False truthyD by blast
    have "?r = (fst ?r, Inr uid)" using u by (metis prod.collapse)
    from redeem_Inr [OF this] obtain iss t cs db' where "assertion_checked (sv_lib sv) (sv_get sv) e (gr_client gr) a
        (rstrip_char (CHR ''/'') (cfg_issuer (sv_config sv))) (token_endpoint_url (sv_config sv)) st iss t cs"
      and "resolve_subject e (sv_hash_password sv) t cs (app_db st) = (db', Inr uid)"
      using a by auto
    moreover from this(2) have "subject_named t cs uid (app_db st)" using resolve_subject_Inr by blast
    ultimately show ?thesis
      using g a False choose_scope_subset [OF sc] by (auto simp: justified_def Let_def grant_names)
  qed
  have db: "only_new ?P (app_db st) (app_db (fst ?r))" by (rule only_new_same) (rule redeem_tokens)
  show ?thesis
    unfolding jwt_bearer_grant_def Let_def case_prod_unfold using False
    by (intro require_grant_new) (auto intro!: or_respond_new or_raise_new issue_token_new P db)
qed


section \<open>The endpoint\<close>

lemma dispatch_new:
  "only_new (justified sv e g gr st) (app_db st) (app_db (fst (dispatch sv e g gr st)))"
  by (simp add: dispatch_def client_credentials_new authorization_code_new refresh_new device_code_new token_exchange_new
      jwt_bearer_new)

lemma dpop_phase_db [simp]: "app_db (fst (dpop_phase sv e rq c st)) = app_db st"
  by (auto simp: dpop_phase_def refuse_def Let_def case_prod_unfold split: sum.split option.split dpop_failure.split)

definition dpop_shown :: "'k server \<Rightarrow> env \<Rightarrow> http_request \<Rightarrow> dpop_validated option \<Rightarrow> bool" where
  \<comment> \<open>no proof in the request, or the key of the proof that was presented and checked for this endpoint\<close>
  "dpop_shown sv e rq v =
     (case read_dpop_header rq of
        Inl _ \<Rightarrow> False
      | Inr None \<Rightarrow> v = None
      | Inr (Some proof) \<Rightarrow>
          (\<exists>w cs. v = Some w \<and> proof_checked (sv_lib sv) e proof ''POST'' (token_endpoint_url (sv_config sv)) None (dv_jkt w) cs))"

lemma dpop_phase_shown:
  assumes "dpop_phase sv e rq c st = (st', Inr v)"
  shows "dpop_shown sv e rq v"
proof (cases "read_dpop_header rq")
  case (Inr h)
  show ?thesis
  proof (cases h)
    case (Some p)
    obtain s r where val: "validate_dpop_proof (sv_lib sv) e p ''POST'' (token_endpoint_url (sv_config sv)) None (app_dpop_replay st) = (s, r)"
      by fastforce
    obtain w where w: "r = Inr w" "v = Some w"
      using assms Inr Some val by (auto simp: dpop_phase_def refuse_def Let_def split: sum.splits dpop_failure.splits if_splits option.splits)
    from accepted_proof_is_bound [OF val [unfolded w(1)]] show ?thesis using Inr Some w(2) by (auto simp: dpop_shown_def)
  next
    case None
    then show ?thesis using assms Inr by (simp add: dpop_phase_def dpop_shown_def)
  qed
next
  case (Inl x)
  then show ?thesis using assms by (simp add: dpop_phase_def refuse_def)
qed

lemma auth_failure_db [simp]: "app_db (fst (auth_failure sv e rq x st)) = app_db st"
  by (auto simp: auth_failure_def or_raise_def Let_def split: exc.split sum.split)

text \<open>
  C1. The token endpoint's issuing policy. Whatever request arrives in whatever state, every token
  row that the request adds to the database belongs to the client the request authenticated as,
  was issued under a grant type that client is registered for, and is justified by that grant: a
  redeemable authorization code (unused, unexpired, this client's, this redirect URI, the PKCE
  verifier, the bound DPoP key) with the code's user and scope; a live refresh token of the client
  with the same user and no more scope; an approved, unexpired, unused device code; a live subject
  token with the same user and no more scope; a verified assertion, with the user that the assertion
  names; or the client itself with no more than its registered scope and no refresh token. The DPoP
  key is the one of the proof the request carries, checked for this endpoint; a request without a proof
  has none. A failed authentication adds none.
\<close>

theorem every_issued_token_is_justified:
  assumes "token_route sv e rq st = (st', r)"
    and "t \<in> set (db_tokens (app_db st'))" and "\<forall>t0 \<in> set (db_tokens (app_db st)). t \<noteq> t0 \<and> t \<noteq> revoke t0"
  shows "\<exists>g c st1 st2 v. form_get ''grant_type'' rq = Some g \<and>
    authenticate (sv_lib sv) (sv_get sv) e (sv_config sv) (rq_form rq) (header_get ''authorization'' rq)
      (mtls_headers rq (sv_config sv)) st = (st1, Inr c) \<and>
    dpop_phase sv e rq c st1 = (st2, Inr v) \<and> dpop_shown sv e rq v \<and> app_db st2 = app_db st \<and>
    justified sv e g \<lparr>gr_client = c, gr_form = rq_form rq, gr_dpop = v, gr_cnf = request_cnf (sv_config sv) rq v\<rparr> st2 t"
proof -
  let ?auth = "authenticate (sv_lib sv) (sv_get sv) e (sv_config sv) (rq_form rq) (header_get ''authorization'' rq)
      (mtls_headers rq (sv_config sv)) st"
  obtain st1 ar where a: "?auth = (st1, ar)" by fastforce
  have db1: "app_db st1 = app_db st" using auth_frame_fields(1) [OF authenticate_frame] a by (metis fst_conv)
  have new: "\<not> only_new (\<lambda>t. False) (app_db st) (app_db st')" using assms(2,3) by (auto simp: only_new_def)
  obtain g where g: "form_get ''grant_type'' rq = Some g" "g \<noteq> []" "g \<in> set KNOWN_GRANT_TYPES"
    using assms(1) new by (cases "form_get ''grant_type'' rq") (auto simp: token_route_def reject_def Let_def split: if_splits)
  obtain c where c: "ar = Inr c"
    using assms(1) new a g db1
    by (cases ar) (auto simp: token_route_def Let_def dest: arg_cong [where f = "\<lambda>x. app_db (fst x)"])
  obtain st2 dr where d: "dpop_phase sv e rq c st1 = (st2, dr)" by fastforce
  have db2: "app_db st2 = app_db st" using dpop_phase_db [of sv e rq c st1] d db1 by simp
  obtain v where v: "dr = Inr v"
    using assms(1) new a g c d db2 by (cases dr) (auto simp: token_route_def run_checked_def Let_def)
  let ?gr = "\<lparr>gr_client = c, gr_form = rq_form rq, gr_dpop = v, gr_cnf = request_cnf (sv_config sv) rq v\<rparr>"
  have "dispatch sv e g ?gr st2 = (st', r)"
    using assms(1) a g c d v by (simp add: token_route_def run_checked_def Let_def)
  then have "only_new (justified sv e g ?gr st2) (app_db st) (app_db st')"
    using dispatch_new [of sv e g ?gr st2] db2 by simp
  then have "justified sv e g ?gr st2 t" using assms(2,3) by (auto simp: only_new_def)
  then show ?thesis using g(1) a c d v db2 dpop_phase_shown [OF d [unfolded v]] by blast
qed


section \<open>An evaluated deployment\<close>

definition flow_client :: client where
  "flow_client = mk_client ''1'' ''app'' ''s3cret'' [] ''[\"authorization_code\", \"refresh_token\", \"client_credentials\"]'' ''read'' ''App'' 0"

definition flow_server :: "bytes server" where
  \<comment> \<open>opaque access tokens, no outgoing network\<close>
  "flow_server =
     \<lparr>sv_lib = plain_lib, sv_get = (\<lambda>_. HttpFailure), sv_hash_password = id,
      sv_config = sample_config\<lparr>cfg_access_tokens_opaque := True\<rparr>, sv_nonce_issuer = nonce_issuer_new [] 300\<rparr>"

definition flow_app :: "token list \<Rightarrow> authorization_code list \<Rightarrow> app_state" where
  "flow_app ts cs = fresh_app ((empty_db Sqlite)\<lparr>db_clients := [flow_client], db_tokens := ts, db_codes := cs\<rparr>)"

lemma flow_grants:
  "client_has_grant 30 ''client_credentials'' flow_client = Inr True"
  "client_has_grant 30 ''refresh_token'' flow_client = Inr True"
  "client_has_grant 30 ''authorization_code'' flow_client = Inr True"
  by code_simp+

lemma flow_client_simps [simp]:
  "client_client_id flow_client = ''app''" "client_client_secret flow_client = ''s3cret''" "client_scope flow_client = ''read''"
  "client_token_endpoint_auth_method flow_client = ''client_secret_basic''" "client_enabled flow_client"
  "\<not> client_dpop_nonce_required flow_client" "\<not> is_public flow_client"
  by (simp_all add: flow_client_def mk_client_def is_public_def)

lemma flow_env [simp]: "env_recursion (sample_env now tag) = 30" "env_now (sample_env now tag) = now"
  by (simp_all add: sample_env_def)

lemma flow_issue_token:
  assumes "\<not> list_ex (\<lambda>t. token_access_token t = env_urlsafe e 0 \<or> token_pk t = env_uuid e 2) (db_tokens (app_db st))"
    and "db_dialect (app_db st) = Sqlite"
  shows "\<exists>st' tr. issue_token flow_server e c a st = (st', Inr tr) \<and>
    app_db st' = (app_db st)\<lparr>db_tokens := db_tokens (app_db st) @ [issue_row e (sv_config flow_server) c a (env_urlsafe e 0)]\<rparr> \<and>
    app_keyset st' = app_keyset st"
proof -
  let ?row = "issue_row e (sv_config flow_server) c a (env_urlsafe e 0)"
  have "issue_access_token (sv_lib flow_server) e (sv_config flow_server) ks c a = Inr (env_urlsafe e 0)" for ks
    by (simp add: issue_access_token_def flow_server_def)
  moreover have "\<not> list_ex (token_clash ?row) (db_tokens (app_db st))"
    using assms(1) by (auto simp: list_ex_iff token_clash_def issue_row_def)
  ultimately have "issue (sv_lib flow_server) e (sv_config flow_server) (Some (app_keyset st)) c a (app_db st) =
      Inr ((app_db st)\<lparr>db_tokens := db_tokens (app_db st) @ [?row]\<rparr>, issue_response (sv_config flow_server) a ?row)"
    using assms(2) by (simp add: issue_Inr save_token_Inr fk_ok_def)
  then show ?thesis by (simp add: issue_token_def emit_event_def)
qed

definition flow_request :: http_request where
  "flow_request = \<lparr>rq_headers = [],
     rq_form = [(''grant_type'', ''client_credentials''), (''client_id'', ''app''), (''client_secret'', ''s3cret'')]\<rparr>"

theorem every_issued_token_is_justified_witness:
  "\<exists>st' r t g c st1 st2 v. token_route flow_server (sample_env 0 ''q'') flow_request (flow_app [] []) = (st', r) \<and>
     t \<in> set (db_tokens (app_db st')) \<and> g = ''client_credentials'' \<and>
     justified flow_server (sample_env 0 ''q'') g
       \<lparr>gr_client = c, gr_form = rq_form flow_request, gr_dpop = v, gr_cnf = request_cnf (sv_config flow_server) flow_request v\<rparr>
       st2 t \<and> app_db st2 = app_db (flow_app [] []) \<and>
     authenticate (sv_lib flow_server) (sv_get flow_server) (sample_env 0 ''q'') (sv_config flow_server) (rq_form flow_request) None
       (None, None) (flow_app [] []) = (st1, Inr c)"
proof -
  let ?e = "sample_env 0 ''q''" and ?st = "flow_app [] []" and ?f = "rq_form flow_request" and ?cfg = "sv_config flow_server"
  have form: "form_get ''grant_type'' flow_request = Some ''client_credentials''" "header_get ''authorization'' flow_request = None"
      "mtls_headers flow_request ?cfg = (None, None)" "map_of ?f ''scope'' = None" "map_of ?f ''authorization_details'' = None"
      "map_of ?f ''resource'' = None" "read_dpop_header flow_request = Inr None"
    by (simp_all add: form_get_def header_get_def flow_request_def mtls_headers_def flow_server_def sample_config_def read_dpop_header_def)
  have "presented_credentials (sv_lib flow_server) ?f None = Inr (''app'', Some ''s3cret'')"
    by (simp add: presented_credentials_def parse_basic_auth_def flow_request_def)
  then have a: "\<exists>st1. authenticate (sv_lib flow_server) (sv_get flow_server) ?e ?cfg ?f None (None, None) ?st = (st1, Inr flow_client)"
    by (simp add: authenticate_def flow_app_def fresh_app_def empty_db_def get_client_def check_subject_denylisted_def
        find_denylist_entry_def check_credentials_def Let_def)
  then obtain st1 where st1: "authenticate (sv_lib flow_server) (sv_get flow_server) ?e ?cfg ?f None (None, None) ?st = (st1, Inr flow_client)"
    by blast
  have "app_db st1 = app_db ?st" using auth_frame_fields(1) [OF authenticate_frame] st1 by (metis fst_conv)
  then have db: "app_db st1 = (empty_db Sqlite)\<lparr>db_clients := [flow_client], db_tokens := [], db_codes := []\<rparr>"
    by (simp add: flow_app_def fresh_app_def)
  obtain st2 tr where i: "issue_token flow_server ?e flow_client ((no_refresh_args None ''read'' None None)\<lparr>ia_authorization_details := None\<rparr>) st1 =
      (st2, Inr tr)" "db_tokens (app_db st2) \<noteq> []"
    using flow_issue_token [of ?e st1 flow_client "(no_refresh_args None ''read'' None None)\<lparr>ia_authorization_details := None\<rparr>"] db
    by (auto simp: empty_db_def)
  have "token_route flow_server ?e flow_request ?st = finish flow_server ?e
      \<lparr>gr_client = flow_client, gr_form = ?f, gr_dpop = None, gr_cnf = None\<rparr> tr st2"
    by (simp add: token_route_def form KNOWN_GRANT_TYPES_def st1 run_checked_def dpop_phase_def dispatch_def request_cnf_def
        client_credentials_grant_def require_grant_ok flow_grants or_respond_def choose_scope_def validate_resource_def i or_raise_def
        Let_def)
  then obtain r where r: "token_route flow_server ?e flow_request ?st = (st2, r)" by (simp add: finish_def)
  obtain t where t: "t \<in> set (db_tokens (app_db st2))" using i(2) by (cases "db_tokens (app_db st2)") auto
  have "\<forall>t0 \<in> set (db_tokens (app_db ?st)). t \<noteq> t0 \<and> t \<noteq> revoke t0"
    by (simp add: flow_app_def fresh_app_def)
  from every_issued_token_is_justified [OF r t this] form r t show ?thesis by simp blast
qed

end
