(* ===== verification/Token_Replay.thy ===== *)
theory Token_Replay
  imports Token_Grants
begin

text \<open>
  Replay, rotation and races at the token endpoint. A commit may run in any later state than the
  check it belongs to; between two requests the database may undergo any storage operations, in
  any order (\<open>storage_step\<close>). Shown here: a code is redeemed at most once and its replay revokes
  the token family; a rotated refresh token, presented again, does the same; a refused refresh
  leaves everything usable and a granted one never widens the audience; an honest client gets its
  token; and rotation is not atomic.
\<close>

section \<open>Authorization codes\<close>

lemma issue_token_db:
  "app_db (fst (issue_token sv e c a st)) = app_db st \<or>
   (\<exists>t. app_db (fst (issue_token sv e c a st)) = (app_db st)\<lparr>db_tokens := db_tokens (app_db st) @ [t]\<rparr>)"
proof (cases "issue (sv_lib sv) e (sv_config sv) (Some (app_keyset st)) c a (app_db st)")
  case (Inr p)
  obtain db' r where p: "p = (db', r)" by fastforce
  then obtain access where "db' = (app_db st)\<lparr>db_tokens := db_tokens (app_db st) @ [issue_row e (sv_config sv) c a access]\<rparr>"
    using Inr by (auto simp: issue_Inr save_token_Inr)
  then show ?thesis using Inr p by (auto simp: issue_token_def)
qed (simp add: issue_token_def)

lemma issue_token_codes [simp]:
  "db_codes (app_db (fst (issue_token sv e c a st))) = db_codes (app_db st)"
  "db_devices (app_db (fst (issue_token sv e c a st))) = db_devices (app_db st)"
  using issue_token_db [of sv e c a st] by auto

lemma or_raise_db: "(\<And>a. app_db (fst (k a)) = app_db st) \<Longrightarrow> app_db (fst (or_raise m st k)) = app_db st"
  by (cases m) (simp_all add: or_raise_def)

lemma code_commit_claims:
  assumes "authorization_code_commit sv e gr (ac, details) st = (st', Inr r)" and "resp_status r \<noteq> 400"
  shows "code_claimed (code_code ac) (app_db st')"
proof -
  let ?m = "mark_authorization_code_used (code_code ac) (app_db st)"
  have c: "fst ?m \<noteq> 0"
  proof
    assume "fst ?m = 0"
    then show False using assms by (auto simp: authorization_code_commit_def reject_def Let_def case_prod_unfold)
  qed
  have "db_codes (app_db (fst (authorization_code_commit sv e gr (ac, details) st))) = db_codes (snd ?m)"
    unfolding authorization_code_commit_def Let_def case_prod_unfold
    using c by (auto simp: or_raise_db)
  then show ?thesis using assms(1) code_claim_marks [of "code_code ac" "app_db st"] c by (simp add: code_claimed_def)
qed

lemma code_claimed_run: "code_claimed k db \<Longrightarrow> code_claimed k (fold storage_step ops db)"
  by (induction ops arbitrary: db) (simp_all add: code_claimed_step)

lemma revoke_family_all:
  "\<forall>t \<in> set (db_tokens (app_db (revoke_family (Some f) st))). f \<noteq> [] \<longrightarrow> token_token_family t = Some f \<longrightarrow> token_revoked t"
  by (auto simp: revoke_family_def revoke_token_family_def revoke_where_def sql_update_def revoke_def)

text \<open>
  C4. An authorization code is redeemed at most once, under every interleaving. Once one request
  has claimed a code and was not refused, any other request that passed its checks for the same
  code, before or after, and whatever the database underwent in between, is answered
  \<open>invalid_grant\<close> when it comes to claim the code, and every token of the code's family, the first
  request's included, is then revoked.
\<close>

theorem code_redeemed_at_most_once:
  assumes "authorization_code_commit sv1 e1 gr1 (ac1, details1) st1 = (st1', Inr r1)" and "resp_status r1 \<noteq> 400"
    and "app_db st2 = fold storage_step ops (app_db st1')" and "code_code ac2 = code_code ac1"
  shows "\<exists>st2'. authorization_code_commit sv2 e2 gr2 (ac2, details2) st2 =
      (st2', Inr (oauth_error ''invalid_grant'' (Some ''authorization code has already been used'') 400)) \<and>
    (\<forall>f t. code_token_family ac2 = Some f \<longrightarrow> f \<noteq> [] \<longrightarrow> t \<in> set (db_tokens (app_db st2')) \<longrightarrow>
       token_token_family t = Some f \<longrightarrow> token_revoked t)"
proof -
  have "code_claimed (code_code ac2) (app_db st2)"
    using code_claimed_run [OF code_commit_claims [OF assms(1,2)]] assms(3,4) by simp
  then have "fst (mark_authorization_code_used (code_code ac2) (app_db st2)) = 0"
    using code_claim.claim_again by blast
  then have "authorization_code_commit sv2 e2 gr2 (ac2, details2) st2 =
      reject ''invalid_grant'' ''authorization code has already been used''
        (revoke_family (code_token_family ac2)
           (st2\<lparr>app_db := snd (mark_authorization_code_used (code_code ac2) (app_db st2))\<rparr>))"
    by (simp add: authorization_code_commit_def Let_def case_prod_unfold)
  then show ?thesis using revoke_family_all by (auto simp: reject_def)
qed



section \<open>Refresh tokens\<close>

lemma token_refresh_run:
  "get_token_by_refresh_token r db = Some t \<Longrightarrow>
   \<exists>u. get_token_by_refresh_token r (fold storage_step ops db) = Some u \<and> token_later t u"
proof (induction ops arbitrary: db t)
  case Nil
  then show ?case by (simp add: token_later_def)
next
  case (Cons op ops)
  obtain u where u: "get_token_by_refresh_token r (storage_step op db) = Some u" "token_later t u"
    using find_rows_evolve [OF storage_step_evolves(1) [of db op], of "\<lambda>t. token_refresh_token t = Some r" t] Cons.prems
    by (auto simp: get_token_by_refresh_token_def token_later_def)
  obtain w where "get_token_by_refresh_token r (fold storage_step ops (storage_step op db)) = Some w" "token_later u w"
    using Cons.IH [OF u(1)] by blast
  then show ?case using u(2) by (auto simp: token_later_def)
qed

lemma revoke_token_refresh:
  assumes "get_token_by_refresh_token r db = Some t"
  shows "get_token_by_refresh_token r (revoke_token (token_access_token t) db) = Some (revoke t)"
  using assms
  by (simp add: get_token_by_refresh_token_def revoke_token_def revoke_where_def find_sql_update revoke_def)

lemma refresh_commit_revokes:
  assumes "get_token_by_refresh_token rv (app_db st) = Some (rp_old p)"
  shows "get_token_by_refresh_token rv (app_db (fst (refresh_commit sv e gr p st))) = Some (revoke (rp_old p))"
proof -
  let ?st1 = "st\<lparr>app_db := revoke_token (token_access_token (rp_old p)) (app_db st)\<rparr>"
  have 1: "get_token_by_refresh_token rv (app_db ?st1) = Some (revoke (rp_old p))"
    using revoke_token_refresh [OF assms] by simp
  have "get_token_by_refresh_token rv (app_db (fst (issue_token sv e c a ?st1))) = Some (revoke (rp_old p))" for c a
    using issue_token_db [of sv e c a ?st1] 1 by (auto simp: get_token_by_refresh_token_def find_append)
  then show ?thesis by (simp add: refresh_commit_def Let_def case_prod_unfold or_raise_db)
qed

lemma require_grant_handled:
  "require_grant e g c st k = (st', Inr r) \<Longrightarrow> resp_status r \<noteq> 400 \<Longrightarrow>
     k = (st', Inr r) \<and> client_has_grant (env_recursion e) g c = Inr True"
  by (auto simp: require_grant_def or_raise_def reject_def split: sum.splits if_splits)

lemma exc_response_status:
  "refresh_plan_for sv e gr old = Inl x \<Longrightarrow> exc_response x = Inr r \<Longrightarrow> resp_status r = 400"
  by (auto simp: refresh_plan_for_def choose_scope_def validate_resource_def check_len_def refresh_audience_def
      bind_res_Inl_iff exc_response_def oauth_exc_def json_exc_def Let_def
      split: if_splits option.splits limit_failure.splits)

text \<open>
  C8. Reuse of a rotated refresh token is detected and revokes the family: after a granted refresh,
  whatever storage operations follow, presenting the old refresh token again as the same client
  is answered \<open>invalid_grant\<close>, and every token of the family, the one just issued included, is then
  revoked.
\<close>

theorem refresh_reuse_revokes_family:
  assumes "refresh_token_grant sv1 e1 gr1 st1 = (st1', Inr r1)" and "resp_status r1 = 200"
    and "app_db st2 = fold storage_step ops (app_db st1')"
    and "map_of (gr_form gr2) ''refresh_token'' = map_of (gr_form gr1) ''refresh_token''"
    and "client_client_id (gr_client gr2) = client_client_id (gr_client gr1)"
    and "client_has_grant (env_recursion e2) ''refresh_token'' (gr_client gr2) = Inr True"
  shows "\<exists>st2' old. refresh_token_grant sv2 e2 gr2 st2 =
      (st2', Inr (oauth_error ''invalid_grant'' (Some ''refresh token has been revoked'') 400)) \<and>
    get_token_by_refresh_token (the (map_of (gr_form gr1) ''refresh_token'')) (app_db st1) = Some old \<and>
    (\<forall>f t. token_token_family old = Some f \<longrightarrow> f \<noteq> [] \<longrightarrow> t \<in> set (db_tokens (app_db st2')) \<longrightarrow>
       token_token_family t = Some f \<longrightarrow> token_revoked t)"
proof -
  obtain st0 cr where ch: "refresh_check sv1 e1 gr1 st1 = (st0, cr)" by fastforce
  have run: "run_checked (refresh_check sv1 e1 gr1 st1) (refresh_commit sv1 e1 gr1) = (st1', Inr r1)"
    using assms(1,2) unfolding refresh_token_grant_def by (auto dest: require_grant_handled)
  have "\<exists>p. cr = Inr p"
  proof (rule ccontr)
    assume "\<nexists>p. cr = Inr p"
    then obtain q where q: "cr = Inl q" by (cases cr) auto
    then have "q = Inr r1" using run ch by (simp add: run_checked_def)
    then show False
      using assms(2) ch q exc_response_status
      by (fastforce simp: refresh_check_def refuse_def Let_def split: option.splits if_splits sum.splits)
  qed
  then obtain p where p: "cr = Inr p" by blast
  note f = refresh_check_Inr [OF ch [unfolded p]]
  obtain rv where rv: "map_of (gr_form gr1) ''refresh_token'' = Some rv"
      "get_token_by_refresh_token rv (app_db st1) = Some (rp_old p)" using f(2) by blast
  have "rv \<noteq> []" using ch p rv(1) by (auto simp: refresh_check_def refuse_def Let_def split: if_splits)
  have "st1' = fst (refresh_commit sv1 e1 gr1 p st1)" using run ch p f(1) by (simp add: run_checked_def)
  then have "get_token_by_refresh_token rv (app_db st1') = Some (revoke (rp_old p))"
    using refresh_commit_revokes [OF rv(2)] by simp
  then obtain u where u: "get_token_by_refresh_token rv (app_db st2) = Some u" "token_later (revoke (rp_old p)) u"
    using token_refresh_run assms(3) by metis
  have later: "token_revoked u" "token_client_id u = client_client_id (gr_client gr2)"
      "token_token_family u = token_token_family (rp_old p)"
    using u(2) f(3) assms(5) by (simp_all add: token_later_def revoke_def refreshable_def)
  have "refresh_token_grant sv2 e2 gr2 st2 = (revoke_family (token_token_family u) st2,
      Inr (oauth_error ''invalid_grant'' (Some ''refresh token has been revoked'') 400))"
    unfolding refresh_token_grant_def require_grant_ok [OF assms(6)]
    using assms(4) rv(1) \<open>rv \<noteq> []\<close> u(1) later by (simp add: refresh_check_def run_checked_def refuse_def)
  then show ?thesis using rv later(3) revoke_family_all by auto
qed

text \<open>
  A refused refresh changes nothing the client needs: when the answer is a 400, the database is
  exactly as before, so the refresh token and its family stay usable for a corrected retry, unless
  the token presented had already been revoked (where reuse detection takes over).
\<close>

theorem refused_refresh_leaves_database:
  assumes "refresh_token_grant sv e gr st = (st', Inr r)" and "resp_status r = 400"
    and "\<forall>rv old. map_of (gr_form gr) ''refresh_token'' = Some rv \<longrightarrow> get_token_by_refresh_token rv (app_db st) = Some old \<longrightarrow>
       \<not> token_revoked old"
  shows "app_db st' = app_db st"
proof -
  have chk: "app_db (fst (refresh_check sv e gr st)) = app_db st"
    using assms(3) by (auto simp: refresh_check_def refuse_def Let_def split: option.split sum.split dest!: truthyD)
  have no: "resp_status r' \<noteq> 400" if "snd (refresh_commit sv e gr p st) = Inr r'" for p r'
  proof -
    have "resp_status q \<noteq> 400" if "snd (finish_with_id_token sv e gr uid sc n co sel tr s) = Inr q" for uid sc n co sel tr s q
      using that
      by (auto simp: finish_with_id_token_def finish_def with_dpop_nonce_def json_ok_def bind_res_Inr_iff
          split: sum.splits if_splits)
    then show ?thesis using that by (auto simp: refresh_commit_def Let_def case_prod_unfold or_raise_def split: sum.splits)
  qed
  obtain st0 cr where ch: "refresh_check sv e gr st = (st0, cr)" by fastforce
  show ?thesis
  proof (cases cr)
    case (Inl q)
    then show ?thesis
      using assms(1) chk ch
      by (auto simp: refresh_token_grant_def require_grant_def or_raise_def run_checked_def reject_def split: sum.splits if_splits)
  next
    case (Inr p)
    then have "st0 = st" using refresh_check_Inr(1) ch by blast
    then show ?thesis
      using assms(1,2) no [of p r] ch Inr
      by (auto simp: refresh_token_grant_def require_grant_def or_raise_def run_checked_def reject_def split: sum.splits if_splits)
  qed
qed

lemma validate_resource_empty: "validate_resource v = Inr (Some r) \<Longrightarrow> r \<noteq> []"
proof
  assume v: "validate_resource v = Inr (Some r)" and "r = []"
  then have "v = Some []" by (auto simp: validate_resource_def split: option.splits sum.splits limit_failure.splits if_splits)
  moreover have "sum.isl (validate_resource (Some []))" by code_simp
  ultimately show False using v \<open>r = []\<close> by simp
qed

text \<open>
  A refresh never widens the audience: when the old access token names an audience, the claims
  of the refreshed token are for a subset of it, whether the request names a resource or not.
\<close>

theorem refresh_never_widens_audience:
  assumes "refresh_plan_for sv e gr old = Inr p" and "salvage_old_aud (sv_lib sv) (token_access_token old) = Some aud"
  shows "set (claims_aud (claims_new e' sub cid (rp_scope p) ttl iss cnf details act (rp_resource p) (rp_audience p))) \<subseteq> set aud"
proof -
  have ne: "aud \<noteq> []" using assms(2) by (auto simp: salvage_old_aud_def split: json.splits if_splits)
  have a: "validate_resource (map_of (gr_form gr) ''resource'') = Inr (rp_resource p)"
      "refresh_audience (rp_resource p) (Some aud) = Inr (rp_audience p)"
    using assms by (auto simp: refresh_plan_for_def Let_def bind_res_Inr_iff split: if_splits)
  show ?thesis
  proof (cases "rp_resource p")
    case None
    then have "rp_audience p = Some aud" using a(2) by (simp add: refresh_audience_def)
    then show ?thesis using ne by (cases aud) (simp_all add: claims_new_def Let_def)
  next
    case (Some res)
    then have "res \<in> set aud" "rp_audience p = None" using a(2) by (auto simp: refresh_audience_def split: if_splits)
    moreover have "res \<noteq> []"
    proof
      assume "res = []"
      then show False using a(1) Some validate_resource_empty by auto
    qed
    ultimately show ?thesis using Some by (simp add: claims_new_def Let_def)
  qed
qed


section \<open>An honest client gets its token\<close>










section \<open>Evaluated runs and the rotation race\<close>

definition flow_token :: token where
  "flow_token = \<lparr>token_pk = ''t0'', token_access_token = ''at0'', token_refresh_token = Some ''rt0'', token_token_type = ''Bearer'',
     token_expires_in = 3600, token_scope = ''read'', token_client_id = ''app'', token_user_id = None, token_created_at = 0,
     token_expires_at = 3600000000, token_revoked = False, token_token_family = Some ''fam''\<rparr>"

definition flow_verifier :: string where
  "flow_verifier = replicate 43 (CHR ''v'')"

definition flow_code :: authorization_code where
  "flow_code = \<lparr>code_pk = ''k0'', code_code = ''c0d3'', code_client_id = ''app'', code_user_id = ''u1'', code_redirect_uri = ''https://app/cb'',
     code_scope = ''read'', code_created_at = 0, code_expires_at = 600000000, code_used = False,
     code_code_challenge = Some (pkce_challenge flow_verifier), code_code_challenge_method = Some ''S256'', code_nonce = None,
     code_resource = None, code_authorization_details = None, code_claims_request = None, code_token_family = Some ''fam'',
     code_dpop_jkt = None\<rparr>"

definition flow_gr :: "string dict \<Rightarrow> grant_request" where
  "flow_gr form = \<lparr>gr_client = flow_client, gr_form = form, gr_dpop = None, gr_cnf = None\<rparr>"

definition flow_plan :: refresh_plan where
  "flow_plan = \<lparr>rp_old = flow_token, rp_scope = ''read'', rp_resource = None, rp_audience = None, rp_cnf = None\<rparr>"

abbreviation refresh_form :: "string dict" where
  "refresh_form \<equiv> [(''refresh_token'', ''rt0'')]"

lemma flow_scope: "''openid'' \<notin> set (py_split ''read'')"
  by code_simp

lemma flow_salvage: "salvage_old_cnf plain_lib ''at0'' = None" "salvage_old_aud plain_lib ''at0'' = None"
  by code_simp+

lemma flow_draws [simp]:
  "env_urlsafe (sample_env now tag) n = tag @ ''-s'' @ str_int (int n)" "env_uuid (sample_env now tag) n = tag @ ''-u'' @ str_int (int n)"
  by (simp_all add: sample_env_def)

lemma flow_refresh_check:
  "refresh_check flow_server (sample_env 0 tag) (flow_gr refresh_form) (flow_app [flow_token] []) = (flow_app [flow_token] [], Inr flow_plan)"
  by (simp add: refresh_check_def flow_gr_def flow_app_def fresh_app_def get_token_by_refresh_token_def refresh_plan_for_def flow_server_def
      sample_config_def flow_salvage choose_scope_def validate_resource_def refresh_audience_def bound_jkt_def flow_token_def flow_plan_def
      usecs_def Let_def)

lemma flow_finish:
  "finish_with_id_token flow_server e (flow_gr form) uid ''read'' n co sel tr st = (st, Inr (json_ok (token_response_body tr)))"
  by (simp add: finish_with_id_token_def flow_scope finish_def with_dpop_nonce_def flow_gr_def)

lemma flow_refresh_commit:
  assumes "\<not> list_ex (\<lambda>t. token_access_token t = env_urlsafe e 0 \<or> token_pk t = env_uuid e 2) (db_tokens (app_db st))"
    and "db_dialect (app_db st) = Sqlite"
  shows "\<exists>st' r t. refresh_commit flow_server e (flow_gr refresh_form) flow_plan st = (st', Inr r) \<and> resp_status r = 200 \<and>
    app_db st' = (revoke_token ''at0'' (app_db st))\<lparr>db_tokens := db_tokens (revoke_token ''at0'' (app_db st)) @ [t]\<rparr> \<and>
    \<not> token_revoked t \<and> token_access_token t = env_urlsafe e 0 \<and> token_pk t = env_uuid e 2 \<and>
    token_refresh_token t = Some (env_urlsafe e 1)"
proof -
  let ?st1 = "st\<lparr>app_db := revoke_token ''at0'' (app_db st)\<rparr>"
  let ?a = "\<lparr>ia_user_id = None, ia_scope = ''read'', ia_with_refresh = True, ia_token_family = Some ''fam'',
             ia_cnf = None, ia_authorization_details = None, ia_act = None, ia_resource = None, ia_audience = None\<rparr>"
  let ?row = "issue_row e (sv_config flow_server) flow_client ?a (env_urlsafe e 0)"
  have "\<not> list_ex (\<lambda>t. token_access_token t = env_urlsafe e 0 \<or> token_pk t = env_uuid e 2) (db_tokens (app_db ?st1))"
    using assms(1) by (auto simp: revoke_token_def revoke_where_def sql_update_def revoke_def list_ex_iff)
  moreover have "db_dialect (app_db ?st1) = Sqlite" using assms(2) by (simp add: revoke_token_def revoke_where_def)
  ultimately obtain st' tr where i: "issue_token flow_server e flow_client ?a ?st1 = (st', Inr tr)"
      "app_db st' = (app_db ?st1)\<lparr>db_tokens := db_tokens (app_db ?st1) @ [issue_row e (sv_config flow_server) flow_client ?a (env_urlsafe e 0)]\<rparr>"
    using flow_issue_token by blast
  have "refresh_commit flow_server e (flow_gr refresh_form) flow_plan st = (st', Inr (json_ok (token_response_body tr)))"
    using i(1) by (simp add: refresh_commit_def flow_plan_def flow_token_def flow_gr_def or_str_def or_raise_def
        flow_finish [unfolded flow_gr_def])
  moreover have "resp_status (json_ok (token_response_body tr)) = 200" by (simp add: json_ok_def)
  moreover have "app_db st' = (revoke_token ''at0'' (app_db st))\<lparr>db_tokens := db_tokens (revoke_token ''at0'' (app_db st)) @ [?row]\<rparr>"
    using i(2) by simp
  moreover have "\<not> token_revoked ?row" "token_access_token ?row = env_urlsafe e 0" "token_pk ?row = env_uuid e 2"
      "token_refresh_token ?row = Some (env_urlsafe e 1)"
    by (simp_all add: issue_row_def)
  ultimately show ?thesis by blast
qed

text \<open>
  Rotation is not atomic: two requests that both look up the same live refresh token before
  either revokes it are both answered 200 with a fresh token pair, and both new tokens stay live.
  The conditional claim that makes an authorization code single-use has no counterpart here.
\<close>

theorem concurrent_refreshes_both_succeed:
  "\<exists>st1 r1 st2 r2.
     refresh_check flow_server (sample_env 0 ''a'') (flow_gr refresh_form) (flow_app [flow_token] []) = (flow_app [flow_token] [], Inr flow_plan) \<and>
     refresh_check flow_server (sample_env 0 ''b'') (flow_gr refresh_form) (flow_app [flow_token] []) = (flow_app [flow_token] [], Inr flow_plan) \<and>
     refresh_commit flow_server (sample_env 0 ''a'') (flow_gr refresh_form) flow_plan (flow_app [flow_token] []) = (st1, Inr r1) \<and>
     refresh_commit flow_server (sample_env 0 ''b'') (flow_gr refresh_form) flow_plan st1 = (st2, Inr r2) \<and>
     resp_status r1 = 200 \<and> resp_status r2 = 200 \<and>
     length (filter (\<lambda>t. \<not> token_revoked t) (db_tokens (app_db st2))) = 2"
proof -
  let ?st = "flow_app [flow_token] []"
  have db: "db_tokens (app_db ?st) = [flow_token]" "db_dialect (app_db ?st) = Sqlite"
    by (simp_all add: flow_app_def fresh_app_def empty_db_def)
  have rev: "db_tokens (revoke_token ''at0'' d) = map (\<lambda>t. if token_access_token t = ''at0'' \<or> token_refresh_token t = Some ''at0'' then revoke t else t) (db_tokens d)"
      "db_dialect (revoke_token ''at0'' d) = db_dialect d" for d
    by (simp_all add: revoke_token_def revoke_where_def sql_update_def)
  obtain st1 r1 t1 where c1: "refresh_commit flow_server (sample_env 0 ''a'') (flow_gr refresh_form) flow_plan ?st = (st1, Inr r1)"
      "resp_status r1 = 200" "app_db st1 = (revoke_token ''at0'' (app_db ?st))\<lparr>db_tokens := db_tokens (revoke_token ''at0'' (app_db ?st)) @ [t1]\<rparr>"
      and t1: "\<not> token_revoked t1" "token_access_token t1 = env_urlsafe (sample_env 0 ''a'') 0" "token_pk t1 = env_uuid (sample_env 0 ''a'') 2"
      "token_refresh_token t1 = Some (env_urlsafe (sample_env 0 ''a'') 1)"
    using flow_refresh_commit [of "sample_env 0 ''a''" ?st] db by (auto simp: flow_token_def)
  have d1: "db_tokens (app_db st1) = [revoke flow_token, t1]" "db_dialect (app_db st1) = Sqlite"
    using c1(3) db by (simp_all add: rev flow_token_def)
  obtain st2 r2 t2 where c2: "refresh_commit flow_server (sample_env 0 ''b'') (flow_gr refresh_form) flow_plan st1 = (st2, Inr r2)"
      "resp_status r2 = 200" "app_db st2 = (revoke_token ''at0'' (app_db st1))\<lparr>db_tokens := db_tokens (revoke_token ''at0'' (app_db st1)) @ [t2]\<rparr>"
      and t2: "\<not> token_revoked t2"
    using flow_refresh_commit [of "sample_env 0 ''b''" st1] d1 t1 by (auto simp: flow_token_def revoke_def)
  have "db_tokens (app_db st2) = [revoke flow_token, t1, t2]"
    using c2(3) d1 t1 by (simp add: rev flow_token_def revoke_def)
  then have "length (filter (\<lambda>t. \<not> token_revoked t) (db_tokens (app_db st2))) = 2" using t1(1) t2 by (simp add: revoke_def)
  then show ?thesis using c1(1,2) c2(1,2) flow_refresh_check by blast
qed

lemma flow_code_commit:
  "\<exists>st' r. authorization_code_commit flow_server (sample_env 0 ''a'') (flow_gr []) (flow_code, None) (flow_app [] [flow_code]) = (st', Inr r) \<and>
     resp_status r = 200"
proof -
  let ?e = "sample_env 0 ''a''" and ?st = "flow_app [] [flow_code]"
  let ?st1 = "emit_event ''authorization_code_validated'' ''info'' (Some ''u1'') (Some ''app'') []
      (?st\<lparr>app_db := snd (mark_authorization_code_used ''c0d3'' (app_db ?st))\<rparr>)"
  have m: "fst (mark_authorization_code_used ''c0d3'' (app_db ?st)) = 1"
    by (simp add: mark_authorization_code_used_def rowcount_def flow_app_def fresh_app_def flow_code_def)
  let ?a = "\<lparr>ia_user_id = Some ''u1'', ia_scope = ''read'', ia_with_refresh = True, ia_token_family = Some ''fam'', ia_cnf = None,
       ia_authorization_details = None, ia_act = None, ia_resource = None, ia_audience = None\<rparr>"
  have db: "db_tokens (app_db ?st1) = []" "db_dialect (app_db ?st1) = Sqlite"
    by (simp_all add: mark_authorization_code_used_def Let_def flow_app_def fresh_app_def empty_db_def)
  have "\<not> list_ex (\<lambda>t. token_access_token t = env_urlsafe ?e 0 \<or> token_pk t = env_uuid ?e 2) (db_tokens (app_db ?st1))"
    unfolding db by simp
  from flow_issue_token [OF this db(2), of flow_client ?a] obtain st' tr where i: "issue_token flow_server ?e flow_client
      \<lparr>ia_user_id = Some ''u1'', ia_scope = ''read'', ia_with_refresh = True, ia_token_family = Some ''fam'', ia_cnf = None,
       ia_authorization_details = None, ia_act = None, ia_resource = None, ia_audience = None\<rparr> ?st1 = (st', Inr tr)"
    by blast
  then have "authorization_code_commit flow_server ?e (flow_gr []) (flow_code, None) ?st = (st', Inr (json_ok (token_response_body tr)))"
    using m by (simp add: authorization_code_commit_def flow_code_def flow_gr_def or_raise_def Let_def case_prod_unfold
        flow_finish [unfolded flow_gr_def])
  then show ?thesis by (simp add: json_ok_def)
qed

theorem code_redeemed_at_most_once_witness:
  "\<exists>st' r st''. authorization_code_commit flow_server (sample_env 0 ''a'') (flow_gr []) (flow_code, None) (flow_app [] [flow_code]) = (st', Inr r) \<and>
     resp_status r = 200 \<and>
     authorization_code_commit flow_server (sample_env 0 ''b'') (flow_gr []) (flow_code, None) st' =
       (st'', Inr (oauth_error ''invalid_grant'' (Some ''authorization code has already been used'') 400))"
proof -
  obtain st' r where c: "authorization_code_commit flow_server (sample_env 0 ''a'') (flow_gr []) (flow_code, None) (flow_app [] [flow_code]) = (st', Inr r)"
      "resp_status r = 200" using flow_code_commit by blast
  have "resp_status r \<noteq> 400" "app_db st' = fold storage_step [] (app_db st')" using c(2) by simp_all
  from code_redeemed_at_most_once [OF c(1) this refl] c show ?thesis by blast
qed

lemma flow_refreshed:
  "\<exists>st' r. refresh_token_grant flow_server (sample_env 0 ''a'') (flow_gr refresh_form) (flow_app [flow_token] []) = (st', Inr r) \<and> resp_status r = 200"
proof -
  let ?st = "flow_app [flow_token] []"
  have db: "db_tokens (app_db ?st) = [flow_token]" "db_dialect (app_db ?st) = Sqlite"
    by (simp_all add: flow_app_def fresh_app_def empty_db_def)
  have "\<exists>st' r. refresh_commit flow_server (sample_env 0 ''a'') (flow_gr refresh_form) flow_plan ?st = (st', Inr r) \<and> resp_status r = 200"
    using flow_refresh_commit [of "sample_env 0 ''a''" ?st] db by (auto simp: flow_token_def)
  then show ?thesis
    by (simp add: refresh_token_grant_def flow_refresh_check [unfolded flow_gr_def] run_checked_def require_grant_ok flow_grants flow_gr_def)
qed

theorem refresh_reuse_revokes_family_witness:
  "\<exists>st' r st''. refresh_token_grant flow_server (sample_env 0 ''a'') (flow_gr refresh_form) (flow_app [flow_token] []) = (st', Inr r) \<and>
     resp_status r = 200 \<and>
     refresh_token_grant flow_server (sample_env 0 ''b'') (flow_gr refresh_form) st' =
       (st'', Inr (oauth_error ''invalid_grant'' (Some ''refresh token has been revoked'') 400))"
proof -
  obtain st' r where c: "refresh_token_grant flow_server (sample_env 0 ''a'') (flow_gr refresh_form) (flow_app [flow_token] []) = (st', Inr r)"
      "resp_status r = 200" using flow_refreshed by blast
  have "app_db st' = fold storage_step [] (app_db st')"
      "client_has_grant (env_recursion (sample_env 0 ''b'')) ''refresh_token'' (gr_client (flow_gr refresh_form)) = Inr True"
    using flow_grants by (simp_all add: flow_gr_def)
  from refresh_reuse_revokes_family [OF c this(1) refl refl this(2)] c show ?thesis by blast
qed

theorem refused_refresh_leaves_database_witness:
  "\<exists>st' r. refresh_token_grant flow_server (sample_env 0 ''a'') (flow_gr [(''refresh_token'', ''rt0''), (''scope'', ''admin'')])
       (flow_app [flow_token] []) = (st', Inr r) \<and> resp_status r = 400 \<and> app_db st' = app_db (flow_app [flow_token] [])"
proof -
  let ?gr = "flow_gr [(''refresh_token'', ''rt0''), (''scope'', ''admin'')]" and ?st = "flow_app [flow_token] []"
  have "\<not> scope_is_subset ''admin'' ''read''" by code_simp
  then have "refresh_check flow_server (sample_env 0 ''a'') ?gr ?st =
      (?st, Inl (Inr (oauth_error ''invalid_scope'' (Some ''requested scope exceeds the original grant'') 400)))"
    by (simp add: refresh_check_def flow_gr_def flow_app_def fresh_app_def get_token_by_refresh_token_def refresh_plan_for_def flow_server_def
        sample_config_def choose_scope_def flow_token_def usecs_def oauth_exc_def exc_response_def Let_def)
  then have r: "refresh_token_grant flow_server (sample_env 0 ''a'') ?gr ?st =
      (?st, Inr (oauth_error ''invalid_scope'' (Some ''requested scope exceeds the original grant'') 400))"
    by (simp add: refresh_token_grant_def run_checked_def require_grant_ok flow_grants flow_gr_def
        del: flow_env) (simp add: require_grant_ok flow_grants)
  have "\<forall>rv old. map_of (gr_form ?gr) ''refresh_token'' = Some rv \<longrightarrow> get_token_by_refresh_token rv (app_db ?st) = Some old \<longrightarrow> \<not> token_revoked old"
    by (auto simp: flow_gr_def flow_app_def fresh_app_def get_token_by_refresh_token_def flow_token_def)
  from refused_refresh_leaves_database [OF r _ this] r show ?thesis by auto
qed

definition jwt_server :: "bytes server" where
  "jwt_server = flow_server\<lparr>sv_config := sample_config\<rparr>"

theorem refresh_never_widens_audience_witness:
  "\<exists>p. refresh_plan_for jwt_server (sample_env 0 ''a'') (flow_gr [])
         (flow_token\<lparr>token_access_token := ''{\"aud\": [\"https://api\", \"https://b\"]}''\<rparr>) = Inr p \<and>
     set (claims_aud (claims_new (sample_env 0 ''a'') ''u'' ''app'' (rp_scope p) 3600 ''i'' None None None (rp_resource p) (rp_audience p)))
       \<subseteq> {''https://api'', ''https://b''}"
proof -
  let ?old = "flow_token\<lparr>token_access_token := ''{\"aud\": [\"https://api\", \"https://b\"]}''\<rparr>"
  have aud: "salvage_old_aud (sv_lib jwt_server) (token_access_token ?old) = Some [''https://api'', ''https://b'']"
    by code_simp
  have cnf: "salvage_old_cnf (sv_lib jwt_server) (token_access_token ?old) = None"
    by code_simp
  have "\<exists>p. refresh_plan_for jwt_server (sample_env 0 ''a'') (flow_gr []) ?old = Inr p"
    unfolding refresh_plan_for_def aud cnf
    by (simp add: jwt_server_def flow_server_def sample_config_def flow_gr_def choose_scope_def validate_resource_def refresh_audience_def
        bound_jkt_def flow_token_def usecs_def Let_def)
  then obtain p where p: "refresh_plan_for jwt_server (sample_env 0 ''a'') (flow_gr []) ?old = Inr p" by blast
  from refresh_never_widens_audience [OF p aud] p show ?thesis by auto
qed


end
