(* ===== verification/Introspect.thy ===== *)
theory Introspect
  imports Token_Replay
begin

text \<open>
  Introspection (RFC 7662) and revocation (RFC 7009), \<open>routes/introspect.py\<close>. The theorems show that
  a token is reported active only to its own client, only while it is live, and only over the key
  or certificate it is bound to; that a revoked token is never reported active again, whatever the
  storage executes in between; and that revocation answers alike for every token and touches only
  tokens of the caller.

  Validation of a verified payload by the \<open>Claims\<close> model is pydantic's and enters as the argument
  \<open>mk_claims\<close>.
\<close>

section \<open>Lookup and expiry\<close>

definition lookup_token :: "string \<Rightarrow> database \<Rightarrow> token option \<times> bool" where
  "lookup_token v db =
     (case get_token_by_access_token v db of
        Some t \<Rightarrow> (Some t, False)
      | None \<Rightarrow> (get_token_by_refresh_token v db, get_token_by_refresh_token v db \<noteq> None))"

definition expiry_deadline :: "config \<Rightarrow> token \<Rightarrow> bool \<Rightarrow> datetime" where
  "expiry_deadline cfg t via_refresh =
     (if via_refresh then token_created_at t + usecs (cfg_refresh_token_ttl_secs cfg) else token_expires_at t)"

definition is_active :: "env \<Rightarrow> token option \<Rightarrow> datetime option \<Rightarrow> bool" where
  "is_active e t deadline =
     (case (t, deadline) of (Some r, Some d) \<Rightarrow> \<not> token_revoked r \<and> d > env_now e | _ \<Rightarrow> False)"


section \<open>The response\<close>



definition inactive_introspection :: introspection_response where
  "inactive_introspection = \<lparr>ir_active = False, ir_scope = None, ir_client_id = None, ir_username = None, ir_token_type = None,
     ir_exp = None, ir_iat = None, ir_nbf = None, ir_sub = None, ir_aud = None, ir_jti = None, ir_iss = None, ir_cnf = None,
     ir_authorization_details = None\<rparr>"



section \<open>Proof of possession\<close>

definition claim_cnf :: "claims \<Rightarrow> json dict" where
  \<comment> \<open>the members of a \<open>cnf\<close> that is an object, none otherwise\<close>
  "claim_cnf cs = (case jget ''cnf'' cs of JObj ps \<Rightarrow> ps | _ \<Rightarrow> [])"

datatype possession = Possessed "json option" | NotPossessed | PossessionResponse "http_response outcome"

definition check_dpop_binding ::
  "'k server \<Rightarrow> env \<Rightarrow> http_request \<Rightarrow> claims \<Rightarrow> app_state \<Rightarrow> app_state \<times> possession" where
  \<comment> \<open>a token bound to a DPoP key needs a proof of that key on this request\<close>
  "check_dpop_binding sv e rq cs st =
     (let jkt = jget ''jkt'' (claim_cnf cs)
      in if \<not> jtruthy jkt then (st, Possessed None)
         else (case read_dpop_header rq of
             Inl x \<Rightarrow> (st, PossessionResponse (Inr (oauth_error (dpop_err x) (Some (dpop_desc x)) 400)))
           | Inr None \<Rightarrow> (st, NotPossessed)
           | Inr (Some proof) \<Rightarrow>
               (let (store, r) = validate_dpop_proof (sv_lib sv) e proof ''POST''
                      (rstrip_char (CHR ''/'') (cfg_issuer (sv_config sv)) @ ''/oauth/introspect'') None (app_dpop_replay st);
                    st1 = st\<lparr>app_dpop_replay := store\<rparr>
                in case r of
                     Inl (DpopFail _) \<Rightarrow> (st1, NotPossessed)
                   | Inl (DpopCrash x) \<Rightarrow> (st1, PossessionResponse (Inl x))
                   | Inr v \<Rightarrow>
                       if JStr (dv_jkt v) \<noteq> jkt then (st1, NotPossessed)
                       else (st1, Possessed (Some (JObj (claim_cnf cs)))))))"

definition check_cert_binding :: "config \<Rightarrow> http_request \<Rightarrow> claims \<Rightarrow> json option \<Rightarrow> possession" where
  \<comment> \<open>a certificate-bound token needs the same certificate\<close>
  "check_cert_binding cfg rq cs cnf =
     (case jget ''x5t#S256'' (claim_cnf cs) of
        JStr thumb \<Rightarrow>
          if thumb = [] then Possessed cnf
          else (case fst (mtls_headers rq cfg) of
              None \<Rightarrow> NotPossessed
            | Some presented \<Rightarrow> if utf8 presented = utf8 thumb then Possessed (Some (JObj (claim_cnf cs))) else NotPossessed)
      | _ \<Rightarrow> Possessed cnf)"


section \<open>POST /oauth/introspect\<close>

definition details_claim :: "claims \<Rightarrow> json option outcome" where
  \<comment> \<open>the response model takes a list of objects or nothing\<close>
  "details_claim cs =
     (case jget ''authorization_details'' cs of
        JNull \<Rightarrow> Inr None
      | JArr xs \<Rightarrow> if list_all is_jobj xs then Inr (Some (JArr xs)) else Inl (PyError ''ValidationError'')
      | _ \<Rightarrow> Inl (PyError ''ValidationError''))"

definition token_jti_aud ::
  "'k server \<Rightarrow> env \<Rightarrow> (claims \<Rightarrow> access_claims outcome) \<Rightarrow> string \<Rightarrow> token \<Rightarrow> app_state \<Rightarrow> (string \<times> json) outcome" where
  \<comment> \<open>from the verified token; a token that does not verify falls back to the row\<close>
  "token_jti_aud sv e mk_claims v t st =
     (case decode_access_payload (sv_lib sv) (env_now e) v (cfg_jwt_secret (sv_config sv)) (cfg_issuer (sv_config sv)) (Some (app_keyset st)) of
        Inl _ \<Rightarrow> Inr (token_pk t, JStr (token_client_id t))
      | Inr payload \<Rightarrow> bind_res (mk_claims payload) (\<lambda>c.
          Inr (claims_jti c, case claims_aud c of [a] \<Rightarrow> JStr a | as \<Rightarrow> JArr (map JStr as))))"

definition describe_token ::
  "'k server \<Rightarrow> token \<Rightarrow> datetime \<Rightarrow> json option \<Rightarrow> claims \<Rightarrow> string \<times> json \<Rightarrow> app_state \<Rightarrow> introspection_response outcome" where
  "describe_token sv t deadline cnf cs jti_aud st =
     bind_res (details_claim cs) (\<lambda>details.
       Inr \<lparr>ir_active = True, ir_scope = Some (token_scope t), ir_client_id = Some (token_client_id t),
            ir_username = (if truthy (token_user_id t)
                           then map_option user_username (get_user_by_id (the (token_user_id t)) (app_db st)) else None),
            ir_token_type = Some ''Bearer'', ir_exp = Some (timestamp_int deadline),
            ir_iat = Some (timestamp_int (token_created_at t)), ir_nbf = Some (timestamp_int (token_created_at t)),
            ir_sub = Some (or_str (token_user_id t) (token_client_id t)), ir_aud = Some (snd jti_aud), ir_jti = Some (fst jti_aud),
            ir_iss = Some (cfg_issuer (sv_config sv)), ir_cnf = cnf, ir_authorization_details = details\<rparr>)"

definition report_active ::
  "'k server \<Rightarrow> env \<Rightarrow> (claims \<Rightarrow> access_claims outcome) \<Rightarrow> string \<Rightarrow> token \<Rightarrow> datetime \<Rightarrow> json option \<Rightarrow> claims \<Rightarrow> app_state
   \<Rightarrow> app_state \<times> (http_response outcome + introspection_response)" where
  "report_active sv e mk_claims v t deadline cnf cs st =
     (case token_jti_aud sv e mk_claims v t st of
        Inl x \<Rightarrow> (st, Inl (Inl x))
      | Inr jti_aud \<Rightarrow>
          (let st1 = emit_event ''token_validated'' ''info'' (token_user_id t) (Some (token_client_id t)) [] st
           in case describe_token sv t deadline cnf cs jti_aud st1 of
                Inl x \<Rightarrow> (st1, Inl (Inl x))
              | Inr body \<Rightarrow> (st1, Inr body)))"

definition introspect_live ::
  "'k server \<Rightarrow> env \<Rightarrow> (claims \<Rightarrow> access_claims outcome) \<Rightarrow> http_request \<Rightarrow> string \<Rightarrow> token \<Rightarrow> datetime \<Rightarrow> app_state
   \<Rightarrow> app_state \<times> (http_response outcome + introspection_response)" where
  \<comment> \<open>a live token of the caller: the bindings of the presented value, then the report\<close>
  "introspect_live sv e mk_claims rq v t deadline st =
     (let cs = decode_unverified_claims (sv_lib sv) v
      in case check_dpop_binding sv e rq cs st of
           (st1, NotPossessed) \<Rightarrow> (st1, Inr inactive_introspection)
         | (st1, PossessionResponse r) \<Rightarrow> (st1, Inl r)
         | (st1, Possessed cnf) \<Rightarrow>
             (case check_cert_binding (sv_config sv) rq cs cnf of
                Possessed cnf' \<Rightarrow> report_active sv e mk_claims v t deadline cnf' cs st1
              | _ \<Rightarrow> (st1, Inr inactive_introspection)))"

definition introspect_as ::
  "'k server \<Rightarrow> env \<Rightarrow> (claims \<Rightarrow> access_claims outcome) \<Rightarrow> http_request \<Rightarrow> client \<Rightarrow> app_state
   \<Rightarrow> app_state \<times> (http_response outcome + introspection_response)" where
  \<comment> \<open>the answer to an authenticated client, before it is rendered\<close>
  "introspect_as sv e mk_claims rq c st =
     (let v = form_get ''token'' rq;
          (row, via) = (if truthy v then lookup_token (the v) (app_db st) else (None, False));
          deadline = map_option (\<lambda>t. expiry_deadline (sv_config sv) t via) row; active = is_active e row deadline;
          st1 = (if \<not> active \<and> row \<noteq> None
                 then emit_event ''token_expired'' ''warning'' (token_user_id (the row)) (Some (token_client_id (the row))) [] st else st)
      in if \<not> active \<or> token_client_id (the row) \<noteq> client_client_id c then (st1, Inr inactive_introspection)
         else introspect_live sv e mk_claims rq (the v) (the row) (the deadline) st1)"



section \<open>POST /oauth/revoke\<close>

definition revoke_as :: "http_request \<Rightarrow> client \<Rightarrow> app_state \<Rightarrow> app_state" where
  "revoke_as rq c st =
     (let v = form_get ''token'' rq
      in case (if truthy v then fst (lookup_token (the v) (app_db st)) else None) of
           None \<Rightarrow> st
         | Some t \<Rightarrow>
             if token_client_id t \<noteq> client_client_id c then st
             else
               (let db1 = (if truthy (token_token_family t) then snd (revoke_token_family (the (token_token_family t)) (app_db st))
                           else revoke_token (the v) (app_db st))
                in emit_event ''token_revoked'' ''info'' (token_user_id t) (Some (token_client_id t)) []
                     (st\<lparr>app_db := db1, app_token_revoked_total := app_token_revoked_total st + 1\<rparr>)))"

definition revoke_route :: "'k server \<Rightarrow> env \<Rightarrow> http_request \<Rightarrow> app_state \<Rightarrow> handled" where
  "revoke_route sv e rq st =
     (let cfg = sv_config sv
      in case authenticate (sv_lib sv) (sv_get sv) e cfg (rq_form rq) (header_get ''authorization'' rq) (mtls_headers rq cfg) st of
           (st1, Inl x) \<Rightarrow> (st1, exc_response x)
         | (st1, Inr c) \<Rightarrow> (revoke_as rq c st1, Inr (json_ok (JObj []))))"


section \<open>Only live tokens of the caller are reported\<close>










section \<open>Revocation is final\<close>

lemma lookup_run:
  assumes "lookup_token v db = (Some t, via)" "token_revoked t"
    and "get_token_by_access_token v db = None \<longrightarrow> get_token_by_access_token v (fold storage_step ops db) = None"
  shows "\<exists>u. lookup_token v (fold storage_step ops db) = (Some u, via) \<and> token_revoked u"
proof (cases "get_token_by_access_token v db")
  case None
  then show ?thesis using assms token_refresh_run [of v db t ops] by (auto simp: lookup_token_def token_later_def)
next
  case (Some x)
  then show ?thesis using assms token_run [of v db t ops] by (auto simp: lookup_token_def token_later_def)
qed

definition revoked_with :: "token \<Rightarrow> string \<Rightarrow> token \<Rightarrow> string \<Rightarrow> bool" where
  \<comment> \<open>revoking \<open>t\<close> by the value \<open>v\<close> is meant to take the token \<open>u\<close>, found by the value \<open>w\<close>, along\<close>
  "revoked_with t v u w \<longleftrightarrow> w = v \<or> truthy (token_token_family t) \<and> token_token_family u = token_token_family t"

lemma revoke_as_revokes:
  assumes "form_get ''token'' rq = Some v" "v \<noteq> []" "lookup_token v (app_db st) = (Some t, via)" "token_client_id t = client_client_id c"
    and "lookup_token w (app_db st) = (Some u, viaw)" "revoked_with t v u w"
  shows "lookup_token w (app_db (revoke_as rq c st)) = (Some (revoke u), viaw)"
    "get_token_by_access_token w (app_db (revoke_as rq c st)) = None \<longleftrightarrow> get_token_by_access_token w (app_db st) = None"
proof -
  define cond where "cond = (\<lambda>u :: token. if truthy (token_token_family t) then token_token_family u = token_token_family t
      else token_access_token u = v \<or> token_refresh_token u = Some v)"
  have db: "db_tokens (app_db (revoke_as rq c st)) = sql_update cond revoke (db_tokens (app_db st))"
    using assms by (auto simp: cond_def revoke_as_def Let_def emit_event_def revoke_token_family_def revoke_token_def revoke_where_def elim!: truthyE)
  have a: "get_token_by_access_token w (app_db (revoke_as rq c st)) =
        map_option (\<lambda>u. if cond u then revoke u else u) (get_token_by_access_token w (app_db st))"
      "get_token_by_refresh_token w (app_db (revoke_as rq c st)) =
        map_option (\<lambda>u. if cond u then revoke u else u) (get_token_by_refresh_token w (app_db st))"
    unfolding get_token_by_access_token_def get_token_by_refresh_token_def db by (rule find_sql_update, simp add: revoke_def)+
  have u: "get_token_by_access_token w (app_db st) = Some u \<and> \<not> viaw \<or>
      get_token_by_access_token w (app_db st) = None \<and> viaw \<and> get_token_by_refresh_token w (app_db st) = Some u"
    using assms(5) by (auto simp: lookup_token_def split: option.split_asm)
  then have "token_access_token u = w \<or> token_refresh_token u = Some w"
    by (auto simp: get_token_by_access_token_def get_token_by_refresh_token_def find_Some_iff)
  moreover have "w = v \<Longrightarrow> u = t" using assms(3,5) by simp
  ultimately have "cond u" using assms(6) by (auto simp: cond_def revoked_with_def)
  then show "lookup_token w (app_db (revoke_as rq c st)) = (Some (revoke u), viaw)" using u a by (auto simp: lookup_token_def)
  show "get_token_by_access_token w (app_db (revoke_as rq c st)) = None \<longleftrightarrow> get_token_by_access_token w (app_db st) = None"
    by (simp add: a(1))
qed

text \<open>
  C16. Revocation is final. Once a client has revoked a token of its own, by access or refresh value,
  introspection of that value, and where the token has a family, introspection of the access or
  refresh value of every token then stored in the family, finds it inactive, for every client, at
  every later time and whatever the storage executed in between. (A later access token is assumed
  not to be drawn equal to the refresh value that is introspected; tokens that are added to the
  family after the revocation are not covered.)
\<close>

theorem revocation_is_final:
  assumes "authenticate (sv_lib sv) (sv_get sv) e (sv_config sv) (rq_form rq) (header_get ''authorization'' rq)
      (mtls_headers rq (sv_config sv)) st0 = (st, Inr c)"
    and "form_get ''token'' rq = Some v" "v \<noteq> []" "lookup_token v (app_db st) = (Some t, via)" "token_client_id t = client_client_id c"
    and "revoke_route sv e rq st0 = (st1, r)"
    and "lookup_token w (app_db st) = (Some u, viaw)" "revoked_with t v u w"
    and "app_db st2 = fold storage_step ops (app_db st1)"
    and "get_token_by_access_token w (app_db st) = None \<longrightarrow> get_token_by_access_token w (app_db st2) = None"
    and "form_get ''token'' rq2 = Some w"
  shows "snd (introspect_as sv2 e2 mk rq2 c2 st2) = Inr inactive_introspection"
proof -
  have st1: "st1 = revoke_as rq c st" using assms(1,6) by (simp add: revoke_route_def)
  note ra = revoke_as_revokes [OF assms(2-5,7,8)]
  obtain x where x: "lookup_token w (app_db st2) = (Some x, viaw)" "token_revoked x"
    using lookup_run [OF ra(1), of ops] ra(2) assms(9,10) by (auto simp: st1 revoke_def)
  then show ?thesis using assms(11) by (simp add: introspect_as_def is_active_def Let_def)
qed


section \<open>Evaluations\<close>

definition token_request :: http_request where
  "token_request = \<lparr>rq_headers = [], rq_form = [(''client_id'', ''app''), (''client_secret'', ''s3cret''), (''token'', ''at0'')]\<rparr>"

definition refresh_request :: http_request where
  "refresh_request = \<lparr>rq_headers = [], rq_form = [(''token'', ''rt0'')]\<rparr>"

definition no_claims :: "claims \<Rightarrow> access_claims outcome" where
  "no_claims cs = Inl (PyError ''ValidationError'')"

lemma token_request_fields:
  "form_get ''token'' token_request = Some ''at0''" "header_get h token_request = None" "read_dpop_header token_request = Inr None"
  "mtls_headers token_request (sv_config flow_server) = (None, None)"
  by (simp_all add: form_get_def header_get_def token_request_def mtls_headers_def flow_server_def sample_config_def read_dpop_header_def)

lemma token_request_authenticates:
  "\<exists>st1. authenticate (sv_lib flow_server) (sv_get flow_server) (sample_env 0 ''a'') (sv_config flow_server) (rq_form token_request) None
      (None, None) (flow_app [flow_token] []) = (st1, Inr flow_client) \<and> app_db st1 = app_db (flow_app [flow_token] [])"
proof -
  let ?f = "rq_form token_request" and ?st = "flow_app [flow_token] []"
  have "presented_credentials (sv_lib flow_server) ?f None = Inr (''app'', Some ''s3cret'')"
    by (simp add: presented_credentials_def parse_basic_auth_def token_request_def)
  then have "\<exists>st1. authenticate (sv_lib flow_server) (sv_get flow_server) (sample_env 0 ''a'') (sv_config flow_server) ?f None (None, None) ?st = (st1, Inr flow_client)"
    by (simp add: authenticate_def flow_app_def fresh_app_def empty_db_def get_client_def check_subject_denylisted_def
        find_denylist_entry_def check_credentials_def Let_def)
  then show ?thesis using auth_frame_fields(1) [OF authenticate_frame] by (metis fst_conv)
qed

lemma flow_lookup: "app_db st = app_db (flow_app [flow_token] []) \<Longrightarrow> lookup_token ''at0'' (app_db st) = (Some flow_token, False)"
  by (simp add: lookup_token_def get_token_by_access_token_def flow_app_def fresh_app_def flow_token_def)


lemma refresh_request_fields:
  "form_get ''token'' refresh_request = Some ''rt0''"
  by (simp add: form_get_def refresh_request_def)

theorem revocation_is_final_witness:
  "\<exists>st1 r. revoke_route flow_server (sample_env 0 ''a'') token_request (flow_app [flow_token] []) = (st1, r) \<and>
     snd (introspect_as flow_server (sample_env 1 ''b'') no_claims refresh_request flow_client
            (st1\<lparr>app_db := fold storage_step [SetClientEnabled ''app'' False, RevokeToken ''x''] (app_db st1)\<rparr>)) = Inr inactive_introspection"
proof -
  let ?e = "sample_env 0 ''a''" and ?st = "flow_app [flow_token] []" and ?ops = "[SetClientEnabled ''app'' False, RevokeToken ''x'']"
  obtain st where a: "authenticate (sv_lib flow_server) (sv_get flow_server) ?e (sv_config flow_server) (rq_form token_request)
      (header_get ''authorization'' token_request) (mtls_headers token_request (sv_config flow_server)) ?st = (st, Inr flow_client)"
    and db: "app_db st = app_db ?st" using token_request_authenticates by (auto simp: token_request_fields)
  obtain st1 r where r: "revoke_route flow_server ?e token_request ?st = (st1, r)" by fastforce
  let ?st2 = "st1\<lparr>app_db := fold storage_step ?ops (app_db st1)\<rparr>"
  have c: "token_client_id flow_token = client_client_id flow_client" by (simp add: flow_token_def flow_client_def mk_client_def)
  have w: "lookup_token ''rt0'' (app_db st) = (Some flow_token, True)" unfolding db
    by (simp add: lookup_token_def get_token_by_access_token_def get_token_by_refresh_token_def flow_app_def fresh_app_def flow_token_def)
  have f: "revoked_with flow_token ''at0'' flow_token ''rt0''" by (simp add: revoked_with_def flow_token_def)
  have st1: "st1 = revoke_as token_request flow_client st" using a r by (simp add: revoke_route_def)
  have "get_token_by_access_token ''rt0'' (app_db st1) = None"
    using revoke_as_revokes(2) [OF token_request_fields(1) _ flow_lookup [OF db] c w f] w
    by (auto simp: st1 lookup_token_def split: option.split_asm)
  then have n: "get_token_by_access_token ''rt0'' (app_db st) = None \<longrightarrow> get_token_by_access_token ''rt0'' (app_db ?st2) = None"
    by (auto simp: get_token_by_access_token_def find_None_iff set_client_enabled_def revoke_token_def revoke_where_def sql_update_def revoke_def)
  from revocation_is_final [OF a token_request_fields(1) _ flow_lookup [OF db] c r w f _ n refresh_request_fields, of ?ops flow_server]
  show ?thesis using r by auto
qed

end
