(* ===== verification/Url_Encoding.thy ===== *)
theory Url_Encoding
  imports Urls
begin

text \<open>
  The writing half of \<open>urllib.parse\<close>: \<open>quote\<close>, \<open>quote_plus\<close>, \<open>urlencode\<close>, \<open>urlunsplit\<close>, and
  \<open>parse_qsl\<close> which reads an encoded query back. The lemmas show that reading undoes writing, for
  every list of parameters, and that what is written contains none of the characters that
  delimit a URL.
\<close>

section \<open>quote and urlencode\<close>

definition always_safe :: "char \<Rightarrow> bool" where
  "always_safe c \<longleftrightarrow> is_alpha c \<or> is_digit c \<or> c \<in> {CHR ''_'', CHR ''.'', CHR ''-'', CHR ''~''}"

definition hex_upper :: "nat \<Rightarrow> char" where
  "hex_upper n = ''0123456789ABCDEF'' ! n"

definition quote_byte :: "byte \<Rightarrow> string" where
  "quote_byte b =
     (if always_safe (char_of (unat b)) then [char_of (unat b)]
      else [CHR ''%'', hex_upper (unat b div 16), hex_upper (unat b mod 16)])"

definition quote :: "string \<Rightarrow> string" where
  \<comment> \<open>\<open>quote(s, safe='')\<close>\<close>
  "quote s = concat (map quote_byte (utf8 s))"

definition quote_plus_byte :: "byte \<Rightarrow> string" where
  "quote_plus_byte b = (if b = 32 then ''+'' else quote_byte b)"

definition quote_plus :: "string \<Rightarrow> string" where
  "quote_plus s = concat (map quote_plus_byte (utf8 s))"

fun str_join :: "string \<Rightarrow> string list \<Rightarrow> string" where
  \<comment> \<open>\<open>sep.join(parts)\<close>\<close>
  "str_join sep [] = []"
| "str_join sep [x] = x"
| "str_join sep (x # y # r) = x @ sep @ str_join sep (y # r)"

definition urlencode :: "(string \<Rightarrow> string) \<Rightarrow> (string \<times> string) list \<Rightarrow> string" where
  \<comment> \<open>\<open>urlencode(params, quote_via=q)\<close>; the default is \<open>quote_plus\<close>\<close>
  "urlencode q params = str_join ''&'' (map (\<lambda>(k, v). q k @ ''='' @ q v) params)"

definition parse_qsl :: "string \<Rightarrow> (string \<times> string) list" where
  \<comment> \<open>\<open>parse_qsl(qs, keep_blank_values=True)\<close>\<close>
  "parse_qsl qs =
     map (\<lambda>nv. let (n, v) = break_at (CHR ''='') nv in (unquote_plus n, unquote_plus (opt_str v)))
       (filter (\<lambda>nv. nv \<noteq> []) (split_on (CHR ''&'') qs))"

definition uses_netloc :: "string list" where
  "uses_netloc = [[], ''ftp'', ''http'', ''gopher'', ''nntp'', ''telnet'', ''imap'', ''wais'', ''file'', ''mms'', ''https'',
     ''shttp'', ''snews'', ''prospero'', ''rtsp'', ''rtsps'', ''rtspu'', ''rsync'', ''svn'', ''svn+ssh'', ''sftp'', ''nfs'',
     ''git'', ''git+ssh'', ''ws'', ''wss'', ''itms-services'']"

definition urlunsplit :: "split_result \<Rightarrow> string" where
  "urlunsplit r =
     (let url = sr_path r; scheme = sr_scheme r;
          url1 = (if sr_netloc r \<noteq> []
                  then ''//'' @ sr_netloc r @ (if url \<noteq> [] \<and> hd url \<noteq> CHR ''/'' then ''/'' @ url else url)
                  else if starts_with ''//'' url then ''//'' @ url
                  else if scheme \<noteq> [] \<and> scheme \<in> set uses_netloc \<and> (url = [] \<or> hd url = CHR ''/'') then ''//'' @ url
                  else url);
          url2 = (if scheme \<noteq> [] then scheme @ '':'' @ url1 else url1);
          url3 = (if sr_query r \<noteq> [] then url2 @ ''?'' @ sr_query r else url2)
      in if sr_fragment r \<noteq> [] then url3 @ ''#'' @ sr_fragment r else url3)"


section \<open>Reading undoes writing\<close>

lemma hex_upper_table:
  "list_all (\<lambda>k. hex_val (hex_upper k) = Some k \<and> always_safe (hex_upper k) \<and> (of_char (hex_upper k) :: nat) < 128) [0..<16]"
  by code_simp

lemma hex_upper_val: "k < 16 \<Longrightarrow> hex_val (hex_upper k) = Some k"
  and hex_upper_safe: "k < 16 \<Longrightarrow> always_safe (hex_upper k)"
  and hex_upper_ascii: "k < 16 \<Longrightarrow> (of_char (hex_upper k) :: nat) < 128"
  using hex_upper_table by (simp_all add: list_all_iff)

lemma unat_byte_256: "unat (b :: byte) < 256"
  using unsigned_less [of b, where ?'a = nat] by simp

lemma byte_of_unat: "of_nat (unat (b :: byte)) = b"
  by simp

lemma of_char_of_byte [simp]: "(of_char (char_of (unat (b :: byte)) :: char) :: nat) = unat b"
  using unat_byte_256 [of b] by simp

lemma byte_of_char_of [simp]: "(of_char (char_of (unat (b :: byte)) :: char) :: byte) = b"
proof -
  have "(of_char (char_of (unat b) :: char) :: byte) = of_nat (of_char (char_of (unat b) :: char))"
    by (simp only: of_nat_of_char)
  then show ?thesis by (simp only: of_char_of_byte byte_of_unat)
qed

lemma always_safe_ascii: "always_safe c \<Longrightarrow> (of_char c :: nat) < 128"
  by (auto simp: always_safe_def is_alpha_def is_digit_def Let_def)

lemma always_safe_delims:
  "\<not> always_safe (CHR ''%'')" "\<not> always_safe (CHR ''&'')" "\<not> always_safe (CHR ''='')" "\<not> always_safe (CHR ''+'')"
  "\<not> always_safe (CHR ''#'')" "\<not> always_safe (CHR ''?'')" "\<not> always_safe (CHR '' '')"
  "\<not> always_safe (CHR 0x09)" "\<not> always_safe (CHR 0x0A)" "\<not> always_safe (CHR 0x0D)"
  by code_simp+

lemma set_quote_byte: "c \<in> set (quote_byte b) \<Longrightarrow> always_safe c \<or> c = CHR ''%''"
proof -
  have "unat b div 16 < 16" using unat_byte_256 [of b] by (simp add: less_mult_imp_div_less)
  then show "c \<in> set (quote_byte b) \<Longrightarrow> always_safe c \<or> c = CHR ''%''"
    by (auto simp: quote_byte_def hex_upper_safe split: if_splits)
qed

lemma unquote_quote_byte: "unquote_to_bytes (quote_byte b @ s) = b # unquote_to_bytes s"
proof (cases "always_safe (char_of (unat b))")
  case True
  then have "char_of (unat b) \<noteq> CHR ''%''" using always_safe_delims by metis
  with True show ?thesis by (simp add: quote_byte_def)
next
  case False
  have "unat b div 16 < 16" using unat_byte_256 [of b] by (simp add: less_mult_imp_div_less)
  moreover have "(of_nat (unat b div 16 * 16 + unat b mod 16) :: byte) = b" by (simp only: div_mult_mod_eq byte_of_unat)
  ultimately show ?thesis using False by (simp add: quote_byte_def hex_upper_val del: of_nat_add of_nat_mult)
qed

lemma unquote_quote_bytes: "unquote_to_bytes (concat (map quote_byte bs)) = bs"
  by (induction bs) (simp_all add: unquote_quote_byte)

lemma unquote_ascii:
  assumes "is_ascii s"
  shows "unquote s = utf8_replace (unquote_to_bytes s)"
proof -
  have "takeWhile (\<lambda>x. (of_char x :: nat) < 128) s = s" "dropWhile (\<lambda>x. (of_char x :: nat) < 128) s = []"
    using assms by (simp_all add: is_ascii_def list_all_iff takeWhile_eq_all_conv dropWhile_eq_Nil_conv)
  then show ?thesis using assms
    by (cases s) (simp_all only: unquote.simps unquote_to_bytes.simps utf8_replace.simps is_ascii_def list.pred_inject Let_def if_True append_Nil2)
qed

lemma utf8_replace_two:
  assumes "unat b = 194 \<or> unat b = 195" and "is_cont c"
  shows "utf8_replace (b # c # r) = char_of ((unat b - 192) * 64 + (unat c - 128)) # utf8_replace r"
proof -
  have "utf8_follow b = Some 1" using assms(1) by (auto simp: utf8_follow_def)
  moreover then have "utf8_good b (c # r) = 1" using assms by (auto simp: utf8_good_def utf8_second_ok_def)
  ultimately show ?thesis using assms(1) by (simp only: utf8_replace.simps) auto
qed

lemma utf8_replace_utf8: "utf8_replace (utf8 s) = s"
proof (induction s)
  case (Cons c cs)
  let ?n = "(of_char c :: nat)"
  have n: "?n < 256" by (rule of_char_less_256)
  show ?case
  proof (cases "?n < 128")
    case True
    then show ?thesis using Cons n by (simp add: Let_def unat_of_nat)
  next
    case False
    have "2 \<le> ?n div 64" "?n div 64 < 4"
      using False n div_le_mono [of 128 ?n 64] by (simp_all add: less_mult_imp_div_less)
    then have d: "?n div 64 = 2 \<or> ?n div 64 = 3" by linarith
    have u: "unat (of_nat (192 + ?n div 64) :: byte) = 192 + ?n div 64"
         "unat (of_nat (128 + ?n mod 64) :: byte) = 128 + ?n mod 64"
      using d by (auto simp: unat_of_nat simp del: of_nat_add of_nat_numeral)
    have n64: "?n div 64 * 64 + ?n mod 64 = ?n" by simp
    have "utf8_replace (utf8 (c # cs)) = utf8_replace (of_nat (192 + ?n div 64) # of_nat (128 + ?n mod 64) # utf8 cs)"
      using False by (simp only: utf8.simps Let_def if_False append.simps)
    also have "\<dots> = char_of ((unat (of_nat (192 + ?n div 64) :: byte) - 192) * 64 + (unat (of_nat (128 + ?n mod 64) :: byte) - 128)) # utf8_replace (utf8 cs)"
      by (rule utf8_replace_two) (use d u in \<open>auto simp: is_cont_def simp del: of_nat_add of_nat_numeral\<close>)
    also have "\<dots> = c # cs" unfolding u by (simp only: add_diff_cancel_left' n64 char_of_char Cons)
    finally show ?thesis .
  qed
qed simp

lemma is_ascii_quote_byte: "is_ascii (quote_byte b)"
  using set_quote_byte always_safe_ascii by (fastforce simp: is_ascii_def list_all_iff)

definition bytes_encoded :: "string \<Rightarrow> bool" where
  \<comment> \<open>what \<open>quote\<close> produces: unreserved characters and escapes\<close>
  "bytes_encoded s \<longleftrightarrow> (\<forall>c \<in> set s. always_safe c \<or> c = CHR ''%'' \<or> c = CHR ''+'')"

lemma quote_encoded: "bytes_encoded (quote s)" "bytes_encoded (quote_plus s)"
  using set_quote_byte by (auto simp: bytes_encoded_def quote_def quote_plus_def quote_plus_byte_def split: if_splits)

lemma unquote_plus_quote: "unquote_plus (quote s) = s"
proof -
  have "map (\<lambda>c. if c = CHR ''+'' then CHR '' '' else c) (quote s) = quote s"
    using set_quote_byte always_safe_delims(4) by (fastforce simp: quote_def intro!: map_idI)
  moreover have "is_ascii (quote s)"
    using is_ascii_quote_byte by (auto simp: quote_def is_ascii_def list_all_iff)
  ultimately show ?thesis
    by (simp add: unquote_plus_def unquote_ascii) (simp add: quote_def unquote_quote_bytes utf8_replace_utf8)
qed

lemma unquote_plus_quote_plus: "unquote_plus (quote_plus s) = s"
proof -
  let ?sp = "\<lambda>b. if b = 32 then '' '' else quote_byte b"
  let ?m = "map (\<lambda>c. if c = CHR ''+'' then CHR '' '' else c)"
  have "?m (quote_plus_byte b) = ?sp b" for b
    using set_quote_byte always_safe_delims(4) by (fastforce simp: quote_plus_byte_def intro!: map_idI)
  then have q: "?m (quote_plus s) = concat (map ?sp (utf8 s))"
    by (simp add: quote_plus_def map_concat comp_def)
  have "is_ascii (?sp b)" for b using is_ascii_quote_byte by (simp add: is_ascii_def)
  then have "is_ascii (concat (map ?sp bs))" for bs by (induction bs) (simp_all add: is_ascii_def)
  moreover have "unquote_to_bytes (concat (map ?sp bs)) = bs" for bs
    by (induction bs) (simp_all add: unquote_quote_byte)
  ultimately show ?thesis by (simp add: unquote_plus_def q unquote_ascii utf8_replace_utf8)
qed


section \<open>Whole queries\<close>

lemma split_on_plain: "c \<notin> set s \<Longrightarrow> split_on c s = [s]"
  by (induction s) auto

lemma split_on_append: "c \<notin> set p \<Longrightarrow> split_on c (p @ c # r) = p # split_on c r"
  by (induction p) auto

lemma split_on_join: "\<forall>x \<in> set xs. c \<notin> set x \<Longrightarrow> xs \<noteq> [] \<Longrightarrow> split_on c (str_join [c] xs) = xs"
  by (induction "[c]" xs rule: str_join.induct) (simp_all add: split_on_plain split_on_append)

lemma encoded_no_delims:
  assumes "bytes_encoded s"
  shows "CHR ''&'' \<notin> set s" "CHR ''='' \<notin> set s" "CHR ''#'' \<notin> set s" "CHR ''?'' \<notin> set s" "CHR 0x09 \<notin> set s" "CHR 0x0A \<notin> set s" "CHR 0x0D \<notin> set s"
  using assms always_safe_delims by (auto simp: bytes_encoded_def)

locale url_quoting =
  fixes q :: "string \<Rightarrow> string"
  assumes encoded: "bytes_encoded (q s)"
    and undone: "unquote_plus (q s) = s"
begin

lemma parse_urlencode: "parse_qsl (urlencode q ps) = ps"
proof (cases "ps = []")
  case False
  let ?f = "\<lambda>(k, v). q k @ ''='' @ q v"
  have "split_on (CHR ''&'') (urlencode q ps) = map ?f ps"
    unfolding urlencode_def using False encoded_no_delims [OF encoded] by (intro split_on_join) auto
  moreover have "filter (\<lambda>nv. nv \<noteq> []) (map ?f ps) = map ?f ps" by (auto simp: filter_id_conv)
  moreover have "break_at (CHR ''='') (q k @ CHR ''='' # q v) = (q k, Some (q v))" for k v
    using encoded_no_delims [OF encoded] by (simp add: break_at_append)
  ultimately show ?thesis by (simp add: parse_qsl_def comp_def case_prod_unfold opt_str_def undone)
qed (simp add: urlencode_def parse_qsl_def)

lemma urlencode_plain: "c \<in> set (urlencode q ps) \<Longrightarrow> always_safe c \<or> c \<in> {CHR ''%'', CHR ''+'', CHR ''='', CHR ''&''}"
proof -
  have "c \<in> set (str_join ''&'' xs) \<Longrightarrow> c = CHR ''&'' \<or> (\<exists>x \<in> set xs. c \<in> set x)" for xs
    by (induction "''&''" xs rule: str_join.induct) auto
  then show "c \<in> set (urlencode q ps) \<Longrightarrow> ?thesis"
    using encoded by (fastforce simp: urlencode_def bytes_encoded_def)
qed

end

interpretation quoted_plus: url_quoting quote_plus
  by unfold_locales (simp_all add: quote_encoded unquote_plus_quote_plus)

interpretation quoted_pct: url_quoting quote
  by unfold_locales (simp_all add: quote_encoded unquote_plus_quote)

end
