(* ===== verification/Authorize_Response.thy ===== *)
theory Authorize_Response
  imports Url_Encoding
begin

text \<open>
  Delivery of authorization responses (\<open>services/authorize_response.py\<close>): the resolution of
  \<open>response_mode\<close> and the three channels, query, fragment and form post. The lemmas show that a
  client reading the response the standard way gets exactly the parameters that were sent, with
  whatever query its registered URI already had, and that no value can leave the attribute of
  the HTML form it is written into.

  A \<open>web_response\<close> is what the browser-facing handlers return. The URL of a redirect is the one
  given to \<open>RedirectResponse\<close>, whose own escaping of it belongs to the framework.
\<close>

datatype web_response =
    JsonPage int json
  | RedirectTo int string "string dict"
  | HtmlPage int string "string dict"

definition VALID_RESPONSE_MODES :: "string list" where
  "VALID_RESPONSE_MODES = [''query'', ''form_post'', ''fragment'']"

definition AUTH_RESPONSE_HEADERS :: "string dict" where
  "AUTH_RESPONSE_HEADERS = [(''Cache-Control'', ''no-store''), (''Pragma'', ''no-cache''), (''Referrer-Policy'', ''no-referrer''),
     (''X-Frame-Options'', ''DENY''), (''Content-Security-Policy'', ''frame-ancestors '' @ quoted ''none''),
     (''X-Content-Type-Options'', ''nosniff'')]"

definition resolve_response_mode :: "string option \<Rightarrow> bool \<Rightarrow> string outcome" where
  "resolve_response_mode requested hybrid =
     (case requested of
        None \<Rightarrow> Inr (if hybrid then ''fragment'' else ''query'')
      | Some m \<Rightarrow>
          if m \<notin> set VALID_RESPONSE_MODES
          then Inl (oauth_exc ''invalid_request'' ''Unsupported response_mode; supported values: query, form_post, fragment'')
          else if hybrid \<and> m = ''query''
          then Inl (oauth_exc ''invalid_request'' ''response_mode=query is not allowed for response_type=code id_token'')
          else Inr m)"

definition present :: "(string \<times> string option) list \<Rightarrow> (string \<times> string) list" where
  "present pairs = map (\<lambda>(k, v). (k, the v)) (filter (\<lambda>(k, v). v \<noteq> None) pairs)"

definition query_location :: "string \<Rightarrow> (string \<times> string) list \<Rightarrow> string outcome" where
  "query_location redirect_uri params =
     (case urlsplit redirect_uri of
        None \<Rightarrow> Inl (PyError ''ValueError'')
      | Some r \<Rightarrow>
          Inr (urlunsplit \<lparr>sr_scheme = sr_scheme r, sr_netloc = sr_netloc r, sr_path = sr_path r,
                 sr_query = urlencode quote_plus (parse_qsl (sr_query r) @ params), sr_fragment = []\<rparr>))"

definition replace_char :: "char \<Rightarrow> string \<Rightarrow> string \<Rightarrow> string" where
  \<comment> \<open>\<open>s.replace(c, r)\<close> for a single character\<close>
  "replace_char c r s = concat (map (\<lambda>x. if x = c then r else [x]) s)"

definition html_escape_attr :: "string \<Rightarrow> string" where
  "html_escape_attr value =
     replace_char (CHR 0x27) ''&#x27;'' (replace_char (CHR ''>'') ''&gt;'' (replace_char (CHR ''<'') ''&lt;''
       (replace_char (CHR 0x22) ''&quot;'' (replace_char (CHR ''&'') ''&amp;'' value))))"

definition dquoted :: "string \<Rightarrow> string" where
  \<comment> \<open>a string between double quotes, inside markup\<close>
  "dquoted s = [CHR 0x22] @ s @ [CHR 0x22]"

definition form_input :: "string \<times> string \<Rightarrow> string" where
  "form_input kv = ''<input type='' @ dquoted ''hidden'' @ '' name='' @ dquoted (html_escape_attr (fst kv)) @
     '' value='' @ dquoted (html_escape_attr (snd kv)) @ ''/>''"

definition form_post_body :: "string \<Rightarrow> (string \<times> string) list \<Rightarrow> string" where
  "form_post_body redirect_uri params =
     (let nl = [CHR 0x0A]
      in ''<!DOCTYPE html>'' @ nl @ ''<html><body onload='' @ dquoted ''document.forms[0].submit()'' @ ''>'' @ nl @
         ''<form method='' @ dquoted ''post'' @ '' action='' @ dquoted (html_escape_attr redirect_uri) @ ''>'' @ nl @
         str_join nl (map form_input params) @ nl @ ''</form></body></html>'')"

definition deliver :: "string \<Rightarrow> string \<Rightarrow> (string \<times> string) list \<Rightarrow> web_response outcome" where
  "deliver mode redirect_uri params =
     (case urlsplit redirect_uri of
        None \<Rightarrow> Inl (PyError ''ValueError'')
      | Some r \<Rightarrow>
          if sr_fragment r \<noteq> [] then Inl (oauth_exc ''invalid_request'' ''redirect_uri must not contain a fragment'')
          else if mode = ''form_post'' then Inr (HtmlPage 200 (form_post_body redirect_uri params) AUTH_RESPONSE_HEADERS)
          else bind_res
            (if mode = ''fragment'' then Inr (redirect_uri @ ''#'' @ urlencode quote params)
             else query_location redirect_uri params)
            (\<lambda>location. Inr (RedirectTo 302 location AUTH_RESPONSE_HEADERS)))"

definition success_response ::
  "string \<Rightarrow> string \<Rightarrow> string \<Rightarrow> string option \<Rightarrow> string \<Rightarrow> string option \<Rightarrow> web_response outcome" where
  "success_response mode redirect_uri code state iss id_token =
     deliver mode redirect_uri (present
       (if mode = ''query''
        then [(''code'', Some code), (''state'', state), (''iss'', Some iss), (''id_token'', id_token)]
        else [(''code'', Some code), (''iss'', Some iss), (''state'', state), (''id_token'', id_token)]))"

definition error_response ::
  "string \<Rightarrow> string \<Rightarrow> string \<Rightarrow> string option \<Rightarrow> string option \<Rightarrow> string \<Rightarrow> web_response outcome" where
  "error_response mode redirect_uri error description state iss =
     (let head = [(''error'', Some error), (''error_description'', description)]
      in deliver mode redirect_uri (present
           (if mode = ''query'' then head @ [(''state'', state), (''iss'', Some iss)]
            else head @ [(''iss'', Some iss), (''state'', state)])))"


section \<open>The redirect channels\<close>

lemma break_at_extend: "break_at c s = (p, Some r) \<Longrightarrow> break_at c (s @ t) = (p, Some (r @ t))"
  by (induction s arbitrary: p) (auto split: prod.splits if_splits)

lemma break_at_split: "break_at c s = (p, Some r) \<Longrightarrow> s = p @ c # r"
  by (induction s arbitrary: p) (auto split: prod.splits if_splits)

lemma break_at_no: "break_at c s = (p, None) \<Longrightarrow> p = s \<and> c \<notin> set s"
  by (induction s arbitrary: p) (auto split: prod.splits if_splits)

lemma break_at_prefix_free: "c \<notin> set (fst (break_at c s))"
  by (induction s) (auto simp: case_prod_unfold Let_def)

definition url_delim :: "char \<Rightarrow> bool" where
  "url_delim c \<longleftrightarrow> c \<in> {CHR ''/'', CHR ''?'', CHR ''#''}"

text \<open>A URL with a scheme and a network location is its parts in a row.\<close>

lemma urlsplit_parts:
  assumes "urlsplit u = Some r" and "sr_scheme r \<noteq> []" and "sr_netloc r \<noteq> []"
  obtains p rest where "clean_url u = p @ '':'' @ ''//'' @ sr_netloc r @ rest"
    and "p \<noteq> []" "is_alpha (hd p)" "list_all scheme_char p" "CHR '':'' \<notin> set p" "sr_scheme r = py_lower p"
    and "rest = [] \<or> url_delim (hd rest)" "\<forall>c \<in> set (sr_netloc r). \<not> url_delim c" "netloc_ok (sr_netloc r)"
    and "sr_path r = fst (break_at (CHR ''?'') (fst (break_at (CHR ''#'') rest)))"
    and "sr_query r = opt_str (snd (break_at (CHR ''?'') (fst (break_at (CHR ''#'') rest))))"
    and "sr_fragment r = opt_str (snd (break_at (CHR ''#'') rest))"
proof -
  let ?u = "clean_url u"
  obtain s u1 where s: "split_scheme ?u = (s, u1)" by fastforce
  obtain n u2 where n: "split_netloc u1 = (n, u2)" by fastforce
  have r: "netloc_ok n" "sr_scheme r = s" "sr_netloc r = n"
      "sr_path r = fst (break_at (CHR ''?'') (fst (break_at (CHR ''#'') u2)))"
      "sr_query r = opt_str (snd (break_at (CHR ''?'') (fst (break_at (CHR ''#'') u2))))"
      "sr_fragment r = opt_str (snd (break_at (CHR ''#'') u2))"
    using assms(1) s n by (auto simp: urlsplit_def Let_def case_prod_unfold split: if_splits)
  obtain p where p: "break_at (CHR '':'') ?u = (p, Some u1)" "p \<noteq> []" "is_alpha (hd p)" "list_all scheme_char p" "s = py_lower p"
    using s assms(2) r(2) by (auto simp: split_scheme_def split: prod.splits option.splits if_splits)
  have n': "starts_with ''//'' u1" "n = takeWhile (\<lambda>c. \<not> url_delim c) (drop 2 u1)" "u2 = dropWhile (\<lambda>c. \<not> url_delim c) (drop 2 u1)"
    using n assms(3) r(3) by (auto simp: split_netloc_def url_delim_def split: if_splits)
  have "u1 = ''//'' @ drop 2 u1" using n'(1) by (metis append_take_drop_id starts_with_def length_Cons list.size(3) numeral_2_eq_2)
  then have "u1 = ''//'' @ n @ u2" using n'(2,3) by simp
  then have "?u = p @ '':'' @ ''//'' @ n @ u2" using break_at_split [OF p(1)] by simp
  moreover have "CHR '':'' \<notin> set p" using break_at_prefix_free [of "CHR '':''" ?u] p(1) by simp
  moreover have "u2 = [] \<or> url_delim (hd u2)" using n'(3) hd_dropWhile [of "\<lambda>c. \<not> url_delim c" "drop 2 u1"] by auto
  moreover have "\<forall>c \<in> set n. \<not> url_delim c" using n'(2) by (auto dest: set_takeWhileD)
  ultimately show thesis using that p r by blast
qed

lemma urlsplit_assembled:
  assumes "clean_url u = p @ '':'' @ ''//'' @ n @ rest" and "p \<noteq> []" "is_alpha (hd p)" "list_all scheme_char p" "CHR '':'' \<notin> set p"
    and "rest = [] \<or> url_delim (hd rest)" "\<forall>c \<in> set n. \<not> url_delim c" "netloc_ok n"
  shows "urlsplit u = Some \<lparr>sr_scheme = py_lower p, sr_netloc = n,
    sr_path = fst (break_at (CHR ''?'') (fst (break_at (CHR ''#'') rest))),
    sr_query = opt_str (snd (break_at (CHR ''?'') (fst (break_at (CHR ''#'') rest)))),
    sr_fragment = opt_str (snd (break_at (CHR ''#'') rest))\<rparr>"
proof -
  have "split_scheme (clean_url u) = (py_lower p, ''//'' @ n @ rest)"
    using assms by (simp add: split_scheme_def break_at_append)
  moreover have "split_netloc (''//'' @ n @ rest) = (n, rest)"
    using assms(6,7) by (cases rest) (auto simp: split_netloc_def starts_with_def url_delim_def takeWhile_append dropWhile_append)
  ultimately show ?thesis using assms(8) by (simp add: urlsplit_def Let_def case_prod_unfold)
qed

definition is_tab_or_newline :: "char \<Rightarrow> bool" where
  "is_tab_or_newline c \<longleftrightarrow> c \<in> {CHR 0x09, CHR 0x0D, CHR 0x0A}"

lemma clean_url_chars: "c \<in> set (clean_url u) \<Longrightarrow> \<not> is_tab_or_newline c \<and> c \<in> set u"
  by (auto simp: clean_url_def is_tab_or_newline_def dest: set_dropWhileD)

lemma clean_url_id: "u \<noteq> [] \<Longrightarrow> 32 < (of_char (hd u) :: nat) \<Longrightarrow> \<forall>c \<in> set u. \<not> is_tab_or_newline c \<Longrightarrow> clean_url u = u"
  by (cases u) (auto simp: clean_url_def is_tab_or_newline_def filter_id_conv)

lemma clean_url_append:
  assumes "clean_url u \<noteq> []" and "\<forall>c \<in> set v. \<not> is_tab_or_newline c"
  shows "clean_url (u @ v) = clean_url u @ v"
proof -
  have "\<exists>c \<in> set u. \<not> (of_char c :: nat) \<le> 32"
    using assms(1) by (metis (no_types, lifting) clean_url_def dropWhile_eq_Nil_conv filter.simps(1))
  then have "dropWhile (\<lambda>c. (of_char c :: nat) \<le> 32) (u @ v) = dropWhile (\<lambda>c. (of_char c :: nat) \<le> 32) u @ v"
    by (meson dropWhile_append1)
  moreover have "filter (\<lambda>c. c \<notin> {CHR 0x09, CHR 0x0D, CHR 0x0A}) v = v"
    using assms(2) by (auto simp: filter_id_conv is_tab_or_newline_def)
  ultimately show ?thesis by (simp add: clean_url_def)
qed

lemma scheme_char_ascii: "scheme_char c \<Longrightarrow> (of_char c :: nat) < 128 \<and> 32 < (of_char c :: nat) \<and> c \<noteq> CHR '':''"
  by (auto simp: scheme_char_def is_alpha_def is_digit_def Let_def)

lemma lower_char_ascii:
  assumes "(of_char c :: nat) < 128"
  shows "(of_char (lower_char c) :: nat) = (if 65 \<le> (of_char c :: nat) \<and> (of_char c :: nat) \<le> 90 then of_char c + 32 else of_char c)"
  using assms by (auto simp: lower_char_def Let_def)

lemma lower_char_twice: "(of_char c :: nat) < 128 \<Longrightarrow> lower_char (lower_char c) = lower_char c"
  using lower_char_ascii [of c] by (auto simp: lower_char_def [of "lower_char c"] Let_def)

lemma lower_scheme_char: "scheme_char c \<Longrightarrow> scheme_char (lower_char c)"
  and lower_alpha: "is_alpha c \<Longrightarrow> is_alpha (lower_char c)"
proof -
  show "is_alpha (lower_char c)" if "is_alpha c" for c
    using that lower_char_ascii [of c] by (auto simp: is_alpha_def Let_def)
  moreover have "lower_char c = c" if "\<not> is_alpha c" "scheme_char c"
    using that scheme_char_ascii [of c] by (auto simp: lower_char_def is_alpha_def Let_def)
  ultimately show "scheme_char c \<Longrightarrow> scheme_char (lower_char c)" by (metis scheme_char_def)
qed

lemma lower_scheme:
  assumes "p \<noteq> []" "is_alpha (hd p)" "list_all scheme_char p"
  shows "py_lower p \<noteq> []" "is_alpha (hd (py_lower p))" "list_all scheme_char (py_lower p)" "CHR '':'' \<notin> set (py_lower p)"
    "py_lower (py_lower p) = py_lower p"
proof -
  show "py_lower p \<noteq> []" "is_alpha (hd (py_lower p))" using assms by (simp_all add: py_lower_def hd_map lower_alpha)
  show sc: "list_all scheme_char (py_lower p)" using assms(3) by (auto simp: py_lower_def list_all_iff lower_scheme_char)
  show "CHR '':'' \<notin> set (py_lower p)" using sc scheme_char_ascii by (auto simp: list_all_iff)
  show "py_lower (py_lower p) = py_lower p"
    using assms(3) scheme_char_ascii by (auto simp: py_lower_def list_all_iff lower_char_twice)
qed

lemma encoded_clean:
  "\<forall>c \<in> set (urlencode quote_plus ps). \<not> is_tab_or_newline c \<and> c \<noteq> CHR ''#'' \<and> c \<noteq> CHR ''?''"
  "\<forall>c \<in> set (urlencode quote ps). \<not> is_tab_or_newline c \<and> c \<noteq> CHR ''#'' \<and> c \<noteq> CHR ''?''"
  using quoted_plus.urlencode_plain [of _ ps] quoted_pct.urlencode_plain [of _ ps] always_safe_delims
  by (fastforce simp: is_tab_or_newline_def)+

lemma query_location_reads_back:
  assumes u: "urlsplit uri = Some r" "sr_scheme r \<noteq> []" "sr_netloc r \<noteq> []"
  shows "\<exists>loc r'. query_location uri params = Inr loc \<and> urlsplit loc = Some r' \<and>
    sr_scheme r' = sr_scheme r \<and> sr_netloc r' = sr_netloc r \<and> sr_path r' = sr_path r \<and> sr_fragment r' = [] \<and>
    parse_qsl (sr_query r') = parse_qsl (sr_query r) @ params"
proof -
  from urlsplit_parts [OF u] obtain p rest where
    c: "clean_url uri = p @ '':'' @ ''//'' @ sr_netloc r @ rest" and p: "p \<noteq> []" "is_alpha (hd p)" "list_all scheme_char p"
    and s: "sr_scheme r = py_lower p" and rest: "rest = [] \<or> url_delim (hd rest)"
    and n: "\<forall>c \<in> set (sr_netloc r). \<not> url_delim c" "netloc_ok (sr_netloc r)"
    and path: "sr_path r = fst (break_at (CHR ''?'') (fst (break_at (CHR ''#'') rest)))" by metis
  let ?path = "sr_path r" and ?Q = "urlencode quote_plus (parse_qsl (sr_query r) @ params)"
  let ?tail = "?path @ (if ?Q \<noteq> [] then ''?'' @ ?Q else [])"
  let ?loc = "py_lower p @ '':'' @ ''//'' @ sr_netloc r @ ?tail"
  have sub: "set (fst (break_at x y)) \<subseteq> set y" for x y by (induction y) (auto simp: case_prod_unfold Let_def)
  have pr: "set ?path \<subseteq> set rest" unfolding path using sub by blast
  have pd: "CHR ''?'' \<notin> set ?path" "CHR ''#'' \<notin> set ?path"
    unfolding path using break_at_prefix_free [of "CHR ''?''"] break_at_prefix_free [of "CHR ''#''" rest] sub by blast+
  have slash: "?path = [] \<or> hd ?path = CHR ''/''"
    using rest unfolding path by (cases rest) (auto simp: url_delim_def case_prod_unfold Let_def)
  have loc: "query_location uri params = Inr ?loc"
    using slash u lower_scheme(1) [OF p] s by (auto simp: query_location_def urlunsplit_def Let_def)
  have "\<forall>c \<in> set ?loc. \<not> is_tab_or_newline c"
  proof -
    have "\<forall>c \<in> set (sr_netloc r) \<union> set rest. \<not> is_tab_or_newline c" using clean_url_chars [of _ uri] unfolding c by auto
    moreover have "\<forall>c \<in> set (py_lower p). \<not> is_tab_or_newline c"
      using lower_scheme(3) [OF p] scheme_char_ascii by (fastforce simp: list_all_iff is_tab_or_newline_def)
    moreover have "\<forall>c \<in> set '':/?''. \<not> is_tab_or_newline c" by (simp add: is_tab_or_newline_def)
    moreover have "\<forall>c \<in> set ?Q. \<not> is_tab_or_newline c" using encoded_clean(1) by blast
    ultimately show ?thesis using pr by (auto split: if_splits)
  qed
  moreover have "?loc \<noteq> []" "32 < (of_char (hd ?loc) :: nat)"
    using lower_scheme(1,2) [OF p] scheme_char_ascii [of "hd (py_lower p)"] by (auto simp: scheme_char_def)
  ultimately have cl: "clean_url ?loc = ?loc" by (intro clean_url_id)
  have t: "?tail = [] \<or> url_delim (hd ?tail)" using slash by (cases ?path) (auto simp: url_delim_def)
  have h: "break_at (CHR ''#'') ?tail = (?tail, None)" using pd encoded_clean(1) by (intro break_at_fst) auto
  have q: "break_at (CHR ''?'') ?tail = (?path, if ?Q \<noteq> [] then Some ?Q else None)"
    using pd(1) by (simp add: break_at_append break_at_fst)
  have "urlsplit ?loc = Some \<lparr>sr_scheme = sr_scheme r, sr_netloc = sr_netloc r, sr_path = ?path, sr_query = ?Q, sr_fragment = []\<rparr>"
    using urlsplit_assembled [OF cl lower_scheme(1-4) [OF p] t n] unfolding h fst_conv snd_conv q
    by (cases "?Q = []") (simp_all add: opt_str_def lower_scheme(5) [OF p] s)
  then show ?thesis using loc by (simp add: quoted_plus.parse_urlencode)
qed

lemma fragment_location_reads_back:
  assumes u: "urlsplit uri = Some r" "sr_scheme r \<noteq> []" "sr_netloc r \<noteq> []" and "CHR ''#'' \<notin> set uri"
  shows "urlsplit (uri @ ''#'' @ urlencode quote params) = Some (r\<lparr>sr_fragment := urlencode quote params\<rparr>)"
proof -
  from urlsplit_parts [OF u] obtain p rest where
    c: "clean_url uri = p @ '':'' @ ''//'' @ sr_netloc r @ rest" and p: "p \<noteq> []" "is_alpha (hd p)" "list_all scheme_char p" "CHR '':'' \<notin> set p"
    and s: "sr_scheme r = py_lower p" and rest: "rest = [] \<or> url_delim (hd rest)"
    and n: "\<forall>c \<in> set (sr_netloc r). \<not> url_delim c" "netloc_ok (sr_netloc r)"
    and r: "sr_path r = fst (break_at (CHR ''?'') (fst (break_at (CHR ''#'') rest)))"
      "sr_query r = opt_str (snd (break_at (CHR ''?'') (fst (break_at (CHR ''#'') rest))))" by metis
  let ?F = "urlencode quote params"
  have "\<forall>c \<in> set (''#'' @ ?F). \<not> is_tab_or_newline c" using encoded_clean(2) by (auto simp: is_tab_or_newline_def)
  then have cl: "clean_url (uri @ ''#'' @ ?F) = p @ '':'' @ ''//'' @ sr_netloc r @ rest @ ''#'' @ ?F"
    using clean_url_append [of uri "''#'' @ ?F"] c p(1) by simp
  have "CHR ''#'' \<notin> set rest" using clean_url_chars [of "CHR ''#''" uri] assms(4) unfolding c by auto
  then have h: "break_at (CHR ''#'') (rest @ ''#'' @ ?F) = (rest, Some ?F)" "break_at (CHR ''#'') rest = (rest, None)"
    by (simp_all add: break_at_append break_at_fst)
  have t: "rest @ ''#'' @ ?F = [] \<or> url_delim (hd (rest @ ''#'' @ ?F))" using rest by (cases rest) (auto simp: url_delim_def)
  show ?thesis using urlsplit_assembled [OF cl p t n] r s unfolding h by (cases r) (simp add: opt_str_def)
qed

lemma delivered_location:
  assumes "urlsplit uri = Some r" "sr_scheme r \<noteq> []" "sr_netloc r \<noteq> []" and "CHR ''#'' \<notin> set uri"
    and "mode = ''query'' \<or> mode = ''fragment''"
  shows "\<exists>loc r'. deliver mode uri params = Inr (RedirectTo 302 loc AUTH_RESPONSE_HEADERS) \<and> urlsplit loc = Some r' \<and>
    sr_scheme r' = sr_scheme r \<and> sr_netloc r' = sr_netloc r \<and> sr_path r' = sr_path r \<and>
    (if mode = ''query'' then parse_qsl (sr_query r') = parse_qsl (sr_query r) @ params \<and> sr_fragment r' = []
     else sr_query r' = sr_query r \<and> parse_qsl (sr_fragment r') = params)"
proof -
  have f: "sr_fragment r = []"
  proof -
    from urlsplit_parts [OF assms(1-3)] obtain p rest where
      "clean_url uri = p @ '':'' @ ''//'' @ sr_netloc r @ rest" "sr_fragment r = opt_str (snd (break_at (CHR ''#'') rest))" by metis
    moreover from this have "CHR ''#'' \<notin> set rest" using clean_url_chars [of "CHR ''#''" uri] assms(4) by auto
    ultimately show ?thesis by (simp add: break_at_fst opt_str_def)
  qed
  show ?thesis
  proof (cases "mode = ''query''")
    case True
    obtain loc r' where "query_location uri params = Inr loc" "urlsplit loc = Some r'"
      "sr_scheme r' = sr_scheme r" "sr_netloc r' = sr_netloc r" "sr_path r' = sr_path r" "sr_fragment r' = []"
      "parse_qsl (sr_query r') = parse_qsl (sr_query r) @ params"
      using query_location_reads_back [OF assms(1-3)] by blast
    then show ?thesis using True f assms(1) by (auto simp: deliver_def)
  next
    case False
    then have m: "mode = ''fragment''" using assms(5) by blast
    show ?thesis using fragment_location_reads_back [OF assms(1-4), of params] f assms(1) m
      by (auto simp: deliver_def quoted_pct.parse_urlencode)
  qed
qed

text \<open>
  C37. What the client reads is what the server sent: in query mode the parameters come after those the
  registered URI already carried, in fragment mode they are the fragment, and in both the scheme,
  host, path and (in fragment mode) query of the registered URI are untouched.
\<close>

theorem authorization_response_roundtrip:
  assumes "urlsplit uri = Some r" "sr_scheme r \<noteq> []" "sr_netloc r \<noteq> []" and "CHR ''#'' \<notin> set uri"
    and "mode = ''query'' \<or> mode = ''fragment''"
  shows "\<exists>loc r'. deliver mode uri params = Inr (RedirectTo 302 loc AUTH_RESPONSE_HEADERS) \<and> urlsplit loc = Some r' \<and>
    sr_scheme r' = sr_scheme r \<and> sr_netloc r' = sr_netloc r \<and> sr_path r' = sr_path r \<and>
    (if mode = ''query'' then parse_qsl (sr_query r') = parse_qsl (sr_query r) @ params \<and> sr_fragment r' = []
     else sr_query r' = sr_query r \<and> parse_qsl (sr_fragment r') = params)"
  using delivered_location [OF assms] .


section \<open>The form channel\<close>

definition escape_attr_char :: "char \<Rightarrow> string" where
  "escape_attr_char c =
     (if c = CHR ''&'' then ''&amp;'' else if c = CHR 0x22 then ''&quot;'' else if c = CHR ''<'' then ''&lt;''
      else if c = CHR ''>'' then ''&gt;'' else if c = CHR 0x27 then ''&#x27;'' else [c])"

lemma html_escape_attr_pass: "html_escape_attr s = concat (map escape_attr_char s)"
  by (induction s) (auto simp: html_escape_attr_def replace_char_def escape_attr_char_def)

definition html_entities :: "(string \<times> char) list" where
  "html_entities = [(''&amp;'', CHR ''&''), (''&quot;'', CHR 0x22), (''&lt;'', CHR ''<''), (''&gt;'', CHR ''>''), (''&#x27;'', CHR 0x27)]"

function html_unescape :: "string \<Rightarrow> string" where
  \<comment> \<open>how a browser reads the five entities\<close>
  "html_unescape [] = []"
| "html_unescape (c # cs) =
     (case find (\<lambda>(e, x). starts_with e (c # cs)) html_entities of
        Some (e, x) \<Rightarrow> x # html_unescape (drop (length e - 1) cs)
      | None \<Rightarrow> c # html_unescape cs)"
  by pat_completeness auto
termination
  by (relation "measure length") auto

lemma html_unescape_char: "html_unescape (escape_attr_char c @ r) = c # html_unescape r"
  by (auto simp: escape_attr_char_def html_entities_def starts_with_def)

lemma escape_attr_char_safe: "x \<in> set (escape_attr_char c) \<Longrightarrow> x \<notin> {CHR 0x22, CHR ''<'', CHR ''>'', CHR 0x27}"
  by (auto simp: escape_attr_char_def split: if_splits)

text \<open>
  An escaped value stays inside the double-quoted attribute it is written into, whatever it is: it
  holds no quote and no angle bracket, and the browser reads back the very value.
\<close>

theorem form_values_stay_in_their_attribute:
  "set (html_escape_attr v) \<inter> {CHR 0x22, CHR ''<'', CHR ''>'', CHR 0x27} = {} \<and> html_unescape (html_escape_attr v) = v"
proof
  show "set (html_escape_attr v) \<inter> {CHR 0x22, CHR ''<'', CHR ''>'', CHR 0x27} = {}"
    unfolding html_escape_attr_pass using escape_attr_char_safe by auto
  show "html_unescape (html_escape_attr v) = v"
    unfolding html_escape_attr_pass by (induction v) (simp_all add: html_unescape_char)
qed

theorem authorization_response_roundtrip_witness:
  "\<exists>loc r'. deliver ''query'' ''https://app/cb?k=v'' [(''code'', ''a b&c''), (''iss'', ''https://as'')] = Inr (RedirectTo 302 loc AUTH_RESPONSE_HEADERS) \<and>
     urlsplit loc = Some r' \<and> parse_qsl (sr_query r') = [(''k'', ''v''), (''code'', ''a b&c''), (''iss'', ''https://as'')]"
proof -
  let ?u = "''https://app/cb?k=v''"
  let ?r = "\<lparr>sr_scheme = ''https'', sr_netloc = ''app'', sr_path = ''/cb'', sr_query = ''k=v'', sr_fragment = []\<rparr>"
  have u: "urlsplit ?u = Some ?r" by code_simp
  have q: "parse_qsl ''k=v'' = [(''k'', ''v'')]" by code_simp
  from authorization_response_roundtrip [OF u, of "''query''" "[(''code'', ''a b&c''), (''iss'', ''https://as'')]"]
  obtain loc r' where "deliver ''query'' ?u [(''code'', ''a b&c''), (''iss'', ''https://as'')] = Inr (RedirectTo 302 loc AUTH_RESPONSE_HEADERS)"
    "urlsplit loc = Some r'" "parse_qsl (sr_query r') = [(''k'', ''v''), (''code'', ''a b&c''), (''iss'', ''https://as'')]"
    by (auto simp: q)
  then show ?thesis by blast
qed

end
