(* ===== verification/Jar.thy ===== *)
theory Jar
  imports Client_Auth
begin

text \<open>
  JWT-secured authorization requests (\<open>services/jar.py\<close>): the \<open>request\<close> object of an authorization
  request, verified by the method the client registered, never by what its header says, and
  reduced to the string parameters it may supply. The theorem shows that every overlaid
  parameter comes from a payload that was verified under the client's own registered key, or,
  for a public client, from an object that is unsigned in form.
\<close>

section \<open>json.loads of bytes\<close>

text \<open>
  \<open>json.loads\<close> guesses the encoding of bytes from a byte-order mark or from the position of the
  zero bytes, and decodes with \<open>surrogatepass\<close>; \<open>None\<close> stands for \<open>UnicodeDecodeError\<close>.
\<close>

definition code_point :: "nat \<Rightarrow> char" where
  "code_point n = (if n < 256 then char_of n else wide_char)"

definition utf8_next :: "bytes \<Rightarrow> (char \<times> bytes) option" where
  \<comment> \<open>one character; surrogates pass\<close>
  "utf8_next bs =
     (case bs of
        [] \<Rightarrow> None
      | b # r \<Rightarrow>
          if unat b < 128 then Some (char_of (unat b), r)
          else (case utf8_follow b of
              None \<Rightarrow> None
            | Some n \<Rightarrow>
                if length r < n \<or> \<not> list_all is_cont (take n r) \<or>
                   unat b = 224 \<and> unat (hd r) < 160 \<or> unat b = 240 \<and> unat (hd r) < 144 \<or> unat b = 244 \<and> 144 \<le> unat (hd r)
                then None
                else Some (if n = 1 then code_point ((unat b - 192) * 64 + (unat (hd r) - 128)) else wide_char, drop n r)))"

function utf8_pass :: "bytes \<Rightarrow> string option" where
  "utf8_pass bs =
     (if bs = [] then Some []
      else (case utf8_next bs of None \<Rightarrow> None | Some (c, r) \<Rightarrow> map_option ((#) c) (utf8_pass r)))"
  by pat_completeness auto
termination
  by (relation "measure length") (auto simp: utf8_next_def split: list.splits if_splits option.splits)

declare utf8_pass.simps [simp del]

fun utf16_units :: "bool \<Rightarrow> bytes \<Rightarrow> nat list option" where
  \<comment> \<open>the flag is the byte order, \<open>True\<close> for big-endian\<close>
  "utf16_units big [] = Some []"
| "utf16_units big [_] = None"
| "utf16_units big (a # b # r) =
     map_option ((#) (if big then unat a * 256 + unat b else unat b * 256 + unat a)) (utf16_units big r)"

fun utf16_chars :: "nat list \<Rightarrow> string" where
  "utf16_chars [] = []"
| "utf16_chars (u # v # r) = (if is_high u \<and> 56320 \<le> v \<and> v < 57344 then wide_char # utf16_chars r else code_point u # utf16_chars (v # r))"
| "utf16_chars [u] = [code_point u]"

fun utf32_chars :: "bool \<Rightarrow> bytes \<Rightarrow> string option" where
  "utf32_chars big [] = Some []"
| "utf32_chars big (a # b # c # d # r) =
     (let n = be_value (if big then [a, b, c, d] else [d, c, b, a])
      in if n \<le> 1114111 then map_option ((#) (code_point n)) (utf32_chars big r) else None)"
| "utf32_chars big _ = None"

definition utf16_decode :: "bool \<Rightarrow> bytes \<Rightarrow> string option" where
  "utf16_decode big bs = map_option utf16_chars (utf16_units big bs)"

definition json_text :: "bytes \<Rightarrow> string option" where
  \<comment> \<open>\<open>b.decode(detect_encoding(b), "surrogatepass")\<close>\<close>
  "json_text b =
     (let s = map unat b; z = (\<lambda>i. s ! i = 0)
      in if take 4 s = [0, 0, 254, 255] then utf32_chars True (drop 4 b)
         else if take 4 s = [255, 254, 0, 0] then utf32_chars False (drop 4 b)
         else if take 2 s = [254, 255] then utf16_decode True (drop 2 b)
         else if take 2 s = [255, 254] then utf16_decode False (drop 2 b)
         else if take 3 s = [239, 187, 191] then utf8_pass (drop 3 b)
         else if 4 \<le> length s \<and> z 0 then (if z 1 then utf32_chars True b else utf16_decode True b)
         else if 4 \<le> length s \<and> z 1 then (if z 2 \<and> z 3 then utf32_chars False b else utf16_decode False b)
         else if length s = 2 \<and> z 0 then utf16_decode True b
         else if length s = 2 \<and> z 1 then utf16_decode False b
         else utf8_pass b)"

definition json_loads_bytes :: "nat \<Rightarrow> bytes \<Rightarrow> json option" where
  \<comment> \<open>\<open>None\<close> for \<open>ValueError\<close> and \<open>RecursionError\<close> alike\<close>
  "json_loads_bytes lvl b =
     (case json_text b of
        None \<Rightarrow> None
      | Some s \<Rightarrow> (case json_loads lvl s of Inl _ \<Rightarrow> None | Inr v \<Rightarrow> Some v))"


section \<open>services/jar.py\<close>

definition MAX_UNSIGNED_JAR_DEPTH :: nat where "MAX_UNSIGNED_JAR_DEPTH = 10"

definition HEADER_JSON_ERROR :: string where
  "HEADER_JSON_ERROR = ''JAR JWT header is not valid JSON''"

definition PAYLOAD_JSON_ERROR :: string where
  "PAYLOAD_JSON_ERROR = ''JAR JWT payload is not valid JSON''"

definition JAR_OVERLAY_KEYS :: "string list" where
  "JAR_OVERLAY_KEYS = [''redirect_uri'', ''response_type'', ''response_mode'', ''scope'', ''code_challenge'',
     ''code_challenge_method'', ''nonce'', ''resource'', ''state'', ''authorization_details'', ''claims'',
     ''acr_values'', ''dpop_jkt'']"

definition jar_alg_for_method :: "string \<Rightarrow> string option" where
  "jar_alg_for_method m = map_of [(''client_secret_basic'', ''HS256''), (''client_secret_post'', ''HS256''),
     (''client_secret_jwt'', ''HS256''), (''private_key_jwt'', ''RS256'')] m"

definition jar_b64url_decode :: "string \<Rightarrow> string \<Rightarrow> bytes outcome" where
  "jar_b64url_decode segment what =
     (case b64decode_strict (pad4 (map b64url_to_std segment)) of
        None \<Rightarrow> Inl (oauth_exc ''invalid_request'' (''JAR JWT '' @ what @ '' is not valid base64url''))
      | Some b \<Rightarrow> Inr b)"

definition unsigned_header_ok :: "json option \<Rightarrow> unit outcome" where
  "unsigned_header_ok header =
     (case header of
        None \<Rightarrow> Inl (oauth_exc ''invalid_request'' HEADER_JSON_ERROR)
      | Some v \<Rightarrow>
          if (case v of JObj ps \<Rightarrow> jget ''alg'' ps \<noteq> JStr ''none'' | _ \<Rightarrow> True)
          then Inl (oauth_exc ''invalid_request''
                 ''JAR from public client must use alg=none; signed JARs require a confidential client authentication method'')
          else Inr ())"

definition unsigned_payload :: "json option \<Rightarrow> claims outcome" where
  "unsigned_payload payload =
     (case payload of
        Some (JObj ps) \<Rightarrow>
          if check_depth (JObj ps) ''request'' MAX_UNSIGNED_JAR_DEPTH = Inr () then Inr ps
          else Inl (oauth_exc ''invalid_request'' PAYLOAD_JSON_ERROR)
      | _ \<Rightarrow> Inl (oauth_exc ''invalid_request'' PAYLOAD_JSON_ERROR))"

definition decode_unsigned_jar :: "nat \<Rightarrow> string \<times> string \<times> string \<Rightarrow> claims outcome" where
  "decode_unsigned_jar lvl parts =
     (let (header, payload, signature) = parts
      in bind_res (jar_b64url_decode header ''header'') (\<lambda>hb.
         bind_res (unsigned_header_ok (json_loads_bytes lvl hb)) (\<lambda>_.
         if signature \<noteq> [] then Inl (oauth_exc ''invalid_request'' ''JAR with alg=none must have an empty signature'')
         else bind_res (jar_b64url_decode payload ''payload'') (\<lambda>pb.
           unsigned_payload (json_loads_bytes lvl pb)))))"

definition jar_decode_opts :: "string \<Rightarrow> string \<Rightarrow> decode_opts" where
  "jar_decode_opts alg authorize_url =
     \<lparr>do_algorithms = [alg], do_audience = Some [authorize_url], do_issuer = None, do_require = [''exp'', ''iss''],
      do_verify_aud = True, do_verify_exp = True, do_verify_iat = True\<rparr>"

definition jar_key ::
  "'k jwt_lib \<Rightarrow> http_get \<Rightarrow> env \<Rightarrow> client \<Rightarrow> string \<Rightarrow> string \<Rightarrow> app_state \<Rightarrow> app_state \<times> 'k outcome" where
  \<comment> \<open>the secret, or the RSA key of the client's own key set that the header names\<close>
  "jar_key lib get e c request_jwt alg st =
     (if alg = ''HS256'' then
        (st, if client_client_secret c = []
             then Inl (oauth_exc ''invalid_request''
                    (''Client has no client_secret registered for '' @ client_token_endpoint_auth_method c @ '' JAR''))
             else Inr (jl_secret_key lib (utf8 (client_client_secret c))))
      else
        (let (st1, r) = resolve_client_jwks get e c [''private_key_jwt''] st
         in (st1, bind_res r (\<lambda>jwks.
              case jl_get_unverified_header lib request_jwt of
                Inl _ \<Rightarrow> Inl (oauth_exc ''invalid_request'' ''JAR JWT header is malformed'')
              | Inr header \<Rightarrow> rsa_key_from_jwks lib jwks (jget ''kid'' header) ''invalid_request'' '' for JAR''))))"

definition decode_signed_jar ::
  "'k jwt_lib \<Rightarrow> http_get \<Rightarrow> env \<Rightarrow> client \<Rightarrow> string \<Rightarrow> string \<Rightarrow> string \<Rightarrow> app_state \<Rightarrow> app_state \<times> claims outcome" where
  "decode_signed_jar lib get e c request_jwt alg authorize_url st =
     (let (st1, k) = jar_key lib get e c request_jwt alg st
      in (st1, bind_res k (\<lambda>key.
           case jl_decode lib request_jwt key (jar_decode_opts alg authorize_url) of
             Inl x \<Rightarrow> Inl (oauth_exc ''invalid_request_object'' (''JAR '' @ alg @ '' verification failed: '' @ jwt_error_text x))
           | Inr cs \<Rightarrow>
               if jget ''iss'' cs \<noteq> JStr (client_client_id c)
               then Inl (oauth_exc ''invalid_request_object'' (''JAR '' @ quoted ''iss'' @ '' claim must equal client_id''))
               else Inr cs)))"

definition jar_parts :: "string \<Rightarrow> (string \<times> string \<times> string) option" where
  \<comment> \<open>\<open>request_jwt.split(".", 2)\<close>, when it has three parts\<close>
  "jar_parts s =
     (case break_at (CHR ''.'') s of
        (_, None) \<Rightarrow> None
      | (h, Some r) \<Rightarrow> (case break_at (CHR ''.'') r of (_, None) \<Rightarrow> None | (p, Some g) \<Rightarrow> Some (h, p, g)))"

definition jar_claims ::
  "'k jwt_lib \<Rightarrow> http_get \<Rightarrow> env \<Rightarrow> client \<Rightarrow> string \<Rightarrow> string \<Rightarrow> app_state \<Rightarrow> app_state \<times> claims outcome" where
  \<comment> \<open>dispatch on the registered authentication method\<close>
  "jar_claims lib get e c request_jwt authorize_url st =
     (case jar_parts request_jwt of
        None \<Rightarrow> (st, Inl (oauth_exc ''invalid_request'' ''JAR request is not a valid JWT (expected header.payload.signature)''))
      | Some parts \<Rightarrow>
          (let method = client_token_endpoint_auth_method c
           in if method = ''none'' then (st, decode_unsigned_jar (env_recursion e) parts)
              else (case jar_alg_for_method method of
                  Some alg \<Rightarrow> decode_signed_jar lib get e c request_jwt alg authorize_url st
                | None \<Rightarrow> (st, Inl (oauth_exc ''invalid_request''
                    (''Unsupported token_endpoint_auth_method '' @ quoted method @ '' for JAR signing''))))))"

definition process_jar ::
  "'k jwt_lib \<Rightarrow> http_get \<Rightarrow> env \<Rightarrow> client \<Rightarrow> string \<Rightarrow> string \<Rightarrow> app_state \<Rightarrow> app_state \<times> string dict outcome" where
  "process_jar lib get e c request_jwt authorize_url st =
     (let (st1, r) = jar_claims lib get e c request_jwt authorize_url st
      in (st1, bind_res r (\<lambda>cs.
           if jget ''client_id'' cs \<noteq> JNull \<and> jget ''client_id'' cs \<noteq> JStr (client_client_id c)
           then Inl (oauth_exc ''invalid_request_object'' ''JAR client_id does not match'')
           else Inr (map (\<lambda>k. (k, jstr_of (jget k cs))) (filter (\<lambda>k. is_jstr (jget k cs)) JAR_OVERLAY_KEYS)))))"


section \<open>An ASCII text is read back\<close>

lemma utf8_pass_ascii: "is_ascii s \<Longrightarrow> utf8_pass (utf8 s) = Some s"
proof (induction s)
  case (Cons c cs)
  then have c: "(of_char c :: nat) < 128" by (simp add: is_ascii_def)
  then have "unat (of_nat (of_char c) :: byte) = of_char c" by (simp add: unat_of_nat)
  then show ?case using Cons c by (subst utf8_pass.simps) (simp add: utf8_next_def is_ascii_def Let_def)
qed (simp add: utf8_pass.simps)

lemma json_text_utf8:
  assumes "is_ascii s" and "s = c # d # r" and "(of_char c :: nat) \<noteq> 0" and "(of_char d :: nat) \<noteq> 0"
  shows "json_text (utf8 s) = Some s"
proof -
  have cd: "(of_char c :: nat) < 128" "(of_char d :: nat) < 128" using assms(1,2) by (simp_all add: is_ascii_def)
  obtain b where "utf8 s = of_nat (of_char c) # of_nat (of_char d) # b"
    using assms(2) cd by (simp add: Let_def)
  moreover have "unat (of_nat (of_char c) :: byte) = of_char c" "unat (of_nat (of_char d) :: byte) = of_char d"
    using cd by (simp_all add: unat_of_nat)
  ultimately show ?thesis
    using assms(3,4) cd utf8_pass_ascii [OF assms(1)] by (simp add: json_text_def Let_def)
qed


section \<open>Only verified parameters are overlaid\<close>

definition jar_verified :: "'k jwt_lib \<Rightarrow> http_get \<Rightarrow> env \<Rightarrow> app_state \<Rightarrow> client \<Rightarrow> string \<Rightarrow> string \<Rightarrow> claims \<Rightarrow> bool" where
  \<comment> \<open>the payload was verified with the one algorithm the client registered for and a key of its own,
      or the client is public and the object is unsigned in form\<close>
  "jar_verified lib get e st c request_jwt authorize_url cs \<longleftrightarrow>
     (if client_token_endpoint_auth_method c = ''none''
      then (\<exists>h p hb hps pb. jar_parts request_jwt = Some (h, p, []) \<and>
              b64decode_strict (pad4 (map b64url_to_std h)) = Some hb \<and> json_loads_bytes (env_recursion e) hb = Some (JObj hps) \<and>
              jget ''alg'' hps = JStr ''none'' \<and>
              b64decode_strict (pad4 (map b64url_to_std p)) = Some pb \<and> json_loads_bytes (env_recursion e) pb = Some (JObj cs) \<and>
              jdepth (JObj cs) \<le> MAX_UNSIGNED_JAR_DEPTH)
      else (\<exists>alg key. jar_alg_for_method (client_token_endpoint_auth_method c) = Some alg \<and>
              jl_decode lib request_jwt key (jar_decode_opts alg authorize_url) = Inr cs \<and>
              jget ''iss'' cs = JStr (client_client_id c) \<and>
              (if alg = ''HS256'' then client_client_secret c \<noteq> [] \<and> key = jl_secret_key lib (utf8 (client_client_secret c))
               else jl_is_public_key lib key \<and>
                    (\<exists>jwks kid. snd (resolve_client_jwks get e c [''private_key_jwt''] st) = Inr jwks \<and>
                       rsa_key_from_jwks lib jwks kid ''invalid_request'' '' for JAR'' = Inr key))))"

lemma jar_key_sound:
  assumes "snd (jar_key lib get e c request_jwt alg st) = Inr key"
  shows "if alg = ''HS256'' then client_client_secret c \<noteq> [] \<and> key = jl_secret_key lib (utf8 (client_client_secret c))
    else jl_is_public_key lib key \<and> (\<exists>jwks kid. snd (resolve_client_jwks get e c [''private_key_jwt''] st) = Inr jwks \<and>
           rsa_key_from_jwks lib jwks kid ''invalid_request'' '' for JAR'' = Inr key)"
proof (cases "alg = ''HS256''")
  case False
  then obtain jwks where "snd (resolve_client_jwks get e c [''private_key_jwt''] st) = Inr jwks"
      "(case jl_get_unverified_header lib request_jwt of
          Inl _ \<Rightarrow> Inl (oauth_exc ''invalid_request'' ''JAR JWT header is malformed'')
        | Inr header \<Rightarrow> rsa_key_from_jwks lib jwks (jget ''kid'' header) ''invalid_request'' '' for JAR'') = Inr key"
    using assms unfolding jar_key_def Let_def case_prod_unfold by (auto simp: bind_res_Inr_iff)
  then obtain h where "snd (resolve_client_jwks get e c [''private_key_jwt''] st) = Inr jwks"
      "rsa_key_from_jwks lib jwks (jget ''kid'' h) ''invalid_request'' '' for JAR'' = Inr key"
    by (cases "jl_get_unverified_header lib request_jwt") auto
  then show ?thesis using False by (auto dest: rsa_key_in_jwks)
qed (use assms in \<open>auto simp: jar_key_def split: if_splits\<close>)

lemma decode_signed_jar_sound:
  assumes "snd (decode_signed_jar lib get e c request_jwt alg authorize_url st) = Inr cs"
  obtains key where "snd (jar_key lib get e c request_jwt alg st) = Inr key"
    and "jl_decode lib request_jwt key (jar_decode_opts alg authorize_url) = Inr cs" and "jget ''iss'' cs = JStr (client_client_id c)"
proof -
  obtain key where k: "snd (jar_key lib get e c request_jwt alg st) = Inr key"
    using assms unfolding decode_signed_jar_def Let_def case_prod_unfold by (auto simp: bind_res_Inr_iff)
  with assms show thesis using that unfolding decode_signed_jar_def Let_def case_prod_unfold
    by (cases "jl_decode lib request_jwt key (jar_decode_opts alg authorize_url)") (auto split: if_splits)
qed

lemma decode_unsigned_jar_sound:
  assumes "decode_unsigned_jar lvl (h, p, g) = Inr cs"
  shows "g = [] \<and> (\<exists>hb hps pb. b64decode_strict (pad4 (map b64url_to_std h)) = Some hb \<and> json_loads_bytes lvl hb = Some (JObj hps) \<and>
    jget ''alg'' hps = JStr ''none'' \<and> b64decode_strict (pad4 (map b64url_to_std p)) = Some pb \<and>
    json_loads_bytes lvl pb = Some (JObj cs) \<and> jdepth (JObj cs) \<le> MAX_UNSIGNED_JAR_DEPTH)"
proof -
  obtain hb pb where d: "jar_b64url_decode h ''header'' = Inr hb" "unsigned_header_ok (json_loads_bytes lvl hb) = Inr ()" "g = []"
      "jar_b64url_decode p ''payload'' = Inr pb" "unsigned_payload (json_loads_bytes lvl pb) = Inr cs"
    using assms by (auto simp: decode_unsigned_jar_def bind_res_Inr_iff split: if_splits)
  obtain hps where "json_loads_bytes lvl hb = Some (JObj hps)" "jget ''alg'' hps = JStr ''none''"
    using d(2) by (auto simp: unsigned_header_ok_def split: option.splits json.splits if_splits)
  moreover have "json_loads_bytes lvl pb = Some (JObj cs)" "jdepth (JObj cs) \<le> MAX_UNSIGNED_JAR_DEPTH"
    using d(5) by (auto simp: unsigned_payload_def check_depth_iff split: option.splits json.splits if_splits simp del: jdepth.simps)
  ultimately show ?thesis using d by (auto simp: jar_b64url_decode_def split: option.splits)
qed

lemma jar_claims_verified:
  assumes "snd (jar_claims lib get e c request_jwt authorize_url st) = Inr cs"
  shows "jar_verified lib get e st c request_jwt authorize_url cs"
proof -
  obtain h p g where parts: "jar_parts request_jwt = Some (h, p, g)" using assms by (auto simp: jar_claims_def split: option.splits)
  show ?thesis
  proof (cases "client_token_endpoint_auth_method c = ''none''")
    case True
    then have "decode_unsigned_jar (env_recursion e) (h, p, g) = Inr cs" using assms parts by (simp add: jar_claims_def)
    from decode_unsigned_jar_sound [OF this] show ?thesis using True parts unfolding jar_verified_def by auto
  next
    case False
    then obtain alg where alg: "jar_alg_for_method (client_token_endpoint_auth_method c) = Some alg"
        "snd (decode_signed_jar lib get e c request_jwt alg authorize_url st) = Inr cs"
      using assms parts by (auto simp: jar_claims_def Let_def split: option.splits)
    obtain key where key: "snd (jar_key lib get e c request_jwt alg st) = Inr key"
        "jl_decode lib request_jwt key (jar_decode_opts alg authorize_url) = Inr cs" "jget ''iss'' cs = JStr (client_client_id c)"
      using decode_signed_jar_sound [OF alg(2)] by blast
    show ?thesis using alg(1) key(2,3) jar_key_sound [OF key(1)] unfolding jar_verified_def if_not_P [OF False] by blast
  qed
qed

text \<open>
  C23. Only verified parameters reach the authorization request: every parameter a request object
  overlays is a string member of a payload that was verified with exactly the algorithm and a key
  the client registered, that names the client as issuer and, if it names a client, this one; for
  a public client the object says \<open>alg=none\<close> and has an empty signature. The header never chooses.
\<close>

theorem jar_overlay_is_verified:
  assumes "process_jar lib get e c request_jwt authorize_url st = (st', Inr overlay)"
  shows "\<exists>cs. jar_verified lib get e st c request_jwt authorize_url cs \<and>
    (jget ''client_id'' cs = JNull \<or> jget ''client_id'' cs = JStr (client_client_id c)) \<and>
    (\<forall>k v. map_of overlay k = Some v \<longrightarrow> k \<in> set JAR_OVERLAY_KEYS \<and> jget k cs = JStr v)"
proof -
  obtain cs where c: "snd (jar_claims lib get e c request_jwt authorize_url st) = Inr cs"
      "jget ''client_id'' cs = JNull \<or> jget ''client_id'' cs = JStr (client_client_id c)"
      "overlay = map (\<lambda>k. (k, jstr_of (jget k cs))) (filter (\<lambda>k. is_jstr (jget k cs)) JAR_OVERLAY_KEYS)"
    using assms by (auto simp: process_jar_def case_prod_unfold Let_def bind_res_Inr_iff split: if_splits)
  have js: "is_jstr x \<longleftrightarrow> (\<exists>s. x = JStr s)" for x by (cases x) auto
  have "k \<in> set JAR_OVERLAY_KEYS \<and> jget k cs = JStr v" if "map_of overlay k = Some v" for k v
    using map_of_SomeD [OF that] unfolding c(3) by (auto simp: js)
  moreover note jar_claims_verified [OF c(1)]
  ultimately show ?thesis using c(2) by blast
qed

definition sample_public_client :: client where
  "sample_public_client = (mk_client ''1'' ''spa'' [] ''[\"https://spa/cb\"]'' ''[\"authorization_code\"]'' ''read'' ''Spa'' 0)
     \<lparr>client_token_endpoint_auth_method := ''none''\<rparr>"

theorem jar_overlay_is_verified_witness:
  "\<exists>st' overlay cs. process_jar plain_lib (\<lambda>_. HttpFailure) (sample_env 0 ''a'') sample_public_client
      ''eyJhbGciOiJub25lIn0.eyJzY29wZSI6InJlYWQifQ.'' ''https://as/oauth/authorize'' (fresh_app (empty_db Sqlite)) = (st', Inr overlay) \<and>
    overlay = [(''scope'', ''read'')] \<and>
    jar_verified plain_lib (\<lambda>_. HttpFailure) (sample_env 0 ''a'') (fresh_app (empty_db Sqlite)) sample_public_client
      ''eyJhbGciOiJub25lIn0.eyJzY29wZSI6InJlYWQifQ.'' ''https://as/oauth/authorize'' cs"
proof -
  let ?j = "''eyJhbGciOiJub25lIn0.eyJzY29wZSI6InJlYWQifQ.''" and ?st = "fresh_app (empty_db Sqlite)"
  have d: "decode_unsigned_jar 30 (''eyJhbGciOiJub25lIn0'', ''eyJzY29wZSI6InJlYWQifQ'', []) = Inr [(''scope'', JStr ''read'')]" by code_simp
  have p: "jar_parts ?j = Some (''eyJhbGciOiJub25lIn0'', ''eyJzY29wZSI6InJlYWQifQ'', [])" by code_simp
  have "client_token_endpoint_auth_method sample_public_client = ''none''" by (simp add: sample_public_client_def mk_client_def)
  then have j: "process_jar plain_lib (\<lambda>_. HttpFailure) (sample_env 0 ''a'') sample_public_client ?j ''https://as/oauth/authorize'' ?st
      = (?st, Inr [(''scope'', ''read'')])"
    by (simp add: process_jar_def jar_claims_def p d sample_env_def JAR_OVERLAY_KEYS_def jget_def)
  from jar_overlay_is_verified [OF j] j show ?thesis by blast
qed

end
