(* ===== verification/Sessions.thy ===== *)
theory Sessions
  imports App_State
begin

text \<open>
  The browser session (\<open>sessions.py\<close>): the entries of the signed session cookie. The cookie is
  written only by this server, with the types below, so it is a record of optional entries, the last three being those
  of a social-login round trip.
\<close>

record session =
  se_user_id :: "string option"
  se_auth_time :: "int option"
  se_role :: "string option"
  se_email :: "string option"
  se_username :: "string option"
  se_acr :: "string option"
  se_amr :: "string list option"
  se_return_to :: "string option"
  se_return_to_ts :: "int option"
  se_csrf_token :: "string option"
  se_provider :: "string option"
  se_pkce_verifier :: "string option"

definition empty_session :: session where
  "empty_session = \<lparr>se_user_id = None, se_auth_time = None, se_role = None, se_email = None, se_username = None,
     se_acr = None, se_amr = None, se_return_to = None, se_return_to_ts = None, se_csrf_token = None, se_provider = None, se_pkce_verifier = None\<rparr>"

definition current_user_id :: "session \<Rightarrow> string option" where
  "current_user_id s = se_user_id s"

definition current_acr :: "session \<Rightarrow> string option" where
  "current_acr s = se_acr s"

definition current_amr :: "session \<Rightarrow> string list option" where
  "current_amr s = se_amr s"

definition set_login :: "env \<Rightarrow> user \<Rightarrow> string option \<Rightarrow> string list option \<Rightarrow> session \<Rightarrow> session" where
  \<comment> \<open>the session is cleared first\<close>
  "set_login e u acr amr s =
     empty_session\<lparr>se_user_id := Some (user_pk u), se_auth_time := Some (timestamp_int (env_now e)),
       se_role := Some (user_role u), se_email := Some (user_email u), se_username := Some (user_username u),
       se_acr := acr, se_amr := amr\<rparr>"

end
