(* ===== verification/Authorize.thy ===== *)
theory Authorize
  imports Token_Endpoint Authorize_Response Jar Sessions
begin

text \<open>
  The authorization endpoint, \<open>GET /oauth/authorize\<close> (\<open>routes/authorize.py\<close>), in the order of its
  checks: repeated query keys, the pushed request, the client, the JAR overlay, the redirect URI
  and response mode (whose failures are never redirected), the parameters (whose failures are
  delivered to the now trusted redirect URI), the session gates, and the code. The theorems show
  where the endpoint may redirect, and what stands behind every code it issues.
\<close>

section \<open>Requests\<close>

record browse_request =
  br_query :: "(string \<times> string) list"
  br_path :: string
  br_raw_query :: string

type_synonym browsed = "app_state \<times> session \<times> web_response outcome"

definition HYBRID_RESPONSE_TYPE :: string where "HYBRID_RESPONSE_TYPE = ''code id_token''"

definition SUPPORTED_RESPONSE_TYPES :: "string list" where
  "SUPPORTED_RESPONSE_TYPES = [''code'', HYBRID_RESPONSE_TYPE]"

definition MIN_CODE_CHALLENGE_LEN :: nat where "MIN_CODE_CHALLENGE_LEN = 43"

definition MAX_CODE_CHALLENGE_LEN :: nat where "MAX_CODE_CHALLENGE_LEN = 128"

definition PAR_MERGE_KEYS :: "string list" where
  "PAR_MERGE_KEYS = [''redirect_uri'', ''scope'', ''code_challenge'', ''code_challenge_method'', ''nonce'', ''resource'',
     ''state'', ''authorization_details'', ''claims'', ''acr_values'', ''dpop_jkt'']"

definition dpop_jkt_ok :: "string \<Rightarrow> bool" where
  \<comment> \<open>\<open>_DPOP_JKT_RE.fullmatch\<close>\<close>
  "dpop_jkt_ok s \<longleftrightarrow> length s = 43 \<and> list_all (\<lambda>c. is_alpha c \<or> is_digit c \<or> c = CHR ''_'' \<or> c = CHR ''-'') s"

fun strip_reauth_pairs :: "(string \<times> string) list \<Rightarrow> (string \<times> string) list" where
  "strip_reauth_pairs [] = []"
| "strip_reauth_pairs ((k, v) # r) =
     (if k = ''max_age'' then strip_reauth_pairs r
      else if k = ''prompt'' then
        (let remaining = str_join '' '' (filter (\<lambda>p. p \<noteq> ''login'') (py_split v))
         in if remaining \<noteq> [] then (k, remaining) # strip_reauth_pairs r else strip_reauth_pairs r)
      else (k, v) # strip_reauth_pairs r)"

definition strip_reauth_params :: "string \<Rightarrow> string" where
  "strip_reauth_params query = urlencode quote_plus (strip_reauth_pairs (parse_qsl query))"

definition error_page :: "int \<Rightarrow> string \<Rightarrow> string \<Rightarrow> web_response" where
  "error_page status error description = JsonPage status (JObj [(''error'', JStr error), (''error_description'', JStr description)])"

definition oauth_error_page :: "exc \<Rightarrow> web_response outcome" where
  \<comment> \<open>\<open>except OAuthError as exc: return _oauth_error_page(exc)\<close>\<close>
  "oauth_error_page x =
     (case x of
        OAuthError e d s \<Rightarrow> Inr (error_page s e (or_str d []))
      | PyError c \<Rightarrow> Inl (PyError c))"

definition deliver_error ::
  "string \<Rightarrow> string \<Rightarrow> string \<Rightarrow> string option \<Rightarrow> string option \<Rightarrow> string \<Rightarrow> web_response outcome" where
  "deliver_error mode redirect_uri error description state issuer =
     (case error_response mode redirect_uri error description state issuer of
        Inl x \<Rightarrow> oauth_error_page x
      | Inr r \<Rightarrow> Inr r)"


section \<open>Before the redirect URI is trusted\<close>

definition resolve_pushed ::
  "env \<Rightarrow> browse_request \<Rightarrow> app_state \<Rightarrow> app_state \<times> (web_response + string dict)" where
  \<comment> \<open>the parameters, with those of a pushed request laid over the query\<close>
  "resolve_pushed e rq st =
     (let params = br_query rq
      in if \<not> distinct (map fst params) then (st, Inl (error_page 400 ''invalid_request'' ''duplicate query parameter''))
         else (case map_of params ''request_uri'' of
             None \<Rightarrow> (st, Inr params)
           | Some uri \<Rightarrow>
               (let (par, entry) = par_take (env_mono e) uri (app_par st); st1 = st\<lparr>app_par := par\<rparr>
                in case entry of
                     None \<Rightarrow> (st1, Inl (error_page 400 ''invalid_request'' ''Unknown or expired request_uri''))
                   | Some p \<Rightarrow>
                       if map_of params ''client_id'' \<noteq> Some (par_client_id p)
                       then (st1, Inl (error_page 401 ''invalid_client'' ''request_uri client_id mismatch''))
                       else (st1, Inr (fold (\<lambda>k m. case map_of (par_params p) k of Some v \<Rightarrow> AList.update k v m | None \<Rightarrow> m)
                                         PAR_MERGE_KEYS params)))))"

definition resolve_client :: "env \<Rightarrow> browse_request \<Rightarrow> database \<Rightarrow> web_response + client" where
  \<comment> \<open>a known, enabled client that is not denylisted and whose \<open>require_state\<close> is met\<close>
  "resolve_client e rq db =
     (case map_of (br_query rq) ''client_id'' of
        None \<Rightarrow> Inl (error_page 400 ''invalid_request'' ''client_id is required'')
      | Some cid \<Rightarrow>
          (case (if cid = [] then None else get_client cid db) of
             None \<Rightarrow> Inl (error_page 401 ''invalid_client'' ''unknown or disabled client_id'')
           | Some c \<Rightarrow>
               if \<not> client_enabled c \<or> check_subject_denylisted (env_now e) ''client_id'' cid db \<noteq> None
               then Inl (error_page 401 ''invalid_client'' ''unknown or disabled client_id'')
               else if client_require_state c \<and> map_of (br_query rq) ''state'' = None
               then Inl (error_page 400 ''invalid_request''
                      (''state parameter is required for this client (RFC 9700 '' @ [CHR 0xA7] @ ''4.7)''))
               else Inr c))"

definition overlay_jar ::
  "'k server \<Rightarrow> env \<Rightarrow> browse_request \<Rightarrow> client \<Rightarrow> string dict \<Rightarrow> app_state
   \<Rightarrow> app_state \<times> (web_response outcome + string dict \<times> string option)" where
  \<comment> \<open>the request object of the query laid over everything, with the response mode it asks for\<close>
  "overlay_jar sv e rq c merged st =
     (case map_of (br_query rq) ''request'' of
        None \<Rightarrow> (st, Inr (merged, None))
      | Some jar \<Rightarrow>
          (case process_jar (sv_lib sv) (sv_get sv) e c jar (rstrip_char (CHR ''/'') (cfg_issuer (sv_config sv)) @ ''/oauth/authorize'') st of
             (st1, Inl x) \<Rightarrow> (st1, Inl (oauth_error_page x))
           | (st1, Inr overlay) \<Rightarrow>
               (let m = fold (\<lambda>(k, v). AList.update k v) overlay merged
                in if map_of m ''response_type'' \<notin> Some ` set SUPPORTED_RESPONSE_TYPES
                   then (st1, Inl (Inr (error_page 400 ''invalid_request''
                          ''Unsupported response_type in JAR; supported values: code, code id_token'')))
                   else (st1, Inr (m, map_of overlay ''response_mode'')))))"

definition json_iter :: "json \<Rightarrow> json list outcome" where
  \<comment> \<open>what \<open>for x in v\<close> runs over\<close>
  "json_iter v =
     (case v of
        JArr xs \<Rightarrow> Inr xs
      | JStr s \<Rightarrow> Inr (map (\<lambda>c. JStr [c]) s)
      | JObj ps \<Rightarrow> Inr (map (\<lambda>p. JStr (fst p)) ps)
      | _ \<Rightarrow> Inl (PyError ''TypeError''))"

definition registered_matches :: "json \<Rightarrow> string \<Rightarrow> bool outcome" where
  \<comment> \<open>\<open>urlparse\<close> of something that is not a string\<close>
  "registered_matches registered requested =
     (case registered of
        JStr r \<Rightarrow> redirect_uri_matches r requested
      | v \<Rightarrow> if jtruthy v then Inl (PyError ''AttributeError'')
             else if urlsplit requested = None then Inl (PyError ''ValueError'') else Inr False)"

fun any_registered :: "json list \<Rightarrow> string \<Rightarrow> bool outcome" where
  "any_registered [] requested = Inr False"
| "any_registered (r # rs) requested =
     bind_res (registered_matches r requested) (\<lambda>ok. if ok then Inr True else any_registered rs requested)"

definition redirect_registered :: "nat \<Rightarrow> client \<Rightarrow> string \<Rightarrow> bool outcome" where
  "redirect_registered lvl c uri =
     bind_res (redirect_uri_list lvl c) (\<lambda>v. bind_res (json_iter v) (\<lambda>rs. any_registered rs uri))"

record authz_target =
  at_redirect_uri :: string
  at_mode :: string
  at_response_type :: "string option"
  at_state :: "string option"

definition is_hybrid :: "authz_target \<Rightarrow> bool" where
  "is_hybrid t \<longleftrightarrow> at_response_type t = Some HYBRID_RESPONSE_TYPE"

definition resolve_target ::
  "env \<Rightarrow> browse_request \<Rightarrow> client \<Rightarrow> string dict \<Rightarrow> string option \<Rightarrow> web_response outcome + authz_target" where
  "resolve_target e rq c merged jar_mode =
     (let uri = map_of merged ''redirect_uri'';
          not_registered = Inl (Inr (error_page 400 ''invalid_request'' ''redirect_uri is not registered for this client''))
      in if \<not> truthy uri then not_registered
         else (case redirect_registered (env_recursion e) c (the uri) of
             Inl x \<Rightarrow> Inl (Inl x)
           | Inr False \<Rightarrow> not_registered
           | Inr True \<Rightarrow>
               (let rtype = (if map_of (br_query rq) ''request'' \<noteq> None then map_of merged ''response_type''
                             else map_of (br_query rq) ''response_type'')
                in case resolve_response_mode (if truthy jar_mode then jar_mode else map_of (br_query rq) ''response_mode'')
                          (rtype = Some HYBRID_RESPONSE_TYPE) of
                     Inl x \<Rightarrow> Inl (oauth_error_page x)
                   | Inr mode \<Rightarrow> Inr \<lparr>at_redirect_uri = the uri, at_mode = mode, at_response_type = rtype,
                                     at_state = map_of merged ''state''\<rparr>)))"


section \<open>The parameters\<close>

record authz_params =
  ap_scope :: string
  ap_code_challenge :: string
  ap_nonce :: "string option"
  ap_authorization_details :: "string option"
  ap_resource :: "string option"
  ap_claims :: "string option"
  ap_dpop_jkt :: "string option"

definition check_challenge :: "string option \<Rightarrow> string option \<Rightarrow> string outcome" where
  "check_challenge challenge challenge_method =
     (if \<not> truthy challenge
      then Inl (oauth_exc ''invalid_request'' (''a PKCE code_challenge is required (RFC 9700 '' @ [CHR 0xA7] @ ''2.1.1)''))
      else if challenge_method \<noteq> Some ''S256'' then Inl (oauth_exc ''invalid_request'' ''only the S256 code_challenge_method is supported'')
      else if \<not> (MIN_CODE_CHALLENGE_LEN \<le> length (the challenge) \<and> length (the challenge) \<le> MAX_CODE_CHALLENGE_LEN)
      then Inl (oauth_exc ''invalid_request'' ''code_challenge must be between 43 and 128 characters'')
      else Inr (the challenge))"

definition check_claims_request :: "nat \<Rightarrow> string option \<Rightarrow> unit outcome" where
  "check_claims_request lvl claims_request =
     (let bad = Inl (oauth_exc ''invalid_request'' ''claims must be a JSON object'')
      in case claims_request of
           None \<Rightarrow> Inr ()
         | Some raw \<Rightarrow>
             (case check_json_param lvl raw ''claims'' 8192 10 of
                Inl (LimitError d) \<Rightarrow> Inl (oauth_exc ''invalid_request'' d)
              | Inl (JsonFailure x) \<Rightarrow> if x = JSONDecodeError then bad else Inl (json_exc x)
              | Inr (JObj _) \<Rightarrow> Inr ()
              | Inr _ \<Rightarrow> bad))"

definition check_details :: "nat \<Rightarrow> config \<Rightarrow> string option \<Rightarrow> unit outcome" where
  "check_details lvl cfg details =
     (case details of
        None \<Rightarrow> Inr ()
      | Some raw \<Rightarrow> bind_res (validate_authorization_details lvl raw (cfg_rar_types_supported cfg)) (\<lambda>_. Inr ()))"

definition check_params ::
  "env \<Rightarrow> config \<Rightarrow> client \<Rightarrow> bool \<Rightarrow> authz_target \<Rightarrow> string dict \<Rightarrow> authz_params outcome" where
  \<comment> \<open>every \<open>OAuthError\<close> here is delivered through the redirect URI; the flag says whether a request object is present\<close>
  "check_params e cfg c has_jar t merged =
     bind_res (client_has_grant (env_recursion e) ''authorization_code'' c) (\<lambda>granted.
     if \<not> granted then Inl (oauth_exc ''unauthorized_client'' ''client is not authorized for this grant type'')
     else if \<not> has_jar \<and> at_response_type t \<notin> Some ` set SUPPORTED_RESPONSE_TYPES
     then Inl (oauth_exc ''unsupported_response_type''
            (''only the '' @ quoted ''code'' @ '' and '' @ quoted ''code id_token'' @ '' response_types are supported''))
     else if is_hybrid t \<and> \<not> truthy (map_of merged ''nonce'')
     then Inl (oauth_exc ''invalid_request'' ''nonce is required for response_type=code id_token'')
     else
       (let scope = or_str (map_of merged ''scope'') ''read''
        in if \<not> scope_is_subset scope (client_scope c)
           then Inl (oauth_exc ''invalid_scope'' (''requested scope exceeds the client'' @ [CHR 0x27] @ ''s allowed scope''))
           else
             bind_res (check_challenge (map_of merged ''code_challenge'') (map_of merged ''code_challenge_method'')) (\<lambda>challenge.
             bind_res (check_details (env_recursion e) cfg (map_of merged ''authorization_details'')) (\<lambda>_.
             bind_res (validate_resource (map_of merged ''resource'')) (\<lambda>resource.
             bind_res (check_claims_request (env_recursion e) (map_of merged ''claims'')) (\<lambda>_.
             let jkt = map_of merged ''dpop_jkt''
             in if jkt \<noteq> None \<and> \<not> dpop_jkt_ok (the jkt)
                then Inl (oauth_exc ''invalid_request'' ''dpop_jkt must be a base64url-encoded SHA-256 JWK thumbprint'')
                else Inr \<lparr>ap_scope = scope, ap_code_challenge = challenge, ap_nonce = map_of merged ''nonce'',
                         ap_authorization_details = map_of merged ''authorization_details'', ap_resource = resource,
                         ap_claims = map_of merged ''claims'', ap_dpop_jkt = jkt\<rparr>))))))"


section \<open>The session gates\<close>

fun underscored :: "string \<Rightarrow> string option" where
  \<comment> \<open>digits with single underscores between them\<close>
  "underscored [] = None"
| "underscored (c # r) =
     (if \<not> is_digit c then None
      else (case r of
          [] \<Rightarrow> Some [c]
        | d # q \<Rightarrow> map_option ((#) c) (if d = CHR ''_'' then underscored q else underscored r)))"

definition int_space :: "string \<Rightarrow> char \<Rightarrow> bool" where
  \<comment> \<open>what \<open>int\<close> strips: in an ASCII string only the C white space\<close>
  "int_space s c \<longleftrightarrow> (if is_ascii s then (let n = (of_char c :: nat) in 9 \<le> n \<and> n \<le> 13 \<or> n = 32) else py_isspace c)"

definition py_int_str :: "string \<Rightarrow> int option" where
  \<comment> \<open>\<open>int(s)\<close>, \<open>None\<close> for \<open>ValueError\<close>\<close>
  "py_int_str s =
     (let t = rev (dropWhile (int_space s) (rev (dropWhile (int_space s) s)));
          digits = (if t \<noteq> [] \<and> hd t \<in> {CHR ''+'', CHR ''-''} then tl t else t)
      in case underscored digits of
           None \<Rightarrow> None
         | Some ds \<Rightarrow>
             if MAX_STR_DIGITS < length ds then None
             else Some (if starts_with ''-'' t then - int (digits_val ds) else int (digits_val ds)))"

definition auth_expired :: "env \<Rightarrow> session \<Rightarrow> string option \<Rightarrow> bool" where
  \<comment> \<open>a \<open>max_age\<close> that is not a number is ignored\<close>
  "auth_expired e s max_age =
     (case Option.bind max_age py_int_str of
        None \<Rightarrow> False
      | Some secs \<Rightarrow>
          (case se_auth_time s of None \<Rightarrow> True | Some t \<Rightarrow> env_time e - of_int t \<ge> of_int secs))"

datatype gate = GateError string string | GateLogin | GateUser string

definition session_gate :: "env \<Rightarrow> browse_request \<Rightarrow> session \<Rightarrow> string dict \<Rightarrow> gate" where
  "session_gate e rq s merged =
     (let prompts = py_split (or_str (map_of (br_query rq) ''prompt'') []);
          force_login = (''login'' \<in> set prompts \<or> ''select_account'' \<in> set prompts);
          expired = auth_expired e s (map_of (br_query rq) ''max_age'')
      in if ''none'' \<in> set prompts \<and> 1 < length prompts
         then GateError ''invalid_request'' ''prompt=none cannot be combined with other values''
         else if ''none'' \<in> set prompts \<and> (current_user_id s = None \<or> force_login \<or> expired)
         then GateError ''login_required'' ''User is not authenticated and prompt=none was requested''
         else if current_user_id s = None \<or> force_login \<or> expired then GateLogin
         else (case map_of merged ''acr_values'' of
             Some acr_values \<Rightarrow>
               if current_acr s \<notin> Some ` set (py_split acr_values)
               then GateError ''insufficient_user_authentication'' ''Authentication Context Class does not satisfy acr_values''
               else GateUser (the (current_user_id s))
           | None \<Rightarrow> GateUser (the (current_user_id s))))"

definition remember_request :: "env \<Rightarrow> browse_request \<Rightarrow> session \<Rightarrow> session" where
  \<comment> \<open>the URL to come back to after the login, without what would force another one\<close>
  "remember_request e rq s =
     s\<lparr>se_return_to := Some (br_path rq @ (if br_raw_query rq \<noteq> [] then ''?'' @ strip_reauth_params (br_raw_query rq) else [])),
       se_return_to_ts := Some (timestamp_int (env_now e))\<rparr>"


section \<open>The code\<close>

definition code_response ::
  "config \<Rightarrow> authz_target \<Rightarrow> authorization_code \<Rightarrow> string option \<Rightarrow> web_response outcome" where
  "code_response cfg t code id_token =
     (case success_response (at_mode t) (at_redirect_uri t) (code_code code) (at_state t) (cfg_issuer cfg) id_token of
        Inl x \<Rightarrow> oauth_error_page x
      | Inr r \<Rightarrow> Inr r)"

definition grant_code ::
  "'k server \<Rightarrow> env \<Rightarrow> client \<Rightarrow> authz_target \<Rightarrow> authz_params \<Rightarrow> session \<Rightarrow> string \<Rightarrow> app_state \<Rightarrow> app_state \<times> web_response outcome" where
  "grant_code sv e c t p s user_id st =
     (let cfg = sv_config sv
      in case issue_code e cfg c user_id (at_redirect_uri t) (ap_scope p) (Some (ap_code_challenge p)) (Some ''S256'') (ap_nonce p)
                (ap_authorization_details p) (ap_resource p) (ap_claims p) (ap_dpop_jkt p) (app_db st) of
           Inl x \<Rightarrow> (st, Inl x)
         | Inr (db', code) \<Rightarrow>
             (let st1 = emit_event ''authorization_code_created'' ''info'' (Some user_id) (Some (client_client_id c))
                    [(''scope'', ap_scope p), (''redirect_uri'', at_redirect_uri t)]
                    (st\<lparr>app_db := db', app_codes_issued := app_codes_issued st + 1\<rparr>)
              in if is_hybrid t \<and> ''openid'' \<in> set (py_split (code_scope code)) then
                   (case mint_id_token (sv_lib sv) e cfg (Some (app_keyset st1)) c
                           \<lparr>ma_user_id = user_id, ma_user = get_user_by_id user_id db', ma_scope = code_scope code,
                            ma_nonce = ap_nonce p, ma_access_token = None, ma_code = Some (code_code code),
                            ma_acr = current_acr s, ma_amr = current_amr s, ma_auth_time = se_auth_time s, ma_selection = None\<rparr> of
                      Inr tok \<Rightarrow> (st1, code_response cfg t code (Some tok))
                    | Inl x \<Rightarrow>
                        if x = PyError ''ValueError''
                        then (st1, Inr (error_page 500 ''server_error'' ''RS256 configured but private key is missing''))
                        else (st1, Inl x))
                 else (st1, code_response cfg t code None)))"

definition authorize_trusted ::
  "'k server \<Rightarrow> env \<Rightarrow> browse_request \<Rightarrow> client \<Rightarrow> authz_target \<Rightarrow> string dict \<Rightarrow> session \<Rightarrow> app_state \<Rightarrow> browsed" where
  \<comment> \<open>from the point on where errors go to the redirect URI\<close>
  "authorize_trusted sv e rq c t merged s st =
     (let cfg = sv_config sv;
          fail = (\<lambda>er d. (st, s, deliver_error (at_mode t) (at_redirect_uri t) er d (at_state t) (cfg_issuer cfg)))
      in case check_params e cfg c (map_of (br_query rq) ''request'' \<noteq> None) t merged of
           Inl (OAuthError er d _) \<Rightarrow> fail er d
         | Inl (PyError x) \<Rightarrow> (st, s, Inl (PyError x))
         | Inr p \<Rightarrow>
             (case session_gate e rq s merged of
                GateError er d \<Rightarrow> fail er (Some d)
              | GateLogin \<Rightarrow> (st, remember_request e rq s, Inr (RedirectTo 302 ''/auth/login'' []))
              | GateUser user_id \<Rightarrow> (let (st', r) = grant_code sv e c t p s user_id st in (st', s, r))))"

definition authorize :: "'k server \<Rightarrow> env \<Rightarrow> browse_request \<Rightarrow> session \<Rightarrow> app_state \<Rightarrow> browsed" where
  \<comment> \<open>\<open>GET /oauth/authorize\<close>\<close>
  "authorize sv e rq s st =
     (case resolve_pushed e rq st of
        (st1, Inl page) \<Rightarrow> (st1, s, Inr page)
      | (st1, Inr merged) \<Rightarrow>
          (case resolve_client e rq (app_db st1) of
             Inl page \<Rightarrow> (st1, s, Inr page)
           | Inr c \<Rightarrow>
               (case overlay_jar sv e rq c merged st1 of
                  (st2, Inl r) \<Rightarrow> (st2, s, r)
                | (st2, Inr (merged', jar_mode)) \<Rightarrow>
                    (case resolve_target e rq c merged' jar_mode of
                       Inl r \<Rightarrow> (st2, s, r)
                     | Inr t \<Rightarrow> authorize_trusted sv e rq c t merged' s st2))))"

end
