(* ===== verification/Authorize_Facts.thy ===== *)
theory Authorize_Facts
  imports Authorize
begin

text \<open>
  What the authorization endpoint guarantees: it sends a browser only to its own login page or to
  a redirect URI the client registered; every code it issues is backed by the session of its user,
  an enabled client and a PKCE challenge; and the request it remembers across a login is one that
  does not ask for the login again, except for \<open>prompt=select_account\<close>, which never gets past it.
\<close>

section \<open>Frames\<close>

lemma resolve_pushed_frame: "resolve_pushed e rq st = (st1, r) \<Longrightarrow> app_db st1 = app_db st \<and> app_keyset st1 = app_keyset st"
  by (auto simp: resolve_pushed_def Let_def case_prod_unfold split: if_splits option.splits)

lemma jar_key_frame: "jar_key lib get e c j alg st = (st1, r) \<Longrightarrow> \<exists>cache. st1 = st\<lparr>app_jwks_cache := cache\<rparr>"
  using resolve_client_jwks_frame [of get e c "[''private_key_jwt'']" st, OF prod.collapse [symmetric]]
  by (cases "alg = ''HS256''") (auto simp: jar_key_def Let_def case_prod_unfold intro: exI [of _ "app_jwks_cache st"])

lemma process_jar_frame: "process_jar lib get e c j url st = (st1, r) \<Longrightarrow> app_db st1 = app_db st \<and> app_keyset st1 = app_keyset st"
proof -
  have "app_db (fst (jar_key lib get e c j alg st)) = app_db st \<and> app_keyset (fst (jar_key lib get e c j alg st)) = app_keyset st" for alg
    using jar_key_frame [of lib get e c j alg st "fst (jar_key lib get e c j alg st)" "snd (jar_key lib get e c j alg st)"] by auto
  then show "process_jar lib get e c j url st = (st1, r) \<Longrightarrow> app_db st1 = app_db st \<and> app_keyset st1 = app_keyset st"
    by (auto simp: process_jar_def jar_claims_def decode_signed_jar_def Let_def case_prod_unfold split: option.splits)
qed

lemma overlay_jar_frame: "overlay_jar sv e rq c m st = (st1, r) \<Longrightarrow> app_db st1 = app_db st \<and> app_keyset st1 = app_keyset st"
  by (auto simp: overlay_jar_def Let_def split: option.splits prod.splits sum.splits if_splits dest!: process_jar_frame)


section \<open>Pages\<close>

fun is_json_page :: "web_response \<Rightarrow> bool" where
  "is_json_page (JsonPage _ _) = True"
| "is_json_page _ = False"

lemma error_page_json [simp]: "is_json_page (error_page s er d)"
  by (simp add: error_page_def)

lemma oauth_error_page_json: "oauth_error_page x = Inr page \<Longrightarrow> is_json_page page"
  by (auto simp: oauth_error_page_def split: exc.splits)

lemma resolve_pushed_json: "resolve_pushed e rq st = (st1, Inl page) \<Longrightarrow> is_json_page page"
  by (auto simp: resolve_pushed_def Let_def case_prod_unfold split: if_splits option.splits)

lemma resolve_client_json: "resolve_client e rq db = Inl page \<Longrightarrow> is_json_page page"
  by (auto simp: resolve_client_def split: if_splits option.splits)

lemma overlay_jar_json: "overlay_jar sv e rq c m st = (st1, Inl (Inr page)) \<Longrightarrow> is_json_page page"
  by (auto simp: overlay_jar_def Let_def split: option.splits prod.splits sum.splits if_splits dest: oauth_error_page_json)

lemma resolve_target_json: "resolve_target e rq c m jm = Inl (Inr page) \<Longrightarrow> is_json_page page"
  by (auto simp: resolve_target_def Let_def split: if_splits sum.splits bool.splits dest: oauth_error_page_json)


section \<open>The trusted client and target\<close>

definition trusted_client :: "env \<Rightarrow> database \<Rightarrow> browse_request \<Rightarrow> client \<Rightarrow> bool" where
  "trusted_client e db rq c \<longleftrightarrow>
     (\<exists>cid. map_of (br_query rq) ''client_id'' = Some cid \<and> get_client cid db = Some c \<and> client_client_id c = cid \<and>
        client_enabled c \<and> check_subject_denylisted (env_now e) ''client_id'' cid db = None)"

definition registered_uri :: "nat \<Rightarrow> client \<Rightarrow> string \<Rightarrow> bool" where
  "registered_uri lvl c uri \<longleftrightarrow>
     (\<exists>v rs reg. redirect_uri_list lvl c = Inr v \<and> json_iter v = Inr rs \<and> JStr reg \<in> set rs \<and> redirect_uri_matches reg uri = Inr True)"

lemma resolve_client_trusted: "resolve_client e rq db = Inr c \<Longrightarrow> trusted_client e db rq c"
  by (auto simp: resolve_client_def trusted_client_def get_client_def find_Some_iff split: if_splits option.splits)

lemma any_registered_True:
  "any_registered rs uri = Inr True \<Longrightarrow> \<exists>reg. JStr reg \<in> set rs \<and> redirect_uri_matches reg uri = Inr True"
proof (induction rs)
  case (Cons r rs)
  show ?case
  proof (cases "registered_matches r uri = Inr True")
    case True
    then show ?thesis by (cases r) (auto simp: registered_matches_def split: if_splits)
  next
    case False
    then show ?thesis using Cons by (auto simp: bind_res_Inr_iff split: if_splits)
  qed
qed simp

lemma resolve_target_registered:
  assumes "resolve_target e rq c m jm = Inr t"
  shows "registered_uri (env_recursion e) c (at_redirect_uri t)"
proof -
  have "redirect_registered (env_recursion e) c (at_redirect_uri t) = Inr True"
    using assms by (auto simp: resolve_target_def Let_def split: if_splits sum.splits bool.splits)
  then show ?thesis unfolding redirect_registered_def registered_uri_def bind_res_Inr_iff using any_registered_True by blast
qed

lemma resolve_response_mode_valid:
  "resolve_response_mode req hyb = Inr m \<Longrightarrow> m \<in> set VALID_RESPONSE_MODES \<and> (hyb \<longrightarrow> m \<noteq> ''query'')"
  by (auto simp: resolve_response_mode_def VALID_RESPONSE_MODES_def split: option.splits if_splits)

lemma resolve_target_mode:
  assumes "resolve_target e rq c m jm = Inr t"
  shows "at_mode t \<in> set VALID_RESPONSE_MODES" "is_hybrid t \<Longrightarrow> at_mode t \<noteq> ''query''"
proof -
  have "\<exists>req. resolve_response_mode req (is_hybrid t) = Inr (at_mode t)"
    using assms unfolding resolve_target_def Let_def is_hybrid_def
    by (cases "redirect_registered (env_recursion e) c (the (map_of m ''redirect_uri''))")
       (auto simp del: not_None_eq split: if_split_asm sum.split_asm bool.split_asm)
  then show "at_mode t \<in> set VALID_RESPONSE_MODES" "is_hybrid t \<Longrightarrow> at_mode t \<noteq> ''query''"
    using resolve_response_mode_valid by blast+
qed

lemma authorize_inv:
  assumes "authorize sv e rq s st = (st', s', r)"
  obtains "s' = s" and "app_db st' = app_db st" and "\<And>page. r = Inr page \<Longrightarrow> is_json_page page"
  | c t m jm st2 where "trusted_client e (app_db st) rq c" and "resolve_target e rq c m jm = Inr t" and "app_db st2 = app_db st"
    and "authorize_trusted sv e rq c t m s st2 = (st', s', r)"
proof -
  obtain st1 r1 where 1: "resolve_pushed e rq st = (st1, r1)" by fastforce
  note f1 = resolve_pushed_frame [OF 1]
  show thesis
  proof (cases r1)
    case (Inl page)
    then show thesis using that(1) assms 1 f1 resolve_pushed_json by (auto simp: authorize_def)
  next
    case m: (Inr m)
    show thesis
    proof (cases "resolve_client e rq (app_db st1)")
      case (Inl page)
      then show thesis using that(1) assms 1 m f1 resolve_client_json by (auto simp: authorize_def)
    next
      case c: (Inr c)
      obtain st2 r2 where 2: "overlay_jar sv e rq c m st1 = (st2, r2)" by fastforce
      note f2 = overlay_jar_frame [OF 2]
      show thesis
      proof (cases r2)
        case (Inl page)
        then have "s' = s" "st' = st2" "r = page" using assms 1 m c 2 by (simp_all add: authorize_def)
        moreover have "is_json_page pg" if "page = Inr pg" for pg using overlay_jar_json 2 Inl that by blast
        ultimately show thesis using f1 f2 by (intro that(1)) simp_all
      next
        case (Inr mj)
        obtain m' jm where mj: "mj = (m', jm)" by fastforce
        show thesis
        proof (cases "resolve_target e rq c m' jm")
          case (Inl page)
          then have "s' = s" "st' = st2" "r = page" using assms 1 m c 2 Inr mj by (simp_all add: authorize_def)
          moreover have "is_json_page pg" if "page = Inr pg" for pg using resolve_target_json Inl that by blast
          ultimately show thesis using f1 f2 by (intro that(1)) simp_all
        next
          case t: (Inr t)
          have "authorize_trusted sv e rq c t m' s st2 = (st', s', r)" using assms 1 m c 2 Inr mj t by (simp add: authorize_def)
          moreover have "trusted_client e (app_db st) rq c" using resolve_client_trusted [OF c] f1 by simp
          ultimately show thesis using that(2) t f1 f2 by metis
        qed
      qed
    qed
  qed
qed


section \<open>Where the endpoint sends a browser\<close>

lemma deliver_error_inv:
  assumes "deliver_error mode uri er d state iss = Inr page"
  shows "is_json_page page \<or> (\<exists>params. deliver mode uri params = Inr page)"
  using assms oauth_error_page_json
  by (auto simp: deliver_error_def error_response_def Let_def split: sum.splits)

lemma code_response_inv:
  assumes "code_response cfg t code tok = Inr page"
  shows "is_json_page page \<or> (\<exists>params. deliver (at_mode t) (at_redirect_uri t) params = Inr page)"
  using assms oauth_error_page_json
  by (cases "success_response (at_mode t) (at_redirect_uri t) (code_code code) (at_state t) (cfg_issuer cfg) tok")
     (auto simp: code_response_def success_response_def)

lemma grant_code_inv:
  assumes "grant_code sv e c t p s uid st = (st', r)"
  obtains x where "st' = st" "r = Inl x"
  | db' code where "issue_code e (sv_config sv) c uid (at_redirect_uri t) (ap_scope p) (Some (ap_code_challenge p)) (Some ''S256'') (ap_nonce p)
        (ap_authorization_details p) (ap_resource p) (ap_claims p) (ap_dpop_jkt p) (app_db st) = Inr (db', code)" "app_db st' = db'"
      "\<And>page. r = Inr page \<Longrightarrow> is_json_page page \<or> (\<exists>params. deliver (at_mode t) (at_redirect_uri t) params = Inr page)"
proof -
  let ?i = "issue_code e (sv_config sv) c uid (at_redirect_uri t) (ap_scope p) (Some (ap_code_challenge p)) (Some ''S256'') (ap_nonce p)
        (ap_authorization_details p) (ap_resource p) (ap_claims p) (ap_dpop_jkt p) (app_db st)"
  show thesis
  proof (cases ?i)
    case (Inl x)
    then have "st' = st" "r = Inl x" using assms by (simp_all add: grant_code_def)
    then show thesis by (rule that(1))
  next
    case (Inr q)
    obtain db' code where q: "q = (db', code)" by fastforce
    have "app_db st' = db'"
      using assms Inr q unfolding grant_code_def Let_def
      by (auto simp: emit_event_def split: sum.split_asm if_split_asm)
    moreover have "is_json_page page \<or> (\<exists>params. deliver (at_mode t) (at_redirect_uri t) params = Inr page)" if "r = Inr page" for page
    proof -
      have "(\<exists>tok. code_response (sv_config sv) t code tok = Inr page) \<or> is_json_page page"
        using assms Inr q that unfolding grant_code_def Let_def by (auto split: sum.split_asm if_split_asm)
      then show ?thesis using code_response_inv by blast
    qed
    ultimately show thesis using that(2) Inr q by blast
  qed
qed

lemma authorize_trusted_inv:
  assumes "authorize_trusted sv e rq c t m s st = (st', s', r)"
  obtains "app_db st' = app_db st"
      "\<And>page. r = Inr page \<Longrightarrow> is_json_page page \<or> page = RedirectTo 302 ''/auth/login'' [] \<or>
          (\<exists>params. deliver (at_mode t) (at_redirect_uri t) params = Inr page)"
  | p uid where "check_params e (sv_config sv) c (map_of (br_query rq) ''request'' \<noteq> None) t m = Inr p"
      "session_gate e rq s m = GateUser uid" "grant_code sv e c t p s uid st = (st', r)" "s' = s"
proof -
  let ?ch = "check_params e (sv_config sv) c (map_of (br_query rq) ''request'' \<noteq> None) t m"
  show thesis
  proof (cases ?ch)
    case (Inl x)
    have "app_db st' = app_db st" using assms Inl by (auto simp: authorize_trusted_def Let_def split: exc.split_asm)
    moreover have "is_json_page page \<or> (\<exists>params. deliver (at_mode t) (at_redirect_uri t) params = Inr page)" if "r = Inr page" for page
      using assms Inl that deliver_error_inv by (fastforce simp: authorize_trusted_def Let_def split: exc.split_asm)
    ultimately show thesis using that(1) by blast
  next
    case p: (Inr p)
    show thesis
    proof (cases "session_gate e rq s m")
      case (GateError er d)
      have "app_db st' = app_db st" using assms p GateError by (simp add: authorize_trusted_def Let_def)
      moreover have "r = deliver_error (at_mode t) (at_redirect_uri t) er (Some d) (at_state t) (cfg_issuer (sv_config sv))"
        using assms p GateError by (simp add: authorize_trusted_def Let_def)
      ultimately show thesis using that(1) deliver_error_inv by metis
    next
      case GateLogin
      then have "st' = st" "r = Inr (RedirectTo 302 ''/auth/login'' [])" using assms p by (simp_all add: authorize_trusted_def Let_def)
      then show thesis using that(1) by simp
    next
      case (GateUser uid)
      then have "grant_code sv e c t p s uid st = (st', r)" "s' = s"
        using assms p by (auto simp: authorize_trusted_def Let_def split: prod.split_asm)
      then show thesis using that(2) p GateUser by metis
    qed
  qed
qed

lemma authorize_trusted_page:
  assumes "authorize_trusted sv e rq c t m s st = (st', s', Inr page)"
  shows "is_json_page page \<or> page = RedirectTo 302 ''/auth/login'' [] \<or>
    (\<exists>params. deliver (at_mode t) (at_redirect_uri t) params = Inr page)"
  using assms
proof (cases rule: authorize_trusted_inv)
  case (2 p uid)
  from 2(3) show ?thesis by (cases rule: grant_code_inv) blast+
qed blast

text \<open>
  C5. The endpoint is no open redirector. Whatever the query, the pushed request or the request object
  say, a browser is answered in place, sent to the login page, or handed to a redirect URI that
  matches one the enabled, not denylisted client has registered; and the URL it is redirected to
  then has the scheme, host and path of that URI.
\<close>

theorem authorize_redirects_only_to_registered:
  assumes "authorize sv e rq s st = (st', s', Inr page)"
  shows "is_json_page page \<or> page = RedirectTo 302 ''/auth/login'' [] \<or>
    (\<exists>c uri mode params. trusted_client e (app_db st) rq c \<and> registered_uri (env_recursion e) c uri \<and>
       deliver mode uri params = Inr page \<and>
       (\<forall>loc hs r. page = RedirectTo 302 loc hs \<longrightarrow> urlsplit uri = Some r \<longrightarrow> sr_scheme r \<noteq> [] \<longrightarrow> sr_netloc r \<noteq> [] \<longrightarrow>
          CHR ''#'' \<notin> set uri \<longrightarrow>
          (\<exists>r'. urlsplit loc = Some r' \<and> sr_scheme r' = sr_scheme r \<and> sr_netloc r' = sr_netloc r \<and> sr_path r' = sr_path r)))"
  using assms
proof (cases rule: authorize_inv)
  case (2 c t m jm st2)
  show ?thesis
  proof (cases "is_json_page page \<or> page = RedirectTo 302 ''/auth/login'' []")
    case False
    then obtain params where d: "deliver (at_mode t) (at_redirect_uri t) params = Inr page"
      using authorize_trusted_page [OF 2(4)] by blast
    have same: "\<exists>r'. urlsplit loc = Some r' \<and> sr_scheme r' = sr_scheme r \<and> sr_netloc r' = sr_netloc r \<and> sr_path r' = sr_path r"
      if "page = RedirectTo 302 loc hs" "urlsplit (at_redirect_uri t) = Some r" "sr_scheme r \<noteq> []" "sr_netloc r \<noteq> []"
        "CHR ''#'' \<notin> set (at_redirect_uri t)" for loc hs r
    proof -
      have "at_mode t = ''query'' \<or> at_mode t = ''fragment''"
        using d that(1) resolve_target_mode(1) [OF 2(2)] by (auto simp: deliver_def VALID_RESPONSE_MODES_def split: option.splits if_splits)
      from delivered_location [OF that(2-5) this, of params] show ?thesis using d that(1) by auto
    qed
    show ?thesis using 2(1) resolve_target_registered [OF 2(2)] d same by blast
  qed blast
qed blast



section \<open>What stands behind a code\<close>

definition code_backed :: "env \<Rightarrow> config \<Rightarrow> browse_request \<Rightarrow> session \<Rightarrow> database \<Rightarrow> authorization_code \<Rightarrow> bool" where
  "code_backed e cfg rq s db ac \<longleftrightarrow>
     (\<exists>c. trusted_client e db rq c \<and> code_client_id ac = client_client_id c \<and>
        client_has_grant (env_recursion e) ''authorization_code'' c = Inr True \<and>
        registered_uri (env_recursion e) c (code_redirect_uri ac) \<and> scope_is_subset (code_scope ac) (client_scope c)) \<and>
     se_user_id s = Some (code_user_id ac) \<and> \<not> auth_expired e s (map_of (br_query rq) ''max_age'') \<and>
     (\<exists>ch. code_code_challenge ac = Some ch \<and> 43 \<le> length ch \<and> length ch \<le> 128) \<and> code_code_challenge_method ac = Some ''S256'' \<and>
     \<not> code_used ac \<and> code_expires_at ac = env_now e + usecs (cfg_authorization_code_ttl_secs cfg)"

lemma check_params_sound:
  assumes "check_params e cfg c jar t m = Inr p"
  shows "client_has_grant (env_recursion e) ''authorization_code'' c = Inr True" "scope_is_subset (ap_scope p) (client_scope c)"
    "43 \<le> length (ap_code_challenge p)" "length (ap_code_challenge p) \<le> 128"
proof -
  obtain ch where "client_has_grant (env_recursion e) ''authorization_code'' c = Inr True" "scope_is_subset (ap_scope p) (client_scope c)"
      "check_challenge (map_of m ''code_challenge'') (map_of m ''code_challenge_method'') = Inr (ap_code_challenge p)"
    using assms unfolding check_params_def Let_def
    by (auto simp: bind_res_Inr_iff split: if_split_asm)
  then show "client_has_grant (env_recursion e) ''authorization_code'' c = Inr True" "scope_is_subset (ap_scope p) (client_scope c)"
    "43 \<le> length (ap_code_challenge p)" "length (ap_code_challenge p) \<le> 128"
    by (auto simp: check_challenge_def MIN_CODE_CHALLENGE_LEN_def MAX_CODE_CHALLENGE_LEN_def split: if_split_asm)
qed

lemma session_gate_user:
  assumes "session_gate e rq s m = GateUser uid"
  shows "se_user_id s = Some uid" "\<not> auth_expired e s (map_of (br_query rq) ''max_age'')"
  using assms by (auto simp: session_gate_def current_user_id_def Let_def split: if_split_asm option.split_asm)

lemma issue_code_adds:
  assumes "issue_code e cfg c uid uri scope ch cm nonce details res claims jkt db = Inr (db', code)"
  shows "db_codes db' = db_codes db @ [code]" "db_tokens db' = db_tokens db" "code_client_id code = client_client_id c"
    "code_user_id code = uid" "code_redirect_uri code = uri" "code_scope code = scope" "code_code_challenge code = ch"
    "code_code_challenge_method code = cm" "\<not> code_used code" "code_expires_at code = env_now e + usecs (cfg_authorization_code_ttl_secs cfg)"
  using assms
  by (auto simp: issue_code_def save_authorization_code_def sql_insert_def bind_res_Inr_iff Let_def split: if_split_asm)

text \<open>
  C2. Every code is backed. Whatever the request, the endpoint adds at most one code and no token; the
  code is for the user of the session, whose login is recent enough for the \<open>max_age\<close> asked for,
  and for an enabled, not denylisted client registered for the grant; its redirect URI is
  registered, its scope within the client's, its PKCE challenge of 43 to 128 characters under S256,
  and it is unused and expires on schedule.
\<close>

theorem authorize_issues_only_backed_codes:
  assumes "authorize sv e rq s st = (st', s', r)"
  shows "db_tokens (app_db st') = db_tokens (app_db st) \<and>
    (db_codes (app_db st') = db_codes (app_db st) \<or>
     (\<exists>ac. db_codes (app_db st') = db_codes (app_db st) @ [ac] \<and> code_backed e (sv_config sv) rq s (app_db st) ac))"
  using assms
proof (cases rule: authorize_inv)
  case (2 c t m jm st2)
  from 2(4) show ?thesis
  proof (cases rule: authorize_trusted_inv)
    case g: (2 p uid)
    from g(3) show ?thesis
    proof (cases rule: grant_code_inv)
      case i: (2 db' code)
      note ic = issue_code_adds [OF i(1)]
      have "code_backed e (sv_config sv) rq s (app_db st) code"
        using 2(1) resolve_target_registered [OF 2(2)] check_params_sound [OF g(1)] session_gate_user [OF g(2)] ic
        unfolding code_backed_def by auto
      then show ?thesis using ic i(2) 2(3) by auto
    qed (use 2(3) in simp)
  qed (use 2(3) in simp)
qed simp



section \<open>The login detour\<close>

lemma py_split_aux_word: "list_all (\<lambda>c. \<not> py_isspace c) w \<Longrightarrow> py_split_aux acc (w @ s) = py_split_aux (rev w @ acc) s"
  by (induction w arbitrary: acc) auto

lemma py_split_join:
  "\<forall>w \<in> set ws. w \<noteq> [] \<and> list_all (\<lambda>c. \<not> py_isspace c) w \<Longrightarrow> py_split (str_join '' '' ws) = ws"
proof (induction "'' ''" ws rule: str_join.induct)
  case (3 x y r)
  have "py_isspace (CHR '' '')" by (simp add: py_isspace_def)
  then show ?case using 3 by (simp add: py_split_def py_split_aux_word)
qed (simp_all add: py_split_def py_split_aux_word [of _ "[]" "[]", simplified])

definition prompts_of :: "(string \<times> string) list \<Rightarrow> string list" where
  "prompts_of q = py_split (or_str (map_of q ''prompt'') [])"

lemma strip_reauth_keys: "fst ` set (strip_reauth_pairs q) \<subseteq> fst ` set q"
  by (induction q rule: strip_reauth_pairs.induct) (auto simp: Let_def split: if_splits)

lemma strip_reauth_distinct: "distinct (map fst q) \<Longrightarrow> distinct (map fst (strip_reauth_pairs q))"
proof (induction q)
  case (Cons kv r)
  obtain k v where kv: "kv = (k, v)" by fastforce
  have "k \<notin> fst ` set (strip_reauth_pairs r)" using Cons(2) kv strip_reauth_keys [of r] by auto
  moreover have "distinct (map fst (strip_reauth_pairs r))" using Cons by simp
  ultimately show ?case by (auto simp: kv Let_def)
qed simp

lemma strip_reauth_max_age: "map_of (strip_reauth_pairs q) ''max_age'' = None"
  by (induction q rule: strip_reauth_pairs.induct) (auto simp: Let_def)

lemma strip_reauth_prompts:
  "distinct (map fst q) \<Longrightarrow> prompts_of (strip_reauth_pairs q) = filter (\<lambda>p. p \<noteq> ''login'') (prompts_of q)"
proof (induction q)
  case (Cons kv r)
  obtain k v where kv: "kv = (k, v)" by fastforce
  let ?rem = "filter (\<lambda>p. p \<noteq> ''login'') (py_split v)"
  show ?case
  proof (cases "k = ''prompt''")
    case True
    have "''prompt'' \<notin> fst ` set (strip_reauth_pairs r)" using Cons(2) kv True strip_reauth_keys [of r] by auto
    then have no: "map_of (strip_reauth_pairs r) ''prompt'' = None" by (simp add: map_of_eq_None_iff)
    have tok: "\<forall>w \<in> set ?rem. w \<noteq> [] \<and> list_all (\<lambda>c. \<not> py_isspace c) w" using py_split_tokens by fastforce
    then have "py_split (str_join '' '' ?rem) = ?rem" by (rule py_split_join)
    then have "str_join '' '' ?rem = [] \<Longrightarrow> ?rem = []" by (metis py_split_Nil)
    then show ?thesis using True no \<open>py_split (str_join '' '' ?rem) = ?rem\<close> by (auto simp: kv prompts_of_def or_str_def Let_def)
  next
    case False
    then have "prompts_of (strip_reauth_pairs (kv # r)) = prompts_of (strip_reauth_pairs r)" "prompts_of (kv # r) = prompts_of r"
      by (simp_all add: kv prompts_of_def)
    then show ?thesis using Cons by simp
  qed
qed (simp add: prompts_of_def or_str_def)

lemma session_gate_prompts:
  "session_gate e rq s m = GateLogin \<Longrightarrow>
     se_user_id s = None \<or> ''login'' \<in> set (prompts_of (br_query rq)) \<or> ''select_account'' \<in> set (prompts_of (br_query rq)) \<or>
     auth_expired e s (map_of (br_query rq) ''max_age'')"
  "''select_account'' \<in> set (prompts_of (br_query rq)) \<Longrightarrow> session_gate e rq s m \<noteq> GateUser uid"
  by (auto simp: session_gate_def prompts_of_def current_user_id_def Let_def split: if_split_asm option.split_asm)

text \<open>
  The login is asked for once: when the endpoint sends a user to the login page, the URL it
  remembers, fetched after any login, is not sent there again, whatever \<open>max_age\<close> and \<open>prompt=login\<close>
  the first request carried, unless it asked for \<open>prompt=select_account\<close>.
\<close>

theorem login_is_asked_once:
  assumes "distinct (map fst (parse_qsl (br_raw_query rq)))" and "''select_account'' \<notin> set (prompts_of (parse_qsl (br_raw_query rq)))"
    and "br_raw_query rq' = strip_reauth_params (br_raw_query rq)" and "br_query rq' = parse_qsl (br_raw_query rq')"
    and "se_user_id s' \<noteq> None"
  shows "session_gate e' rq' s' m' \<noteq> GateLogin"
proof
  let ?q = "parse_qsl (br_raw_query rq)"
  have q: "br_query rq' = strip_reauth_pairs ?q"
    using assms(3,4) by (simp add: strip_reauth_params_def quoted_plus.parse_urlencode)
  assume "session_gate e' rq' s' m' = GateLogin"
  from session_gate_prompts(1) [OF this] assms(5)
  have "''login'' \<in> set (prompts_of (br_query rq')) \<or> ''select_account'' \<in> set (prompts_of (br_query rq')) \<or>
      auth_expired e' s' (map_of (br_query rq') ''max_age'')" by blast
  then show False using assms(2) unfolding q strip_reauth_prompts [OF assms(1)] strip_reauth_max_age by (auto simp: auth_expired_def)
qed

text \<open>
  A request with \<open>prompt=select_account\<close>, a value the server advertises, is never granted: no session
  gets it past the login page, and every URL remembered on the way there asks for it again.
\<close>

theorem select_account_never_granted:
  assumes "distinct (map fst q)" and "''select_account'' \<in> set (prompts_of q)"
  shows "session_gate e \<lparr>br_query = (strip_reauth_pairs ^^ n) q, br_path = path, br_raw_query = raw\<rparr> s m \<noteq> GateUser uid"
proof -
  have "distinct (map fst ((strip_reauth_pairs ^^ n) q)) \<and> ''select_account'' \<in> set (prompts_of ((strip_reauth_pairs ^^ n) q))"
    by (induction n) (use assms in \<open>auto simp: strip_reauth_distinct strip_reauth_prompts\<close>)
  then show ?thesis by (intro session_gate_prompts(2)) simp
qed



section \<open>Evaluations\<close>

definition spa_challenge :: string where
  "spa_challenge = replicate 43 (CHR ''A'')"

definition spa_request :: browse_request where
  "spa_request = \<lparr>br_query = [(''client_id'', ''spa''), (''response_type'', ''code''), (''redirect_uri'', ''https://spa/cb''),
     (''code_challenge'', spa_challenge), (''code_challenge_method'', ''S256'')], br_path = ''/oauth/authorize'', br_raw_query = []\<rparr>"

definition spa_app :: app_state where
  "spa_app = fresh_app ((empty_db Sqlite)\<lparr>db_clients := [sample_public_client]\<rparr>)"

definition spa_session :: session where
  "spa_session = empty_session\<lparr>se_user_id := Some ''u1'', se_auth_time := Some 0\<rparr>"

definition spa_server :: "bytes server" where
  "spa_server = \<lparr>sv_lib = plain_lib, sv_get = (\<lambda>_. HttpFailure), sv_hash_password = id, sv_config = sample_config,
     sv_nonce_issuer = nonce_issuer_new [] 300\<rparr>"

lemma spa_grants:
  "\<exists>st' page. authorize spa_server (sample_env 0 ''a'') spa_request spa_session spa_app = (st', spa_session, Inr page) \<and>
     \<not> is_json_page page \<and> page \<noteq> RedirectTo 302 ''/auth/login'' [] \<and> db_codes (app_db st') \<noteq> []"
proof -
  let ?e = "sample_env 0 ''a''" and ?c = "sample_public_client"
  let ?t = "\<lparr>at_redirect_uri = ''https://spa/cb'', at_mode = ''query'', at_response_type = Some ''code'', at_state = None\<rparr>"
  let ?p = "\<lparr>ap_scope = ''read'', ap_code_challenge = spa_challenge, ap_nonce = None, ap_authorization_details = None,
     ap_resource = None, ap_claims = None, ap_dpop_jkt = None\<rparr>"
  have 1: "resolve_pushed ?e spa_request spa_app = (spa_app, Inr (br_query spa_request))"
    by (simp add: resolve_pushed_def spa_request_def)
  have 2: "resolve_client ?e spa_request (app_db spa_app) = Inr ?c"
    by (simp add: resolve_client_def spa_request_def spa_app_def fresh_app_def empty_db_def get_client_def sample_public_client_def mk_client_def
        check_subject_denylisted_def find_denylist_entry_def)
  have 3: "overlay_jar spa_server ?e spa_request ?c (br_query spa_request) spa_app = (spa_app, Inr (br_query spa_request, None))"
    by (simp add: overlay_jar_def spa_request_def)
  have "redirect_registered 30 ?c ''https://spa/cb'' = Inr True" by code_simp
  then have 4: "resolve_target ?e spa_request ?c (br_query spa_request) None = Inr ?t"
    by (simp add: resolve_target_def resolve_response_mode_def spa_request_def sample_env_def HYBRID_RESPONSE_TYPE_def)
  have g: "client_has_grant 30 ''authorization_code'' ?c = Inr True" and sc: "scope_is_subset ''read'' (client_scope ?c)" by code_simp+
  have 5: "check_params ?e sample_config ?c False ?t (br_query spa_request) = Inr ?p"
    using g sc by (simp add: check_params_def spa_request_def sample_env_def SUPPORTED_RESPONSE_TYPES_def is_hybrid_def HYBRID_RESPONSE_TYPE_def
        or_str_def check_challenge_def spa_challenge_def MIN_CODE_CHALLENGE_LEN_def MAX_CODE_CHALLENGE_LEN_def check_details_def
        validate_resource_def check_claims_request_def)
  have 6: "session_gate ?e spa_request spa_session (br_query spa_request) = GateUser ''u1''"
    by (simp add: session_gate_def spa_request_def spa_session_def or_str_def auth_expired_def current_user_id_def)
  obtain db' code where i: "issue_code ?e sample_config ?c ''u1'' ''https://spa/cb'' ''read'' (Some spa_challenge) (Some ''S256'') None None None None None (app_db spa_app) = Inr (db', code)"
    by (simp add: issue_code_def save_authorization_code_def fk_ok_def sql_insert_def spa_app_def fresh_app_def empty_db_def Let_def)
  have u: "urlsplit ''https://spa/cb'' = Some \<lparr>sr_scheme = ''https'', sr_netloc = ''spa'', sr_path = ''/cb'', sr_query = [], sr_fragment = []\<rparr>"
    by code_simp
  obtain loc hs where d: "success_response ''query'' ''https://spa/cb'' (code_code code) None (cfg_issuer sample_config) None = Inr (RedirectTo 302 loc hs)"
      and loc: "\<exists>r'. urlsplit loc = Some r' \<and> sr_scheme r' = ''https''"
    using delivered_location [OF u, of "''query''"] unfolding success_response_def by fastforce
  have "urlsplit ''/auth/login'' = Some \<lparr>sr_scheme = [], sr_netloc = [], sr_path = ''/auth/login'', sr_query = [], sr_fragment = []\<rparr>" by code_simp
  then have nl: "loc \<noteq> ''/auth/login''" using loc by auto
  have "grant_code spa_server ?e ?c ?t ?p spa_session ''u1'' spa_app =
      (emit_event ''authorization_code_created'' ''info'' (Some ''u1'') (Some (client_client_id ?c)) [(''scope'', ''read''), (''redirect_uri'', ''https://spa/cb'')]
         (spa_app\<lparr>app_db := db', app_codes_issued := app_codes_issued spa_app + 1\<rparr>), Inr (RedirectTo 302 loc hs))"
    using i d by (simp add: grant_code_def spa_server_def is_hybrid_def HYBRID_RESPONSE_TYPE_def code_response_def)
  moreover have "db_codes db' \<noteq> []" using issue_code_adds(1) [OF i] by simp
  moreover have nr: "map_of (br_query spa_request) ''request'' = None" by (simp add: spa_request_def)
  ultimately show ?thesis using nl 5
    by (simp add: authorize_def 1 2 3 4 authorize_trusted_def spa_server_def [THEN arg_cong, of sv_config] 6 Let_def emit_event_def)
qed

theorem authorize_redirects_only_to_registered_witness:
  "\<exists>st' page c uri. authorize spa_server (sample_env 0 ''a'') spa_request spa_session spa_app = (st', spa_session, Inr page) \<and>
     \<not> is_json_page page \<and> trusted_client (sample_env 0 ''a'') (app_db spa_app) spa_request c \<and> registered_uri 30 c uri"
proof -
  obtain st' page where a: "authorize spa_server (sample_env 0 ''a'') spa_request spa_session spa_app = (st', spa_session, Inr page)"
    and p: "\<not> is_json_page page" "page \<noteq> RedirectTo 302 ''/auth/login'' []" using spa_grants by blast
  have "env_recursion (sample_env 0 ''a'') = 30" by (simp add: sample_env_def)
  then show ?thesis using authorize_redirects_only_to_registered [OF a] a p by metis
qed

theorem authorize_issues_only_backed_codes_witness:
  "\<exists>st' r ac. authorize spa_server (sample_env 0 ''a'') spa_request spa_session spa_app = (st', spa_session, r) \<and>
     db_codes (app_db st') = [ac] \<and> code_backed (sample_env 0 ''a'') (sv_config spa_server) spa_request spa_session (app_db spa_app) ac"
proof -
  obtain st' page where a: "authorize spa_server (sample_env 0 ''a'') spa_request spa_session spa_app = (st', spa_session, Inr page)"
    and n: "db_codes (app_db st') \<noteq> []" using spa_grants by blast
  have "db_codes (app_db spa_app) = []" by (simp add: spa_app_def fresh_app_def empty_db_def)
  with authorize_issues_only_backed_codes [OF a] n a show ?thesis by auto
qed

theorem login_is_asked_once_witness:
  "session_gate (sample_env 5000000 ''b'')
     \<lparr>br_query = parse_qsl (strip_reauth_params ''prompt=login+consent&max_age=0&state=x''), br_path = ''/oauth/authorize'',
      br_raw_query = strip_reauth_params ''prompt=login+consent&max_age=0&state=x''\<rparr> spa_session [] \<noteq> GateLogin"
proof -
  let ?raw = "''prompt=login+consent&max_age=0&state=x''"
  have q: "parse_qsl ?raw = [(''prompt'', ''login consent''), (''max_age'', ''0''), (''state'', ''x'')]" by code_simp
  have "prompts_of (parse_qsl ?raw) = [''login'', ''consent'']" unfolding q by code_simp
  moreover have "distinct (map fst (parse_qsl ?raw))" unfolding q by simp
  ultimately show ?thesis
    using login_is_asked_once [of "\<lparr>br_query = [], br_path = [], br_raw_query = ?raw\<rparr>"
        "\<lparr>br_query = parse_qsl (strip_reauth_params ?raw), br_path = ''/oauth/authorize'', br_raw_query = strip_reauth_params ?raw\<rparr>" spa_session]
    by (simp add: spa_session_def)
qed

theorem select_account_never_granted_witness:
  "session_gate (sample_env 0 ''a'') \<lparr>br_query = (strip_reauth_pairs ^^ 3) [(''prompt'', ''select_account'')], br_path = [], br_raw_query = []\<rparr>
     spa_session [] \<noteq> GateUser ''u1''"
proof -
  have "''select_account'' \<in> set (prompts_of [(''prompt'', ''select_account'')])" by code_simp
  then show ?thesis by (intro select_account_never_granted) simp_all
qed

end
