(* ===== verification/Par_Route.thy ===== *)
theory Par_Route
  imports Authorize_Facts
begin

text \<open>
  \<open>POST /oauth/par\<close> (\<open>routes/par.py\<close>) and its meeting with the authorization endpoint: the body is
  parsed from raw bytes so that repeated parameters are refused, the client authenticates as at the
  token endpoint, and the parameters, without credentials, wait under a fresh request URI. The
  theorem composes the two routes: the URI serves the client that pushed it, once, within sixty
  seconds, and the pushed parameters then win over the query.
\<close>

definition STRIPPED_KEYS :: "string list" where
  "STRIPPED_KEYS = [''client_secret'', ''client_assertion'', ''client_assertion_type'']"

definition par_error :: "int \<Rightarrow> string \<Rightarrow> string \<Rightarrow> http_response" where
  "par_error status error description =
     \<lparr>resp_status = status, resp_headers = [(''Cache-Control'', ''no-store'')],
      resp_body = JObj [(''error'', JStr error), (''error_description'', JStr description)]\<rparr>"

definition par_params_of :: "bytes \<Rightarrow> string + string dict" where
  \<comment> \<open>the parameters of a body, or the description of what is wrong with it\<close>
  "par_params_of body =
     (case utf8_decode body of
        None \<Rightarrow> Inl ''Invalid PAR request body encoding''
      | Some s \<Rightarrow>
          (let params = parse_qsl s
           in if \<not> distinct (map fst params) then Inl ''Duplicate parameter in PAR request''
              else if \<not> truthy (map_of params ''client_id'') then Inl ''Missing client_id in PAR request''
              else if \<not> truthy (map_of params ''response_type'') then Inl ''Missing response_type in PAR request''
              else Inr params))"

definition par :: "'k server \<Rightarrow> env \<Rightarrow> http_request \<Rightarrow> bytes \<Rightarrow> app_state \<Rightarrow> handled" where
  "par sv e rq body st =
     (case par_params_of body of
        Inl d \<Rightarrow> (st, Inr (par_error 400 ''invalid_request'' d))
      | Inr params \<Rightarrow>
          (case authenticate (sv_lib sv) (sv_get sv) e (sv_config sv) params (header_get ''authorization'' rq) (mtls_headers rq (sv_config sv)) st of
             (st1, Inl x) \<Rightarrow> (st1, exc_response x)
           | (st1, Inr _) \<Rightarrow>
               (let (store, uri) = par_store_op (env_mono e) (env_uuid e 0) (the (map_of params ''client_id''))
                      (filter (\<lambda>p. fst p \<notin> set STRIPPED_KEYS) params) (app_par st1)
                in (st1\<lparr>app_par := store\<rparr>,
                    Inr \<lparr>resp_status = 201, resp_headers = [(''Cache-Control'', ''no-store'')],
                         resp_body = JObj [(''request_uri'', JStr uri), (''expires_in'', JInt 60)]\<rparr>))))"


section \<open>The authenticated client is the one named\<close>

lemma presented_client_id:
  assumes "presented_credentials lib form header = Inr (cid, secret)" and "map_of form ''client_id'' = Some i" "i \<noteq> []"
  shows "cid = i"
proof -
  have "\<exists>basic. parse_basic_auth header = Inr basic" using assms(1) by (auto simp: presented_credentials_def bind_res_Inr_iff)
  then obtain basic where b: "parse_basic_auth header = Inr basic" by blast
  show ?thesis
  proof (cases basic)
    case None
    then show ?thesis using assms b by (simp add: presented_credentials_def Let_def)
  next
    case (Some p)
    obtain x y where "p = (x, y)" by fastforce
    then show ?thesis using assms b Some by (auto simp: presented_credentials_def Let_def split: if_split_asm)
  qed
qed

lemma check_credentials_client: "check_credentials lib get e cfg c form secret mtls st = (st', Inr c') \<Longrightarrow> c' = c"
  by (auto simp: check_credentials_def Let_def case_prod_unfold bind_res_Inr_iff split: if_split_asm)

lemma authenticated_client_id:
  assumes "authenticate lib get e cfg form header mtls st = (st', Inr c)" and "map_of form ''client_id'' = Some i" "i \<noteq> []"
  shows "client_client_id c = i"
proof -
  obtain cid secret where p: "presented_credentials lib form header = Inr (cid, secret)"
    using assms(1) by (auto simp: authenticate_def split: sum.split_asm)
  have "get_client cid (app_db st) = Some c"
    using assms(1) unfolding authenticate_def p
    by (auto split: option.split_asm if_split_asm dest: check_credentials_client)
  then show ?thesis using presented_client_id [OF p assms(2,3)] by (auto simp: get_client_def find_Some_iff)
qed


section \<open>From the push to the authorization request\<close>

definition par_merge :: "string dict \<Rightarrow> string list \<Rightarrow> string dict \<Rightarrow> string dict" where
  "par_merge pushed keys query = fold (\<lambda>k m. case map_of pushed k of Some v \<Rightarrow> AList.update k v m | None \<Rightarrow> m) keys query"

lemma map_of_par_merge:
  "map_of (par_merge pushed keys query) k =
     (if k \<in> set keys \<and> map_of pushed k \<noteq> None then map_of pushed k else map_of query k)"
  unfolding par_merge_def
  by (induction keys arbitrary: query) (auto simp: update_conv' split: option.split)

lemma map_of_filter_fst: "map_of (filter (\<lambda>p. P (fst p)) xs) k = (if P k then map_of xs k else None)"
  by (induction xs) auto

lemma par_take_after_store:
  assumes "keys_distinct s" and "par_store_op t uuid cid ps s = (s', uri)" "t' < t + 60"
  shows "snd (par_take t' uri s') = Some \<lparr>par_client_id = cid, par_params = ps, par_created_at = t\<rparr>"
    "map_of (fst (par_take t' uri s')) uri = None"
proof -
  let ?e = "\<lparr>par_client_id = cid, par_params = ps, par_created_at = t\<rparr>"
  have "map_of s' uri = Some ?e" "keys_distinct s'"
    using assms(1,2) by (auto simp: par_store_op_def Let_def update_conv')
  moreover have "\<not> par_expired t' ?e" using assms(3) by (simp add: par_expired_def PAR_TTL_SECS_def)
  ultimately have "map_of (par_sweep_expired t' s') uri = Some ?e"
    by (simp add: par_sweep_expired_def map_of_sweep)
  then show "snd (par_take t' uri s') = Some ?e" by (simp add: par_take_def Let_def)
  show "map_of (fst (par_take t' uri s')) uri = None" by (simp add: par_take_def Let_def delete_conv')
qed

text \<open>
  C21. A pushed request serves its pusher, once. When the endpoint has answered with a request URI, the
  caller was authenticated as the client named in the body; an authorization request within sixty
  seconds that names the URI and that client gets the pushed value of every mergeable parameter
  and the query's value of all others, no credential among them; one that names another client is
  refused; and either way the URI is spent.
\<close>

theorem pushed_request_serves_its_client_once:
  assumes "par sv e rq body st = (st1, Inr r)" and "resp_body r = JObj [(''request_uri'', JStr uri), (''expires_in'', JInt 60)]"
    and "keys_distinct (app_par st)" and "env_mono e2 < env_mono e + 60"
    and "distinct (map fst (br_query rq2))" "map_of (br_query rq2) ''request_uri'' = Some uri"
  shows "\<exists>params c st0 st2 res. par_params_of body = Inr params \<and>
    authenticate (sv_lib sv) (sv_get sv) e (sv_config sv) params (header_get ''authorization'' rq) (mtls_headers rq (sv_config sv)) st = (st0, Inr c) \<and>
    map_of params ''client_id'' = Some (client_client_id c) \<and>
    resolve_pushed e2 rq2 st1 = (st2, res) \<and> map_of (app_par st2) uri = None \<and>
    (if map_of (br_query rq2) ''client_id'' = Some (client_client_id c)
     then \<exists>merged. res = Inr merged \<and>
       (\<forall>k. map_of merged k = (if k \<in> set PAR_MERGE_KEYS \<and> map_of params k \<noteq> None then map_of params k else map_of (br_query rq2) k))
     else res = Inl (error_page 401 ''invalid_client'' ''request_uri client_id mismatch''))"
proof -
  obtain params where ps: "par_params_of body = Inr params"
    using assms(1,2) by (cases "par_params_of body") (auto simp: par_def par_error_def)
  let ?a = "authenticate (sv_lib sv) (sv_get sv) e (sv_config sv) params (header_get ''authorization'' rq) (mtls_headers rq (sv_config sv)) st"
  obtain st0 a where a: "?a = (st0, a)" by fastforce
  obtain c where c: "a = Inr c"
    using assms(1,2) ps a by (cases a) (auto simp: par_def exc_response_def oauth_error_def split: exc.split_asm)
  obtain i where i: "map_of params ''client_id'' = Some i" "i \<noteq> []"
    using ps by (auto simp: par_params_of_def Let_def split: option.split_asm if_split_asm elim!: truthyE)
  have ci: "client_client_id c = i" using authenticated_client_id a c i by metis
  let ?f = "filter (\<lambda>p. fst p \<notin> set STRIPPED_KEYS) params"
  obtain store where so: "par_store_op (env_mono e) (env_uuid e 0) i ?f (app_par st0) = (store, uri)" "st1 = st0\<lparr>app_par := store\<rparr>"
    using assms(1,2) ps a c i(1) by (auto simp: par_def Let_def case_prod_unfold prod_eq_iff)
  have "app_par st0 = app_par st" using auth_frame_fields(5) [OF authenticate_frame] a by (metis fst_conv)
  then have kd: "keys_distinct (app_par st0)" using assms(3) by simp
  note tk = par_take_after_store [OF kd so(1) assms(4)]
  have sub: "k \<in> set PAR_MERGE_KEYS \<Longrightarrow> map_of ?f k = map_of params k" for k
    by (subst map_of_filter_fst) (auto simp: PAR_MERGE_KEYS_def STRIPPED_KEYS_def)
  have "par_merge ?f PAR_MERGE_KEYS (br_query rq2) = fold (\<lambda>k m. case map_of ?f k of Some v \<Rightarrow> AList.update k v m | None \<Rightarrow> m) PAR_MERGE_KEYS (br_query rq2)"
    by (simp add: par_merge_def)
  then have res: "resolve_pushed e2 rq2 st1 = (st1\<lparr>app_par := fst (par_take (env_mono e2) uri store)\<rparr>,
      if map_of (br_query rq2) ''client_id'' = Some i then Inr (par_merge ?f PAR_MERGE_KEYS (br_query rq2))
      else Inl (error_page 401 ''invalid_client'' ''request_uri client_id mismatch''))"
    using tk(1) assms(5,6) so(2) by (simp add: resolve_pushed_def Let_def case_prod_unfold)
  have m: "map_of (par_merge ?f PAR_MERGE_KEYS (br_query rq2)) k =
      (if k \<in> set PAR_MERGE_KEYS \<and> map_of params k \<noteq> None then map_of params k else map_of (br_query rq2) k)" for k
    using sub by (auto simp: map_of_par_merge)
  let ?st2 = "st1\<lparr>app_par := fst (par_take (env_mono e2) uri store)\<rparr>"
  let ?res = "if map_of (br_query rq2) ''client_id'' = Some i then Inr (par_merge ?f PAR_MERGE_KEYS (br_query rq2))
      else Inl (error_page 401 ''invalid_client'' ''request_uri client_id mismatch'')"
  show ?thesis using ps a c i(1) ci tk(2) m res
    by (intro exI [of _ params] exI [of _ c] exI [of _ st0] exI [of _ ?st2] exI [of _ ?res]) simp
qed


section \<open>Evaluation\<close>

definition push_body :: bytes where
  "push_body = utf8 ''client_id=app&client_secret=s3cret&response_type=code&scope=read''"

definition push_params :: "string dict" where
  "push_params = [(''client_id'', ''app''), (''client_secret'', ''s3cret''), (''response_type'', ''code''), (''scope'', ''read'')]"

definition plain_request :: http_request where
  "plain_request = \<lparr>rq_headers = [], rq_form = []\<rparr>"

definition push_state :: app_state where
  "push_state = fresh_app ((empty_db Sqlite)\<lparr>db_clients := [mk_client ''1'' ''app'' ''s3cret'' [] [] ''read'' ''App'' 0]\<rparr>)"

theorem pushed_request_serves_its_client_once_witness:
  "\<exists>st1 r st2 merged. par spa_server (sample_env 0 ''a'') plain_request push_body push_state = (st1, Inr r) \<and> resp_status r = 201 \<and>
     resolve_pushed (sample_env 1000000 ''b'')
       \<lparr>br_query = [(''client_id'', ''app''), (''request_uri'', par_request_uri ''a-u0''), (''scope'', ''admin'')], br_path = [], br_raw_query = []\<rparr> st1
       = (st2, Inr merged) \<and> map_of merged ''scope'' = Some ''read'' \<and> map_of (app_par st2) (par_request_uri ''a-u0'') = None"
proof -
  let ?e = "sample_env 0 ''a''" and ?e2 = "sample_env 1000000 ''b''" and ?c = "mk_client ''1'' ''app'' ''s3cret'' [] [] ''read'' ''App'' 0"
  let ?rq2 = "\<lparr>br_query = [(''client_id'', ''app''), (''request_uri'', par_request_uri ''a-u0''), (''scope'', ''admin'')], br_path = [], br_raw_query = []\<rparr>"
  have pp: "par_params_of push_body = Inr push_params"
  proof -
    have "utf8_decode push_body = Some ''client_id=app&client_secret=s3cret&response_type=code&scope=read''"
      by (simp only: push_body_def utf8_roundtrip)
    moreover have "parse_qsl ''client_id=app&client_secret=s3cret&response_type=code&scope=read'' = push_params" by code_simp
    ultimately show ?thesis by (simp add: par_params_of_def push_params_def)
  qed
  have rq: "header_get ''authorization'' plain_request = None" "mtls_headers plain_request (sv_config spa_server) = (None, None)"
    by (simp_all add: header_get_def plain_request_def mtls_headers_def spa_server_def sample_config_def)
  have "presented_credentials (sv_lib spa_server) push_params None = Inr (''app'', Some ''s3cret'')"
    by (simp add: presented_credentials_def parse_basic_auth_def push_params_def)
  then have "\<exists>st0. authenticate (sv_lib spa_server) (sv_get spa_server) ?e (sv_config spa_server) push_params None (None, None) push_state = (st0, Inr ?c)"
    by (simp add: authenticate_def push_state_def fresh_app_def empty_db_def get_client_def check_subject_denylisted_def mk_client_def
        find_denylist_entry_def check_credentials_def is_public_def Let_def)
  then obtain st0 where a: "authenticate (sv_lib spa_server) (sv_get spa_server) ?e (sv_config spa_server) push_params None (None, None) push_state = (st0, Inr ?c)"
    by blast
  have u: "env_uuid ?e 0 = ''a-u0''" by code_simp
  have "\<exists>st1. par spa_server ?e plain_request push_body push_state = (st1, Inr \<lparr>resp_status = 201, resp_headers = [(''Cache-Control'', ''no-store'')],
      resp_body = JObj [(''request_uri'', JStr (par_request_uri ''a-u0'')), (''expires_in'', JInt 60)]\<rparr>)"
    by (simp add: par_def pp rq a par_store_op_def Let_def u)
  then obtain st1 where p: "par spa_server ?e plain_request push_body push_state = (st1, Inr \<lparr>resp_status = 201, resp_headers = [(''Cache-Control'', ''no-store'')],
      resp_body = JObj [(''request_uri'', JStr (par_request_uri ''a-u0'')), (''expires_in'', JInt 60)]\<rparr>)" by blast
  have t: "env_mono ?e2 < env_mono ?e + 60" by (simp add: sample_env_def)
  have k: "keys_distinct (app_par push_state)" by (simp add: push_state_def fresh_app_def)
  from pushed_request_serves_its_client_once [OF p _ k t, of "par_request_uri ''a-u0''" ?rq2] pp a rq
  obtain st2 merged where "resolve_pushed ?e2 ?rq2 st1 = (st2, Inr merged)" "map_of (app_par st2) (par_request_uri ''a-u0'') = None"
      "map_of merged ''scope'' = Some ''read''"
    by (auto simp: mk_client_def push_params_def PAR_MERGE_KEYS_def)
  then show ?thesis using p by auto
qed

end
