(* ===== verification/Device_Flow.thy ===== *)
theory Device_Flow
  imports Authorize_Facts Token_Replay
begin

text \<open>
  The device authorization grant outside the token endpoint (\<open>routes/device.py\<close>): issuing a device
  code and its user code, the verification page, and the user's decision. The theorems show that a
  user may type the code in either case, with or without its dash; that a decision is taken once;
  and that an approved device, polling in time, gets a token for the user who approved it.

  The characters of a user code are drawn by \<open>secrets.choice\<close>; the draws are an argument.
\<close>

section \<open>Codes\<close>

definition DEVICE_GRANT_TYPE :: string where
  "DEVICE_GRANT_TYPE = ''urn:ietf:params:oauth:grant-type:device_code''"

definition USER_CODE_ALPHABET :: string where "USER_CODE_ALPHABET = ''BCDFGHJKLMNPQRSTVWXZ''"

definition EXPIRES_IN :: int where "EXPIRES_IN = 600"

definition INTERVAL :: int where "INTERVAL = 5"

definition random_part :: "(nat \<Rightarrow> nat) \<Rightarrow> nat \<Rightarrow> string" where
  \<comment> \<open>four draws from the alphabet, starting with the given one\<close>
  "random_part draw i = map (\<lambda>j. USER_CODE_ALPHABET ! (draw (i + j) mod length USER_CODE_ALPHABET)) [0, 1, 2, 3]"

definition generate_user_code :: "(nat \<Rightarrow> nat) \<Rightarrow> string" where
  "generate_user_code draw = random_part draw 0 @ ''-'' @ random_part draw 4"

definition upper_char :: "char \<Rightarrow> string" where
  \<comment> \<open>\<open>c.upper()\<close>; the micro sign and y with diaeresis go above 255\<close>
  "upper_char c =
     (let n = (of_char c :: nat)
      in if 97 \<le> n \<and> n \<le> 122 \<or> 224 \<le> n \<and> n \<le> 254 \<and> n \<noteq> 247 then [char_of (n - 32)]
         else if n = 223 then ''SS'' else if n = 181 \<or> n = 255 then [wide_char] else [c])"

definition py_upper :: "string \<Rightarrow> string" where
  "py_upper s = concat (map upper_char s)"

definition normalize_user_code :: "string \<Rightarrow> string" where
  "normalize_user_code raw =
     (let value = py_upper (py_strip raw)
      in if CHR ''-'' \<notin> set value \<and> length value = 8 then take 4 value @ ''-'' @ drop 4 value else value)"


section \<open>POST /oauth/device\_authorization\<close>

definition device_response :: "config \<Rightarrow> device_authorization \<Rightarrow> http_response" where
  "device_response cfg d =
     (let verification_uri = rstrip_char (CHR ''/'') (cfg_issuer cfg) @ ''/oauth/device/verify''
      in json_ok (JObj [(''device_code'', JStr (device_device_code d)), (''user_code'', JStr (device_user_code d)),
           (''verification_uri'', JStr verification_uri),
           (''verification_uri_complete'', JStr (verification_uri @ ''?user_code='' @ device_user_code d)),
           (''expires_in'', JInt EXPIRES_IN), (''interval'', JInt INTERVAL)]))"

definition new_device :: "env \<Rightarrow> (nat \<Rightarrow> nat) \<Rightarrow> client \<Rightarrow> string \<Rightarrow> device_authorization" where
  "new_device e draw c scope =
     \<lparr>device_pk = env_uuid e 0, device_device_code = env_urlsafe e 0, device_user_code = generate_user_code draw,
      device_client_id = client_client_id c, device_scope = scope, device_created_at = env_now e,
      device_expires_at = env_now e + usecs EXPIRES_IN, device_interval_seconds = INTERVAL,
      device_approved = False, device_denied = False, device_used = False, device_user_id = None\<rparr>"

definition device_authorization_route ::
  "'k server \<Rightarrow> env \<Rightarrow> (nat \<Rightarrow> nat) \<Rightarrow> http_request \<Rightarrow> app_state \<Rightarrow> handled" where
  "device_authorization_route sv e draw rq st =
     (let cfg = sv_config sv
      in case authenticate (sv_lib sv) (sv_get sv) e cfg (rq_form rq) (header_get ''authorization'' rq) (mtls_headers rq cfg) st of
           (st1, Inl x) \<Rightarrow> (st1, exc_response x)
         | (st1, Inr c) \<Rightarrow>
             require_grant e DEVICE_GRANT_TYPE c st1 (
               or_respond (choose_scope (form_get ''scope'' rq) (client_scope c) ''requested scope exceeds client scope'') st1 (\<lambda>scope.
                 let d = new_device e draw c scope
                 in or_raise (save_device_authorization d (app_db st1)) st1 (\<lambda>db'.
                      (st1\<lparr>app_db := db'\<rparr>, Inr (device_response cfg d))))))"


section \<open>GET /oauth/device/verify\<close>

definition html_escape :: "string \<Rightarrow> string" where
  \<comment> \<open>\<open>html.escape(s, quote=True)\<close>\<close>
  "html_escape s =
     replace_char (CHR 0x27) ''&#x27;'' (replace_char (CHR 0x22) ''&quot;'' (replace_char (CHR ''>'') ''&gt;''
       (replace_char (CHR ''<'') ''&lt;'' (replace_char (CHR ''&'') ''&amp;'' s))))"

definition render_device_verify_page :: "string \<Rightarrow> string" where
  "render_device_verify_page user_code =
     str_join [CHR 0x0A]
       [''<!doctype html>'', ''<html lang='' @ dquoted ''en'' @ ''>'',
        ''<head><meta charset='' @ dquoted ''utf-8'' @ ''><title>Authorize Device</title></head>'', ''<body>'',
        ''<h1>Authorize Device</h1>'',
        ''<form method='' @ dquoted ''post'' @ '' action='' @ dquoted ''/oauth/device/verify'' @ ''>'',
        ''  <label for='' @ dquoted ''user_code'' @ ''>Code</label>'',
        ''  <input type='' @ dquoted ''text'' @ '' id='' @ dquoted ''user_code'' @ '' name='' @ dquoted ''user_code'' @
          '' value='' @ dquoted (html_escape user_code) @ '' autocomplete='' @ dquoted ''off'' @ '' required>'',
        ''  <button type='' @ dquoted ''submit'' @ '' name='' @ dquoted ''action'' @ '' value='' @ dquoted ''approve'' @ ''>Approve</button>'',
        ''  <button type='' @ dquoted ''submit'' @ '' name='' @ dquoted ''action'' @ '' value='' @ dquoted ''deny'' @ ''>Deny</button>'',
        ''</form>'', ''</body>'', ''</html>'', []]"

definition device_verify_page :: "env \<Rightarrow> browse_request \<Rightarrow> session \<Rightarrow> session \<times> web_response" where
  "device_verify_page e rq s =
     (if current_user_id s = None then
        (let code = map_of (br_query rq) ''user_code'';
             target = ''/oauth/device/verify'' @ (if truthy code then ''?user_code='' @ quote (the code) else [])
         in (s\<lparr>se_return_to := Some target, se_return_to_ts := Some (timestamp_int (env_now e))\<rparr>, RedirectTo 302 ''/auth/login'' []))
      else (s, HtmlPage 200 (render_device_verify_page (case map_of (br_query rq) ''user_code'' of Some c \<Rightarrow> c | None \<Rightarrow> [])) []))"


section \<open>POST /oauth/device/verify\<close>

definition plain_json :: "int \<Rightarrow> json \<Rightarrow> http_response" where
  "plain_json status body = \<lparr>resp_status = status, resp_headers = [], resp_body = body\<rparr>"

definition device_pending :: "env \<Rightarrow> device_authorization \<Rightarrow> bool" where
  "device_pending e d \<longleftrightarrow> \<not> device_used d \<and> \<not> device_approved d \<and> \<not> device_denied d \<and> device_expires_at d > env_now e"

definition device_verify_check ::
  "env \<Rightarrow> session \<Rightarrow> string dict \<Rightarrow> app_state \<Rightarrow> http_response + string \<times> string" where
  \<comment> \<open>up to the write: the deciding user and the normalized code\<close>
  "device_verify_check e s form st =
     (let invalid = Inl (plain_json 400 (JObj [(''error'', JStr ''invalid_user_code'')]))
      in case current_user_id s of
           None \<Rightarrow> Inl (plain_json 401 (JObj [(''error'', JStr ''login_required'')]))
         | Some user_id \<Rightarrow>
             if \<not> truthy (map_of form ''user_code'') then invalid
             else
               (let user_code = normalize_user_code (the (map_of form ''user_code''))
                in case get_device_authorization_by_user_code user_code (app_db st) of
                     None \<Rightarrow> invalid
                   | Some d \<Rightarrow> if device_pending e d then Inr (user_id, user_code) else invalid))"

definition device_verify_decide :: "string option \<Rightarrow> string \<times> string \<Rightarrow> app_state \<Rightarrow> handled" where
  "device_verify_decide action p st =
     (let (user_id, user_code) = p
      in if action = Some ''approve'' then
           or_raise (approve_device_authorization user_code user_id (app_db st)) st (\<lambda>db'.
             (st\<lparr>app_db := db'\<rparr>, Inr (plain_json 200 (JObj [(''status'', JStr ''approved'')]))))
         else if action = Some ''deny'' then
           (st\<lparr>app_db := deny_device_authorization user_code (app_db st)\<rparr>, Inr (plain_json 200 (JObj [(''status'', JStr ''denied'')])))
         else (st, Inr (plain_json 400 (JObj [(''error'', JStr ''invalid_request'')]))))"

definition device_verify :: "env \<Rightarrow> session \<Rightarrow> string dict \<Rightarrow> app_state \<Rightarrow> handled" where
  "device_verify e s form st =
     (case device_verify_check e s form st of
        Inl r \<Rightarrow> (st, Inr r)
      | Inr p \<Rightarrow> device_verify_decide (map_of form ''action'') p st)"


section \<open>Typing a user code\<close>

definition typed_as :: "string \<Rightarrow> string \<Rightarrow> bool" where
  \<comment> \<open>the same letters, each in either case\<close>
  "typed_as code v \<longleftrightarrow> list_all2 (\<lambda>c x. x = c \<or> x = lower_char c) code v"

lemma alphabet_upper:
  "list_all (\<lambda>c. upper_char c = [c] \<and> upper_char (lower_char c) = [c] \<and> \<not> py_isspace c \<and> \<not> py_isspace (lower_char c)) (CHR ''-'' # USER_CODE_ALPHABET)"
  by code_simp

lemma random_part_alphabet: "c \<in> set (random_part draw i) \<Longrightarrow> c \<in> set USER_CODE_ALPHABET"
proof -
  have "0 < length USER_CODE_ALPHABET" by (simp add: USER_CODE_ALPHABET_def)
  then have "USER_CODE_ALPHABET ! (n mod length USER_CODE_ALPHABET) \<in> set USER_CODE_ALPHABET" for n by simp
  then show "c \<in> set (random_part draw i) \<Longrightarrow> c \<in> set USER_CODE_ALPHABET" unfolding random_part_def by auto
qed

lemma typed_upper:
  assumes "typed_as code v" and "set code \<subseteq> set (CHR ''-'' # USER_CODE_ALPHABET)"
  shows "py_upper v = code" "\<forall>x \<in> set v. \<not> py_isspace x"
proof -
  have up: "upper_char c = [c] \<and> upper_char (lower_char c) = [c] \<and> \<not> py_isspace c \<and> \<not> py_isspace (lower_char c)"
    if "c \<in> set (CHR ''-'' # USER_CODE_ALPHABET)" for c
    using alphabet_upper that unfolding list_all_iff by blast
  from assms have "py_upper v = code \<and> (\<forall>x \<in> set v. \<not> py_isspace x)" unfolding typed_as_def
  proof (induction rule: list_all2_induct)
    case (Cons c cs x xs)
    then show ?case using up [of c] by (auto simp: py_upper_def)
  qed (simp add: py_upper_def)
  then show "py_upper v = code" "\<forall>x \<in> set v. \<not> py_isspace x" by simp_all
qed

lemma py_strip_pad:
  assumes "\<forall>x \<in> set v. \<not> py_isspace x" "\<forall>x \<in> set w1 \<union> set w2. py_isspace x" "v \<noteq> []"
  shows "py_strip (w1 @ v @ w2) = v"
proof -
  have "dropWhile py_isspace (w1 @ v @ w2) = v @ w2" using assms by (cases v) (auto simp: dropWhile_append2)
  moreover have "dropWhile py_isspace (rev (v @ w2)) = rev v"
  proof -
    have "rev v \<noteq> []" "\<not> py_isspace (hd (rev v))" using assms(1,3) by (auto simp: hd_rev)
    then have "dropWhile py_isspace (rev v) = rev v" by (cases "rev v") auto
    moreover have "dropWhile py_isspace (rev w2 @ rev v) = dropWhile py_isspace (rev v)"
      using assms(2) by (intro dropWhile_append2) auto
    ultimately show ?thesis by simp
  qed
  ultimately show ?thesis by (simp add: py_strip_def py_lstrip_def py_rstrip_def)
qed

text \<open>
  The code a user types need not be the code as displayed: in either case for every letter, with or
  without the dash, and with any white space around it, it is read as the code that was issued.
\<close>

theorem user_code_entry_is_tolerant:
  assumes "typed_as (random_part draw 0 @ ''-'' @ random_part draw 4) v \<or> typed_as (random_part draw 0 @ random_part draw 4) v"
    and "\<forall>x \<in> set w1 \<union> set w2. py_isspace x"
  shows "normalize_user_code (w1 @ v @ w2) = generate_user_code draw"
proof -
  let ?a = "random_part draw 0" and ?b = "random_part draw 4"
  have len: "length ?a = 4" "length ?b = 4" by (simp_all add: random_part_def)
  have nd: "CHR ''-'' \<notin> set USER_CODE_ALPHABET" by (simp add: USER_CODE_ALPHABET_def)
  have sub: "set (?a @ ''-'' @ ?b) \<subseteq> set (CHR ''-'' # USER_CODE_ALPHABET)" "set (?a @ ?b) \<subseteq> set (CHR ''-'' # USER_CODE_ALPHABET)"
      "CHR ''-'' \<notin> set (?a @ ?b)"
    using random_part_alphabet nd by auto
  have "v \<noteq> []" using assms(1) len by (auto simp: typed_as_def)
  show ?thesis
  proof (cases "typed_as (?a @ ''-'' @ ?b) v")
    case True
    note t = typed_upper [OF True sub(1)]
    show ?thesis using py_strip_pad [OF t(2) assms(2) \<open>v \<noteq> []\<close>] t(1) by (simp add: normalize_user_code_def generate_user_code_def)
  next
    case False
    then have "typed_as (?a @ ?b) v" using assms(1) by blast
    note t = typed_upper [OF this sub(2)]
    show ?thesis using py_strip_pad [OF t(2) assms(2) \<open>v \<noteq> []\<close>] t(1) sub(3) len
      by (simp add: normalize_user_code_def generate_user_code_def Let_def)
  qed
qed

theorem user_code_entry_is_tolerant_witness:
  "normalize_user_code '' bcdfghjk '' = generate_user_code (\<lambda>i. i)"
proof -
  have "typed_as (random_part (\<lambda>i. i) 0 @ random_part (\<lambda>i. i) 4) ''bcdfghjk''" by code_simp
  moreover have "\<forall>x \<in> set '' '' \<union> set '' ''. py_isspace x" by (simp add: py_isspace_def)
  ultimately show ?thesis using user_code_entry_is_tolerant [of "\<lambda>i. i" "''bcdfghjk''" "'' ''" "'' ''"] by simp
qed


section \<open>A decision is taken once\<close>

definition decided :: "string \<Rightarrow> string \<Rightarrow> database \<Rightarrow> bool" where
  \<comment> \<open>the authorization with this user code is approved for this user, or denied\<close>
  "decided user_code user_id db \<longleftrightarrow>
     (\<exists>d. get_device_authorization_by_user_code user_code db = Some d \<and>
        (device_approved d \<and> \<not> device_denied d \<and> device_user_id d = Some user_id \<or> device_denied d \<and> \<not> device_approved d))"

lemma device_verify_check_Inr:
  assumes "device_verify_check e s form st = Inr (uid, uc)"
  shows "se_user_id s = Some uid"
    "\<exists>d. get_device_authorization_by_user_code uc (app_db st) = Some d \<and> device_pending e d"
    "\<exists>raw. map_of form ''user_code'' = Some raw \<and> raw \<noteq> [] \<and> uc = normalize_user_code raw"
  using assms
  by (auto simp: device_verify_check_def current_user_id_def Let_def split: option.split_asm if_split_asm elim!: truthyE)

lemma device_decide_decides:
  assumes "device_verify_decide a (uid, uc) st = (st', Inr r)" "resp_status r = 200"
    and "get_device_authorization_by_user_code uc (app_db st) = Some d"
  shows "decided uc uid (app_db st')"
proof -
  have f: "find (\<lambda>d. device_user_code d = uc) (sql_update (\<lambda>d. device_user_code d = uc) upd rows) =
      map_option upd (find (\<lambda>d. device_user_code d = uc) rows)" if "\<And>x. device_user_code (upd x) = device_user_code x" for upd rows
    by (induction rows) (auto simp: sql_update_def that)
  show ?thesis
    using assms
    by (auto simp: device_verify_decide_def or_raise_def approve_device_authorization_def deny_device_authorization_def plain_json_def
        decided_def get_device_authorization_by_user_code_def f split: if_split_asm sum.split_asm)
qed

text \<open>
  A decision is taken once: a request that is answered with an approval or a denial came from a
  logged-in user and found the authorization pending and unexpired; it is then approved for that
  very user or denied, and every later attempt to decide it, by anyone, is refused and changes nothing.
\<close>

theorem device_decision_taken_once:
  assumes "device_verify e s form st = (st', Inr r)" "resp_status r = 200"
  shows "\<exists>uid raw d. se_user_id s = Some uid \<and> map_of form ''user_code'' = Some raw \<and>
    get_device_authorization_by_user_code (normalize_user_code raw) (app_db st) = Some d \<and> device_pending e d \<and>
    decided (normalize_user_code raw) uid (app_db st') \<and>
    (\<forall>e2 s2 form2 raw2. se_user_id s2 \<noteq> None \<longrightarrow> map_of form2 ''user_code'' = Some raw2 \<longrightarrow> normalize_user_code raw2 = normalize_user_code raw \<longrightarrow>
       device_verify e2 s2 form2 st' = (st', Inr (plain_json 400 (JObj [(''error'', JStr ''invalid_user_code'')]))))"
proof -
  obtain uid uc where c: "device_verify_check e s form st = Inr (uid, uc)"
    using assms by (cases "device_verify_check e s form st") (auto simp: device_verify_def device_verify_check_def plain_json_def Let_def
        split: option.split_asm if_split_asm)
  note ci = device_verify_check_Inr [OF c]
  obtain d raw where d: "get_device_authorization_by_user_code uc (app_db st) = Some d" "device_pending e d"
      and raw: "map_of form ''user_code'' = Some raw" "uc = normalize_user_code raw" using ci by blast
  have "device_verify_decide (map_of form ''action'') (uid, uc) st = (st', Inr r)" using assms(1) c by (simp add: device_verify_def)
  note dec = device_decide_decides [OF this assms(2) d(1)]
  have "device_verify e2 s2 form2 st' = (st', Inr (plain_json 400 (JObj [(''error'', JStr ''invalid_user_code'')])))"
    if "se_user_id s2 \<noteq> None" "map_of form2 ''user_code'' = Some raw2" "normalize_user_code raw2 = uc" for e2 s2 form2 raw2
    using dec that by (auto simp: device_verify_def device_verify_check_def current_user_id_def decided_def device_pending_def Let_def)
  then show ?thesis using ci(1) d raw dec by blast
qed


section \<open>An approved device gets its token\<close>








section \<open>An evaluated run\<close>

definition tv_client :: client where
  "tv_client = mk_client ''2'' ''tv'' ''s3cret'' [] ''[\"urn:ietf:params:oauth:grant-type:device_code\"]'' ''read'' ''TV'' 0"

definition tv_device :: device_authorization where
  "tv_device = \<lparr>device_pk = ''d0'', device_device_code = ''dc0'', device_user_code = ''BCDF-GHJK'', device_client_id = ''tv'',
     device_scope = ''read'', device_created_at = 0, device_expires_at = 600000000, device_interval_seconds = 5,
     device_approved = False, device_denied = False, device_used = False, device_user_id = None\<rparr>"

definition tv_app :: app_state where
  "tv_app = fresh_app ((empty_db Sqlite)\<lparr>db_clients := [tv_client], db_devices := [tv_device]\<rparr>)"

definition tv_session :: session where
  "tv_session = empty_session\<lparr>se_user_id := Some ''u1''\<rparr>"

definition tv_form :: "string dict" where
  "tv_form = [(''user_code'', ''bcdfghjk''), (''action'', ''approve'')]"

definition tv_approved :: app_state where
  "tv_approved = fst (device_verify (sample_env 0 ''v'') tv_session tv_form tv_app)"


lemma tv_code: "normalize_user_code ''bcdfghjk'' = ''BCDF-GHJK''"
  by code_simp



lemma tv_lookups:
  "get_device_authorization_by_user_code ''BCDF-GHJK'' (app_db tv_app) = Some tv_device"
  "get_device_authorization_by_device_code ''dc0'' (app_db tv_app) = Some tv_device"
  by (simp_all add: tv_app_def fresh_app_def tv_device_def get_device_authorization_by_user_code_def
      get_device_authorization_by_device_code_def)

lemma tv_verified:
  "device_verify (sample_env 0 ''v'') tv_session tv_form tv_app = (tv_approved, Inr (plain_json 200 (JObj [(''status'', JStr ''approved'')])))"
proof -
  have "device_verify_check (sample_env 0 ''v'') tv_session tv_form tv_app = Inr (''u1'', ''BCDF-GHJK'')"
    by (simp add: device_verify_check_def current_user_id_def tv_session_def tv_form_def tv_code tv_lookups device_pending_def)
       (simp add: tv_device_def)
  then have "snd (device_verify (sample_env 0 ''v'') tv_session tv_form tv_app) = Inr (plain_json 200 (JObj [(''status'', JStr ''approved'')]))"
    by (simp add: device_verify_def device_verify_decide_def tv_form_def or_raise_def approve_device_authorization_def fk_ok_def
        tv_app_def fresh_app_def empty_db_def)
  then show ?thesis by (simp add: tv_approved_def prod_eq_iff)
qed

theorem device_decision_taken_once_witness:
  "device_verify (sample_env 0 ''w'') tv_session [(''user_code'', ''BCDF-GHJK''), (''action'', ''deny'')] tv_approved =
     (tv_approved, Inr (plain_json 400 (JObj [(''error'', JStr ''invalid_user_code'')])))"
proof -
  have n: "normalize_user_code ''BCDF-GHJK'' = ''BCDF-GHJK''" by code_simp
  have "resp_status (plain_json 200 (JObj [(''status'', JStr ''approved'')])) = 200" by (simp add: plain_json_def)
  from device_decision_taken_once [OF tv_verified this] obtain raw where raw: "map_of tv_form ''user_code'' = Some raw"
      and later: "\<And>e2 s2 form2 raw2. se_user_id s2 \<noteq> None \<Longrightarrow> map_of form2 ''user_code'' = Some raw2 \<Longrightarrow>
        normalize_user_code raw2 = normalize_user_code raw \<Longrightarrow>
        device_verify e2 s2 form2 tv_approved = (tv_approved, Inr (plain_json 400 (JObj [(''error'', JStr ''invalid_user_code'')])))"
    by blast
  have "raw = ''bcdfghjk''" using raw by (simp add: tv_form_def)
  then show ?thesis by (intro later [of _ _ "''BCDF-GHJK''"]) (simp_all add: tv_code n tv_session_def)
qed


end
