(* ===== verification/Login.thy ===== *)
theory Login
  imports Device_Flow
begin

text \<open>
  Password login (\<open>routes/login.py\<close>): the login page, the two throttles in front of the password
  check, and the session and redirect behind it. The theorems show what a changed session proves
  about its request, how many guesses an address gets, and that a login resumes the request that
  asked for it.

  The password hasher is the parameter \<open>hash_verify\<close>: Argon2 answers that a password matches a stored
  hash, that it does not, or that the hash cannot be read. The page template is an argument, since
  it is a file read at run time.
\<close>

section \<open>The login page\<close>

definition RETURN_TO_MAX_AGE_SECS :: int where "RETURN_TO_MAX_AGE_SECS = 600"

definition SERVER_ERROR_PLACEHOLDER :: string where "SERVER_ERROR_PLACEHOLDER = ''<!--SERVER_ERROR-->''"

definition ERROR_MESSAGES :: "string dict" where
  "ERROR_MESSAGES =
     [(''invalid_credentials'', ''Invalid username or password. Please try again.''),
      (''login_required'', ''Please log in to continue.''),
      (''too_many_attempts'', ''Too many login attempts. Please wait a few minutes and try again.'')]"

definition GENERIC_ERROR_MESSAGE :: string where "GENERIC_ERROR_MESSAGE = ''An error occurred. Please try again.''"

function str_replace :: "string \<Rightarrow> string \<Rightarrow> string \<Rightarrow> string" where
  \<comment> \<open>\<open>s.replace(old, new)\<close> for a non-empty \<open>old\<close>\<close>
  "str_replace old new s =
     (case s of
        [] \<Rightarrow> []
      | c # cs \<Rightarrow>
          if old \<noteq> [] \<and> starts_with old s then new @ str_replace old new (drop (length old) s)
          else c # str_replace old new cs)"
  by pat_completeness auto
termination by (relation "measure (\<lambda>(old, new, s). length s)") auto

declare str_replace.simps [simp del]

definition render_login_page :: "string \<Rightarrow> string option \<Rightarrow> string" where
  "render_login_page template error =
     (case error of
        None \<Rightarrow> str_replace SERVER_ERROR_PLACEHOLDER [] template
      | Some key \<Rightarrow>
          (let message = (case map_of ERROR_MESSAGES key of Some m \<Rightarrow> m | None \<Rightarrow> GENERIC_ERROR_MESSAGE)
           in str_replace SERVER_ERROR_PLACEHOLDER (''<div class='' @ dquoted ''error'' @ ''>'' @ html_escape message @ ''</div>'') template))"

definition login_page :: "string \<Rightarrow> browse_request \<Rightarrow> web_response" where
  "login_page template rq = HtmlPage 200 (render_login_page template (map_of (br_query rq) ''error'')) []"


section \<open>POST /auth/login\<close>

datatype verify_answer = PasswordMatches | PasswordMismatch | VerifyRaises string

type_synonym hash_verify = "string \<Rightarrow> string \<Rightarrow> verify_answer"

definition verify_password :: "hash_verify \<Rightarrow> string \<Rightarrow> string \<Rightarrow> bool outcome" where
  \<comment> \<open>only the mismatch is caught\<close>
  "verify_password verify password phc_hash =
     (case verify phc_hash password of
        PasswordMatches \<Rightarrow> Inr True
      | PasswordMismatch \<Rightarrow> Inr False
      | VerifyRaises x \<Rightarrow> Inl (PyError x))"

definition default_acr :: "config \<Rightarrow> string option" where
  "default_acr cfg = (case cfg_acr_values_supported cfg of [] \<Rightarrow> None | a # _ \<Rightarrow> Some a)"

definition login_ip_key :: "string option \<Rightarrow> string" where
  "login_ip_key host = ''login:ip:'' @ (case host of Some h \<Rightarrow> h | None \<Rightarrow> ''unknown'')"

definition login_user_key :: "string \<Rightarrow> string" where
  "login_user_key username = ''login:user:'' @ username"

definition throttle :: "env \<Rightarrow> string option \<Rightarrow> string \<Rightarrow> fixed_window_limiter \<Rightarrow> fixed_window_limiter \<times> int option" where
  \<comment> \<open>the address first; the user name is only counted when the address passes\<close>
  "throttle e host username l =
     (case fw_check (env_mono e) (login_ip_key host) l of
        (l1, Some retry) \<Rightarrow> (l1, Some retry)
      | (l1, None) \<Rightarrow> fw_check (env_mono e) (login_user_key username) l1)"

definition login_denylisted :: "env \<Rightarrow> string \<Rightarrow> user \<Rightarrow> database \<Rightarrow> bool" where
  "login_denylisted e username u db \<longleftrightarrow>
     check_subject_denylisted (env_now e) ''username'' username db \<noteq> None \<or>
     check_subject_denylisted (env_now e) ''email'' (user_email u) db \<noteq> None"

definition login_user :: "hash_verify \<Rightarrow> env \<Rightarrow> string \<Rightarrow> string \<Rightarrow> database \<Rightarrow> user option outcome" where
  \<comment> \<open>the user these credentials log in, if any\<close>
  "login_user verify e username password db =
     (case get_user_by_username username db of
        None \<Rightarrow> Inr None
      | Some u \<Rightarrow>
          if \<not> user_enabled u then Inr None
          else bind_res (verify_password verify password (user_password_hash u)) (\<lambda>ok.
            if \<not> ok \<or> login_denylisted e username u db then Inr None else Inr (Some u)))"

definition login_target :: "env \<Rightarrow> session \<Rightarrow> string" where
  "login_target e s =
     (let fresh = (case se_return_to_ts s of None \<Rightarrow> False | Some ts \<Rightarrow> env_time e - of_int ts \<le> of_int RETURN_TO_MAX_AGE_SECS)
      in if fresh \<and> is_safe_redirect (se_return_to s) then the (se_return_to s) else ''/'')"

definition login_failed :: "app_state \<Rightarrow> app_state" where
  "login_failed st = st\<lparr>app_failed_authentications := app_failed_authentications st + 1\<rparr>"

definition login ::
  "hash_verify \<Rightarrow> config \<Rightarrow> env \<Rightarrow> string option \<Rightarrow> string dict \<Rightarrow> session \<Rightarrow> app_state \<Rightarrow> browsed" where
  "login verify cfg e host form s st =
     (let username = or_str (map_of form ''username'') []; password = or_str (map_of form ''password'') [];
          (l, retry) = throttle e host username (app_login_limiter st);
          st1 = st\<lparr>app_login_limiter := l\<rparr>
      in case retry of
           Some secs \<Rightarrow>
             (login_failed st1, s, Inr (RedirectTo 303 ''/auth/login?error=too_many_attempts'' [(''Retry-After'', str_int secs)]))
         | None \<Rightarrow>
             (case login_user verify e username password (app_db st1) of
                Inl x \<Rightarrow> (st1, s, Inl x)
              | Inr None \<Rightarrow> (login_failed st1, s, Inr (RedirectTo 303 ''/auth/login?error=invalid_credentials'' []))
              | Inr (Some u) \<Rightarrow>
                  (st1\<lparr>app_login_limiter := fw_reset (login_user_key username) l\<rparr>,
                   set_login e u (default_acr cfg) (Some [''pwd'']) s,
                   Inr (RedirectTo 303 (login_target e s) []))))"


section \<open>What a login proves\<close>

lemma login_user_Some:
  "login_user verify e username password db = Inr (Some u) \<longleftrightarrow>
     get_user_by_username username db = Some u \<and> user_enabled u \<and> verify (user_password_hash u) password = PasswordMatches \<and>
     \<not> login_denylisted e username u db"
  by (auto simp: login_user_def verify_password_def bind_res_Inr_iff split: option.split_asm if_split_asm verify_answer.split_asm)

definition local_path :: "string \<Rightarrow> bool" where
  \<comment> \<open>a path of this server: one slash after any white space, and no backslash a browser could read as a second\<close>
  "local_path url \<longleftrightarrow> (let u = dropWhile py_isspace url in starts_with ''/'' u \<and> \<not> starts_with ''//'' u \<and> CHR 0x5C \<notin> set u)"

lemma is_safe_redirect_local:
  assumes "is_safe_redirect (Some v)"
  shows "local_path v"
proof -
  let ?u = "dropWhile py_isspace v"
  have p: "py_strip v = rev (dropWhile py_isspace (rev ?u))" by (simp add: py_strip_def py_lstrip_def py_rstrip_def)
  obtain x where x: "?u = py_strip v @ x" "\<forall>c \<in> set x. py_isspace c"
  proof
    show "?u = py_strip v @ rev (takeWhile py_isspace (rev ?u))"
      unfolding p by (metis rev_append rev_rev_ident takeWhile_dropWhile_id)
    show "\<forall>c \<in> set (rev (takeWhile py_isspace (rev ?u))). py_isspace c" by (auto dest: set_takeWhileD)
  qed
  have s: "starts_with ''/'' (py_strip v)" "\<not> starts_with ''//'' (py_strip v)" "CHR 0x5C \<notin> set (py_strip v)"
    using assms by (auto simp: is_safe_redirect_def Let_def)
  then obtain r where r: "py_strip v = CHR ''/'' # r" by (cases "py_strip v") (auto simp: starts_with_iff)
  have "\<not> starts_with ''//'' ?u" using s(2) x r by (cases r) (auto simp: starts_with_iff py_isspace_def Cons_eq_append_conv)
  moreover have "CHR 0x5C \<notin> set ?u" using s(3) x by (auto simp: py_isspace_def)
  moreover have "starts_with ''/'' ?u" using x r by (auto simp: starts_with_iff)
  ultimately show ?thesis by (simp add: local_path_def)
qed

text \<open>
  C7. A session changes only at the hands of someone who knows the password: whenever a login request
  changes the session, the named user exists, is enabled and not denylisted, the hasher accepts the
  password for the stored hash, neither the address nor the user name is throttled, and the new session
  is that user's alone. The browser is then sent to a path on this server: the one remembered at
  most ten minutes ago, or the root.
\<close>

theorem login_needs_the_password:
  assumes "login verify cfg e host form s st = (st', s', r)" and "s' \<noteq> s"
  shows "\<exists>u url. let username = or_str (map_of form ''username'') [] in
    get_user_by_username username (app_db st) = Some u \<and> user_enabled u \<and>
    verify (user_password_hash u) (or_str (map_of form ''password'') []) = PasswordMatches \<and> \<not> login_denylisted e username u (app_db st) \<and>
    snd (throttle e host username (app_login_limiter st)) = None \<and>
    s' = set_login e u (default_acr cfg) (Some [''pwd'']) s \<and> app_db st' = app_db st \<and> r = Inr (RedirectTo 303 url []) \<and>
    local_path url \<and> (url = ''/'' \<or> se_return_to s = Some url \<and> (\<exists>ts. se_return_to_ts s = Some ts \<and> env_time e \<le> of_int ts + 600))"
proof -
  let ?n = "or_str (map_of form ''username'') []" and ?p = "or_str (map_of form ''password'') []"
  obtain l retry where t: "throttle e host ?n (app_login_limiter st) = (l, retry)" by fastforce
  have rn: "retry = None" using assms t by (auto simp: login_def Let_def split: option.split_asm)
  obtain u where u: "login_user verify e ?n ?p (app_db st) = Inr (Some u)"
    using assms t rn by (auto simp: login_def Let_def split: sum.split_asm option.split_asm)
  have res: "st' = st\<lparr>app_login_limiter := fw_reset (login_user_key ?n) l\<rparr>" "s' = set_login e u (default_acr cfg) (Some [''pwd'']) s"
      "r = Inr (RedirectTo 303 (login_target e s) [])"
    using assms t rn u by (simp_all add: login_def)
  have "local_path (login_target e s) \<and> (login_target e s = ''/'' \<or> se_return_to s = Some (login_target e s) \<and>
       (\<exists>ts. se_return_to_ts s = Some ts \<and> env_time e \<le> of_int ts + 600))"
  proof (cases "\<exists>v ts. se_return_to s = Some v \<and> is_safe_redirect (Some v) \<and> se_return_to_ts s = Some ts \<and> env_time e - of_int ts \<le> 600")
    case True
    then show ?thesis using is_safe_redirect_local by (auto simp: login_target_def RETURN_TO_MAX_AGE_SECS_def)
  next
    case False
    then have "login_target e s = ''/''"
      by (cases "se_return_to s") (auto simp: login_target_def RETURN_TO_MAX_AGE_SECS_def is_safe_redirect_def split: option.split)
    then show ?thesis by (simp add: local_path_def py_isspace_def starts_with_iff Let_def)
  qed
  then show ?thesis using u res rn t unfolding login_user_Some Let_def by (intro exI [of _ u] exI [of _ "login_target e s"]) simp
qed


section \<open>How often a password is checked\<close>

type_synonym login_request = "env \<times> string option \<times> string dict \<times> session"

definition login_call :: "hash_verify \<Rightarrow> config \<Rightarrow> login_request \<Rightarrow> app_state \<Rightarrow> app_state" where
  "login_call verify cfg q st = (let (e, host, form, s) = q in fst (login verify cfg e host form s st))"

definition password_checked :: "string \<Rightarrow> login_request \<Rightarrow> app_state \<Rightarrow> bool" where
  \<comment> \<open>a request under this address key that gets past the throttles\<close>
  "password_checked key q st =
     (let (e, host, form, s) = q
      in login_ip_key host = key \<and> snd (throttle e host (or_str (map_of form ''username'') []) (app_login_limiter st)) = None)"

fun password_checks :: "hash_verify \<Rightarrow> config \<Rightarrow> string \<Rightarrow> login_request list \<Rightarrow> app_state \<Rightarrow> int" where
  "password_checks verify cfg key [] st = 0"
| "password_checks verify cfg key (q # qs) st =
     (if password_checked key q st then 1 else 0) + password_checks verify cfg key qs (login_call verify cfg q st)"

lemma login_keys_differ: "login_user_key n \<noteq> login_ip_key h"
  by (simp add: login_user_key_def login_ip_key_def)

lemma fw_reset_frame:
  "max_attempts (fw_reset k l) = max_attempts l" "window_secs (fw_reset k l) = window_secs l"
  "key \<noteq> k \<Longrightarrow> fw_quota t0 now key (fw_reset k l) = fw_quota t0 now key l"
  by (simp_all add: fw_reset_def fw_quota_def fw_window_def map_of_delete cong: option.case_cong if_cong)

lemma fw_reset_inv: "fw_inv t l \<Longrightarrow> fw_inv t (fw_reset k l)"
  by (auto simp: fw_inv_def fw_reset_def map_of_delete split: if_split_asm)

lemma throttle_cases:
  obtains l1 r1 l2 r2 where "fw_check (env_mono e) (login_ip_key host) l = (l1, r1)" "fw_check (env_mono e) (login_user_key n) l1 = (l2, r2)"
    "throttle e host n l = (case r1 of None \<Rightarrow> (l2, r2) | Some r \<Rightarrow> (l1, r1))"
proof -
  obtain l1 r1 where 1: "fw_check (env_mono e) (login_ip_key host) l = (l1, r1)" by fastforce
  obtain l2 r2 where 2: "fw_check (env_mono e) (login_user_key n) l1 = (l2, r2)" by fastforce
  have "throttle e host n l = (case r1 of None \<Rightarrow> (l2, r2) | Some r \<Rightarrow> (l1, r1))" using 1 2 by (cases r1) (simp_all add: throttle_def)
  then show thesis using that 1 2 by blast
qed

lemma throttle_inv:
  assumes "fw_inv t l" "t \<le> env_mono e" "throttle e host n l = (l', r)"
  shows "fw_inv (env_mono e) l' \<and> max_attempts l' = max_attempts l \<and> window_secs l' = window_secs l"
proof -
  obtain l1 r1 l2 r2 where c: "fw_check (env_mono e) (login_ip_key host) l = (l1, r1)" "fw_check (env_mono e) (login_user_key n) l1 = (l2, r2)"
      "throttle e host n l = (case r1 of None \<Rightarrow> (l2, r2) | Some r \<Rightarrow> (l1, r1))" by (rule throttle_cases)
  have i1: "fw_inv (env_mono e) l1" using fw_check_inv [OF assms(1,2), of "login_ip_key host"] c(1) by simp
  have i2: "fw_inv (env_mono e) l2" using fw_check_inv [OF i1, of "env_mono e" "login_user_key n"] c(2) by simp
  show ?thesis
    using i1 i2 c assms(3) fw_check_config [of "env_mono e" "login_ip_key host" l] fw_check_config [of "env_mono e" "login_user_key n" l1]
    by (cases r1) auto
qed

lemma throttle_quota:
  assumes "fw_inv t l" "t \<le> env_mono e" "t0 \<le> env_mono e" "env_mono e < t0 + of_int (window_secs l)" "throttle e host n l = (l', r)"
  shows "(if login_ip_key host = login_ip_key h \<and> r = None then 1 else 0) + fw_quota t0 (env_mono e) (login_ip_key h) l'
    \<le> fw_quota t0 (env_mono e) (login_ip_key h) l"
proof -
  let ?now = "env_mono e" and ?k = "login_ip_key h"
  obtain l1 r1 l2 r2 where c: "fw_check ?now (login_ip_key host) l = (l1, r1)" "fw_check ?now (login_user_key n) l1 = (l2, r2)"
      "throttle e host n l = (case r1 of None \<Rightarrow> (l2, r2) | Some r \<Rightarrow> (l1, r1))" by (rule throttle_cases)
  have i1: "fw_inv ?now l1" "window_secs l1 = window_secs l"
    using fw_check_inv [OF assms(1,2), of "login_ip_key host"] fw_check_config [of ?now "login_ip_key host" l] c(1) by simp_all
  have q1: "(if login_ip_key host = ?k \<and> r1 = None then 1 else 0) + fw_quota t0 ?now ?k l1 \<le> fw_quota t0 ?now ?k l"
    using fw_check_quota [OF assms(1-4), of "login_ip_key host" ?k] c(1) by simp
  have q2: "fw_quota t0 ?now ?k l2 \<le> fw_quota t0 ?now ?k l1"
    using fw_check_quota [OF i1(1) _ assms(3), of "login_user_key n" ?k] c(2) i1(2) assms(4) login_keys_differ by simp
  show ?thesis using q1 q2 c(3) assms(5) by (cases r1) (auto split: if_split_asm)
qed

lemma login_limiter:
  assumes "throttle e host (or_str (map_of form ''username'') []) (app_login_limiter st) = (l, r)"
  shows "\<exists>k. app_login_limiter (fst (login verify cfg e host form s st)) \<in> {l, fw_reset (login_user_key k) l}"
proof (intro exI [of _ "or_str (map_of form ''username'') []"], cases r)
  case None
  then show "app_login_limiter (fst (login verify cfg e host form s st)) \<in> {l, fw_reset (login_user_key (or_str (map_of form ''username'') [])) l}"
    using assms by (simp add: login_def login_failed_def Let_def split: option.split sum.split)
qed (use assms in \<open>simp add: login_def login_failed_def Let_def\<close>)

lemma login_call_inv:
  assumes "fw_inv t (app_login_limiter st)" "t \<le> env_mono (fst q)"
  shows "fw_inv (env_mono (fst q)) (app_login_limiter (login_call verify cfg q st)) \<and>
    max_attempts (app_login_limiter (login_call verify cfg q st)) = max_attempts (app_login_limiter st) \<and>
    window_secs (app_login_limiter (login_call verify cfg q st)) = window_secs (app_login_limiter st)"
proof -
  obtain e host form s where q: "q = (e, host, form, s)" by (metis prod_cases4)
  obtain l r where th: "throttle e host (or_str (map_of form ''username'') []) (app_login_limiter st) = (l, r)" by fastforce
  have "fw_inv (env_mono e) l \<and> max_attempts l = max_attempts (app_login_limiter st) \<and> window_secs l = window_secs (app_login_limiter st)"
    using throttle_inv [OF assms(1) _ th] assms(2) q by simp
  moreover obtain k where "app_login_limiter (login_call verify cfg q st) \<in> {l, fw_reset (login_user_key k) l}"
    using login_limiter [OF th, of verify cfg s] by (auto simp: login_call_def q)
  ultimately show ?thesis using fw_reset_inv by (auto simp: q fw_reset_frame)
qed

lemma login_call_quota:
  assumes "fw_inv t (app_login_limiter st)" "t \<le> env_mono (fst q)" "t0 \<le> env_mono (fst q)"
    and "env_mono (fst q) < t0 + of_int (window_secs (app_login_limiter st))"
  shows "(if password_checked (login_ip_key h) q st then 1 else 0)
      + fw_quota t0 (env_mono (fst q)) (login_ip_key h) (app_login_limiter (login_call verify cfg q st))
      \<le> fw_quota t0 (env_mono (fst q)) (login_ip_key h) (app_login_limiter st)"
proof -
  obtain e host form s where q: "q = (e, host, form, s)" by (metis prod_cases4)
  obtain l r where th: "throttle e host (or_str (map_of form ''username'') []) (app_login_limiter st) = (l, r)" by fastforce
  obtain k where "app_login_limiter (login_call verify cfg q st) \<in> {l, fw_reset (login_user_key k) l}"
    using login_limiter [OF th, of verify cfg s] by (auto simp: login_call_def q)
  then have "fw_quota t0 (env_mono e) (login_ip_key h) (app_login_limiter (login_call verify cfg q st)) = fw_quota t0 (env_mono e) (login_ip_key h) l"
    using fw_reset_frame(3) [OF login_keys_differ [symmetric]] by auto
  moreover have "(if login_ip_key host = login_ip_key h \<and> r = None then 1 else 0) + fw_quota t0 (env_mono e) (login_ip_key h) l
      \<le> fw_quota t0 (env_mono e) (login_ip_key h) (app_login_limiter st)"
    by (rule throttle_quota [OF assms(1) _ _ _ th]) (use assms q in simp_all)
  ultimately show ?thesis by (simp add: q password_checked_def th)
qed

lemma password_checks_quota:
  "fw_inv t (app_login_limiter st) \<Longrightarrow> t \<le> now \<Longrightarrow> t0 \<le> now \<Longrightarrow> nondecreasing now (map (env_mono \<circ> fst) qs) \<Longrightarrow>
   \<forall>q \<in> set qs. env_mono (fst q) < t0 + of_int (window_secs (app_login_limiter st)) \<Longrightarrow>
   now < t0 + of_int (window_secs (app_login_limiter st)) \<Longrightarrow>
   password_checks verify cfg (login_ip_key h) qs st \<le> fw_quota t0 now (login_ip_key h) (app_login_limiter st)"
proof (induction qs arbitrary: t now st)
  case Nil
  then show ?case using fw_window_inv(3) [of t "app_login_limiter st" now "login_ip_key h"] by (simp add: fw_quota_def Let_def)
next
  case (Cons q qs)
  let ?u = "env_mono (fst q)" and ?st' = "login_call verify cfg q st"
  have u: "t \<le> ?u" "t0 \<le> ?u" "now \<le> ?u" "?u < t0 + of_int (window_secs (app_login_limiter st))" using Cons.prems by auto
  have "password_checks verify cfg (login_ip_key h) qs ?st' \<le> fw_quota t0 ?u (login_ip_key h) (app_login_limiter ?st')"
    using Cons.prems u login_call_inv [OF Cons.prems(1) u(1), of verify cfg] by (intro Cons.IH [where t = ?u]) auto
  moreover have "(if password_checked (login_ip_key h) q st then 1 else 0) + fw_quota t0 ?u (login_ip_key h) (app_login_limiter ?st')
      \<le> fw_quota t0 ?u (login_ip_key h) (app_login_limiter st)"
    using Cons.prems(1) u(1,2,4) by (rule login_call_quota)
  moreover have "fw_quota t0 ?u (login_ip_key h) (app_login_limiter st) \<le> fw_quota t0 now (login_ip_key h) (app_login_limiter st)"
    using Cons.prems u by (intro fw_quota_later [where t = t]) auto
  ultimately show ?case by simp
qed

lemma login_history_inv:
  "fw_inv t (app_login_limiter st) \<Longrightarrow> nondecreasing t (map (env_mono \<circ> fst) qs) \<Longrightarrow>
   fw_inv (last (t # map (env_mono \<circ> fst) qs)) (app_login_limiter (fold (login_call verify cfg) qs st)) \<and>
   max_attempts (app_login_limiter (fold (login_call verify cfg) qs st)) = max_attempts (app_login_limiter st) \<and>
   window_secs (app_login_limiter (fold (login_call verify cfg) qs st)) = window_secs (app_login_limiter st)"
proof (induction qs arbitrary: t st)
  case (Cons q qs)
  have "fw_inv (env_mono (fst q)) (app_login_limiter (login_call verify cfg q st)) \<and>
      max_attempts (app_login_limiter (login_call verify cfg q st)) = max_attempts (app_login_limiter st) \<and>
      window_secs (app_login_limiter (login_call verify cfg q st)) = window_secs (app_login_limiter st)"
    using login_call_inv [OF Cons.prems(1)] Cons.prems(2) by simp
  then show ?case using Cons.IH [of "env_mono (fst q)" "login_call verify cfg q st"] Cons.prems(2) by simp
qed simp

text \<open>
  Password guessing is bounded: after any history of logins, with whatever user names and outcomes,
  the password of at most twice \<open>login_rate_limit_attempts\<close> requests from one address is checked in
  any span shorter than the window. A successful login lifts the throttle of its user name only.
\<close>

theorem login_guesses_bounded:
  assumes "app_login_limiter st = fw_new attempts secs" and "nondecreasing 0 (map (env_mono \<circ> fst) (pre @ qs))"
    and "\<forall>q \<in> set qs. t0 \<le> env_mono (fst q) \<and> env_mono (fst q) < t0 + of_int secs"
  shows "password_checks verify cfg (login_ip_key h) qs (fold (login_call verify cfg) pre st) \<le> 2 * max 0 attempts"
proof (cases qs)
  case (Cons q qs')
  let ?st = "fold (login_call verify cfg) pre st" and ?t = "last (0 # map (env_mono \<circ> fst) pre)"
  have split: "nondecreasing t (map (env_mono \<circ> fst) (pre @ qs)) \<Longrightarrow>
    nondecreasing t (map (env_mono \<circ> fst) pre) \<and> nondecreasing (last (t # map (env_mono \<circ> fst) pre)) (map (env_mono \<circ> fst) qs)" for t
    by (induction pre arbitrary: t) auto
  note nd = split [OF assms(2)]
  have inv: "fw_inv ?t (app_login_limiter ?st)" "max_attempts (app_login_limiter ?st) = attempts" "window_secs (app_login_limiter ?st) = secs"
    using login_history_inv [of 0 st pre verify cfg] fw_inv_new nd assms(1) by (auto simp: fw_new_def)
  have "password_checks verify cfg (login_ip_key h) qs ?st \<le> fw_quota t0 (env_mono (fst q)) (login_ip_key h) (app_login_limiter ?st)"
    using inv nd assms(3) Cons by (intro password_checks_quota [where t = ?t]) auto
  also have "\<dots> \<le> 2 * max 0 attempts"
    using fw_window_inv(2) [OF inv(1), of "env_mono (fst q)" "login_ip_key h"] nd inv Cons by (auto simp: fw_quota_def Let_def)
  finally show ?thesis .
qed simp


section \<open>A login resumes the request that asked for it\<close>

lemma always_safe_plain: "always_safe c \<Longrightarrow> \<not> py_isspace c \<and> c \<noteq> CHR 0x5C"
  by (auto simp: always_safe_def py_isspace_def is_alpha_def is_digit_def Let_def)

lemma remembered_is_safe:
  assumes "br_path rq = ''/oauth/authorize''"
  shows "is_safe_redirect (se_return_to (remember_request e rq s))"
proof -
  let ?u = "br_path rq @ (if br_raw_query rq \<noteq> [] then ''?'' @ strip_reauth_params (br_raw_query rq) else [])"
  have plain: "\<not> py_isspace c \<and> c \<noteq> CHR 0x5C" if "c \<in> set (strip_reauth_params q)" for c q
    using that quoted_plus.urlencode_plain [of c "strip_reauth_pairs (parse_qsl q)"] always_safe_plain
    by (auto simp: strip_reauth_params_def py_isspace_def)
  have path: "\<forall>c \<in> set ''/oauth/authorize?''. \<not> py_isspace c \<and> c \<noteq> CHR 0x5C" by (simp add: py_isspace_def)
  have "\<forall>c \<in> set ?u. \<not> py_isspace c \<and> c \<noteq> CHR 0x5C" using plain path unfolding assms by auto
  moreover from this have "py_strip ?u = ?u" using py_strip_pad [of ?u "[]" "[]"] assms by simp
  ultimately show ?thesis unfolding is_safe_redirect_def remember_request_def using assms by (auto simp: starts_with_iff Let_def)
qed

lemma remembered_is_fresh:
  assumes "env_now e \<le> env_now e0 + usecs 599"
  shows "env_time e - of_int (timestamp_int (env_now e0)) \<le> 600"
proof -
  have trunc: "x - 1000000 < x div 1000000 * 1000000 \<and> x div 1000000 * 1000000 \<le> x" for x :: int
    using pos_mod_bound [of 1000000 x] pos_mod_sign [of 1000000 x] minus_mod_eq_div_mult [of x 1000000] by linarith
  have "d - 1000000 < timestamp_int d * 1000000" for d
    using trunc [of d] trunc [of "- d"] by (simp add: timestamp_int_def)
  from this [of "env_now e0"] have "env_now e \<le> timestamp_int (env_now e0) * 1000000 + 600000000"
    using assms by (simp add: usecs_def)
  then have "(of_int (env_now e) :: rat) \<le> of_int (timestamp_int (env_now e0) * 1000000 + 600000000)" by (rule of_int_le_iff [THEN iffD2])
  then show ?thesis by (simp add: env_time_def field_simps)
qed

text \<open>
  A login resumes the request that asked for it: when the authorization endpoint sent the browser to
  the login page, the right password within ten minutes, from an address and for a user name that are
  not throttled, opens that user's session and leads back to exactly the request that was remembered.
\<close>

theorem login_resumes_the_request:
  assumes "s = remember_request e0 rq s0" and "br_path rq = ''/oauth/authorize''" and "env_now e \<le> env_now e0 + usecs 599"
    and "map_of form ''username'' = Some n" "map_of form ''password'' = Some p" and "get_user_by_username n (app_db st) = Some u"
    and "user_enabled u" "verify (user_password_hash u) p = PasswordMatches" "\<not> login_denylisted e n u (app_db st)"
    and "snd (throttle e host n (app_login_limiter st)) = None"
  shows "\<exists>st' url. login verify cfg e host form s st = (st', set_login e u (default_acr cfg) (Some [''pwd'']) s, Inr (RedirectTo 303 url [])) \<and>
    se_return_to s = Some url \<and> app_db st' = app_db st"
proof -
  have f: "or_str (map_of form ''username'') [] = n" "or_str (map_of form ''password'') [] = p" using assms(4,5) by (simp_all add: or_str_def)
  have u: "login_user verify e n p (app_db st) = Inr (Some u)" using assms(6-9) by (simp add: login_user_Some)
  have ts: "se_return_to_ts s = Some (timestamp_int (env_now e0))" using assms(1) by (simp add: remember_request_def)
  have "se_return_to s = Some (login_target e s)"
    using remembered_is_safe [OF assms(2), of e0 s0] remembered_is_fresh [OF assms(3)] ts assms(1)
    by (simp add: login_target_def RETURN_TO_MAX_AGE_SECS_def) (simp add: remember_request_def)
  then show ?thesis using u f assms(10) by (auto simp: login_def case_prod_unfold Let_def)
qed


section \<open>An evaluated login\<close>

definition login_user_row :: user where
  "login_user_row = \<lparr>user_pk = ''u1'', user_username = ''ann'', user_password_hash = ''h:pw'', user_email = ''ann@x'', user_enabled = True,
     user_role = ''user'', user_created_at = 0, user_updated_at = 0\<rparr>"

definition prefix_verify :: hash_verify where
  \<comment> \<open>a hasher that prepends a tag\<close>
  "prefix_verify hash password = (if hash = ''h:'' @ password then PasswordMatches else PasswordMismatch)"

definition login_app :: app_state where
  "login_app = fresh_app ((empty_db Sqlite)\<lparr>db_users := [login_user_row]\<rparr>)"

definition login_form :: "string dict" where
  "login_form = [(''username'', ''ann''), (''password'', ''pw'')]"

definition login_browse :: browse_request where
  "login_browse = \<lparr>br_query = [(''state'', ''x'')], br_path = ''/oauth/authorize'', br_raw_query = ''state=x''\<rparr>"

abbreviation login_env :: env where
  "login_env \<equiv> sample_env 5000000 ''l''"

lemma login_facts:
  "get_user_by_username ''ann'' (app_db login_app) = Some login_user_row" "user_enabled login_user_row"
  "prefix_verify (user_password_hash login_user_row) ''pw'' = PasswordMatches" "\<not> login_denylisted e ''ann'' login_user_row (app_db login_app)"
  "snd (throttle e host ''ann'' (app_login_limiter login_app)) = None"
  by (simp_all add: login_app_def fresh_app_def empty_db_def get_user_by_username_def login_user_row_def prefix_verify_def login_denylisted_def
      check_subject_denylisted_def find_denylist_entry_def throttle_def fw_check_def fw_new_def fw_sweep_expired_def sweep_def
      login_ip_key_def login_user_key_def Let_def)

theorem login_resumes_the_request_witness:
  "\<exists>st' s' url. login prefix_verify sample_config login_env (Some ''10.0.0.1'') login_form
       (remember_request (sample_env 0 ''r'') login_browse empty_session) login_app = (st', s', Inr (RedirectTo 303 url [])) \<and>
     se_user_id s' = Some ''u1''"
proof -
  have "\<exists>st' url. login prefix_verify sample_config login_env (Some ''10.0.0.1'') login_form
       (remember_request (sample_env 0 ''r'') login_browse empty_session) login_app =
       (st', set_login login_env login_user_row (default_acr sample_config) (Some [''pwd'']) (remember_request (sample_env 0 ''r'') login_browse empty_session),
        Inr (RedirectTo 303 url [])) \<and>
     se_return_to (remember_request (sample_env 0 ''r'') login_browse empty_session) = Some url \<and> app_db st' = app_db login_app"
    by (rule login_resumes_the_request [where n = "''ann''" and p = "''pw''", OF refl])
       (simp_all add: login_facts, simp_all add: login_browse_def login_form_def usecs_def)
  then show ?thesis by (auto simp: set_login_def login_user_row_def)
qed

theorem login_needs_the_password_witness:
  "\<exists>st' s' r. login prefix_verify sample_config login_env (Some ''10.0.0.1'') login_form empty_session login_app = (st', s', r) \<and>
     se_user_id s' = Some ''u1'' \<and> app_db st' = app_db login_app"
proof -
  obtain st' s' r where c: "login prefix_verify sample_config login_env (Some ''10.0.0.1'') login_form empty_session login_app = (st', s', r)"
    by (metis prod_cases3)
  have "login_user prefix_verify login_env ''ann'' ''pw'' (app_db login_app) = Inr (Some login_user_row)"
    using login_facts by (simp add: login_user_Some)
  then have s': "s' = set_login login_env login_user_row (default_acr sample_config) (Some [''pwd'']) empty_session"
    using c login_facts(5) by (auto simp: login_def login_form_def or_str_def case_prod_unfold Let_def)
  then have "s' \<noteq> empty_session" by (simp add: set_login_def empty_session_def)
  from login_needs_the_password [OF c this] have "app_db st' = app_db login_app" by (auto simp: Let_def)
  then show ?thesis using c s' by (simp add: set_login_def login_user_row_def)
qed

theorem login_guesses_bounded_witness:
  "password_checks prefix_verify sample_config (login_ip_key (Some ''10.0.0.1''))
     (replicate 30 (login_env, Some ''10.0.0.1'', login_form, empty_session)) login_app \<le> 20"
proof -
  have nd: "nondecreasing t (map (env_mono \<circ> fst) (replicate k (login_env, Some ''10.0.0.1'', login_form, empty_session)))" if "t \<le> 5" for t k
    using that by (induction k arbitrary: t) (simp_all add: sample_env_def)
  have "password_checks prefix_verify sample_config (login_ip_key (Some ''10.0.0.1''))
      (replicate 30 (login_env, Some ''10.0.0.1'', login_form, empty_session)) (fold (login_call prefix_verify sample_config) [] login_app) \<le> 2 * max 0 10"
    by (rule login_guesses_bounded [of login_app 10 900 _ _ 5])
       (use nd [of 0 30] in \<open>simp_all add: login_app_def fresh_app_def sample_env_def\<close>)
  then show ?thesis by simp
qed

end
