(* ===== verification/Social.thy ===== *)
theory Social
  imports Login
begin

text \<open>
  Login through an external identity provider: the provider registry and the exchange with the
  provider (\<open>services/social.py\<close>) and the two routes (\<open>routes/social.py\<close>). The theorems show what
  stands behind a session opened this way, which local accounts an address may be linked to, and
  where the code does less than it documents.

  The provider is the record \<open>social_net\<close>: its answers to the token request and to the user-info
  requests, and the decimal notation Python chooses for a float. A call may also fail in a way the
  code does not expect (\<open>NetRaises\<close>). The clock is read once per request.
\<close>

section \<open>The provider registry\<close>

definition DISPLAY_NAMES :: "string dict" where
  "DISPLAY_NAMES = [(''google'', ''Google''), (''microsoft'', ''Microsoft''), (''github'', ''GitHub''), (''azure'', ''Azure''),
     (''okta'', ''Okta''), (''auth0'', ''Auth0'')]"

definition OAUTH_PROVIDERS :: "string list" where "OAUTH_PROVIDERS = [''google'', ''microsoft'', ''github'', ''azure'']"

definition STUB_PROVIDERS :: "string list" where "STUB_PROVIDERS = [''okta'', ''auth0'']"

definition ALL_PROVIDERS :: "string list" where "ALL_PROVIDERS = OAUTH_PROVIDERS @ STUB_PROVIDERS"

definition GITHUB_EMAILS_URL :: string where "GITHUB_EMAILS_URL = ''https://api.github.com/user/emails''"

record provider_config =
  pc_provider :: string
  pc_client_id :: string
  pc_client_secret :: string
  pc_redirect_uri :: string
  pc_authorize_url :: string
  pc_token_url :: string
  pc_userinfo_url :: string
  pc_scope :: string
  pc_pkce :: bool

record social_user_info =
  si_provider :: string
  si_provider_user_id :: string
  si_email :: json
  si_name :: json
  si_picture :: json
  si_email_verified :: bool

definition social_redirect_uri :: "config \<Rightarrow> string \<Rightarrow> string option \<Rightarrow> string" where
  "social_redirect_uri cfg provider configured = or_str configured (cfg_issuer cfg @ ''/auth/callback/'' @ provider)"

definition both_set :: "string option \<Rightarrow> string option \<Rightarrow> bool" where
  "both_set a b \<longleftrightarrow> truthy a \<and> truthy b"

definition microsoft_config :: "config \<Rightarrow> string \<Rightarrow> string \<Rightarrow> string option \<Rightarrow> string option \<Rightarrow> string option \<Rightarrow> provider_config" where
  \<comment> \<open>the endpoints \<open>microsoft\<close> and \<open>azure\<close> share\<close>
  "microsoft_config cfg provider tenant client_id secret redirect =
     (let base = ''https://login.microsoftonline.com/'' @ (if tenant \<noteq> [] then tenant else ''common'')
      in \<lparr>pc_provider = provider, pc_client_id = the client_id, pc_client_secret = the secret,
          pc_redirect_uri = social_redirect_uri cfg provider redirect, pc_authorize_url = base @ ''/oauth2/v2.0/authorize'',
          pc_token_url = base @ ''/oauth2/v2.0/token'', pc_userinfo_url = ''https://graph.microsoft.com/v1.0/me'',
          pc_scope = ''openid email profile'', pc_pkce = False\<rparr>)"

definition resolve_provider_config :: "config \<Rightarrow> string \<Rightarrow> provider_config option" where
  "resolve_provider_config cfg provider =
     (if provider = ''google'' then
        (if \<not> both_set (cfg_google_client_id cfg) (cfg_google_client_secret cfg) then None
         else Some \<lparr>pc_provider = ''google'', pc_client_id = the (cfg_google_client_id cfg), pc_client_secret = the (cfg_google_client_secret cfg),
                pc_redirect_uri = social_redirect_uri cfg ''google'' (cfg_google_redirect_uri cfg),
                pc_authorize_url = ''https://accounts.google.com/o/oauth2/v2/auth'', pc_token_url = ''https://oauth2.googleapis.com/token'',
                pc_userinfo_url = ''https://www.googleapis.com/oauth2/v2/userinfo'', pc_scope = ''openid email profile'', pc_pkce = True\<rparr>)
      else if provider = ''microsoft'' then
        (if \<not> both_set (cfg_microsoft_client_id cfg) (cfg_microsoft_client_secret cfg) then None
         else Some (microsoft_config cfg ''microsoft'' (cfg_microsoft_tenant_id cfg) (cfg_microsoft_client_id cfg)
                (cfg_microsoft_client_secret cfg) (cfg_microsoft_redirect_uri cfg)))
      else if provider = ''github'' then
        (if \<not> both_set (cfg_github_client_id cfg) (cfg_github_client_secret cfg) then None
         else Some \<lparr>pc_provider = ''github'', pc_client_id = the (cfg_github_client_id cfg), pc_client_secret = the (cfg_github_client_secret cfg),
                pc_redirect_uri = social_redirect_uri cfg ''github'' (cfg_github_redirect_uri cfg),
                pc_authorize_url = ''https://github.com/login/oauth/authorize'', pc_token_url = ''https://github.com/login/oauth/access_token'',
                pc_userinfo_url = ''https://api.github.com/user'', pc_scope = ''user:email'', pc_pkce = False\<rparr>)
      else if provider = ''azure'' then
        (if both_set (cfg_azure_client_id cfg) (cfg_azure_client_secret cfg)
         then Some (microsoft_config cfg ''azure'' (cfg_azure_tenant_id cfg) (cfg_azure_client_id cfg)
                (cfg_azure_client_secret cfg) (cfg_azure_redirect_uri cfg))
         else if both_set (cfg_microsoft_client_id cfg) (cfg_microsoft_client_secret cfg)
         then Some (microsoft_config cfg ''azure'' (cfg_azure_tenant_id cfg) (cfg_microsoft_client_id cfg)
                (cfg_microsoft_client_secret cfg) (cfg_microsoft_redirect_uri cfg))
         else None)
      else None)"

definition generate_pkce_pair :: "string \<Rightarrow> string \<times> string" where
  \<comment> \<open>of the random draw\<close>
  "generate_pkce_pair verifier = (verifier, urlsafe_b64encode_nopad (sha256 (utf8 verifier)))"

definition build_authorize_url :: "provider_config \<Rightarrow> string \<Rightarrow> string option \<Rightarrow> string" where
  "build_authorize_url rc state code_challenge =
     pc_authorize_url rc @ ''?'' @ urlencode quote_plus
       ([(''response_type'', ''code''), (''client_id'', pc_client_id rc), (''redirect_uri'', pc_redirect_uri rc),
         (''scope'', pc_scope rc), (''state'', state)] @
        (case code_challenge of None \<Rightarrow> [] | Some ch \<Rightarrow> [(''code_challenge'', ch), (''code_challenge_method'', ''S256'')]))"


section \<open>Talking to the provider\<close>

datatype net_reply = NetFailure string | NetRaises string | NetReply int string bytes
  \<comment> \<open>an \<open>httpx.HTTPError\<close>, another exception, or a status with the text and the bytes of the body\<close>

record social_net =
  sn_post :: "string \<Rightarrow> string dict \<Rightarrow> net_reply"
  sn_get :: "string \<Rightarrow> string \<Rightarrow> net_reply"
  sn_float :: "rat \<Rightarrow> string"

datatype provider_failure = ProviderError string | ProviderCrash exc

type_synonym 'a provided = "provider_failure + 'a"

definition response_json :: "nat \<Rightarrow> string \<Rightarrow> bytes \<Rightarrow> json provided" where
  \<comment> \<open>\<open>response.json()\<close> with \<open>except ValueError\<close>\<close>
  "response_json lvl what content =
     (let malformed = Inl (ProviderError (what @ '' returned malformed JSON''))
      in case json_text content of
           None \<Rightarrow> malformed
         | Some s \<Rightarrow>
             (case json_loads lvl s of
                Inr v \<Rightarrow> Inr v
              | Inl x \<Rightarrow> if x = JSONDecodeError \<or> x = JSONValueError then malformed else Inl (ProviderCrash (json_exc x))))"

definition read_reply :: "nat \<Rightarrow> string \<Rightarrow> string \<Rightarrow> net_reply \<Rightarrow> json provided" where
  "read_reply lvl doing what r =
     (case r of
        NetFailure msg \<Rightarrow> Inl (ProviderError (doing @ '' request failed: '' @ msg))
      | NetRaises x \<Rightarrow> Inl (ProviderCrash (PyError x))
      | NetReply status txt content \<Rightarrow>
          if status \<noteq> 200 then Inl (ProviderError (what @ '' returned '' @ str_int status @ '': '' @ txt))
          else response_json lvl what content)"

definition jmember :: "string \<Rightarrow> json \<Rightarrow> json" where
  \<comment> \<open>\<open>data.get(k) if isinstance(data, dict) else None\<close>\<close>
  "jmember k v = (case v of JObj ps \<Rightarrow> jget k ps | _ \<Rightarrow> JNull)"

definition social_str :: "social_net \<Rightarrow> json \<Rightarrow> string" where
  \<comment> \<open>\<open>str(v)\<close>\<close>
  "social_str net v = (case v of JFloat r \<Rightarrow> sn_float net r | _ \<Rightarrow> py_str v)"

definition exchange_code :: "nat \<Rightarrow> social_net \<Rightarrow> provider_config \<Rightarrow> string \<Rightarrow> string option \<Rightarrow> json provided" where
  "exchange_code lvl net rc code pkce_verifier =
     (let data = [(''grant_type'', ''authorization_code''), (''code'', code), (''redirect_uri'', pc_redirect_uri rc),
                  (''client_id'', pc_client_id rc), (''client_secret'', pc_client_secret rc)] @
                 (case pkce_verifier of None \<Rightarrow> [] | Some v \<Rightarrow> [(''code_verifier'', v)])
      in bind_res (read_reply lvl ''token exchange'' ''token endpoint'' (sn_post net (pc_token_url rc) data)) (\<lambda>payload.
           if jtruthy (jmember ''access_token'' payload) then Inr (jmember ''access_token'' payload)
           else Inl (ProviderError ''token endpoint response missing access_token'')))"

definition social_get_json :: "nat \<Rightarrow> social_net \<Rightarrow> string \<Rightarrow> string \<Rightarrow> json provided" where
  "social_get_json lvl net url access_token = read_reply lvl ''userinfo'' ''userinfo endpoint'' (sn_get net url access_token)"

definition fetch_google_userinfo :: "nat \<Rightarrow> social_net \<Rightarrow> provider_config \<Rightarrow> string \<Rightarrow> social_user_info provided" where
  "fetch_google_userinfo lvl net rc tok =
     bind_res (social_get_json lvl net (pc_userinfo_url rc) tok) (\<lambda>data.
       if \<not> jtruthy (jmember ''id'' data) \<or> \<not> jtruthy (jmember ''email'' data)
       then Inl (ProviderError ''Google userinfo response missing id or email'')
       else if jmember ''verified_email'' data \<noteq> JBool True then Inl (ProviderError ''Google email not verified'')
       else Inr \<lparr>si_provider = ''google'', si_provider_user_id = social_str net (jmember ''id'' data), si_email = jmember ''email'' data,
              si_name = jmember ''name'' data, si_picture = jmember ''picture'' data, si_email_verified = True\<rparr>)"

definition fetch_microsoft_userinfo :: "nat \<Rightarrow> social_net \<Rightarrow> provider_config \<Rightarrow> string \<Rightarrow> social_user_info provided" where
  "fetch_microsoft_userinfo lvl net rc tok =
     bind_res (social_get_json lvl net (pc_userinfo_url rc) tok) (\<lambda>data.
       if \<not> jtruthy (jmember ''id'' data) \<or> \<not> jtruthy (jmember ''userPrincipalName'' data)
       then Inl (ProviderError (the (map_of DISPLAY_NAMES (pc_provider rc)) @ '' userinfo response missing id or userPrincipalName''))
       else Inr \<lparr>si_provider = pc_provider rc, si_provider_user_id = social_str net (jmember ''id'' data),
              si_email = jmember ''userPrincipalName'' data, si_name = jmember ''displayName'' data, si_picture = JNull,
              si_email_verified = False\<rparr>)"

definition github_primary :: "json \<Rightarrow> json" where
  \<comment> \<open>the address of the first entry that is both primary and verified\<close>
  "github_primary emails =
     (case emails of
        JArr es \<Rightarrow>
          (case find (\<lambda>v. is_jobj v \<and> jtruthy (jmember ''primary'' v) \<and> jtruthy (jmember ''verified'' v)) es of
             None \<Rightarrow> JNull
           | Some v \<Rightarrow> jmember ''email'' v)
      | _ \<Rightarrow> JNull)"

definition fetch_github_userinfo :: "nat \<Rightarrow> social_net \<Rightarrow> provider_config \<Rightarrow> string \<Rightarrow> social_user_info provided" where
  "fetch_github_userinfo lvl net rc tok =
     bind_res (social_get_json lvl net (pc_userinfo_url rc) tok) (\<lambda>data.
       if jmember ''id'' data = JNull then Inl (ProviderError ''GitHub userinfo response missing id'')
       else bind_res (social_get_json lvl net GITHUB_EMAILS_URL tok) (\<lambda>emails.
         if \<not> jtruthy (github_primary emails) then Inl (ProviderError ''No email found'')
         else Inr \<lparr>si_provider = ''github'', si_provider_user_id = social_str net (jmember ''id'' data), si_email = github_primary emails,
                si_name = jmember ''name'' data, si_picture = jmember ''avatar_url'' data, si_email_verified = True\<rparr>))"

definition fetch_userinfo :: "nat \<Rightarrow> social_net \<Rightarrow> provider_config \<Rightarrow> string \<Rightarrow> social_user_info provided" where
  "fetch_userinfo lvl net rc tok =
     (if pc_provider rc = ''google'' then fetch_google_userinfo lvl net rc tok
      else if pc_provider rc \<in> {''microsoft'', ''azure''} then fetch_microsoft_userinfo lvl net rc tok
      else if pc_provider rc = ''github'' then fetch_github_userinfo lvl net rc tok
      else Inl (ProviderError (''no userinfo mapping for provider '' @ repr_str (pc_provider rc))))"


section \<open>GET /auth/login/\{provider\}\<close>

definition not_configured :: "string \<Rightarrow> web_response" where
  "not_configured provider =
     error_page 400 ''provider_not_configured'' (the (map_of DISPLAY_NAMES provider) @ '' login not configured'')"

definition social_login :: "config \<Rightarrow> env \<Rightarrow> string \<Rightarrow> session \<Rightarrow> session \<times> web_response" where
  "social_login cfg e provider s =
     (if provider \<notin> set ALL_PROVIDERS then (s, JsonPage 404 (JObj [(''detail'', JStr ''Not Found'')]))
      else if provider \<in> set STUB_PROVIDERS
      then (s, HtmlPage 503 (the (map_of DISPLAY_NAMES provider) @ '' login not yet implemented'') [(''content-type'', ''text/plain; charset=utf-8'')])
      else (case resolve_provider_config cfg provider of
          None \<Rightarrow> (s, not_configured provider)
        | Some rc \<Rightarrow>
            (let state = env_urlsafe e 0; (verifier, challenge) = generate_pkce_pair (env_urlsafe e 1);
                 s1 = s\<lparr>se_csrf_token := Some state, se_provider := Some provider, se_pkce_verifier := None\<rparr>
             in if pc_pkce rc
                then (s1\<lparr>se_pkce_verifier := Some verifier\<rparr>, RedirectTo 302 (build_authorize_url rc state (Some challenge)) [])
                else (s1, RedirectTo 302 (build_authorize_url rc state None) []))))"


section \<open>Linking to a local account\<close>

definition casefold_char :: "char \<Rightarrow> string" where
  \<comment> \<open>\<open>c.casefold()\<close>; the micro sign goes above 255\<close>
  "casefold_char c =
     (let n = (of_char c :: nat) in if n = 223 then ''ss'' else if n = 181 then [wide_char] else [lower_char c])"

definition fold_email :: "string \<Rightarrow> string" where
  "fold_email email = concat (map casefold_char (py_strip email))"

definition link_candidates :: "string \<Rightarrow> database \<Rightarrow> user list" where
  "link_candidates folded db = filter (\<lambda>u. fold_email (user_email u) = folded) (get_users_by_email folded db)"

definition link_by_verified_email :: "config \<Rightarrow> social_user_info \<Rightarrow> database \<Rightarrow> user option outcome" where
  "link_by_verified_email cfg info db =
     (if \<not> cfg_social_link_by_verified_email cfg \<or> \<not> si_email_verified info then Inr None
      else (case si_email info of
          JStr email \<Rightarrow>
            (let folded = fold_email email
             in if folded = [] then Inr None
                else (case link_candidates folded db of
                    [u] \<Rightarrow>
                      (let lowered = py_lower (py_strip (user_email u))
                       in if user_role u = ''admin'' \<or> folded \<in> set (cfg_admin_emails cfg) \<or> lowered \<in> set (cfg_admin_emails cfg) \<or>
                             \<not> user_enabled u
                          then Inr None else Inr (Some u))
                  | _ \<Rightarrow> Inr None))
        | _ \<Rightarrow> Inl (PyError ''AttributeError'')))"


section \<open>GET /auth/callback/\{provider\}\<close>

definition state_matches :: "string \<Rightarrow> string \<Rightarrow> bool" where
  "state_matches presented expected \<longleftrightarrow> utf8 presented = utf8 expected"

definition callback_check ::
  "config \<Rightarrow> string \<Rightarrow> browse_request \<Rightarrow> session \<Rightarrow> web_response + (provider_config \<times> string \<times> string option)" where
  \<comment> \<open>everything before the first request to the provider\<close>
  "callback_check cfg provider rq s =
     (let state = map_of (br_query rq) ''state''; code = map_of (br_query rq) ''code''
      in if \<not> truthy state then Inl (error_page 403 ''access_denied'' ''CSRF state parameter is required'')
         else if se_csrf_token s = None \<or> \<not> state_matches (the state) (the (se_csrf_token s))
         then Inl (error_page 403 ''access_denied'' ''CSRF token mismatch'')
         else if se_provider s \<noteq> Some provider then Inl (error_page 400 ''invalid_request'' ''Provider mismatch'')
         else if provider \<notin> set OAUTH_PROVIDERS then Inl (error_page 400 ''invalid_request'' ''Unsupported provider'')
         else (case resolve_provider_config cfg provider of
             None \<Rightarrow> Inl (not_configured provider)
           | Some rc \<Rightarrow>
               if \<not> truthy code then Inl (error_page 400 ''invalid_request'' ''Authorization code is required'')
               else if pc_pkce rc \<and> \<not> truthy (se_pkce_verifier s)
               then Inl (error_page 400 ''session_error'' ''PKCE verifier missing from session'')
               else Inr (rc, the code, if pc_pkce rc then se_pkce_verifier s else None)))"

definition provision_user :: "(string \<Rightarrow> string) \<Rightarrow> env \<Rightarrow> string \<Rightarrow> social_user_info \<Rightarrow> database \<Rightarrow> (database \<times> user) outcome" where
  \<comment> \<open>a row no password opens\<close>
  "provision_user hash e username info db =
     (case si_email info of
        JStr email \<Rightarrow>
          (let u = \<lparr>user_pk = env_uuid e 1, user_username = username, user_password_hash = hash (env_uuid e 0), user_email = email,
                    user_enabled = True, user_role = ''user'', user_created_at = env_now e, user_updated_at = env_now e\<rparr>
           in bind_res (save_user u db) (\<lambda>db'. Inr (db', u)))
      | _ \<Rightarrow> Inl (PyError ''ValidationError''))"

definition social_user :: "(string \<Rightarrow> string) \<Rightarrow> config \<Rightarrow> env \<Rightarrow> string \<Rightarrow> social_user_info \<Rightarrow> database \<Rightarrow> (database \<times> user) outcome" where
  \<comment> \<open>the account named after the provider's id, else a linked one, else a new one\<close>
  "social_user hash cfg e username info db =
     (case get_user_by_username username db of
        Some u \<Rightarrow> Inr (db, u)
      | None \<Rightarrow>
          bind_res (link_by_verified_email cfg info db) (\<lambda>linked.
            case linked of Some u \<Rightarrow> Inr (db, u) | None \<Rightarrow> provision_user hash e username info db))"

definition social_sign_in ::
  "(string \<Rightarrow> string) \<Rightarrow> config \<Rightarrow> env \<Rightarrow> string \<Rightarrow> social_user_info \<Rightarrow> session \<Rightarrow> app_state \<Rightarrow> browsed" where
  "social_sign_in hash cfg e provider info s st =
     (case social_user hash cfg e (provider @ '':'' @ si_provider_user_id info) info (app_db st) of
        Inl x \<Rightarrow> (st, s, Inl x)
      | Inr (db', u) \<Rightarrow>
          (st\<lparr>app_db := db'\<rparr>, set_login e u (default_acr cfg) (Some [''fed'']) s,
           Inr (RedirectTo 302 (if is_safe_redirect (se_return_to s) then the (se_return_to s) else ''/profile'') [])))"

definition guarded_userinfo ::
  "social_net \<Rightarrow> env \<Rightarrow> provider_config \<Rightarrow> json \<Rightarrow> app_state \<Rightarrow> app_state \<times> (web_response outcome + social_user_info)" where
  \<comment> \<open>the user-info fetch behind the provider's circuit breaker; an unexpected exception records nothing\<close>
  "guarded_userinfo net e rc tok st =
     (let provider = pc_provider rc; b = the (map_of (app_social_breakers st) provider); (b1, ok) = sb_allow (env_mono e) b;
          with = (\<lambda>b'. st\<lparr>app_social_breakers := AList.update provider b' (app_social_breakers st)\<rparr>)
      in if \<not> ok
         then (with b1, Inl (Inr (error_page 400 ''provider_unavailable'' (the (map_of DISPLAY_NAMES provider) @ '' circuit breaker open''))))
         else (case fetch_userinfo (env_recursion e) net rc (social_str net tok) of
             Inl (ProviderError msg) \<Rightarrow> (with (sb_record_failure (env_mono e) b1), Inl (Inr (error_page 400 ''provider_error'' msg)))
           | Inl (ProviderCrash x) \<Rightarrow> (with b1, Inl (Inl x))
           | Inr info \<Rightarrow> (with (sb_record_success b1), Inr info)))"

definition social_callback ::
  "social_net \<Rightarrow> (string \<Rightarrow> string) \<Rightarrow> config \<Rightarrow> env \<Rightarrow> string \<Rightarrow> browse_request \<Rightarrow> session \<Rightarrow> app_state \<Rightarrow> browsed" where
  "social_callback net hash cfg e provider rq s st =
     (case callback_check cfg provider rq s of
        Inl page \<Rightarrow> (st, s, Inr page)
      | Inr (rc, code, verifier) \<Rightarrow>
          (case exchange_code (env_recursion e) net rc code verifier of
             Inl (ProviderError msg) \<Rightarrow> (st, s, Inr (error_page 400 ''token_exchange_failed'' msg))
           | Inl (ProviderCrash x) \<Rightarrow> (st, s, Inl x)
           | Inr tok \<Rightarrow>
               (case guarded_userinfo net e rc tok st of
                  (st1, Inl r) \<Rightarrow> (st1, s, r)
                | (st1, Inr info) \<Rightarrow> social_sign_in hash cfg e provider info s st1)))"


section \<open>What stands behind a session\<close>

definition linkable :: "config \<Rightarrow> database \<Rightarrow> social_user_info \<Rightarrow> user \<Rightarrow> bool" where
  \<comment> \<open>linking is on, the address is verified and the row's own, and the row is neither privileged nor disabled\<close>
  "linkable cfg db info u \<longleftrightarrow>
     cfg_social_link_by_verified_email cfg \<and> si_email_verified info \<and> u \<in> set (db_users db) \<and>
     (\<exists>email. si_email info = JStr email \<and> fold_email email \<noteq> [] \<and> fold_email (user_email u) = fold_email email \<and>
        link_candidates (fold_email email) db = [u]) \<and>
     user_role u \<noteq> ''admin'' \<and> user_enabled u \<and>
     fold_email (user_email u) \<notin> set (cfg_admin_emails cfg) \<and> py_lower (py_strip (user_email u)) \<notin> set (cfg_admin_emails cfg)"

definition account_for :: "config \<Rightarrow> database \<Rightarrow> string \<Rightarrow> social_user_info \<Rightarrow> user \<Rightarrow> database \<Rightarrow> bool" where
  \<comment> \<open>the account of this provider identity, a linkable one, or a new one with the role \<open>user\<close>\<close>
  "account_for cfg db name info u db' \<longleftrightarrow>
     (case get_user_by_username name db of
        Some v \<Rightarrow> u = v \<and> db' = db
      | None \<Rightarrow>
          linkable cfg db info u \<and> db' = db \<or>
          user_username u = name \<and> user_role u = ''user'' \<and> user_enabled u \<and> si_email info = JStr (user_email u) \<and>
          db' = db\<lparr>db_users := db_users db @ [u]\<rparr>)"

lemma link_by_verified_email_linkable:
  assumes "link_by_verified_email cfg info db = Inr (Some u)"
  shows "linkable cfg db info u"
proof -
  obtain email where em: "si_email info = JStr email" and on: "cfg_social_link_by_verified_email cfg" "si_email_verified info"
    using assms by (auto simp: link_by_verified_email_def split: if_split_asm json.split_asm)
  have c: "fold_email email \<noteq> []" "link_candidates (fold_email email) db = [u]" "user_role u \<noteq> ''admin''" "user_enabled u"
      "fold_email email \<notin> set (cfg_admin_emails cfg)" "py_lower (py_strip (user_email u)) \<notin> set (cfg_admin_emails cfg)"
    using assms em on by (auto simp: link_by_verified_email_def Let_def split: if_split_asm list.split_asm)
  have "u \<in> set (link_candidates (fold_email email) db)" using c(2) by simp
  then have "u \<in> set (db_users db)" "fold_email (user_email u) = fold_email email"
    by (auto simp: link_candidates_def get_users_by_email_def Let_def)
  then show ?thesis using em on c by (auto simp: linkable_def)
qed

lemma social_user_account:
  assumes "social_user hash cfg e name info db = Inr (db', u)"
  shows "account_for cfg db name info u db'"
proof (cases "get_user_by_username name db")
  case None
  obtain linked where l: "link_by_verified_email cfg info db = Inr linked"
    using assms None by (auto simp: social_user_def bind_res_Inr_iff)
  show ?thesis
  proof (cases linked)
    case None': None
    then show ?thesis
      using assms None l
      by (auto simp: social_user_def provision_user_def account_for_def save_user_def sql_insert_def bind_res_Inr_iff Let_def
          split: json.split_asm if_split_asm)
  next
    case (Some v)
    then show ?thesis using assms None l link_by_verified_email_linkable by (auto simp: social_user_def account_for_def)
  qed
qed (use assms in \<open>simp add: social_user_def account_for_def\<close>)

lemma callback_check_Inr:
  assumes "callback_check cfg provider rq s = Inr (rc, code, verifier)"
  shows "map_of (br_query rq) ''state'' = se_csrf_token s" "se_csrf_token s \<noteq> None" "se_provider s = Some provider"
    "provider \<in> set OAUTH_PROVIDERS" "resolve_provider_config cfg provider = Some rc" "map_of (br_query rq) ''code'' = Some code"
    "verifier = (if pc_pkce rc then se_pkce_verifier s else None)"
  using assms
  by (auto simp: callback_check_def state_matches_def utf8_inj Let_def split: if_split_asm option.split_asm elim!: truthyE)

lemma guarded_userinfo_Inr:
  assumes "guarded_userinfo net e rc tok st = (st1, Inr info)"
  shows "fetch_userinfo (env_recursion e) net rc (social_str net tok) = Inr info" "app_db st1 = app_db st"
  using assms by (auto simp: guarded_userinfo_def Let_def case_prod_unfold split: if_split_asm sum.split_asm provider_failure.split_asm)

lemma verified_only_by_google_or_github:
  "fetch_userinfo lvl net rc tok = Inr info \<Longrightarrow> si_email_verified info \<Longrightarrow> pc_provider rc \<in> {''google'', ''github''}"
  by (auto simp: fetch_userinfo_def fetch_microsoft_userinfo_def bind_res_Inr_iff split: if_split_asm)

lemma social_sign_in_changes:
  assumes "social_sign_in hash cfg e provider info s st = (st', s', r)" "s' \<noteq> s"
  obtains u url where "account_for cfg (app_db st) (provider @ '':'' @ si_provider_user_id info) info u (app_db st')"
    "s' = set_login e u (default_acr cfg) (Some [''fed'']) s" "r = Inr (RedirectTo 302 url [])" "local_path url"
proof -
  let ?n = "provider @ '':'' @ si_provider_user_id info" and ?url = "if is_safe_redirect (se_return_to s) then the (se_return_to s) else ''/profile''"
  obtain db' u where su: "social_user hash cfg e ?n info (app_db st) = Inr (db', u)"
    using assms by (auto simp: social_sign_in_def split: sum.split_asm)
  have "local_path ?url"
  proof (cases "is_safe_redirect (se_return_to s)")
    case True
    then show ?thesis using is_safe_redirect_local by (cases "se_return_to s") (auto simp: is_safe_redirect_def)
  qed (simp add: local_path_def py_isspace_def starts_with_iff)
  moreover have "st' = st\<lparr>app_db := db'\<rparr>" "s' = set_login e u (default_acr cfg) (Some [''fed'']) s" "r = Inr (RedirectTo 302 ?url [])"
    using assms(1) su by (auto simp: social_sign_in_def)
  ultimately show thesis using that social_user_account [OF su] by simp
qed

text \<open>
  C15. A federated session is vouched for: when a callback changes the session, it carries the state this
  browser was sent away with, for the same configured provider, and the provider exchanged the code and
  described the user. The session is that of the account named after the provider's id, of a new account
  with the role \<open>user\<close>, or of the one account an address may be linked to: only where linking is
  on, only for an address Google or GitHub verified, and never for an administrator or a disabled account.
\<close>

theorem social_session_is_vouched_for:
  assumes "social_callback net hash cfg e provider rq s st = (st', s', r)" and "s' \<noteq> s"
  shows "\<exists>rc code tok info u url. map_of (br_query rq) ''state'' = se_csrf_token s \<and> se_csrf_token s \<noteq> None \<and> se_provider s = Some provider \<and>
    resolve_provider_config cfg provider = Some rc \<and> map_of (br_query rq) ''code'' = Some code \<and>
    exchange_code (env_recursion e) net rc code (if pc_pkce rc then se_pkce_verifier s else None) = Inr tok \<and>
    fetch_userinfo (env_recursion e) net rc (social_str net tok) = Inr info \<and>
    (si_email_verified info \<longrightarrow> pc_provider rc \<in> {''google'', ''github''}) \<and>
    account_for cfg (app_db st) (provider @ '':'' @ si_provider_user_id info) info u (app_db st') \<and>
    s' = set_login e u (default_acr cfg) (Some [''fed'']) s \<and> r = Inr (RedirectTo 302 url []) \<and> local_path url"
proof -
  obtain rc code verifier where c: "callback_check cfg provider rq s = Inr (rc, code, verifier)"
    using assms by (auto simp: social_callback_def split: sum.split_asm)
  note ci = callback_check_Inr [OF c]
  obtain tok where t: "exchange_code (env_recursion e) net rc code verifier = Inr tok"
    using assms c by (auto simp: social_callback_def split: sum.split_asm provider_failure.split_asm)
  obtain st1 info where g: "guarded_userinfo net e rc tok st = (st1, Inr info)"
    using assms c t by (auto simp: social_callback_def split: sum.split_asm prod.split_asm)
  note gi = guarded_userinfo_Inr [OF g]
  have "social_sign_in hash cfg e provider info s st1 = (st', s', r)" using assms(1) c t g by (simp add: social_callback_def)
  then obtain u url where "account_for cfg (app_db st1) (provider @ '':'' @ si_provider_user_id info) info u (app_db st')"
      "s' = set_login e u (default_acr cfg) (Some [''fed'']) s" "r = Inr (RedirectTo 302 url [])" "local_path url"
    using assms(2) by (rule social_sign_in_changes)
  then show ?thesis using ci t gi verified_only_by_google_or_github [OF gi(1)] by auto
qed


section \<open>The round trip\<close>

text \<open>
  The round trip closes: the browser is sent to the provider with a state and, where the provider
  supports it, the challenge of a fresh verifier; a callback that brings this state and a code back is
  accepted, and the code is redeemed with the verifier of that challenge.
\<close>

theorem social_round_trip_accepted:
  assumes "provider \<in> set OAUTH_PROVIDERS" and "resolve_provider_config cfg provider = Some rc"
    and "env_urlsafe e 0 \<noteq> []" "env_urlsafe e 1 \<noteq> []"
  shows "\<exists>s1 q. social_login cfg e provider s = (s1, RedirectTo 302 (pc_authorize_url rc @ ''?'' @ q) []) \<and>
    (\<forall>rq code. map_of (br_query rq) ''state'' = map_of (parse_qsl q) ''state'' \<longrightarrow> map_of (br_query rq) ''code'' = Some code \<longrightarrow> code \<noteq> [] \<longrightarrow>
       (\<exists>verifier. callback_check cfg provider rq s1 = Inr (rc, code, verifier) \<and>
          map_of (parse_qsl q) ''code_challenge'' = map_option (\<lambda>v. urlsafe_b64encode_nopad (sha256 (utf8 v))) verifier))"
proof -
  let ?ch = "if pc_pkce rc then Some (urlsafe_b64encode_nopad (sha256 (utf8 (env_urlsafe e 1)))) else None"
  let ?ps = "[(''response_type'', ''code''), (''client_id'', pc_client_id rc), (''redirect_uri'', pc_redirect_uri rc),
         (''scope'', pc_scope rc), (''state'', env_urlsafe e 0)] @
        (case ?ch of None \<Rightarrow> [] | Some ch \<Rightarrow> [(''code_challenge'', ch), (''code_challenge_method'', ''S256'')])"
  let ?s1 = "s\<lparr>se_csrf_token := Some (env_urlsafe e 0), se_provider := Some provider,
     se_pkce_verifier := if pc_pkce rc then Some (env_urlsafe e 1) else None\<rparr>"
  have p: "provider \<in> set ALL_PROVIDERS" "provider \<notin> set STUB_PROVIDERS"
    using assms(1) by (auto simp: ALL_PROVIDERS_def OAUTH_PROVIDERS_def STUB_PROVIDERS_def)
  define q where "q = urlencode quote_plus ?ps"
  have l: "social_login cfg e provider s = (?s1, RedirectTo 302 (pc_authorize_url rc @ ''?'' @ q) [])"
    using p assms(2) by (simp add: social_login_def generate_pkce_pair_def build_authorize_url_def q_def Let_def)
  have "parse_qsl q = ?ps" unfolding q_def by (rule quoted_plus.parse_urlencode)
  then have m: "map_of (parse_qsl q) ''state'' = Some (env_urlsafe e 0)"
      "map_of (parse_qsl q) ''code_challenge'' =
        map_option (\<lambda>v. urlsafe_b64encode_nopad (sha256 (utf8 v))) (if pc_pkce rc then Some (env_urlsafe e 1) else None)" by simp_all
  have "callback_check cfg provider rq ?s1 = Inr (rc, code, if pc_pkce rc then Some (env_urlsafe e 1) else None)"
    if "map_of (br_query rq) ''state'' = Some (env_urlsafe e 0)" "map_of (br_query rq) ''code'' = Some code" "code \<noteq> []" for rq code
    using that assms by (simp add: callback_check_def state_matches_def)
  then show ?thesis using l m by (intro exI [of _ ?s1] exI [of _ q]) fastforce
qed


section \<open>Where the code does less than it says\<close>

definition reply_json :: "string \<Rightarrow> net_reply" where
  "reply_json body = NetReply 200 [] (utf8 body)"

definition github_net :: social_net where
  "github_net = \<lparr>sn_post = (\<lambda>url data. reply_json ''{\"access_token\": \"t\"}''),
     sn_get = (\<lambda>url tok. if url = GITHUB_EMAILS_URL then reply_json ''[{\"email\": \"ann@x\", \"primary\": true, \"verified\": true}]''
                         else reply_json ''{\"id\": 7}''),
     sn_float = (\<lambda>r. [])\<rparr>"

definition github_config :: config where
  "github_config = sample_config\<lparr>cfg_github_client_id := Some ''gid'', cfg_github_client_secret := Some ''gs'',
     cfg_social_link_by_verified_email := True\<rparr>"

definition github_session :: session where
  "github_session = empty_session\<lparr>se_csrf_token := Some ''st'', se_provider := Some ''github''\<rparr>"

definition callback_request :: browse_request where
  "callback_request = \<lparr>br_query = [(''state'', ''st''), (''code'', ''c'')], br_path = ''/auth/callback/github'', br_raw_query = ''state=st&code=c''\<rparr>"

definition disabled_account :: user where
  "disabled_account = \<lparr>user_pk = ''u7'', user_username = ''github:7'', user_password_hash = ''h'', user_email = ''ann@x'', user_enabled = False,
     user_role = ''user'', user_created_at = 0, user_updated_at = 0\<rparr>"

definition github_info :: social_user_info where
  "github_info = \<lparr>si_provider = ''github'', si_provider_user_id = ''7'', si_email = JStr ''ann@x'', si_name = JNull, si_picture = JNull,
     si_email_verified = True\<rparr>"

definition github_rc :: provider_config where
  "github_rc = the (resolve_provider_config github_config ''github'')"

lemma github_exchange: "exchange_code 30 github_net github_rc ''c'' None = Inr (JStr ''t'')"
  by code_simp

lemma github_fetch: "fetch_userinfo 30 github_net github_rc ''t'' = Inr github_info"
  by code_simp

lemma github_checked: "callback_check github_config ''github'' callback_request github_session = Inr (github_rc, ''c'', None)"
  by code_simp

lemma github_provider: "pc_provider github_rc = ''github''"
  by code_simp

lemma github_described:
  assumes "map_of (app_social_breakers st) ''github'' = Some sb_new" "env_recursion e = 30"
  shows "\<exists>bs. guarded_userinfo github_net e github_rc (JStr ''t'') st = (st\<lparr>app_social_breakers := bs\<rparr>, Inr github_info)"
  using assms github_fetch by (auto simp: guarded_userinfo_def github_provider social_str_def py_str_def sb_allow_def sb_new_def Let_def)

text \<open>
  An account that an administrator disabled is still signed in through its provider: only the password
  login and the linking of an address look at \<open>enabled\<close>.
\<close>

theorem disabled_social_account_signs_in:
  "\<exists>st' r. social_callback github_net id github_config (sample_env 0 ''c'') ''github'' callback_request github_session
       (fresh_app ((empty_db Sqlite)\<lparr>db_users := [disabled_account]\<rparr>)) =
     (st', set_login (sample_env 0 ''c'') disabled_account (default_acr github_config) (Some [''fed'']) github_session, r) \<and>
     \<not> user_enabled disabled_account"
proof -
  let ?st = "fresh_app ((empty_db Sqlite)\<lparr>db_users := [disabled_account]\<rparr>)"
  obtain bs where g: "guarded_userinfo github_net (sample_env 0 ''c'') github_rc (JStr ''t'') ?st = (?st\<lparr>app_social_breakers := bs\<rparr>, Inr github_info)"
    using github_described [of ?st "sample_env 0 ''c''"] by (auto simp: fresh_app_def)
  have "get_user_by_username ''github:7'' (app_db ?st) = Some disabled_account"
    by (simp add: get_user_by_username_def fresh_app_def disabled_account_def)
  then have "social_user id github_config (sample_env 0 ''c'') ''github:7'' github_info (app_db ?st) = Inr (app_db ?st, disabled_account)"
    by (simp add: social_user_def)
  then have "social_sign_in id github_config (sample_env 0 ''c'') ''github'' github_info github_session (?st\<lparr>app_social_breakers := bs\<rparr>) =
      (?st\<lparr>app_social_breakers := bs, app_db := app_db ?st\<rparr>,
       set_login (sample_env 0 ''c'') disabled_account (default_acr github_config) (Some [''fed'']) github_session,
       Inr (RedirectTo 302 (if is_safe_redirect (se_return_to github_session) then the (se_return_to github_session) else ''/profile'') []))"
    by (simp add: social_sign_in_def github_info_def)
  moreover have "\<not> user_enabled disabled_account" by (simp add: disabled_account_def)
  ultimately show ?thesis by (simp add: social_callback_def github_checked github_exchange g)
qed

definition accented_user :: "string \<Rightarrow> string \<Rightarrow> user" where
  "accented_user pk email = \<lparr>user_pk = pk, user_username = pk, user_password_hash = ''h'', user_email = email, user_enabled = True,
     user_role = ''user'', user_created_at = 0, user_updated_at = 0\<rparr>"

definition accented_db :: database where
  "accented_db = (empty_db Sqlite)\<lparr>db_users := [accented_user ''u1'' (CHR 0xC9 # ''@x''), accented_user ''u2'' (CHR 0xE9 # ''@x'')]\<rparr>"

text \<open>
  Linking is documented to refuse an address that two local accounts fold to. On SQLite, whose
  \<open>lower()\<close> leaves letters outside ASCII alone, the other account is missing from the candidates, and
  the login is linked to one of the two.
\<close>

theorem ambiguous_address_is_linked:
  "link_by_verified_email github_config (github_info\<lparr>si_email := JStr (CHR 0xE9 # ''@x'')\<rparr>) accented_db =
     Inr (Some (accented_user ''u2'' (CHR 0xE9 # ''@x''))) \<and>
   length (filter (\<lambda>u. fold_email (user_email u) = fold_email (CHR 0xE9 # ''@x'')) (db_users accented_db)) = 2"
  by (rule conjI) code_simp+

theorem social_session_is_vouched_for_witness:
  "\<exists>st' s' r u. social_callback github_net id github_config (sample_env 0 ''c'') ''github'' callback_request github_session (fresh_app (empty_db Sqlite)) =
     (st', s', r) \<and> db_users (app_db st') = [u] \<and> user_role u = ''user'' \<and> user_username u = ''github:7''"
proof -
  let ?st = "fresh_app (empty_db Sqlite)" and ?e = "sample_env 0 ''c''"
  obtain bs where g: "guarded_userinfo github_net ?e github_rc (JStr ''t'') ?st = (?st\<lparr>app_social_breakers := bs\<rparr>, Inr github_info)"
    using github_described [of ?st ?e] by (auto simp: fresh_app_def)
  have none: "get_user_by_username n (app_db ?st) = None" "db_users (app_db ?st) = []" for n
    by (simp_all add: get_user_by_username_def fresh_app_def empty_db_def)
  obtain st' s' r where c: "social_callback github_net id github_config ?e ''github'' callback_request github_session ?st = (st', s', r)"
    by (metis prod_cases3)
  obtain db' u where su: "social_user id github_config ?e ''github:7'' github_info (app_db ?st) = Inr (db', u)"
    using none by (auto simp: social_user_def link_by_verified_email_def github_config_def github_info_def link_candidates_def
        get_users_by_email_def provision_user_def save_user_def sql_insert_def Let_def)
  have s': "s' = set_login ?e u (default_acr github_config) (Some [''fed'']) github_session"
    using c su by (auto simp: social_callback_def github_checked github_exchange g social_sign_in_def github_info_def)
  then have "s' \<noteq> github_session" by (simp add: set_login_def github_session_def empty_session_def)
  from social_session_is_vouched_for [OF c this] obtain rc tok info u' where
      v: "resolve_provider_config github_config ''github'' = Some rc" "exchange_code 30 github_net rc ''c'' (if pc_pkce rc then se_pkce_verifier github_session else None) = Inr tok"
        "fetch_userinfo 30 github_net rc (social_str github_net tok) = Inr info"
        "account_for github_config (app_db ?st) (''github'' @ '':'' @ si_provider_user_id info) info u' (app_db st')"
    by (auto simp: callback_request_def)
  have rc: "rc = github_rc" "\<not> pc_pkce github_rc" using v(1) by (simp add: github_rc_def, code_simp)
  then have "tok = JStr ''t''" using v(2) github_exchange by simp
  then have i: "info = github_info" using v(3) rc github_fetch by (simp add: social_str_def py_str_def)
  have "\<not> linkable github_config (app_db ?st) github_info u'" using none(2) by (simp add: linkable_def)
  then have "user_username u' = ''github:7'' \<and> user_role u' = ''user'' \<and> db_users (app_db st') = [u']"
    using v(4) none unfolding i account_for_def by (auto simp: github_info_def)
  then show ?thesis using c by blast
qed

theorem social_round_trip_accepted_witness:
  "\<exists>s1 q. social_login github_config (sample_env 0 ''c'') ''github'' empty_session = (s1, RedirectTo 302 (pc_authorize_url github_rc @ ''?'' @ q) [])"
proof -
  have "''github'' \<in> set OAUTH_PROVIDERS" "resolve_provider_config github_config ''github'' = Some github_rc"
      "env_urlsafe (sample_env 0 ''c'') 0 \<noteq> []" "env_urlsafe (sample_env 0 ''c'') 1 \<noteq> []"
    by (simp_all add: OAUTH_PROVIDERS_def github_rc_def github_config_def resolve_provider_config_def both_set_def)
  from social_round_trip_accepted [OF this, of empty_session] show ?thesis by blast
qed

end
