(* ===== verification/Logout.thy ===== *)
theory Logout
  imports Login
begin

text \<open>
  OpenID Connect logout (\<open>routes/logout.py\<close>, \<open>GET /oauth/logout\<close>): the verification of the
  \<open>id_token_hint\<close>, the revocation of the user's tokens, the purge of the session, the back-channel
  notifications and the front-channel page. The theorems show whose tokens a logout revokes and on
  what authority, where it may redirect, and that a URL embedded in the page stays inside its script.

  The notifications a logout sends are part of its result. Whether a PEM parses as a private key is
  the parameter \<open>pem_ok\<close>. A handler that raises leaves the session as it was, because the cookie is
  only written with a response.
\<close>

section \<open>The hint\<close>

definition BACKCHANNEL_LOGOUT_TTL_SECS :: int where "BACKCHANNEL_LOGOUT_TTL_SECS = 120"

definition BACKCHANNEL_EVENT :: string where
  "BACKCHANNEL_EVENT = ''http://schemas.openid.net/event/backchannel-logout''"

definition logout_error :: "string \<Rightarrow> web_response" where
  "logout_error description = error_page 400 ''invalid_request'' description"

definition rs256_hint_verify_materials :: "config \<Rightarrow> datetime \<Rightarrow> keyset \<Rightarrow> string option \<Rightarrow> bytes list" where
  "rs256_hint_verify_materials cfg now ks kid =
     (let materials =
            (case (if truthy kid then keyset_find now (the kid) ks else None) of
               Some k \<Rightarrow> if sk_algorithm k = ''RS256'' then [sk_key_material k]
                         else map sk_key_material (active_keys_for_alg now ''RS256'' ks)
             | None \<Rightarrow> map sk_key_material (active_keys_for_alg now ''RS256'' ks))
      in if materials = [] \<and> truthy (cfg_id_token_private_key_pem cfg) then [utf8 (the (cfg_id_token_private_key_pem cfg))]
         else materials)"

definition hint_opts :: "config \<Rightarrow> string \<Rightarrow> decode_opts" where
  "hint_opts cfg alg = \<lparr>do_algorithms = [alg], do_audience = None, do_issuer = Some (cfg_issuer cfg), do_require = [],
     do_verify_aud = False, do_verify_exp = True, do_verify_iat = True\<rparr>"

fun first_verified :: "'k jwt_lib \<Rightarrow> (bytes \<Rightarrow> bool) \<Rightarrow> decode_opts \<Rightarrow> string \<Rightarrow> bytes list \<Rightarrow> claims option" where
  \<comment> \<open>the first key that parses and verifies the hint\<close>
  "first_verified lib pem_ok opts hint [] = None"
| "first_verified lib pem_ok opts hint (m # ms) =
     (if \<not> pem_ok m then first_verified lib pem_ok opts hint ms
      else (case jl_decode lib hint (jl_rsa_public_key lib m) opts of
          Inr cs \<Rightarrow> Some cs
        | Inl _ \<Rightarrow> first_verified lib pem_ok opts hint ms))"

definition decode_hint :: "'k jwt_lib \<Rightarrow> (bytes \<Rightarrow> bool) \<Rightarrow> config \<Rightarrow> datetime \<Rightarrow> keyset \<Rightarrow> string \<Rightarrow> claims option" where
  \<comment> \<open>\<open>None\<close> for \<open>_InvalidHint\<close>\<close>
  "decode_hint lib pem_ok cfg now ks hint =
     (case jl_get_unverified_header lib hint of
        Inl _ \<Rightarrow> None
      | Inr header \<Rightarrow>
          if jget ''alg'' header = JStr ''HS256'' then
            (case jl_decode lib hint (jl_secret_key lib (utf8 (cfg_jwt_secret cfg))) (hint_opts cfg ''HS256'') of
               Inl _ \<Rightarrow> None
             | Inr cs \<Rightarrow> Some cs)
          else if jget ''alg'' header = JStr ''RS256'' then
            first_verified lib pem_ok (hint_opts cfg ''RS256'') hint
              (rs256_hint_verify_materials cfg now ks (case jget ''kid'' header of JStr k \<Rightarrow> Some k | _ \<Rightarrow> None))
          else None)"

definition extract_audiences :: "claims \<Rightarrow> string list" where
  "extract_audiences cs =
     (case jget ''aud'' cs of
        JStr a \<Rightarrow> [a]
      | JArr xs \<Rightarrow> map jstr_of (filter is_jstr xs)
      | _ \<Rightarrow> [])"

definition hint_subject :: "'k jwt_lib \<Rightarrow> (bytes \<Rightarrow> bool) \<Rightarrow> config \<Rightarrow> env \<Rightarrow> string option \<Rightarrow> app_state \<Rightarrow> web_response + string option" where
  \<comment> \<open>the first step: the user a hint names, whose tokens are then revoked\<close>
  "hint_subject lib pem_ok cfg e hint st =
     (if \<not> truthy hint then Inr None
      else (case decode_hint lib pem_ok cfg (env_now e) (app_keyset st) (the hint) of
          None \<Rightarrow> Inl (logout_error ''invalid id_token_hint'')
        | Some cs \<Rightarrow>
            if extract_audiences cs \<noteq> [] \<and> \<not> list_ex (\<lambda>a. get_client a (app_db st) \<noteq> None) (extract_audiences cs)
            then Inl (logout_error ''id_token_hint aud does not match a registered client'')
            else (case jget ''sub'' cs of JStr sub \<Rightarrow> Inr (if sub \<noteq> [] then Some sub else None) | _ \<Rightarrow> Inr None)))"


section \<open>Redirects\<close>

definition append_state :: "string \<Rightarrow> string option \<Rightarrow> string" where
  "append_state uri state =
     (case state of
        None \<Rightarrow> uri
      | Some v \<Rightarrow> uri @ (if CHR ''?'' \<in> set uri then ''&'' else ''?'') @ ''state='' @ quote v)"

definition client_lists_uri :: "nat \<Rightarrow> string \<Rightarrow> client \<Rightarrow> bool outcome" where
  "client_lists_uri lvl uri c =
     bind_res (get_post_logout_redirect_uris lvl c) (\<lambda>v. bind_res (py_in uri v) (\<lambda>found.
       if found then Inr True else bind_res (redirect_uri_list lvl c) (py_in uri)))"

fun any_lists_uri :: "nat \<Rightarrow> string \<Rightarrow> client list \<Rightarrow> bool outcome" where
  "any_lists_uri lvl uri [] = Inr False"
| "any_lists_uri lvl uri (c # cs) =
     bind_res (client_lists_uri lvl uri c) (\<lambda>found. if found then Inr True else any_lists_uri lvl uri cs)"

definition validate_post_logout_redirect_uri :: "nat \<Rightarrow> string \<Rightarrow> client list \<Rightarrow> string option outcome" where
  \<comment> \<open>the error description, or \<open>None\<close>\<close>
  "validate_post_logout_redirect_uri lvl uri clients =
     (case urlsplit uri of
        None \<Rightarrow> Inl (PyError ''ValueError'')
      | Some r \<Rightarrow>
          if sr_scheme r = [] \<or> sr_netloc r = [] then Inr (Some ''Invalid post_logout_redirect_uri'')
          else if sr_scheme r \<notin> {''http'', ''https''} then Inr (Some ''post_logout_redirect_uri must use http or https'')
          else if sr_fragment r \<noteq> [] then Inr (Some ''post_logout_redirect_uri must not contain a fragment'')
          else bind_res (any_lists_uri lvl uri clients) (\<lambda>found.
            Inr (if found then None else Some ''Unregistered post_logout_redirect_uri'')))"

definition logout_redirect :: "nat \<Rightarrow> browse_request \<Rightarrow> client list \<Rightarrow> (web_response + string option) outcome" where
  "logout_redirect lvl rq clients =
     (let uri = map_of (br_query rq) ''post_logout_redirect_uri''
      in if \<not> truthy uri then Inr (Inr None)
         else bind_res (validate_post_logout_redirect_uri lvl (the uri) clients) (\<lambda>err.
           Inr (case err of
             Some d \<Rightarrow> Inl (logout_error d)
           | None \<Rightarrow> Inr (Some (append_state (the uri) (map_of (br_query rq) ''state''))))))"


section \<open>Back channel\<close>

definition logout_claims :: "config \<Rightarrow> env \<Rightarrow> string \<Rightarrow> client \<Rightarrow> string option \<Rightarrow> string option \<Rightarrow> claims" where
  "logout_claims cfg e jti c sub sid =
     (let now = timestamp_int (env_now e)
      in [(''iss'', JStr (cfg_issuer cfg)), (''aud'', JStr (client_client_id c)), (''iat'', JInt now),
          (''exp'', JInt (now + BACKCHANNEL_LOGOUT_TTL_SECS)), (''jti'', JStr jti), (''events'', JObj [(BACKCHANNEL_EVENT, JObj [])])] @
         opt_member ''sub'' JStr sub @ opt_member ''sid'' JStr sid)"

definition dispatch_backchannel_logout ::
  "'k jwt_lib \<Rightarrow> config \<Rightarrow> env \<Rightarrow> string \<Rightarrow> client \<Rightarrow> string option \<Rightarrow> string option \<Rightarrow> (string \<times> string) list" where
  \<comment> \<open>the POST that is sent, if the token can be encoded; what becomes of it is ignored\<close>
  "dispatch_backchannel_logout lib cfg e jti c sub sid =
     (case jl_encode lib (logout_claims cfg e jti c sub sid) (utf8 (cfg_jwt_secret cfg)) ''HS256'' [(''typ'', JStr ''logout+JWT'')] of
        Inl _ \<Rightarrow> []
      | Inr tok \<Rightarrow> [(client_backchannel_logout_uri c, ''logout_token='' @ tok)])"

definition token_sid :: "string option \<Rightarrow> client \<Rightarrow> string option" where
  "token_sid sid c = (if client_backchannel_logout_session_required c \<and> truthy sid then sid else None)"

definition backchannel_targets :: "string option \<Rightarrow> string option \<Rightarrow> client list \<Rightarrow> client list" where
  "backchannel_targets sub sid clients =
     filter (\<lambda>c. client_backchannel_logout_uri c \<noteq> [] \<and> \<not> (sub = None \<and> token_sid sid c = None)) clients"

definition backchannel_posts ::
  "'k jwt_lib \<Rightarrow> config \<Rightarrow> env \<Rightarrow> string option \<Rightarrow> string option \<Rightarrow> client list \<Rightarrow> (string \<times> string) list" where
  "backchannel_posts lib cfg e sub sid clients =
     concat (map (\<lambda>(i, c). dispatch_backchannel_logout lib cfg e (env_uuid e i) c sub (token_sid sid c))
       (enumerate 0 (backchannel_targets sub sid clients)))"


section \<open>Front channel\<close>

definition script_literal :: "string \<Rightarrow> string" where
  "script_literal url = replace_char (CHR ''/'') [CHR 0x5C, CHR ''/''] (replace_char (CHR ''<'') (CHR 0x5C # ''u003c'') (dump_str url))"

definition redirect_script :: "string \<Rightarrow> string" where
  "redirect_script url =
     ''<script>setTimeout(function(){ window.location.href = '' @ script_literal url @ ''; }, 2000);</script>''"

definition logout_iframe :: "string \<Rightarrow> string option \<Rightarrow> client \<Rightarrow> string" where
  "logout_iframe issuer sid c =
     (let src = client_frontchannel_logout_uri c @ ''?iss='' @ quote issuer @
                (if client_frontchannel_logout_session_required c \<and> truthy sid then ''&sid='' @ quote (the sid) else [])
      in ''<iframe src='' @ dquoted (html_escape src) @ '' style='' @ dquoted ''display:none'' @
         '' sandbox='' @ dquoted ''allow-scripts allow-same-origin'' @ ''></iframe>'')"

definition render_frontchannel_page :: "client list \<Rightarrow> string \<Rightarrow> string option \<Rightarrow> string option \<Rightarrow> string" where
  "render_frontchannel_page clients issuer sid redirect_url =
     ''<!doctype html><html><body><p>Logging out...</p>'' @ concat (map (logout_iframe issuer sid) clients) @
     (if truthy redirect_url then redirect_script (the redirect_url) else []) @ ''</body></html>''"


section \<open>GET /oauth/logout\<close>

definition logout_page :: "config \<Rightarrow> client list \<Rightarrow> string option \<Rightarrow> string option \<Rightarrow> web_response" where
  "logout_page cfg clients sid redirect_url =
     (let fc = filter (\<lambda>c. client_frontchannel_logout_uri c \<noteq> []) clients
      in if fc \<noteq> [] then HtmlPage 200 (render_frontchannel_page fc (cfg_issuer cfg) sid redirect_url) []
         else if truthy redirect_url then RedirectTo 302 (the redirect_url) []
         else JsonPage 200 (JObj [(''status'', JStr ''logged_out'')]))"

definition logout ::
  "'k jwt_lib \<Rightarrow> (bytes \<Rightarrow> bool) \<Rightarrow> config \<Rightarrow> env \<Rightarrow> browse_request \<Rightarrow> session \<Rightarrow> app_state \<Rightarrow> (string \<times> string) list \<times> browsed" where
  \<comment> \<open>no session ever holds a \<open>session_id\<close>, so \<open>sid\<close> is the query parameter\<close>
  "logout lib pem_ok cfg e rq s st =
     (let sid = (if truthy (map_of (br_query rq) ''sid'') then map_of (br_query rq) ''sid'' else None)
      in case hint_subject lib pem_ok cfg e (map_of (br_query rq) ''id_token_hint'') st of
           Inl page \<Rightarrow> ([], st, s, Inr page)
         | Inr sub \<Rightarrow>
             (let st1 = (case sub of None \<Rightarrow> st | Some u \<Rightarrow> st\<lparr>app_db := snd (revoke_tokens_by_user_id u (app_db st))\<rparr>);
                  clients = list_all_clients (app_db st1); posts = backchannel_posts lib cfg e sub sid clients
              in case logout_redirect (env_recursion e) rq clients of
                   Inl x \<Rightarrow> (posts, st1, s, Inl x)
                 | Inr (Inl page) \<Rightarrow> (posts, st1, empty_session, Inr page)
                 | Inr (Inr redirect_url) \<Rightarrow> (posts, st1, empty_session, Inr (logout_page cfg clients sid redirect_url))))"


section \<open>Whose tokens are revoked\<close>

definition hint_verified :: "'k jwt_lib \<Rightarrow> (bytes \<Rightarrow> bool) \<Rightarrow> config \<Rightarrow> datetime \<Rightarrow> keyset \<Rightarrow> string \<Rightarrow> claims \<Rightarrow> bool" where
  \<comment> \<open>the hint verifies under the server's secret or one of its RSA keys, for this issuer, with the algorithm of that key\<close>
  "hint_verified lib pem_ok cfg now ks hint cs \<longleftrightarrow>
     jl_decode lib hint (jl_secret_key lib (utf8 (cfg_jwt_secret cfg))) (hint_opts cfg ''HS256'') = Inr cs \<or>
     (\<exists>m. (m \<in> sk_key_material ` {k \<in> set ks. sk_algorithm k = ''RS256'' \<and> key_is_active now k} \<or>
           active_keys_for_alg now ''RS256'' ks = [] \<and> cfg_id_token_private_key_pem cfg \<noteq> None \<and> m = utf8 (the (cfg_id_token_private_key_pem cfg))) \<and>
        pem_ok m \<and> jl_decode lib hint (jl_rsa_public_key lib m) (hint_opts cfg ''RS256'') = Inr cs)"

lemma first_verified_Some:
  "first_verified lib pem_ok opts hint ms = Some cs \<Longrightarrow> \<exists>m \<in> set ms. pem_ok m \<and> jl_decode lib hint (jl_rsa_public_key lib m) opts = Inr cs"
  by (induction ms) (auto split: if_split_asm sum.split_asm)

lemma hint_materials:
  assumes "m \<in> set (rs256_hint_verify_materials cfg now ks kid)"
  shows "m \<in> sk_key_material ` {k \<in> set ks. sk_algorithm k = ''RS256'' \<and> key_is_active now k} \<or>
    active_keys_for_alg now ''RS256'' ks = [] \<and> cfg_id_token_private_key_pem cfg \<noteq> None \<and> m = utf8 (the (cfg_id_token_private_key_pem cfg))"
proof -
  have "k \<in> set ks" "key_is_active now k" if "keyset_find now i ks = Some k" for i k
    using that by (auto simp: keyset_find_def find_Some_iff)
  then show ?thesis
    using assms by (auto simp: rs256_hint_verify_materials_def active_keys_for_alg_def Let_def split: if_split_asm option.split_asm elim!: truthyE)
qed

lemma decode_hint_verified:
  assumes "decode_hint lib pem_ok cfg now ks hint = Some cs"
  shows "hint_verified lib pem_ok cfg now ks hint cs"
  using assms hint_materials
  by (fastforce simp: decode_hint_def hint_verified_def split: sum.split_asm if_split_asm dest!: first_verified_Some)

lemma logout_db:
  assumes "logout lib pem_ok cfg e rq s st = (posts, st', s', r)"
  shows "app_db st' = app_db st \<or> (\<exists>u. hint_subject lib pem_ok cfg e (map_of (br_query rq) ''id_token_hint'') st = Inr (Some u) \<and>
    app_db st' = snd (revoke_tokens_by_user_id u (app_db st)))"
  using assms by (auto simp: logout_def Let_def split: sum.split_asm option.split_asm)

lemma hint_subject_Some:
  assumes "hint_subject lib pem_ok cfg e h st = Inr (Some u)"
  shows "\<exists>hint cs. h = Some hint \<and> hint_verified lib pem_ok cfg (env_now e) (app_keyset st) hint cs \<and> jget ''sub'' cs = JStr u"
  using assms decode_hint_verified
  by (fastforce simp: hint_subject_def split: if_split_asm option.split_asm json.split_asm elim!: truthyE)

text \<open>
  A logout revokes on the user's own authority: the token table changes only for a hint this server
  signed, under its secret or a key that is still active, and then exactly the tokens of the user the hint
  names are revoked. Every answer but an error page comes with an empty session.
\<close>

theorem logout_revokes_only_its_user:
  assumes "logout lib pem_ok cfg e rq s st = (posts, st', s', Inr page)"
  shows "(app_db st' = app_db st \<or> (\<exists>hint cs u. map_of (br_query rq) ''id_token_hint'' = Some hint \<and>
      hint_verified lib pem_ok cfg (env_now e) (app_keyset st) hint cs \<and> jget ''sub'' cs = JStr u \<and>
      app_db st' = (app_db st)\<lparr>db_tokens := map (\<lambda>t. if token_user_id t = Some u then revoke t else t) (db_tokens (app_db st))\<rparr>)) \<and>
    (is_json_page page \<and> posts = [] \<and> s' = s \<or> s' = empty_session)"
proof -
  have rev: "snd (revoke_tokens_by_user_id u db) = db\<lparr>db_tokens := map (\<lambda>t. if token_user_id t = Some u then revoke t else t) (db_tokens db)\<rparr>" for u db
  proof -
    have "(\<lambda>t. if token_user_id t = Some u \<and> \<not> token_revoked t then revoke t else t) = (\<lambda>t. if token_user_id t = Some u then revoke t else t)"
      by (auto simp: revoke_def intro!: ext)
    then show ?thesis by (simp add: revoke_tokens_by_user_id_def revoke_where_def sql_update_def)
  qed
  have "is_json_page page \<and> posts = [] \<and> s' = s \<or> s' = empty_session"
    using assms
    by (auto simp: logout_def hint_subject_def logout_error_def Let_def split: sum.split_asm option.split_asm if_split_asm json.split_asm)
  moreover have "app_db st' = app_db st \<or> (\<exists>hint cs u. map_of (br_query rq) ''id_token_hint'' = Some hint \<and>
      hint_verified lib pem_ok cfg (env_now e) (app_keyset st) hint cs \<and> jget ''sub'' cs = JStr u \<and>
      app_db st' = (app_db st)\<lparr>db_tokens := map (\<lambda>t. if token_user_id t = Some u then revoke t else t) (db_tokens (app_db st))\<rparr>)"
    using logout_db [OF assms]
  proof
    assume "\<exists>u. hint_subject lib pem_ok cfg e (map_of (br_query rq) ''id_token_hint'') st = Inr (Some u) \<and>
      app_db st' = snd (revoke_tokens_by_user_id u (app_db st))"
    then obtain u where u: "hint_subject lib pem_ok cfg e (map_of (br_query rq) ''id_token_hint'') st = Inr (Some u)"
        "app_db st' = snd (revoke_tokens_by_user_id u (app_db st))" by blast
    from hint_subject_Some [OF u(1)] u(2) show ?thesis unfolding rev by blast
  qed blast
  ultimately show ?thesis by blast
qed


section \<open>Where a logout redirects\<close>

definition uri_listed :: "nat \<Rightarrow> database \<Rightarrow> string \<Rightarrow> bool" where
  \<comment> \<open>some client registered it for logout, or as a redirect URI\<close>
  "uri_listed lvl db uri \<longleftrightarrow>
     (\<exists>c \<in> set (db_clients db). \<exists>v. (get_post_logout_redirect_uris lvl c = Inr v \<or> redirect_uri_list lvl c = Inr v) \<and> py_in uri v = Inr True)"

lemma any_lists_uri_True:
  "any_lists_uri lvl uri cs = Inr True \<Longrightarrow> \<exists>c \<in> set cs. \<exists>v. (get_post_logout_redirect_uris lvl c = Inr v \<or> redirect_uri_list lvl c = Inr v) \<and> py_in uri v = Inr True"
proof (induction cs)
  case (Cons c cs)
  then show ?case by (auto simp: client_lists_uri_def bind_res_Inr_iff split: if_split_asm)
qed simp


section \<open>The embedded URL\<close>

definition script_char :: "char \<Rightarrow> string" where
  "script_char c = replace_char (CHR ''/'') [CHR 0x5C, CHR ''/''] (replace_char (CHR ''<'') (CHR 0x5C # ''u003c'') (escape_char c))"

lemma replace_char_append: "replace_char c r (s @ t) = replace_char c r s @ replace_char c r t"
  by (simp add: replace_char_def)

lemma script_literal_chars: "script_literal url = CHR 0x22 # concat (map script_char url) @ [CHR 0x22]"
proof -
  have "replace_char (CHR ''/'') [CHR 0x5C, CHR ''/''] (replace_char (CHR ''<'') (CHR 0x5C # ''u003c'') (concat (map escape_char url))) =
      concat (map script_char url)"
    by (induction url) (simp_all add: replace_char_append script_char_def, simp add: replace_char_def)
  then show ?thesis by (simp add: script_literal_def dump_str_def replace_char_append) (simp add: replace_char_def)
qed


lemma escape_char_plain: "c \<noteq> CHR ''/'' \<Longrightarrow> c \<noteq> CHR ''<'' \<Longrightarrow> CHR ''/'' \<notin> set (escape_char c) \<and> CHR ''<'' \<notin> set (escape_char c)"
proof -
  assume c: "c \<noteq> CHR ''/''" "c \<noteq> CHR ''<''"
  have "list_all (\<lambda>n. hex_char n \<noteq> CHR ''/'' \<and> hex_char n \<noteq> CHR ''<'') [0..<16]" by code_simp
  then have hex: "hex_char n \<noteq> CHR ''/'' \<and> hex_char n \<noteq> CHR ''<''" if "n < 16" for n using that by (simp add: list_all_iff)
  have "(of_char c :: nat) div 16 < 16" "(of_char c :: nat) mod 16 < 16" using of_char_less_256 [of c] by (simp_all add: less_mult_imp_div_less)
  then show ?thesis using c hex [of "of_char c div 16"] hex [of "of_char c mod 16"] by (auto simp: escape_char_def Let_def)
qed

lemma replace_char_absent: "c \<notin> set s \<Longrightarrow> replace_char c r s = s"
  by (induction s) (auto simp: replace_char_def)

lemma script_char_cases:
  "script_char c = (if c = CHR ''/'' then [CHR 0x5C, CHR ''/''] else if c = CHR ''<'' then CHR 0x5C # ''u003c'' else escape_char c)"
proof -
  have "script_char (CHR ''/'') = [CHR 0x5C, CHR ''/'']" "script_char (CHR ''<'') = CHR 0x5C # ''u003c''" by code_simp+
  then show ?thesis using escape_char_plain [of c] by (simp add: script_char_def replace_char_absent)
qed

lemma scanstring_script_char: "scanstring (script_char c @ r) = jcons c (scanstring r)"
proof -
  have "scan_escape (''u003c'' @ r) = Some (CHR ''<'', r)"
    using hex4_00 [of 60] char_of_char [of "CHR ''<''"] by (simp add: scan_escape_def hex_char_def)
  moreover have "scan_escape (CHR ''/'' # r) = Some (CHR ''/'', r)" by (simp add: scan_escape_def json_escape_def)
  ultimately show ?thesis by (simp add: script_char_cases scanstring_escape_char)
qed

text \<open>
  The URL in the page's script cannot leave its string literal: the literal contains no \<open><\<close>, hence no
  closing tag, and read as a JSON string it is the URL again, whatever the URL contains.
\<close>

theorem script_literal_holds_its_url:
  "CHR ''<'' \<notin> set (script_literal url) \<and> json_loads lvl (script_literal url) = Inr (JStr url)"
proof
  have "CHR ''<'' \<notin> set (script_char c)" for c using escape_char_plain [of c] by (auto simp: script_char_cases)
  then show "CHR ''<'' \<notin> set (script_literal url)" by (auto simp: script_literal_chars)
  have "scanstring (concat (map script_char url) @ [CHR 0x22]) = Inr (url, [])"
    by (induction url) (simp_all add: scanstring_script_char)
  moreover have "0 < json_fuel (script_literal url)" by (simp add: json_fuel_def)
  ultimately show "json_loads lvl (script_literal url) = Inr (JStr url)"
    by (cases "json_fuel (script_literal url)") (simp_all add: json_loads_def script_literal_chars json_ws_def skip_ws_def)
qed


section \<open>Every way out\<close>

definition registered_target :: "nat \<Rightarrow> browse_request \<Rightarrow> database \<Rightarrow> string \<Rightarrow> bool" where
  \<comment> \<open>the URI of the query with at most its state added; some client registered it, and it is absolute http(s) without fragment\<close>
  "registered_target lvl rq db url \<longleftrightarrow>
     (\<exists>uri r. map_of (br_query rq) ''post_logout_redirect_uri'' = Some uri \<and> url = append_state uri (map_of (br_query rq) ''state'') \<and>
        uri_listed lvl db uri \<and> urlsplit uri = Some r \<and> sr_scheme r \<in> {''http'', ''https''} \<and> sr_netloc r \<noteq> [] \<and> sr_fragment r = [])"

definition frontchannel_body :: "config \<Rightarrow> string option \<Rightarrow> client list \<Rightarrow> string \<Rightarrow> string \<Rightarrow> bool" where
  \<comment> \<open>a page of one hidden frame per client with a front-channel URI, followed by the given script\<close>
  "frontchannel_body cfg sid cs script body \<longleftrightarrow>
     (\<exists>fc. set fc = {c \<in> set cs. client_frontchannel_logout_uri c \<noteq> []} \<and> fc \<noteq> [] \<and>
        body = ''<!doctype html><html><body><p>Logging out...</p>'' @ concat (map (logout_iframe (cfg_issuer cfg) sid) fc) @ script @ ''</body></html>'')"

lemma logout_redirect_registered:
  assumes "logout_redirect lvl rq cs = Inr (Inr (Some url))" and "set cs = set (db_clients db)"
  shows "registered_target lvl rq db url"
proof -
  obtain uri where u: "map_of (br_query rq) ''post_logout_redirect_uri'' = Some uri" "url = append_state uri (map_of (br_query rq) ''state'')"
      "validate_post_logout_redirect_uri lvl uri cs = Inr None"
    using assms(1) by (auto simp: logout_redirect_def bind_res_Inr_iff Let_def split: if_split_asm option.split_asm elim!: truthyE)
  then show ?thesis
    using any_lists_uri_True [of lvl uri cs] assms(2)
    by (auto simp: registered_target_def validate_post_logout_redirect_uri_def uri_listed_def bind_res_Inr_iff split: option.split_asm if_split_asm)
qed

lemma logout_ends:
  assumes "logout lib pem_ok cfg e rq s st = (posts, st', s', Inr page)" and "\<not> is_json_page page"
  obtains ru where "logout_redirect (env_recursion e) rq (list_all_clients (app_db st')) = Inr (Inr ru)"
    "page = logout_page cfg (list_all_clients (app_db st')) (if truthy (map_of (br_query rq) ''sid'') then map_of (br_query rq) ''sid'' else None) ru"
  using assms by (auto simp: logout_def logout_redirect_def logout_error_def error_page_def hint_subject_def bind_res_Inr_iff Let_def
      split: sum.split_asm option.split_asm if_split_asm json.split_asm)

text \<open>
  C35. A logout leads only where a client asked for. If the answer is a redirect, its target is the URI of the
  query, which some client registered and which is absolute http or https without a fragment, with at
  most the caller's state added. If the answer is the front-channel page, it consists of the hidden frames
  of the clients with a front-channel URI and at most one script, which sends the browser to such a target:
  the literal in the script reads as exactly that URL and cannot close the script element.
\<close>

theorem logout_redirects_only_to_registered:
  assumes "logout lib pem_ok cfg e rq s st = (posts, st', s', Inr page)"
  shows "case page of
      RedirectTo code url hs \<Rightarrow> registered_target (env_recursion e) rq (app_db st) url
    | HtmlPage code body hs \<Rightarrow>
        (\<exists>script. frontchannel_body cfg (if truthy (map_of (br_query rq) ''sid'') then map_of (br_query rq) ''sid'' else None)
            (db_clients (app_db st)) script body \<and>
           (script = [] \<or>
            (\<exists>url lit. registered_target (env_recursion e) rq (app_db st) url \<and>
               script = ''<script>setTimeout(function(){ window.location.href = '' @ lit @ ''; }, 2000);</script>'' \<and>
               CHR ''<'' \<notin> set lit \<and> (\<forall>lvl. json_loads lvl lit = Inr (JStr url)))))
    | JsonPage code body \<Rightarrow> True"
proof (cases "is_json_page page")
  case True
  then show ?thesis by (cases page) (simp_all add:)
next
  case False
  let ?cs = "list_all_clients (app_db st')" and ?sid = "if truthy (map_of (br_query rq) ''sid'') then map_of (br_query rq) ''sid'' else None"
  have cl: "set ?cs = set (db_clients (app_db st))"
    using logout_db [OF assms] by (auto simp: list_all_clients_def revoke_tokens_by_user_id_def revoke_where_def order_by_def)
  obtain ru where ru: "logout_redirect (env_recursion e) rq ?cs = Inr (Inr ru)" "page = logout_page cfg ?cs ?sid ru"
    using logout_ends [OF assms False] .
  have reg: "ru = Some url \<Longrightarrow> registered_target (env_recursion e) rq (app_db st) url" for url
    using logout_redirect_registered [OF _ cl] ru(1) by simp
  show ?thesis
  proof (cases "filter (\<lambda>c. client_frontchannel_logout_uri c \<noteq> []) ?cs = []")
    case True
    then show ?thesis using ru(2) reg False by (auto simp: logout_page_def Let_def elim!: truthyE split: if_split_asm)
  next
    case fc: False
    let ?script = "if truthy ru then redirect_script (the ru) else []"
    have "frontchannel_body cfg ?sid (db_clients (app_db st)) ?script (render_frontchannel_page (filter (\<lambda>c. client_frontchannel_logout_uri c \<noteq> []) ?cs) (cfg_issuer cfg) ?sid ru)"
      using fc cl unfolding frontchannel_body_def render_frontchannel_page_def
      by (intro exI [of _ "filter (\<lambda>c. client_frontchannel_logout_uri c \<noteq> []) ?cs"]) auto
    moreover have "?script = [] \<or> (\<exists>url lit. registered_target (env_recursion e) rq (app_db st) url \<and>
        ?script = ''<script>setTimeout(function(){ window.location.href = '' @ lit @ ''; }, 2000);</script>'' \<and>
        CHR ''<'' \<notin> set lit \<and> (\<forall>lvl. json_loads lvl lit = Inr (JStr url)))"
    proof (cases "truthy ru")
      case True
      then obtain url where "ru = Some url" by (auto elim!: truthyE)
      then show ?thesis
        using True reg script_literal_holds_its_url [of url]
        by (intro disjI2 exI [of _ url] exI [of _ "script_literal url"]) (simp add: redirect_script_def)
    qed simp
    ultimately show ?thesis using ru(2) fc by (auto simp: logout_page_def Let_def)
  qed
qed


section \<open>Evaluated logouts\<close>

definition logout_client :: client where
  "logout_client = (mk_client ''1'' ''app'' ''s3cret'' ''[\"https://app/cb\"]'' ''[\"authorization_code\"]'' ''read'' ''App'' 0)
     \<lparr>client_post_logout_redirect_uris := ''[\"https://app/bye\"]''\<rparr>"

definition logout_token_row :: token where
  "logout_token_row = flow_token\<lparr>token_user_id := Some ''u1''\<rparr>"

definition logout_app :: app_state where
  "logout_app = fresh_app ((empty_db Sqlite)\<lparr>db_clients := [logout_client], db_tokens := [logout_token_row]\<rparr>)"

definition hint_lib :: "bytes jwt_lib" where
  \<comment> \<open>a library that verifies one hint, for the user \<open>u1\<close>\<close>
  "hint_lib = plain_lib\<lparr>jl_get_unverified_header := (\<lambda>_. Inr [(''alg'', JStr ''HS256'')]),
     jl_decode := (\<lambda>t _ _. Inr [(''sub'', JStr ''u1''), (''aud'', JStr ''app'')])\<rparr>"

definition logout_request :: browse_request where
  "logout_request = \<lparr>br_query = [(''id_token_hint'', ''h''), (''post_logout_redirect_uri'', ''https://app/bye''), (''state'', ''a b'')],
     br_path = ''/oauth/logout'', br_raw_query = []\<rparr>"

lemma logout_subject: "hint_subject hint_lib (\<lambda>_. True) sample_config (sample_env 0 ''o'') (Some ''h'') logout_app = Inr (Some ''u1'')"
  by (simp add: hint_subject_def decode_hint_def hint_lib_def extract_audiences_def logout_app_def fresh_app_def logout_client_def mk_client_def
      get_client_def jget_def)

lemma logout_validates: "validate_post_logout_redirect_uri 30 ''https://app/bye'' [logout_client] = Inr None"
  by code_simp

lemma logout_runs:
  "\<exists>posts st'. logout hint_lib (\<lambda>_. True) sample_config (sample_env 0 ''o'') logout_request spa_session logout_app =
     (posts, st', empty_session, Inr (RedirectTo 302 ''https://app/bye?state=a%20b'' []))"
proof -
  have "append_state ''https://app/bye'' (Some ''a b'') = ''https://app/bye?state=a%20b''" by code_simp
  then show ?thesis
    using logout_subject logout_validates
    by (simp add: logout_def logout_request_def logout_redirect_def logout_page_def list_all_clients_def order_by_def
        revoke_tokens_by_user_id_def revoke_where_def logout_app_def fresh_app_def Let_def)
       (simp add: logout_client_def mk_client_def)
qed

theorem logout_redirects_only_to_registered_witness:
  "\<exists>posts st'. logout hint_lib (\<lambda>_. True) sample_config (sample_env 0 ''o'') logout_request spa_session logout_app =
     (posts, st', empty_session, Inr (RedirectTo 302 ''https://app/bye?state=a%20b'' [])) \<and>
     registered_target 30 logout_request (app_db logout_app) ''https://app/bye?state=a%20b''"
proof -
  obtain posts st' where l: "logout hint_lib (\<lambda>_. True) sample_config (sample_env 0 ''o'') logout_request spa_session logout_app =
     (posts, st', empty_session, Inr (RedirectTo 302 ''https://app/bye?state=a%20b'' []))" using logout_runs by blast
  have "env_recursion (sample_env 0 ''o'') = 30" by (simp add: sample_env_def)
  with logout_redirects_only_to_registered [OF l] l show ?thesis by auto
qed

theorem logout_revokes_only_its_user_witness:
  "\<exists>posts st' s' page. logout hint_lib (\<lambda>_. True) sample_config (sample_env 0 ''o'') logout_request spa_session logout_app = (posts, st', s', Inr page) \<and>
     s' = empty_session \<and> (app_db st' = app_db logout_app \<or> db_tokens (app_db st') = [revoke logout_token_row])"
proof -
  obtain posts st' where l: "logout hint_lib (\<lambda>_. True) sample_config (sample_env 0 ''o'') logout_request spa_session logout_app =
     (posts, st', empty_session, Inr (RedirectTo 302 ''https://app/bye?state=a%20b'' []))" using logout_runs by blast
  have "jget ''sub'' cs = JStr u \<Longrightarrow> hint_verified hint_lib (\<lambda>_. True) sample_config now ks h cs \<Longrightarrow> u = ''u1''" for cs u now ks h
    by (auto simp: hint_verified_def hint_lib_def jget_def)
  moreover have "db_tokens (app_db logout_app) = [logout_token_row]" "token_user_id logout_token_row = Some ''u1''"
    by (simp_all add: logout_app_def fresh_app_def logout_token_row_def)
  ultimately have "app_db st' = app_db logout_app \<or> db_tokens (app_db st') = [revoke logout_token_row]"
    using logout_revokes_only_its_user [OF l] by auto
  then show ?thesis using l by blast
qed

end
