(* ===== verification/Register.thy ===== *)
theory Register
  imports Jwks_Uri Jar Token_Endpoint
begin

text \<open>
  Dynamic client registration (\<open>POST /connect/register\<close>, \<open>routes/register.py\<close>): the body is validated
  field by field, the row is written with fresh credentials, and the credentials are returned once.
  \<open>registration_lib\<close> stands for the two things the handler takes from elsewhere: pydantic's validation of
  the body against \<open>ClientRegistration\<close>, and how a float in a key set is printed.

  The theorems show what every registered row satisfies, that its returned secret authenticates
  the client, and that an empty key set registers a client nobody can ever authenticate as.
\<close>

record client_registration =
  reg_redirect_uris :: "string list"
  reg_client_name :: string
  reg_grant_types :: "string list"
  reg_response_types :: "string list"
  reg_scope :: string
  reg_token_endpoint_auth_method :: string
  reg_contacts :: "string list"
  reg_logo_uri :: "string option"
  reg_client_uri :: "string option"
  reg_policy_uri :: "string option"
  reg_tos_uri :: "string option"
  reg_jwks :: "json dict option"
  reg_jwks_uri :: "string option"
  reg_tls_client_certificate_subject_dn :: "string option"
  reg_backchannel_logout_uri :: "string option"
  reg_backchannel_logout_session_required :: bool
  reg_frontchannel_logout_uri :: "string option"
  reg_frontchannel_logout_session_required :: bool
  reg_post_logout_redirect_uris :: "string list"

record registration_lib =
  rl_validate :: "json \<Rightarrow> client_registration option"
  rl_float :: "rat \<Rightarrow> string"

definition registration_error :: "string \<Rightarrow> http_response" where
  "registration_error description =
     \<lparr>resp_status = 400, resp_headers = [(''Cache-Control'', ''no-store'')],
      resp_body = JObj [(''error'', JStr ''invalid_client_metadata''), (''error_description'', JStr description)]\<rparr>"

definition request_json :: "nat \<Rightarrow> bytes \<Rightarrow> json option outcome" where
  \<comment> \<open>\<open>await request.json()\<close> with \<open>except (json.JSONDecodeError, ValueError)\<close>\<close>
  "request_json lvl body =
     (case json_text body of
        None \<Rightarrow> Inr None
      | Some s \<Rightarrow>
          (case json_loads lvl s of
             Inr v \<Rightarrow> Inr (Some v)
           | Inl x \<Rightarrow> if x = JSONDecodeError \<or> x = JSONValueError then Inr None else Inl (json_exc x)))"

fun all_valid_uris :: "string list \<Rightarrow> bool outcome" where
  \<comment> \<open>\<open>all(_is_valid_redirect_uri(u) for u in uris)\<close>: the first invalid one ends the loop\<close>
  "all_valid_uris [] = Inr True"
| "all_valid_uris (u # us) = bind_res (is_valid_redirect_uri u) (\<lambda>ok. if ok then all_valid_uris us else Inr False)"

definition optional_uri_ok :: "string option \<Rightarrow> bool outcome" where
  "optional_uri_ok u = (if truthy u then is_valid_redirect_uri (the u) else Inr True)"

definition auth_method_error :: string where
  \<comment> \<open>the methods sorted, as Python prints a list\<close>
  "auth_method_error = ''token_endpoint_auth_method must be one of ['' @
     quoted ''client_secret_basic'' @ '', '' @ quoted ''client_secret_jwt'' @ '', '' @ quoted ''client_secret_post'' @ '', '' @
     quoted ''none'' @ '', '' @ quoted ''private_key_jwt'' @ '', '' @ quoted ''self_signed_tls_client_auth'' @ '', '' @
     quoted ''tls_client_auth'' @ '']''"

definition check_metadata :: "client_registration \<Rightarrow> string option outcome" where
  \<comment> \<open>the checks after the URIs, in the order of the source: what is wrong, if anything\<close>
  "check_metadata reg =
     (let method = reg_token_endpoint_auth_method reg;
          no_keys = (reg_jwks reg = None \<and> \<not> truthy (reg_jwks_uri reg));
          dn = reg_tls_client_certificate_subject_dn reg
      in if method \<notin> set VALID_AUTH_METHODS then Inr (Some auth_method_error)
         else if method = ''private_key_jwt'' \<and> no_keys then Inr (Some ''private_key_jwt requires jwks or jwks_uri'')
         else if method = ''self_signed_tls_client_auth'' \<and> no_keys then Inr (Some SELF_SIGNED_REQUIRES_JWKS_ERROR)
         else if reg_jwks reg \<noteq> None \<and> truthy (reg_jwks_uri reg) then Inr (Some ''jwks and jwks_uri are mutually exclusive'')
         else if truthy dn \<and> py_strip (the dn) = [] then Inr (Some ''tls_client_certificate_subject_dn must not be blank'')
         else bind_res (if truthy (reg_jwks_uri reg) then is_valid_jwks_uri (the (reg_jwks_uri reg)) else Inr True) (\<lambda>ok.
           if \<not> ok then Inr (Some JWKS_URI_ERROR)
           else if method = ''none'' \<and> ''client_credentials'' \<in> set (reg_grant_types reg)
           then Inr (Some ''public clients (token_endpoint_auth_method=none) cannot use the client_credentials grant'')
           else Inr None))"

definition check_registration :: "client_registration \<Rightarrow> string option outcome" where
  "check_registration reg =
     bind_res (if reg_redirect_uris reg = [] then Inr False else all_valid_uris (reg_redirect_uris reg)) (\<lambda>ok.
     if \<not> ok then Inr (Some ''redirect_uris must be a non-empty list of absolute URLs'') else
     bind_res (optional_uri_ok (reg_backchannel_logout_uri reg)) (\<lambda>ok.
     if \<not> ok then Inr (Some ''backchannel_logout_uri must be an absolute http(s) URL without fragment'') else
     bind_res (optional_uri_ok (reg_frontchannel_logout_uri reg)) (\<lambda>ok.
     if \<not> ok then Inr (Some ''frontchannel_logout_uri must be an absolute http(s) URL without fragment'') else
     bind_res (all_valid_uris (reg_post_logout_redirect_uris reg)) (\<lambda>ok.
     if \<not> ok then Inr (Some ''post_logout_redirect_uris must be a list of absolute http(s) URLs without fragment'') else
     check_metadata reg))))"

fun dumps_with :: "(rat \<Rightarrow> string) \<Rightarrow> json \<Rightarrow> string" where
  \<comment> \<open>\<open>json.dumps\<close> of an arbitrary value, floats included\<close>
  "dumps_with fl (JFloat r) = fl r"
| "dumps_with fl (JArr xs) =
     ''['' @ (case map (dumps_with fl) xs of [] \<Rightarrow> [] | y # ys \<Rightarrow> y @ concat (map (\<lambda>z. '', '' @ z) ys)) @ '']''"
| "dumps_with fl (JObj ps) =
     ''{'' @ (case map (\<lambda>(k, v). dump_str k @ '': '' @ dumps_with fl v) ps of
               [] \<Rightarrow> [] | y # ys \<Rightarrow> y @ concat (map (\<lambda>z. '', '' @ z) ys)) @ ''}''"
| "dumps_with fl v = dumps_default v"

definition dumps_list :: "string list \<Rightarrow> string" where
  "dumps_list xs = dumps_default (JArr (map JStr xs))"

definition registered_client :: "registration_lib \<Rightarrow> env \<Rightarrow> client_registration \<Rightarrow> client" where
  \<comment> \<open>a public client draws no secret, so its registration token is the second draw\<close>
  "registered_client rl e reg =
     (let public = (reg_token_endpoint_auth_method reg = ''none'')
      in (mk_client (env_uuid e 0) (env_urlsafe e 0) (if public then [] else env_urlsafe e 1)
            (dumps_list (reg_redirect_uris reg)) (dumps_list (reg_grant_types reg)) (reg_scope reg) (reg_client_name reg) (env_now e))
         \<lparr>client_response_types := dumps_list (reg_response_types reg),
          client_token_endpoint_auth_method := reg_token_endpoint_auth_method reg,
          client_registration_access_token := env_urlsafe e (if public then 1 else 2),
          client_contacts := dumps_list (reg_contacts reg),
          client_backchannel_logout_uri := or_str (reg_backchannel_logout_uri reg) [],
          client_backchannel_logout_session_required := reg_backchannel_logout_session_required reg,
          client_frontchannel_logout_uri := or_str (reg_frontchannel_logout_uri reg) [],
          client_frontchannel_logout_session_required := reg_frontchannel_logout_session_required reg,
          client_post_logout_redirect_uris := dumps_list (reg_post_logout_redirect_uris reg),
          client_jwks := (case reg_jwks reg of Some (p # ps) \<Rightarrow> dumps_with (rl_float rl) (JObj (p # ps)) | _ \<Rightarrow> []),
          client_jwks_uri := or_str (reg_jwks_uri reg) [],
          client_tls_client_certificate_subject_dn := or_str (reg_tls_client_certificate_subject_dn reg) [],
          client_enabled := True\<rparr>)"

definition registration_response :: "config \<Rightarrow> client_registration \<Rightarrow> client \<Rightarrow> json" where
  \<comment> \<open>\<open>ClientRegistrationResponse(...).model_dump(exclude_none=True)\<close>\<close>
  "registration_response cfg reg c =
     (let strings = (\<lambda>xs. JArr (map JStr xs))
      in JObj ([(''client_id'', JStr (client_client_id c))] @
         (if is_public c then [] else [(''client_secret'', JStr (client_client_secret c))]) @
         [(''client_id_issued_at'', JInt (timestamp_int (client_created_at c)))] @
         (if is_public c then [] else [(''client_secret_expires_at'', JInt 0)]) @
         [(''registration_access_token'', JStr (client_registration_access_token c)),
          (''registration_client_uri'', JStr (cfg_issuer cfg @ ''/connect/register/'' @ client_client_id c)),
          (''redirect_uris'', strings (reg_redirect_uris reg)), (''grant_types'', strings (reg_grant_types reg)),
          (''response_types'', strings (reg_response_types reg)),
          (''token_endpoint_auth_method'', JStr (reg_token_endpoint_auth_method reg)),
          (''client_name'', JStr (reg_client_name reg)), (''scope'', JStr (reg_scope reg))] @
         opt_member ''jwks'' JObj (reg_jwks reg) @ opt_member ''jwks_uri'' JStr (reg_jwks_uri reg) @
         opt_member ''tls_client_certificate_subject_dn'' JStr (reg_tls_client_certificate_subject_dn reg) @
         opt_member ''backchannel_logout_uri'' JStr (reg_backchannel_logout_uri reg) @
         [(''backchannel_logout_session_required'', JBool (reg_backchannel_logout_session_required reg))] @
         opt_member ''frontchannel_logout_uri'' JStr (reg_frontchannel_logout_uri reg) @
         [(''frontchannel_logout_session_required'', JBool (reg_frontchannel_logout_session_required reg)),
          (''post_logout_redirect_uris'', strings (reg_post_logout_redirect_uris reg))]))"

definition store_registration ::
  "registration_lib \<Rightarrow> config \<Rightarrow> env \<Rightarrow> client_registration \<Rightarrow> app_state \<Rightarrow> handled" where
  \<comment> \<open>from the draw of the credentials on\<close>
  "store_registration rl cfg e reg st =
     (let c = registered_client rl e reg
      in case save_client c (app_db st) of
           Inl x \<Rightarrow> (st, Inl x)
         | Inr db \<Rightarrow>
             (emit_event ''client_registered'' ''info'' None (Some (client_client_id c))
                [(''client_name'', reg_client_name reg), (''scope'', reg_scope reg)] (st\<lparr>app_db := db\<rparr>),
              Inr \<lparr>resp_status = 201, resp_headers = [(''Cache-Control'', ''no-store'')],
                   resp_body = registration_response cfg reg c\<rparr>))"

definition register_client ::
  "registration_lib \<Rightarrow> config \<Rightarrow> env \<Rightarrow> bytes \<Rightarrow> app_state \<Rightarrow> handled" where
  "register_client rl cfg e body st =
     (if \<not> cfg_dynamic_registration_enabled cfg
      then (st, Inr \<lparr>resp_status = 403, resp_headers = [(''Cache-Control'', ''no-store'')],
                     resp_body = JObj [(''error'', JStr ''access_denied''),
                       (''error_description'', JStr ''dynamic client registration is disabled'')]\<rparr>)
      else (case request_json (env_recursion e) body of
          Inl x \<Rightarrow> (st, Inl x)
        | Inr v \<Rightarrow>
            (case (case v of None \<Rightarrow> None | Some b \<Rightarrow> rl_validate rl b) of
               None \<Rightarrow> (st, Inr (registration_error ''invalid registration request''))
             | Some reg \<Rightarrow>
                 (case check_registration reg of
                    Inl x \<Rightarrow> (st, Inl x)
                  | Inr (Some d) \<Rightarrow> (st, Inr (registration_error d))
                  | Inr None \<Rightarrow> store_registration rl cfg e reg st))))"


definition sample_validate :: "json \<Rightarrow> client_registration option" where
  \<comment> \<open>a validator for the examples: three members, the others at their defaults\<close>
  "sample_validate v =
     (case v of
        JObj ps \<Rightarrow>
          (case (jget ''redirect_uris'' ps, jget ''token_endpoint_auth_method'' ps, jget ''jwks'' ps) of
             (JArr us, JStr m, k) \<Rightarrow> Some
               \<lparr>reg_redirect_uris = map jstr_of us, reg_client_name = [], reg_grant_types = [''authorization_code''],
                reg_response_types = [''code''], reg_scope = [], reg_token_endpoint_auth_method = m, reg_contacts = [],
                reg_logo_uri = None, reg_client_uri = None, reg_policy_uri = None, reg_tos_uri = None,
                reg_jwks = (case k of JObj ks \<Rightarrow> Some ks | _ \<Rightarrow> None), reg_jwks_uri = None,
                reg_tls_client_certificate_subject_dn = None, reg_backchannel_logout_uri = None,
                reg_backchannel_logout_session_required = False, reg_frontchannel_logout_uri = None,
                reg_frontchannel_logout_session_required = False, reg_post_logout_redirect_uris = []\<rparr>
           | _ \<Rightarrow> None)
      | _ \<Rightarrow> None)"

definition sample_rl :: registration_lib where
  "sample_rl = \<lparr>rl_validate = sample_validate, rl_float = (\<lambda>_. ''0.5'')\<rparr>"

definition sample_json :: "string \<Rightarrow> bool \<Rightarrow> json" where
  "sample_json m keys = JObj [(''redirect_uris'', JArr [JStr ''https://app.example/cb'']),
     (''token_endpoint_auth_method'', JStr m), (''jwks'', if keys then JObj [] else JNull)]"

definition sample_registered :: "string \<Rightarrow> bool \<Rightarrow> handled" where
  "sample_registered m keys = register_client sample_rl sample_config (sample_env 0 ''r'')
     (utf8 (dumps_default (sample_json m keys))) (fresh_app (empty_db Sqlite))"


section \<open>What a registered client satisfies\<close>

lemma all_valid_uris_True: "all_valid_uris us = Inr True \<Longrightarrow> u \<in> set us \<Longrightarrow> is_valid_redirect_uri u = Inr True"
  by (induction us) (auto simp: bind_res_Inr_iff split: if_splits)

lemma check_registration_uris:
  assumes "check_registration reg = Inr None"
  shows "reg_redirect_uris reg \<noteq> []" "all_valid_uris (reg_redirect_uris reg) = Inr True"
    "all_valid_uris (reg_post_logout_redirect_uris reg) = Inr True" "check_metadata reg = Inr None"
  using assms by (auto simp: check_registration_def bind_res_Inr_iff split: if_splits)

definition web_url :: "string \<Rightarrow> bool" where
  \<comment> \<open>an absolute http(s) URL without a fragment\<close>
  "web_url u \<longleftrightarrow> (\<exists>p. urlsplit u = Some p \<and> sr_scheme p \<in> {''http'', ''https''} \<and> sr_netloc p \<noteq> [] \<and> sr_fragment p = [] \<and> \<not> ends_with ''#'' u)"

definition opt_holds :: "('a list \<Rightarrow> bool) \<Rightarrow> 'a list option \<Rightarrow> bool" where
  \<comment> \<open>an optional member that is given and not empty satisfies \<open>P\<close>\<close>
  "opt_holds P x \<longleftrightarrow> (\<forall>u. x = Some u \<longrightarrow> u = [] \<or> P u)"

definition metadata_ok :: "client_registration \<Rightarrow> bool" where
  \<comment> \<open>what the registration endpoint asks of client metadata\<close>
  "metadata_ok reg \<longleftrightarrow>
     reg_redirect_uris reg \<noteq> [] \<and> list_all web_url (reg_redirect_uris reg) \<and>
     opt_holds web_url (reg_backchannel_logout_uri reg) \<and> opt_holds web_url (reg_frontchannel_logout_uri reg) \<and>
     list_all web_url (reg_post_logout_redirect_uris reg) \<and>
     reg_token_endpoint_auth_method reg \<in> set VALID_AUTH_METHODS \<and>
     (reg_token_endpoint_auth_method reg \<in> {''private_key_jwt'', ''self_signed_tls_client_auth''} \<longrightarrow>
        reg_jwks reg \<noteq> None \<or> (\<exists>u. reg_jwks_uri reg = Some u \<and> u \<noteq> [])) \<and>
     (reg_jwks reg \<noteq> None \<longrightarrow> opt_holds (\<lambda>_. False) (reg_jwks_uri reg)) \<and>
     opt_holds (\<lambda>dn. \<not> list_all py_isspace dn) (reg_tls_client_certificate_subject_dn reg) \<and>
     opt_holds (\<lambda>u. is_valid_jwks_uri u = Inr True) (reg_jwks_uri reg) \<and>
     (reg_token_endpoint_auth_method reg = ''none'' \<longrightarrow> ''client_credentials'' \<notin> set (reg_grant_types reg))"

lemma valid_redirect_uri_web_url: "is_valid_redirect_uri u = Inr True \<Longrightarrow> web_url u"
  by (auto simp: is_valid_redirect_uri_def web_url_def split: option.splits)

lemma all_valid_uris_web_url: "all_valid_uris us = Inr True \<Longrightarrow> list_all web_url us"
  by (auto simp: list_all_iff dest: all_valid_uris_True valid_redirect_uri_web_url)

lemma optional_uri_ok_web_url: "optional_uri_ok u = Inr True \<Longrightarrow> opt_holds web_url u"
  by (auto simp: optional_uri_ok_def opt_holds_def truthy_def dest: valid_redirect_uri_web_url split: if_splits)

lemma check_metadata_None:
  assumes "check_metadata reg = Inr None"
  shows "reg_token_endpoint_auth_method reg \<in> set VALID_AUTH_METHODS"
    "reg_token_endpoint_auth_method reg \<in> {''private_key_jwt'', ''self_signed_tls_client_auth''} \<Longrightarrow>
       reg_jwks reg \<noteq> None \<or> truthy (reg_jwks_uri reg)"
    "truthy (reg_jwks_uri reg) \<Longrightarrow> is_valid_jwks_uri (the (reg_jwks_uri reg)) = Inr True"
    "reg_token_endpoint_auth_method reg = ''none'' \<Longrightarrow> ''client_credentials'' \<notin> set (reg_grant_types reg)"
    "reg_jwks reg \<noteq> None \<Longrightarrow> \<not> truthy (reg_jwks_uri reg)"
    "truthy (reg_tls_client_certificate_subject_dn reg) \<Longrightarrow> py_strip (the (reg_tls_client_certificate_subject_dn reg)) \<noteq> []"
  using assms by (auto simp: check_metadata_def Let_def bind_res_Inr_iff split: if_splits)

lemma py_strip_blank: "list_all py_isspace s \<Longrightarrow> py_strip s = []"
  by (auto simp: py_strip_def py_lstrip_def py_rstrip_def list_all_iff dest: set_dropWhileD)

lemma check_registration_sound:
  assumes "check_registration reg = Inr None"
  shows "metadata_ok reg"
proof -
  have uris: "optional_uri_ok (reg_backchannel_logout_uri reg) = Inr True" "optional_uri_ok (reg_frontchannel_logout_uri reg) = Inr True"
    using assms by (auto simp: check_registration_def bind_res_Inr_iff split: if_splits)
  note m = check_metadata_None [OF check_registration_uris(4) [OF assms]]
  have "opt_holds (\<lambda>dn. \<not> list_all py_isspace dn) (reg_tls_client_certificate_subject_dn reg)"
    using m(6) by (auto simp: opt_holds_def dest: py_strip_blank)
  moreover have "opt_holds (\<lambda>u. is_valid_jwks_uri u = Inr True) (reg_jwks_uri reg)"
    using m(3) by (fastforce simp: opt_holds_def)
  moreover have "reg_jwks reg \<noteq> None \<longrightarrow> opt_holds (\<lambda>_. False) (reg_jwks_uri reg)" using m(5) by (auto simp: opt_holds_def)
  ultimately show ?thesis
    using m(1,2,4) check_registration_uris [OF assms] uris all_valid_uris_web_url optional_uri_ok_web_url
    unfolding metadata_ok_def by (auto elim!: truthyE)
qed

lemma registered_client_fields [simp]:
  "client_client_id (registered_client rl e reg) = env_urlsafe e 0"
  "client_client_secret (registered_client rl e reg) =
     (if reg_token_endpoint_auth_method reg = ''none'' then [] else env_urlsafe e 1)"
  "client_token_endpoint_auth_method (registered_client rl e reg) = reg_token_endpoint_auth_method reg"
  "client_enabled (registered_client rl e reg)"
  "client_redirect_uris (registered_client rl e reg) = dumps_list (reg_redirect_uris reg)"
  "client_grant_types (registered_client rl e reg) = dumps_list (reg_grant_types reg)"
  "client_scope (registered_client rl e reg) = reg_scope reg"
  "client_jwks_uri (registered_client rl e reg) = or_str (reg_jwks_uri reg) []"
  "client_jwks (registered_client rl e reg) = (case reg_jwks reg of Some (p # ps) \<Rightarrow> dumps_with (rl_float rl) (JObj (p # ps)) | _ \<Rightarrow> [])"
  "client_backchannel_logout_uri (registered_client rl e reg) = or_str (reg_backchannel_logout_uri reg) []"
  "client_frontchannel_logout_uri (registered_client rl e reg) = or_str (reg_frontchannel_logout_uri reg) []"
  "client_post_logout_redirect_uris (registered_client rl e reg) = dumps_list (reg_post_logout_redirect_uris reg)"
  "client_tls_client_certificate_subject_dn (registered_client rl e reg) = or_str (reg_tls_client_certificate_subject_dn reg) []"
  by (simp_all add: registered_client_def mk_client_def Let_def)

lemma save_client_appends:
  assumes "save_client c db = Inr db'"
  shows "db_clients db' = db_clients db @ [c]" "get_client (client_client_id c) db' = Some c"
proof -
  have fresh: "\<not> list_ex (client_clash c) (db_clients db)" and db': "db' = db\<lparr>db_clients := db_clients db @ [c]\<rparr>"
    using assms by (auto simp: save_client_def sql_insert_def split: if_splits)
  show "db_clients db' = db_clients db @ [c]" using db' by simp
  have "find (\<lambda>r. client_client_id r = client_client_id c) (db_clients db) = None"
    using fresh by (auto simp: find_None_iff list_ex_iff client_clash_def)
  then show "get_client (client_client_id c) db' = Some c" using db' by (simp add: get_client_def find_append)
qed


lemma register_client_201:
  assumes "register_client rl cfg e body st = (st', Inr resp)" and "resp_status resp = 201"
  obtains v reg where "cfg_dynamic_registration_enabled cfg" "request_json (env_recursion e) body = Inr (Some v)"
    "rl_validate rl v = Some reg" "check_registration reg = Inr None"
    "save_client (registered_client rl e reg) (app_db st) = Inr (app_db st')"
    "resp_body resp = registration_response cfg reg (registered_client rl e reg)"
proof -
  have on: "cfg_dynamic_registration_enabled cfg"
    using assms by (auto simp: register_client_def split: if_splits)
  obtain v reg where v: "request_json (env_recursion e) body = Inr (Some v)" "rl_validate rl v = Some reg"
    using assms on by (auto simp: register_client_def registration_error_def split: sum.splits option.splits)
  have ok: "check_registration reg = Inr None"
    using assms on v by (auto simp: register_client_def registration_error_def
        split: sum.splits option.splits)
  then have "store_registration rl cfg e reg st = (st', Inr resp)"
    using assms on v by (simp add: register_client_def)
  then have "save_client (registered_client rl e reg) (app_db st) = Inr (app_db st') \<and>
      resp_body resp = registration_response cfg reg (registered_client rl e reg)"
    using assms(2)
    by (auto simp: store_registration_def Let_def emit_event_def split: sum.splits)
  then show ?thesis using that on v ok by blast
qed

definition sample_reg :: "string \<Rightarrow> bool \<Rightarrow> client_registration" where
  "sample_reg m keys = the (sample_validate (sample_json m keys))"

lemma sample_reg_fields:
  "sample_validate (sample_json m keys) = Some (sample_reg m keys)"
  "reg_token_endpoint_auth_method (sample_reg m keys) = m"
  "reg_jwks (sample_reg m keys) = (if keys then Some [] else None)"
  by (simp_all add: sample_reg_def sample_json_def sample_validate_def jget_def)

lemma sample_registered_run:
  assumes "request_json 30 (utf8 (dumps_default (sample_json m keys))) = Inr (Some (sample_json m keys))"
    and "check_registration (sample_reg m keys) = Inr None"
  shows "\<exists>st'. sample_registered m keys = (st', Inr \<lparr>resp_status = 201, resp_headers = [(''Cache-Control'', ''no-store'')],
      resp_body = registration_response sample_config (sample_reg m keys) (registered_client sample_rl (sample_env 0 ''r'') (sample_reg m keys))\<rparr>) \<and>
    app_db st' = (empty_db Sqlite)\<lparr>db_clients := [registered_client sample_rl (sample_env 0 ''r'') (sample_reg m keys)]\<rparr>"
  using assms
  by (simp add: sample_registered_def register_client_def store_registration_def sample_config_def sample_reg_fields
      sample_rl_def save_client_def sql_insert_def fresh_app_def empty_db_def emit_event_def Let_def sample_env_def)

lemma request_json_ascii:
  assumes "json_loads lvl s = Inr v" and "is_ascii s" and "take 2 s = [c, d]" and "(of_char c :: nat) \<noteq> 0" and "(of_char d :: nat) \<noteq> 0"
  shows "request_json lvl (utf8 s) = Inr (Some v)"
proof -
  have "s = c # d # drop 2 s" using assms(3) append_take_drop_id [of 2 s] by simp
  from json_text_utf8 [OF assms(2) this assms(4,5)] show ?thesis using assms(1) by (simp add: request_json_def)
qed

lemma sample_json_read:
  "request_json 30 (utf8 (dumps_default (sample_json ''none'' False))) = Inr (Some (sample_json ''none'' False))"
  "request_json 30 (utf8 (dumps_default (sample_json ''client_secret_post'' False))) = Inr (Some (sample_json ''client_secret_post'' False))"
  "request_json 30 (utf8 (dumps_default (sample_json ''private_key_jwt'' True))) = Inr (Some (sample_json ''private_key_jwt'' True))"
  by (rule request_json_ascii [where c = "CHR 0x7B" and d = "CHR 0x22"]; code_simp)+

lemma sample_registration_checked:
  "check_registration (sample_reg ''none'' False) = Inr None"
  "check_registration (sample_reg ''client_secret_post'' False) = Inr None"
  "check_registration (sample_reg ''private_key_jwt'' True) = Inr None"
  by code_simp+

lemma sample_draws [simp]:
  "env_urlsafe (sample_env 0 ''r'') 0 = ''r-s0''" "env_urlsafe (sample_env 0 ''r'') (Suc 0) = ''r-s1''"
  "env_recursion (sample_env 0 ''r'') = 30"
  by code_simp+

text \<open>
  C13. Every registration that is answered 201 sent metadata that satisfies \<open>metadata_ok\<close>: redirect
  URIs, at least one, and logout URIs that are absolute http(s) URLs without fragment, an
  authentication method the server knows, a key set or its URI where the method needs keys, never both,
  a certificate subject that is not blank, a \<open>jwks_uri\<close> that passed the address check, and no
  \<open>client_credentials\<close> grant for a public client. It appended one enabled row, and nothing else, to
  the clients, which reads back as that metadata; a public client has no secret. (A key set that is
  present but empty counts as present: see \<open>empty_jwks_locks_the_client_out\<close>.)
\<close>

theorem registered_row_is_valid:
  assumes "register_client rl cfg e body st = (st', Inr resp)" and "resp_status resp = 201"
    and "0 < env_recursion e"
  shows "cfg_dynamic_registration_enabled cfg \<and>
    (\<exists>v reg c. request_json (env_recursion e) body = Inr (Some v) \<and> rl_validate rl v = Some reg \<and> metadata_ok reg \<and>
       app_db st' = (app_db st)\<lparr>db_clients := db_clients (app_db st) @ [c]\<rparr> \<and> client_enabled c \<and>
       redirect_uri_list (env_recursion e) c = Inr (JArr (map JStr (reg_redirect_uris reg))) \<and>
       (\<forall>g. client_has_grant (env_recursion e) g c = Inr (g \<in> set (reg_grant_types reg))) \<and>
       client_scope c = reg_scope reg \<and> client_token_endpoint_auth_method c = reg_token_endpoint_auth_method reg \<and>
       (is_public c \<longrightarrow> client_client_secret c = []) \<and>
       client_jwks_uri c = or_str (reg_jwks_uri reg) [] \<and>
       client_jwks c = (case reg_jwks reg of Some (p # ps) \<Rightarrow> dumps_with (rl_float rl) (JObj (p # ps)) | _ \<Rightarrow> []) \<and>
       client_backchannel_logout_uri c = or_str (reg_backchannel_logout_uri reg) [] \<and>
       client_frontchannel_logout_uri c = or_str (reg_frontchannel_logout_uri reg) [] \<and>
       loads_column (env_recursion e) (client_post_logout_redirect_uris c) = Inr (JArr (map JStr (reg_post_logout_redirect_uris reg))) \<and>
       client_tls_client_certificate_subject_dn c = or_str (reg_tls_client_certificate_subject_dn reg) [])"
proof -
  obtain v reg where reg: "cfg_dynamic_registration_enabled cfg" "check_registration reg = Inr None"
      "request_json (env_recursion e) body = Inr (Some v)" "rl_validate rl v = Some reg" "save_client (registered_client rl e reg) (app_db st) = Inr (app_db st')"
    using register_client_201 [OF assms(1,2)] by blast
  define c where "c = registered_client rl e reg"
  have "app_db st' = (app_db st)\<lparr>db_clients := db_clients (app_db st) @ [c]\<rparr>"
    using reg(5) by (auto simp: c_def save_client_def sql_insert_def split: if_splits)
  moreover have "loads_column (env_recursion e) (dumps_list us) = Inr (JArr (map JStr us))" for us
    using json_loads_dumps_strings [OF assms(3), of us] by (simp add: loads_column_def dumps_list_def dumps_default_def)
  moreover have "client_has_grant (env_recursion e) g c = Inr (g \<in> set (reg_grant_types reg))" for g
    by (rule client_has_grant_strings [OF assms(3)]) (simp add: c_def dumps_list_def)
  ultimately show ?thesis
    using reg(1,3,4) check_registration_sound [OF reg(2)]
    by (intro conjI exI [of _ v] exI [of _ reg] exI [of _ c]) (simp_all add: c_def is_public_def redirect_uri_list_def)
qed

theorem registered_row_is_valid_witness:
  "\<exists>st' resp c. sample_registered ''none'' False = (st', Inr resp) \<and> resp_status resp = 201 \<and>
     db_clients (app_db st') = [c] \<and> is_public c \<and> client_client_secret c = [] \<and>
     client_has_grant 30 ''client_credentials'' c = Inr False"
proof -
  from sample_registered_run [OF sample_json_read(1) sample_registration_checked(1)] obtain st' resp where
    run: "sample_registered ''none'' False = (st', Inr resp)" "resp_status resp = 201"
      "db_clients (app_db st') = [registered_client sample_rl (sample_env 0 ''r'') (sample_reg ''none'' False)]"
    by auto
  show ?thesis
    using registered_row_is_valid [OF run(1) [unfolded sample_registered_def] run(2)] run
    by (auto simp: fresh_app_def empty_db_def is_public_def sample_reg_fields metadata_ok_def)
qed



text \<open>
  A key set that is present but empty passes the check that \<open>private_key_jwt\<close> needs keys, and is
  then stored as no key set at all: the client that was registered can never be authenticated,
  whatever it presents.
\<close>

theorem empty_jwks_locks_the_client_out:
  fixes lib :: "'k jwt_lib"
  assumes "register_client rl cfg e body st = (st', Inr resp)" and "resp_status resp = 201"
    and "request_json (env_recursion e) body = Inr (Some v)" and "rl_validate rl v = Some reg"
    and "reg_token_endpoint_auth_method reg = ''private_key_jwt''" and "reg_jwks reg = Some []"
  shows "\<exists>c. get_client (env_urlsafe e 0) (app_db st') = Some c \<and>
    (\<forall>get e' cfg' form secret mtls st2. isl (snd (check_credentials lib get e' cfg' c form secret mtls st2)))"
proof -
  obtain v' reg' where reg: "request_json (env_recursion e) body = Inr (Some v')" "rl_validate rl v' = Some reg'"
      "check_registration reg' = Inr None" "save_client (registered_client rl e reg') (app_db st) = Inr (app_db st')"
    using register_client_201 [OF assms(1,2)] by blast
  then have same: "reg' = reg" using assms(3,4) by simp
  define c where "c = registered_client rl e reg"
  have "\<not> truthy (reg_jwks_uri reg)"
    using check_registration_uris(4) [OF reg(3)] assms(6) same by (auto simp: check_metadata_def Let_def split: if_splits)
  then have keys: "client_jwks c = []" "client_jwks_uri c = []" "client_token_endpoint_auth_method c = ''private_key_jwt''"
    using assms(5,6) by (auto simp: c_def registered_client_def Let_def or_str_def truthy_def split: option.splits)
  have "isl (snd (check_credentials lib get e' cfg' c form secret mtls st2))" for get e' cfg' form secret mtls st2
    using keys by (auto simp: check_credentials_def authenticate_jwt_def resolve_client_jwks_def is_public_def Let_def
        py_strip_def py_lstrip_def py_rstrip_def case_prod_unfold)
  then show ?thesis using save_client_appends(2) [OF reg(4)] same by (auto simp: c_def)
qed

theorem empty_jwks_locks_the_client_out_witness:
  "\<exists>c st'. fst (sample_registered ''private_key_jwt'' True) = st' \<and> get_client ''r-s0'' (app_db st') = Some c \<and>
    isl (snd (check_credentials plain_lib (\<lambda>_. HttpFailure) (sample_env 5 ''q'') sample_config c [] None (None, None) st'))"
proof -
  from sample_registered_run [OF sample_json_read(3) sample_registration_checked(3)] obtain st' resp where
    run: "sample_registered ''private_key_jwt'' True = (st', Inr resp)" "resp_status resp = 201" by auto
  from empty_jwks_locks_the_client_out [OF run(1) [unfolded sample_registered_def] run(2),
      of "sample_json ''private_key_jwt'' True" "sample_reg ''private_key_jwt'' True" plain_lib]
  show ?thesis using sample_json_read(3) run(1) by (auto simp: sample_reg_fields sample_rl_def)
qed

end
