(* ===== verification/Events_Route.thy ===== *)
theory Events_Route
  imports Register
begin

text \<open>
  The ingest endpoint of the event bus (\<open>routes/events.py\<close>): authorization by a shared bearer token,
  deduplication by idempotency key, then one push into the admin feed and one publication.
  \<open>mk_envelope\<close> is pydantic's validation of a body against \<open>EventEnvelope\<close>, with the identifiers and
  times it fills in.

  The theorems show that nothing is ingested without the token, that a repeated key within its
  window changes nothing, and that the push and the bus's own feed plugin together list every ingested event twice.
\<close>

definition extract_bearer :: "string option \<Rightarrow> string option" where
  "extract_bearer header =
     (if \<not> truthy header \<or> \<not> starts_with ''bearer '' (py_lower (the header)) then None
      else (let token = py_strip (drop 7 (the header)) in if token = [] then None else Some token))"

definition unauthorized :: http_response where
  "unauthorized = \<lparr>resp_status = 401, resp_headers = [(''WWW-Authenticate'', ''Bearer'')],
     resp_body = JObj [(''error'', JStr ''invalid_token''), (''error_description'', JStr ''Missing or invalid bearer token'')]\<rparr>"

definition bearer_matches :: "string \<Rightarrow> string \<Rightarrow> bool" where
  \<comment> \<open>the header's own bytes against the UTF-8 encoding of the configured token\<close>
  "bearer_matches presented expected \<longleftrightarrow> map (\<lambda>c. of_char c) presented = utf8 expected"

definition json_response :: "int \<Rightarrow> json dict \<Rightarrow> http_response" where
  "json_response status body = \<lparr>resp_status = status, resp_headers = [], resp_body = JObj body\<rparr>"

definition ingest_guard :: "config \<Rightarrow> http_request \<Rightarrow> http_response option" where
  \<comment> \<open>the response that stops the request, if any\<close>
  "ingest_guard cfg rq =
     (if cfg_events_public_ingest cfg then None
      else if \<not> truthy (cfg_events_ingest_bearer_token cfg)
      then Some (json_response 503 [(''error'', JStr ''event_ingest_auth_not_configured'')])
      else (case extract_bearer (header_get ''authorization'' rq) of
          None \<Rightarrow> Some unauthorized
        | Some presented \<Rightarrow>
            if bearer_matches presented (the (cfg_events_ingest_bearer_token cfg)) then None else Some unauthorized))"

definition ingest_outcome :: "string \<Rightarrow> string \<Rightarrow> event_envelope \<Rightarrow> http_response" where
  "ingest_outcome status key en = json_response 202
     [(''status'', JStr status), (''idempotency_key'', JStr key), (''event_id'', JStr (ae_id (en_event en)))]"

definition ingest_key :: "http_request \<Rightarrow> event_envelope \<Rightarrow> string" where
  \<comment> \<open>the header wins over the envelope\<close>
  "ingest_key rq en =
     (let header_key = py_strip (or_str (header_get ''idempotency-key'' rq) [])
      in if header_key \<noteq> [] then header_key else effective_idempotency_key en)"

definition ingest_envelope :: "env \<Rightarrow> http_request \<Rightarrow> event_bus \<Rightarrow> event_envelope \<Rightarrow> app_state \<Rightarrow> handled" where
  "ingest_envelope e rq bus en st =
     (let key = ingest_key rq en;
          (store, dup) = is_duplicate_and_record (env_mono e) key (app_event_idempotency st);
          st1 = st\<lparr>app_event_idempotency := store\<rparr>
      in if dup then (st1, Inr (ingest_outcome ''duplicate'' key en))
         else (st1\<lparr>app_recent := recent_push (envelope_dump en) (app_recent st1), app_event_bus := Some (publish_best_effort en bus)\<rparr>,
               Inr (ingest_outcome ''accepted'' key en)))"

definition ingest ::
  "(json \<Rightarrow> event_envelope option) \<Rightarrow> config \<Rightarrow> env \<Rightarrow> http_request \<Rightarrow> bytes \<Rightarrow> app_state \<Rightarrow> handled" where
  "ingest mk_envelope cfg e rq body st =
     (case ingest_guard cfg rq of
        Some r \<Rightarrow> (st, Inr r)
      | None \<Rightarrow>
          (case app_event_bus st of
             None \<Rightarrow> (st, Inr (json_response 503 [(''error'', JStr ''eventing_disabled'')]))
           | Some bus \<Rightarrow>
               (case request_json (env_recursion e) body of
                  Inl x \<Rightarrow> (st, Inl x)
                | Inr v \<Rightarrow>
                    (case (case v of None \<Rightarrow> None | Some b \<Rightarrow> mk_envelope b) of
                       None \<Rightarrow> (st, Inr (json_response 400 [(''error'', JStr ''invalid_request'')]))
                     | Some en \<Rightarrow> ingest_envelope e rq bus en st))))"

definition events_health :: "app_state \<Rightarrow> http_response" where
  "events_health st =
     (case app_event_bus st of
        None \<Rightarrow> json_response 200 [(''enabled'', JBool False), (''plugins'', JArr [])]
      | Some bus \<Rightarrow> json_response 200 [(''enabled'', JBool True), (''plugins'', bus_health bus)])"


definition sample_envelope :: "json \<Rightarrow> event_envelope option" where
  \<comment> \<open>a validator for the examples\<close>
  "sample_envelope v = (case v of JObj ps \<Rightarrow> (case jget ''id'' ps of JStr i \<Rightarrow> Some (sample_event i ''test'') | _ \<Rightarrow> None) | _ \<Rightarrow> None)"

definition sample_ingest :: "handled" where
  "sample_ingest = ingest sample_envelope (sample_config\<lparr>cfg_events_ingest_bearer_token := Some ''s3''\<rparr>) (sample_env 0 ''i'')
     \<lparr>rq_headers = [(''authorization'', utf8 ''Bearer s3'')], rq_form = []\<rparr> (utf8 (dumps_default (JObj [(''id'', JStr ''7'')])))
     (fresh_app (empty_db Sqlite))"

lemma sample_ingest_parts:
  "request_json 30 (utf8 (dumps_default (JObj [(''id'', JStr ''7'')]))) = Inr (Some (JObj [(''id'', JStr ''7'')]))"
  "extract_bearer (header_get ''authorization'' \<lparr>rq_headers = [(''authorization'', utf8 ''Bearer s3'')], rq_form = []\<rparr>) = Some ''s3''"
  "bearer_matches ''s3'' ''s3''" "should_emit (eb_filter (build_event_bus [] [] [])) ''test''" "header_get ''idempotency-key'' \<lparr>rq_headers = [(''authorization'', utf8 ''Bearer s3'')], rq_form = []\<rparr> = None"
  by code_simp+

lemma sample_ingest_run:
  "\<exists>st' resp. sample_ingest = (st', Inr resp) \<and> resp_body resp = JObj [(''status'', JStr ''accepted''), (''idempotency_key'', JStr ''7''), (''event_id'', JStr ''7'')] \<and>
     app_recent st' = [envelope_dump (sample_event ''7'' ''test'')]"
  using sample_ingest_parts
  by (simp add: sample_ingest_def ingest_def ingest_guard_def sample_config_def sample_env_def fresh_app_def sample_envelope_def jget_def
      ingest_envelope_def ingest_key_def or_str_def py_strip_def py_lstrip_def py_rstrip_def effective_idempotency_key_def sample_event_def idempotency_new_def
      is_duplicate_and_record_def is_prune_def sweep_def ingest_outcome_def json_response_def recent_push_def RECENT_CAPACITY_def Let_def)


section \<open>Who may ingest, and how often\<close>

lemma ingest_accepted:
  assumes "ingest mk cfg e rq body st = (st', Inr resp)" and "st' \<noteq> st"
  obtains bus v en where "ingest_guard cfg rq = None" "app_event_bus st = Some bus" "request_json (env_recursion e) body = Inr (Some v)"
    "mk v = Some en" "ingest_envelope e rq bus en st = (st', Inr resp)"
  using assms by (auto simp: ingest_def split: option.splits sum.splits)

text \<open>
  The ingest endpoint changes nothing unless the deployment declared it public or the request
  carries the configured bearer token, byte for byte.
\<close>

theorem ingest_needs_the_token:
  assumes "fst (ingest mk cfg e rq body st) \<noteq> st" and "\<not> cfg_events_public_ingest cfg"
  shows "\<exists>presented expected. extract_bearer (header_get ''authorization'' rq) = Some presented \<and>
    cfg_events_ingest_bearer_token cfg = Some expected \<and> expected \<noteq> [] \<and> map of_char presented = utf8 expected"
proof -
  have "ingest_guard cfg rq = None" using assms(1) by (auto simp: ingest_def split: option.splits)
  then show ?thesis
    using assms(2) by (cases "cfg_events_ingest_bearer_token cfg") (auto simp: ingest_guard_def bearer_matches_def split: if_splits option.splits)
qed

theorem ingest_needs_the_token_witness:
  "fst sample_ingest \<noteq> fresh_app (empty_db Sqlite) \<and>
   (\<exists>presented. extract_bearer (header_get ''authorization'' \<lparr>rq_headers = [(''authorization'', utf8 ''Bearer s3'')], rq_form = []\<rparr>) = Some presented \<and>
     map of_char presented = utf8 ''s3'')"
proof -
  obtain st' resp where run: "sample_ingest = (st', Inr resp)" "app_recent st' = [envelope_dump (sample_event ''7'' ''test'')]"
    using sample_ingest_run by blast
  then have "app_recent (fst sample_ingest) \<noteq> app_recent (fresh_app (empty_db Sqlite))" unfolding run(1) by (auto simp: fresh_app_def)
  then have changed: "fst sample_ingest \<noteq> fresh_app (empty_db Sqlite)" by metis
  then show ?thesis
    using ingest_needs_the_token [OF changed [unfolded sample_ingest_def]] by (auto simp: sample_config_def)
qed

definition settle_app :: "app_state \<Rightarrow> app_state" where
  \<comment> \<open>the event loop runs the tasks the bus has started\<close>
  "settle_app st =
     (case app_event_bus st of
        None \<Rightarrow> st
      | Some bus \<Rightarrow> (let (bus', store) = bus_settle bus (app_recent st) in st\<lparr>app_event_bus := Some bus', app_recent := store\<rparr>))"

lemma fan_out_one_feed:
  assumes "filter (\<lambda>p. p = RecentEventsPlugin) ps = [RecentEventsPlugin]"
  shows "snd (fan_out en ps store) = recent_push (envelope_dump en) store"
proof -
  have silent: "p \<noteq> RecentEventsPlugin \<Longrightarrow> snd (plugin_emit en p store) = store" for p store
    by (cases p) simp_all
  have other: "filter (\<lambda>p. p = RecentEventsPlugin) ps = [] \<Longrightarrow> snd (fan_out en ps store) = store" for ps store
    by (induction ps arbitrary: store) (auto simp: case_prod_unfold Let_def silent split: if_splits)
  show ?thesis
    using assms
  proof (induction ps arbitrary: store)
    case Nil
    then show ?case by simp
  next
    case (Cons p ps)
    then show ?case by (cases p) (auto simp: case_prod_unfold Let_def other)
  qed
qed

lemma build_event_bus_feed:
  "filter (\<lambda>p. p = RecentEventsPlugin) (eb_plugins (build_event_bus b m ts)) = [RecentEventsPlugin]"
  "eb_tasks (build_event_bus b m ts) = []"
  by (simp_all add: build_event_bus_def Let_def)

text \<open>
  An event that is ingested and passes the filter appears twice at the head of the admin feed:
  the endpoint pushes it, and the feed plugin, which every bus has, pushes it again.
\<close>

theorem ingested_event_listed_twice:
  assumes "ingest mk cfg e rq body st = (st', Inr resp)" and "jget ''status'' (case resp_body resp of JObj ms \<Rightarrow> ms | _ \<Rightarrow> []) = JStr ''accepted''"
    and "app_event_bus st = Some (build_event_bus b m ts)"
    and "request_json (env_recursion e) body = Inr (Some v)" and "mk v = Some en"
    and "should_emit (eb_filter (build_event_bus b m ts)) (ae_event_type (en_event en))"
  shows "app_recent (settle_app st') = take RECENT_CAPACITY (envelope_dump en # take RECENT_CAPACITY (envelope_dump en # app_recent st))"
proof -
  let ?bus = "build_event_bus b m ts"
  have "ingest_guard cfg rq = None"
    using assms(1,2) by (auto simp: ingest_def ingest_guard_def unauthorized_def json_response_def jget_def split: if_splits option.splits)
  then have "ingest_envelope e rq ?bus en st = (st', Inr resp)" using assms by (simp add: ingest_def)
  then have recent: "app_recent st' = recent_push (envelope_dump en) (app_recent st)" "app_event_bus st' = Some (publish_best_effort en ?bus)"
    using assms(2) by (auto simp: ingest_envelope_def Let_def case_prod_unfold ingest_outcome_def json_response_def jget_def split: if_splits)
  have "publish_best_effort en ?bus = ?bus\<lparr>eb_tasks := [en]\<rparr>"
    using assms(6) by (simp add: publish_best_effort_def build_event_bus_feed)
  then have "app_recent (settle_app st') = recent_push (envelope_dump en) (app_recent st')"
    using recent(2) fan_out_one_feed [OF build_event_bus_feed(1)]
    by (simp add: settle_app_def bus_settle_def case_prod_unfold Let_def)
  then show ?thesis using recent(1) by (simp add: recent_push_def)
qed

theorem ingested_event_listed_twice_witness:
  "app_recent (settle_app (fst sample_ingest)) = [envelope_dump (sample_event ''7'' ''test''), envelope_dump (sample_event ''7'' ''test'')]"
proof -
  obtain st' resp where run: "sample_ingest = (st', Inr resp)"
      "resp_body resp = JObj [(''status'', JStr ''accepted''), (''idempotency_key'', JStr ''7''), (''event_id'', JStr ''7'')]"
    using sample_ingest_run by blast
  have "app_recent (settle_app st') = take RECENT_CAPACITY (envelope_dump (sample_event ''7'' ''test'') #
      take RECENT_CAPACITY (envelope_dump (sample_event ''7'' ''test'') # app_recent (fresh_app (empty_db Sqlite))))"
    by (rule ingested_event_listed_twice [OF run(1) [unfolded sample_ingest_def], where b = "[]" and m = "[]" and ts = "[]" and v = "JObj [(''id'', JStr ''7'')]"])
       (simp_all add: run(2) jget_def fresh_app_def sample_ingest_parts sample_env_def sample_envelope_def sample_event_def)
  then show ?thesis unfolding run(1) by (simp add: fresh_app_def RECENT_CAPACITY_def)
qed

end
