(* ===== verification/Admin_Guard.thy ===== *)
theory Admin_Guard
  imports Events_Route Device_Flow
begin

text \<open>
  What every endpoint of the admin API shares: the guard (\<open>routes/admin/guard.py\<close>), which admits a live
  bearer token with the admin scope of an allowlisted client or a browser session of an administrator; the
  reading of JSON bodies (\<open>routes/admin/_util.py\<close>); and the audit trail (\<open>services/audit.py\<close>), a row and an
  entry of the admin feed per mutation. A response is a \<open>web_response\<close>, because the guard may redirect.
\<close>

record admin_request =
  ad_request :: http_request
  ad_session :: session
  ad_host :: "string option"
  ad_body :: bytes

record admin_actor =
  actor_id :: string
  actor_email :: string

type_synonym admin_handled = "app_state \<times> web_response outcome"


section \<open>routes/admin/guard.py\<close>

definition client_id_in_allowlist :: "string \<Rightarrow> string list \<Rightarrow> bool" where
  "client_id_in_allowlist client_id allowlist =
     (let trimmed = py_strip client_id
      in trimmed \<noteq> [] \<and> trimmed \<in> set (filter (\<lambda>x. x \<noteq> []) (map py_strip allowlist)))"

definition invalid_token_error :: web_response where
  "invalid_token_error = error_page 401 ''invalid_token'' ''Bearer token is invalid or expired''"

definition insufficient_scope_error :: web_response where
  "insufficient_scope_error = error_page 403 ''insufficient_scope'' (''Token requires '' @ quoted ''admin'' @ '' scope'')"

definition login_required_error :: web_response where
  "login_required_error = RedirectTo 302 ''/auth/login?error=login_required'' []"

definition insufficient_permissions_error :: web_response where
  "insufficient_permissions_error = error_page 403 ''insufficient_permissions'' ''Admin access required''"

definition authenticate_bearer :: "config \<Rightarrow> env \<Rightarrow> string \<Rightarrow> database \<Rightarrow> web_response + admin_actor" where
  "authenticate_bearer cfg e token_value db =
     (case get_token_by_access_token token_value db of
        None \<Rightarrow> Inl invalid_token_error
      | Some t \<Rightarrow>
          if token_revoked t \<or> token_expires_at t \<le> env_now e then Inl invalid_token_error
          else if ''admin'' \<notin> set (py_split (token_scope t)) \<or> \<not> client_id_in_allowlist (token_client_id t) (cfg_admin_client_ids cfg)
          then Inl insufficient_scope_error
          else Inr \<lparr>actor_id = [], actor_email = []\<rparr>)"

definition authenticate_session :: "config \<Rightarrow> session \<Rightarrow> web_response + admin_actor" where
  "authenticate_session cfg s =
     (if \<not> truthy (se_user_id s) then Inl login_required_error
      else (let role = (case se_role s of Some r \<Rightarrow> r | None \<Rightarrow> []); email = (case se_email s of Some m \<Rightarrow> m | None \<Rightarrow> [])
            in if role = ''admin'' \<or> py_lower email \<in> set (cfg_admin_emails cfg)
               then Inr \<lparr>actor_id = the (se_user_id s), actor_email = email\<rparr>
               else Inl insufficient_permissions_error))"

definition require_admin :: "config \<Rightarrow> env \<Rightarrow> admin_request \<Rightarrow> app_state \<Rightarrow> web_response + admin_actor" where
  "require_admin cfg e rq st =
     (let auth_header = (case header_get ''authorization'' (ad_request rq) of Some h \<Rightarrow> h | None \<Rightarrow> [])
      in if py_lower (take 7 auth_header) = ''bearer ''
         then authenticate_bearer cfg e (py_strip (drop 7 auth_header)) (app_db st)
         else authenticate_session cfg (ad_session rq))"


section \<open>routes/admin/\_util.py\<close>

definition json_body :: "env \<Rightarrow> admin_request \<Rightarrow> json dict outcome" where
  "json_body e rq =
     bind_res (request_json (env_recursion e) (ad_body rq)) (\<lambda>v.
       Inr (case v of Some (JObj ps) \<Rightarrow> ps | _ \<Rightarrow> []))"

definition admin_bad_request :: "string \<Rightarrow> web_response" where
  "admin_bad_request description = error_page 400 ''invalid_request'' description"

definition parse_body ::
  "(json dict \<Rightarrow> string + 'm) \<Rightarrow> ('m \<Rightarrow> (string \<times> bool) list) \<Rightarrow> env \<Rightarrow> admin_request \<Rightarrow> (web_response + 'm) outcome" where
  \<comment> \<open>\<open>validate\<close> is pydantic's \<open>model_validate\<close>, an error being its rendered text; \<open>nulls\<close> lists the provided
      fields and whether each is null. The source walks a set, so which of several nulls it names is arbitrary\<close>
  "parse_body validate nulls e rq =
     bind_res (json_body e rq) (\<lambda>raw.
       Inr (case validate raw of
          Inl description \<Rightarrow> Inl (admin_bad_request description)
        | Inr model \<Rightarrow>
            (case find snd (nulls model) of
               Some (field, _) \<Rightarrow> Inl (admin_bad_request (field @ '' must not be null''))
             | None \<Rightarrow> Inr model)))"


section \<open>services/audit.py\<close>

definition build_audit ::
  "env \<Rightarrow> nat \<Rightarrow> admin_request \<Rightarrow> admin_actor \<Rightarrow> string \<Rightarrow> string \<Rightarrow> string \<Rightarrow> json dict \<Rightarrow> audit_log_entry" where
  \<comment> \<open>\<open>n\<close> is the number of the uuid drawn for the entry\<close>
  "build_audit e n rq actor action target_kind target_id metadata =
     \<lparr>audit_pk = env_uuid e n, audit_actor_id = actor_id actor, audit_actor_email = actor_email actor, audit_action = action,
      audit_target_kind = target_kind, audit_target_id = target_id,
      audit_ip = (case ad_host rq of Some h \<Rightarrow> h | None \<Rightarrow> []),
      audit_user_agent = (case header_get ''user-agent'' (ad_request rq) of Some h \<Rightarrow> h | None \<Rightarrow> []),
      audit_metadata = dumps_default (JObj metadata), audit_created_at = env_now e\<rparr>"

definition audit_event :: "env \<Rightarrow> audit_log_entry \<Rightarrow> json dict \<Rightarrow> json" where
  \<comment> \<open>the metadata, flat objects with distinct keys, reads back as it was written\<close>
  "audit_event e entry metadata = JObj
     [(''event_type'', JStr (audit_action entry)), (''source'', JStr ''admin''), (''idempotency_key'', JStr (audit_pk entry)),
      (''received_at'', JStr (isoformat (env_now e))), (''actor_id'', JStr (audit_actor_id entry)),
      (''actor_email'', JStr (audit_actor_email entry)), (''target_kind'', JStr (audit_target_kind entry)),
      (''target_id'', JStr (audit_target_id entry)), (''metadata'', JObj metadata)]"

definition record_audit :: "env \<Rightarrow> audit_log_entry \<Rightarrow> json dict \<Rightarrow> app_state \<Rightarrow> app_state" where
  \<comment> \<open>a failure to write the row is logged and swallowed\<close>
  "record_audit e entry metadata st =
     (let db = (case write_audit_log entry (app_db st) of Inl _ \<Rightarrow> app_db st | Inr db \<Rightarrow> db)
      in st\<lparr>app_db := db, app_recent := recent_push (audit_event e entry metadata) (app_recent st)\<rparr>)"

definition audited ::
  "env \<Rightarrow> nat \<Rightarrow> admin_request \<Rightarrow> admin_actor \<Rightarrow> string \<Rightarrow> string \<Rightarrow> string \<Rightarrow> json dict \<Rightarrow> app_state \<Rightarrow> app_state" where
  \<comment> \<open>\<open>await record_audit(storage, events, build_audit(...))\<close>\<close>
  "audited e n rq actor action kind target metadata st =
     record_audit e (build_audit e n rq actor action kind target metadata) metadata st"

end
