(* ===== verification/Admin_Users.thy ===== *)
theory Admin_Users
  imports Admin_Guard
begin

text \<open>
  The admin endpoints other than those of clients: users, tokens, device authorizations, the
  denylist, signing keys, the dashboard and the two feeds (\<open>routes/admin/users.py\<close>, \<open>tokens.py\<close>, \<open>devices.py\<close>,
  \<open>denylist.py\<close>, \<open>keys.py\<close>, \<open>dashboard.py\<close>, \<open>audit.py\<close>, \<open>events.py\<close>). Each is a function of the actor the
  guard admitted.

  \<open>admin_lib\<close> holds what comes from outside: the password hasher, pydantic's validation of the bodies of
  the two \<open>PUT\<close> endpoints, fresh key material, \<open>datetime.fromisoformat\<close> with the text \<open>isoformat\<close> gives
  back for the same value in its own offset, and whether the storage raises when it is asked to revoke the
  tokens of a user or client as a side effect, which the handlers swallow.
\<close>

record user_update =
  uu_email :: "string option option"
  uu_role :: "string option option"
  uu_enabled :: "bool option option"

record client_update =
  cu_name :: "string option option"
  cu_redirect_uris :: "string list option option"
  cu_grant_types :: "string list option option"
  cu_scope :: "string option option"
  cu_token_endpoint_auth_method :: "string option option"
  cu_enabled :: "bool option option"
  cu_jwks :: "json dict option option"
  cu_jwks_uri :: "string option option"
  cu_tls_client_certificate_subject_dn :: "string option option"
  cu_backchannel_logout_uri :: "string option option"
  cu_frontchannel_logout_uri :: "string option option"
  cu_post_logout_redirect_uris :: "string list option option"

record admin_lib =
  al_hash :: "string \<Rightarrow> string"
  al_user_update :: "json dict \<Rightarrow> string + user_update"
  al_client_update :: "json dict \<Rightarrow> string + client_update"
  al_float :: "rat \<Rightarrow> string"
  al_fromisoformat :: "string \<Rightarrow> (datetime \<times> string) option"
  al_random48 :: bytes
  al_rsa_pem :: bytes
  al_revoke_raises :: bool


section \<open>routes/admin/users.py\<close>

definition VALID_ROLES :: "string list" where "VALID_ROLES = [''admin'', ''user'']"

definition user_not_found :: web_response where
  "user_not_found = JsonPage 404 (JObj [(''error'', JStr ''user not found'')])"

definition user_info :: "user \<Rightarrow> json dict" where
  "user_info u =
     [(''id'', JStr (user_pk u)), (''username'', JStr (user_username u)), (''email'', JStr (user_email u)), (''role'', JStr (user_role u)),
      (''enabled'', JBool (user_enabled u)), (''created_at'', JStr (isoformat (user_created_at u)))]"

definition user_response :: "user \<Rightarrow> json" where
  "user_response u = JObj (user_info u @ [(''updated_at'', JStr (isoformat (user_updated_at u)))])"

definition best_effort_revoke_by_user :: "admin_lib \<Rightarrow> string \<Rightarrow> app_state \<Rightarrow> app_state" where
  \<comment> \<open>an exception of the storage is logged and swallowed: the tokens stay as they are and the handler goes on\<close>
  "best_effort_revoke_by_user al uid st =
     (if al_revoke_raises al then st else st\<lparr>app_db := snd (revoke_tokens_by_user_id uid (app_db st))\<rparr>)"

definition page_response :: "('r \<Rightarrow> json) \<Rightarrow> list_query \<Rightarrow> 'r list \<times> nat \<Rightarrow> web_response" where
  \<comment> \<open>\<open>page_envelope([info(r) for r in items], total, q.effective_limit(), q.offset)\<close>\<close>
  "page_response info q page = JsonPage 200 (page_envelope (map info (fst page)) (int (snd page)) (effective_limit q) (lq_offset q))"

definition list_users :: "list_query \<Rightarrow> app_state \<Rightarrow> web_response" where
  "list_users q st = page_response (\<lambda>u. JObj (user_info u)) q (list_users_page q (app_db st))"

definition valid_role :: "json \<Rightarrow> bool outcome" where
  \<comment> \<open>\<open>v in {"admin", "user"}\<close>: a list or an object cannot be hashed\<close>
  "valid_role v =
     (case v of JStr r \<Rightarrow> Inr (r \<in> set VALID_ROLES)
      | JArr _ \<Rightarrow> Inl (PyError ''TypeError'') | JObj _ \<Rightarrow> Inl (PyError ''TypeError'') | _ \<Rightarrow> Inr False)"

definition new_user :: "admin_lib \<Rightarrow> env \<Rightarrow> string \<Rightarrow> string \<Rightarrow> string \<Rightarrow> string \<Rightarrow> bool \<Rightarrow> user" where
  "new_user al e username email password role enabled =
     \<lparr>user_pk = env_uuid e 0, user_username = username, user_password_hash = al_hash al password, user_email = email,
      user_enabled = enabled, user_role = role, user_created_at = env_now e, user_updated_at = env_now e\<rparr>"

definition create_user :: "admin_lib \<Rightarrow> env \<Rightarrow> admin_request \<Rightarrow> admin_actor \<Rightarrow> app_state \<Rightarrow> admin_handled" where
  "create_user al e rq actor st =
     (case json_body e rq of
        Inl x \<Rightarrow> (st, Inl x)
      | Inr body \<Rightarrow>
          (let username = py_strip (str_or_empty (jget ''username'' body)); email = py_strip (str_or_empty (jget ''email'' body));
               password = str_or_empty (jget ''password'' body)
           in if username = [] \<or> email = [] \<or> password = []
              then (st, Inr (admin_bad_request ''username, email, password are required''))
              else if get_user_by_username username (app_db st) \<noteq> None
              then (st, Inr (error_page 409 ''already_exists'' ''username already registered''))
              else (case valid_role (jget ''role'' body) of
                  Inl x \<Rightarrow> (st, Inl x)
                | Inr ok \<Rightarrow>
                    (let role = (if ok then jstr_of (jget ''role'' body) else ''user'');
                         enabled = (case map_of body ''enabled'' of None \<Rightarrow> True | Some v \<Rightarrow> jtruthy v);
                         u = new_user al e username email password role enabled
                     in case save_user u (app_db st) of
                          Inl x \<Rightarrow> (st, Inl x)
                        | Inr db \<Rightarrow>
                            (audited e 1 rq actor ''user.create'' ''user'' (user_pk u) [(''username'', JStr username)] (st\<lparr>app_db := db\<rparr>),
                             Inr (JsonPage 201 (user_response u)))))))"

definition get_user :: "string \<Rightarrow> app_state \<Rightarrow> web_response" where
  "get_user uid st =
     (case get_user_by_id uid (app_db st) of None \<Rightarrow> user_not_found | Some u \<Rightarrow> JsonPage 200 (JObj (user_info u)))"

definition null_field :: "string \<Rightarrow> 'a option option \<Rightarrow> (string \<times> bool) list" where
  "null_field name v = (case v of None \<Rightarrow> [] | Some x \<Rightarrow> [(name, x = None)])"

definition user_update_nulls :: "user_update \<Rightarrow> (string \<times> bool) list" where
  "user_update_nulls b = null_field ''email'' (uu_email b) @ null_field ''role'' (uu_role b) @ null_field ''enabled'' (uu_enabled b)"

definition provided :: "'a option option \<Rightarrow> 'a option" where
  \<comment> \<open>the value of a field in \<open>model_fields_set\<close>\<close>
  "provided v = (case v of Some (Some x) \<Rightarrow> Some x | _ \<Rightarrow> None)"

definition accepted_role :: "user_update \<Rightarrow> string option" where
  \<comment> \<open>a role that is not one of the two is ignored\<close>
  "accepted_role b = (case provided (uu_role b) of Some r \<Rightarrow> if r \<in> set VALID_ROLES then Some r else None | None \<Rightarrow> None)"

definition updated_user :: "env \<Rightarrow> user_update \<Rightarrow> user \<Rightarrow> user" where
  "updated_user e b u =
     u\<lparr>user_email := (case provided (uu_email b) of Some m \<Rightarrow> m | None \<Rightarrow> user_email u),
       user_role := (case accepted_role b of Some r \<Rightarrow> r | None \<Rightarrow> user_role u),
       user_enabled := (case provided (uu_enabled b) of Some v \<Rightarrow> v | None \<Rightarrow> user_enabled u),
       user_updated_at := env_now e\<rparr>"

definition fields_json :: "(string \<times> bool) list \<Rightarrow> json dict" where
  \<comment> \<open>\<open>{"fields": sorted(updates)}\<close>, the names listed in sorted order\<close>
  "fields_json fs = [(''fields'', JArr (map (\<lambda>(k, _). JStr k) (filter snd fs)))]"

definition update_user_route :: "admin_lib \<Rightarrow> env \<Rightarrow> string \<Rightarrow> admin_request \<Rightarrow> admin_actor \<Rightarrow> app_state \<Rightarrow> admin_handled" where
  "update_user_route al e uid rq actor st =
     (case get_user_by_id uid (app_db st) of
        None \<Rightarrow> (st, Inr user_not_found)
      | Some u \<Rightarrow>
          (case parse_body (al_user_update al) user_update_nulls e rq of
             Inl x \<Rightarrow> (st, Inl x)
           | Inr (Inl err) \<Rightarrow> (st, Inr err)
           | Inr (Inr b) \<Rightarrow>
               (let updated = updated_user e b u
                in case Sql_Storage.update_user updated (app_db st) of
                     Inl x \<Rightarrow> (st, Inl x)
                   | Inr db \<Rightarrow>
                       (let st1 = st\<lparr>app_db := db\<rparr>;
                            st2 = (if provided (uu_enabled b) = Some False then best_effort_revoke_by_user al uid st1 else st1)
                        in (audited e 0 rq actor ''user.update'' ''user'' (user_pk u)
                              (fields_json [(''email'', provided (uu_email b) \<noteq> None), (''enabled'', provided (uu_enabled b) \<noteq> None),
                                 (''role'', accepted_role b \<noteq> None)]) st2,
                            Inr (JsonPage 200 (user_response updated)))))))"

definition delete_user_route :: "admin_lib \<Rightarrow> env \<Rightarrow> string \<Rightarrow> admin_request \<Rightarrow> admin_actor \<Rightarrow> app_state \<Rightarrow> admin_handled" where
  "delete_user_route al e uid rq actor st =
     (case get_user_by_id uid (app_db st) of
        None \<Rightarrow> (st, Inr user_not_found)
      | Some u \<Rightarrow>
          (case Sql_Storage.delete_user uid (app_db st) of
             Inl x \<Rightarrow> (st, Inl x)
           | Inr db \<Rightarrow>
               (audited e 0 rq actor ''user.delete'' ''user'' uid [(''username'', JStr (user_username u))]
                  (best_effort_revoke_by_user al uid (st\<lparr>app_db := db\<rparr>)),
                Inr (JsonPage 200 (JObj [(''message'', JStr ''User deleted'')])))))"

definition set_user_enabled_route :: "admin_lib \<Rightarrow> env \<Rightarrow> string \<Rightarrow> admin_request \<Rightarrow> admin_actor \<Rightarrow> app_state \<Rightarrow> admin_handled" where
  "set_user_enabled_route al e uid rq actor st =
     (case json_body e rq of
        Inl x \<Rightarrow> (st, Inl x)
      | Inr body \<Rightarrow>
          (case jget ''enabled'' body of
             JBool enabled \<Rightarrow>
               (let st1 = st\<lparr>app_db := Sql_Storage.set_user_enabled uid enabled (app_db st)\<rparr>;
                    st2 = (if \<not> enabled then best_effort_revoke_by_user al uid st1 else st1)
                in (audited e 0 rq actor (if enabled then ''user.enable'' else ''user.disable'') ''user'' uid [(''enabled'', JBool enabled)] st2,
                    Inr (JsonPage 200 (JObj [(''enabled'', JBool enabled)]))))
           | _ \<Rightarrow> (st, Inr (admin_bad_request ''enabled must be a boolean''))))"

definition set_user_role_route :: "env \<Rightarrow> string \<Rightarrow> admin_request \<Rightarrow> admin_actor \<Rightarrow> app_state \<Rightarrow> admin_handled" where
  "set_user_role_route e uid rq actor st =
     (case json_body e rq of
        Inl x \<Rightarrow> (st, Inl x)
      | Inr body \<Rightarrow>
          (case valid_role (jget ''role'' body) of
             Inl x \<Rightarrow> (st, Inl x)
           | Inr ok \<Rightarrow>
               if \<not> ok then (st, Inr (admin_bad_request (''role must be '' @ quoted ''admin'' @ '' or '' @ quoted ''user'')))
               else (let role = jstr_of (jget ''role'' body)
                     in (audited e 0 rq actor ''user.set_role'' ''user'' uid [(''role'', JStr role)]
                           (st\<lparr>app_db := Sql_Storage.set_user_role uid role (app_db st)\<rparr>),
                         Inr (JsonPage 200 (JObj [(''role'', JStr role)]))))))"

definition reset_user_password :: "admin_lib \<Rightarrow> env \<Rightarrow> string \<Rightarrow> admin_request \<Rightarrow> admin_actor \<Rightarrow> app_state \<Rightarrow> admin_handled" where
  "reset_user_password al e uid rq actor st =
     (case json_body e rq of
        Inl x \<Rightarrow> (st, Inl x)
      | Inr body \<Rightarrow>
          (let password = str_or_empty (jget ''password'' body)
           in if length password < 8 then (st, Inr (error_page 400 ''weak_password'' ''password must be at least 8 characters''))
              else (audited e 0 rq actor ''user.reset_password'' ''user'' uid []
                      (best_effort_revoke_by_user al uid (st\<lparr>app_db := set_user_password_hash uid (al_hash al password) (app_db st)\<rparr>)),
                    Inr (JsonPage 200 (JObj [(''message'', JStr ''Password reset'')])))))"


section \<open>routes/admin/tokens.py\<close>

definition token_not_found :: web_response where
  "token_not_found = JsonPage 404 (JObj [(''error'', JStr ''token not found'')])"

definition token_info :: "env \<Rightarrow> token \<Rightarrow> json" where
  "token_info e t = JObj
     [(''id'', JStr (token_pk t)), (''client_id'', JStr (token_client_id t)), (''user_id'', JStr (or_str (token_user_id t) [])),
      (''scope'', JStr (token_scope t)), (''expires_at'', JStr (isoformat (token_expires_at t))),
      (''created_at'', JStr (isoformat (token_created_at t))), (''revoked'', JBool (token_revoked t)),
      (''expired'', JBool (\<not> token_revoked t \<and> token_expires_at t \<le> env_now e))]"

definition list_tokens :: "env \<Rightarrow> list_query \<Rightarrow> app_state \<Rightarrow> web_response" where
  "list_tokens e q st = page_response (token_info e) q (list_tokens_page (env_now e) q (app_db st))"

definition get_token :: "env \<Rightarrow> string \<Rightarrow> app_state \<Rightarrow> web_response" where
  "get_token e tid st =
     (case get_token_by_id tid (app_db st) of None \<Rightarrow> token_not_found | Some t \<Rightarrow> JsonPage 200 (token_info e t))"

definition revoke_token_by_id :: "env \<Rightarrow> string \<Rightarrow> admin_request \<Rightarrow> admin_actor \<Rightarrow> app_state \<Rightarrow> admin_handled" where
  "revoke_token_by_id e tid rq actor st =
     (let message = Inr (JsonPage 200 (JObj [(''message'', JStr ''Token revoked'')]))
      in case get_token_by_id tid (app_db st) of
           None \<Rightarrow> (st, message)
         | Some t \<Rightarrow>
             (audited e 0 rq actor ''token.revoke'' ''token'' (token_pk t) []
                (st\<lparr>app_db := revoke_token (token_access_token t) (app_db st), app_token_revoked_total := app_token_revoked_total st + 1\<rparr>),
              message))"

definition bulk_revoke ::
  "string \<Rightarrow> string \<Rightarrow> string \<Rightarrow> (string \<Rightarrow> database \<Rightarrow> nat \<times> database) \<Rightarrow> env \<Rightarrow> admin_request \<Rightarrow> admin_actor \<Rightarrow> app_state \<Rightarrow> admin_handled" where
  \<comment> \<open>the two bulk endpoints, which differ in the member of the body, the action and the query\<close>
  "bulk_revoke member action kind revoke_by e rq actor st =
     (case json_body e rq of
        Inl x \<Rightarrow> (st, Inl x)
      | Inr body \<Rightarrow>
          (let target = str_or_empty (jget member body); (count, db) = revoke_by target (app_db st)
           in (audited e 0 rq actor action kind target [(''revoked'', JInt (int count))] (st\<lparr>app_db := db\<rparr>),
               Inr (JsonPage 200 (JObj [(''revoked'', JInt (int count))])))))"

definition revoke_tokens_by_user :: "env \<Rightarrow> admin_request \<Rightarrow> admin_actor \<Rightarrow> app_state \<Rightarrow> admin_handled" where
  "revoke_tokens_by_user = bulk_revoke ''user_id'' ''token.bulk_revoke_by_user'' ''user'' revoke_tokens_by_user_id"

definition revoke_tokens_by_client :: "env \<Rightarrow> admin_request \<Rightarrow> admin_actor \<Rightarrow> app_state \<Rightarrow> admin_handled" where
  "revoke_tokens_by_client = bulk_revoke ''client_id'' ''token.bulk_revoke_by_client'' ''client'' revoke_tokens_by_client_id"


section \<open>routes/admin/devices.py\<close>

definition device_info :: "env \<Rightarrow> device_authorization \<Rightarrow> json" where
  "device_info e d = JObj
     [(''id'', JStr (device_pk d)), (''device_code'', JStr (device_device_code d)), (''user_code'', JStr (device_user_code d)),
      (''client_id'', JStr (device_client_id d)), (''scope'', JStr (device_scope d)),
      (''created_at'', JStr (isoformat (device_created_at d))), (''expires_at'', JStr (isoformat (device_expires_at d))),
      (''approved'', JBool (device_approved d)), (''denied'', JBool (device_denied d)), (''used'', JBool (device_used d)),
      (''expired'', JBool (device_expires_at d \<le> env_now e)), (''user_id'', nullable (device_user_id d))]"

definition list_devices :: "env \<Rightarrow> list_query \<Rightarrow> app_state \<Rightarrow> web_response" where
  "list_devices e q st = page_response (device_info e) q (list_device_authorizations_page q (app_db st))"

definition expire_device :: "env \<Rightarrow> string \<Rightarrow> admin_request \<Rightarrow> admin_actor \<Rightarrow> app_state \<Rightarrow> admin_handled" where
  "expire_device e code rq actor st =
     (audited e 0 rq actor ''device.expire'' ''device'' code [] (st\<lparr>app_db := expire_device_authorization (env_now e) code (app_db st)\<rparr>),
      Inr (JsonPage 200 (JObj [(''message'', JStr ''Device code expired'')])))"


section \<open>routes/admin/denylist.py\<close>

definition VALID_KINDS :: "string list" where
  "VALID_KINDS = [''ip'', ''user_id'', ''username'', ''email'', ''client_id'']"

definition denylist_response :: "env \<Rightarrow> json \<Rightarrow> denylist_entry \<Rightarrow> json" where
  \<comment> \<open>the second argument is the printed expiry\<close>
  "denylist_response e expires d = JObj
     [(''id'', JStr (deny_pk d)), (''kind'', JStr (deny_kind d)), (''value'', JStr (deny_value d)), (''reason'', JStr (deny_reason d)),
      (''created_by'', JStr (deny_created_by d)), (''created_at'', JStr (isoformat (deny_created_at d))), (''expires_at'', expires),
      (''active'', JBool (deny_is_active (env_now e) d))]"

definition parse_expires_at :: "admin_lib \<Rightarrow> json \<Rightarrow> (datetime \<times> string) option option" where
  \<comment> \<open>\<open>None\<close> for a text that is not a date; a missing or blank one is no expiry\<close>
  "parse_expires_at al raw =
     (case raw of
        JStr s \<Rightarrow> if py_strip s = [] then Some None else map_option Some (al_fromisoformat al (py_strip s))
      | _ \<Rightarrow> Some None)"

definition list_denylist_route :: "env \<Rightarrow> list_query \<Rightarrow> app_state \<Rightarrow> web_response" where
  "list_denylist_route e q st =
     page_response (\<lambda>d. denylist_response e (case deny_expires_at d of Some t \<Rightarrow> JStr (isoformat t) | None \<Rightarrow> JNull) d) q
       (list_denylist q (app_db st))"

definition add_denylist :: "admin_lib \<Rightarrow> env \<Rightarrow> admin_request \<Rightarrow> admin_actor \<Rightarrow> app_state \<Rightarrow> admin_handled" where
  "add_denylist al e rq actor st =
     (case json_body e rq of
        Inl x \<Rightarrow> (st, Inl x)
      | Inr body \<Rightarrow>
          (let kind = py_lower (py_strip (str_or_empty (jget ''kind'' body))); value = py_strip (str_or_empty (jget ''value'' body))
           in if kind \<notin> set VALID_KINDS then (st, Inr (admin_bad_request ''kind must be one of: ip, user_id, username, email, client_id''))
              else if value = [] then (st, Inr (admin_bad_request ''value is required''))
              else (case parse_expires_at al (jget ''expires_at'' body) of
                  None \<Rightarrow> (st, Inr (admin_bad_request ''expires_at must be a valid RFC3339 datetime''))
                | Some expires \<Rightarrow>
                    (let reason = str_or_empty (jget ''reason'' body);
                         entry = \<lparr>deny_pk = env_uuid e 0, deny_kind = kind, deny_value = value, deny_reason = reason,
                           deny_created_by = (case se_email (ad_session rq) of Some m \<Rightarrow> m | None \<Rightarrow> []),
                           deny_created_at = env_now e, deny_expires_at = map_option fst expires\<rparr>
                     in case add_denylist_entry entry (app_db st) of
                          Inl x \<Rightarrow> (st, Inl x)
                        | Inr db \<Rightarrow>
                            (audited e 1 rq actor ''denylist.add'' ''denylist'' (deny_pk entry)
                               [(''kind'', JStr kind), (''value'', JStr value), (''reason'', JStr reason)] (st\<lparr>app_db := db\<rparr>),
                             Inr (JsonPage 201 (denylist_response e (case expires of Some (_, txt) \<Rightarrow> JStr txt | None \<Rightarrow> JNull) entry)))))))"

definition remove_denylist :: "env \<Rightarrow> string \<Rightarrow> admin_request \<Rightarrow> admin_actor \<Rightarrow> app_state \<Rightarrow> admin_handled" where
  "remove_denylist e i rq actor st =
     (audited e 0 rq actor ''denylist.remove'' ''denylist'' i [] (st\<lparr>app_db := remove_denylist_entry i (app_db st)\<rparr>),
      Inr (JsonPage 200 (JObj [(''message'', JStr ''Denylist entry removed'')])))"


section \<open>routes/admin/keys.py\<close>

definition VALID_ALGORITHMS :: "string list" where "VALID_ALGORITHMS = [''HS256'', ''RS256'']"

definition MAX_GRACE_PERIOD_HOURS :: int where "MAX_GRACE_PERIOD_HOURS = 1000000"

definition ROTATION_WARNING :: string where
  "ROTATION_WARNING = ''Key rotation is in-memory only. Rotated keys will be lost on restart. DB persistence is not yet implemented.''"

definition json_int :: "json \<Rightarrow> int option outcome" where
  \<comment> \<open>\<open>int(v)\<close>, \<open>None\<close> for \<open>TypeError\<close> and \<open>ValueError\<close>; an infinite float raises \<open>OverflowError\<close>, which is neither\<close>
  "json_int v =
     (case v of
        JInt i \<Rightarrow> Inr (Some i)
      | JBool b \<Rightarrow> Inr (Some (if b then 1 else 0))
      | JFloat r \<Rightarrow> Inr (Some (if r < 0 then - \<lfloor>- r\<rfloor> else \<lfloor>r\<rfloor>))
      | JStr s \<Rightarrow> Inr (py_int_str s)
      | JInfinity _ \<Rightarrow> Inl (PyError ''OverflowError'')
      | _ \<Rightarrow> Inr None)"

definition rotate_key :: "admin_lib \<Rightarrow> config \<Rightarrow> env \<Rightarrow> admin_request \<Rightarrow> admin_actor \<Rightarrow> app_state \<Rightarrow> admin_handled" where
  "rotate_key al cfg e rq actor st =
     (case json_body e rq of
        Inl x \<Rightarrow> (st, Inl x)
      | Inr body \<Rightarrow>
          (let raw = jget ''algorithm'' body; algorithm = (if jtruthy raw then py_upper (py_strip (py_str raw)) else ''RS256'')
           in if algorithm \<notin> set VALID_ALGORITHMS then (st, Inr (admin_bad_request (''Unknown algorithm: '' @ py_str raw)))
              else (case (if jget ''grace_period_hours'' body = JNull then Inr (Some (cfg_key_rotation_grace_hours cfg))
                          else json_int (jget ''grace_period_hours'' body)) of
                  Inl x \<Rightarrow> (st, Inl x)
                | Inr None \<Rightarrow> (st, Inr (admin_bad_request ''grace_period_hours must be an integer''))
                | Inr (Some hours) \<Rightarrow>
                    if hours < 0 then (st, Inr (admin_bad_request ''grace_period_hours must be non-negative''))
                    else if MAX_GRACE_PERIOD_HOURS < hours then (st, Inr (admin_bad_request ''grace_period_hours is too large''))
                    else (case generate_signing_key (al_random48 al) (al_rsa_pem al) (env_now e) algorithm (rotated_kid (env_now e) algorithm) of
                        Inl x \<Rightarrow> (st, Inl x)
                      | Inr new_key \<Rightarrow>
                          (let ks = fst (prune_expired (env_now e) (rotate_keys (env_now e) new_key (hours * 3600) (app_keyset st)))
                           in (audited e 0 rq actor ''key.rotate'' ''key'' (sk_kid new_key)
                                 [(''kid'', JStr (sk_kid new_key)), (''algorithm'', JStr (sk_algorithm new_key))] (st\<lparr>app_keyset := ks\<rparr>),
                               Inr (JsonPage 200 (JObj [(''kid'', JStr (sk_kid new_key)), (''algorithm'', JStr (sk_algorithm new_key)),
                                 (''created_at'', JStr (isoformat (sk_created_at new_key))), (''grace_period_hours'', JInt hours),
                                 (''warning'', JStr ROTATION_WARNING)]))))))))"

definition list_keys :: "env \<Rightarrow> app_state \<Rightarrow> web_response" where
  "list_keys e st = JsonPage 200 (JObj [(''keys'', JArr (map (\<lambda>k. JObj
     [(''kid'', JStr (sk_kid k)), (''algorithm'', JStr (sk_algorithm k)), (''is_current'', JBool (sk_is_current k)),
      (''created_at'', JStr (isoformat (sk_created_at k))),
      (''expires_at'', case sk_expires_at k of Some t \<Rightarrow> JStr (isoformat t) | None \<Rightarrow> JNull)]) (active_keys (env_now e) (app_keyset st))))])"


section \<open>routes/admin/dashboard.py, audit.py, events.py\<close>

definition CAPABILITIES :: "json dict" where
  "CAPABILITIES = map (\<lambda>k. (k, JBool True))
     [''events'', ''device_flow'', ''key_rotation'', ''user_crud'', ''client_crud'', ''denylist'', ''audit_log'', ''bulk_revoke'']"

definition count_of :: "('r \<Rightarrow> bool) \<Rightarrow> 'r list \<Rightarrow> json" where
  "count_of cond rows = JInt (int (length (filter cond rows)))"

definition dashboard :: "env \<Rightarrow> app_state \<Rightarrow> web_response" where
  "dashboard e st =
     (let db = app_db st; now = env_now e;
          clients = list_all_clients db; users = list_all_users db; tokens = list_all_tokens db; devices = list_all_device_authorizations db
      in JsonPage 200 (JObj
           [(''total_clients'', count_of (\<lambda>_. True) clients), (''public_clients'', count_of is_public clients),
            (''confidential_clients'', count_of (\<lambda>c. \<not> is_public c) clients), (''total_users'', count_of (\<lambda>_. True) users),
            (''enabled_users'', count_of user_enabled users), (''total_tokens'', count_of (\<lambda>_. True) tokens),
            (''active_tokens'', count_of (\<lambda>t. \<not> token_revoked t \<and> now < token_expires_at t) tokens),
            (''revoked_tokens'', count_of token_revoked tokens),
            (''expired_tokens'', count_of (\<lambda>t. \<not> token_revoked t \<and> token_expires_at t \<le> now) tokens),
            (''pending_device_codes'', count_of (\<lambda>d. \<not> device_approved d \<and> \<not> device_denied d \<and> now < device_expires_at d) devices)]))"

definition capabilities :: web_response where
  "capabilities = JsonPage 200 (JObj CAPABILITIES)"

definition audit_response :: "audit_log_entry \<Rightarrow> json" where
  "audit_response a = JObj
     [(''id'', JStr (audit_pk a)), (''actor_id'', JStr (audit_actor_id a)), (''actor_email'', JStr (audit_actor_email a)),
      (''action'', JStr (audit_action a)), (''target_kind'', JStr (audit_target_kind a)), (''target_id'', JStr (audit_target_id a)),
      (''ip'', JStr (audit_ip a)), (''user_agent'', JStr (audit_user_agent a)), (''metadata'', JStr (audit_metadata a)),
      (''created_at'', JStr (isoformat (audit_created_at a)))]"

definition list_audit :: "list_query \<Rightarrow> app_state \<Rightarrow> web_response" where
  "list_audit q st = page_response audit_response q (list_audit_log q (app_db st))"

definition recent_events_route :: "list_query \<Rightarrow> app_state \<Rightarrow> web_response" where
  "recent_events_route q st = page_response id q (recent_list (effective_limit q) (lq_offset q) (app_recent st))"

end
