(* ===== verification/Admin_Clients.thy ===== *)
theory Admin_Clients
  imports Admin_Users
begin

text \<open>
  The admin endpoints of clients (\<open>routes/admin/clients.py\<close>). The path names the row by its internal
  identifier; creating and updating check the URIs of the request and the key material of the row that
  would result, as registration does.
\<close>

definition DEFAULT_GRANT_TYPES :: "string list" where "DEFAULT_GRANT_TYPES = [''authorization_code'', ''refresh_token'']"

definition DEFAULT_AUTH_METHOD :: string where "DEFAULT_AUTH_METHOD = ''client_secret_basic''"

definition BLANK_SUBJECT_DN_ERROR :: string where
  "BLANK_SUBJECT_DN_ERROR = ''tls_client_certificate_subject_dn must not be blank''"

definition client_not_found :: web_response where
  "client_not_found = JsonPage 404 (JObj [(''error'', JStr ''client not found'')])"

definition string_list :: "json \<Rightarrow> string list option" where
  \<comment> \<open>a list all of whose elements are strings\<close>
  "string_list v = (case v of JArr xs \<Rightarrow> if list_all is_jstr xs then Some (map jstr_of xs) else None | _ \<Rightarrow> None)"

definition validate_uri_list :: "string \<Rightarrow> json \<Rightarrow> web_response option outcome" where
  "validate_uri_list name v =
     (if v = JNull then Inr None
      else (case string_list v of
          None \<Rightarrow> Inr (Some (admin_bad_request (name @ '' must be a list of strings'')))
        | Some uris \<Rightarrow> bind_res (all_valid_uris uris) (\<lambda>ok.
            Inr (if ok then None else Some (admin_bad_request (name @ '' must be absolute http(s) URLs without fragments''))))))"

definition validate_logout_uri :: "string \<Rightarrow> string option \<Rightarrow> web_response option outcome" where
  "validate_logout_uri name uri =
     bind_res (optional_uri_ok uri) (\<lambda>ok.
       Inr (if ok then None else Some (admin_bad_request (name @ '' must be an absolute http(s) URL without a fragment''))))"

definition first_invalid :: "web_response option outcome \<Rightarrow> web_response option outcome \<Rightarrow> web_response option outcome" where
  "first_invalid a b = bind_res a (\<lambda>r. case r of Some x \<Rightarrow> Inr (Some x) | None \<Rightarrow> b)"

definition validate_redirect_uris :: "json \<Rightarrow> string option \<Rightarrow> string option \<Rightarrow> json \<Rightarrow> web_response option outcome" where
  "validate_redirect_uris redirect_uris backchannel frontchannel post_logout =
     first_invalid (validate_uri_list ''redirect_uris'' redirect_uris)
     (first_invalid (validate_logout_uri ''backchannel_logout_uri'' backchannel)
     (first_invalid (validate_logout_uri ''frontchannel_logout_uri'' frontchannel)
       (validate_uri_list ''post_logout_redirect_uris'' post_logout)))"

definition validate_key_material :: "string \<Rightarrow> string \<Rightarrow> string \<Rightarrow> web_response option outcome" where
  "validate_key_material auth_method jwks_json jwks_uri =
     (if auth_method \<notin> set VALID_AUTH_METHODS then Inr (Some (admin_bad_request auth_method_error))
      else if jwks_json \<noteq> [] \<and> jwks_uri \<noteq> [] then Inr (Some (admin_bad_request ''jwks and jwks_uri are mutually exclusive''))
      else bind_res (if jwks_uri \<noteq> [] then is_valid_jwks_uri jwks_uri else Inr True) (\<lambda>ok.
        Inr (if \<not> ok then Some (admin_bad_request JWKS_URI_ERROR)
             else if auth_method = ''private_key_jwt'' \<and> jwks_json = [] \<and> jwks_uri = []
             then Some (admin_bad_request ''private_key_jwt requires jwks or jwks_uri'')
             else if auth_method = ''self_signed_tls_client_auth'' \<and> jwks_json = [] \<and> jwks_uri = []
             then Some (admin_bad_request SELF_SIGNED_REQUIRES_JWKS_ERROR)
             else None)))"

definition resolve_client_row :: "string \<Rightarrow> app_state \<Rightarrow> client option" where
  "resolve_client_row uuid st = find (\<lambda>c. client_pk c = uuid) (list_all_clients (app_db st))"

definition client_info :: "client \<Rightarrow> json" where
  "client_info c = JObj
     [(''id'', JStr (client_pk c)), (''client_id'', JStr (client_client_id c)), (''name'', JStr (client_name c)), (''scope'', JStr (client_scope c)),
      (''grant_types'', JStr (client_grant_types c)), (''token_endpoint_auth_method'', JStr (client_token_endpoint_auth_method c)),
      (''redirect_uris'', JStr (client_redirect_uris c)), (''jwks_uri'', JStr (client_jwks_uri c)),
      (''created_at'', JStr (isoformat (client_created_at c)))]"

definition client_detail :: "client \<Rightarrow> json" where
  "client_detail c = JObj
     [(''id'', JStr (client_pk c)), (''client_id'', JStr (client_client_id c)), (''name'', JStr (client_name c)), (''scope'', JStr (client_scope c)),
      (''grant_types'', JStr (client_grant_types c)), (''redirect_uris'', JStr (client_redirect_uris c)),
      (''token_endpoint_auth_method'', JStr (client_token_endpoint_auth_method c)), (''response_types'', JStr (client_response_types c)),
      (''contacts'', JStr (client_contacts c)), (''logo_uri'', JStr (client_logo_uri c)), (''client_uri'', JStr (client_client_uri c)),
      (''policy_uri'', JStr (client_policy_uri c)), (''tos_uri'', JStr (client_tos_uri c)), (''jwks'', JStr (client_jwks c)),
      (''jwks_uri'', JStr (client_jwks_uri c)),
      (''tls_client_certificate_subject_dn'', JStr (client_tls_client_certificate_subject_dn c)),
      (''created_at'', JStr (isoformat (client_created_at c))), (''updated_at'', JStr (isoformat (client_updated_at c)))]"

definition best_effort_revoke_by_client :: "admin_lib \<Rightarrow> string \<Rightarrow> app_state \<Rightarrow> app_state" where
  \<comment> \<open>as for users, an exception of the storage is swallowed\<close>
  "best_effort_revoke_by_client al cid st =
     (if al_revoke_raises al then st else st\<lparr>app_db := snd (revoke_tokens_by_client_id cid (app_db st))\<rparr>)"

definition list_clients :: "list_query \<Rightarrow> app_state \<Rightarrow> web_response" where
  "list_clients q st = page_response client_info q (list_clients_page q (app_db st))"

record client_draft =
  cd_name :: string
  cd_client_id :: json
  cd_auth_method :: string
  cd_jwks :: json
  cd_jwks_json :: string
  cd_jwks_uri :: string
  cd_subject_dn :: string
  cd_secret :: string
  cd_redirect_uris :: json
  cd_grant_types :: json
  cd_scope :: json
  cd_backchannel :: string
  cd_frontchannel :: string
  cd_post_logout :: json
  cd_draws :: nat

definition or_text :: "string \<Rightarrow> json \<Rightarrow> json" where
  \<comment> \<open>\<open>v or s\<close>\<close>
  "or_text s v = (if jtruthy v then v else JStr s)"

definition draft_of :: "admin_lib \<Rightarrow> env \<Rightarrow> json dict \<Rightarrow> client_draft" where
  \<comment> \<open>the locals of \<open>create_client\<close> once every check has passed; \<open>cd_draws\<close> counts the uuids drawn\<close>
  "draft_of al e body =
     (let requested = jget ''client_id'' body; jwks = jget ''jwks'' body; given = jget ''client_secret'' body;
          auth = jstr_of (or_text DEFAULT_AUTH_METHOD (jget ''token_endpoint_auth_method'' body));
          public = (auth = ''none''); n = (if jtruthy requested then 0 else 1)
      in \<lparr>cd_name = py_strip (str_or_empty (jget ''name'' body)),
          cd_client_id = (if jtruthy requested then requested else JStr (''client-'' @ take 12 (env_uuid e 0))),
          cd_auth_method = auth, cd_jwks = jwks, cd_jwks_json = (if jtruthy jwks then dumps_with (al_float al) jwks else []),
          cd_jwks_uri = jstr_of (or_text [] (jget ''jwks_uri'' body)),
          cd_subject_dn = jstr_of (or_text [] (jget ''tls_client_certificate_subject_dn'' body)),
          cd_secret = (if public then [] else if jtruthy given then py_str given else env_uuid e n),
          cd_redirect_uris = (case map_of body ''redirect_uris'' of Some v \<Rightarrow> v | None \<Rightarrow> JArr []),
          cd_grant_types = (case map_of body ''grant_types'' of Some v \<Rightarrow> v | None \<Rightarrow> JArr (map JStr DEFAULT_GRANT_TYPES)),
          cd_scope = or_text [] (jget ''scope'' body),
          cd_backchannel = jstr_of (or_text [] (jget ''backchannel_logout_uri'' body)),
          cd_frontchannel = jstr_of (or_text [] (jget ''frontchannel_logout_uri'' body)),
          cd_post_logout = jget ''post_logout_redirect_uris'' body,
          cd_draws = (if public \<or> jtruthy given then n else n + 1)\<rparr>)"

definition not_text :: "string \<Rightarrow> json dict \<Rightarrow> bool" where
  \<comment> \<open>a member that is present, truthy and not a string\<close>
  "not_text k body \<longleftrightarrow> \<not> is_jstr (or_text [] (jget k body))"

definition draft_client :: "admin_lib \<Rightarrow> env \<Rightarrow> json dict \<Rightarrow> database \<Rightarrow> (web_response + client_draft) outcome" where
  \<comment> \<open>the checks of \<open>create_client\<close>, in the order of the source\<close>
  "draft_client al e body db =
     (let d = draft_of al e body; requested = jget ''client_id'' body;
          stop = (\<lambda>r. Inr (Inl r)); bad = (\<lambda>m. Inr (Inl (admin_bad_request m)))
      in if cd_name d = [] then bad ''name is required''
         else if jtruthy requested \<and> get_client (py_str requested) db \<noteq> None
         then stop (error_page 409 ''already_exists'' ''client_id already registered'')
         else if not_text ''token_endpoint_auth_method'' body then bad ''token_endpoint_auth_method must be a string''
         else if cd_jwks d \<noteq> JNull \<and> \<not> is_jobj (cd_jwks d) then bad ''jwks must be a JSON object''
         else if not_text ''jwks_uri'' body then bad ''jwks_uri must be a string''
         else if not_text ''tls_client_certificate_subject_dn'' body then bad ''tls_client_certificate_subject_dn must be a string''
         else if cd_subject_dn d \<noteq> [] \<and> py_strip (cd_subject_dn d) = [] then bad BLANK_SUBJECT_DN_ERROR
         else bind_res (validate_key_material (cd_auth_method d) (cd_jwks_json d) (cd_jwks_uri d)) (\<lambda>invalid.
           case invalid of Some r \<Rightarrow> stop r | None \<Rightarrow>
             if not_text ''backchannel_logout_uri'' body \<or> not_text ''frontchannel_logout_uri'' body then bad ''logout URIs must be strings''
             else bind_res (validate_redirect_uris (cd_redirect_uris d) (Some (cd_backchannel d)) (Some (cd_frontchannel d)) (cd_post_logout d)) (\<lambda>invalid.
               case invalid of Some r \<Rightarrow> stop r | None \<Rightarrow> Inr (Inr d))))"

definition draft_row :: "admin_lib \<Rightarrow> env \<Rightarrow> client_draft \<Rightarrow> client" where
  "draft_row al e d =
     (mk_client (env_uuid e (cd_draws d)) (jstr_of (cd_client_id d)) (cd_secret d) (dumps_with (al_float al) (cd_redirect_uris d))
        (dumps_with (al_float al) (cd_grant_types d)) (jstr_of (cd_scope d)) (cd_name d) (env_now e))
     \<lparr>client_token_endpoint_auth_method := cd_auth_method d, client_jwks := cd_jwks_json d, client_jwks_uri := cd_jwks_uri d,
      client_tls_client_certificate_subject_dn := cd_subject_dn d, client_backchannel_logout_uri := cd_backchannel d,
      client_frontchannel_logout_uri := cd_frontchannel d,
      client_post_logout_redirect_uris := (if jtruthy (cd_post_logout d) then dumps_with (al_float al) (cd_post_logout d) else []),
      client_enabled := True\<rparr>"

definition create_client :: "admin_lib \<Rightarrow> env \<Rightarrow> admin_request \<Rightarrow> admin_actor \<Rightarrow> app_state \<Rightarrow> admin_handled" where
  \<comment> \<open>the model's constructor refuses an identifier or a scope that is not a string\<close>
  "create_client al e rq actor st =
     (case bind_res (json_body e rq) (\<lambda>body. draft_client al e body (app_db st)) of
        Inl x \<Rightarrow> (st, Inl x)
      | Inr (Inl r) \<Rightarrow> (st, Inr r)
      | Inr (Inr d) \<Rightarrow>
          if \<not> is_jstr (cd_client_id d) \<or> \<not> is_jstr (cd_scope d) then (st, Inl (PyError ''ValidationError''))
          else (let c = draft_row al e d
                in case save_client c (app_db st) of
                     Inl x \<Rightarrow> (st, Inl x)
                   | Inr db \<Rightarrow>
                       (audited e (cd_draws d + 1) rq actor ''client.create'' ''client'' (client_pk c)
                          [(''client_id'', cd_client_id d), (''name'', JStr (cd_name d))] (st\<lparr>app_db := db\<rparr>),
                        Inr (JsonPage 201 (JObj
                          [(''id'', JStr (client_pk c)), (''client_id'', JStr (client_client_id c)),
                           (''client_secret'', if is_public c then JNull else JStr (cd_secret d)), (''name'', JStr (client_name c)),
                           (''redirect_uris'', cd_redirect_uris d), (''grant_types'', cd_grant_types d), (''scope'', cd_scope d),
                           (''token_endpoint_auth_method'', JStr (cd_auth_method d)), (''jwks'', cd_jwks d), (''jwks_uri'', JStr (cd_jwks_uri d)),
                           (''tls_client_certificate_subject_dn'', JStr (cd_subject_dn d)), (''enabled'', JBool True),
                           (''created_at'', JStr (isoformat (env_now e)))])))))"

definition get_client_route :: "string \<Rightarrow> app_state \<Rightarrow> web_response" where
  "get_client_route uuid st = (case resolve_client_row uuid st of None \<Rightarrow> client_not_found | Some c \<Rightarrow> JsonPage 200 (client_detail c))"

definition client_update_nulls :: "client_update \<Rightarrow> (string \<times> bool) list" where
  "client_update_nulls b =
     null_field ''name'' (cu_name b) @ null_field ''redirect_uris'' (cu_redirect_uris b) @ null_field ''grant_types'' (cu_grant_types b) @
     null_field ''scope'' (cu_scope b) @ null_field ''token_endpoint_auth_method'' (cu_token_endpoint_auth_method b) @
     null_field ''enabled'' (cu_enabled b) @ null_field ''jwks'' (cu_jwks b) @ null_field ''jwks_uri'' (cu_jwks_uri b) @
     null_field ''tls_client_certificate_subject_dn'' (cu_tls_client_certificate_subject_dn b) @
     null_field ''backchannel_logout_uri'' (cu_backchannel_logout_uri b) @ null_field ''frontchannel_logout_uri'' (cu_frontchannel_logout_uri b) @
     null_field ''post_logout_redirect_uris'' (cu_post_logout_redirect_uris b)"

definition or_stored :: "'a option option \<Rightarrow> 'a \<Rightarrow> 'a" where
  "or_stored v old = (case provided v of Some x \<Rightarrow> x | None \<Rightarrow> old)"

definition updated_client :: "admin_lib \<Rightarrow> env \<Rightarrow> client_update \<Rightarrow> client \<Rightarrow> client" where
  \<comment> \<open>\<open>model_copy\<close> with the provided fields\<close>
  "updated_client al e b c =
     c\<lparr>client_name := or_stored (cu_name b) (client_name c),
       client_redirect_uris := (case provided (cu_redirect_uris b) of Some us \<Rightarrow> dumps_list us | None \<Rightarrow> client_redirect_uris c),
       client_grant_types := (case provided (cu_grant_types b) of Some gs \<Rightarrow> dumps_list gs | None \<Rightarrow> client_grant_types c),
       client_scope := or_stored (cu_scope b) (client_scope c),
       client_token_endpoint_auth_method := or_stored (cu_token_endpoint_auth_method b) (client_token_endpoint_auth_method c),
       client_enabled := or_stored (cu_enabled b) (client_enabled c),
       client_jwks := (case provided (cu_jwks b) of Some (p # ps) \<Rightarrow> dumps_with (al_float al) (JObj (p # ps)) | Some [] \<Rightarrow> [] | None \<Rightarrow> client_jwks c),
       client_jwks_uri := or_stored (cu_jwks_uri b) (client_jwks_uri c),
       client_tls_client_certificate_subject_dn := or_stored (cu_tls_client_certificate_subject_dn b) (client_tls_client_certificate_subject_dn c),
       client_backchannel_logout_uri := or_stored (cu_backchannel_logout_uri b) (client_backchannel_logout_uri c),
       client_frontchannel_logout_uri := or_stored (cu_frontchannel_logout_uri b) (client_frontchannel_logout_uri c),
       client_post_logout_redirect_uris :=
         (case provided (cu_post_logout_redirect_uris b) of Some (u # us) \<Rightarrow> dumps_list (u # us) | Some [] \<Rightarrow> [] | None \<Rightarrow> client_post_logout_redirect_uris c),
       client_updated_at := env_now e\<rparr>"

definition uris_json :: "string list option option \<Rightarrow> json" where
  "uris_json v = (case provided v of Some us \<Rightarrow> JArr (map JStr us) | None \<Rightarrow> JNull)"

definition check_update :: "client_update \<Rightarrow> client \<Rightarrow> web_response option outcome" where
  \<comment> \<open>the second argument is the row as it would be after the merge\<close>
  "check_update b updated =
     (let dn = provided (cu_tls_client_certificate_subject_dn b)
      in if truthy dn \<and> py_strip (the dn) = [] then Inr (Some (admin_bad_request BLANK_SUBJECT_DN_ERROR))
         else first_invalid
           (validate_redirect_uris (uris_json (cu_redirect_uris b)) (provided (cu_backchannel_logout_uri b))
              (provided (cu_frontchannel_logout_uri b)) (uris_json (cu_post_logout_redirect_uris b)))
           (validate_key_material (client_token_endpoint_auth_method updated) (client_jwks updated) (client_jwks_uri updated)))"

definition client_update_fields :: "client_update \<Rightarrow> (string \<times> bool) list" where
  "client_update_fields b =
     [(''backchannel_logout_uri'', provided (cu_backchannel_logout_uri b) \<noteq> None), (''enabled'', provided (cu_enabled b) \<noteq> None),
      (''frontchannel_logout_uri'', provided (cu_frontchannel_logout_uri b) \<noteq> None), (''grant_types'', provided (cu_grant_types b) \<noteq> None),
      (''jwks'', provided (cu_jwks b) \<noteq> None), (''jwks_uri'', provided (cu_jwks_uri b) \<noteq> None), (''name'', provided (cu_name b) \<noteq> None),
      (''post_logout_redirect_uris'', provided (cu_post_logout_redirect_uris b) \<noteq> None), (''redirect_uris'', provided (cu_redirect_uris b) \<noteq> None),
      (''scope'', provided (cu_scope b) \<noteq> None),
      (''tls_client_certificate_subject_dn'', provided (cu_tls_client_certificate_subject_dn b) \<noteq> None),
      (''token_endpoint_auth_method'', provided (cu_token_endpoint_auth_method b) \<noteq> None)]"

definition update_client_route :: "admin_lib \<Rightarrow> env \<Rightarrow> string \<Rightarrow> admin_request \<Rightarrow> admin_actor \<Rightarrow> app_state \<Rightarrow> admin_handled" where
  "update_client_route al e uuid rq actor st =
     (case resolve_client_row uuid st of
        None \<Rightarrow> (st, Inr client_not_found)
      | Some c \<Rightarrow>
          (case parse_body (al_client_update al) client_update_nulls e rq of
             Inl x \<Rightarrow> (st, Inl x)
           | Inr (Inl err) \<Rightarrow> (st, Inr err)
           | Inr (Inr b) \<Rightarrow>
               (let updated = updated_client al e b c
                in case check_update b updated of
                     Inl x \<Rightarrow> (st, Inl x)
                   | Inr (Some r) \<Rightarrow> (st, Inr r)
                   | Inr None \<Rightarrow>
                       (let st1 = st\<lparr>app_db := Sql_Storage.update_client updated (app_db st)\<rparr>;
                            st2 = (if provided (cu_enabled b) = Some False then best_effort_revoke_by_client al (client_client_id c) st1 else st1)
                        in (audited e 0 rq actor ''client.update'' ''client'' (client_pk c) (fields_json (client_update_fields b)) st2,
                            Inr (JsonPage 200 (JObj [(''id'', JStr (client_pk updated)), (''client_id'', JStr (client_client_id updated)),
                              (''name'', JStr (client_name updated)), (''enabled'', JBool (client_enabled updated)),
                              (''updated_at'', JStr (isoformat (env_now e)))])))))))"

definition delete_client_route :: "env \<Rightarrow> string \<Rightarrow> admin_request \<Rightarrow> admin_actor \<Rightarrow> app_state \<Rightarrow> admin_handled" where
  "delete_client_route e uuid rq actor st =
     (case resolve_client_row uuid st of
        None \<Rightarrow> (st, Inr client_not_found)
      | Some c \<Rightarrow>
          (case Sql_Storage.delete_client (client_client_id c) (app_db st) of
             Inl x \<Rightarrow> (st, Inl x)
           | Inr db \<Rightarrow>
               (audited e 0 rq actor ''client.delete'' ''client'' (client_pk c) [(''client_id'', JStr (client_client_id c))] (st\<lparr>app_db := db\<rparr>),
                Inr (JsonPage 200 (JObj [(''message'', JStr ''Client deleted'')])))))"

definition set_client_enabled_route :: "admin_lib \<Rightarrow> env \<Rightarrow> string \<Rightarrow> admin_request \<Rightarrow> admin_actor \<Rightarrow> app_state \<Rightarrow> admin_handled" where
  "set_client_enabled_route al e uuid rq actor st =
     (case resolve_client_row uuid st of
        None \<Rightarrow> (st, Inr client_not_found)
      | Some c \<Rightarrow>
          (case json_body e rq of
             Inl x \<Rightarrow> (st, Inl x)
           | Inr body \<Rightarrow>
               (case jget ''enabled'' body of
                  JBool enabled \<Rightarrow>
                    (let st1 = st\<lparr>app_db := Sql_Storage.set_client_enabled (client_client_id c) enabled (app_db st)\<rparr>;
                         st2 = (if \<not> enabled then best_effort_revoke_by_client al (client_client_id c) st1 else st1)
                     in (audited e 0 rq actor (if enabled then ''client.enable'' else ''client.disable'') ''client'' (client_pk c)
                           [(''enabled'', JBool enabled)] st2,
                         Inr (JsonPage 200 (JObj [(''enabled'', JBool enabled)]))))
                | _ \<Rightarrow> (st, Inr (admin_bad_request ''enabled must be a boolean'')))))"

definition regenerate_client_secret :: "env \<Rightarrow> string \<Rightarrow> admin_request \<Rightarrow> admin_actor \<Rightarrow> app_state \<Rightarrow> admin_handled" where
  "regenerate_client_secret e uuid rq actor st =
     (case resolve_client_row uuid st of
        None \<Rightarrow> (st, Inr client_not_found)
      | Some c \<Rightarrow>
          if is_public c then (st, Inr (admin_bad_request ''public clients have no secret''))
          else (audited e 1 rq actor ''client.regenerate_secret'' ''client'' (client_pk c) []
                  (st\<lparr>app_db := set_client_secret (client_client_id c) (env_uuid e 0) (app_db st)\<rparr>),
                Inr (JsonPage 200 (JObj [(''client_id'', JStr (client_client_id c)), (''client_secret'', JStr (env_uuid e 0))]))))"

end
