(* ===== verification/Admin_Api.thy ===== *)
theory Admin_Api
  imports Admin_Clients Login
begin

text \<open>
  The admin API as one step function: \<open>admin_router\<close> puts \<open>require_admin\<close> before every handler
  (\<open>routes/admin/__init__.py\<close>). The theorems hold of every endpoint at once: a change has an authorized author and
  leaves an entry that says what was done (and, for a browser session, by whom); no call leaves a client without a source of the
  keys its method verifies with; disabling a user ends every token and every later login, unless the revocation raises. The
  counterexamples are the browser session of a demoted administrator, which keeps its rights, the client without a secret that is switched to a
  secret method, and the list columns that \<open>create_client\<close> accepts as null.
\<close>

datatype admin_call =
    ListClients list_query | CreateClient | GetClient string | UpdateClient string | DeleteClient string
  | SetClientEnabled string | RegenerateSecret string
  | ListUsers list_query | CreateUser | GetUser string | UpdateUser string | DeleteUser string
  | SetUserEnabled string | SetUserRole string | ResetPassword string
  | ListTokens list_query | GetToken string | RevokeToken string | RevokeByUser | RevokeByClient
  | ListDevices list_query | ExpireDevice string | Dashboard | Capabilities | RecentEvents list_query
  | ListDenylist list_query | AddDenylist | RemoveDenylist string | ListAudit list_query | RotateKey | ListKeys

definition reads :: "web_response \<Rightarrow> app_state \<Rightarrow> admin_handled" where
  "reads r st = (st, Inr r)"

definition admin_handler ::
  "admin_lib \<Rightarrow> config \<Rightarrow> env \<Rightarrow> admin_call \<Rightarrow> admin_request \<Rightarrow> admin_actor \<Rightarrow> app_state \<Rightarrow> admin_handled" where
  "admin_handler al cfg e call rq actor st =
     (case call of
        ListClients q \<Rightarrow> reads (list_clients q st) st
      | CreateClient \<Rightarrow> create_client al e rq actor st
      | GetClient i \<Rightarrow> reads (get_client_route i st) st
      | UpdateClient i \<Rightarrow> update_client_route al e i rq actor st
      | DeleteClient i \<Rightarrow> delete_client_route e i rq actor st
      | SetClientEnabled i \<Rightarrow> set_client_enabled_route al e i rq actor st
      | RegenerateSecret i \<Rightarrow> regenerate_client_secret e i rq actor st
      | ListUsers q \<Rightarrow> reads (list_users q st) st
      | CreateUser \<Rightarrow> create_user al e rq actor st
      | GetUser i \<Rightarrow> reads (get_user i st) st
      | UpdateUser i \<Rightarrow> update_user_route al e i rq actor st
      | DeleteUser i \<Rightarrow> delete_user_route al e i rq actor st
      | SetUserEnabled i \<Rightarrow> set_user_enabled_route al e i rq actor st
      | SetUserRole i \<Rightarrow> set_user_role_route e i rq actor st
      | ResetPassword i \<Rightarrow> reset_user_password al e i rq actor st
      | ListTokens q \<Rightarrow> reads (list_tokens e q st) st
      | GetToken i \<Rightarrow> reads (get_token e i st) st
      | RevokeToken i \<Rightarrow> revoke_token_by_id e i rq actor st
      | RevokeByUser \<Rightarrow> revoke_tokens_by_user e rq actor st
      | RevokeByClient \<Rightarrow> revoke_tokens_by_client e rq actor st
      | ListDevices q \<Rightarrow> reads (list_devices e q st) st
      | ExpireDevice i \<Rightarrow> expire_device e i rq actor st
      | Dashboard \<Rightarrow> reads (dashboard e st) st
      | Capabilities \<Rightarrow> reads capabilities st
      | RecentEvents q \<Rightarrow> reads (recent_events_route q st) st
      | ListDenylist q \<Rightarrow> reads (list_denylist_route e q st) st
      | AddDenylist \<Rightarrow> add_denylist al e rq actor st
      | RemoveDenylist i \<Rightarrow> remove_denylist e i rq actor st
      | ListAudit q \<Rightarrow> reads (list_audit q st) st
      | RotateKey \<Rightarrow> rotate_key al cfg e rq actor st
      | ListKeys \<Rightarrow> reads (list_keys e st) st)"

definition admin_api ::
  "admin_lib \<Rightarrow> config \<Rightarrow> env \<Rightarrow> admin_call \<Rightarrow> admin_request \<Rightarrow> app_state \<Rightarrow> admin_handled" where
  "admin_api al cfg e call rq st =
     (case require_admin cfg e rq st of
        Inl r \<Rightarrow> (st, Inr r)
      | Inr actor \<Rightarrow> admin_handler al cfg e call rq actor st)"


section \<open>Every change is logged with its author\<close>

named_theorems audit_frame \<open>storage operations other than the audit write leave the audit log alone\<close>

lemma audit_frame_outcomes [audit_frame]:
  "save_user u db = Inr db' \<Longrightarrow> db_audit db' = db_audit db"
  "Sql_Storage.update_user u db = Inr db' \<Longrightarrow> db_audit db' = db_audit db"
  "Sql_Storage.delete_user i db = Inr db' \<Longrightarrow> db_audit db' = db_audit db"
  "save_client c db = Inr db' \<Longrightarrow> db_audit db' = db_audit db"
  "Sql_Storage.delete_client i db = Inr db' \<Longrightarrow> db_audit db' = db_audit db"
  "add_denylist_entry d db = Inr db' \<Longrightarrow> db_audit db' = db_audit db"
  by (auto simp: save_user_def update_user_def delete_user_def save_client_def delete_client_def add_denylist_entry_def
      unlink_user_tokens_def bind_res_Inr_iff Let_def split: if_splits)

lemma audit_frame_updates [audit_frame, simp]:
  "db_audit (Sql_Storage.set_user_enabled i b db) = db_audit db"
  "db_audit (Sql_Storage.set_user_role i r db) = db_audit db"
  "db_audit (set_user_password_hash i h db) = db_audit db"
  "db_audit (Sql_Storage.update_client c db) = db_audit db"
  "db_audit (Sql_Storage.set_client_enabled i b db) = db_audit db"
  "db_audit (set_client_secret i s db) = db_audit db"
  "db_audit (snd (revoke_tokens_by_user_id i db)) = db_audit db"
  "db_audit (snd (revoke_tokens_by_client_id i db)) = db_audit db"
  "db_audit (revoke_token s db) = db_audit db"
  "db_audit (expire_device_authorization now s db) = db_audit db"
  "db_audit (remove_denylist_entry i db) = db_audit db"
  by (simp_all add: set_user_enabled_def set_user_role_def set_user_password_hash_def update_client_def set_client_enabled_def
      set_client_secret_def revoke_tokens_by_user_id_def revoke_tokens_by_client_id_def revoke_where_def revoke_token_def
      expire_device_authorization_def remove_denylist_entry_def)

fun call_actions :: "admin_call \<Rightarrow> (string \<times> string) list" where
  \<comment> \<open>the action and the kind of target that the audit log shows for a call; reading is not audited\<close>
  "call_actions CreateClient = [(''client.create'', ''client'')]"
| "call_actions (UpdateClient _) = [(''client.update'', ''client'')]"
| "call_actions (DeleteClient _) = [(''client.delete'', ''client'')]"
| "call_actions (SetClientEnabled _) = [(''client.enable'', ''client''), (''client.disable'', ''client'')]"
| "call_actions (RegenerateSecret _) = [(''client.regenerate_secret'', ''client'')]"
| "call_actions CreateUser = [(''user.create'', ''user'')]"
| "call_actions (UpdateUser _) = [(''user.update'', ''user'')]"
| "call_actions (DeleteUser _) = [(''user.delete'', ''user'')]"
| "call_actions (SetUserEnabled _) = [(''user.enable'', ''user''), (''user.disable'', ''user'')]"
| "call_actions (SetUserRole _) = [(''user.set_role'', ''user'')]"
| "call_actions (ResetPassword _) = [(''user.reset_password'', ''user'')]"
| "call_actions (RevokeToken _) = [(''token.revoke'', ''token'')]"
| "call_actions RevokeByUser = [(''token.bulk_revoke_by_user'', ''user'')]"
| "call_actions RevokeByClient = [(''token.bulk_revoke_by_client'', ''client'')]"
| "call_actions (ExpireDevice _) = [(''device.expire'', ''device'')]"
| "call_actions AddDenylist = [(''denylist.add'', ''denylist'')]"
| "call_actions (RemoveDenylist _) = [(''denylist.remove'', ''denylist'')]"
| "call_actions RotateKey = [(''key.rotate'', ''key'')]"
| "call_actions _ = []"

fun call_path :: "admin_call \<Rightarrow> string option" where
  \<comment> \<open>the identifier in the path of a call that changes one row\<close>
  "call_path (UpdateClient i) = Some i" | "call_path (DeleteClient i) = Some i" | "call_path (SetClientEnabled i) = Some i"
| "call_path (RegenerateSecret i) = Some i" | "call_path (UpdateUser i) = Some i" | "call_path (DeleteUser i) = Some i"
| "call_path (SetUserEnabled i) = Some i" | "call_path (SetUserRole i) = Some i" | "call_path (ResetPassword i) = Some i"
| "call_path (RevokeToken i) = Some i" | "call_path (ExpireDevice i) = Some i" | "call_path (RemoveDenylist i) = Some i"
| "call_path _ = None"

definition audit_fits :: "admin_call \<Rightarrow> string \<Rightarrow> string \<Rightarrow> string \<Rightarrow> bool" where
  "audit_fits call action kind target \<longleftrightarrow> (action, kind) \<in> set (call_actions call) \<and> call_path call \<in> {None, Some target}"

definition logged :: "env \<Rightarrow> admin_request \<Rightarrow> admin_actor \<Rightarrow> admin_call \<Rightarrow> app_state \<Rightarrow> app_state \<Rightarrow> bool" where
  "logged e rq actor call st st' \<longleftrightarrow> st' = st \<or>
     (\<exists>n action kind target meta st1. st' = audited e n rq actor action kind target meta st1 \<and> audit_fits call action kind target \<and>
        app_recent st1 = app_recent st \<and> db_audit (app_db st1) = db_audit (app_db st))"

lemma logged_same [simp, intro]: "logged e rq actor call st st"
  by (simp add: logged_def)

lemma logged_audited [intro]:
  "app_recent st1 = app_recent st \<Longrightarrow> db_audit (app_db st1) = db_audit (app_db st) \<Longrightarrow> audit_fits call action kind target \<Longrightarrow>
   logged e rq actor call st (audited e n rq actor action kind target meta st1)"
  by (auto simp: logged_def)

lemma found_rows:
  "resolve_client_row i st = Some c \<Longrightarrow> client_pk c = i"
  "get_user_by_id i db = Some u \<Longrightarrow> user_pk u = i"
  "get_token_by_id i db = Some t \<Longrightarrow> token_pk t = i"
  by (auto simp: resolve_client_row_def get_user_by_id_def get_token_by_id_def find_Some_iff)



















definition admin_session :: session where
  "admin_session = empty_session\<lparr>se_user_id := Some ''1'', se_role := Some ''admin'', se_email := Some ''root@example.com''\<rparr>"

definition session_request :: "session \<Rightarrow> bytes \<Rightarrow> admin_request" where
  "session_request s body = \<lparr>ad_request = \<lparr>rq_headers = [], rq_form = []\<rparr>, ad_session = s, ad_host = Some ''10.0.0.1'', ad_body = body\<rparr>"

lemma session_request_admin:
  "require_admin cfg e (session_request admin_session body) st = Inr \<lparr>actor_id = ''1'', actor_email = ''root@example.com''\<rparr>"
  by (simp add: require_admin_def session_request_def admin_session_def header_get_def authenticate_session_def empty_session_def py_lower_def Let_def)

definition sample_al :: admin_lib where
  "sample_al = \<lparr>al_hash = (\<lambda>p. ''$'' @ p), al_user_update = (\<lambda>_. Inl ''body: invalid''), al_client_update = (\<lambda>_. Inl ''body: invalid''),
     al_float = (\<lambda>_. ''0.5''), al_fromisoformat = (\<lambda>_. None), al_random48 = [], al_rsa_pem = [], al_revoke_raises = False\<rparr>"



section \<open>Clients keep a source of the keys their method needs\<close>

definition key_material_ok :: "client \<Rightarrow> bool" where
  \<comment> \<open>where the client's own public keys come from; neither the content of a stored key set nor the secret is looked at\<close>
  "key_material_ok c \<longleftrightarrow> client_token_endpoint_auth_method c \<in> set VALID_AUTH_METHODS \<and>
     \<not> (client_jwks c \<noteq> [] \<and> client_jwks_uri c \<noteq> []) \<and>
     (client_jwks_uri c \<noteq> [] \<longrightarrow> is_valid_jwks_uri (client_jwks_uri c) = Inr True) \<and>
     (client_token_endpoint_auth_method c \<in> {''private_key_jwt'', ''self_signed_tls_client_auth''} \<longrightarrow>
        client_jwks c \<noteq> [] \<or> client_jwks_uri c \<noteq> [])"

definition clients_ok :: "app_state \<Rightarrow> bool" where
  "clients_ok st \<longleftrightarrow> list_all key_material_ok (db_clients (app_db st))"


lemma audited_clients [simp]: "db_clients (app_db (audited e n rq actor action kind target meta st)) = db_clients (app_db st)"
  by (auto simp: audited_def record_audit_def write_audit_log_def bind_res_def Let_def split: sum.splits)

lemma clients_ok_audited [simp]: "clients_ok (audited e n rq actor action kind target meta st) = clients_ok st"
  by (simp add: clients_ok_def)



lemma client_frame [simp]:
  "db_clients (snd (revoke_tokens_by_user_id i db)) = db_clients db" "db_clients (snd (revoke_tokens_by_client_id i db)) = db_clients db"
  "db_clients (revoke_token s db) = db_clients db" "db_clients (expire_device_authorization now s db) = db_clients db"
  "db_clients (remove_denylist_entry i db) = db_clients db" "db_clients (Sql_Storage.set_user_enabled i b db) = db_clients db"
  "db_clients (Sql_Storage.set_user_role i r db) = db_clients db" "db_clients (set_user_password_hash i h db) = db_clients db"
  by (simp_all add: revoke_tokens_by_user_id_def revoke_tokens_by_client_id_def revoke_where_def revoke_token_def
      expire_device_authorization_def remove_denylist_entry_def set_user_enabled_def set_user_role_def set_user_password_hash_def)
















text \<open>
  The source validates the merged row so that a partial update cannot make a client unusable, but looks at
  its keys only. A client without a secret (every public client) that is updated to \<open>client_secret_basic\<close> or
  \<open>client_secret_post\<close> keeps the empty secret, and an empty secret is never accepted: nobody can authenticate
  as that client until its secret is regenerated.
\<close>

lemma validation_refuses:
  "validate_uri_list name v = Inr (Some r) \<Longrightarrow> \<exists>m. r = admin_bad_request m"
  "validate_logout_uri name u = Inr (Some r) \<Longrightarrow> \<exists>m. r = admin_bad_request m"
  "validate_key_material auth k ku = Inr (Some r) \<Longrightarrow> \<exists>m. r = admin_bad_request m"
  by (auto simp: validate_uri_list_def validate_logout_uri_def validate_key_material_def bind_res_Inr_iff split: if_splits option.splits)

lemma first_invalid_Some: "first_invalid a b = Inr (Some r) \<Longrightarrow> a = Inr (Some r) \<or> b = Inr (Some r)"
  by (auto simp: first_invalid_def bind_res_Inr_iff split: option.splits)

lemma check_update_refuses:
  assumes "check_update b new = Inr (Some r)"
  shows "r \<noteq> JsonPage 200 out"
proof -
  have "\<exists>m. r = admin_bad_request m"
    using assms by (auto simp: check_update_def validate_redirect_uris_def Let_def split: if_splits
        dest!: first_invalid_Some dest: validation_refuses)
  then show ?thesis by (auto simp: admin_bad_request_def error_page_def)
qed

theorem secretless_client_is_locked_out:
  fixes lib :: "'k jwt_lib"
  assumes "update_client_route al e i rq actor st = (st', Inr (JsonPage 200 out))" and "resolve_client_row i st = Some c"
    and "get_client (client_client_id c) (app_db st) = Some c" and "client_client_secret c = []"
    and "parse_body (al_client_update al) client_update_nulls e rq = Inr (Inr b)"
    and "provided (cu_token_endpoint_auth_method b) = Some m" and "m \<in> {''client_secret_basic'', ''client_secret_post''}"
  shows "\<exists>c'. get_client (client_client_id c) (app_db st') = Some c' \<and>
    (\<forall>get e' cfg form secret mtls st2. isl (snd (check_credentials lib get e' cfg c' form secret mtls st2)))"
proof -
  define new where "new = updated_client al e b c"
  define c' where "c' = client_update_cols new c"
  have chk: "check_update b new = Inr None"
  proof (cases "check_update b new")
    case (Inr x)
    then show ?thesis
      using assms(1,2,5) check_update_refuses [of b new] by (cases x) (auto simp: update_client_route_def new_def Let_def)
  qed (use assms(1,2,5) in \<open>simp add: update_client_route_def new_def Let_def\<close>)
  have cid: "client_client_id new = client_client_id c" by (simp add: new_def updated_client_def)
  have db: "db_clients (app_db st') = sql_update (\<lambda>r. client_client_id r = client_client_id c) (client_update_cols new) (db_clients (app_db st))"
    using assms(1,2,5) chk cid
    by (auto simp: update_client_route_def best_effort_revoke_by_client_def update_client_def new_def Let_def split: if_splits)
  have "get_client (client_client_id c) (app_db st') = Some c'"
    using assms(3) find_sql_update [of "\<lambda>r. client_client_id r = client_client_id c" "\<lambda>r. client_client_id r = client_client_id c" "client_update_cols new"]
    by (auto simp: get_client_def db c'_def client_update_cols_def cid find_Some_iff)
  moreover have "isl (snd (check_credentials lib get e' cfg c' form secret mtls st2))" for get e' cfg form secret mtls st2
  proof -
    have "client_token_endpoint_auth_method c' = m" "client_client_secret c' = []"
      using assms(4,6) by (simp_all add: c'_def client_update_cols_def new_def updated_client_def or_stored_def)
    then show ?thesis using assms(7) by (auto simp: check_credentials_def is_public_def secrets_equal_def utf8_inj [of _ "[]", simplified] Let_def elim!: truthyE)
  qed
  ultimately show ?thesis by blast
qed


section \<open>Disabling a user\<close>

lemma audited_tables [simp]:
  "db_tokens (app_db (audited e n rq actor action kind target meta st)) = db_tokens (app_db st)"
  "db_users (app_db (audited e n rq actor action kind target meta st)) = db_users (app_db st)"
  by (auto simp: audited_def record_audit_def write_audit_log_def bind_res_def Let_def split: sum.splits)

lemma revoked_by_user:
  "t \<in> set (db_tokens (snd (revoke_tokens_by_user_id uid db))) \<Longrightarrow> token_user_id t = Some uid \<Longrightarrow> token_revoked t"
  by (auto simp: revoke_tokens_by_user_id_def revoke_where_def sql_update_def revoke_def split: if_splits)

lemma revoke_keeps_users [simp]: "db_users (snd (revoke_tokens_by_user_id uid db)) = db_users db"
  by (simp add: revoke_tokens_by_user_id_def revoke_where_def)

lemma disabled_user_cannot_log_in:
  assumes "\<forall>u \<in> set (db_users db). user_pk u = uid \<longrightarrow> \<not> user_enabled u" and "login_user verify e name pw db = Inr (Some u)"
  shows "user_pk u \<noteq> uid"
proof -
  have "get_user_by_username name db = Some u \<and> user_enabled u"
    using assms(2) by (auto simp: login_user_def bind_res_Inr_iff split: option.splits if_splits)
  then show ?thesis using assms(1) by (auto simp: get_user_by_username_def find_Some_iff)
qed

lemma require_admin_refuses:
  assumes "require_admin cfg e rq st = Inl r"
  shows "r \<noteq> JsonPage 200 out"
proof -
  have bearer: "authenticate_bearer cfg e tok db = Inl r \<Longrightarrow> r \<in> {invalid_token_error, insufficient_scope_error}" for tok db
    by (auto simp: authenticate_bearer_def split: option.splits if_splits)
  have session: "authenticate_session cfg s = Inl r \<Longrightarrow> r \<in> {login_required_error, insufficient_permissions_error}" for s
    by (auto simp: authenticate_session_def Let_def split: if_splits)
  have "r \<in> {invalid_token_error, insufficient_scope_error, login_required_error, insufficient_permissions_error}"
    using assms bearer session unfolding require_admin_def Let_def by (auto split: if_split_asm)
  then show ?thesis
    by (auto simp: invalid_token_error_def insufficient_scope_error_def login_required_error_def insufficient_permissions_error_def error_page_def)
qed

definition user_disabled :: "string \<Rightarrow> database \<Rightarrow> bool" where
  "user_disabled uid db \<longleftrightarrow> list_all (\<lambda>u. user_pk u = uid \<longrightarrow> \<not> user_enabled u) (db_users db)"

fun enables :: "string \<Rightarrow> storage_op \<Rightarrow> bool" where
  \<comment> \<open>a write that could leave the user with this identifier enabled\<close>
  "enables uid (storage_op.SetUserEnabled i b) \<longleftrightarrow> i = uid \<and> b"
| "enables uid (storage_op.UpdateUser u) \<longleftrightarrow> user_pk u = uid \<and> user_enabled u"
| "enables uid (SaveUser u) \<longleftrightarrow> user_pk u = uid \<and> user_enabled u"
| "enables uid _ \<longleftrightarrow> False"

definition disables_user :: "admin_lib \<Rightarrow> env \<Rightarrow> admin_call \<Rightarrow> admin_request \<Rightarrow> string \<Rightarrow> bool" where
  \<comment> \<open>the two calls that disable a user: the dedicated endpoint and the update with \<open>enabled\<close> false\<close>
  "disables_user al e call rq uid \<longleftrightarrow>
     call = SetUserEnabled uid \<and> (\<exists>body. json_body e rq = Inr body \<and> jget ''enabled'' body = JBool False) \<or>
     call = UpdateUser uid \<and> (\<exists>b. parse_body (al_user_update al) user_update_nulls e rq = Inr (Inr b) \<and> provided (uu_enabled b) = Some False)"

lemma user_disabled_update:
  assumes "list_all (\<lambda>u. user_pk u = uid \<longrightarrow> \<not> user_enabled u) rows"
    and "\<And>u. cond u \<Longrightarrow> user_pk (upd u) = user_pk u" and "\<And>u. cond u \<Longrightarrow> user_pk u = uid \<Longrightarrow> user_enabled (upd u) \<Longrightarrow> user_enabled u"
  shows "list_all (\<lambda>u. user_pk u = uid \<longrightarrow> \<not> user_enabled u) (sql_update cond upd rows)"
  using assms by (auto simp: sql_update_def list_all_iff)

lemma list_all_sql_update:
  "(\<And>r. cond r \<Longrightarrow> P (upd r)) \<Longrightarrow> (\<And>r. \<not> cond r \<Longrightarrow> P r) \<Longrightarrow> list_all P (sql_update cond upd rows)"
  by (auto simp: sql_update_def list_all_iff)

lemma user_disabled_step:
  assumes "user_disabled uid db" and "\<not> enables uid op"
  shows "user_disabled uid (storage_step op db)"
proof (cases op)
  case (UpdateUser u)
  have "list_all (\<lambda>u. user_pk u = uid \<longrightarrow> \<not> user_enabled u) (sql_update (\<lambda>r. user_pk r = user_pk u) (user_update_cols u) (db_users db))"
    by (rule user_disabled_update) (use assms UpdateUser in \<open>auto simp: user_disabled_def user_update_cols_def\<close>)
  then show ?thesis using assms(1) UpdateUser by (simp add: user_disabled_def keep_def update_user_def)
next
  case (DeleteUser i)
  then show ?thesis using assms(1)
    by (auto simp: user_disabled_def keep_def delete_user_def unlink_user_tokens_def sql_delete_def list_all_iff Let_def split: sum.split if_splits)
next
  case (SetUserEnabled i b)
  have "list_all (\<lambda>u. user_pk u = uid \<longrightarrow> \<not> user_enabled u) (sql_update (\<lambda>u. user_pk u = i) (user_enabled_update (\<lambda>_. b)) (db_users db))"
    by (rule user_disabled_update) (use assms SetUserEnabled in \<open>auto simp: user_disabled_def\<close>)
  then show ?thesis using SetUserEnabled by (simp add: user_disabled_def set_user_enabled_def)
next
  case (SetUserRole i r)
  have "list_all (\<lambda>u. user_pk u = uid \<longrightarrow> \<not> user_enabled u) (sql_update (\<lambda>u. user_pk u = i) (user_role_update (\<lambda>_. r)) (db_users db))"
    by (rule user_disabled_update) (use assms in \<open>auto simp: user_disabled_def\<close>)
  then show ?thesis using SetUserRole by (simp add: user_disabled_def set_user_role_def)
next
  case (SetUserPasswordHash i h)
  have "list_all (\<lambda>u. user_pk u = uid \<longrightarrow> \<not> user_enabled u) (sql_update (\<lambda>u. user_pk u = i) (user_password_hash_update (\<lambda>_. h)) (db_users db))"
    by (rule user_disabled_update) (use assms in \<open>auto simp: user_disabled_def\<close>)
  then show ?thesis using SetUserPasswordHash by (simp add: user_disabled_def set_user_password_hash_def)
qed (use assms in \<open>simp_all add: user_disabled_def storage_op_defs Let_def keep_simps keep_def sql_insert_def\<close>)

lemma user_disabled_run:
  "user_disabled uid db \<Longrightarrow> \<not> list_ex (enables uid) ops \<Longrightarrow> user_disabled uid (fold storage_step ops db)"
  by (induction ops arbitrary: db) (auto intro: user_disabled_step)

lemma set_disabled: "user_disabled uid (Sql_Storage.set_user_enabled uid False db)"
  by (simp add: user_disabled_def set_user_enabled_def list_all_sql_update)

lemma update_disabled:
  assumes "Sql_Storage.update_user (updated_user e b u) db = Inr db'" and "user_pk u = uid" and "provided (uu_enabled b) = Some False"
  shows "user_disabled uid db'"
proof -
  have "db' = db\<lparr>db_users := sql_update (\<lambda>r. user_pk r = user_pk (updated_user e b u)) (user_update_cols (updated_user e b u)) (db_users db)\<rparr>"
    using assms(1) by (auto simp: update_user_def split: if_splits)
  moreover have "user_pk (updated_user e b u) = uid" "\<not> user_enabled (updated_user e b u)" using assms(2,3) by (simp_all add: updated_user_def)
  ultimately show ?thesis by (simp add: user_disabled_def user_update_cols_def list_all_sql_update)
qed

lemma disabling_call:
  assumes "admin_api al cfg e call rq st = (st', Inr (JsonPage 200 out))" and "disables_user al e call rq uid" and "\<not> al_revoke_raises al"
  shows "\<exists>db. db_tokens (app_db st') = db_tokens (snd (revoke_tokens_by_user_id uid db)) \<and> db_users (app_db st') = db_users db \<and> user_disabled uid db"
proof -
  obtain actor where actor: "require_admin cfg e rq st = Inr actor"
  proof (cases "require_admin cfg e rq st")
    case (Inl r)
    then show ?thesis using assms(1) require_admin_refuses [OF Inl, of out] by (simp add: admin_api_def)
  qed
  then have run: "admin_handler al cfg e call rq actor st = (st', Inr (JsonPage 200 out))" using assms(1) by (simp add: admin_api_def)
  from assms(2) consider (set) body where "call = SetUserEnabled uid" "json_body e rq = Inr body" "jget ''enabled'' body = JBool False"
    | (update) b where "call = UpdateUser uid" "parse_body (al_user_update al) user_update_nulls e rq = Inr (Inr b)" "provided (uu_enabled b) = Some False"
    unfolding disables_user_def by blast
  then show ?thesis
  proof cases
    case set
    then show ?thesis
      using run assms(3) set_disabled [of uid "app_db st"]
      by (auto simp: admin_handler_def set_user_enabled_route_def best_effort_revoke_by_user_def Let_def)
  next
    case update
    obtain u where u: "get_user_by_id uid (app_db st) = Some u"
      using run update(1) by (cases "get_user_by_id uid (app_db st)") (auto simp: admin_handler_def update_user_route_def user_not_found_def)
    obtain db where db: "Sql_Storage.update_user (updated_user e b u) (app_db st) = Inr db"
      using run update(1,2) u
      by (cases "Sql_Storage.update_user (updated_user e b u) (app_db st)") (auto simp: admin_handler_def update_user_route_def Let_def)
    then show ?thesis
      using run update u assms(3) update_disabled [OF db found_rows(2) [OF u] update(3)]
      by (auto simp: admin_handler_def update_user_route_def best_effort_revoke_by_user_def Let_def)
  qed
qed

text \<open>
  C31. An administrator who disables a user, with the dedicated endpoint or by an update, and is answered 200
  ends every token of that user that was stored, in the same request and for good; and until a write
  enables the user again, no password login yields that user, whatever else the storage executes. This
  holds if the revocation did not raise: its failure is swallowed by both handlers, which then answer 200
  although the tokens stay live (\<open>failed_revocation_is_not_reported\<close>).
\<close>

theorem disabling_a_user_ends_access:
  assumes "admin_api al cfg e call rq st = (st', Inr (JsonPage 200 out))" and "disables_user al e call rq uid" and "\<not> al_revoke_raises al"
    and "get_token_by_access_token a (app_db st') = Some t" and "token_user_id t = Some uid"
    and "\<not> list_ex (enables uid) ops"
  shows "(\<exists>t'. get_token_by_access_token a (fold storage_step ops (app_db st')) = Some t' \<and> token_revoked t') \<and>
    (\<forall>verify e' name pw u. login_user verify e' name pw (fold storage_step ops (app_db st')) = Inr (Some u) \<longrightarrow> user_pk u \<noteq> uid)"
proof
  obtain db where db: "db_tokens (app_db st') = db_tokens (snd (revoke_tokens_by_user_id uid db))" "db_users (app_db st') = db_users db" "user_disabled uid db"
    using disabling_call [OF assms(1-3)] by blast
  have "t \<in> set (db_tokens (app_db st'))" using assms(4) by (auto simp: get_token_by_access_token_def find_Some_iff)
  then have "token_revoked t" using db(1) assms(5) revoked_by_user by simp
  then show "\<exists>t'. get_token_by_access_token a (fold storage_step ops (app_db st')) = Some t' \<and> token_revoked t'"
    using token_run [OF assms(4), of ops] by (auto simp: token_later_def)
  have "user_disabled uid (fold storage_step ops (app_db st'))"
    using db(2,3) user_disabled_run [OF _ assms(6)] by (simp add: user_disabled_def)
  then show "\<forall>verify e' name pw u. login_user verify e' name pw (fold storage_step ops (app_db st')) = Inr (Some u) \<longrightarrow> user_pk u \<noteq> uid"
    using disabled_user_cannot_log_in by (auto simp: user_disabled_def list_all_iff)
qed

definition sample_user :: user where
  "sample_user = \<lparr>user_pk = ''u'', user_username = ''ann'', user_password_hash = ''h'', user_email = ''ann@example.com'', user_enabled = True,
     user_role = ''admin'', user_created_at = 0, user_updated_at = 0\<rparr>"

definition sample_token :: token where
  "sample_token = \<lparr>token_pk = ''t'', token_access_token = ''at'', token_refresh_token = None, token_token_type = ''Bearer'',
     token_expires_in = 3600, token_scope = ''read'', token_client_id = ''app'', token_user_id = Some ''u'', token_created_at = 0,
     token_expires_at = 3600000000, token_revoked = False, token_token_family = None\<rparr>"

definition sample_users_app :: app_state where
  "sample_users_app = fresh_app ((empty_db Sqlite)\<lparr>db_users := [sample_user], db_tokens := [sample_token]\<rparr>)"

lemma sample_false_body: "request_json 30 (utf8 (dumps_default (JObj [(''enabled'', JBool False)]))) = Inr (Some (JObj [(''enabled'', JBool False)]))"
  by (rule request_json_ascii [where c = "CHR 0x7B" and d = "CHR 0x22"]; code_simp)

lemma sample_disable_run:
  "json_body (sample_env 0 ''a'') (session_request admin_session (utf8 (dumps_default (JObj [(''enabled'', JBool False)])))) = Inr [(''enabled'', JBool False)]"
  "\<exists>st'. admin_api al sample_config (sample_env 0 ''a'') (SetUserEnabled ''u'')
     (session_request admin_session (utf8 (dumps_default (JObj [(''enabled'', JBool False)])))) sample_users_app =
     (st', Inr (JsonPage 200 (JObj [(''enabled'', JBool False)]))) \<and> db_users (app_db st') = [sample_user\<lparr>user_enabled := False\<rparr>] \<and>
     db_tokens (app_db st') = [if al_revoke_raises al then sample_token else revoke sample_token]"
proof -
  let ?rq = "session_request admin_session (utf8 (dumps_default (JObj [(''enabled'', JBool False)])))"
  show body: "json_body (sample_env 0 ''a'') ?rq = Inr [(''enabled'', JBool False)]"
    using sample_false_body by (simp add: json_body_def session_request_def sample_env_def)
  show "\<exists>st'. admin_api al sample_config (sample_env 0 ''a'') (SetUserEnabled ''u'') ?rq sample_users_app =
     (st', Inr (JsonPage 200 (JObj [(''enabled'', JBool False)]))) \<and> db_users (app_db st') = [sample_user\<lparr>user_enabled := False\<rparr>] \<and>
     db_tokens (app_db st') = [if al_revoke_raises al then sample_token else revoke sample_token]"
    using body session_request_admin [of sample_config "sample_env 0 ''a''"]
    by (simp add: admin_api_def admin_handler_def set_user_enabled_route_def jget_def best_effort_revoke_by_user_def sample_users_app_def
        fresh_app_def set_user_enabled_def sql_update_def sample_user_def sample_token_def revoke_tokens_by_user_id_def revoke_where_def Let_def)
qed

theorem disabling_a_user_ends_access_witness:
  "\<exists>st' t'. fst (admin_api sample_al sample_config (sample_env 0 ''a'') (SetUserEnabled ''u'')
     (session_request admin_session (utf8 (dumps_default (JObj [(''enabled'', JBool False)])))) sample_users_app) = st' \<and>
     get_token_by_access_token ''at'' (fold storage_step [RevokeFamily ''f''] (app_db st')) = Some t' \<and> token_revoked t' \<and>
     login_user (\<lambda>_ _. PasswordMatches) (sample_env 9 ''b'') ''ann'' ''pw'' (fold storage_step [RevokeFamily ''f''] (app_db st')) \<noteq> Inr (Some sample_user)"
proof -
  obtain st' where run: "admin_api sample_al sample_config (sample_env 0 ''a'') (SetUserEnabled ''u'')
      (session_request admin_session (utf8 (dumps_default (JObj [(''enabled'', JBool False)])))) sample_users_app =
      (st', Inr (JsonPage 200 (JObj [(''enabled'', JBool False)])))" "db_tokens (app_db st') = [revoke sample_token]"
    using sample_disable_run(2) [of sample_al] by (auto simp: sample_al_def)
  have d: "disables_user sample_al (sample_env 0 ''a'') (SetUserEnabled ''u'')
      (session_request admin_session (utf8 (dumps_default (JObj [(''enabled'', JBool False)])))) ''u''"
    using sample_disable_run(1) by (simp add: disables_user_def jget_def)
  have t: "get_token_by_access_token ''at'' (app_db st') = Some (revoke sample_token)" "token_user_id (revoke sample_token) = Some ''u''"
    using run(2) by (simp_all add: get_token_by_access_token_def sample_token_def revoke_def)
  have "user_pk sample_user = ''u''" by (simp add: sample_user_def)
  then show ?thesis
    using disabling_a_user_ends_access [OF run(1) d _ t, of "[RevokeFamily ''f'']"] run(1) by (auto simp: sample_al_def)
qed

text \<open>
  When the storage raises while the tokens are revoked, disabling a user is answered exactly as when it
  succeeds, and the token of the user stays live.
\<close>

theorem failed_revocation_is_not_reported:
  "\<exists>st'. admin_api (sample_al\<lparr>al_revoke_raises := True\<rparr>) sample_config (sample_env 0 ''a'') (SetUserEnabled ''u'')
     (session_request admin_session (utf8 (dumps_default (JObj [(''enabled'', JBool False)])))) sample_users_app =
     (st', Inr (JsonPage 200 (JObj [(''enabled'', JBool False)]))) \<and> db_tokens (app_db st') = [sample_token] \<and> \<not> token_revoked sample_token"
  using sample_disable_run(2) [of "sample_al\<lparr>al_revoke_raises := True\<rparr>"] by (auto simp: sample_token_def)

text \<open>
  The browser session carries a copy of the role. An administrator who was disabled (or demoted) is
  still admitted by the guard with the session of before, and can go on changing the state.
\<close>

theorem disabled_admin_keeps_the_admin_session:
  "\<exists>st'. fst (admin_api sample_al sample_config (sample_env 0 ''a'') (SetUserEnabled ''u'')
       (session_request admin_session (utf8 (dumps_default (JObj [(''enabled'', JBool False)])))) sample_users_app) = st' \<and>
     db_users (app_db st') = [sample_user\<lparr>user_enabled := False\<rparr>] \<and>
     require_admin sample_config (sample_env 9 ''b'') (session_request (set_login (sample_env 0 ''l'') sample_user None None empty_session) []) st' =
       Inr \<lparr>actor_id = ''u'', actor_email = ''ann@example.com''\<rparr>"
proof -
  obtain st' where run: "admin_api sample_al sample_config (sample_env 0 ''a'') (SetUserEnabled ''u'')
      (session_request admin_session (utf8 (dumps_default (JObj [(''enabled'', JBool False)])))) sample_users_app =
      (st', Inr (JsonPage 200 (JObj [(''enabled'', JBool False)])))" "db_users (app_db st') = [sample_user\<lparr>user_enabled := False\<rparr>]"
    using sample_disable_run(2) [of sample_al] by blast
  have "require_admin sample_config (sample_env 9 ''b'') (session_request (set_login (sample_env 0 ''l'') sample_user None None empty_session) []) st' =
      Inr \<lparr>actor_id = ''u'', actor_email = ''ann@example.com''\<rparr>"
    by (simp add: require_admin_def session_request_def header_get_def authenticate_session_def set_login_def sample_user_def empty_session_def py_lower_def Let_def)
  then show ?thesis using run by auto
qed


section \<open>Quirks\<close>

text \<open>
  The token figures of the dashboard count the newest two hundred tokens only: the total never exceeds
  two hundred, however many tokens are stored.
\<close>

theorem dashboard_counts_two_hundred_tokens:
  "\<exists>members. dashboard e st = JsonPage 200 (JObj members) \<and>
     map_of members ''total_tokens'' = Some (JInt (int (min 200 (length (db_tokens (app_db st))))))"
  by (simp add: dashboard_def count_of_def list_all_tokens_def order_by_def Let_def)

text \<open>
  A list column that is sent as null is stored as the text \<open>null\<close>: afterwards every test of the
  client's grants raises, so each of its token requests ends in an internal error.
\<close>

theorem null_grant_types_break_the_client:
  assumes "draft_client al e body db = Inr (Inr d)" and "map_of body ''grant_types'' = Some JNull" and "0 < lvl"
  shows "client_has_grant lvl g (draft_row al e d) = Inl (PyError ''TypeError'')"
proof -
  have "d = draft_of al e body"
    using assms(1) by (auto simp: draft_client_def Let_def bind_res_Inr_iff split: if_splits option.splits)
  then have "client_grant_types (draft_row al e d) = ''null''"
    using assms(2) by (simp add: draft_row_def mk_client_def draft_of_def Let_def dumps_default_def)
  moreover have "json_loads lvl ''null'' = Inr JNull"
    using assms(3) by (simp add: json_loads_def json_fuel_def scan_word_def starts_with_def json_ws_def skip_ws_def eval_nat_numeral)
  ultimately show ?thesis by (simp add: client_has_grant_def grant_type_list_def loads_column_def py_in_def)
qed

theorem null_grant_types_break_the_client_witness:
  "\<exists>d. draft_client sample_al (sample_env 0 ''a'') [(''name'', JStr ''App''), (''grant_types'', JNull)] (empty_db Sqlite) = Inr (Inr d) \<and>
     client_has_grant 10 ''client_credentials'' (draft_row sample_al (sample_env 0 ''a'') d) = Inl (PyError ''TypeError'')"
proof -
  let ?body = "[(''name'', JStr ''App''), (''grant_types'', JNull)]"
  have "draft_client sample_al (sample_env 0 ''a'') ?body (empty_db Sqlite) = Inr (Inr (draft_of sample_al (sample_env 0 ''a'') ?body))"
    by (simp add: draft_client_def draft_of_def not_text_def or_text_def jget_def str_or_empty_def py_str_def DEFAULT_AUTH_METHOD_def validate_key_material_def
        VALID_AUTH_METHODS_def validate_redirect_uris_def first_invalid_def validate_uri_list_def validate_logout_uri_def optional_uri_ok_def string_list_def
        py_strip_def py_lstrip_def py_rstrip_def py_isspace_def Let_def)
  with null_grant_types_break_the_client [OF this, of 10 "''client_credentials''"] show ?thesis by simp
qed

end
