(* ===== verification/Wellknown.thy ===== *)
theory Wellknown
  imports Introspect Jar Authorize_Response
begin

text \<open>
  Discovery metadata, the published key set and the userinfo endpoint (\<open>routes/wellknown.py\<close>). The
  theorems show that userinfo speaks only to the holder of a live token of a user, over the key and the
  certificate that token is bound to, and only about that user within the token's scope; that whatever
  key signs id tokens is published, after any rotations, and no symmetric secret ever is; and that the
  document advertises the algorithms the server uses.

  \<open>public_numbers\<close> reads modulus and exponent off a private key, which the cryptography package does.
\<close>

section \<open>Discovery\<close>

definition CONFIDENTIAL_AUTH_METHODS :: "string list" where
  "CONFIDENTIAL_AUTH_METHODS = [''client_secret_basic'', ''client_secret_post'', ''client_secret_jwt'', ''private_key_jwt'',
     ''tls_client_auth'', ''self_signed_tls_client_auth'']"

definition SCOPES_SUPPORTED :: "string list" where
  "SCOPES_SUPPORTED = [''openid'', ''profile'', ''email'', ''read'', ''write'', ''admin'']"

definition DPOP_SIGNING_ALG_VALUES_SUPPORTED :: "string list" where
  "DPOP_SIGNING_ALG_VALUES_SUPPORTED = [''ES256'', ''RS256'']"

definition jstrs :: "string list \<Rightarrow> json" where
  "jstrs ss = JArr (map JStr ss)"

definition discovery_body :: "string \<Rightarrow> string \<Rightarrow> string list \<Rightarrow> bool \<Rightarrow> string list \<Rightarrow> json dict" where
  "discovery_body base id_token_alg rar_types has_rs256_key acr_values =
     (let at_base = (\<lambda>p. JStr (base @ p))
      in [(''issuer'', JStr base), (''authorization_endpoint'', at_base ''/oauth/authorize''),
          (''token_endpoint'', at_base ''/oauth/token''), (''introspection_endpoint'', at_base ''/oauth/introspect''),
          (''revocation_endpoint'', at_base ''/oauth/revoke''), (''token_introspection_endpoint'', at_base ''/oauth/introspect''),
          (''token_revocation_endpoint'', at_base ''/oauth/revoke''), (''userinfo_endpoint'', at_base ''/oauth/userinfo''),
          (''jwks_uri'', at_base ''/.well-known/jwks.json''), (''registration_endpoint'', at_base ''/connect/register''),
          (''service_documentation'', at_base ''/docs''),
          (''device_authorization_endpoint'', at_base ''/oauth/device_authorization''),
          (''pushed_authorization_request_endpoint'', at_base ''/oauth/par''),
          (''require_pushed_authorization_requests'', JBool False), (''request_uri_parameter_supported'', JBool True),
          (''request_parameter_supported'', JBool True), (''claims_parameter_supported'', JBool True),
          (''end_session_endpoint'', at_base ''/oauth/logout''), (''check_session_iframe'', at_base ''/oauth/check_session''),
          (''backchannel_logout_supported'', JBool True), (''backchannel_logout_session_supported'', JBool True),
          (''frontchannel_logout_supported'', JBool True), (''frontchannel_logout_session_supported'', JBool True),
          (''grant_types_supported'', jstrs [''authorization_code'', ''client_credentials'', ''refresh_token'',
             ''urn:ietf:params:oauth:grant-type:device_code'', ''urn:ietf:params:oauth:grant-type:token-exchange'',
             ''urn:ietf:params:oauth:grant-type:jwt-bearer'']),
          (''response_types_supported'', jstrs [''code'', ''code id_token'']),
          (''response_modes_supported'', jstrs [''query'', ''form_post'', ''fragment'']),
          (''code_challenge_methods_supported'', jstrs [''S256'']),
          (''token_endpoint_auth_methods_supported'', jstrs (CONFIDENTIAL_AUTH_METHODS @ [''none''])),
          (''tls_client_certificate_bound_access_tokens'', JBool True),
          (''introspection_endpoint_auth_methods_supported'', jstrs CONFIDENTIAL_AUTH_METHODS),
          (''revocation_endpoint_auth_methods_supported'', jstrs CONFIDENTIAL_AUTH_METHODS),
          (''authorization_response_iss_parameter_supported'', JBool True),
          (''prompt_values_supported'', jstrs [''none'', ''login'', ''consent'', ''select_account'']),
          (''request_object_signing_alg_values_supported'', jstrs [''RS256'', ''HS256'', ''none'']),
          (''acr_values_supported'', jstrs acr_values), (''scopes_supported'', jstrs SCOPES_SUPPORTED),
          (''subject_types_supported'', jstrs [''public'']),
          (''introspection_signing_alg_values_supported'', jstrs (if has_rs256_key then [''RS256'', ''HS256''] else [''HS256''])),
          (''id_token_signing_alg_values_supported'', jstrs (if id_token_alg = ''RS256'' then [''RS256''] else [''HS256''])),
          (''claims_supported'', jstrs [''sub'', ''iss'', ''aud'', ''exp'', ''iat'', ''nonce'', ''at_hash'', ''email'',
             ''preferred_username'', ''c_hash'', ''acr'', ''amr'', ''auth_time'']),
          (''dpop_signing_alg_values_supported'', jstrs DPOP_SIGNING_ALG_VALUES_SUPPORTED),
          (''authorization_details_types_supported'', jstrs rar_types), (''resource_indicators_supported'', JBool True)])"

definition discovery_document ::
  "string \<Rightarrow> string \<Rightarrow> string list \<Rightarrow> bool \<Rightarrow> string list \<Rightarrow> string option \<Rightarrow> json dict" where
  "discovery_document issuer id_token_alg rar_types has_rs256_key acr_values mtls_base =
     discovery_body (rstrip_char (CHR ''/'') issuer) id_token_alg rar_types has_rs256_key acr_values @
     (if truthy mtls_base then
        (let m = rstrip_char (CHR ''/'') (the mtls_base)
         in [(''mtls_endpoint_aliases'', JObj
               [(''token_endpoint'', JStr (m @ ''/oauth/token'')), (''revocation_endpoint'', JStr (m @ ''/oauth/revoke'')),
                (''introspection_endpoint'', JStr (m @ ''/oauth/introspect'')), (''userinfo_endpoint'', JStr (m @ ''/oauth/userinfo'')),
                (''device_authorization_endpoint'', JStr (m @ ''/oauth/device_authorization'')),
                (''pushed_authorization_request_endpoint'', JStr (m @ ''/oauth/par''))])])
      else [])"

definition openid_configuration :: "config \<Rightarrow> env \<Rightarrow> app_state \<Rightarrow> http_response" where
  "openid_configuration cfg e st =
     \<lparr>resp_status = 200, resp_headers = [],
      resp_body = JObj (discovery_document (cfg_issuer cfg) (cfg_id_token_alg cfg) (cfg_rar_types_supported cfg)
        (current_for_alg (env_now e) ''RS256'' (app_keyset st) \<noteq> None) (cfg_acr_values_supported cfg)
        (if cfg_trust_proxy_headers cfg then cfg_mtls_endpoint_base_url cfg else None))\<rparr>"


section \<open>Published keys\<close>

definition published_keys :: "(bytes \<Rightarrow> nat \<times> nat) \<Rightarrow> config \<Rightarrow> datetime \<Rightarrow> keyset \<Rightarrow> json list" where
  \<comment> \<open>the active RS256 keys; without any, the configured key that still signs id tokens\<close>
  "published_keys public_numbers cfg now ks =
     (let keys = map (jwk_from_rs256_key public_numbers) (filter (\<lambda>k. sk_algorithm k = ''RS256'') (active_keys now ks))
      in if keys = [] \<and> cfg_id_token_alg cfg = ''RS256'' \<and> truthy (cfg_id_token_private_key_pem cfg) then
           (let jwk = jwk_from_rs256_key public_numbers
                  \<lparr>sk_kid = or_str (cfg_id_token_kid cfg) [], sk_algorithm = ''RS256'',
                   sk_key_material = utf8 (the (cfg_id_token_private_key_pem cfg)), sk_is_current = True,
                   sk_created_at = now, sk_expires_at = None\<rparr>
            in [if truthy (cfg_id_token_kid cfg) then jwk
                else (case jwk of JObj ms \<Rightarrow> JObj (AList.delete ''kid'' ms) | v \<Rightarrow> v)])
         else keys)"

definition jwks_route :: "(bytes \<Rightarrow> nat \<times> nat) \<Rightarrow> config \<Rightarrow> env \<Rightarrow> app_state \<Rightarrow> http_response" where
  "jwks_route public_numbers cfg e st =
     \<lparr>resp_status = 200, resp_headers = [(''Cache-Control'', ''public, max-age=3600'')],
      resp_body = JObj [(''keys'', JArr (published_keys public_numbers cfg (env_now e) (app_keyset st)))]\<rparr>"


section \<open>Protected-resource metadata and the status list\<close>

definition protected_resource_metadata :: "config \<Rightarrow> http_response" where
  "protected_resource_metadata cfg =
     (let base = rstrip_char (CHR ''/'') (cfg_issuer cfg)
      in \<lparr>resp_status = 200, resp_headers = [(''Cache-Control'', ''public, max-age=3600'')],
          resp_body = JObj [(''resource'', JStr base), (''authorization_servers'', jstrs [base]),
            (''bearer_methods_supported'', jstrs [''header'']),
            (''dpop_signing_alg_values_supported'', jstrs DPOP_SIGNING_ALG_VALUES_SUPPORTED),
            (''token_introspection_endpoint'', JStr (base @ ''/oauth/introspect'')),
            (''jwks_uri'', JStr (base @ ''/.well-known/jwks.json'')), (''scopes_supported'', jstrs SCOPES_SUPPORTED),
            (''tls_client_certificate_bound_access_tokens'', JBool True)]\<rparr>)"

definition token_status_list :: "config \<Rightarrow> http_response" where
  "token_status_list cfg =
     (let base = rstrip_char (CHR ''/'') (cfg_issuer cfg)
      in \<lparr>resp_status = 200, resp_headers = [],
          resp_body = JObj [(''status_list'', JObj [(''bits'', JInt 1), (''lst'', JStr ''eNrb2FgAAQABAAE'')]), (''issuer'', JStr base),
            (''status_list_uri'', JStr (base @ ''/.well-known/oauth-authorization-server/status''))]\<rparr>)"


section \<open>GET and POST /oauth/userinfo\<close>

definition missing_token_response :: http_response where
  "missing_token_response = \<lparr>resp_status = 401, resp_headers = [(''WWW-Authenticate'', ''Bearer'')],
     resp_body = JObj [(''error'', JStr ''invalid_token''), (''error_description'', JStr ''Missing access token'')]\<rparr>"

definition challenge_response :: "string \<Rightarrow> string \<Rightarrow> http_response" where
  "challenge_response scheme description = \<lparr>resp_status = 401,
     resp_headers = [(''WWW-Authenticate'', scheme @ '' error='' @ dquoted ''invalid_token'')],
     resp_body = JObj [(''error'', JStr ''invalid_token''), (''error_description'', JStr description)]\<rparr>"

definition invalid_token_response :: "string \<Rightarrow> http_response" where
  "invalid_token_response description = challenge_response ''Bearer'' description"

definition dpop_invalid_token_response :: "string \<Rightarrow> http_response" where
  "dpop_invalid_token_response description = challenge_response ''DPoP'' description"

definition resource_nonce_challenge :: "http_response \<Rightarrow> http_response" where
  \<comment> \<open>the nonce is taken over from the token endpoint's challenge\<close>
  "resource_nonce_challenge as_challenge = \<lparr>resp_status = 401,
     resp_headers = [(''WWW-Authenticate'', ''DPoP error='' @ dquoted ''use_dpop_nonce''),
       (''DPoP-Nonce'', the (map_of (resp_headers as_challenge) ''DPoP-Nonce''))],
     resp_body = JObj [(''error'', JStr ''use_dpop_nonce''), (''error_description'', JStr ''DPoP proof nonce required or stale'')]\<rparr>"

definition auth_partition :: "http_request \<Rightarrow> string \<times> string" where
  \<comment> \<open>\<open>request.headers.get("authorization", "").partition(" ")\<close> without the separator\<close>
  "auth_partition rq = (case break_at (CHR '' '') (or_str (header_get ''authorization'' rq) []) of (s, rest) \<Rightarrow> (s, or_str rest []))"

definition presented_token :: "http_request \<Rightarrow> string option" where
  "presented_token rq =
     (let (scheme, rest) = auth_partition rq; candidate = py_strip rest
      in if py_lower scheme \<in> {''bearer'', ''dpop''} \<and> candidate \<noteq> [] then Some candidate else None)"

definition userinfo_htu :: "config \<Rightarrow> string" where
  "userinfo_htu cfg = rstrip_char (CHR ''/'') (cfg_issuer cfg) @ ''/oauth/userinfo''"

definition enforce_dpop_scheme ::
  "'k server \<Rightarrow> env \<Rightarrow> string \<Rightarrow> http_request \<Rightarrow> string \<Rightarrow> string \<Rightarrow> app_state
   \<Rightarrow> app_state \<times> (http_response outcome + dpop_validated)" where
  \<comment> \<open>the \<open>jkt\<close> half of \<open>_enforce_token_binding\<close>\<close>
  "enforce_dpop_scheme sv e http_method rq tok jkt st =
     (if py_lower (fst (auth_partition rq)) \<noteq> ''dpop''
      then (st, Inl (Inr (dpop_invalid_token_response ''DPoP-bound access token must be presented with the DPoP scheme'')))
      else (case read_dpop_header rq of
          Inr (Some proof) \<Rightarrow>
            (let (store, r) = validate_dpop_proof (sv_lib sv) e proof http_method (userinfo_htu (sv_config sv)) (Some tok) (app_dpop_replay st);
                 st1 = st\<lparr>app_dpop_replay := store\<rparr>
             in case r of
                  Inl (DpopFail _) \<Rightarrow> (st1, Inl (Inr (dpop_invalid_token_response ''DPoP proof validation failed'')))
                | Inl (DpopCrash x) \<Rightarrow> (st1, Inl (Inl x))
                | Inr v \<Rightarrow>
                    if utf8 (dv_jkt v) \<noteq> utf8 jkt
                    then (st1, Inl (Inr (dpop_invalid_token_response ''DPoP proof key does not match the access token binding'')))
                    else (st1, Inr v))
        | _ \<Rightarrow> (st, Inl (Inr (dpop_invalid_token_response ''DPoP proof required for this access token'')))))"

definition enforce_certificate :: "config \<Rightarrow> http_request \<Rightarrow> json dict \<Rightarrow> http_response option" where
  \<comment> \<open>the certificate half of \<open>_enforce_token_binding\<close>\<close>
  "enforce_certificate cfg rq cnf =
     (case jget ''x5t#S256'' cnf of
        JStr thumb \<Rightarrow>
          if thumb = [] then None
          else (case fst (mtls_headers rq cfg) of
              Some presented \<Rightarrow>
                if utf8 presented = utf8 thumb then None
                else Some (invalid_token_response ''Certificate-bound access token requires a matching client certificate'')
            | None \<Rightarrow> Some (invalid_token_response ''Certificate-bound access token requires a matching client certificate''))
      | _ \<Rightarrow> None)"

definition enforce_token_binding ::
  "'k server \<Rightarrow> env \<Rightarrow> string \<Rightarrow> http_request \<Rightarrow> string \<Rightarrow> app_state
   \<Rightarrow> app_state \<times> (http_response outcome + dpop_validated option)" where
  "enforce_token_binding sv e http_method rq tok st =
     (case jget ''cnf'' (decode_unverified_claims (sv_lib sv) tok) of
        JObj cnf \<Rightarrow>
          (let (st1, r) = (case jget ''jkt'' cnf of
                 JStr jkt \<Rightarrow>
                   if jkt = [] then (st, Inr None)
                   else (case enforce_dpop_scheme sv e http_method rq tok jkt st of
                       (st1, Inl x) \<Rightarrow> (st1, Inl x)
                     | (st1, Inr v) \<Rightarrow> (st1, Inr (Some v)))
               | _ \<Rightarrow> (st, Inr None))
           in case r of
                Inl x \<Rightarrow> (st1, Inl x)
              | Inr v \<Rightarrow>
                  (case enforce_certificate (sv_config sv) rq cnf of
                     Some failure \<Rightarrow> (st1, Inl (Inr failure))
                   | None \<Rightarrow> (st1, Inr v)))
      | _ \<Rightarrow> (st, Inr None))"

definition userinfo_selection :: "env \<Rightarrow> token \<Rightarrow> database \<Rightarrow> claims_selection" where
  \<comment> \<open>the \<open>userinfo\<close> member of the claims request of the code the token descends from\<close>
  "userinfo_selection e row db =
     (if truthy (token_token_family row) then
        (case get_authorization_code_by_token_family (the (token_token_family row)) db of
           Some code \<Rightarrow> select_userinfo_claims (env_recursion e) (code_claims_request code) (token_scope row)
         | None \<Rightarrow> empty_selection)
      else empty_selection)"

definition userinfo_claims :: "config \<Rightarrow> env \<Rightarrow> token \<Rightarrow> string \<Rightarrow> database \<Rightarrow> json dict" where
  "userinfo_claims cfg e row subject db =
     (let scopes = set (py_split (token_scope row)); selection = userinfo_selection e row db
      in [(''sub'', JStr subject), (''iss'', JStr (cfg_issuer cfg)), (''aud'', JStr (token_client_id row))] @
         (case get_user_by_id subject db of
            None \<Rightarrow> []
          | Some user \<Rightarrow>
              (if ''email'' \<in> scopes \<and> selection_allows selection ''email'' (JStr (user_email user))
               then [(''email'', JStr (user_email user))] else []) @
              (if ''profile'' \<in> scopes \<and> selection_allows selection ''preferred_username'' (JStr (user_username user))
               then [(''preferred_username'', JStr (user_username user))] else [])))"

definition answer_userinfo ::
  "'k server \<Rightarrow> env \<Rightarrow> token \<Rightarrow> string \<Rightarrow> dpop_validated option \<Rightarrow> app_state \<Rightarrow> http_response outcome" where
  \<comment> \<open>the nonce policy of the token's client, then the claims\<close>
  "answer_userinfo sv e row subject validated st =
     (let token_client = (if validated = None then None else get_client (token_client_id row) (app_db st));
          nonce_required = (token_client \<noteq> None \<and> client_dpop_nonce_required (the token_client));
          ok = (\<lambda>headers. \<lparr>resp_status = 200, resp_headers = headers,
                  resp_body = JObj (userinfo_claims (sv_config sv) e row subject (app_db st))\<rparr>)
      in if \<not> nonce_required then Inr (ok [])
         else (case enforce_dpop_nonce e (the validated) (sv_nonce_issuer sv) of
             Inl (DpopFail _) \<Rightarrow> Inr (dpop_invalid_token_response ''DPoP proof validation failed'')
           | Inl (DpopCrash x) \<Rightarrow> Inl x
           | Inr (Some challenge) \<Rightarrow> Inr (resource_nonce_challenge challenge)
           | Inr None \<Rightarrow> bind_res (issue_nonce e (sv_nonce_issuer sv)) (\<lambda>n. Inr (ok [(''DPoP-Nonce'', n)]))))"

definition userinfo :: "'k server \<Rightarrow> env \<Rightarrow> string \<Rightarrow> http_request \<Rightarrow> app_state \<Rightarrow> handled" where
  \<comment> \<open>the handler also decodes the token as a JWT but ignores the outcome: the stored row decides\<close>
  "userinfo sv e http_method rq st =
     (case presented_token rq of
        None \<Rightarrow> (st, Inr missing_token_response)
      | Some tok \<Rightarrow>
          (case get_token_by_access_token tok (app_db st) of
             None \<Rightarrow> (st, Inr (invalid_token_response ''Invalid or expired access token''))
           | Some row \<Rightarrow>
               if token_revoked row \<or> token_expires_at row \<le> env_now e
               then (st, Inr (invalid_token_response ''Invalid or expired access token''))
               else (case enforce_token_binding sv e http_method rq tok st of
                   (st1, Inl r) \<Rightarrow> (st1, r)
                 | (st1, Inr validated) \<Rightarrow>
                     (case token_user_id row of
                        None \<Rightarrow> (st1, Inr (invalid_token_response ''Access token does not represent an authenticated user''))
                      | Some subject \<Rightarrow> (st1, answer_userinfo sv e row subject validated st1)))))"


section \<open>Userinfo answers only the holder of a live token\<close>

definition holder_shown :: "'k server \<Rightarrow> env \<Rightarrow> string \<Rightarrow> http_request \<Rightarrow> string \<Rightarrow> app_state \<Rightarrow> bool" where
  \<comment> \<open>the request uses the key and the certificate the presented token is bound to\<close>
  "holder_shown sv e http_method rq tok st \<longleftrightarrow>
     (\<forall>cnf. jget ''cnf'' (decode_unverified_claims (sv_lib sv) tok) = JObj cnf \<longrightarrow>
        (\<forall>jkt. jget ''jkt'' cnf = JStr jkt \<longrightarrow> jkt \<noteq> [] \<longrightarrow>
           py_lower (fst (auth_partition rq)) = ''dpop'' \<and>
           (\<exists>pf d. read_dpop_header rq = Inr (Some pf) \<and> dv_jkt d = jkt \<and>
              snd (validate_dpop_proof (sv_lib sv) e pf http_method (userinfo_htu (sv_config sv)) (Some tok) (app_dpop_replay st)) = Inr d)) \<and>
        (\<forall>thumb. jget ''x5t#S256'' cnf = JStr thumb \<longrightarrow> thumb \<noteq> [] \<longrightarrow> fst (mtls_headers rq (sv_config sv)) = Some thumb))"

lemma enforce_dpop_scheme_Inr:
  assumes "enforce_dpop_scheme sv e m rq tok jkt st = (st', Inr d)"
  shows "py_lower (fst (auth_partition rq)) = ''dpop''" "dv_jkt d = jkt" "app_db st' = app_db st"
    "\<exists>pf. read_dpop_header rq = Inr (Some pf) \<and>
       snd (validate_dpop_proof (sv_lib sv) e pf m (userinfo_htu (sv_config sv)) (Some tok) (app_dpop_replay st)) = Inr d"
  using assms
  by (auto simp: enforce_dpop_scheme_def utf8_inj Let_def split: if_split_asm sum.split_asm option.split_asm prod.split_asm dpop_failure.split_asm)

lemma enforce_certificate_None:
  "enforce_certificate cfg rq cnf = None \<Longrightarrow> jget ''x5t#S256'' cnf = JStr thumb \<Longrightarrow> thumb \<noteq> [] \<Longrightarrow> fst (mtls_headers rq cfg) = Some thumb"
  by (auto simp: enforce_certificate_def utf8_inj split: option.split_asm if_split_asm)

lemma enforce_token_binding_db:
  "app_db (fst (enforce_token_binding sv e m rq tok st)) = app_db st"
  by (auto simp: enforce_token_binding_def enforce_dpop_scheme_def Let_def
      split: json.splits sum.splits option.splits prod.splits dpop_failure.splits)

lemma challenge_status:
  "resp_status (invalid_token_response d) = 401" "resp_status (dpop_invalid_token_response d) = 401"
  by (simp_all add: invalid_token_response_def dpop_invalid_token_response_def challenge_response_def)

lemma enforce_dpop_scheme_Inl: "enforce_dpop_scheme sv e m rq tok jkt st = (st', Inl (Inr r)) \<Longrightarrow> resp_status r = 401"
  by (auto simp: enforce_dpop_scheme_def Let_def challenge_status
      split: if_split_asm sum.split_asm option.split_asm prod.split_asm dpop_failure.split_asm)

lemma enforce_certificate_Some: "enforce_certificate cfg rq cnf = Some r \<Longrightarrow> resp_status r = 401"
  by (auto simp: enforce_certificate_def challenge_status split: json.split_asm if_split_asm option.split_asm)

lemma enforce_token_binding_Inl:
  assumes "enforce_token_binding sv e m rq tok st = (st', Inl (Inr r))"
  shows "resp_status r = 401"
proof (cases "jget ''cnf'' (decode_unverified_claims (sv_lib sv) tok)")
  case (JObj cnf)
  then show ?thesis
    using assms
    by (auto simp: enforce_token_binding_def Let_def dest: enforce_dpop_scheme_Inl enforce_certificate_Some
        split: json.split_asm sum.split_asm option.split_asm prod.split_asm if_split_asm)
qed (use assms in \<open>simp_all add: enforce_token_binding_def\<close>)

lemma enforce_token_binding_Inr:
  assumes "enforce_token_binding sv e m rq tok st = (st', Inr v)"
  shows "holder_shown sv e m rq tok st"
proof (cases "jget ''cnf'' (decode_unverified_claims (sv_lib sv) tok)")
  case (JObj cnf)
  have cert: "enforce_certificate (sv_config sv) rq cnf = None"
    using assms JObj by (auto simp: enforce_token_binding_def Let_def split: sum.split_asm option.split_asm prod.split_asm)
  have "\<exists>s d. enforce_dpop_scheme sv e m rq tok jkt st = (s, Inr d)" if "jget ''jkt'' cnf = JStr jkt" "jkt \<noteq> []" for jkt
    using assms JObj that by (auto simp: enforce_token_binding_def Let_def split: sum.split_asm option.split_asm prod.split_asm)
  then have "py_lower (fst (auth_partition rq)) = ''dpop'' \<and> (\<exists>pf d. read_dpop_header rq = Inr (Some pf) \<and> dv_jkt d = jkt \<and>
      snd (validate_dpop_proof (sv_lib sv) e pf m (userinfo_htu (sv_config sv)) (Some tok) (app_dpop_replay st)) = Inr d)"
    if "jget ''jkt'' cnf = JStr jkt" "jkt \<noteq> []" for jkt
    using that by (blast dest: enforce_dpop_scheme_Inr)
  then show ?thesis using JObj enforce_certificate_None [OF cert] by (simp add: holder_shown_def)
qed (simp_all add: holder_shown_def)

lemma userinfo_claims_members:
  "map_of (userinfo_claims cfg e row u db) ''sub'' = Some (JStr u)"
  "map_of (userinfo_claims cfg e row u db) ''aud'' = Some (JStr (token_client_id row))"
  "map_of (userinfo_claims cfg e row u db) ''email'' = Some x \<Longrightarrow>
     \<exists>user. get_user_by_id u db = Some user \<and> x = JStr (user_email user) \<and> ''email'' \<in> set (py_split (token_scope row))"
  "map_of (userinfo_claims cfg e row u db) ''preferred_username'' = Some x \<Longrightarrow>
     \<exists>user. get_user_by_id u db = Some user \<and> x = JStr (user_username user) \<and> ''profile'' \<in> set (py_split (token_scope row))"
  "fst ` set (userinfo_claims cfg e row u db) \<subseteq> {''sub'', ''iss'', ''aud'', ''email'', ''preferred_username''}"
  by (auto simp: userinfo_claims_def Let_def split: option.splits if_splits)

lemma answer_userinfo_200:
  "answer_userinfo sv e row u v st = Inr r \<Longrightarrow> resp_status r = 200 \<Longrightarrow>
     resp_body r = JObj (userinfo_claims (sv_config sv) e row u (app_db st))"
  by (auto simp: answer_userinfo_def dpop_invalid_token_response_def challenge_response_def resource_nonce_challenge_def Let_def
      bind_res_Inr_iff split: if_split_asm sum.split_asm option.split_asm dpop_failure.split_asm)

text \<open>
  C11. Userinfo answers with claims only when the request carries, as a Bearer or DPoP credential, the
  value of a stored access token that is neither revoked nor expired and belongs to a user, over the key
  and the certificate that token is bound to. The claims are about that user: the subject is the row's
  user, the audience its client, and the address and the name are the stored ones and only disclosed when
  the token's scope covers them.
\<close>

theorem userinfo_answers_only_the_holder:
  assumes "userinfo sv e http_method rq st = (st', Inr r)" and "resp_status r = 200"
  shows "\<exists>tok row u claims. presented_token rq = Some tok \<and> get_token_by_access_token tok (app_db st) = Some row \<and>
    \<not> token_revoked row \<and> env_now e < token_expires_at row \<and> token_user_id row = Some u \<and>
    holder_shown sv e http_method rq tok st \<and> resp_body r = JObj claims \<and>
    map_of claims ''sub'' = Some (JStr u) \<and> map_of claims ''aud'' = Some (JStr (token_client_id row)) \<and>
    fst ` set claims \<subseteq> {''sub'', ''iss'', ''aud'', ''email'', ''preferred_username''} \<and>
    (\<forall>x. map_of claims ''email'' = Some x \<longrightarrow> (\<exists>user. get_user_by_id u (app_db st) = Some user \<and>
       x = JStr (user_email user) \<and> ''email'' \<in> set (py_split (token_scope row)))) \<and>
    (\<forall>x. map_of claims ''preferred_username'' = Some x \<longrightarrow> (\<exists>user. get_user_by_id u (app_db st) = Some user \<and>
       x = JStr (user_username user) \<and> ''profile'' \<in> set (py_split (token_scope row))))"
proof -
  obtain tok where tok: "presented_token rq = Some tok"
    using assms by (auto simp: userinfo_def missing_token_response_def split: option.split_asm)
  obtain row where row: "get_token_by_access_token tok (app_db st) = Some row" "\<not> token_revoked row" "env_now e < token_expires_at row"
    using assms tok by (auto simp: userinfo_def invalid_token_response_def challenge_response_def not_le split: option.split_asm if_split_asm)
  have run: "userinfo sv e http_method rq st = (case enforce_token_binding sv e http_method rq tok st of
      (st1, Inl q) \<Rightarrow> (st1, q)
    | (st1, Inr v) \<Rightarrow> (case token_user_id row of
          None \<Rightarrow> (st1, Inr (invalid_token_response ''Access token does not represent an authenticated user''))
        | Some u \<Rightarrow> (st1, answer_userinfo sv e row u v st1)))"
    using tok row by (simp add: userinfo_def not_le)
  obtain st1 b where b: "enforce_token_binding sv e http_method rq tok st = (st1, b)" by fastforce
  have "\<exists>v. b = Inr v"
  proof (cases b)
    case (Inl q)
    then have "q = Inr r" using assms(1) run b by simp
    then have "resp_status r = 401" using enforce_token_binding_Inl b Inl by blast
    then show ?thesis using assms(2) by simp
  qed blast
  then obtain v where v: "b = Inr v" ..
  obtain u where u: "token_user_id row = Some u" "answer_userinfo sv e row u v st1 = Inr r"
    using assms run b v by (auto simp: invalid_token_response_def challenge_response_def split: option.split_asm)
  have db: "app_db st1 = app_db st" using enforce_token_binding_db [of sv e http_method rq tok st] b by simp
  note members = userinfo_claims_members [where cfg = "sv_config sv" and e = e and row = row and u = u and db = "app_db st"]
  from answer_userinfo_200 [OF u(2) assms(2)] db have "resp_body r = JObj (userinfo_claims (sv_config sv) e row u (app_db st))" by simp
  then show ?thesis using tok row u(1) enforce_token_binding_Inr [OF b [unfolded v]] members by blast
qed

definition info_token :: token where
  "info_token = flow_token\<lparr>token_scope := ''openid email'', token_user_id := Some ''u1'', token_token_family := None\<rparr>"

definition info_user :: user where
  "info_user = \<lparr>user_pk = ''u1'', user_username = ''ann'', user_password_hash = ''h'', user_email = ''ann@example.com'', user_enabled = True,
     user_role = ''user'', user_created_at = 0, user_updated_at = 0\<rparr>"

definition info_app :: app_state where
  "info_app = fresh_app ((empty_db Sqlite)\<lparr>db_users := [info_user], db_tokens := [info_token]\<rparr>)"

definition info_request :: http_request where
  "info_request = \<lparr>rq_headers = [(''authorization'', utf8 ''Bearer at0'')], rq_form = []\<rparr>"

lemma info_run:
  "presented_token info_request = Some ''at0''" "decode_unverified_claims plain_lib ''at0'' = []"
  "userinfo_claims (sv_config flow_server) (sample_env 0 ''i'') info_token ''u1'' (app_db info_app) =
     [(''sub'', JStr ''u1''), (''iss'', JStr ''https://as.example''), (''aud'', JStr ''app''), (''email'', JStr ''ann@example.com'')]"
  by code_simp+

theorem userinfo_answers_only_the_holder_witness:
  "\<exists>r tok row. userinfo flow_server (sample_env 0 ''i'') ''GET'' info_request info_app = (info_app, Inr r) \<and> resp_status r = 200 \<and>
     presented_token info_request = Some tok \<and> get_token_by_access_token tok (app_db info_app) = Some row \<and> \<not> token_revoked row"
proof -
  have "get_token_by_access_token ''at0'' (app_db info_app) = Some info_token"
    by (simp add: get_token_by_access_token_def info_app_def fresh_app_def empty_db_def info_token_def flow_token_def)
  then obtain r where run: "userinfo flow_server (sample_env 0 ''i'') ''GET'' info_request info_app = (info_app, Inr r)" "resp_status r = 200"
    using info_run(1,2)
    by (simp add: userinfo_def enforce_token_binding_def answer_userinfo_def flow_server_def info_token_def flow_token_def sample_env_def jget_def Let_def)
  from userinfo_answers_only_the_holder [OF this] run show ?thesis by blast
qed


section \<open>Whatever signs id tokens is published\<close>

definition signer_kept :: "keyset \<Rightarrow> bool" where
  \<comment> \<open>an algorithm that has a key has a current one that does not expire\<close>
  "signer_kept ks \<longleftrightarrow> (\<forall>k \<in> set ks. \<exists>c \<in> set ks. sk_algorithm c = sk_algorithm k \<and> sk_is_current c \<and> sk_expires_at c = None)"

definition installs_signer :: "key_op \<Rightarrow> bool" where
  \<comment> \<open>a rotation to a key as \<open>generate_signing_key\<close> makes it\<close>
  "installs_signer op \<longleftrightarrow> (case op of Rotate _ k _ \<Rightarrow> sk_is_current k \<and> sk_expires_at k = None | Prune _ \<Rightarrow> True)"

lemma signer_kept_seed: "signer_kept (seed_keyset now s pem kid)"
  by (auto simp: signer_kept_def seed_keyset_def keyset_add_def Let_def)

lemma set_rotate_keys:
  "set (rotate_keys now n g ks) = insert n ((\<lambda>k. if sk_algorithm k = sk_algorithm n \<and> sk_is_current k then retire (now + usecs g) k else k) ` set ks)"
  by (auto simp: rotate_keys_def keyset_add_def Let_def)

lemma signer_kept_rotate:
  assumes "signer_kept ks" and "sk_is_current n" and "sk_expires_at n = None"
  shows "signer_kept (rotate_keys now n g ks)"
  unfolding signer_kept_def
proof
  fix k assume "k \<in> set (rotate_keys now n g ks)"
  then consider "sk_algorithm k = sk_algorithm n" | k0 where "k0 \<in> set ks" "k0 = k" "sk_algorithm k \<noteq> sk_algorithm n"
    by (auto simp: set_rotate_keys retire_def split: if_split_asm)
  then show "\<exists>c \<in> set (rotate_keys now n g ks). sk_algorithm c = sk_algorithm k \<and> sk_is_current c \<and> sk_expires_at c = None"
  proof cases
    case 1
    then show ?thesis using assms by (intro bexI [of _ n]) (auto simp: set_rotate_keys)
  next
    case 2
    then obtain c where "c \<in> set ks" "sk_algorithm c = sk_algorithm k" "sk_is_current c" "sk_expires_at c = None"
      using assms(1) unfolding signer_kept_def by blast
    then show ?thesis using 2 by (intro bexI [of _ c]) (auto simp: set_rotate_keys image_iff intro!: bexI [of _ c])
  qed
qed

lemma signer_kept_prune: "signer_kept ks \<Longrightarrow> signer_kept (fst (prune_expired now ks))"
  by (fastforce simp: signer_kept_def prune_expired_def key_is_active_def Let_def)

lemma signer_kept_run:
  assumes "signer_kept ks" and "list_all installs_signer ops"
  shows "signer_kept (fold key_step ops ks)"
  using assms
proof (induction ops arbitrary: ks)
  case (Cons op ops)
  then show ?case by (cases op) (simp_all add: installs_signer_def signer_kept_rotate signer_kept_prune)
qed simp

lemma no_current_no_key:
  assumes "signer_kept ks" and "current_for_alg now alg ks = None" and "k \<in> set ks"
  shows "sk_algorithm k \<noteq> alg"
proof
  assume "sk_algorithm k = alg"
  then obtain c where "c \<in> set ks" "sk_algorithm c = alg" "sk_is_current c" "sk_expires_at c = None"
    using assms(1,3) unfolding signer_kept_def by blast
  then show False using assms(2) by (auto simp: current_for_alg_def find_None_iff key_is_active_def)
qed

definition jwk_describes :: "(bytes \<Rightarrow> nat \<times> nat) \<Rightarrow> bytes \<Rightarrow> string option \<Rightarrow> json \<Rightarrow> bool" where
  \<comment> \<open>a published key with the public half of the key material, under the given name\<close>
  "jwk_describes public_numbers material kid jwk \<longleftrightarrow>
     (\<exists>ms. jwk = JObj ms \<and> map_of ms ''kty'' = Some (JStr ''RSA'') \<and> map_of ms ''kid'' = map_option JStr kid \<and>
        map_of ms ''n'' = Some (JStr (uint_to_b64url (fst (public_numbers material)))) \<and>
        map_of ms ''e'' = Some (JStr (uint_to_b64url (snd (public_numbers material)))))"

text \<open>
  C29. After any rotations and prunings since start-up, at any instant, when an id token is signed with
  RS256 the published key set contains the public half of the key that signed it, under the key id in the
  token's header, or without one when the header has none. So a relying party can always find the key,
  also when the server signs with the configured key because the key set has none.
\<close>

theorem id_token_key_is_published:
  assumes "ks = fold key_step ops (seed_keyset t0 secret pem kid)" and "list_all installs_signer ops"
    and "cfg_id_token_alg cfg = ''RS256''"
    and "encode_id_token lib now claims hs_secret cfg (Some ks) = Inr tok"
  shows "\<exists>material header. jl_encode lib (id_token_payload claims) material ''RS256'' header = Inr tok \<and>
    (\<exists>jwk \<in> set (published_keys public_numbers cfg now ks).
       jwk_describes public_numbers material (case map_of header ''kid'' of Some (JStr i) \<Rightarrow> Some i | _ \<Rightarrow> None) jwk)"
proof -
  have kept: "signer_kept ks" using signer_kept_run [OF signer_kept_seed assms(2)] assms(1) by simp
  show ?thesis
  proof (cases "current_for_alg now ''RS256'' ks")
    case (Some k)
    then have k: "k \<in> set ks" "sk_algorithm k = ''RS256''" "key_is_active now k"
      by (auto simp: current_for_alg_def find_Some_iff)
    then have "jwk_from_rs256_key public_numbers k \<in> set (published_keys public_numbers cfg now ks)"
      by (auto simp: published_keys_def active_keys_def Let_def filter_empty_conv)
    then show ?thesis
      using assms(3,4) Some
      by (intro exI [of _ "sk_key_material k"] exI [of _ "[(''kid'', JStr (sk_kid k))]"] conjI bexI [of _ "jwk_from_rs256_key public_numbers k"])
        (auto simp: encode_id_token_def jwk_describes_def jwk_from_rs256_key_def split: prod.splits)
  next
    case None
    let ?pem = "utf8 (the (cfg_id_token_private_key_pem cfg))"
    let ?header = "if truthy (cfg_id_token_kid cfg) then [(''kid'', JStr (the (cfg_id_token_kid cfg)))] else []"
    have empty: "filter (\<lambda>k. sk_algorithm k = ''RS256'') (active_keys now ks) = []"
      using no_current_no_key [OF kept None] by (auto simp: active_keys_def filter_empty_conv)
    have pem: "truthy (cfg_id_token_private_key_pem cfg)" "jl_encode lib (id_token_payload claims) ?pem ''RS256'' ?header = Inr tok"
      using assms(3,4) None by (simp_all add: encode_id_token_def split: if_split_asm)
    have "\<exists>jwk \<in> set (published_keys public_numbers cfg now ks).
       jwk_describes public_numbers ?pem (case map_of ?header ''kid'' of Some (JStr i) \<Rightarrow> Some i | _ \<Rightarrow> None) jwk"
      using empty pem(1) assms(3)
      by (auto simp: published_keys_def jwk_describes_def jwk_from_rs256_key_def Let_def or_str_def split: prod.splits elim!: truthyE)
    then show ?thesis using pem(2) by blast
  qed
qed

definition rotated_op :: key_op where
  "rotated_op = Rotate 5 \<lparr>sk_kid = ''rs256-2'', sk_algorithm = ''RS256'', sk_key_material = utf8 ''new'', sk_is_current = True,
     sk_created_at = 5, sk_expires_at = None\<rparr> 3600"

definition rs256_config :: config where
  "rs256_config = sample_config\<lparr>cfg_id_token_alg := ''RS256'', cfg_id_token_private_key_pem := Some ''old''\<rparr>"

definition rs256_claims :: id_token_claims where
  "rs256_claims = id_token_claims_for (sample_env 0 ''t'') sample_config flow_client
     \<lparr>ma_user_id = ''u1'', ma_user = None, ma_scope = ''openid'', ma_nonce = None, ma_access_token = None, ma_code = None, ma_acr = None,
      ma_amr = None, ma_auth_time = None, ma_selection = None\<rparr>"

theorem id_token_key_is_published_witness:
  "\<exists>tok jwk. encode_id_token plain_lib 9 rs256_claims ''s'' rs256_config (Some (fold key_step [rotated_op] (seed_keyset 0 ''s'' (Some ''old'') None))) = Inr tok \<and>
     jwk \<in> set (published_keys (\<lambda>m. (length m, 3)) rs256_config 9 (fold key_step [rotated_op] (seed_keyset 0 ''s'' (Some ''old'') None)))"
proof -
  let ?ks = "fold key_step [rotated_op] (seed_keyset 0 ''s'' (Some ''old'') None)"
  have "\<exists>k. current_for_alg 9 ''RS256'' ?ks = Some k"
    by (simp add: current_for_alg_def rotated_op_def seed_keyset_def rotate_keys_def keyset_add_def retire_def key_is_active_def Let_def)
  then obtain tok where tok: "encode_id_token plain_lib 9 rs256_claims ''s'' rs256_config (Some ?ks) = Inr tok"
    by (auto simp: encode_id_token_def rs256_config_def plain_lib_def)
  have "list_all installs_signer [rotated_op]" by (simp add: rotated_op_def installs_signer_def)
  from id_token_key_is_published [OF refl this _ tok, of "\<lambda>m. (length m, 3)"] tok show ?thesis
    by (auto simp: rs256_config_def)
qed

end
