(* ===== verification/Middleware.thy ===== *)
theory Middleware
  imports App_State Resilience
begin

text \<open>
  What a request passes before it is routed and on the way back: \<open>DenylistGuard\<close> and
  \<open>MetricsMiddleware\<close> of \<open>middleware.py\<close>, \<open>RateLimitMiddleware\<close> and \<open>ResilienceMiddleware\<close> of
  \<open>middleware_ratelimit.py\<close>, in the order in which \<open>create_app\<close> stacks them. The application runs
  between the two halves of a request, so each middleware that does something afterwards is a pair of
  definitions, and concurrency is the interleaving of arrivals and departures.

  The theorems show that a denylisted peer reaches neither the application nor the limiter, how many
  requests of one peer can be admitted, that permits and probe slots are never lost however requests
  interleave and fail, so that an open circuit recovers, and the one exit that does lose a slot.

  The path Starlette computes from a request (\<open>request.url.path\<close>) is an input beside the raw one.
\<close>

section \<open>State\<close>

record asgi_scope =
  sc_type :: string
  sc_path :: string
  sc_url_path :: string
  sc_client_host :: "string option"
  sc_headers :: "(string \<times> bytes) list"
  sc_method :: string

record http_metrics =
  m_http_requests_total :: nat
  m_by_class :: "nat dict"
  m_by_route :: "((string \<times> string \<times> string) \<times> nat) list"
  m_durations :: "time list"
  m_rate_limit_remaining :: "int list"
  m_rate_limit_rejected :: "nat dict"
  m_back_pressure_rejected :: nat
  m_in_flight :: int
  m_circuit_state :: circuit_state
  m_circuit_trips :: int

record web_state =
  ws_limiter :: token_bucket_limiter
  ws_circuit :: circuit_breaker
  ws_concurrency :: concurrency_limiter
  ws_last_trips :: int
  ws_metrics :: http_metrics

record middleware_config =
  mc_trust_proxy_headers :: bool
  mc_rate_limit_enabled :: bool
  mc_resilience_enabled :: bool

definition metrics_new :: http_metrics where
  "metrics_new = \<lparr>m_http_requests_total = 0, m_by_class = [], m_by_route = [], m_durations = [], m_rate_limit_remaining = [],
     m_rate_limit_rejected = [], m_back_pressure_rejected = 0, m_in_flight = 0, m_circuit_state = CLOSED, m_circuit_trips = 0\<rparr>"

definition web_new :: "token_bucket_limiter \<Rightarrow> circuit_breaker \<Rightarrow> concurrency_limiter \<Rightarrow> web_state" where
  "web_new l cb cl = \<lparr>ws_limiter = l, ws_circuit = cb, ws_concurrency = cl, ws_last_trips = 0, ws_metrics = metrics_new\<rparr>"

definition count_up :: "'a \<Rightarrow> ('a \<times> nat) list \<Rightarrow> ('a \<times> nat) list" where
  \<comment> \<open>\<open>labels(...).inc()\<close>\<close>
  "count_up k m = AList.update k (Suc (case map_of m k of Some n \<Rightarrow> n | None \<Rightarrow> 0)) m"

definition with_metrics :: "(http_metrics \<Rightarrow> http_metrics) \<Rightarrow> web_state \<Rightarrow> web_state" where
  "with_metrics f ws = ws\<lparr>ws_metrics := f (ws_metrics ws)\<rparr>"

definition SECURITY_HEADERS :: "string dict" where
  "SECURITY_HEADERS = [(''Cache-Control'', ''no-store''), (''Pragma'', ''no-cache''), (''X-Frame-Options'', ''DENY''),
     (''Referrer-Policy'', ''no-referrer''), (''X-Content-Type-Options'', ''nosniff'')]"

definition is_oauth_or_admin_api :: "string \<Rightarrow> bool" where
  "is_oauth_or_admin_api path \<longleftrightarrow> starts_with ''/oauth'' path \<or> starts_with ''/admin/api'' path"

definition security_headers_for :: "string \<Rightarrow> string dict" where
  "security_headers_for path = (if is_oauth_or_admin_api path then SECURITY_HEADERS else [])"

definition EXEMPT_PREFIXES :: "string list" where
  "EXEMPT_PREFIXES = [''/health'', ''/ready'', ''/metrics'']"

definition is_exempt :: "string \<Rightarrow> bool" where
  "is_exempt path \<longleftrightarrow> list_ex (\<lambda>p. starts_with p path) EXEMPT_PREFIXES"


section \<open>DenylistGuard\<close>

definition denylist_guard :: "denylist_entry option outcome \<Rightarrow> asgi_scope \<Rightarrow> http_response option" where
  \<comment> \<open>\<open>lookup\<close> is what the storage answers for the peer's address; an exception lets the request pass\<close>
  "denylist_guard lookup sc =
     (if sc_type sc \<noteq> ''http'' \<or> sc_client_host sc = None then None
      else (case lookup of
          Inr (Some entry) \<Rightarrow> Some \<lparr>resp_status = 403, resp_headers = security_headers_for (sc_url_path sc),
            resp_body = JObj [(''error'', JStr ''access_denied''), (''error_description'', JStr ''request source is denylisted'')]\<rparr>
        | _ \<Rightarrow> None))"


section \<open>RateLimitMiddleware\<close>

definition ip_prefix :: "string \<Rightarrow> string" where
  "ip_prefix key =
     (if CHR ''.'' \<in> set key then (let parts = split_on (CHR ''.'') key in parts ! 0 @ ''.'' @ parts ! 1)
      else if CHR '':'' \<in> set key then (let parts = split_on (CHR '':'') key in parts ! 0 @ '':'' @ parts ! 1)
      else key)"

definition rate_limit_key :: "bool \<Rightarrow> asgi_scope \<Rightarrow> string" where
  "rate_limit_key trust_proxy_headers sc =
     (let forwarded_for = header_get ''x-forwarded-for'' \<lparr>rq_headers = sc_headers sc, rq_form = []\<rparr>;
          first = py_strip (hd (split_on (CHR '','') (the forwarded_for)))
      in if trust_proxy_headers \<and> truthy forwarded_for \<and> first \<noteq> [] then first
         else (case sc_client_host sc of Some h \<Rightarrow> h | None \<Rightarrow> ''unknown''))"

definition rate_limit_rejected :: "asgi_scope \<Rightarrow> rate_limit_result \<Rightarrow> http_response" where
  "rate_limit_rejected sc r =
     (let retry_after = (case rl_retry_after r of Some n \<Rightarrow> n | None \<Rightarrow> 1);
          body = JObj [(''error'', JStr ''too_many_requests''),
            (''error_description'', JStr ''Rate limit exceeded. Try again later.''), (''retry_after'', JInt retry_after)]
      in \<lparr>resp_status = 429, resp_headers = [(''content-type'', ''application/json''),
            (''content-length'', str_int (int (length (json_dumps '','' '':'' body)))), (''Retry-After'', str_int retry_after),
            (''X-RateLimit-Limit'', str_int (rl_limit r)), (''X-RateLimit-Remaining'', ''0''), (''X-RateLimit-Reset'', str_int (rl_reset_at r))] @
            security_headers_for (sc_path sc), resp_body = body\<rparr>)"

definition rate_limit_enter ::
  "bool \<Rightarrow> time \<Rightarrow> int \<Rightarrow> asgi_scope \<Rightarrow> web_state \<Rightarrow> web_state \<times> (http_response + rate_limit_result option)" where
  \<comment> \<open>\<open>Inr None\<close> for a request that is not limited at all\<close>
  "rate_limit_enter trust_proxy_headers now wall sc ws =
     (if sc_type sc \<noteq> ''http'' \<or> is_exempt (sc_url_path sc) then (ws, Inr None)
      else
        (let key = rate_limit_key trust_proxy_headers sc; (l, r) = tb_check now wall key (ws_limiter ws);
             ws1 = with_metrics (\<lambda>m. m\<lparr>m_rate_limit_remaining := m_rate_limit_remaining m @ [rl_remaining r]\<rparr>) (ws\<lparr>ws_limiter := l\<rparr>)
         in if \<not> rl_allowed r
            then (with_metrics (\<lambda>m. m\<lparr>m_rate_limit_rejected := count_up (ip_prefix key) (m_rate_limit_rejected m)\<rparr>) ws1,
                  Inl (rate_limit_rejected sc r))
            else (ws1, Inr (Some r))))"

definition rate_limit_headers :: "rate_limit_result option \<Rightarrow> http_response \<Rightarrow> http_response" where
  \<comment> \<open>\<open>send_wrapper\<close>: the response of an admitted request shows what is left\<close>
  "rate_limit_headers result resp =
     (case result of
        None \<Rightarrow> resp
      | Some r \<Rightarrow> resp\<lparr>resp_headers := resp_headers resp @
          [(''x-ratelimit-limit'', str_int (rl_limit r)), (''x-ratelimit-remaining'', str_int (rl_remaining r)),
           (''x-ratelimit-reset'', str_int (rl_reset_at r))]\<rparr>)"


section \<open>ResilienceMiddleware\<close>

definition record_circuit_metrics :: "time \<Rightarrow> web_state \<Rightarrow> web_state" where
  \<comment> \<open>trips are added as the difference to the count seen last\<close>
  "record_circuit_metrics now ws =
     (let cb = cb_state now (ws_circuit ws); trips = total_trips cb;
          ws1 = with_metrics (\<lambda>m. m\<lparr>m_circuit_state := cb_cur_state cb\<rparr>) (ws\<lparr>ws_circuit := cb\<rparr>)
      in if ws_last_trips ws < trips
         then with_metrics (\<lambda>m. m\<lparr>m_circuit_trips := m_circuit_trips m + (trips - ws_last_trips ws)\<rparr>) (ws1\<lparr>ws_last_trips := trips\<rparr>)
         else ws1)"

definition show_in_flight :: "web_state \<Rightarrow> web_state" where
  "show_in_flight ws = with_metrics (\<lambda>m. m\<lparr>m_in_flight := in_flight (ws_concurrency ws)\<rparr>) ws"

definition unavailable :: "string \<Rightarrow> string \<Rightarrow> asgi_scope \<Rightarrow> http_response" where
  \<comment> \<open>\<open>_send_circuit_open\<close> and \<open>_send_at_capacity\<close>\<close>
  "unavailable description retry_after sc = \<lparr>resp_status = 503,
     resp_headers = (''Retry-After'', retry_after) # security_headers_for (sc_path sc),
     resp_body = JObj [(''error'', JStr ''service_unavailable''), (''error_description'', JStr description)]\<rparr>"

definition circuit_open_response :: "circuit_breaker \<Rightarrow> asgi_scope \<Rightarrow> http_response" where
  "circuit_open_response cb sc = unavailable ''Server is temporarily unavailable. Please retry later.'' (str_int (open_secs cb)) sc"

definition at_capacity_response :: "asgi_scope \<Rightarrow> http_response" where
  "at_capacity_response sc = unavailable ''Server is at capacity. Please retry later.'' ''1'' sc"

definition resilience_enter :: "time \<Rightarrow> asgi_scope \<Rightarrow> web_state \<Rightarrow> web_state \<times> (http_response + bool option)" where
  \<comment> \<open>\<open>Inr None\<close> for a request that is not counted, else whether it is a half-open probe\<close>
  "resilience_enter now sc ws =
     (if sc_type sc \<noteq> ''http'' \<or> is_exempt (sc_url_path sc) then (ws, Inr None)
      else
        (let cb = cb_state now (ws_circuit ws); ws1 = ws\<lparr>ws_circuit := cb\<rparr>
         in if cb_cur_state cb = OPEN then (record_circuit_metrics now ws1, Inl (circuit_open_response cb sc))
            else
              (let (l, ok) = cl_try_acquire (ws_concurrency ws1); ws2 = ws1\<lparr>ws_concurrency := l\<rparr>
               in if \<not> ok
                  then (show_in_flight (with_metrics (\<lambda>m. m\<lparr>m_back_pressure_rejected := Suc (m_back_pressure_rejected m)\<rparr>) ws2),
                        Inl (at_capacity_response sc))
                  else
                    (let ws3 = show_in_flight ws2
                     in if cb_cur_state cb = HALF_OPEN then
                          (let (cb', allowed) = cb_allow_request now cb; ws4 = ws3\<lparr>ws_circuit := cb'\<rparr>
                           in if allowed then (ws4, Inr (Some True))
                              else (record_circuit_metrics now (show_in_flight (ws4\<lparr>ws_concurrency := cl_release (ws_concurrency ws4)\<rparr>)),
                                    Inl (circuit_open_response cb' sc)))
                        else (ws3, Inr (Some False))))))"

datatype departure = Responded int | Raised | Cancelled

definition release_permit :: "web_state \<Rightarrow> web_state" where
  \<comment> \<open>the \<open>finally\<close> block\<close>
  "release_permit ws = show_in_flight (ws\<lparr>ws_concurrency := cl_release (ws_concurrency ws)\<rparr>)"

definition record_outcome :: "time \<Rightarrow> bool \<Rightarrow> bool \<Rightarrow> web_state \<Rightarrow> web_state" where
  \<comment> \<open>only for a closed circuit or a probe\<close>
  "record_outcome now is_probe failed ws =
     (let cb = cb_state now (ws_circuit ws)
      in ws\<lparr>ws_circuit := (if cb_cur_state cb = CLOSED \<or> is_probe
           then (if failed then cb_record_failure now cb else cb_record_success now cb) else cb)\<rparr>)"

definition resilience_leave :: "time \<Rightarrow> bool \<Rightarrow> departure \<Rightarrow> web_state \<Rightarrow> web_state" where
  \<comment> \<open>\<open>except Exception\<close> does not catch a cancellation\<close>
  "resilience_leave now is_probe d ws =
     (case d of
        Responded code \<Rightarrow> record_circuit_metrics now (record_outcome now is_probe (500 \<le> code) (release_permit ws))
      | Raised \<Rightarrow> release_permit (record_circuit_metrics now (record_outcome now is_probe True ws))
      | Cancelled \<Rightarrow> release_permit ws)"


section \<open>MetricsMiddleware\<close>

definition status_class :: "int \<Rightarrow> string" where
  "status_class status =
     (if 200 \<le> status \<and> status < 300 then ''2xx'' else if 300 \<le> status \<and> status < 400 then ''3xx''
      else if 400 \<le> status \<and> status < 500 then ''4xx'' else if 500 \<le> status \<and> status < 600 then ''5xx'' else ''other'')"

definition metrics_enter :: "asgi_scope \<Rightarrow> web_state \<Rightarrow> web_state" where
  "metrics_enter sc ws =
     (if sc_type sc \<noteq> ''http'' then ws
      else with_metrics (\<lambda>m. m\<lparr>m_http_requests_total := Suc (m_http_requests_total m)\<rparr>) ws)"

definition metrics_leave :: "asgi_scope \<Rightarrow> string option \<Rightarrow> time \<Rightarrow> departure \<Rightarrow> web_state \<Rightarrow> web_state" where
  \<comment> \<open>\<open>route\<close> is the path of the matched route; nothing is recorded when an exception passes\<close>
  "metrics_leave sc route duration d ws =
     (case d of
        Responded status \<Rightarrow>
          if sc_type sc \<noteq> ''http'' then ws
          else with_metrics (\<lambda>m. m\<lparr>m_durations := m_durations m @ [duration],
            m_by_class := count_up (status_class status) (m_by_class m),
            m_by_route := count_up (sc_method sc, (case route of Some p \<Rightarrow> p | None \<Rightarrow> ''unmatched''), str_int status) (m_by_route m)\<rparr>) ws
      | _ \<Rightarrow> ws)"


section \<open>The stack of create\_app\<close>

definition web_inner ::
  "middleware_config \<Rightarrow> time \<Rightarrow> int \<Rightarrow> denylist_entry option outcome \<Rightarrow> asgi_scope \<Rightarrow> web_state
   \<Rightarrow> web_state \<times> (http_response + rate_limit_result option)" where
  \<comment> \<open>the layers inside the resilience layer: the denylist before the limiter\<close>
  "web_inner mc now wall lookup sc ws =
     (case denylist_guard lookup sc of
        Some resp \<Rightarrow> (ws, Inl resp)
      | None \<Rightarrow> if mc_rate_limit_enabled mc then rate_limit_enter (mc_trust_proxy_headers mc) now wall sc ws else (ws, Inr None))"

definition web_arrive ::
  "middleware_config \<Rightarrow> time \<Rightarrow> int \<Rightarrow> denylist_entry option outcome \<Rightarrow> asgi_scope \<Rightarrow> web_state
   \<Rightarrow> web_state \<times> (http_response + bool option \<times> rate_limit_result option)" where
  \<comment> \<open>up to the application (\<open>Inr\<close>) or a response that keeps the request from it (\<open>Inl\<close>)\<close>
  "web_arrive mc now wall lookup sc ws =
     (let (ws1, r) = (if mc_resilience_enabled mc then resilience_enter now sc (metrics_enter sc ws) else (metrics_enter sc ws, Inr None))
      in case r of
           Inl resp \<Rightarrow> (ws1, Inl resp)
         | Inr probe \<Rightarrow>
             (case web_inner mc now wall lookup sc ws1 of
                (ws2, Inr limited) \<Rightarrow> (ws2, Inr (probe, limited))
              | (ws2, Inl resp) \<Rightarrow>
                  (case probe of
                     Some p \<Rightarrow> (resilience_leave now p (Responded (resp_status resp)) ws2, Inl resp)
                   | None \<Rightarrow> (ws2, Inl resp))))"

definition web_depart ::
  "asgi_scope \<Rightarrow> string option \<Rightarrow> time \<Rightarrow> time \<Rightarrow> bool option \<Rightarrow> departure \<Rightarrow> web_state \<Rightarrow> web_state" where
  "web_depart sc route now duration probe d ws =
     metrics_leave sc route duration d (case probe of Some p \<Rightarrow> resilience_leave now p d ws | None \<Rightarrow> ws)"


section \<open>What the layers leave alone\<close>

lemma with_metrics_simps [simp]:
  "ws_limiter (with_metrics f ws) = ws_limiter ws" "ws_circuit (with_metrics f ws) = ws_circuit ws"
  "ws_concurrency (with_metrics f ws) = ws_concurrency ws" "ws_last_trips (with_metrics f ws) = ws_last_trips ws"
  "ws_metrics (with_metrics f ws) = f (ws_metrics ws)"
  by (simp_all add: with_metrics_def)

lemma record_circuit_metrics_simps [simp]:
  "ws_limiter (record_circuit_metrics now ws) = ws_limiter ws" "ws_concurrency (record_circuit_metrics now ws) = ws_concurrency ws"
  "ws_circuit (record_circuit_metrics now ws) = cb_state now (ws_circuit ws)"
  by (simp_all add: record_circuit_metrics_def Let_def)

lemma show_in_flight_simps [simp]:
  "ws_limiter (show_in_flight ws) = ws_limiter ws" "ws_concurrency (show_in_flight ws) = ws_concurrency ws"
  "ws_circuit (show_in_flight ws) = ws_circuit ws" "ws_last_trips (show_in_flight ws) = ws_last_trips ws"
  "m_circuit_trips (ws_metrics (show_in_flight ws)) = m_circuit_trips (ws_metrics ws)"
  by (simp_all add: show_in_flight_def)

lemma release_permit_simps [simp]:
  "ws_limiter (release_permit ws) = ws_limiter ws" "ws_circuit (release_permit ws) = ws_circuit ws"
  "ws_concurrency (release_permit ws) = cl_release (ws_concurrency ws)" "ws_last_trips (release_permit ws) = ws_last_trips ws"
  "m_circuit_trips (ws_metrics (release_permit ws)) = m_circuit_trips (ws_metrics ws)"
  by (simp_all add: release_permit_def)

lemma record_outcome_simps [simp]:
  "ws_limiter (record_outcome now p f ws) = ws_limiter ws" "ws_concurrency (record_outcome now p f ws) = ws_concurrency ws"
  "ws_last_trips (record_outcome now p f ws) = ws_last_trips ws" "ws_metrics (record_outcome now p f ws) = ws_metrics ws"
  by (simp_all add: record_outcome_def Let_def)

lemma resilience_leave_simps [simp]:
  "ws_limiter (resilience_leave now p d ws) = ws_limiter ws"
  "ws_concurrency (resilience_leave now p d ws) = cl_release (ws_concurrency ws)"
  by (cases d; simp add: resilience_leave_def)+

lemma metrics_enter_simps [simp]:
  "ws_limiter (metrics_enter sc ws) = ws_limiter ws" "ws_concurrency (metrics_enter sc ws) = ws_concurrency ws"
  "ws_circuit (metrics_enter sc ws) = ws_circuit ws"
  by (simp_all add: metrics_enter_def)

lemma resilience_enter_limiter: "resilience_enter now sc ws = (ws', r) \<Longrightarrow> ws_limiter ws' = ws_limiter ws"
  by (auto simp: resilience_enter_def Let_def split: if_split_asm prod.split_asm)

lemma resilience_enter_rejected:
  assumes "resilience_enter now sc ws = (ws', Inl resp)" and "0 \<le> in_flight (ws_concurrency ws)"
  shows "resp_status resp = 503" "in_flight (ws_concurrency ws') = in_flight (ws_concurrency ws)"
  using assms
  by (auto simp: resilience_enter_def circuit_open_response_def at_capacity_response_def unavailable_def cl_try_acquire_def cl_release_def Let_def
      split: if_split_asm prod.split_asm)

lemma resilience_enter_admitted:
  assumes "resilience_enter now sc ws = (ws', Inr (Some p))" and "0 \<le> in_flight (ws_concurrency ws)"
  shows "in_flight (ws_concurrency ws') = in_flight (ws_concurrency ws) + 1"
  using assms by (auto simp: resilience_enter_def cl_try_acquire_def Let_def split: if_split_asm prod.split_asm)

lemma resilience_enter_bypassed: "resilience_enter now sc ws = (ws', Inr None) \<Longrightarrow> ws' = ws"
  by (auto simp: resilience_enter_def Let_def split: if_split_asm prod.split_asm)


section \<open>A denylisted peer\<close>

text \<open>
  C25. A request from a peer with an active denylist entry never reaches the application: it is answered
  403, or 503 when the resilience layer refuses it first. It takes no token from the rate limiter, so it
  cannot use up a budget it shares with others, and it holds no permit afterwards.
\<close>

theorem denylisted_peer_is_stopped:
  assumes "sc_type sc = ''http''" and "sc_client_host sc = Some host"
    and "find_denylist_entry today ''ip'' host db = Some entry"
    and "0 \<le> in_flight (ws_concurrency ws)"
  shows "\<exists>ws' resp. web_arrive mc now wall (Inr (find_denylist_entry today ''ip'' host db)) sc ws = (ws', Inl resp) \<and>
    resp_status resp \<in> {403, 503} \<and> ws_limiter ws' = ws_limiter ws \<and>
    in_flight (ws_concurrency ws') = in_flight (ws_concurrency ws)"
proof -
  obtain resp where resp: "denylist_guard (Inr (Some entry)) sc = Some resp" "resp_status resp = 403"
    using assms(1,2) by (simp add: denylist_guard_def)
  show ?thesis
  proof (cases "mc_resilience_enabled mc")
    case True
    obtain ws1 r where r: "resilience_enter now sc (metrics_enter sc ws) = (ws1, r)" by fastforce
    show ?thesis
    proof (cases r)
      case (Inl q)
      then show ?thesis
        using True r resilience_enter_rejected [of now sc "metrics_enter sc ws" ws1 q] resilience_enter_limiter [OF r] assms(4)
        by (simp add: web_arrive_def)
    next
      case (Inr probe)
      then show ?thesis
        using True r resp assms(3,4) resilience_enter_limiter [OF r] resilience_enter_admitted [of now sc "metrics_enter sc ws" ws1]
          resilience_enter_bypassed [of now sc "metrics_enter sc ws" ws1]
        by (cases probe) (auto simp: web_arrive_def web_inner_def cl_release_def)
    qed
  next
    case False
    then show ?thesis using resp assms(3) by (simp add: web_arrive_def web_inner_def)
  qed
qed

definition peer_scope :: asgi_scope where
  "peer_scope = \<lparr>sc_type = ''http'', sc_path = ''/oauth/token'', sc_url_path = ''/oauth/token'', sc_client_host = Some ''192.0.2.7'',
     sc_headers = [(''x-forwarded-for'', utf8 ''203.0.113.1'')], sc_method = ''POST''\<rparr>"

definition peer_entry :: denylist_entry where
  "peer_entry = \<lparr>deny_pk = ''1'', deny_kind = ''ip'', deny_value = ''192.0.2.7'', deny_reason = ''abuse'', deny_created_by = ''root'',
     deny_created_at = 0, deny_expires_at = None\<rparr>"

definition full_stack :: middleware_config where
  "full_stack = \<lparr>mc_trust_proxy_headers = True, mc_rate_limit_enabled = True, mc_resilience_enabled = True\<rparr>"

theorem denylisted_peer_is_stopped_witness:
  "\<exists>ws' resp. web_arrive full_stack 1 1 (Inr (Some peer_entry)) peer_scope (web_new (tb_new 1 1) (cb_new 5 2 30 1) (cl_new 10)) = (ws', Inl resp) \<and>
     resp_status resp \<in> {403, 503} \<and> in_flight (ws_concurrency ws') = 0"
proof -
  let ?db = "(empty_db Sqlite)\<lparr>db_denylist := [peer_entry]\<rparr>"
  have found: "find_denylist_entry 5 ''ip'' ''192.0.2.7'' ?db = Some peer_entry"
    by (simp add: find_denylist_entry_def peer_entry_def deny_is_active_def)
  show ?thesis
    using denylisted_peer_is_stopped [OF _ _ found, of peer_scope "web_new (tb_new 1 1) (cb_new 5 2 30 1) (cl_new 10)" full_stack 1 1] found
    by (auto simp: peer_scope_def web_new_def cl_new_def)
qed


section \<open>How many requests of one peer are admitted\<close>

definition limited :: "asgi_scope \<Rightarrow> bool" where
  "limited sc \<longleftrightarrow> sc_type sc = ''http'' \<and> \<not> is_exempt (sc_url_path sc)"

fun rate_limit_run :: "bool \<Rightarrow> (time \<times> int \<times> asgi_scope) list \<Rightarrow> web_state \<Rightarrow> bool list" where
  \<comment> \<open>which requests of a sequence pass the limiter\<close>
  "rate_limit_run trust [] ws = []"
| "rate_limit_run trust ((now, wall, sc) # xs) ws =
     (let (ws', r) = rate_limit_enter trust now wall sc ws in (\<not> isl r) # rate_limit_run trust xs ws')"

fun peer_admitted :: "string \<Rightarrow> (time \<times> int \<times> asgi_scope) list \<Rightarrow> bool list \<Rightarrow> int" where
  "peer_admitted host ((now, wall, sc) # xs) (ok # oks) =
     (if limited sc \<and> sc_client_host sc = Some host \<and> ok then 1 else 0) + peer_admitted host xs oks"
| "peer_admitted host _ _ = 0"

definition limiter_checks :: "(time \<times> int \<times> asgi_scope) list \<Rightarrow> (time \<times> int \<times> string) list" where
  \<comment> \<open>the checks a sequence of requests makes when forwarding headers are not trusted\<close>
  "limiter_checks xs = map (\<lambda>(now, wall, sc). (now, wall, rate_limit_key False sc)) (filter (\<lambda>(now, wall, sc). limited sc) xs)"

lemma rate_limit_key_peer: "rate_limit_key False sc = (case sc_client_host sc of Some h \<Rightarrow> h | None \<Rightarrow> ''unknown'')"
  by (simp add: rate_limit_key_def Let_def)

lemma rate_limit_enter_limited:
  assumes "limited sc" and "tb_check now wall (rate_limit_key trust sc) (ws_limiter ws) = (l, r)"
  shows "ws_limiter (fst (rate_limit_enter trust now wall sc ws)) = l"
    and "isl (snd (rate_limit_enter trust now wall sc ws)) = (\<not> rl_allowed r)"
  using assms by (simp_all add: rate_limit_enter_def limited_def Let_def)

lemma rate_limit_enter_free: "\<not> limited sc \<Longrightarrow> rate_limit_enter trust now wall sc ws = (ws, Inr None)"
  by (auto simp: rate_limit_enter_def limited_def)

lemma peer_admitted_le:
  "peer_admitted host xs (rate_limit_run False xs ws) \<le> tb_admitted host (limiter_checks xs) (tb_run (ws_limiter ws) (limiter_checks xs))"
proof (induction xs arbitrary: ws)
  case (Cons x xs)
  obtain now wall sc where x: "x = (now, wall, sc)" by (cases x)
  obtain ws' q where e: "rate_limit_enter False now wall sc ws = (ws', q)" by fastforce
  show ?case
  proof (cases "limited sc")
    case True
    obtain l r where c: "tb_check now wall (rate_limit_key False sc) (ws_limiter ws) = (l, r)" by fastforce
    have "ws_limiter ws' = l" "isl q = (\<not> rl_allowed r)" using rate_limit_enter_limited [OF True c] e by simp_all
    then show ?thesis
      using Cons.IH [of ws'] True c e x by (auto simp: limiter_checks_def rate_limit_key_peer)
  next
    case False
    then show ?thesis using Cons.IH [of ws] e x by (simp add: limiter_checks_def rate_limit_enter_free)
  qed
qed (simp add: limiter_checks_def)

lemma nondecreasing_filter: "nondecreasing t (map fst xs) \<Longrightarrow> nondecreasing t (map fst (filter P xs))"
proof (induction xs arbitrary: t)
  case (Cons x xs)
  have "nondecreasing t us" if "nondecreasing u us" "t \<le> u" for u us using that by (cases us) auto
  then show ?case using Cons by (cases "P x") auto
qed simp

lemma limiter_checks_times:
  "map fst (limiter_checks xs) = map fst (filter (\<lambda>(now, wall, sc). limited sc) xs)"
  by (simp add: limiter_checks_def case_prod_unfold)

text \<open>
  C26. When forwarding headers are not trusted, whatever headers its requests carry, at most the
  configured number of requests plus the refill of the elapsed time are let through from one peer: over
  any run of requests within \<open>[t0, t1]\<close> on a non-decreasing clock, from a fresh limiter, exempt paths
  apart.
\<close>

theorem peer_admission_bounded:
  assumes "nondecreasing t0 (map fst xs)" and "\<forall>x \<in> set xs. fst x \<le> t1" and "t0 \<le> t1"
    and "ws_limiter ws = tb_new n s"
  shows "of_int (peer_admitted host xs (rate_limit_run False xs ws)) \<le>
    (of_int (max 1 n) + (t1 - t0) * (of_int (max 1 n) / of_int (max 1 s)) :: rat)"
proof -
  have "of_int (tb_admitted host (limiter_checks xs) (tb_run (tb_new n s) (limiter_checks xs)))
      \<le> of_int (max_tokens (tb_new n s)) + (t1 - t0) * refill_rate (tb_new n s)"
  proof (rule token_bucket_admission_bound)
    show "nondecreasing t0 (map fst (limiter_checks xs))"
      unfolding limiter_checks_times using assms(1) by (rule nondecreasing_filter)
    show "\<forall>x \<in> set (limiter_checks xs). fst x \<le> t1" using assms(2) by (auto simp: limiter_checks_def)
  qed (rule assms(3))
  moreover have "(of_int (peer_admitted host xs (rate_limit_run False xs ws)) :: rat) \<le>
      of_int (tb_admitted host (limiter_checks xs) (tb_run (tb_new n s) (limiter_checks xs)))"
    using peer_admitted_le [of host xs ws] assms(4) by simp
  ultimately show ?thesis by (simp add: tb_new_def Let_def)
qed

theorem peer_admission_bounded_witness:
  "peer_admitted ''192.0.2.7'' [(0, 0, peer_scope), (5, 5, peer_scope), (10, 10, peer_scope)]
     (rate_limit_run False [(0, 0, peer_scope), (5, 5, peer_scope), (10, 10, peer_scope)] (web_new (tb_new 1 10) (cb_new 5 2 30 1) (cl_new 10))) \<le> 2"
proof -
  let ?xs = "[(0, 0, peer_scope), (5, 5, peer_scope), (10, 10, peer_scope)]"
  have "of_int (peer_admitted ''192.0.2.7'' ?xs (rate_limit_run False ?xs (web_new (tb_new 1 10) (cb_new 5 2 30 1) (cl_new 10)))) \<le>
      (of_int (max 1 1) + (10 - 0) * (of_int (max 1 1) / of_int (max 1 10)) :: rat)"
    by (rule peer_admission_bounded) (simp_all add: web_new_def)
  then show ?thesis by (simp del: rate_limit_run.simps peer_admitted.simps)
qed


section \<open>Permits and probe slots under interleaving\<close>

text \<open>
  Requests arrive and depart in any order; the list holds, for every request inside, whether it
  is a half-open probe. No departure here is a cancellation.
\<close>

inductive resilience_reach :: "web_state \<Rightarrow> bool list \<Rightarrow> bool" where
  start: "resilience_reach (web_new l (cb_new failures successes secs probes) (cl_new n)) []"
| refuse: "resilience_reach ws inside \<Longrightarrow> resilience_enter now sc ws = (ws', Inl resp) \<Longrightarrow> resilience_reach ws' inside"
| admit: "resilience_reach ws inside \<Longrightarrow> resilience_enter now sc ws = (ws', Inr (Some p)) \<Longrightarrow> resilience_reach ws' (p # inside)"
| depart: "resilience_reach ws inside \<Longrightarrow> p \<in> set inside \<Longrightarrow> d \<noteq> Cancelled \<Longrightarrow>
    resilience_reach (resilience_leave now p d ws) (remove1 p inside)"

definition circuit_ok :: "circuit_breaker \<Rightarrow> bool list \<Rightarrow> bool" where
  \<comment> \<open>every slot taken is the slot of a probe that is still inside\<close>
  "circuit_ok cb inside \<longleftrightarrow> cb_inv cb \<and> probes_in_use cb \<le> int (count_list inside True)"

definition permits_ok :: "concurrency_limiter \<Rightarrow> bool list \<Rightarrow> bool" where
  "permits_ok l inside \<longleftrightarrow> 1 \<le> max_concurrent l \<and> in_flight l = int (length inside) \<and> in_flight l \<le> max_concurrent l"

definition trips_ok :: "web_state \<Rightarrow> bool" where
  \<comment> \<open>the trip counter shows each trip of the circuit at most once\<close>
  "trips_ok ws \<longleftrightarrow> m_circuit_trips (ws_metrics ws) = ws_last_trips ws \<and> ws_last_trips ws \<le> total_trips (ws_circuit ws)"

lemma circuit_ok_state: "circuit_ok cb inside \<Longrightarrow> circuit_ok (cb_state now cb) inside"
  using cb_state_inv [of cb now] by (auto simp: circuit_ok_def cb_state_def split: option.splits)

lemma circuit_ok_allow:
  assumes "circuit_ok cb inside" and "cb_allow_request now cb = (cb', ok)" and "cb_cur_state cb = HALF_OPEN"
  shows "circuit_ok cb' (if ok then True # inside else inside)"
  using assms cb_allow_inv [of cb now]
  by (auto simp: circuit_ok_def cb_allow_request_def cb_state_def Let_def split: option.splits if_splits)

lemma circuit_ok_record:
  assumes "circuit_ok cb inside" and "p \<in> set inside" and "cb_cur_state (cb_state now cb) = CLOSED \<or> p"
  shows "circuit_ok (cb_record_failure now cb) (remove1 p inside)" "circuit_ok (cb_record_success now cb) (remove1 p inside)"
proof -
  let ?cb = "cb_state now cb"
  have cb: "circuit_ok ?cb inside" using assms(1) by (rule circuit_ok_state)
  have "0 < count_list inside True" if p using assms(2) that by (simp add: count_list_0_iff flip: neq0_conv)
  then have fewer: "p \<Longrightarrow> probes_in_use ?cb - 1 \<le> int (count_list (remove1 p inside) True)" "p \<Longrightarrow> 0 < count_list inside True"
    using cb by (auto simp: circuit_ok_def count_list_remove1)
  have idle: "\<not> p \<Longrightarrow> probes_in_use ?cb = 0" using assms(3) cb by (auto simp: circuit_ok_def cb_inv_def)
  show "circuit_ok (cb_record_failure now cb) (remove1 p inside)"
    using cb_failure_inv [of cb now] assms(1,3) cb fewer idle
    by (auto simp: circuit_ok_def cb_record_failure_def cb_open_def cb_inv_def Let_def split: circuit_state.splits)
  show "circuit_ok (cb_record_success now cb) (remove1 p inside)"
    using cb_success_inv [of cb now] assms(1,3) cb fewer idle
    by (auto simp: circuit_ok_def cb_record_success_def cb_close_def cb_inv_def Let_def split: circuit_state.splits)
qed

lemma total_trips_mono:
  "total_trips (cb_state now cb) = total_trips cb" "total_trips cb \<le> total_trips (cb_record_failure now cb)"
  "total_trips (cb_record_success now cb) = total_trips cb" "total_trips (fst (cb_allow_request now cb)) = total_trips cb"
  by (auto simp: cb_defs Let_def split: circuit_state.splits option.splits)

lemma record_outcome_circuit:
  assumes "circuit_ok (ws_circuit ws) inside" and "p \<in> set inside"
  shows "circuit_ok (ws_circuit (record_outcome now p f ws)) (remove1 p inside)"
proof -
  have s: "circuit_ok (cb_state now (ws_circuit ws)) inside" using assms(1) by (rule circuit_ok_state)
  have idem: "cb_cur_state (cb_state now (cb_state now (ws_circuit ws))) = cb_cur_state (cb_state now (ws_circuit ws))"
    by (auto simp: cb_state_def split: option.splits)
  have "\<not> p \<Longrightarrow> circuit_ok (cb_state now (ws_circuit ws)) (remove1 p inside)" using s by (simp add: circuit_ok_def)
  then show ?thesis
    using circuit_ok_record [OF s assms(2), of now] idem by (auto simp: record_outcome_def Let_def)
qed

lemma record_circuit_metrics_trips: "trips_ok ws \<Longrightarrow> trips_ok (record_circuit_metrics now ws)"
  by (auto simp: trips_ok_def record_circuit_metrics_def total_trips_mono Let_def)

lemma record_outcome_trips:
  assumes "trips_ok ws"
  shows "trips_ok (record_outcome now p f ws)"
proof -
  have "total_trips (ws_circuit ws) \<le> total_trips (ws_circuit (record_outcome now p f ws))"
    using total_trips_mono(2) [of "cb_state now (ws_circuit ws)" now]
    by (simp add: record_outcome_def total_trips_mono Let_def)
  then show ?thesis using assms by (simp add: trips_ok_def)
qed

lemma resilience_leave_ok:
  assumes "circuit_ok (ws_circuit ws) inside" and "trips_ok ws" and "p \<in> set inside" and "d \<noteq> Cancelled"
  shows "circuit_ok (ws_circuit (resilience_leave now p d ws)) (remove1 p inside)" "trips_ok (resilience_leave now p d ws)"
proof -
  have rel: "trips_ok (release_permit w) = trips_ok w" for w by (simp add: trips_ok_def)
  have out: "ws_circuit (record_outcome now p f (release_permit ws)) = ws_circuit (record_outcome now p f ws)" for f
    by (simp add: record_outcome_def Let_def)
  show "circuit_ok (ws_circuit (resilience_leave now p d ws)) (remove1 p inside)"
    using assms(4) circuit_ok_state [OF record_outcome_circuit [OF assms(1,3)]]
    by (cases d) (simp_all add: resilience_leave_def out)
  show "trips_ok (resilience_leave now p d ws)"
    using assms(2,4) by (cases d) (simp_all add: resilience_leave_def rel record_circuit_metrics_trips record_outcome_trips)
qed

lemma resilience_enter_ok:
  assumes "resilience_enter now sc ws = (ws', r)" and "circuit_ok (ws_circuit ws) inside" and "trips_ok ws"
  shows "circuit_ok (ws_circuit ws') (case r of Inr (Some p) \<Rightarrow> p # inside | _ \<Rightarrow> inside)" "trips_ok ws'"
proof -
  let ?cb = "cb_state now (ws_circuit ws)"
  have s: "circuit_ok ?cb inside" using assms(2) by (rule circuit_ok_state)
  obtain cb' ok where a: "cb_allow_request now ?cb = (cb', ok)" by fastforce
  have h: "cb_cur_state ?cb = HALF_OPEN \<Longrightarrow> circuit_ok cb' (if ok then True # inside else inside)" "total_trips cb' = total_trips (ws_circuit ws)"
    using circuit_ok_allow [OF s a] total_trips_mono(1,4) a by (simp, metis fst_conv)
  have plain: "circuit_ok cb (False # inside) = circuit_ok cb inside" for cb by (simp add: circuit_ok_def)
  show "circuit_ok (ws_circuit ws') (case r of Inr (Some p) \<Rightarrow> p # inside | _ \<Rightarrow> inside)"
    using assms(1,2) s a h circuit_ok_state [of _ _ now]
    by (auto simp: resilience_enter_def Let_def plain split: if_split_asm prod.split_asm)
  have trips: "trips_ok (record_circuit_metrics now w)" "trips_ok w"
    if "m_circuit_trips (ws_metrics w) = m_circuit_trips (ws_metrics ws)" "ws_last_trips w = ws_last_trips ws"
      "total_trips (ws_circuit w) = total_trips (ws_circuit ws)" for w
    using assms(3) that record_circuit_metrics_trips [of w now] by (simp_all add: trips_ok_def)
  show "trips_ok ws'"
    using assms(1,3) a h(2)
    by (auto simp: resilience_enter_def Let_def total_trips_mono trips split: if_split_asm prod.split_asm)
qed

lemma permits_ok_enter:
  assumes "resilience_enter now sc ws = (ws', r)" and "permits_ok (ws_concurrency ws) inside"
  shows "permits_ok (ws_concurrency ws') (case r of Inr (Some p) \<Rightarrow> p # inside | _ \<Rightarrow> inside)"
  using assms
  by (auto simp: resilience_enter_def permits_ok_def cl_try_acquire_def cl_release_def Let_def split: if_split_asm prod.split_asm)

lemma permits_ok_release:
  assumes "permits_ok l inside" and "p \<in> set inside"
  shows "permits_ok (cl_release l) (remove1 p inside)"
proof -
  obtain k where "length inside = Suc k" using assms(2) by (cases inside) auto
  then show ?thesis using assms by (auto simp: permits_ok_def cl_release_def length_remove1)
qed

lemma resilience_reach_ok:
  "resilience_reach ws inside \<Longrightarrow> circuit_ok (ws_circuit ws) inside \<and> permits_ok (ws_concurrency ws) inside \<and> trips_ok ws"
proof (induction rule: resilience_reach.induct)
  case start
  then show ?case using cb_inv_new by (simp add: web_new_def circuit_ok_def permits_ok_def trips_ok_def cl_new_def cb_new_def metrics_new_def)
next
  case (refuse ws inside now sc ws' resp)
  then show ?case using resilience_enter_ok [OF refuse(2), of inside] permits_ok_enter [OF refuse(2)] by simp
next
  case (admit ws inside now sc ws' p)
  then show ?case using resilience_enter_ok [OF admit(2), of inside] permits_ok_enter [OF admit(2)] by simp
next
  case (depart ws inside p d now)
  then show ?case using resilience_leave_ok [of ws inside p d now] permits_ok_release by simp
qed

fun serve_run :: "(time \<times> asgi_scope \<times> time \<times> int) list \<Rightarrow> web_state \<Rightarrow> web_state option" where
  \<comment> \<open>requests one after the other, each with the time and the status of its response; \<open>None\<close> if one is refused\<close>
  "serve_run [] ws = Some ws"
| "serve_run ((now, sc, later, code) # xs) ws =
     (case resilience_enter now sc ws of
        (ws1, Inr (Some p)) \<Rightarrow> serve_run xs (resilience_leave later p (Responded code) ws1)
      | _ \<Rightarrow> None)"

definition to_close :: "circuit_breaker \<Rightarrow> int" where
  \<comment> \<open>the successes that are missing until the circuit closes\<close>
  "to_close cb = (if cb_cur_state cb = CLOSED then 0 else success_threshold cb - consecutive_successes cb)"

lemma cb_state_settled: "cb_cur_state cb \<noteq> OPEN \<Longrightarrow> cb_state now cb = cb"
  by (simp add: cb_state_def split: option.split)

lemma idle_admits:
  assumes "resilience_reach ws []" and "limited sc" and "cb_cur_state (cb_state now (ws_circuit ws)) \<noteq> OPEN"
  shows "\<exists>ws1 p. resilience_enter now sc ws = (ws1, Inr (Some p)) \<and> p = (cb_cur_state (cb_state now (ws_circuit ws)) = HALF_OPEN) \<and>
    (if p then ws_circuit ws1 = (cb_state now (ws_circuit ws))\<lparr>probes_in_use := 1\<rparr> else ws_circuit ws1 = cb_state now (ws_circuit ws))"
proof -
  let ?cb = "cb_state now (ws_circuit ws)"
  have ok: "circuit_ok (ws_circuit ws) []" "permits_ok (ws_concurrency ws) []" using resilience_reach_ok [OF assms(1)] by simp_all
  have "circuit_ok ?cb []" using ok(1) by (rule circuit_ok_state)
  then have cb: "probes_in_use ?cb = 0" "1 \<le> half_open_max_probes ?cb" by (auto simp: circuit_ok_def cb_inv_def)
  obtain l where acq: "cl_try_acquire (ws_concurrency ws) = (l, True)" using ok(2) by (simp add: permits_ok_def cl_try_acquire_def)
  show ?thesis
  proof (cases "cb_cur_state ?cb = HALF_OPEN")
    case True
    then have "cb_allow_request now ?cb = (?cb\<lparr>probes_in_use := 1\<rparr>, True)"
      using cb by (simp add: cb_allow_request_def cb_state_settled [of ?cb] Let_def)
    then show ?thesis using True assms(2) acq by (auto simp: resilience_enter_def limited_def Let_def)
  next
    case False
    then show ?thesis using assms(2,3) acq by (auto simp: resilience_enter_def limited_def Let_def)
  qed
qed

lemma success_brings_closer:
  assumes "cb_cur_state cb \<noteq> OPEN" and "circuit_ok cb [p]" and "p = (cb_cur_state cb = HALF_OPEN)"
  shows "cb_cur_state (cb_record_success now cb) \<noteq> OPEN" "to_close (cb_record_success now cb) \<le> max 0 (to_close cb - 1)"
  using assms by (auto simp: cb_record_success_def cb_state_settled to_close_def cb_close_def Let_def split: circuit_state.splits)

lemma served_step:
  assumes "resilience_reach ws []" and "limited sc" and "cb_cur_state (cb_state now (ws_circuit ws)) \<noteq> OPEN" and "code < 500"
  shows "\<exists>ws'. serve_run ((now, sc, later, code) # xs) ws = serve_run xs ws' \<and> resilience_reach ws' [] \<and>
    cb_cur_state (ws_circuit ws') \<noteq> OPEN \<and> to_close (ws_circuit ws') \<le> max 0 (to_close (cb_state now (ws_circuit ws)) - 1)"
proof -
  let ?cb = "cb_state now (ws_circuit ws)"
  obtain ws1 p where e: "resilience_enter now sc ws = (ws1, Inr (Some p))" "p = (cb_cur_state ?cb = HALF_OPEN)"
      "if p then ws_circuit ws1 = ?cb\<lparr>probes_in_use := 1\<rparr> else ws_circuit ws1 = ?cb"
    using idle_admits [OF assms(1-3)] by blast
  let ?ws' = "resilience_leave later p (Responded code) ws1"
  have r1: "resilience_reach ws1 [p]" using resilience_reach.admit [OF assms(1) e(1)] .
  have r: "resilience_reach ?ws' []" using resilience_reach.depart [OF r1, of p "Responded code" later] by simp
  have c1: "cb_cur_state (ws_circuit ws1) = cb_cur_state ?cb" "to_close (ws_circuit ws1) = to_close ?cb"
    using e(3) by (auto simp: to_close_def split: if_splits)
  have settled: "cb_state later (ws_circuit ws1) = ws_circuit ws1" using c1(1) assms(3) by (simp add: cb_state_settled)
  have "p \<or> cb_cur_state (ws_circuit ws1) = CLOSED" using e(2) c1(1) assms(3) by (cases "cb_cur_state ?cb") auto
  then have "ws_circuit ?ws' = cb_state later (cb_record_success later (ws_circuit ws1))"
    using assms(4) settled by (auto simp: resilience_leave_def record_outcome_def Let_def)
  moreover have "circuit_ok (ws_circuit ws1) [p]" using resilience_reach_ok [OF r1] by simp
  ultimately have "cb_cur_state (ws_circuit ?ws') \<noteq> OPEN" "to_close (ws_circuit ?ws') \<le> max 0 (to_close ?cb - 1)"
    using success_brings_closer [of "ws_circuit ws1" p later] c1 e(2) assms(3) by (simp_all add: cb_state_settled)
  then show ?thesis using e(1) r by auto
qed

lemma served_run:
  assumes "resilience_reach ws []" and "cb_cur_state (ws_circuit ws) \<noteq> OPEN" and "list_all (\<lambda>(t, sc, u, code). limited sc \<and> code < 500) xs"
  shows "\<exists>ws'. serve_run xs ws = Some ws' \<and> resilience_reach ws' [] \<and> to_close (ws_circuit ws') \<le> max 0 (to_close (ws_circuit ws) - int (length xs))"
  using assms
proof (induction xs arbitrary: ws)
  case Nil
  then show ?case by (auto simp: to_close_def)
next
  case (Cons x xs)
  obtain t sc u code where x: "x = (t, sc, u, code)" "limited sc" "code < 500" using Cons.prems(3) by (cases x) auto
  have st: "cb_state t (ws_circuit ws) = ws_circuit ws" using Cons.prems(2) by (rule cb_state_settled)
  obtain ws1 where w: "serve_run (x # xs) ws = serve_run xs ws1" "resilience_reach ws1 []" "cb_cur_state (ws_circuit ws1) \<noteq> OPEN"
      "to_close (ws_circuit ws1) \<le> max 0 (to_close (ws_circuit ws) - 1)"
    using served_step [OF Cons.prems(1) x(2) _ x(3), of t u xs] Cons.prems(2) st x(1) by auto
  obtain ws' where "serve_run xs ws1 = Some ws'" "resilience_reach ws' []" "to_close (ws_circuit ws') \<le> max 0 (to_close (ws_circuit ws1) - int (length xs))"
    using Cons.IH [OF w(2,3)] Cons.prems(3) by auto
  then show ?case using w(1,4) by auto
qed

lemma closed_when_nothing_missing:
  assumes "resilience_reach ws inside" and "to_close (ws_circuit ws) \<le> 0"
  shows "cb_cur_state (ws_circuit ws) = CLOSED"
  using resilience_reach_ok [OF assms(1)] assms(2) by (auto simp: circuit_ok_def cb_inv_def to_close_def split: if_splits)

text \<open>
  C27. However requests arrive, fail, crash and overlap (no cancellation among them), the resilience layer
  keeps its books: the permits in use are exactly the requests inside and never more than the limit, every
  probe slot taken belongs to a probe that is still inside, and each trip of the circuit is counted at most
  once. So the layer recovers: once everybody has left and the circuit, if it is open, has been open for
  \<open>open_secs\<close>, any sequence of requests to non-exempt paths, one after the other and each answered below
  500, is admitted in full, and after \<open>success_threshold\<close> of them the circuit is closed.
\<close>

theorem resilience_recovers:
  assumes "resilience_reach ws inside"
  shows "in_flight (ws_concurrency ws) = int (length inside) \<and> int (length inside) \<le> max_concurrent (ws_concurrency ws) \<and>
    probes_in_use (ws_circuit ws) \<le> int (count_list inside True) \<and>
    m_circuit_trips (ws_metrics ws) \<le> total_trips (ws_circuit ws) \<and>
    (inside = [] \<and> list_all (\<lambda>(t, sc, u, code). limited sc \<and> code < 500) xs \<and> success_threshold (ws_circuit ws) \<le> int (length xs) \<and>
     (case opened_at (ws_circuit ws) of Some t \<Rightarrow> cb_cur_state (ws_circuit ws) = OPEN \<longrightarrow> t + of_int (open_secs (ws_circuit ws)) \<le> fst (hd xs) | None \<Rightarrow> True)
     \<longrightarrow> (\<exists>ws'. serve_run xs ws = Some ws' \<and> cb_cur_state (ws_circuit ws') = CLOSED))"
proof -
  have ok: "circuit_ok (ws_circuit ws) inside" "permits_ok (ws_concurrency ws) inside" "trips_ok ws"
    using resilience_reach_ok [OF assms] by simp_all
  have "\<exists>ws'. serve_run xs ws = Some ws' \<and> cb_cur_state (ws_circuit ws') = CLOSED"
    if out: "inside = []" and xs: "list_all (\<lambda>(t, sc, u, code). limited sc \<and> code < 500) xs" "success_threshold (ws_circuit ws) \<le> int (length xs)"
      and time: "case opened_at (ws_circuit ws) of Some t \<Rightarrow> cb_cur_state (ws_circuit ws) = OPEN \<longrightarrow> t + of_int (open_secs (ws_circuit ws)) \<le> fst (hd xs) | None \<Rightarrow> True"
  proof -
    have "1 \<le> success_threshold (ws_circuit ws)" using ok(1) by (simp add: circuit_ok_def cb_inv_def)
    then obtain t sc u code ys where x: "xs = (t, sc, u, code) # ys" using xs(2) by (cases xs) auto
    let ?cb = "cb_state t (ws_circuit ws)"
    have "cb_cur_state ?cb \<noteq> OPEN"
      using time ok(1) x by (auto simp: cb_state_def circuit_ok_def cb_inv_def algebra_simps split: option.splits if_splits)
    then obtain ws1 where w: "serve_run xs ws = serve_run ys ws1" "resilience_reach ws1 []" "cb_cur_state (ws_circuit ws1) \<noteq> OPEN"
        "to_close (ws_circuit ws1) \<le> max 0 (to_close ?cb - 1)"
      using served_step [of ws sc t code u ys] assms out xs(1) x by auto
    have "circuit_ok ?cb inside" using ok(1) by (rule circuit_ok_state)
    then have "to_close ?cb \<le> success_threshold (ws_circuit ws)"
      by (auto simp: to_close_def circuit_ok_def cb_inv_def cb_state_def split: option.splits if_splits)
    moreover obtain ws' where "serve_run ys ws1 = Some ws'" "resilience_reach ws' []" "to_close (ws_circuit ws') \<le> max 0 (to_close (ws_circuit ws1) - int (length ys))"
      using served_run [OF w(2,3), of ys] xs(1) x by auto
    ultimately show ?thesis using w(1,4) xs(2) x closed_when_nothing_missing [of ws' "[]"] by auto
  qed
  then show ?thesis using ok by (auto simp: circuit_ok_def permits_ok_def trips_ok_def)
qed

lemma peer_scope_limited: "limited peer_scope"
  by (simp add: limited_def peer_scope_def is_exempt_def EXEMPT_PREFIXES_def starts_with_def)

lemma sample_trip:
  "\<exists>ws1 ws2. resilience_enter 0 peer_scope (web_new (tb_new 1 1) (cb_new 1 n 30 m) (cl_new 1)) = (ws1, Inr (Some False)) \<and>
     ws2 = resilience_leave 1 False Raised ws1 \<and> resilience_reach ws2 [] \<and>
     ws_circuit ws2 = cb_open 1 (cb_new 1 n 30 m) \<and> in_flight (ws_concurrency ws2) = 0 \<and> max_concurrent (ws_concurrency ws2) = 1"
proof -
  let ?w = "web_new (tb_new 1 1) (cb_new 1 n 30 m) (cl_new 1)"
  obtain ws1 where e: "resilience_enter 0 peer_scope ?w = (ws1, Inr (Some False))" "ws_circuit ws1 = cb_new 1 n 30 m"
      "in_flight (ws_concurrency ws1) = 1" "max_concurrent (ws_concurrency ws1) = 1"
    using peer_scope_limited
    by (auto simp: resilience_enter_def limited_def web_new_def cb_state_def cb_new_def cl_try_acquire_def cl_new_def Let_def)
  have "resilience_reach ws1 [False]" using resilience_reach.admit [OF resilience_reach.start e(1)] .
  from resilience_reach.depart [OF this, of False Raised 1] have r: "resilience_reach (resilience_leave 1 False Raised ws1) []" by simp
  then show ?thesis
    using e by (auto simp: resilience_leave_def record_outcome_def cb_defs cb_new_def cl_release_def Let_def)
qed

theorem resilience_recovers_witness:
  "\<exists>ws1 ws2 ws'. resilience_enter 0 peer_scope (web_new (tb_new 1 1) (cb_new 1 2 30 1) (cl_new 1)) = (ws1, Inr (Some False)) \<and>
     ws2 = resilience_leave 1 False Raised ws1 \<and> cb_cur_state (ws_circuit ws2) = OPEN \<and>
     serve_run [(31, peer_scope, 32, 200), (33, peer_scope, 34, 404)] ws2 = Some ws' \<and> cb_cur_state (ws_circuit ws') = CLOSED"
proof -
  obtain ws1 ws2 where e: "resilience_enter 0 peer_scope (web_new (tb_new 1 1) (cb_new 1 2 30 1) (cl_new 1)) = (ws1, Inr (Some False))"
      "ws2 = resilience_leave 1 False Raised ws1" "resilience_reach ws2 []" "ws_circuit ws2 = cb_open 1 (cb_new 1 2 30 1)"
    using sample_trip [of 2 1] by auto
  then have o: "cb_cur_state (ws_circuit ws2) = OPEN" "opened_at (ws_circuit ws2) = Some 1" "open_secs (ws_circuit ws2) = 30" "success_threshold (ws_circuit ws2) = 2"
    by (simp_all add: cb_open_def cb_new_def)
  from resilience_recovers [OF e(3), of "[(31, peer_scope, 32, 200), (33, peer_scope, 34, 404)]"] o peer_scope_limited
  obtain ws' where "serve_run [(31, peer_scope, 32, 200), (33, peer_scope, 34, 404)] ws2 = Some ws' \<and> cb_cur_state (ws_circuit ws') = CLOSED"
    by (auto simp del: serve_run.simps)
  then show ?thesis using e(1,2) o(1) by blast
qed


section \<open>The exit that loses a slot\<close>

text \<open>
  Runs in which every probe that leaves is cancelled: requests arrive and are refused or admitted, requests
  that are no probes leave in any way, and probes are cancelled; the number counts the latter.
\<close>

inductive cancel_run :: "web_state \<Rightarrow> bool list \<Rightarrow> web_state \<Rightarrow> bool list \<Rightarrow> nat \<Rightarrow> bool" for ws0 inside0 where
  start: "cancel_run ws0 inside0 ws0 inside0 0"
| refuse: "cancel_run ws0 inside0 ws inside k \<Longrightarrow> resilience_enter now sc ws = (ws', Inl resp) \<Longrightarrow> cancel_run ws0 inside0 ws' inside k"
| admit: "cancel_run ws0 inside0 ws inside k \<Longrightarrow> resilience_enter now sc ws = (ws', Inr (Some p)) \<Longrightarrow> cancel_run ws0 inside0 ws' (p # inside) k"
| depart: "cancel_run ws0 inside0 ws inside k \<Longrightarrow> False \<in> set inside \<Longrightarrow>
    cancel_run ws0 inside0 (resilience_leave now False d ws) (remove1 False inside) k"
| cancel: "cancel_run ws0 inside0 ws inside k \<Longrightarrow> True \<in> set inside \<Longrightarrow>
    cancel_run ws0 inside0 (resilience_leave now True Cancelled ws) (remove1 True inside) (Suc k)"

definition leaking :: "circuit_breaker \<Rightarrow> bool list \<Rightarrow> nat \<Rightarrow> int \<Rightarrow> bool" where
  \<comment> \<open>the slots in use are those of the probes inside and of the cancelled ones\<close>
  "leaking cb inside k m \<longleftrightarrow> cb_cur_state cb \<noteq> CLOSED \<and> half_open_max_probes cb = m \<and>
     (cb_cur_state cb = OPEN \<longrightarrow> k = 0 \<and> True \<notin> set inside) \<and>
     (cb_cur_state cb = HALF_OPEN \<longrightarrow> probes_in_use cb = int k + int (count_list inside True) \<and> probes_in_use cb \<le> m)"

lemma leaking_state: "leaking cb inside k m \<Longrightarrow> 0 \<le> m \<Longrightarrow> leaking (cb_state now cb) inside k m"
  by (auto simp: leaking_def cb_state_def count_list_0_iff split: option.split)

lemma leaking_enter:
  assumes "leaking (ws_circuit ws) inside k m" and "0 \<le> m" and "resilience_enter now sc ws = (ws', r)"
  shows "leaking (ws_circuit ws') (case r of Inr (Some p) \<Rightarrow> p # inside | _ \<Rightarrow> inside) k m"
proof -
  let ?cb = "cb_state now (ws_circuit ws)"
  have l: "leaking ?cb inside k m" using leaking_state assms(1,2) .
  obtain cb' ok where a: "cb_allow_request now ?cb = (cb', ok)" by fastforce
  have h: "leaking cb' (if ok then True # inside else inside) k m" if "cb_cur_state ?cb = HALF_OPEN"
    using l a that cb_state_settled [of ?cb now]
    by (auto simp: cb_allow_request_def leaking_def Let_def split: if_splits)
  show ?thesis
    using assms l a h leaking_state [of _ inside k m now]
    by (auto simp: resilience_enter_def Let_def leaking_def [of ?cb] split: if_split_asm prod.split_asm)
qed

lemma leaking_depart:
  assumes "leaking (ws_circuit ws) inside k m" and "0 \<le> m"
  shows "leaking (ws_circuit (resilience_leave now False d ws)) (remove1 False inside) k m"
proof -
  have "leaking cb (remove1 False inside) k m" if "leaking cb inside k m" for cb
    using that by (auto simp: leaking_def dest: notin_set_remove1)
  moreover have "leaking (ws_circuit (record_outcome now False f ws)) inside k m" for f
    using leaking_state [OF assms, of now] by (auto simp: record_outcome_def leaking_def Let_def)
  moreover have "ws_circuit (record_outcome now False f (release_permit ws)) = ws_circuit (record_outcome now False f ws)" for f
    by (simp add: record_outcome_def Let_def)
  ultimately show ?thesis
    using assms leaking_state [of _ inside k m now] by (cases d) (simp_all add: resilience_leave_def)
qed

lemma leaking_cancel:
  assumes "leaking (ws_circuit ws) inside k m" and "True \<in> set inside"
  shows "leaking (ws_circuit (resilience_leave now True Cancelled ws)) (remove1 True inside) (Suc k) m"
proof -
  have "0 < count_list inside True" using assms(2) by (simp add: count_list_0_iff flip: neq0_conv)
  then show ?thesis using assms by (auto simp: resilience_leave_def leaking_def count_list_remove1)
qed

lemma cancel_run_leaking:
  assumes "cancel_run ws0 inside0 ws inside k" and "leaking (ws_circuit ws0) inside0 0 m" and "0 \<le> m"
  shows "leaking (ws_circuit ws) inside k m"
  using assms
proof (induction rule: cancel_run.induct)
  case (refuse ws inside k now sc ws' resp)
  then show ?case using leaking_enter [of ws inside k m now sc ws' "Inl resp"] by simp
next
  case (admit ws inside k now sc ws' p)
  then show ?case using leaking_enter [of ws inside k m now sc ws' "Inr (Some p)"] by simp
qed (simp_all add: leaking_depart leaking_cancel)

lemma stuck_refuses:
  assumes "cb_cur_state (ws_circuit ws) = HALF_OPEN" and "half_open_max_probes (ws_circuit ws) \<le> probes_in_use (ws_circuit ws)" and "limited sc"
  shows "\<exists>ws' resp. resilience_enter now sc ws = (ws', Inl resp) \<and> resp_status resp = 503"
proof -
  have s: "cb_state u (ws_circuit ws) = ws_circuit ws" for u using assms(1) by (simp add: cb_state_settled)
  then have "cb_allow_request now (ws_circuit ws) = (ws_circuit ws, False)"
    using assms(1,2) by (simp add: cb_allow_request_def)
  then show ?thesis
    using assms s
    by (auto simp: resilience_enter_def limited_def circuit_open_response_def at_capacity_response_def unavailable_def Let_def split: prod.split)
qed

text \<open>
  C28. A cancellation is not an \<open>Exception\<close>, so a half-open probe that is cancelled gives back its permit but
  not its probe slot. Start anywhere the layer can get to with an open or half-open circuit and no probe
  inside, and let requests come and go in any order, but every probe that leaves be cancelled: once as many
  probes were cancelled as there are slots, no probe is inside and every request to a non-exempt path is
  answered 503, at any time and after any further arrivals and departures.
\<close>

theorem cancelled_probe_blocks_forever:
  assumes "resilience_reach ws0 inside0" and "True \<notin> set inside0" and "cb_cur_state (ws_circuit ws0) \<noteq> CLOSED"
    and "cancel_run ws0 inside0 ws inside k" and "half_open_max_probes (ws_circuit ws0) \<le> int k" and "limited sc"
  shows "True \<notin> set inside \<and> (\<exists>ws' resp. resilience_enter now sc ws = (ws', Inl resp) \<and> resp_status resp = 503)"
proof -
  let ?m = "half_open_max_probes (ws_circuit ws0)"
  have ok: "circuit_ok (ws_circuit ws0) inside0" using resilience_reach_ok [OF assms(1)] by simp
  then have m: "1 \<le> ?m" by (simp add: circuit_ok_def cb_inv_def)
  have "leaking (ws_circuit ws0) inside0 0 ?m"
    using ok assms(2,3) by (auto simp: leaking_def circuit_ok_def cb_inv_def count_list_0_iff)
  then have l: "leaking (ws_circuit ws) inside k ?m" using cancel_run_leaking [OF assms(4)] m by simp
  then have h: "cb_cur_state (ws_circuit ws) = HALF_OPEN" using assms(5) m by (cases "cb_cur_state (ws_circuit ws)") (auto simp: leaking_def)
  then have "count_list inside True = 0" "half_open_max_probes (ws_circuit ws) \<le> probes_in_use (ws_circuit ws)"
    using l assms(5) by (auto simp: leaking_def)
  then show ?thesis using stuck_refuses [OF h _ assms(6), of now] by (auto simp: count_list_0_iff)
qed

theorem cancelled_probe_blocks_forever_witness:
  "\<exists>ws ws1 ws2 ws' resp. cb_cur_state (ws_circuit ws) = OPEN \<and> half_open_max_probes (ws_circuit ws) = 2 \<and>
     resilience_enter 40 peer_scope ws = (ws1, Inr (Some True)) \<and>
     resilience_enter 42 peer_scope (resilience_leave 41 True Cancelled ws1) = (ws2, Inr (Some True)) \<and>
     resilience_enter 5000 peer_scope (resilience_leave 43 True Cancelled ws2) = (ws', Inl resp) \<and> resp_status resp = 503"
proof -
  obtain ws where w: "resilience_reach ws []" "ws_circuit ws = cb_open 1 (cb_new 1 1 30 2)" "in_flight (ws_concurrency ws) = 0" "max_concurrent (ws_concurrency ws) = 1"
    using sample_trip [of 1 2] by auto
  have o: "cb_cur_state (ws_circuit ws) = OPEN" "half_open_max_probes (ws_circuit ws) = 2" using w(2) by (simp_all add: cb_open_def cb_new_def)
  obtain ws1 where e1: "resilience_enter 40 peer_scope ws = (ws1, Inr (Some True))" "cb_cur_state (ws_circuit ws1) = HALF_OPEN" "probes_in_use (ws_circuit ws1) = 1"
      "half_open_max_probes (ws_circuit ws1) = 2" "in_flight (ws_concurrency ws1) = 1" "max_concurrent (ws_concurrency ws1) = 1"
    using w(2-4) peer_scope_limited
    by (auto simp: resilience_enter_def limited_def cb_state_def cb_open_def cb_allow_request_def cb_new_def cl_try_acquire_def Let_def)
  let ?w1 = "resilience_leave 41 True Cancelled ws1"
  have c1: "ws_circuit ?w1 = ws_circuit ws1" "in_flight (ws_concurrency ?w1) = 0" "max_concurrent (ws_concurrency ?w1) = 1"
    using e1(5,6) by (simp_all add: resilience_leave_def cl_release_def)
  obtain ws2 where e2: "resilience_enter 42 peer_scope ?w1 = (ws2, Inr (Some True))"
    using c1 e1(2-4) peer_scope_limited cb_state_settled [of "ws_circuit ws1" 42]
    by (auto simp: resilience_enter_def limited_def cb_allow_request_def cl_try_acquire_def Let_def)
  have r1: "cancel_run ws [] ?w1 [] 1"
    using cancel_run.cancel [OF cancel_run.admit [OF cancel_run.start [of ws "[]"] e1(1)], of 41] by simp
  have "cancel_run ws [] (resilience_leave 43 True Cancelled ws2) [] 2"
    using cancel_run.cancel [OF cancel_run.admit [OF r1 e2], of 43] by (simp add: numeral_2_eq_2)
  from cancelled_probe_blocks_forever [OF w(1) _ _ this, of peer_scope 5000] show ?thesis
    using o e1(1) e2 peer_scope_limited by auto
qed

end
