(* ===== verification/Mongo_Storage.thy ===== *)
theory Mongo_Storage
  imports Storage_Runs Urls
begin

text \<open>
  The MongoDB backend (\<open>storage/mongo.py\<close>). A collection is the list of its documents in natural order,
  a document the model it was dumped from: \<open>_to_doc\<close> and \<open>_from_doc\<close> are pydantic's dump and validation,
  and a field that is dropped when absent reads back as absent. An insertion fails when it would violate a
  unique index of \<open>_ensure_indexes\<close>; there are no foreign keys. Filtering, sorting and paging of the
  listings happen in Python and are modelled as written. The regular-expression engine of the server is
  an argument.

  The theorems show that the backend does what the SQL backend does: every run of writes that SQL accepts
  is accepted and leads to the same rows, apart from the operations whose contracts differ, and a code
  is claimed at most once here too, by the same interface. They also show the contract that differs:
  deleting a user leaves the user's tokens alive.
\<close>

record mongo =
  mg_clients :: "client list"
  mg_users :: "user list"
  mg_tokens :: "token list"
  mg_codes :: "authorization_code list"
  mg_devices :: "device_authorization list"
  mg_issuers :: "trusted_issuer list"
  mg_denylist :: "denylist_entry list"
  mg_audit :: "audit_log_entry list"


section \<open>Commands on a collection\<close>

definition duplicate_key :: exc where
  "duplicate_key = oauth_exc ''invalid_request'' ''duplicate key''"

definition insert_doc :: "('r \<Rightarrow> 'r \<Rightarrow> bool) \<Rightarrow> 'r \<Rightarrow> 'r list \<Rightarrow> 'r list outcome" where
  \<comment> \<open>\<open>_insert\<close>: \<open>insert_one\<close> with \<open>DuplicateKeyError\<close> turned into an \<open>OAuthError\<close>\<close>
  "insert_doc clash d docs = (if list_ex (clash d) docs then Inl duplicate_key else Inr (docs @ [d]))"

fun update_one :: "('r \<Rightarrow> bool) \<Rightarrow> ('r \<Rightarrow> 'r) \<Rightarrow> 'r list \<Rightarrow> 'r list" where
  \<comment> \<open>the first match only; also \<open>replace_one\<close> and the write of \<open>find_one_and_update\<close>\<close>
  "update_one cond upd [] = []"
| "update_one cond upd (d # ds) = (if cond d then upd d # ds else d # update_one cond upd ds)"

fun delete_one :: "('r \<Rightarrow> bool) \<Rightarrow> 'r list \<Rightarrow> 'r list" where
  "delete_one cond [] = []"
| "delete_one cond (d # ds) = (if cond d then ds else d # delete_one cond ds)"

definition update_many :: "('r \<Rightarrow> bool) \<Rightarrow> ('r \<Rightarrow> 'r) \<Rightarrow> 'r list \<Rightarrow> 'r list" where
  "update_many cond upd docs = map (\<lambda>d. if cond d then upd d else d) docs"

definition modified_count :: "('r \<Rightarrow> bool) \<Rightarrow> ('r \<Rightarrow> 'r) \<Rightarrow> 'r list \<Rightarrow> nat" where
  \<comment> \<open>matches that the update changed\<close>
  "modified_count cond upd docs = length (filter (\<lambda>d. cond d \<and> upd d \<noteq> d) docs)"


section \<open>Names, sorting and paging\<close>

definition db_name_from_url :: "string \<Rightarrow> string option" where
  \<comment> \<open>\<open>None\<close> when \<open>urlsplit\<close> raises\<close>
  "db_name_from_url url =
     map_option (\<lambda>r. let name = hd (split_on (CHR ''/'') (dropWhile (\<lambda>c. c = CHR ''/'') (sr_path r)))
                     in if name = [] then ''oauth2'' else name) (urlsplit url)"

definition py_sort :: "('r \<Rightarrow> int list) \<Rightarrow> bool \<Rightarrow> 'r list \<Rightarrow> 'r list" where
  \<comment> \<open>\<open>list.sort\<close>: stable, also with \<open>reverse=True\<close>\<close>
  "py_sort key reverse xs = (if reverse then rev (sort_key key (rev xs)) else sort_key key xs)"

definition sort_and_page :: "('r \<Rightarrow> int list) \<Rightarrow> list_query \<Rightarrow> 'r list \<Rightarrow> 'r list \<times> nat" where
  "sort_and_page key q items =
     (take (nat (effective_limit q)) (drop (nat (lq_offset q)) (py_sort key (lq_sort_dir q \<noteq> ''asc'') items)), length items)"

definition mongo_token_sort_key :: "string \<Rightarrow> token \<Rightarrow> int list" where
  \<comment> \<open>\<open>_sort_key\<close>: a missing user sorts like the empty string\<close>
  "mongo_token_sort_key col t =
     (if col = ''user_id'' then key_text (case token_user_id t of Some u \<Rightarrow> u | None \<Rightarrow> []) else token_sort_key col t)"

definition search_filter :: "list_query \<Rightarrow> ('r \<Rightarrow> string list) \<Rightarrow> 'r list \<Rightarrow> 'r list" where
  \<comment> \<open>keeps the items one of whose fields contains the term, in lower case\<close>
  "search_filter q columns items =
     (let search = py_lower (or_str (lq_search q) [])
      in if search \<noteq> [] then filter (\<lambda>x. list_ex (\<lambda>f. is_substring search (py_lower f)) (columns x)) items else items)"


section \<open>Clients\<close>

definition mongo_save_client :: "client \<Rightarrow> mongo \<Rightarrow> mongo outcome" where
  "mongo_save_client c mg = bind_res (insert_doc (\<lambda>a b. client_client_id a = client_client_id b) c (mg_clients mg))
     (\<lambda>ds. Inr (mg\<lparr>mg_clients := ds\<rparr>))"

definition mongo_get_client :: "string \<Rightarrow> mongo \<Rightarrow> client option" where
  "mongo_get_client cid mg = find (\<lambda>c. client_client_id c = cid) (mg_clients mg)"

definition mongo_update_client :: "client \<Rightarrow> mongo \<Rightarrow> mongo" where
  \<comment> \<open>the whole document is replaced\<close>
  "mongo_update_client c mg = mg\<lparr>mg_clients := update_one (\<lambda>r. client_client_id r = client_client_id c) (\<lambda>_. c) (mg_clients mg)\<rparr>"

definition mongo_delete_client :: "string \<Rightarrow> mongo \<Rightarrow> mongo" where
  "mongo_delete_client cid mg = mg\<lparr>mg_clients := delete_one (\<lambda>c. client_client_id c = cid) (mg_clients mg)\<rparr>"

definition mongo_set_client_enabled :: "datetime \<Rightarrow> string \<Rightarrow> bool \<Rightarrow> mongo \<Rightarrow> mongo" where
  "mongo_set_client_enabled now cid enabled mg = mg\<lparr>mg_clients := update_one (\<lambda>c. client_client_id c = cid)
     (\<lambda>c. c\<lparr>client_enabled := enabled, client_updated_at := now\<rparr>) (mg_clients mg)\<rparr>"

definition mongo_set_client_secret :: "datetime \<Rightarrow> string \<Rightarrow> string \<Rightarrow> mongo \<Rightarrow> mongo" where
  "mongo_set_client_secret now cid secret mg = mg\<lparr>mg_clients := update_one (\<lambda>c. client_client_id c = cid)
     (\<lambda>c. c\<lparr>client_client_secret := secret, client_updated_at := now\<rparr>) (mg_clients mg)\<rparr>"

definition mongo_list_all_clients :: "mongo \<Rightarrow> client list" where
  "mongo_list_all_clients mg = py_sort (\<lambda>c. key_time (client_created_at c)) True (mg_clients mg)"

definition mongo_list_clients_page :: "list_query \<Rightarrow> mongo \<Rightarrow> client list \<times> nat" where
  "mongo_list_clients_page q mg =
     sort_and_page (client_sort_key (whitelist_col (lq_sort_by q) [''name'', ''client_id'', ''created_at''])) q
       (search_filter q (\<lambda>c. [client_name c, client_client_id c]) (mg_clients mg))"


section \<open>Users\<close>

definition mongo_save_user :: "user \<Rightarrow> mongo \<Rightarrow> mongo outcome" where
  "mongo_save_user u mg = bind_res (insert_doc (\<lambda>a b. user_username a = user_username b) u (mg_users mg))
     (\<lambda>ds. Inr (mg\<lparr>mg_users := ds\<rparr>))"

definition mongo_get_user_by_username :: "string \<Rightarrow> mongo \<Rightarrow> user option" where
  "mongo_get_user_by_username name mg = find (\<lambda>u. user_username u = name) (mg_users mg)"

definition mongo_get_user_by_id :: "string \<Rightarrow> mongo \<Rightarrow> user option" where
  "mongo_get_user_by_id uid mg = find (\<lambda>u. user_pk u = uid) (mg_users mg)"

definition re_escape :: "string \<Rightarrow> string" where
  \<comment> \<open>\<open>re.escape\<close>: a backslash before every special character\<close>
  "re_escape s = concat (map (\<lambda>c. if (of_char c :: nat) \<in> {9, 10, 11, 12, 13, 32, 35, 36, 38, 40, 41, 42, 43, 45, 46, 63, 91, 92, 93, 94, 123, 124, 125, 126}
     then [CHR 0x5C, c] else [c]) s)"

definition email_pattern :: "string \<Rightarrow> string" where
  "email_pattern email =
     ''^'' @ [CHR 0x5C] @ ''s*'' @ re_escape (py_lower (py_strip email)) @ [CHR 0x5C] @ ''s*$''"

definition mongo_get_users_by_email :: "(string \<Rightarrow> string \<Rightarrow> bool) \<Rightarrow> string \<Rightarrow> mongo \<Rightarrow> user list" where
  \<comment> \<open>\<open>regex_i\<close> is the server's \<open>$regex\<close> with option \<open>i\<close>\<close>
  "mongo_get_users_by_email regex_i email mg = filter (\<lambda>u. regex_i (email_pattern email) (user_email u)) (mg_users mg)"

definition mongo_update_user :: "user \<Rightarrow> mongo \<Rightarrow> mongo outcome" where
  \<comment> \<open>\<open>DuplicateKeyError\<close> of an update is not caught\<close>
  "mongo_update_user u mg =
     (if list_ex (\<lambda>r. user_pk r = user_pk u) (mg_users mg) \<and>
         list_ex (\<lambda>r. user_pk r \<noteq> user_pk u \<and> user_username r = user_username u) (mg_users mg)
      then Inl (PyError ''DuplicateKeyError'')
      else Inr (mg\<lparr>mg_users := update_one (\<lambda>r. user_pk r = user_pk u)
        (\<lambda>r. r\<lparr>user_username := user_username u, user_email := user_email u, user_enabled := user_enabled u, user_role := user_role u,
               user_password_hash := user_password_hash u, user_updated_at := user_updated_at u\<rparr>) (mg_users mg)\<rparr>))"

definition mongo_delete_user :: "string \<Rightarrow> mongo \<Rightarrow> mongo" where
  "mongo_delete_user uid mg = mg\<lparr>mg_users := delete_one (\<lambda>u. user_pk u = uid) (mg_users mg)\<rparr>"

definition mongo_set_user_enabled :: "datetime \<Rightarrow> string \<Rightarrow> bool \<Rightarrow> mongo \<Rightarrow> mongo" where
  "mongo_set_user_enabled now uid enabled mg = mg\<lparr>mg_users := update_one (\<lambda>u. user_pk u = uid)
     (\<lambda>u. u\<lparr>user_enabled := enabled, user_updated_at := now\<rparr>) (mg_users mg)\<rparr>"

definition mongo_set_user_role :: "datetime \<Rightarrow> string \<Rightarrow> string \<Rightarrow> mongo \<Rightarrow> mongo" where
  "mongo_set_user_role now uid role mg = mg\<lparr>mg_users := update_one (\<lambda>u. user_pk u = uid)
     (\<lambda>u. u\<lparr>user_role := role, user_updated_at := now\<rparr>) (mg_users mg)\<rparr>"

definition mongo_set_user_password_hash :: "datetime \<Rightarrow> string \<Rightarrow> string \<Rightarrow> mongo \<Rightarrow> mongo" where
  "mongo_set_user_password_hash now uid h mg = mg\<lparr>mg_users := update_one (\<lambda>u. user_pk u = uid)
     (\<lambda>u. u\<lparr>user_password_hash := h, user_updated_at := now\<rparr>) (mg_users mg)\<rparr>"

definition mongo_list_all_users :: "mongo \<Rightarrow> user list" where
  "mongo_list_all_users mg = py_sort (\<lambda>u. key_time (user_created_at u)) True (mg_users mg)"

definition mongo_list_users_page :: "list_query \<Rightarrow> mongo \<Rightarrow> user list \<times> nat" where
  "mongo_list_users_page q mg =
     sort_and_page (user_sort_key (whitelist_col (lq_sort_by q) [''username'', ''email'', ''role'', ''created_at''])) q
       (search_filter q (\<lambda>u. [user_username u, user_email u]) (mg_users mg))"


section \<open>Tokens\<close>

definition mongo_save_token :: "token \<Rightarrow> mongo \<Rightarrow> mongo outcome" where
  "mongo_save_token t mg = bind_res (insert_doc (\<lambda>a b. token_access_token a = token_access_token b) t (mg_tokens mg))
     (\<lambda>ds. Inr (mg\<lparr>mg_tokens := ds\<rparr>))"

definition mongo_get_token_by_access_token :: "string \<Rightarrow> mongo \<Rightarrow> token option" where
  "mongo_get_token_by_access_token a mg = find (\<lambda>t. token_access_token t = a) (mg_tokens mg)"

definition mongo_get_token_by_refresh_token :: "string \<Rightarrow> mongo \<Rightarrow> token option" where
  "mongo_get_token_by_refresh_token r mg = find (\<lambda>t. token_refresh_token t = Some r) (mg_tokens mg)"

definition mongo_get_token_by_id :: "string \<Rightarrow> mongo \<Rightarrow> token option" where
  "mongo_get_token_by_id i mg = find (\<lambda>t. token_pk t = i) (mg_tokens mg)"

definition mongo_revoke_where :: "(token \<Rightarrow> bool) \<Rightarrow> mongo \<Rightarrow> nat \<times> mongo" where
  "mongo_revoke_where cond mg =
     (modified_count cond revoke (mg_tokens mg), mg\<lparr>mg_tokens := update_many cond revoke (mg_tokens mg)\<rparr>)"

definition mongo_revoke_token :: "string \<Rightarrow> mongo \<Rightarrow> mongo" where
  "mongo_revoke_token s mg = snd (mongo_revoke_where (\<lambda>t. token_access_token t = s \<or> token_refresh_token t = Some s) mg)"

definition mongo_revoke_token_family :: "string \<Rightarrow> mongo \<Rightarrow> nat \<times> mongo" where
  "mongo_revoke_token_family f mg = mongo_revoke_where (\<lambda>t. token_token_family t = Some f) mg"

definition mongo_revoke_tokens_by_user_id :: "string \<Rightarrow> mongo \<Rightarrow> nat \<times> mongo" where
  "mongo_revoke_tokens_by_user_id uid mg = mongo_revoke_where (\<lambda>t. token_user_id t = Some uid \<and> \<not> token_revoked t) mg"

definition mongo_revoke_tokens_by_client_id :: "string \<Rightarrow> mongo \<Rightarrow> nat \<times> mongo" where
  "mongo_revoke_tokens_by_client_id cid mg = mongo_revoke_where (\<lambda>t. token_client_id t = cid \<and> \<not> token_revoked t) mg"

definition mongo_list_all_tokens :: "mongo \<Rightarrow> token list" where
  "mongo_list_all_tokens mg = take 200 (py_sort (\<lambda>t. key_time (token_created_at t)) True (mg_tokens mg))"

definition mongo_list_tokens_page :: "datetime \<Rightarrow> list_query \<Rightarrow> mongo \<Rightarrow> token list \<times> nat" where
  "mongo_list_tokens_page now q mg =
     sort_and_page (mongo_token_sort_key (whitelist_col (lq_sort_by q) [''client_id'', ''user_id'', ''scope'', ''expires_at'', ''created_at''])) q
       (search_filter q (\<lambda>t. [token_client_id t, case token_user_id t of Some u \<Rightarrow> u | None \<Rightarrow> []])
         (filter (token_status_cond now (lq_status q)) (mg_tokens mg)))"


section \<open>Authorization codes and device authorizations\<close>

definition mongo_save_authorization_code :: "authorization_code \<Rightarrow> mongo \<Rightarrow> mongo outcome" where
  "mongo_save_authorization_code c mg = bind_res (insert_doc (\<lambda>a b. code_code a = code_code b) c (mg_codes mg))
     (\<lambda>ds. Inr (mg\<lparr>mg_codes := ds\<rparr>))"

definition mongo_get_authorization_code :: "string \<Rightarrow> mongo \<Rightarrow> authorization_code option" where
  "mongo_get_authorization_code s mg = find (\<lambda>c. code_code c = s) (mg_codes mg)"

definition mongo_get_authorization_code_by_token_family :: "string \<Rightarrow> mongo \<Rightarrow> authorization_code option" where
  "mongo_get_authorization_code_by_token_family f mg = find (\<lambda>c. code_token_family c = Some f) (mg_codes mg)"

definition mongo_mark_authorization_code_used :: "string \<Rightarrow> mongo \<Rightarrow> nat \<times> mongo" where
  \<comment> \<open>\<open>find_one_and_update\<close>: one atomic step\<close>
  "mongo_mark_authorization_code_used s mg =
     (let cond = (\<lambda>c. code_code c = s \<and> \<not> code_used c)
      in (if find cond (mg_codes mg) \<noteq> None then 1 else 0,
          mg\<lparr>mg_codes := update_one cond (\<lambda>c. c\<lparr>code_used := True\<rparr>) (mg_codes mg)\<rparr>))"

definition mongo_save_device_authorization :: "device_authorization \<Rightarrow> mongo \<Rightarrow> mongo outcome" where
  "mongo_save_device_authorization d mg =
     bind_res (insert_doc (\<lambda>a b. device_device_code a = device_device_code b \<or> device_user_code a = device_user_code b) d (mg_devices mg))
       (\<lambda>ds. Inr (mg\<lparr>mg_devices := ds\<rparr>))"

definition mongo_get_device_authorization_by_device_code :: "string \<Rightarrow> mongo \<Rightarrow> device_authorization option" where
  "mongo_get_device_authorization_by_device_code s mg = find (\<lambda>d. device_device_code d = s) (mg_devices mg)"

definition mongo_get_device_authorization_by_user_code :: "string \<Rightarrow> mongo \<Rightarrow> device_authorization option" where
  "mongo_get_device_authorization_by_user_code s mg = find (\<lambda>d. device_user_code d = s) (mg_devices mg)"

definition mongo_approve_device_authorization :: "string \<Rightarrow> string \<Rightarrow> mongo \<Rightarrow> mongo" where
  "mongo_approve_device_authorization uc uid mg = mg\<lparr>mg_devices := update_one (\<lambda>d. device_user_code d = uc)
     (\<lambda>d. d\<lparr>device_approved := True, device_denied := False, device_user_id := Some uid\<rparr>) (mg_devices mg)\<rparr>"

definition mongo_deny_device_authorization :: "string \<Rightarrow> mongo \<Rightarrow> mongo" where
  "mongo_deny_device_authorization uc mg = mg\<lparr>mg_devices := update_one (\<lambda>d. device_user_code d = uc)
     (\<lambda>d. d\<lparr>device_denied := True, device_approved := False\<rparr>) (mg_devices mg)\<rparr>"

definition mongo_mark_device_authorization_used :: "string \<Rightarrow> mongo \<Rightarrow> nat \<times> mongo" where
  "mongo_mark_device_authorization_used s mg =
     (let cond = (\<lambda>d. device_device_code d = s \<and> \<not> device_used d)
      in (if find cond (mg_devices mg) \<noteq> None then 1 else 0,
          mg\<lparr>mg_devices := update_one cond (\<lambda>d. d\<lparr>device_used := True\<rparr>) (mg_devices mg)\<rparr>))"

definition mongo_expire_device_authorization :: "datetime \<Rightarrow> string \<Rightarrow> mongo \<Rightarrow> mongo" where
  "mongo_expire_device_authorization now s mg = mg\<lparr>mg_devices := update_one (\<lambda>d. device_device_code d = s)
     (\<lambda>d. d\<lparr>device_expires_at := now - usecs 1\<rparr>) (mg_devices mg)\<rparr>"

definition mongo_list_all_device_authorizations :: "mongo \<Rightarrow> device_authorization list" where
  "mongo_list_all_device_authorizations mg = take 500 (py_sort (\<lambda>d. key_time (device_created_at d)) True (mg_devices mg))"

definition mongo_list_device_authorizations_page :: "list_query \<Rightarrow> mongo \<Rightarrow> device_authorization list \<times> nat" where
  "mongo_list_device_authorizations_page q mg = sort_and_page (\<lambda>d. key_time (device_created_at d)) q (mg_devices mg)"


section \<open>Trusted issuers, denylist and audit log\<close>

definition mongo_save_trusted_issuer :: "trusted_issuer \<Rightarrow> mongo \<Rightarrow> mongo" where
  \<comment> \<open>one upsert: \<open>$set\<close> of everything but \<open>id\<close> and \<open>created_at\<close>, which are only written on insert\<close>
  "mongo_save_trusted_issuer t mg =
     (if list_ex (\<lambda>r. issuer_issuer r = issuer_issuer t) (mg_issuers mg)
      then mg\<lparr>mg_issuers := update_one (\<lambda>r. issuer_issuer r = issuer_issuer t)
             (\<lambda>r. t\<lparr>issuer_pk := issuer_pk r, issuer_created_at := issuer_created_at r\<rparr>) (mg_issuers mg)\<rparr>
      else mg\<lparr>mg_issuers := mg_issuers mg @ [t]\<rparr>)"

definition mongo_get_trusted_issuer :: "string \<Rightarrow> mongo \<Rightarrow> trusted_issuer option" where
  "mongo_get_trusted_issuer i mg = find (\<lambda>t. issuer_issuer t = i) (mg_issuers mg)"

definition mongo_add_denylist_entry :: "denylist_entry \<Rightarrow> mongo \<Rightarrow> mongo" where
  \<comment> \<open>the identity of an existing entry is read first and written back with the replacement\<close>
  "mongo_add_denylist_entry e mg =
     (let same = (\<lambda>r. deny_kind r = deny_kind e \<and> deny_value r = deny_value e)
      in case find same (mg_denylist mg) of
           Some existing \<Rightarrow>
             mg\<lparr>mg_denylist := update_one same (\<lambda>_. e\<lparr>deny_pk := deny_pk existing, deny_created_at := deny_created_at existing\<rparr>) (mg_denylist mg)\<rparr>
         | None \<Rightarrow> mg\<lparr>mg_denylist := mg_denylist mg @ [e]\<rparr>)"

definition mongo_remove_denylist_entry :: "string \<Rightarrow> mongo \<Rightarrow> mongo" where
  "mongo_remove_denylist_entry i mg = mg\<lparr>mg_denylist := delete_one (\<lambda>e. deny_pk e = i) (mg_denylist mg)\<rparr>"

definition mongo_list_denylist :: "list_query \<Rightarrow> mongo \<Rightarrow> denylist_entry list \<times> nat" where
  "mongo_list_denylist q mg = sort_and_page (deny_sort_key (whitelist_col (lq_sort_by q) [''kind'', ''value'', ''created_at''])) q (mg_denylist mg)"

definition mongo_find_denylist_entry :: "datetime \<Rightarrow> string \<Rightarrow> string \<Rightarrow> mongo \<Rightarrow> denylist_entry option" where
  "mongo_find_denylist_entry now kind value mg =
     (case find (\<lambda>e. deny_kind e = kind \<and> deny_value e = value) (mg_denylist mg) of
        None \<Rightarrow> None
      | Some e \<Rightarrow> if deny_is_active now e then Some e else None)"

definition mongo_write_audit_log :: "audit_log_entry \<Rightarrow> mongo \<Rightarrow> mongo" where
  "mongo_write_audit_log e mg = mg\<lparr>mg_audit := mg_audit mg @ [e]\<rparr>"

definition mongo_list_audit_log :: "list_query \<Rightarrow> mongo \<Rightarrow> audit_log_entry list \<times> nat" where
  "mongo_list_audit_log q mg =
     sort_and_page (audit_sort_key (whitelist_col (lq_sort_by q) [''actor_id'', ''action'', ''target_kind'', ''created_at''])) q (mg_audit mg)"


section \<open>The writes of either backend\<close>

primrec sql_write :: "storage_op \<Rightarrow> database \<Rightarrow> database outcome" where
  \<comment> \<open>a write of the SQL backend with its failure\<close>
  "sql_write (SaveClient c) db = save_client c db"
| "sql_write (UpdateClient c) db = Inr (update_client c db)"
| "sql_write (DeleteClient i) db = delete_client i db"
| "sql_write (SetClientEnabled i b) db = Inr (set_client_enabled i b db)"
| "sql_write (SetClientSecret i s) db = Inr (set_client_secret i s db)"
| "sql_write (SaveUser u) db = save_user u db"
| "sql_write (UpdateUser u) db = update_user u db"
| "sql_write (DeleteUser i) db = delete_user i db"
| "sql_write (SetUserEnabled i b) db = Inr (set_user_enabled i b db)"
| "sql_write (SetUserRole i r) db = Inr (set_user_role i r db)"
| "sql_write (SetUserPasswordHash i h) db = Inr (set_user_password_hash i h db)"
| "sql_write (SaveToken t) db = save_token t db"
| "sql_write (RevokeToken s) db = Inr (revoke_token s db)"
| "sql_write (RevokeFamily f) db = Inr (snd (revoke_token_family f db))"
| "sql_write (RevokeByUser u) db = Inr (snd (revoke_tokens_by_user_id u db))"
| "sql_write (RevokeByClient c) db = Inr (snd (revoke_tokens_by_client_id c db))"
| "sql_write (SaveCode c) db = save_authorization_code c db"
| "sql_write (MarkCodeUsed s) db = Inr (snd (mark_authorization_code_used s db))"
| "sql_write (SaveDevice d) db = save_device_authorization d db"
| "sql_write (ApproveDevice uc uid) db = approve_device_authorization uc uid db"
| "sql_write (DenyDevice uc) db = Inr (deny_device_authorization uc db)"
| "sql_write (MarkDeviceUsed s) db = Inr (snd (mark_device_authorization_used s db))"
| "sql_write (ExpireDevice now s) db = Inr (expire_device_authorization now s db)"
| "sql_write (SaveIssuer t) db = save_trusted_issuer t db"
| "sql_write (AddDeny e) db = add_denylist_entry e db"
| "sql_write (RemoveDeny i) db = Inr (remove_denylist_entry i db)"
| "sql_write (WriteAudit e) db = write_audit_log e db"

primrec mongo_write :: "datetime \<Rightarrow> storage_op \<Rightarrow> mongo \<Rightarrow> mongo outcome" where
  "mongo_write now (SaveClient c) mg = mongo_save_client c mg"
| "mongo_write now (UpdateClient c) mg = Inr (mongo_update_client c mg)"
| "mongo_write now (DeleteClient i) mg = Inr (mongo_delete_client i mg)"
| "mongo_write now (SetClientEnabled i b) mg = Inr (mongo_set_client_enabled now i b mg)"
| "mongo_write now (SetClientSecret i s) mg = Inr (mongo_set_client_secret now i s mg)"
| "mongo_write now (SaveUser u) mg = mongo_save_user u mg"
| "mongo_write now (UpdateUser u) mg = mongo_update_user u mg"
| "mongo_write now (DeleteUser i) mg = Inr (mongo_delete_user i mg)"
| "mongo_write now (SetUserEnabled i b) mg = Inr (mongo_set_user_enabled now i b mg)"
| "mongo_write now (SetUserRole i r) mg = Inr (mongo_set_user_role now i r mg)"
| "mongo_write now (SetUserPasswordHash i h) mg = Inr (mongo_set_user_password_hash now i h mg)"
| "mongo_write now (SaveToken t) mg = mongo_save_token t mg"
| "mongo_write now (RevokeToken s) mg = Inr (mongo_revoke_token s mg)"
| "mongo_write now (RevokeFamily f) mg = Inr (snd (mongo_revoke_token_family f mg))"
| "mongo_write now (RevokeByUser u) mg = Inr (snd (mongo_revoke_tokens_by_user_id u mg))"
| "mongo_write now (RevokeByClient c) mg = Inr (snd (mongo_revoke_tokens_by_client_id c mg))"
| "mongo_write now (SaveCode c) mg = mongo_save_authorization_code c mg"
| "mongo_write now (MarkCodeUsed s) mg = Inr (snd (mongo_mark_authorization_code_used s mg))"
| "mongo_write now (SaveDevice d) mg = mongo_save_device_authorization d mg"
| "mongo_write now (ApproveDevice uc uid) mg = Inr (mongo_approve_device_authorization uc uid mg)"
| "mongo_write now (DenyDevice uc) mg = Inr (mongo_deny_device_authorization uc mg)"
| "mongo_write now (MarkDeviceUsed s) mg = Inr (snd (mongo_mark_device_authorization_used s mg))"
| "mongo_write now (ExpireDevice t s) mg = Inr (mongo_expire_device_authorization t s mg)"
| "mongo_write now (SaveIssuer t) mg = Inr (mongo_save_trusted_issuer t mg)"
| "mongo_write now (AddDeny e) mg = Inr (mongo_add_denylist_entry e mg)"
| "mongo_write now (RemoveDeny i) mg = Inr (mongo_remove_denylist_entry i mg)"
| "mongo_write now (WriteAudit e) mg = Inr (mongo_write_audit_log e mg)"

lemma storage_step_write: "storage_step op db = keep db (sql_write op db)"
  by (cases op) (simp_all add: keep_def)


section \<open>First match and every match\<close>

lemma update_one_none: "\<not> list_ex cond rows \<Longrightarrow> update_one cond upd rows = rows"
  by (induction rows) auto

lemma update_one_unique:
  assumes "unique_on key rows" and "\<And>r. cond r \<Longrightarrow> key r = k"
  shows "update_one cond upd rows = sql_update cond upd rows"
  using assms(1)
proof (induction rows)
  case (Cons r rows)
  show ?case
  proof (cases "cond r")
    case True
    have "\<not> cond x" if "x \<in> set rows" for x using True assms(2) Cons.prems that by (force simp: unique_on_def)
    then have "map (\<lambda>x. if cond x then upd x else x) rows = rows" by (simp add: map_idI)
    then show ?thesis using True by (simp add: sql_update_def)
  next
    case False
    then show ?thesis using Cons by (simp add: sql_update_def unique_on_def)
  qed
qed (simp add: sql_update_def)

lemma delete_one_unique:
  assumes "unique_on key rows" and "\<And>r. cond r \<Longrightarrow> key r = k"
  shows "delete_one cond rows = sql_delete cond rows"
  using assms(1)
proof (induction rows)
  case (Cons r rows)
  show ?case
  proof (cases "cond r")
    case True
    have "\<not> cond x" if "x \<in> set rows" for x using True assms(2) Cons.prems that by (force simp: unique_on_def)
    then have "filter (\<lambda>x. \<not> cond x) rows = rows" by simp
    then show ?thesis using True by (simp add: sql_delete_def)
  next
    case False
    then show ?thesis using Cons by (simp add: sql_delete_def unique_on_def)
  qed
qed (simp add: sql_delete_def)

lemma update_many_eq: "update_many cond upd rows = sql_update cond upd rows"
  by (simp add: update_many_def sql_update_def)

lemma list_all2_sql_update:
  assumes "list_all2 R xs ys" and "\<And>x y. R x y \<Longrightarrow> c x = d y" and "\<And>x y. R x y \<Longrightarrow> c x \<Longrightarrow> R (f x) (g y)"
  shows "list_all2 R (sql_update c f xs) (sql_update d g ys)"
  using assms(1) by (induction rule: list_all2_induct) (auto simp: sql_update_def assms(2,3))

lemma list_all2_sql_delete:
  assumes "list_all2 R xs ys" and "\<And>x y. R x y \<Longrightarrow> c x = d y"
  shows "list_all2 R (sql_delete c xs) (sql_delete d ys)"
  using assms(1) by (induction rule: list_all2_induct) (auto simp: sql_delete_def assms(2))

lemma list_all2_unique:
  assumes "list_all2 R xs ys" and "\<And>x y. R x y \<Longrightarrow> key x = key y"
  shows "unique_on key ys = unique_on key xs"
proof -
  have "map key xs = map key ys" using assms(1) by (induction rule: list_all2_induct) (auto simp: assms(2))
  then show ?thesis by (simp add: unique_on_def)
qed

lemma list_all2_list_ex:
  assumes "list_all2 R xs ys" and "\<And>x y. R x y \<Longrightarrow> P x = Q y"
  shows "list_ex Q ys = list_ex P xs"
  using assms(1) by (induction rule: list_all2_induct) (auto simp: assms(2))


section \<open>The two backends agree\<close>

definition same_client :: "client \<Rightarrow> client \<Rightarrow> bool" where
  \<comment> \<open>only the Mongo backend maintains \<open>updated_at\<close> in the single-field updates\<close>
  "same_client a b \<longleftrightarrow> (\<exists>t. b = a\<lparr>client_updated_at := t\<rparr>)"

definition same_user :: "user \<Rightarrow> user \<Rightarrow> bool" where
  "same_user a b \<longleftrightarrow> (\<exists>t. b = a\<lparr>user_updated_at := t\<rparr>)"

definition mongo_agrees :: "database \<Rightarrow> mongo \<Rightarrow> bool" where
  "mongo_agrees db mg \<longleftrightarrow> list_all2 same_client (db_clients db) (mg_clients mg) \<and> list_all2 same_user (db_users db) (mg_users mg) \<and>
     mg_tokens mg = db_tokens db \<and> mg_codes mg = db_codes db \<and> mg_devices mg = db_devices db \<and>
     mg_issuers mg = db_issuers db \<and> mg_denylist mg = db_denylist db \<and> mg_audit mg = db_audit db"

definition shared_contract :: "database \<Rightarrow> storage_op \<Rightarrow> bool" where
  \<comment> \<open>the writes on which the contracts of the backends coincide: a client is updated with the identity it
     has, as the admin routes do, and no user is deleted\<close>
  "shared_contract db op \<longleftrightarrow>
     (case op of
        DeleteUser _ \<Rightarrow> False
      | UpdateClient c \<Rightarrow> list_all (\<lambda>r. client_client_id r = client_client_id c \<longrightarrow>
          client_pk r = client_pk c \<and> client_created_at r = client_created_at c \<and> client_require_state r = client_require_state c) (db_clients db)
      | _ \<Rightarrow> True)"

lemma same_row_refl [simp]: "same_client c c" "same_user u u"
  by (auto simp: same_client_def same_user_def intro: exI [of _ "client_updated_at c"] exI [of _ "user_updated_at u"])

lemma same_row_fields:
  "same_client a b \<Longrightarrow> client_client_id b = client_client_id a" "same_user x y \<Longrightarrow> user_pk y = user_pk x"
  "same_user x y \<Longrightarrow> user_username y = user_username x"
  by (auto simp: same_client_def same_user_def)

lemma insert_doc_ok:
  assumes "sql_insert clash r rows = Inr rows'" and "list_all2 R rows docs" and "\<And>x y. R x y \<Longrightarrow> weak r y \<Longrightarrow> clash r x" and "R r r"
  shows "\<exists>docs'. insert_doc weak r docs = Inr docs' \<and> list_all2 R rows' docs'"
proof -
  have no: "\<not> list_ex (clash r) rows" "rows' = rows @ [r]" using assms(1) by (auto simp: sql_insert_def split: if_split_asm)
  have "\<not> list_ex (weak r) docs"
    using assms(2,3) no(1) by (induction rule: list_all2_induct) auto
  then show ?thesis using assms(2,4) no(2) by (simp add: insert_doc_def list_all2_appendI)
qed

lemma agrees_clients:
  assumes "db_unique db" and "mongo_agrees db mg"
  shows "unique_on client_client_id (mg_clients mg)" "unique_on user_pk (mg_users mg)" "unique_on user_username (mg_users mg)"
proof -
  show "unique_on client_client_id (mg_clients mg)"
    using list_all2_unique [of same_client "db_clients db" "mg_clients mg" client_client_id] assms by (auto simp: mongo_agrees_def db_unique_def same_row_fields)
  show "unique_on user_pk (mg_users mg)"
    using list_all2_unique [of same_user "db_users db" "mg_users mg" user_pk] assms by (auto simp: mongo_agrees_def db_unique_def same_row_fields)
  show "unique_on user_username (mg_users mg)"
    using list_all2_unique [of same_user "db_users db" "mg_users mg" user_username] assms by (auto simp: mongo_agrees_def db_unique_def same_row_fields)
qed

lemma same_client_update:
  assumes "db_unique db" and "mongo_agrees db mg" and "\<And>a b. same_client a b \<Longrightarrow> same_client (f a) (g b)"
  shows "list_all2 same_client (sql_update (\<lambda>c. client_client_id c = cid) f (db_clients db)) (update_one (\<lambda>c. client_client_id c = cid) g (mg_clients mg))"
proof -
  have "update_one (\<lambda>c. client_client_id c = cid) g (mg_clients mg) = sql_update (\<lambda>c. client_client_id c = cid) g (mg_clients mg)"
    using agrees_clients(1) [OF assms(1,2)] by (rule update_one_unique)
  then show ?thesis using assms(2,3) by (auto simp: mongo_agrees_def same_row_fields intro!: list_all2_sql_update)
qed

lemma same_user_update:
  assumes "db_unique db" and "mongo_agrees db mg" and "\<And>a b. same_user a b \<Longrightarrow> same_user (f a) (g b)"
  shows "list_all2 same_user (sql_update (\<lambda>u. user_pk u = uid) f (db_users db)) (update_one (\<lambda>u. user_pk u = uid) g (mg_users mg))"
proof -
  have "update_one (\<lambda>u. user_pk u = uid) g (mg_users mg) = sql_update (\<lambda>u. user_pk u = uid) g (mg_users mg)"
    using agrees_clients(2) [OF assms(1,2)] by (rule update_one_unique)
  then show ?thesis using assms(2,3) by (auto simp: mongo_agrees_def same_row_fields intro!: list_all2_sql_update)
qed

lemma same_client_sets:
  "same_client a b \<Longrightarrow> same_client (a\<lparr>client_enabled := x\<rparr>) (b\<lparr>client_enabled := x, client_updated_at := now\<rparr>)"
  "same_client a b \<Longrightarrow> same_client (a\<lparr>client_client_secret := s\<rparr>) (b\<lparr>client_client_secret := s, client_updated_at := now\<rparr>)"
  unfolding same_client_def by (elim exE, rule exI [of _ now], simp)+

lemma same_user_sets:
  "same_user a b \<Longrightarrow> same_user (a\<lparr>user_enabled := x\<rparr>) (b\<lparr>user_enabled := x, user_updated_at := now\<rparr>)"
  "same_user a b \<Longrightarrow> same_user (a\<lparr>user_role := r\<rparr>) (b\<lparr>user_role := r, user_updated_at := now\<rparr>)"
  "same_user a b \<Longrightarrow> same_user (a\<lparr>user_password_hash := h\<rparr>) (b\<lparr>user_password_hash := h, user_updated_at := now\<rparr>)"
  unfolding same_user_def by (elim exE, rule exI [of _ now], simp)+

lemma update_client_agrees:
  assumes "db_unique db" and "mongo_agrees db mg" and "shared_contract db (UpdateClient c)"
  shows "mongo_agrees (update_client c db) (mongo_update_client c mg)"
proof -
  let ?cond = "\<lambda>r. client_client_id r = client_client_id c"
  have one: "update_one ?cond (\<lambda>_. c) (mg_clients mg) = sql_update ?cond (\<lambda>_. c) (mg_clients mg)"
    using agrees_clients(1) [OF assms(1,2)] by (rule update_one_unique)
  have cols: "sql_update ?cond (client_update_cols c) (db_clients db) = sql_update ?cond (\<lambda>_. c) (db_clients db)"
    using assms(3) by (auto simp: shared_contract_def sql_update_def client_update_cols_def list_all_iff)
  have "list_all2 same_client (sql_update ?cond (\<lambda>_. c) (db_clients db)) (sql_update ?cond (\<lambda>_. c) (mg_clients mg))"
    using assms(2) by (auto simp: mongo_agrees_def same_row_fields intro!: list_all2_sql_update)
  then show ?thesis using assms(2) one cols by (simp add: update_client_def mongo_update_client_def mongo_agrees_def)
qed

lemma client_writes_agree:
  assumes "db_unique db" and "mongo_agrees db mg"
  shows "save_client c db = Inr db' \<Longrightarrow> \<exists>mg'. mongo_save_client c mg = Inr mg' \<and> mongo_agrees db' mg'"
    and "delete_client i db = Inr db' \<Longrightarrow> mongo_agrees db' (mongo_delete_client i mg)"
    and "mongo_agrees (set_client_enabled i b db) (mongo_set_client_enabled now i b mg)"
    and "mongo_agrees (set_client_secret i s db) (mongo_set_client_secret now i s mg)"
proof -
  note rel = assms(2) [unfolded mongo_agrees_def]
  show "\<exists>mg'. mongo_save_client c mg = Inr mg' \<and> mongo_agrees db' mg'" if ok: "save_client c db = Inr db'"
  proof -
    obtain rows where rows: "sql_insert client_clash c (db_clients db) = Inr rows" "db' = db\<lparr>db_clients := rows\<rparr>"
      using ok by (auto simp: save_client_def bind_res_Inr_iff)
    obtain docs where "insert_doc (\<lambda>a b. client_client_id a = client_client_id b) c (mg_clients mg) = Inr docs" "list_all2 same_client rows docs"
      using insert_doc_ok [OF rows(1) conjunct1 [OF rel], of "\<lambda>a b. client_client_id a = client_client_id b", OF _ same_row_refl(1)]
      by (metis client_clash_def same_row_fields(1))
    then show ?thesis using rel rows(2) by (simp add: mongo_save_client_def mongo_agrees_def)
  qed
  show "mongo_agrees db' (mongo_delete_client i mg)" if ok: "delete_client i db = Inr db'"
  proof -
    have "delete_one (\<lambda>c. client_client_id c = i) (mg_clients mg) = sql_delete (\<lambda>c. client_client_id c = i) (mg_clients mg)"
      using agrees_clients(1) [OF assms] by (rule delete_one_unique)
    then show ?thesis
      using ok rel by (auto simp: delete_client_def mongo_delete_client_def mongo_agrees_def same_row_fields intro!: list_all2_sql_delete split: if_split_asm)
  qed
  show "mongo_agrees (set_client_enabled i b db) (mongo_set_client_enabled now i b mg)"
    using same_client_update [OF assms same_client_sets(1), where cid = i] rel
    by (simp add: set_client_enabled_def mongo_set_client_enabled_def mongo_agrees_def)
  show "mongo_agrees (set_client_secret i s db) (mongo_set_client_secret now i s mg)"
    using same_client_update [OF assms same_client_sets(2), where cid = i] rel
    by (simp add: set_client_secret_def mongo_set_client_secret_def mongo_agrees_def)
qed

lemma user_writes_agree:
  assumes "db_unique db" and "mongo_agrees db mg"
  shows "save_user u db = Inr db' \<Longrightarrow> \<exists>mg'. mongo_save_user u mg = Inr mg' \<and> mongo_agrees db' mg'"
    and "update_user u db = Inr db' \<Longrightarrow> \<exists>mg'. mongo_update_user u mg = Inr mg' \<and> mongo_agrees db' mg'"
    and "mongo_agrees (set_user_enabled i b db) (mongo_set_user_enabled now i b mg)"
    and "mongo_agrees (set_user_role i r db) (mongo_set_user_role now i r mg)"
    and "mongo_agrees (set_user_password_hash i h db) (mongo_set_user_password_hash now i h mg)"
proof -
  note rel = assms(2) [unfolded mongo_agrees_def]
  show "\<exists>mg'. mongo_save_user u mg = Inr mg' \<and> mongo_agrees db' mg'" if ok: "save_user u db = Inr db'"
  proof -
    obtain rows where rows: "sql_insert user_clash u (db_users db) = Inr rows" "db' = db\<lparr>db_users := rows\<rparr>"
      using ok by (auto simp: save_user_def bind_res_Inr_iff)
    obtain docs where "insert_doc (\<lambda>a b. user_username a = user_username b) u (mg_users mg) = Inr docs" "list_all2 same_user rows docs"
      using insert_doc_ok [OF rows(1) conjunct1 [OF conjunct2 [OF rel]], of "\<lambda>a b. user_username a = user_username b", OF _ same_row_refl(2)]
      by (metis user_clash_def same_row_fields(3))
    then show ?thesis using rel rows(2) by (simp add: mongo_save_user_def mongo_agrees_def)
  qed
  show "\<exists>mg'. mongo_update_user u mg = Inr mg' \<and> mongo_agrees db' mg'" if ok: "update_user u db = Inr db'"
  proof -
    let ?set = "\<lambda>r. r\<lparr>user_username := user_username u, user_email := user_email u, user_enabled := user_enabled u, user_role := user_role u,
               user_password_hash := user_password_hash u, user_updated_at := user_updated_at u\<rparr>"
    have ex: "list_ex (\<lambda>r. user_pk r = user_pk u) (mg_users mg) = list_ex (\<lambda>r. user_pk r = user_pk u) (db_users db)"
        "list_ex (\<lambda>r. user_pk r \<noteq> user_pk u \<and> user_username r = user_username u) (mg_users mg) =
         list_ex (\<lambda>r. user_pk r \<noteq> user_pk u \<and> user_username r = user_username u) (db_users db)"
      using rel by (auto intro!: list_all2_list_ex simp: same_row_fields)
    have "same_user (user_update_cols u a) (?set b)" if "same_user a b" for a b
      using that by (cases a, cases u) (auto simp: same_user_def user_update_cols_def)
    from same_user_update [OF assms, of "user_update_cols u" ?set, OF this]
    show ?thesis using ok rel ex by (auto simp: update_user_def mongo_update_user_def mongo_agrees_def has_user_def split: if_split_asm)
  qed
  show "mongo_agrees (set_user_enabled i b db) (mongo_set_user_enabled now i b mg)"
    using same_user_update [OF assms same_user_sets(1), where uid = i] rel
    by (simp add: set_user_enabled_def mongo_set_user_enabled_def mongo_agrees_def)
  show "mongo_agrees (set_user_role i r db) (mongo_set_user_role now i r mg)"
    using same_user_update [OF assms same_user_sets(2), where uid = i] rel
    by (simp add: set_user_role_def mongo_set_user_role_def mongo_agrees_def)
  show "mongo_agrees (set_user_password_hash i h db) (mongo_set_user_password_hash now i h mg)"
    using same_user_update [OF assms same_user_sets(3), where uid = i] rel
    by (simp add: set_user_password_hash_def mongo_set_user_password_hash_def mongo_agrees_def)
qed

lemma insert_doc_same:
  assumes "sql_insert clash r rows = Inr rows'" and "\<And>x. weak r x \<Longrightarrow> clash r x"
  shows "insert_doc weak r rows = Inr rows'"
proof -
  have "\<not> list_ex (clash r) rows" "rows' = rows @ [r]" using assms(1) by (auto simp: sql_insert_def split: if_split_asm)
  then show ?thesis using list_ex_mono [of "clash r" rows "weak r"] assms(2) by (simp add: insert_doc_def)
qed

lemma token_writes_agree:
  assumes "mongo_agrees db mg"
  shows "save_token t db = Inr db' \<Longrightarrow> \<exists>mg'. mongo_save_token t mg = Inr mg' \<and> mongo_agrees db' mg'"
    and "mongo_agrees (snd (revoke_where cond db)) (snd (mongo_revoke_where cond mg))"
proof -
  show "\<exists>mg'. mongo_save_token t mg = Inr mg' \<and> mongo_agrees db' mg'" if "save_token t db = Inr db'"
    using that assms insert_doc_same [of token_clash t "db_tokens db" _ "\<lambda>a b. token_access_token a = token_access_token b"]
    by (auto simp: save_token_def mongo_save_token_def mongo_agrees_def token_clash_def bind_res_Inr_iff split: if_split_asm)
  show "mongo_agrees (snd (revoke_where cond db)) (snd (mongo_revoke_where cond mg))"
    using assms by (simp add: revoke_where_def mongo_revoke_where_def mongo_agrees_def update_many_eq)
qed

lemma code_writes_agree:
  assumes "db_unique db" and "mongo_agrees db mg"
  shows "save_authorization_code c db = Inr db' \<Longrightarrow> \<exists>mg'. mongo_save_authorization_code c mg = Inr mg' \<and> mongo_agrees db' mg'"
    and "mongo_agrees (snd (mark_authorization_code_used s db)) (snd (mongo_mark_authorization_code_used s mg))"
proof -
  show "\<exists>mg'. mongo_save_authorization_code c mg = Inr mg' \<and> mongo_agrees db' mg'" if "save_authorization_code c db = Inr db'"
    using that assms(2) insert_doc_same [of code_clash c "db_codes db" _ "\<lambda>a b. code_code a = code_code b"]
    by (auto simp: save_authorization_code_def mongo_save_authorization_code_def mongo_agrees_def code_clash_def bind_res_Inr_iff split: if_split_asm)
  have "unique_on code_code (db_codes db)" using assms(1) by (simp add: db_unique_def)
  from update_one_unique [OF this, of "\<lambda>c. code_code c = s \<and> \<not> code_used c" s]
  show "mongo_agrees (snd (mark_authorization_code_used s db)) (snd (mongo_mark_authorization_code_used s mg))"
    using assms(2) by (simp add: mark_authorization_code_used_def mongo_mark_authorization_code_used_def mongo_agrees_def Let_def)
qed

lemma device_writes_agree:
  assumes "db_unique db" and "mongo_agrees db mg"
  shows "save_device_authorization d db = Inr db' \<Longrightarrow> \<exists>mg'. mongo_save_device_authorization d mg = Inr mg' \<and> mongo_agrees db' mg'"
    and "approve_device_authorization uc uid db = Inr db' \<Longrightarrow> mongo_agrees db' (mongo_approve_device_authorization uc uid mg)"
    and "mongo_agrees (deny_device_authorization uc db) (mongo_deny_device_authorization uc mg)"
    and "mongo_agrees (snd (mark_device_authorization_used s db)) (snd (mongo_mark_device_authorization_used s mg))"
    and "mongo_agrees (expire_device_authorization now s db) (mongo_expire_device_authorization now s mg)"
proof -
  have u: "unique_on device_device_code (db_devices db)" "unique_on device_user_code (db_devices db)" using assms(1) by (simp_all add: db_unique_def)
  note user = update_one_unique [OF u(2), of "\<lambda>d. device_user_code d = uc" uc]
  note device = update_one_unique [OF u(1), of "\<lambda>d. device_device_code d = s" s] update_one_unique [OF u(1), of "\<lambda>d. device_device_code d = s \<and> \<not> device_used d" s]
  show "\<exists>mg'. mongo_save_device_authorization d mg = Inr mg' \<and> mongo_agrees db' mg'" if "save_device_authorization d db = Inr db'"
    using that assms(2) insert_doc_same [of device_clash d "db_devices db" _ "\<lambda>a b. device_device_code a = device_device_code b \<or> device_user_code a = device_user_code b"]
    by (auto simp: save_device_authorization_def mongo_save_device_authorization_def mongo_agrees_def device_clash_def bind_res_Inr_iff split: if_split_asm)
  show "mongo_agrees db' (mongo_approve_device_authorization uc uid mg)" if "approve_device_authorization uc uid db = Inr db'"
    using that assms(2) user by (auto simp: approve_device_authorization_def mongo_approve_device_authorization_def mongo_agrees_def split: if_split_asm)
  show "mongo_agrees (deny_device_authorization uc db) (mongo_deny_device_authorization uc mg)"
    using assms(2) user by (simp add: deny_device_authorization_def mongo_deny_device_authorization_def mongo_agrees_def)
  show "mongo_agrees (snd (mark_device_authorization_used s db)) (snd (mongo_mark_device_authorization_used s mg))"
    using assms(2) device by (simp add: mark_device_authorization_used_def mongo_mark_device_authorization_used_def mongo_agrees_def Let_def)
  show "mongo_agrees (expire_device_authorization now s db) (mongo_expire_device_authorization now s mg)"
    using assms(2) device by (simp add: expire_device_authorization_def mongo_expire_device_authorization_def mongo_agrees_def)
qed

lemma issuer_writes_agree:
  assumes "db_unique db" and "mongo_agrees db mg" and "save_trusted_issuer t db = Inr db'"
  shows "mongo_agrees db' (mongo_save_trusted_issuer t mg)"
proof -
  let ?same = "\<lambda>r. issuer_issuer r = issuer_issuer t" and ?upd = "\<lambda>r. t\<lparr>issuer_pk := issuer_pk r, issuer_created_at := issuer_created_at r\<rparr>"
  have "unique_on issuer_issuer (db_issuers db)" using assms(1) by (simp add: db_unique_def)
  from update_one_unique [OF this, of ?same "issuer_issuer t"]
  have "update_one ?same ?upd (db_issuers db) = sql_update ?same ?upd (db_issuers db)" by simp
  also have "\<dots> = sql_update ?same (issuer_upsert_cols t) (db_issuers db)"
    by (auto simp: sql_update_def issuer_upsert_cols_def)
  finally show ?thesis
    using assms(2,3) by (auto simp: save_trusted_issuer_def mongo_save_trusted_issuer_def mongo_agrees_def bind_res_Inr_iff sql_insert_def split: if_split_asm)
qed

lemma denylist_writes_agree:
  assumes "db_unique db" and "mongo_agrees db mg"
  shows "add_denylist_entry e db = Inr db' \<Longrightarrow> mongo_agrees db' (mongo_add_denylist_entry e mg)"
    and "mongo_agrees (remove_denylist_entry i db) (mongo_remove_denylist_entry i mg)"
proof -
  let ?same = "\<lambda>r. deny_kind r = deny_kind e \<and> deny_value r = deny_value e"
  have u: "unique_on (\<lambda>e. (deny_kind e, deny_value e)) (db_denylist db)" "unique_on deny_pk (db_denylist db)" using assms(1) by (simp_all add: db_unique_def)
  show "mongo_agrees db' (mongo_add_denylist_entry e mg)" if ok: "add_denylist_entry e db = Inr db'"
  proof (cases "find ?same (db_denylist db)")
    case None
    then have "\<not> list_ex ?same (db_denylist db)" by (simp add: find_None_iff list_ex_iff)
    then show ?thesis
      using None ok assms(2) by (auto simp: add_denylist_entry_def mongo_add_denylist_entry_def mongo_agrees_def bind_res_Inr_iff sql_insert_def split: if_split_asm)
  next
    case (Some x)
    then have x: "x \<in> set (db_denylist db)" "?same x" by (auto simp: find_Some_iff)
    let ?upd = "\<lambda>_. e\<lparr>deny_pk := deny_pk x, deny_created_at := deny_created_at x\<rparr>"
    have only: "r = x" if "r \<in> set (db_denylist db)" "?same r" for r
      using u(1) x that by (auto simp: unique_on_def distinct_map inj_on_def)
    have "update_one ?same ?upd (db_denylist db) = sql_update ?same ?upd (db_denylist db)"
      using u(1) by (rule update_one_unique [where k = "(deny_kind e, deny_value e)"]) simp
    also have "\<dots> = sql_update ?same (deny_upsert_cols e) (db_denylist db)"
    proof -
      have "?upd x = deny_upsert_cols e x" using x(2) by (cases e, cases x) (simp add: deny_upsert_cols_def)
      then show ?thesis unfolding sql_update_def by (intro map_cong refl) (metis only)
    qed
    finally show ?thesis
      using Some x ok assms(2) by (auto simp: add_denylist_entry_def mongo_add_denylist_entry_def mongo_agrees_def list_ex_iff Let_def split: if_split_asm)
  qed
  show "mongo_agrees (remove_denylist_entry i db) (mongo_remove_denylist_entry i mg)"
    using assms(2) delete_one_unique [OF u(2), of "\<lambda>e. deny_pk e = i" i]
    by (simp add: remove_denylist_entry_def mongo_remove_denylist_entry_def mongo_agrees_def)
qed

lemma revoke_writes_agree:
  assumes "mongo_agrees db mg"
  shows "mongo_agrees (revoke_token s db) (mongo_revoke_token s mg)"
    and "mongo_agrees (snd (revoke_token_family f db)) (snd (mongo_revoke_token_family f mg))"
    and "mongo_agrees (snd (revoke_tokens_by_user_id u db)) (snd (mongo_revoke_tokens_by_user_id u mg))"
    and "mongo_agrees (snd (revoke_tokens_by_client_id c db)) (snd (mongo_revoke_tokens_by_client_id c mg))"
  using token_writes_agree(2) [OF assms]
  by (simp_all add: revoke_token_def revoke_token_family_def revoke_tokens_by_user_id_def revoke_tokens_by_client_id_def
      mongo_revoke_token_def mongo_revoke_token_family_def mongo_revoke_tokens_by_user_id_def mongo_revoke_tokens_by_client_id_def)

lemma audit_writes_agree: "mongo_agrees db mg \<Longrightarrow> write_audit_log e db = Inr db' \<Longrightarrow> mongo_agrees db' (mongo_write_audit_log e mg)"
  by (auto simp: write_audit_log_def mongo_write_audit_log_def bind_res_Inr_iff sql_insert_def mongo_agrees_def split: if_split_asm)

lemma mongo_write_agrees:
  assumes "sql_write op db = Inr db'" and "db_unique db" and "mongo_agrees db mg" and "shared_contract db op"
  shows "\<exists>mg'. mongo_write now op mg = Inr mg' \<and> mongo_agrees db' mg'"
proof -
  have no: "\<not> shared_contract db (DeleteUser i)" for i by (simp add: shared_contract_def)
  note agree = client_writes_agree [OF assms(2,3)] update_client_agrees [OF assms(2,3)] user_writes_agree [OF assms(2,3)]
    token_writes_agree [OF assms(3)] revoke_writes_agree [OF assms(3)] code_writes_agree [OF assms(2,3)] device_writes_agree [OF assms(2,3)]
    issuer_writes_agree [OF assms(2,3)] denylist_writes_agree [OF assms(2,3)] audit_writes_agree [OF assms(3)]
  show ?thesis using assms(1,4) by (cases op) (auto intro: agree simp: no)
qed

text \<open>Runs: the writes of a sequence, up to the first that fails.\<close>

fun sql_writes :: "storage_op list \<Rightarrow> database \<Rightarrow> database outcome" where
  "sql_writes [] db = Inr db"
| "sql_writes (op # ops) db = bind_res (sql_write op db) (sql_writes ops)"

fun mongo_writes :: "(datetime \<times> storage_op) list \<Rightarrow> mongo \<Rightarrow> mongo outcome" where
  "mongo_writes [] mg = Inr mg"
| "mongo_writes ((now, op) # ops) mg = bind_res (mongo_write now op mg) (mongo_writes ops)"

fun all_shared :: "storage_op list \<Rightarrow> database \<Rightarrow> bool" where
  "all_shared [] db = True"
| "all_shared (op # ops) db = (shared_contract db op \<and> all_shared ops (storage_step op db))"

definition empty_mongo :: mongo where
  "empty_mongo = \<lparr>mg_clients = [], mg_users = [], mg_tokens = [], mg_codes = [], mg_devices = [], mg_issuers = [], mg_denylist = [], mg_audit = []\<rparr>"

lemma mongo_writes_agree:
  assumes "sql_writes (map snd ops) db = Inr db'" and "db_unique db" and "mongo_agrees db mg" and "all_shared (map snd ops) db"
  shows "\<exists>mg'. mongo_writes ops mg = Inr mg' \<and> mongo_agrees db' mg'"
  using assms
proof (induction ops arbitrary: db mg)
  case (Cons x ops)
  obtain now op where x: "x = (now, op)" by (cases x)
  obtain db1 where w: "sql_write op db = Inr db1" "sql_writes (map snd ops) db1 = Inr db'"
    using Cons.prems(1) x by (auto simp: bind_res_Inr_iff)
  have db1: "storage_step op db = db1" using w(1) by (simp add: storage_step_write keep_def)
  obtain mg1 where m: "mongo_write now op mg = Inr mg1" "mongo_agrees db1 mg1"
    using mongo_write_agrees [OF w(1) Cons.prems(2,3)] Cons.prems(4) x by auto
  have "db_unique db1" using db_unique_storage_step [OF Cons.prems(2), of op] db1 by simp
  from Cons.IH [OF w(2) this m(2)] m(1) Cons.prems(4) db1 x show ?case by simp
qed simp

lemma agreed_reads:
  assumes "mongo_agrees db mg"
  shows "mongo_get_token_by_access_token a mg = get_token_by_access_token a db"
    and "mongo_get_token_by_refresh_token r mg = get_token_by_refresh_token r db"
    and "mongo_get_authorization_code s mg = get_authorization_code s db"
    and "mongo_get_device_authorization_by_device_code s mg = get_device_authorization_by_device_code s db"
    and "mongo_get_trusted_issuer i mg = get_trusted_issuer i db"
    and "mongo_find_denylist_entry now kind v mg = find_denylist_entry now kind v db"
  using assms
  by (simp_all add: mongo_agrees_def mongo_get_token_by_access_token_def get_token_by_access_token_def mongo_get_token_by_refresh_token_def
      get_token_by_refresh_token_def mongo_get_authorization_code_def get_authorization_code_def
      mongo_get_device_authorization_by_device_code_def get_device_authorization_by_device_code_def mongo_get_trusted_issuer_def
      get_trusted_issuer_def mongo_find_denylist_entry_def find_denylist_entry_def)

lemma agreed_clients:
  assumes "list_all2 same_client rows docs"
  shows "rel_option same_client (find (\<lambda>c. client_client_id c = cid) rows) (find (\<lambda>c. client_client_id c = cid) docs)"
  using assms by (induction rule: list_all2_induct) (auto simp: same_row_fields)

lemma agreed_users:
  assumes "list_all2 same_user rows docs"
  shows "rel_option same_user (find (\<lambda>u. user_pk u = uid) rows) (find (\<lambda>u. user_pk u = uid) docs)"
  using assms by (induction rule: list_all2_induct) (auto simp: same_row_fields)

text \<open>
  C12. The MongoDB backend refines the SQL backend: any run of writes from the empty store that SQL executes
  without an error, in which no user is deleted and clients are updated under the identity they have, is
  executed by MongoDB without an error too, and afterwards the lookups of tokens, codes, device
  authorizations, issuers and denylist entries answer the same, and those of clients and users answer the
  same up to the time of the last update.
\<close>

theorem mongo_refines_sql:
  assumes "sql_writes (map snd ops) (empty_db d) = Inr db" and "all_shared (map snd ops) (empty_db d)"
  shows "\<exists>mg. mongo_writes ops empty_mongo = Inr mg \<and>
    (\<forall>a. mongo_get_token_by_access_token a mg = get_token_by_access_token a db \<and>
         mongo_get_token_by_refresh_token a mg = get_token_by_refresh_token a db \<and>
         mongo_get_authorization_code a mg = get_authorization_code a db \<and>
         mongo_get_device_authorization_by_device_code a mg = get_device_authorization_by_device_code a db \<and>
         mongo_get_trusted_issuer a mg = get_trusted_issuer a db \<and>
         rel_option same_client (get_client a db) (mongo_get_client a mg) \<and>
         rel_option same_user (get_user_by_id a db) (mongo_get_user_by_id a mg)) \<and>
    (\<forall>now kind v. mongo_find_denylist_entry now kind v mg = find_denylist_entry now kind v db)"
proof -
  have "mongo_agrees (empty_db d) empty_mongo" by (simp add: mongo_agrees_def empty_db_def empty_mongo_def)
  from mongo_writes_agree [OF assms(1) db_unique_empty this assms(2)] obtain mg where
    mg: "mongo_writes ops empty_mongo = Inr mg" "mongo_agrees db mg" by blast
  have "rel_option same_client (get_client a db) (mongo_get_client a mg)" "rel_option same_user (get_user_by_id a db) (mongo_get_user_by_id a mg)" for a
    using mg(2) agreed_clients agreed_users by (simp_all add: mongo_agrees_def get_client_def mongo_get_client_def get_user_by_id_def mongo_get_user_by_id_def)
  then show ?thesis using mg(1) agreed_reads [OF mg(2)] by blast
qed

definition sample_ops :: "(datetime \<times> storage_op) list" where
  "sample_ops = [(1, SaveClient (mk_client ''1'' ''app'' ''s'' [] [] ''read'' ''App'' 0)), (2, SetClientSecret ''app'' ''t''),
     (3, AddDeny \<lparr>deny_pk = ''d1'', deny_kind = ''ip'', deny_value = ''192.0.2.7'', deny_reason = ''a'', deny_created_by = ''r'', deny_created_at = 3, deny_expires_at = None\<rparr>),
     (4, AddDeny \<lparr>deny_pk = ''d2'', deny_kind = ''ip'', deny_value = ''192.0.2.7'', deny_reason = ''b'', deny_created_by = ''r'', deny_created_at = 4, deny_expires_at = None\<rparr>)]"

theorem mongo_refines_sql_witness:
  "\<exists>db mg. sql_writes (map snd sample_ops) (empty_db Postgres) = Inr db \<and> mongo_writes sample_ops empty_mongo = Inr mg \<and>
     rel_option same_client (get_client ''app'' db) (mongo_get_client ''app'' mg) \<and>
     mongo_find_denylist_entry 9 ''ip'' ''192.0.2.7'' mg = find_denylist_entry 9 ''ip'' ''192.0.2.7'' db"
proof -
  have run: "\<exists>db. sql_writes (map snd sample_ops) (empty_db Postgres) = Inr db"
    by (simp add: sample_ops_def save_client_def sql_insert_def empty_db_def set_client_secret_def sql_update_def add_denylist_entry_def Let_def)
  have "all_shared (map snd sample_ops) (empty_db Postgres)"
    by (simp add: sample_ops_def shared_contract_def)
  from run mongo_refines_sql [OF _ this] show ?thesis by blast
qed


section \<open>Claims\<close>

definition mongo_step :: "datetime \<times> storage_op \<Rightarrow> mongo \<Rightarrow> mongo" where
  \<comment> \<open>a command that fails changes nothing\<close>
  "mongo_step x mg = (case mongo_write (fst x) (snd x) mg of Inl _ \<Rightarrow> mg | Inr mg' \<Rightarrow> mg')"

definition mongo_code_claimed :: "string \<Rightarrow> mongo \<Rightarrow> bool" where
  "mongo_code_claimed s mg \<longleftrightarrow> list_ex (\<lambda>c. code_code c = s) (mg_codes mg) \<and> list_all (\<lambda>c. code_code c = s \<longrightarrow> code_used c) (mg_codes mg)"

definition mongo_device_claimed :: "string \<Rightarrow> mongo \<Rightarrow> bool" where
  "mongo_device_claimed s mg \<longleftrightarrow> list_ex (\<lambda>d. device_device_code d = s) (mg_devices mg) \<and>
     list_all (\<lambda>d. device_device_code d = s \<longrightarrow> device_used d) (mg_devices mg)"

lemma update_one_keys: "(\<And>r. key (upd r) = key r) \<Longrightarrow> map key (update_one cond upd rows) = map key rows"
  by (induction rows) auto

lemma update_one_unique_on: "(\<And>r. key (upd r) = key r) \<Longrightarrow> unique_on key (update_one cond upd rows) = unique_on key rows"
  by (simp add: unique_on_def update_one_keys)

lemma update_one_list_ex: "(\<And>r. key (upd r) = key r) \<Longrightarrow> list_ex (\<lambda>r. key r = k) (update_one cond upd rows) = list_ex (\<lambda>r. key r = k) rows"
  by (induction rows) auto

lemma update_one_list_all:
  "(\<And>r. key (upd r) = key r) \<Longrightarrow> (\<And>r. used r \<Longrightarrow> used (upd r)) \<Longrightarrow>
   list_all (\<lambda>r. key r = k \<longrightarrow> used r) rows \<Longrightarrow> list_all (\<lambda>r. key r = k \<longrightarrow> used r) (update_one cond upd rows)"
  by (induction rows) auto

lemmas update_one_simps = update_one_unique_on update_one_list_ex update_one_list_all

lemmas mongo_write_defs = mongo_save_client_def mongo_update_client_def mongo_delete_client_def mongo_set_client_enabled_def mongo_set_client_secret_def
  mongo_save_user_def mongo_update_user_def mongo_delete_user_def mongo_set_user_enabled_def mongo_set_user_role_def mongo_set_user_password_hash_def
  mongo_save_token_def mongo_revoke_where_def mongo_revoke_token_def mongo_revoke_token_family_def mongo_revoke_tokens_by_user_id_def
  mongo_revoke_tokens_by_client_id_def mongo_save_authorization_code_def mongo_mark_authorization_code_used_def mongo_save_device_authorization_def
  mongo_approve_device_authorization_def mongo_deny_device_authorization_def mongo_mark_device_authorization_used_def
  mongo_expire_device_authorization_def mongo_save_trusted_issuer_def mongo_add_denylist_entry_def mongo_remove_denylist_entry_def mongo_write_audit_log_def

lemma mongo_step_codes:
  "mg_codes (mongo_step (now, op) mg) =
     (case op of
        SaveCode c \<Rightarrow> if list_ex (\<lambda>b. code_code c = code_code b) (mg_codes mg) then mg_codes mg else mg_codes mg @ [c]
      | MarkCodeUsed s \<Rightarrow> update_one (\<lambda>c. code_code c = s \<and> \<not> code_used c) (\<lambda>c. c\<lparr>code_used := True\<rparr>) (mg_codes mg)
      | _ \<Rightarrow> mg_codes mg)"
  by (cases op) (simp_all add: mongo_step_def mongo_write_defs insert_doc_def Let_def split: option.split)

lemma fresh_key: "list_ex (\<lambda>b. key b = k) rows \<Longrightarrow> \<not> list_ex (\<lambda>b. key c = key b) rows \<Longrightarrow> key c \<noteq> k"
  by (auto simp: list_ex_iff)

lemma mongo_code_claimed_step: "mongo_code_claimed k mg \<Longrightarrow> mongo_code_claimed k (mongo_step x mg)"
  by (cases x) (auto simp: mongo_code_claimed_def mongo_step_codes update_one_simps dest: fresh_key [of code_code] split: storage_op.split)

lemma mongo_codes_unique_step: "unique_on code_code (mg_codes mg) \<Longrightarrow> unique_on code_code (mg_codes (mongo_step x mg))"
  by (cases x) (auto simp: mongo_step_codes update_one_simps sql_simps eq_commute split: storage_op.split)

lemma mark_first:
  assumes "unique_on key rows" and "find (\<lambda>r. key r = k \<and> \<not> used r) rows \<noteq> None" and "\<And>r. key (upd r) = key r" and "\<And>r. used (upd r)"
  shows "list_ex (\<lambda>r. key r = k) (update_one (\<lambda>r. key r = k \<and> \<not> used r) upd rows)"
    and "list_all (\<lambda>r. key r = k \<longrightarrow> used r) (update_one (\<lambda>r. key r = k \<and> \<not> used r) upd rows)"
proof -
  have "list_ex (\<lambda>r. key r = k) rows" using assms(2) by (auto simp: find_None_iff list_ex_iff)
  then show "list_ex (\<lambda>r. key r = k) (update_one (\<lambda>r. key r = k \<and> \<not> used r) upd rows)" using assms(3) by (simp add: update_one_list_ex)
  show "list_all (\<lambda>r. key r = k \<longrightarrow> used r) (update_one (\<lambda>r. key r = k \<and> \<not> used r) upd rows)"
    using update_one_unique [OF assms(1), of "\<lambda>r. key r = k \<and> \<not> used r" k upd] list_all_mark [of key upd used k rows] assms(3,4) by simp
qed

lemma find_used: "list_all (\<lambda>r. key r = k \<longrightarrow> used r) rows \<Longrightarrow> find (\<lambda>r. key r = k \<and> \<not> used r) rows = None"
  by (auto simp: find_None_iff list_all_iff)

interpretation mongo_code: claim_once mongo_mark_authorization_code_used mongo_step mongo_code_claimed "\<lambda>mg. unique_on code_code (mg_codes mg)"
proof
  fix k j :: string and mg x
  show "fst (mongo_mark_authorization_code_used k mg) \<le> 1" by (simp add: mongo_mark_authorization_code_used_def Let_def)
  show "mongo_code_claimed k mg \<Longrightarrow> fst (mongo_mark_authorization_code_used k mg) = 0"
    by (simp add: mongo_code_claimed_def mongo_mark_authorization_code_used_def Let_def find_used)
  show "unique_on code_code (mg_codes mg) \<Longrightarrow> 0 < fst (mongo_mark_authorization_code_used k mg) \<Longrightarrow>
      mongo_code_claimed k (snd (mongo_mark_authorization_code_used k mg))"
    using mark_first [of code_code "mg_codes mg" k code_used "\<lambda>c. c\<lparr>code_used := True\<rparr>"]
    by (auto simp: mongo_code_claimed_def mongo_mark_authorization_code_used_def Let_def split: if_split_asm)
  have mark: "snd (mongo_mark_authorization_code_used j mg) = mongo_step (0, MarkCodeUsed j) mg" for j by (simp add: mongo_step_def)
  show "mongo_code_claimed k mg \<Longrightarrow> mongo_code_claimed k (snd (mongo_mark_authorization_code_used j mg))"
    unfolding mark by (rule mongo_code_claimed_step)
  show "unique_on code_code (mg_codes mg) \<Longrightarrow> unique_on code_code (mg_codes (snd (mongo_mark_authorization_code_used k mg)))"
    unfolding mark by (rule mongo_codes_unique_step)
qed (rule mongo_code_claimed_step, assumption, rule mongo_codes_unique_step)

text \<open>
  The atomic \<open>find_one_and_update\<close> keeps the contract of the SQL conditional update: however claims and
  other commands interleave, at most one claim of an authorization code is won.
\<close>

theorem mongo_code_claimed_at_most_once:
  assumes "unique_on code_code (mg_codes mg)"
  shows "claims_won mongo_mark_authorization_code_used mongo_step code es mg \<le> 1"
  using assms by (rule mongo_code.at_most_one)

theorem mongo_code_claimed_at_most_once_witness:
  "claims_won mongo_mark_authorization_code_used mongo_step ''c'' [Inl ''c'', Inr (5, RevokeFamily ''f''), Inl ''c''] empty_mongo \<le> 1"
  by (rule mongo_code_claimed_at_most_once) (simp add: empty_mongo_def unique_on_def)


section \<open>Deleting a user\<close>

text \<open>
  The backends part when a user is deleted: SQL revokes the user's tokens in the same transaction,
  MongoDB leaves them as they are, so they stay live unless the admin route's best-effort revocation,
  which ignores errors, succeeds afterwards.
\<close>

theorem mongo_deleted_user_keeps_tokens:
  assumes "get_token_by_access_token a db = Some t" and "token_user_id t = Some uid" and "\<not> token_revoked t"
    and "mg_tokens mg = db_tokens db" and "sql_write (DeleteUser uid) db = Inr db'"
  shows "\<exists>t' mg'. get_token_by_access_token a db' = Some t' \<and> token_revoked t' \<and>
    mongo_write now (DeleteUser uid) mg = Inr mg' \<and> mongo_get_token_by_access_token a mg' = Some t \<and> \<not> token_revoked t"
proof -
  have tokens: "db_tokens db' = sql_update (\<lambda>t. token_user_id t = Some uid) (\<lambda>t. t\<lparr>token_revoked := True, token_user_id := None\<rparr>) (db_tokens db)"
    using assms(5) by (auto simp: delete_user_def unlink_user_tokens_def Let_def split: if_split_asm)
  have "get_token_by_access_token a db' = Some (t\<lparr>token_revoked := True, token_user_id := None\<rparr>)"
    using assms(1,2) unfolding get_token_by_access_token_def tokens by (subst find_sql_update) auto
  then show ?thesis
    using assms(1,3,4) by (simp add: mongo_delete_user_def mongo_get_token_by_access_token_def get_token_by_access_token_def)
qed

theorem mongo_deleted_user_keeps_tokens_witness:
  "\<exists>t mg'. mongo_write 0 (DeleteUser ''u'') (empty_mongo\<lparr>mg_tokens := [t]\<rparr>) = Inr mg' \<and> \<not> token_revoked t \<and>
     mongo_get_token_by_access_token ''at'' mg' = Some t"
proof -
  let ?t = "\<lparr>token_pk = ''1'', token_access_token = ''at'', token_refresh_token = None, token_token_type = ''Bearer'', token_expires_in = 60,
     token_scope = ''read'', token_client_id = ''app'', token_user_id = Some ''u'', token_created_at = 0, token_expires_at = 60000000,
     token_revoked = False, token_token_family = None\<rparr>"
  let ?db = "(empty_db Sqlite)\<lparr>db_tokens := [?t]\<rparr>"
  have "\<exists>db'. sql_write (DeleteUser ''u'') ?db = Inr db'" by (simp add: delete_user_def unlink_user_tokens_def fk_ok_def empty_db_def Let_def)
  then obtain db' where "sql_write (DeleteUser ''u'') ?db = Inr db'" ..
  from mongo_deleted_user_keeps_tokens [OF _ _ _ _ this, of "''at''" ?t "empty_mongo\<lparr>mg_tokens := [?t]\<rparr>" 0] show ?thesis
    by (intro exI [of _ ?t]) (auto simp: get_token_by_access_token_def)
qed

end
