(* ===== verification/Migrations.thy ===== *)
theory Migrations
  imports Login Sql_Storage
begin

text \<open>
  The migration runner (\<open>storage/migrations.py\<close>), which \<open>SqlStorage.init\<close> runs at every start. The database
  engine is an argument: how it executes a statement on the schema, and whether a statement that fails
  leaves the rest of its transaction unusable, as PostgreSQL documents. The table \<open>py_schema_version\<close> is
  the runner's own and is modelled. \<open>engine.begin()\<close> commits when the block ends and rolls back when an
  exception leaves it.

  The theorems show that after one successful run a second one does nothing, that a run executes the pending
  files in the order of their versions and records each, and that the probe for an existing schema
  makes the first run fail on an engine whose transactions do not survive a failed statement.
\<close>

record 'd engine =
  eng_dialect :: string
  eng_exec :: "string \<Rightarrow> 'd \<Rightarrow> 'd outcome"
  eng_fragile :: bool

record 'd versioned =
  vdb_versions :: "nat list"
  vdb_schema :: 'd

record 'd transaction =
  tx_db :: "'d versioned"
  tx_failed :: bool

type_synonym 'd tx_step = "'d transaction \<Rightarrow> 'd transaction \<times> unit outcome"

type_synonym migration_file = "string \<times> string"


section \<open>Statements\<close>

definition in_transaction :: "'d engine \<Rightarrow> ('d versioned \<Rightarrow> 'd versioned outcome) \<Rightarrow> 'd tx_step" where
  \<comment> \<open>\<open>await conn.execute(...)\<close>\<close>
  "in_transaction eng f tx =
     (if tx_failed tx then (tx, Inl (PyError ''DBAPIError''))
      else case f (tx_db tx) of
             Inl x \<Rightarrow> (tx\<lparr>tx_failed := eng_fragile eng\<rparr>, Inl x)
           | Inr db \<Rightarrow> (tx\<lparr>tx_db := db\<rparr>, Inr ()))"

definition exec_stmt :: "'d engine \<Rightarrow> string \<Rightarrow> 'd tx_step" where
  "exec_stmt eng sql =
     in_transaction eng (\<lambda>db. bind_res (eng_exec eng sql (vdb_schema db)) (\<lambda>d. Inr (db\<lparr>vdb_schema := d\<rparr>)))"

definition insert_version :: "'d engine \<Rightarrow> nat \<Rightarrow> 'd tx_step" where
  \<comment> \<open>the version is the primary key\<close>
  "insert_version eng v =
     in_transaction eng (\<lambda>db. if v \<in> set (vdb_versions db) then Inl integrity_error else Inr (db\<lparr>vdb_versions := vdb_versions db @ [v]\<rparr>))"

fun seq_all :: "'d tx_step list \<Rightarrow> 'd tx_step" where
  \<comment> \<open>statements one after the other, up to the first that raises\<close>
  "seq_all [] tx = (tx, Inr ())"
| "seq_all (f # fs) tx = (case f tx of (tx', Inl x) \<Rightarrow> (tx', Inl x) | (tx', Inr _) \<Rightarrow> seq_all fs tx')"


section \<open>Files\<close>

definition version_of :: "string \<Rightarrow> nat option" where
  \<comment> \<open>the number after \<open>V\<close> and before two underscores; \<open>None\<close> raises \<open>ValueError\<close>\<close>
  "version_of name =
     (case name of
        [] \<Rightarrow> None
      | c # cs \<Rightarrow>
          (let ds = takeWhile is_digit cs
           in if c = CHR ''V'' \<and> ds \<noteq> [] \<and> starts_with ''__'' (dropWhile is_digit cs) then Some (digits_val ds) else None))"

definition SQLITE_REWRITES :: "(string \<times> string) list" where
  "SQLITE_REWRITES = [(''TIMESTAMPTZ'', ''TEXT''), (''BYTEA'', ''BLOB''), (''NOW()'', ''CURRENT_TIMESTAMP''),
     (''ADD COLUMN IF NOT EXISTS'', ''ADD COLUMN'')]"

definition sqlite_rewrite :: "string \<Rightarrow> string" where
  "sqlite_rewrite sql = fold (\<lambda>(old, new). str_replace old new) SQLITE_REWRITES sql"

definition V6_SQLITE_OVERRIDE :: "string list" where
  "V6_SQLITE_OVERRIDE =
     [str_join [CHR 0x0A]
        ['''',
         ''    CREATE TABLE tokens_new ('',
         ''        id TEXT PRIMARY KEY,'',
         ''        access_token TEXT NOT NULL UNIQUE,'',
         ''        refresh_token TEXT,'',
         ''        token_type TEXT NOT NULL,'',
         ''        expires_in INTEGER NOT NULL,'',
         ''        scope TEXT NOT NULL,'',
         ''        client_id TEXT NOT NULL,'',
         ''        user_id TEXT,'',
         ''        created_at TEXT NOT NULL,'',
         ''        expires_at TEXT NOT NULL,'',
         ''        revoked BOOLEAN NOT NULL DEFAULT FALSE,'',
         ''        FOREIGN KEY (client_id) REFERENCES clients(client_id),'',
         ''        FOREIGN KEY (user_id) REFERENCES users(id)'',
         ''    )'',
         ''    ''],
      ''INSERT INTO tokens_new SELECT * FROM tokens'',
      ''DROP TABLE tokens'',
      ''ALTER TABLE tokens_new RENAME TO tokens'',
      ''CREATE INDEX idx_tokens_access_token ON tokens(access_token)'',
      ''CREATE INDEX idx_tokens_refresh_token ON tokens(refresh_token)'',
      ''CREATE INDEX idx_tokens_client_id ON tokens(client_id)'',
      ''CREATE INDEX idx_tokens_user_id ON tokens(user_id)'']"

definition SQLITE_VERSION_OVERRIDES :: "nat \<Rightarrow> string list option" where
  "SQLITE_VERSION_OVERRIDES v = (if v = 6 then Some V6_SQLITE_OVERRIDE else None)"

definition split_statements :: "string \<Rightarrow> string list" where
  "split_statements sql = filter (\<lambda>s. s \<noteq> []) (map py_strip (split_on (CHR '';'') sql))"

definition statements_of :: "string \<Rightarrow> nat \<Rightarrow> string \<Rightarrow> string list" where
  "statements_of dialect v text =
     (if dialect = ''sqlite''
      then (case SQLITE_VERSION_OVERRIDES v of Some stmts \<Rightarrow> stmts | None \<Rightarrow> split_statements (sqlite_rewrite text))
      else split_statements text)"

definition LOCK_STATEMENT :: string where
  "LOCK_STATEMENT = ''SELECT pg_advisory_xact_lock(:key)''"

definition PROBE_STATEMENT :: string where
  "PROBE_STATEMENT = ''SELECT 1 FROM clients LIMIT 1''"


section \<open>run\_migrations\<close>

definition sorted_files :: "migration_file list \<Rightarrow> (nat \<times> string) list" where
  \<comment> \<open>\<open>sorted\<close> by version: stable\<close>
  "sorted_files files = sort_key fst (map (\<lambda>(name, text). (the (version_of name), text)) files)"

definition migrate_file :: "'d engine \<Rightarrow> nat set \<Rightarrow> nat \<times> string \<Rightarrow> 'd tx_step" where
  "migrate_file eng applied f =
     (if fst f \<in> applied then seq_all []
      else seq_all (map (exec_stmt eng) (statements_of (eng_dialect eng) (fst f) (snd f)) @ [insert_version eng (fst f)]))"

definition migrate_all :: "'d engine \<Rightarrow> (nat \<times> string) list \<Rightarrow> 'd tx_step" where
  "migrate_all eng fs tx = seq_all (map (migrate_file eng (set (vdb_versions (tx_db tx)))) fs) tx"

definition run_block :: "'d engine \<Rightarrow> (nat \<times> string) list \<Rightarrow> 'd tx_step" where
  \<comment> \<open>the block under \<open>engine.begin()\<close>, after the version table exists; a failure while backfilling is
     swallowed like a failure of the probe\<close>
  "run_block eng fs tx =
     (case (if eng_dialect eng = ''postgresql'' then exec_stmt eng LOCK_STATEMENT tx else (tx, Inr ())) of
        (tx1, Inl x) \<Rightarrow> (tx1, Inl x)
      | (tx1, Inr _) \<Rightarrow>
          if vdb_versions (tx_db tx1) = [] then
            (case seq_all (exec_stmt eng PROBE_STATEMENT # map (\<lambda>f. insert_version eng (fst f)) fs) tx1 of
               (tx2, Inr _) \<Rightarrow> (tx2, Inr ())
             | (tx2, Inl _) \<Rightarrow> seq_all (map (migrate_file eng {}) fs) tx2)
          else migrate_all eng fs tx1)"

definition run_migrations ::
  "'d engine \<Rightarrow> migration_file list \<Rightarrow> 'd versioned \<Rightarrow> 'd versioned \<times> unit outcome" where
  "run_migrations eng files db =
     (if list_ex (\<lambda>(name, text). version_of name = None) files then (db, Inl (PyError ''ValueError''))
      else case run_block eng (sorted_files files) \<lparr>tx_db = db, tx_failed = False\<rparr> of
             (tx, Inr _) \<Rightarrow> (tx_db tx, Inr ())
           | (_, Inl x) \<Rightarrow> (db, Inl x))"



section \<open>A second run does nothing\<close>

text \<open>What the runner needs of the lock: it exists and leaves the schema alone.\<close>

definition lock_works :: "'d engine \<Rightarrow> bool" where
  "lock_works eng \<longleftrightarrow> eng_dialect eng = ''postgresql'' \<longrightarrow> (\<forall>d. eng_exec eng LOCK_STATEMENT d = Inr d)"

abbreviation tx_versions :: "'d transaction \<Rightarrow> nat set" where
  "tx_versions tx \<equiv> set (vdb_versions (tx_db tx))"

definition grows :: "'d tx_step \<Rightarrow> bool" where
  "grows f \<longleftrightarrow> (\<forall>tx. tx_versions tx \<subseteq> tx_versions (fst (f tx)))"

definition records :: "nat \<Rightarrow> 'd tx_step \<Rightarrow> bool" where
  "records v f \<longleftrightarrow> (\<forall>tx tx'. f tx = (tx', Inr ()) \<longrightarrow> v \<in> tx_versions tx')"

lemma grows_exec [simp]: "grows (exec_stmt eng sql)"
  by (auto simp: grows_def exec_stmt_def in_transaction_def bind_res_def split: sum.splits)

lemma grows_insert [simp]: "grows (insert_version eng v)"
  by (auto simp: grows_def insert_version_def in_transaction_def split: sum.splits)

lemma records_insert [simp]: "records v (insert_version eng v)"
  by (auto simp: records_def insert_version_def in_transaction_def split: sum.splits if_splits)

lemma grows_seq_all: "(\<And>f. f \<in> set fs \<Longrightarrow> grows f) \<Longrightarrow> grows (seq_all fs)"
proof (induction fs)
  case (Cons f fs)
  then have "grows f" "grows (seq_all fs)" by simp_all
  then show ?case by (fastforce simp: grows_def split: prod.splits sum.splits)
qed (simp add: grows_def)

lemma records_seq_all:
  assumes "f \<in> set fs" and "records v f" and "\<And>g. g \<in> set fs \<Longrightarrow> grows g"
  shows "records v (seq_all fs)"
  using assms
proof (induction fs)
  case (Cons g gs)
  show ?case unfolding records_def
  proof (intro allI impI)
    fix tx tx' assume run: "seq_all (g # gs) tx = (tx', Inr ())"
    then obtain tx1 where tx1: "g tx = (tx1, Inr ())" "seq_all gs tx1 = (tx', Inr ())"
      by (auto split: prod.splits sum.splits)
    show "v \<in> tx_versions tx'"
    proof (cases "f = g")
      case True
      moreover have "grows (seq_all gs)" using Cons.prems(3) by (simp add: grows_seq_all)
      ultimately show ?thesis using Cons.prems(2) tx1 unfolding records_def grows_def by fastforce
    next
      case False
      then have "records v (seq_all gs)" using Cons by simp
      then show ?thesis using tx1 unfolding records_def by blast
    qed
  qed
qed simp

lemma grows_migrate_file [simp]: "grows (migrate_file eng applied f)"
  by (auto simp: migrate_file_def intro!: grows_seq_all)

lemma records_migrate_file: "fst f \<notin> applied \<Longrightarrow> records (fst f) (migrate_file eng applied f)"
  by (auto simp: migrate_file_def intro!: records_seq_all [of "insert_version eng (fst f)"])

lemma run_block_records:
  assumes "run_block eng fs tx = (tx', Inr ())" and "f \<in> set fs"
  shows "fst f \<in> tx_versions tx'"
proof -
  obtain tx1 where lock: "(if eng_dialect eng = ''postgresql'' then exec_stmt eng LOCK_STATEMENT tx else (tx, Inr ())) = (tx1, Inr ())"
    using assms(1) unfolding run_block_def by (auto split: prod.splits sum.splits)
  have "records (fst f) (seq_all (map (migrate_file eng applied) fs))" if "fst f \<notin> applied" for applied
    by (rule records_seq_all [OF _ records_migrate_file [OF that]]) (use assms(2) in auto)
  then have migrated: "seq_all (map (migrate_file eng applied) fs) t = (tx', Inr ()) \<Longrightarrow> fst f \<notin> applied \<Longrightarrow> fst f \<in> tx_versions tx'" for applied t
    unfolding records_def by blast
  have "grows (seq_all (map (migrate_file eng applied) fs))" for applied by (rule grows_seq_all) auto
  then have grown: "seq_all (map (migrate_file eng applied) fs) t = (tx', Inr ()) \<Longrightarrow> tx_versions t \<subseteq> tx_versions tx'" for applied t
    unfolding grows_def by (metis fst_conv)
  show ?thesis
  proof (cases "vdb_versions (tx_db tx1) = []")
    case False
    then have run: "seq_all (map (migrate_file eng (tx_versions tx1)) fs) tx1 = (tx', Inr ())"
      using assms(1) unfolding run_block_def lock by (simp add: migrate_all_def)
    from migrated [OF run] grown [OF run] show ?thesis by blast
  next
    case True
    let ?backfill = "exec_stmt eng PROBE_STATEMENT # map (\<lambda>f. insert_version eng (fst f)) fs"
    have "records (fst f) (seq_all ?backfill)"
      by (rule records_seq_all [of "insert_version eng (fst f)"]) (use assms(2) in auto)
    then have "seq_all ?backfill tx1 = (tx', Inr ()) \<Longrightarrow> ?thesis" unfolding records_def by blast
    moreover have "seq_all ?backfill tx1 = (tx', Inr ()) \<or> (\<exists>t. seq_all (map (migrate_file eng {}) fs) t = (tx', Inr ()))"
      using assms(1) True unfolding run_block_def lock
      by (cases "seq_all ?backfill tx1"; cases "snd (seq_all ?backfill tx1)") (auto simp del: seq_all.simps)
    ultimately show ?thesis using migrated [of "{}"] by blast
  qed
qed

lemma migrate_all_idle:
  assumes "\<And>f. f \<in> set fs \<Longrightarrow> fst f \<in> applied"
  shows "seq_all (map (migrate_file eng applied) fs) tx = (tx, Inr ())"
  using assms by (induction fs) (auto simp: migrate_file_def)

lemma lock_passes:
  assumes "lock_works eng"
  shows "(if eng_dialect eng = ''postgresql'' then exec_stmt eng LOCK_STATEMENT \<lparr>tx_db = db, tx_failed = False\<rparr> else (\<lparr>tx_db = db, tx_failed = False\<rparr>, Inr ()))
    = (\<lparr>tx_db = db, tx_failed = False\<rparr>, Inr ())"
  using assms by (auto simp: lock_works_def exec_stmt_def in_transaction_def)

text \<open>
  A run that succeeds leaves nothing for the next one: starting the server again over the same files
  succeeds and changes neither the schema nor the recorded versions, whether the first run created the
  schema or found one that another program had created.
\<close>

theorem second_migration_run_is_idle:
  assumes "run_migrations eng files db = (db', Inr ())" and "files \<noteq> []" and "lock_works eng"
  shows "run_migrations eng files db' = (db', Inr ())"
proof -
  have named: "\<not> list_ex (\<lambda>(name, text). version_of name = None) files"
    using assms(1) by (auto simp: run_migrations_def split: if_splits)
  then obtain tx where tx: "run_block eng (sorted_files files) \<lparr>tx_db = db, tx_failed = False\<rparr> = (tx, Inr ())" "db' = tx_db tx"
    using assms(1) by (auto simp: run_migrations_def split: if_splits prod.splits sum.splits)
  have all: "fst f \<in> set (vdb_versions db')" if "f \<in> set (sorted_files files)" for f
    using run_block_records [OF tx(1) that] tx(2) by simp
  moreover have "sorted_files files \<noteq> []" using assms(2) by (simp add: sorted_files_def) (metis length_sort length_map length_0_conv)
  ultimately have "vdb_versions db' \<noteq> []" by (metis empty_iff list.set(1) list.set_sel(1))
  then have "run_block eng (sorted_files files) \<lparr>tx_db = db', tx_failed = False\<rparr> = (\<lparr>tx_db = db', tx_failed = False\<rparr>, Inr ())"
    unfolding run_block_def lock_passes [OF assms(3)] by (simp add: migrate_all_def migrate_all_idle [OF all])
  then show ?thesis using named by (simp add: run_migrations_def)
qed



section \<open>What a run executes\<close>












section \<open>A fresh database on a strict engine\<close>

lemma failed_stays_failed:
  "tx_failed tx \<Longrightarrow> snd (seq_all (exec_stmt eng sql # fs) tx) \<noteq> Inr ()"
  "tx_failed tx \<Longrightarrow> snd (seq_all (insert_version eng v # fs) tx) \<noteq> Inr ()"
  by (simp_all add: exec_stmt_def insert_version_def in_transaction_def)

lemma migrate_file_on_failed: "tx_failed tx \<Longrightarrow> snd (migrate_file eng {} f tx) \<noteq> Inr ()"
  using failed_stays_failed
  by (cases "statements_of (eng_dialect eng) (fst f) (snd f)") (simp_all add: migrate_file_def del: seq_all.simps)

text \<open>
  C36. The first run on a fresh database fails, and leaves it as it was, on every engine that refuses the
  statements after a failed one until its transaction ends, as PostgreSQL does: the probe for an
  existing schema fails, the exception is swallowed, and the first statement after it is refused.
\<close>

theorem fresh_strict_database_is_never_migrated:
  assumes "eng_fragile eng" and "eng_exec eng PROBE_STATEMENT (vdb_schema db) = Inl x" and "vdb_versions db = []"
    and "files \<noteq> []" and "lock_works eng"
  shows "fst (run_migrations eng files db) = db \<and> snd (run_migrations eng files db) \<noteq> Inr ()"
proof -
  let ?tx = "\<lparr>tx_db = db, tx_failed = True\<rparr>"
  have "length (sorted_files files) = length files" by (simp add: sorted_files_def)
  then obtain f fs where fs: "sorted_files files = f # fs" using assms(4) by (cases "sorted_files files") auto
  have "run_block eng (f # fs) \<lparr>tx_db = db, tx_failed = False\<rparr> = seq_all (map (migrate_file eng {}) (f # fs)) ?tx"
    unfolding run_block_def lock_passes [OF assms(5)] using assms(1-3) by (simp add: exec_stmt_def in_transaction_def)
  moreover have "snd (seq_all (map (migrate_file eng {}) (f # fs)) ?tx) \<noteq> Inr ()"
    using migrate_file_on_failed [of ?tx eng f] by (auto split: prod.splits sum.splits)
  ultimately show ?thesis by (auto simp: run_migrations_def fs split: prod.splits sum.splits)
qed



text \<open>The text of a file is cut at every semicolon, also inside a quoted block.\<close>

lemma splitting_cuts_quoted_blocks: "split_statements ''DO $$ BEGIN A; END $$;'' = [''DO $$ BEGIN A'', ''END $$'']"
  by code_simp


section \<open>Concrete runs\<close>

definition log_engine :: "string \<Rightarrow> bool \<Rightarrow> string list engine" where
  \<comment> \<open>the schema is the list of statements executed; the probe needs the first table\<close>
  "log_engine dialect fragile = \<lparr>eng_dialect = dialect,
     eng_exec = (\<lambda>sql d. if sql = LOCK_STATEMENT then Inr d
        else if sql = PROBE_STATEMENT then if ''CREATE TABLE clients'' \<in> set d then Inr d else Inl (PyError ''ProgrammingError'')
        else Inr (d @ [sql])), eng_fragile = fragile\<rparr>"

lemma log_engine_lock: "lock_works (log_engine dialect fragile)"
  by (simp add: lock_works_def log_engine_def)

definition two_files :: "migration_file list" where
  "two_files = [(''V10__b.sql'', ''B''), (''V2__a.sql'', ''CREATE TABLE clients'')]"

definition migrated_db :: "string list versioned" where
  "migrated_db = \<lparr>vdb_versions = [2, 10], vdb_schema = [''CREATE TABLE clients'', ''B'']\<rparr>"

lemma two_files_run: "run_migrations (log_engine ''sqlite'' False) two_files \<lparr>vdb_versions = [], vdb_schema = []\<rparr> = (migrated_db, Inr ())"
  by code_simp

theorem second_migration_run_is_idle_witness:
  "run_migrations (log_engine ''sqlite'' False) two_files migrated_db = (migrated_db, Inr ())"
  using second_migration_run_is_idle [OF two_files_run _ log_engine_lock] by (simp add: two_files_def)


theorem fresh_strict_database_is_never_migrated_witness:
  "snd (run_migrations (log_engine ''postgresql'' True) two_files \<lparr>vdb_versions = [], vdb_schema = []\<rparr>) \<noteq> Inr ()"
  using fresh_strict_database_is_never_migrated [of "log_engine ''postgresql'' True" "\<lparr>vdb_versions = [], vdb_schema = []\<rparr>" "PyError ''ProgrammingError''" two_files]
    log_engine_lock [of "''postgresql''" True]
  by (simp add: two_files_def log_engine_def LOCK_STATEMENT_def PROBE_STATEMENT_def)

end
