(* ===== verification/Spec2Isabelle.thy ===== *)
theory Spec2Isabelle
  imports Par_Store Replay_Guards Device_Poll Rate_Limits Token_Bucket Resilience Storage_Runs Client_Auth Dpop Jwt_Bearer Token_Replay
    Introspect Par_Route Device_Flow Social Logout Admin_Api Wellknown Middleware Mongo_Storage Migrations Startup
begin

text \<open>
  \<^bold>\<open>An OAuth 2.0 and OpenID Connect authorization server.\<close>

  This library models the server under \<open>src/src/oauth2_server\<close> and proves what it promises. The
  program is a Python web application: HTTP handlers (\<open>routes/\<close>) call services (\<open>services/\<close>), which
  keep their state either in a storage backend (\<open>storage/\<close>) or in objects on the application state
  (\<open>app.py\<close>: replay stores, rate limiters, pushed requests, signing keys). Each handler is a function
  from the server's parameters, an environment, a request and the application state to a new state
  and a response, so the definitions compose the way the calls do.

  \<^bold>\<open>Conventions.\<close> Exceptions are values: \<open>exc\<close> is an \<open>OAuthError\<close> or the name of another Python
  exception, an \<open>outcome\<close> is either an exception or a result, and a handler that lets an exception
  through answers \<open>Inl\<close> (a 500 page). Time is an argument: \<open>env_now\<close> in microseconds, \<open>env_mono\<close> the
  monotonic clock; so are random draws (\<open>env_uuid\<close>, \<open>env_urlsafe\<close>), numbered in the order in which the
  code makes them. Strings are lists of the 256 characters below U+0100; \<open>wide_char\<close> stands for anything
  the code produces above that. Floats that only carry times and token counts are exact rationals. A
  coroutine runs atomically between two suspension points; where a check and a write are separated by
  one, they are separate definitions (\<open>authorization_code_check\<close>, \<open>authorization_code_commit\<close>), and the
  theorems about races interleave arbitrary storage operations between them.

  \<^bold>\<open>Parameters.\<close> Code that is not part of the repository is an argument: \<open>jwt_lib\<close> bundles the operations
  of PyJWT and of the cryptography package with the laws the theorems name, \<open>http_get\<close> is the outgoing
  network, \<open>sv_hash_password\<close> the password hasher, and \<open>mk_claims\<close> the validation of a payload by pydantic.
  SHA-256, HMAC, base64, UTF-8, JSON and URL splitting are standard-library code and are modelled.

  \<^bold>\<open>Foundations.\<close>
  \<^item> \<open>Prelude\<close>: string methods, dictionaries as association lists with their sweep, shared lemmas.
  \<^item> \<open>Bytes\<close>, \<open>Json\<close>, \<open>Urls\<close>, \<open>Url_Encoding\<close>: the parts of the standard library the code uses. JSON scanning
    runs on fuel, the length of the input; \<open>Json.scan_fuel_enough\<close> shows that it always suffices. The locale
    \<open>url_quoting\<close> proves once that what a quoting function writes is read back, for both of Python's.
  \<^item> \<open>Errors\<close> (\<open>errors.py\<close>), \<open>Models\<close> (\<open>models.py\<close>), \<open>App_State\<close> (the state of \<open>app.py\<close>, the configuration,
    event emission, \<open>services/mtls.py\<close>, \<open>services/jwks_cache.py\<close>, the subject denylist of \<open>middleware.py\<close>).

  \<^bold>\<open>In-memory services.\<close> Each is a small state machine over a dictionary with expiring entries; each is
  proved against a specification that keeps the whole history, so the sweeps are shown to be invisible.
  \<^item> \<open>Par_Store\<close> (\<open>services/par.py\<close>), \<open>Replay_Guards\<close> (\<open>DpopReplayStore\<close>, \<open>JtiReplayGuard\<close>; one locale, two
    interpretations), \<open>Device_Poll\<close> (\<open>services/device_poll.py\<close>), \<open>Rate_Limits\<close> (\<open>services/ratelimit.py\<close>),
    \<open>Token_Bucket\<close> (\<open>services/limiter.py\<close>), \<open>Resilience\<close> (\<open>services/resilience.py\<close>), \<open>Keys\<close> (\<open>keys.py\<close>).

  \<^bold>\<open>Storage.\<close> \<open>Sql_Storage\<close> models every query and write of \<open>storage/sql.py\<close> as SQL on lists of rows, with
  unique and foreign keys; \<open>Storage_Runs\<close> considers arbitrary sequences of these operations and shows
  which facts survive them: uniqueness, revocation, and the single claim of a code.

  \<^bold>\<open>Requests.\<close>
  \<^item> \<open>Request_Limits\<close> (\<open>services/limits.py\<close>, \<open>rar.py\<close>, \<open>resource.py\<close>), \<open>Client_Auth\<close> (\<open>services/clients.py\<close>,
    \<open>client_assertion.py\<close>), \<open>Dpop\<close> (\<open>services/dpop.py\<close>, \<open>dpop_nonce.py\<close>), \<open>Jwt_Bearer\<close> (\<open>services/jwt_bearer_grant.py\<close>),
    \<open>Jar\<close> (\<open>services/jar.py\<close>): what a request has to show before it is trusted. Each has a soundness theorem
    that lists what holds of an accepted request, and the single-use theorems compose them with the guards.
  \<^item> \<open>Token_Service\<close> (\<open>security.py\<close>, \<open>services/tokens.py\<close>, \<open>auth.py\<close>, \<open>id_token.py\<close>, \<open>claims_request.py\<close>): what is issued.

  \<^bold>\<open>Endpoints.\<close>
  \<^item> \<open>Token_Endpoint\<close> (\<open>routes/token.py\<close>, all six grants); \<open>Token_Grants\<close> proves that every stored token was
    justified by a credential of its client, \<open>Token_Replay\<close> the replay defences, their one race, and that an
    honest code exchange succeeds.
  \<^item> \<open>Sessions\<close>, \<open>Authorize_Response\<close>, \<open>Authorize\<close> (\<open>routes/authorize.py\<close>); \<open>Authorize_Facts\<close> proves where it
    redirects, on what a code is based, and that a forced login happens once.
  \<^item> \<open>Introspect\<close> (\<open>routes/introspect.py\<close>), \<open>Par_Route\<close> (\<open>routes/par.py\<close>), \<open>Device_Flow\<close> (\<open>routes/device.py\<close>).
  \<^item> \<open>Login\<close> (\<open>routes/login.py\<close>), \<open>Social_Breaker\<close> and \<open>Social\<close> (\<open>services/social.py\<close>, \<open>routes/social.py\<close>),
    \<open>Logout\<close> (\<open>routes/logout.py\<close>): how a browser session starts and ends. Their theorems say which account a
    session may belong to, how many passwords can be tried, and where a logout redirects.
  \<^item> \<open>Jwks_Uri\<close> and \<open>Register\<close> (\<open>routes/register.py\<close>): which metadata a client may register; every stored row
    passed the checks, and the credentials returned authenticate the client that was stored.
  \<^item> \<open>Event_Bus\<close> (\<open>services/events.py\<close>, \<open>services/events_bus.py\<close>) and \<open>Events_Route\<close> (\<open>routes/events.py\<close>): envelopes,
    filters, plugins and the asynchronous fan-out; the bounded logger refines the list of admitted events.
  \<^item> \<open>Admin_Guard\<close>, \<open>Admin_Users\<close>, \<open>Admin_Clients\<close>, \<open>Admin_Api\<close> (\<open>routes/admin/\<close>, \<open>services/audit.py\<close>): every handler
    behind the guard. A change has an authorized author and an audit entry, and no handler leaves a
    client without the key material its method needs.
  \<^item> \<open>Wellknown\<close> (\<open>routes/wellknown.py\<close>): discovery, published keys and userinfo. The key that signs id tokens is
    always published, and userinfo answers only the holder of a live token.

  \<^bold>\<open>Around the endpoints.\<close>
  \<^item> \<open>Middleware\<close> (\<open>middleware.py\<close>, \<open>middleware_ratelimit.py\<close>, the order of \<open>app.py\<close>): arrival and departure of a
    request are two steps, so requests overlap; the reachable states of the resilience layer are an
    inductive relation, over which recovery is proved, and the one way it is lost, a cancelled probe.
  \<^item> \<open>Mongo_Storage\<close> (\<open>storage/mongo.py\<close>): the second backend, a refinement of the first for all runs of
    writes in the shared contract; it interprets the locale of \<open>Storage_Runs\<close> for single claims.
  \<^item> \<open>Migrations\<close> (\<open>storage/migrations.py\<close>): the runner over an arbitrary engine. A run equals the execution of
    the pending files in version order, a second run is idle, and the first one fails on PostgreSQL.
  \<^item> \<open>Startup\<close> (\<open>config.py\<close>, \<open>conformance.py\<close>, \<open>bootstrap.py\<close>, \<open>storage/factory.py\<close>, \<open>app.build\<close>, \<open>routes/system.py\<close>):
    when a server starts, with which accounts and keys.

  \<^bold>\<open>Not modelled.\<close> Password hashing, the JWT library, pydantic's validation of bodies and settings, the YAML loader, the
  regular-expression engine of MongoDB and SQLAlchemy's URL parser are third-party code and parameters.
  \<open>services/metrics.py\<close> and \<open>telemetry.py\<close> configure the collectors of third-party libraries,
  \<open>storage/base.py\<close> declares types, \<open>__main__.py\<close> starts the process, and the index creation and timestamp
  repair of \<open>storage/mongo.py\<close> are input/output against a live database. Routing, CORS, signed session
  cookies and HTTP parsing belong to the framework.
\<close>

end
